(* ===== verification/Prelude.thy ===== *)
theory Prelude
  imports Main "HOL-Library.Word" "HOL-Library.Sublist"
begin

text \<open>
  Shared vocabulary of the development: the names of the basic types, the named collections the
  component proofs use, Go strings as byte lists with the standard-library functions the source
  calls on them (\<^verbatim>\<open>strings.TrimSpace\<close>, \<^verbatim>\<open>strings.ToUpper\<close>, \<^verbatim>\<open>strings.Join\<close>,
  \<^verbatim>\<open>fmt.Sprintf\<close> of decimal numbers), and generic lemmas on lists and sums.

  A Go string is a sequence of bytes, so it is a HOL \<^typ>\<open>string\<close>: \<^verbatim>\<open>len(s)\<close> is \<^term>\<open>length s\<close>.
  Case mapping of non-ASCII text, the check of ISO 4217 codes, the printing of UUIDs, the
  case-insensitive pattern match and the text order of the database are tables of third-party or
  generated data; they are fields of the record \<open>ext\<close>, a parameter of the definitions that use
  them.
\<close>

named_theorems status_defs
named_theorems model_defs
named_theorems guard_simps

type_synonym uuid = "128 word"

abbreviation uuid_Nil :: uuid where
  "uuid_Nil \<equiv> 0"

subsection \<open>Results\<close>

type_synonym ('e, 'a) result = "'e + 'a"

fun bind_result :: "('e, 'a) result \<Rightarrow> ('a \<Rightarrow> ('e, 'b) result) \<Rightarrow> ('e, 'b) result" where
  "bind_result (Inl e) f = Inl e"
| "bind_result (Inr a) f = f a"

lemma bind_result_Inr_iff:
  "bind_result r f = Inr b \<longleftrightarrow> (\<exists>a. r = Inr a \<and> f a = Inr b)"
  by (cases r) auto

lemma bind_result_Inl_iff:
  "bind_result r f = Inl e \<longleftrightarrow> r = Inl e \<or> (\<exists>a. r = Inr a \<and> f a = Inl e)"
  by (cases r) auto

text \<open>A Go function of result type \<^verbatim>\<open>error\<close> returns \<^term>\<open>None\<close> for \<^verbatim>\<open>nil\<close>. Checks run in
  sequence and the first error is returned.\<close>

fun first_error :: "'e option list \<Rightarrow> 'e option" where
  "first_error [] = None"
| "first_error (Some e # cs) = Some e"
| "first_error (None # cs) = first_error cs"

lemma first_error_None_iff [simp]:
  "first_error cs = None \<longleftrightarrow> (\<forall>c \<in> set cs. c = None)"
  by (induction cs rule: first_error.induct) auto

lemma distinct_map_neq: "distinct (map f (x # xs)) \<Longrightarrow> y \<in> set xs \<Longrightarrow> f y \<noteq> f x"
  by (metis distinct.simps(2) image_eqI list.set_map list.simps(9))

subsection \<open>Strings\<close>

definition byte :: "nat \<Rightarrow> char" where
  "byte n = char_of n"

text \<open>The UTF-8 encodings of the code points of \<^verbatim>\<open>unicode.IsSpace\<close>.\<close>

definition space_encodings :: "string list" where
  "space_encodings =
     [[byte 9], [byte 10], [byte 11], [byte 12], [byte 13], [byte 32],
      [byte 194, byte 133], [byte 194, byte 160], [byte 225, byte 154, byte 128]]
     @ map (\<lambda>k. [byte 226, byte 128, byte (128 + k)]) [0..<11]
     @ [[byte 226, byte 128, byte 168], [byte 226, byte 128, byte 169],
        [byte 226, byte 128, byte 175], [byte 226, byte 129, byte 159],
        [byte 227, byte 128, byte 128]]"

function strip :: "string list \<Rightarrow> string \<Rightarrow> string" where
  "strip encs s =
     (case find (\<lambda>p. p \<noteq> [] \<and> prefix p s) encs of
        None \<Rightarrow> s
      | Some p \<Rightarrow> strip encs (drop (length p) s))"
  by pat_completeness auto
termination
  by (relation "measure (\<lambda>(encs, s). length s)")
    (auto simp: find_Some_iff prefix_def)

declare strip.simps [simp del]

lemma strip_no_prefix:
  "p \<in> set encs \<Longrightarrow> p \<noteq> [] \<Longrightarrow> \<not> prefix p (strip encs s)"
proof (induction encs s rule: strip.induct)
  case (1 encs s)
  show ?case
  proof (cases "find (\<lambda>p. p \<noteq> [] \<and> prefix p s) encs")
    case None
    then have "strip encs s = s"
      by (simp add: strip.simps [of encs s])
    with None 1 show ?thesis
      by (auto simp: find_None_iff)
  next
    case (Some q)
    then show ?thesis
      using 1 by (simp add: strip.simps [of encs s])
  qed
qed

lemma strip_id:
  assumes "\<And>p. p \<in> set encs \<Longrightarrow> p \<noteq> [] \<Longrightarrow> \<not> prefix p s"
  shows "strip encs s = s"
proof -
  have "find (\<lambda>p. p \<noteq> [] \<and> prefix p s) encs = None"
    using assms by (auto simp: find_None_iff)
  then show ?thesis
    by (simp add: strip.simps)
qed

lemma strip_suffix: "suffix (strip encs s) s"
proof (induction encs s rule: strip.induct)
  case (1 encs s)
  show ?case
  proof (cases "find (\<lambda>p. p \<noteq> [] \<and> prefix p s) encs")
    case None
    then show ?thesis
      by (simp add: strip.simps [of encs s])
  next
    case (Some q)
    then have "suffix (strip encs s) (drop (length q) s)"
      using 1 by (simp add: strip.simps [of encs s])
    then show ?thesis
      by (meson suffix_drop suffix_order.trans)
  qed
qed

definition TrimSpace :: "string \<Rightarrow> string" where
  "TrimSpace s =
     rev (strip (map rev space_encodings) (rev (strip space_encodings s)))"

lemma TrimSpace_prefix_strip:
  "prefix (TrimSpace s) (strip space_encodings s)"
  using strip_suffix [of "map rev space_encodings" "rev (strip space_encodings s)"]
  by (simp add: TrimSpace_def suffix_to_prefix)

lemma TrimSpace_idem [simp]: "TrimSpace (TrimSpace s) = TrimSpace s"
proof -
  have l: "strip space_encodings (TrimSpace s) = TrimSpace s"
    by (rule strip_id)
      (meson TrimSpace_prefix_strip prefix_order.trans strip_no_prefix)
  have r: "strip (map rev space_encodings) (rev (TrimSpace s)) = rev (TrimSpace s)"
    by (rule strip_id) (simp add: TrimSpace_def strip_no_prefix)
  show ?thesis
    unfolding TrimSpace_def [of "TrimSpace s"] l r by simp
qed

text \<open>A string that begins and ends with a visible ASCII byte has no space to trim.\<close>

lemma strip_hd:
  assumes "s \<noteq> []" "\<And>p. p \<in> set encs \<Longrightarrow> p \<noteq> [] \<Longrightarrow> hd p \<noteq> hd s"
  shows "strip encs s = s"
  by (rule strip_id) (metis assms(2) hd_append2 prefix_def)

lemma TrimSpace_text:
  assumes "s \<noteq> []" "(of_char (hd s) :: nat) \<in> {33..127}" "(of_char (last s) :: nat) \<in> {33..127}"
  shows "TrimSpace s = s"
proof -
  have e: "\<forall>p \<in> set space_encodings. p \<noteq> [] \<and> (of_char (hd p) :: nat) \<notin> {33..127}
      \<and> (of_char (last p) :: nat) \<notin> {33..127}"
    by (simp add: space_encodings_def byte_def)
  have l: "strip space_encodings s = s"
    by (rule strip_hd [OF assms(1)]) (use e assms(2) in metis)
  have r: "strip (map rev space_encodings) (rev s) = rev s"
    by (rule strip_hd) (use e assms(1,3) in \<open>auto simp: hd_rev\<close>)
  show ?thesis by (simp add: TrimSpace_def l r)
qed

lemma TrimSpace_length: "length (TrimSpace s) \<le> length s"
proof -
  have "length (TrimSpace s) \<le> length (strip space_encodings s)"
    by (rule prefix_length_le [OF TrimSpace_prefix_strip])
  also have "\<dots> \<le> length s"
    by (rule suffix_length_le [OF strip_suffix])
  finally show ?thesis .
qed

text \<open>ASCII case mapping. \<^verbatim>\<open>strings.ToUpper\<close> and \<^verbatim>\<open>strings.ToLower\<close> take this path for strings
  of ASCII bytes only; for others they use the Unicode tables, which are the parameter below.\<close>

definition isASCII :: "string \<Rightarrow> bool" where
  "isASCII s = list_all (\<lambda>c. of_char c < (128::nat)) s"

definition upper_char :: "char \<Rightarrow> char" where
  "upper_char c = (let n = (of_char c :: nat) in if 97 \<le> n \<and> n \<le> 122 then byte (n - 32) else c)"

definition lower_char :: "char \<Rightarrow> char" where
  "lower_char c = (let n = (of_char c :: nat) in if 65 \<le> n \<and> n \<le> 90 then byte (n + 32) else c)"

record ext =
  x_unicode_upper :: "string \<Rightarrow> string"
  x_unicode_lower :: "string \<Rightarrow> string"
  x_parse_iso :: "string \<Rightarrow> bool"
  x_uuid_string :: "uuid \<Rightarrow> string"
  x_ilike :: "string \<Rightarrow> string \<Rightarrow> bool"
  x_collate :: "string \<Rightarrow> string \<Rightarrow> bool"

definition ToUpper :: "ext \<Rightarrow> string \<Rightarrow> string" where
  "ToUpper X s = (if isASCII s then map upper_char s else x_unicode_upper X s)"

definition ToLower :: "ext \<Rightarrow> string \<Rightarrow> string" where
  "ToLower X s = (if isASCII s then map lower_char s else x_unicode_lower X s)"

fun join_strings :: "string \<Rightarrow> string list \<Rightarrow> string" where
  "join_strings sep [] = []"
| "join_strings sep [s] = s"
| "join_strings sep (s # ss) = s @ sep @ join_strings sep ss"

subsection \<open>Decimal numbers in text\<close>

definition digit :: "nat \<Rightarrow> char" where
  "digit d = byte (48 + d)"

fun nat_digits :: "nat \<Rightarrow> string" where
  "nat_digits n = (if n < 10 then [digit n] else nat_digits (n div 10) @ [digit (n mod 10)])"

declare nat_digits.simps [simp del]

definition pad_left :: "nat \<Rightarrow> string \<Rightarrow> string" where
  "pad_left w s = replicate (w - length s) (digit 0) @ s"

text \<open>\<^verbatim>\<open>%d\<close> and the zero-padded widths of \<^verbatim>\<open>%02d\<close> and of the layouts \<^verbatim>\<open>2006\<close>, \<^verbatim>\<open>01\<close>, \<^verbatim>\<open>02\<close>;
  for a negative number the sign comes first and the padding applies to the digits.\<close>

definition show_int :: "int \<Rightarrow> string" where
  "show_int i = (if i < 0 then ''-'' @ nat_digits (nat (- i)) else nat_digits (nat i))"

definition show_pad :: "nat \<Rightarrow> int \<Rightarrow> string" where
  "show_pad w i = (if i < 0 then ''-'' @ pad_left w (nat_digits (nat (- i)))
                   else pad_left w (nat_digits (nat i)))"

fun digits_val :: "nat \<Rightarrow> string \<Rightarrow> nat" where
  "digits_val acc [] = acc"
| "digits_val acc (c # cs) = digits_val (10 * acc + (of_char c - 48)) cs"

lemma of_char_digit [simp]: "d < 10 \<Longrightarrow> (of_char (digit d) :: nat) = 48 + d"
  by (simp add: digit_def byte_def)

lemma digits_val_append: "digits_val acc (s @ t) = digits_val (digits_val acc s) t"
  by (induction s arbitrary: acc) auto

lemma digits_val_nat_digits [simp]: "digits_val 0 (nat_digits n) = n"
proof (induction n rule: nat_digits.induct)
  case (1 n)
  show ?case
  proof (cases "n < 10")
    case True
    then show ?thesis by (simp add: nat_digits.simps [of n])
  next
    case False
    then have "digits_val 0 (nat_digits (n div 10)) = n div 10" by (rule 1)
    with False show ?thesis
      by (simp add: nat_digits.simps [of n] digits_val_append)
  qed
qed

lemma digits_val_zeros [simp]: "digits_val 0 (replicate k (digit 0) @ s) = digits_val 0 s"
  by (induction k) auto

lemma digits_val_pad [simp]: "digits_val 0 (pad_left w s) = digits_val 0 s"
  by (simp add: pad_left_def)

lemma nat_digits_inj: "nat_digits a = nat_digits b \<longleftrightarrow> a = b"
  by (metis digits_val_nat_digits)

lemma pad_left_digits_inj:
  "pad_left w (nat_digits a) = pad_left w (nat_digits b) \<longleftrightarrow> a = b"
  by (metis digits_val_nat_digits digits_val_pad)

lemma nat_digits_not_empty [simp]: "nat_digits n \<noteq> []"
  by (simp add: nat_digits.simps [of n])

lemma nat_digits_chars: "c \<in> set (nat_digits n) \<Longrightarrow> \<exists>d < 10. c = digit d"
proof (induction n rule: nat_digits.induct)
  case (1 n)
  show ?case
  proof (cases "n < 10")
    case True
    with 1 show ?thesis by (auto simp: nat_digits.simps [of n])
  next
    case False
    have last: "\<exists>d < 10. digit (n mod 10) = digit d"
      by (rule exI [of _ "n mod 10"]) simp
    from 1 False last show ?thesis by (auto simp: nat_digits.simps [of n])
  qed
qed

lemma digit_neq_minus: "d < 10 \<Longrightarrow> digit d \<noteq> CHR ''-''"
proof
  assume d: "d < 10" and eq: "digit d = CHR ''-''"
  have "(of_char (digit d) :: nat) = 48 + d" using d by (rule of_char_digit)
  moreover have "(of_char (CHR ''-'') :: nat) = 45" by simp
  ultimately show False using eq by simp
qed

end
