(* ===== verification/Statuses.thy ===== *)
theory Statuses
  imports Prelude
begin

text \<open>
  The lifecycle statuses of rules and limits (\<^verbatim>\<open>pkg/model/rule_status.go\<close>,
  \<^verbatim>\<open>pkg/model/rule.go\<close>, \<^verbatim>\<open>pkg/model/limit.go\<close>). A Go enumeration is a string type with
  named constants; the model has one constructor per constant and one for every other string, so
  that the \<^verbatim>\<open>IsValid\<close> checks and the lookups of an absent key in the transition table are
  branches of the definitions. The two transition tables are separate in the source and separate
  here; the locale \<open>status_machine\<close> states what they have in common and is interpreted on both.
\<close>

datatype RuleStatus =
    RuleStatusDraft
  | RuleStatusActive
  | RuleStatusInactive
  | RuleStatusDeleted
  | RuleStatusOther string

datatype LimitStatus =
    LimitStatusDraft
  | LimitStatusActive
  | LimitStatusInactive
  | LimitStatusDeleted
  | LimitStatusOther string

fun RuleStatus_IsValid :: "RuleStatus \<Rightarrow> bool" where
  "RuleStatus_IsValid (RuleStatusOther s) = False"
| "RuleStatus_IsValid s = True"

fun LimitStatus_IsValid :: "LimitStatus \<Rightarrow> bool" where
  "LimitStatus_IsValid (LimitStatusOther s) = False"
| "LimitStatus_IsValid s = True"

fun RuleStatus_String :: "RuleStatus \<Rightarrow> string" where
  "RuleStatus_String RuleStatusDraft = ''DRAFT''"
| "RuleStatus_String RuleStatusActive = ''ACTIVE''"
| "RuleStatus_String RuleStatusInactive = ''INACTIVE''"
| "RuleStatus_String RuleStatusDeleted = ''DELETED''"
| "RuleStatus_String (RuleStatusOther s) = s"

text \<open>The map \<^verbatim>\<open>validTransitions\<close> of rules and \<^verbatim>\<open>validStatusTransitions\<close> of limits. An absent
  key is \<^term>\<open>None\<close>; indexing the limit table with an absent key gives the nil slice.\<close>

fun validTransitions :: "RuleStatus \<Rightarrow> RuleStatus list option" where
  "validTransitions RuleStatusDraft = Some [RuleStatusActive, RuleStatusDeleted]"
| "validTransitions RuleStatusActive = Some [RuleStatusInactive]"
| "validTransitions RuleStatusInactive =
     Some [RuleStatusDraft, RuleStatusActive, RuleStatusDeleted]"
| "validTransitions RuleStatusDeleted = Some []"
| "validTransitions (RuleStatusOther s) = None"

definition CanTransitionTo :: "RuleStatus \<Rightarrow> RuleStatus \<Rightarrow> bool" where
  "CanTransitionTo s target =
     (case validTransitions s of
        None \<Rightarrow> False
      | Some allowed \<Rightarrow> list_ex (\<lambda>status. status = target) allowed)"

fun validStatusTransitions :: "LimitStatus \<Rightarrow> LimitStatus list" where
  "validStatusTransitions LimitStatusDraft = [LimitStatusActive, LimitStatusDeleted]"
| "validStatusTransitions LimitStatusActive = [LimitStatusInactive]"
| "validStatusTransitions LimitStatusInactive =
     [LimitStatusActive, LimitStatusDraft, LimitStatusDeleted]"
| "validStatusTransitions LimitStatusDeleted = []"
| "validStatusTransitions (LimitStatusOther s) = []"

definition limit_can_transition :: "LimitStatus \<Rightarrow> LimitStatus \<Rightarrow> bool" where
  "limit_can_transition s target =
     list_ex (\<lambda>allowed. target = allowed) (validStatusTransitions s)"

declare CanTransitionTo_def [status_defs] limit_can_transition_def [status_defs]

subsection \<open>What every lifecycle table has in common\<close>

fun walk :: "('s \<Rightarrow> 's \<Rightarrow> bool) \<Rightarrow> 's \<Rightarrow> 's list \<Rightarrow> bool" where
  "walk can s [] = True"
| "walk can s (t # ts) = (can s t \<and> walk can t ts)"

locale status_machine =
  fixes can :: "'s \<Rightarrow> 's \<Rightarrow> bool"
    and isvalid :: "'s \<Rightarrow> bool"
    and draft active inactive deleted :: 's
  assumes distinct_statuses: "distinct [draft, active, inactive, deleted]"
    and valid_iff: "isvalid s \<longleftrightarrow> s \<in> {draft, active, inactive, deleted}"
    and can_iff: "can s t \<longleftrightarrow>
      s = draft \<and> (t = active \<or> t = deleted)
      \<or> s = active \<and> t = inactive
      \<or> s = inactive \<and> (t = draft \<or> t = active \<or> t = deleted)"
begin

lemma deleted_terminal: "\<not> can deleted t"
  using distinct_statuses by (auto simp: can_iff)

lemma irreflexive: "\<not> can s s"
  using distinct_statuses by (auto simp: can_iff)

lemma can_valid: "can s t \<Longrightarrow> isvalid s \<and> isvalid t"
  by (auto simp: can_iff valid_iff)

lemma walk_valid: "walk can s ts \<Longrightarrow> \<forall>t \<in> set ts. isvalid t"
  by (induction ts arbitrary: s) (auto dest: can_valid)

lemma walk_from_deleted: "walk can deleted ts \<Longrightarrow> ts = []"
  by (cases ts) (auto simp: deleted_terminal)

lemma walk_deleted_last:
  "walk can s ts \<Longrightarrow> deleted \<in> set ts \<Longrightarrow> last ts = deleted \<and> deleted \<notin> set (butlast ts)"
proof (induction ts arbitrary: s)
  case (Cons t ts)
  show ?case
  proof (cases "t = deleted")
    case True
    with Cons.prems have "ts = []" using walk_from_deleted by simp
    with True show ?thesis by simp
  next
    case False
    with Cons.prems have "walk can t ts" "deleted \<in> set ts" by auto
    with Cons.IH [of t] False show ?thesis by auto
  qed
qed simp

lemma delete_via_inactive:
  "walk can active ts \<Longrightarrow> deleted \<in> set ts \<Longrightarrow> inactive \<in> set ts"
  using distinct_statuses
  by (cases ts) (auto simp: can_iff)

lemma reach_all:
  assumes "isvalid s"
  shows "\<exists>ts. walk can draft ts \<and> last (draft # ts) = s"
proof -
  have "walk can draft []" "walk can draft [active]" "walk can draft [active, inactive]"
    "walk can draft [deleted]"
    by (auto simp: can_iff)
  with assms show ?thesis
    unfolding valid_iff by (metis empty_iff insertE last.simps list.distinct(1))
qed

end

text \<open>Attempts to set a status, one after another; a refused attempt leaves the record as it is.\<close>

fun attempts :: "('r \<Rightarrow> 's \<Rightarrow> 'now \<Rightarrow> ('e, 'r) result) \<Rightarrow> 'r \<Rightarrow> ('s \<times> 'now) list \<Rightarrow> 'r" where
  "attempts set_status r [] = r"
| "attempts set_status r ((s, now) # xs) =
     attempts set_status (case set_status r s now of Inl e \<Rightarrow> r | Inr r' \<Rightarrow> r') xs"

locale status_setter = status_machine +
  fixes status_of :: "'r \<Rightarrow> 's"
    and set_status :: "'r \<Rightarrow> 's \<Rightarrow> 'now \<Rightarrow> ('e, 'r) result"
  assumes set_same: "isvalid s \<Longrightarrow> status_of r = s \<Longrightarrow> set_status r s now = Inr r"
    and set_can: "can (status_of r) s \<Longrightarrow> \<exists>r'. set_status r s now = Inr r' \<and> status_of r' = s"
    and set_refused: "\<not> isvalid s \<or> status_of r \<noteq> s \<and> \<not> can (status_of r) s \<Longrightarrow>
      \<exists>e. set_status r s now = Inl e"
begin

lemma set_status_iff:
  "(\<exists>r'. set_status r s now = Inr r') \<longleftrightarrow>
     isvalid s \<and> (status_of r = s \<or> can (status_of r) s)"
proof
  assume "\<exists>r'. set_status r s now = Inr r'"
  then show "isvalid s \<and> (status_of r = s \<or> can (status_of r) s)"
    using set_refused [of s r now] by fastforce
next
  assume "isvalid s \<and> (status_of r = s \<or> can (status_of r) s)"
  then show "\<exists>r'. set_status r s now = Inr r'"
    using set_same set_can by blast
qed

lemma set_status_target: "set_status r s now = Inr r' \<Longrightarrow> status_of r' = s"
  using set_status_iff [of r s now] set_same [of s r now] set_can [of r s now] by auto

lemma deleted_refuses:
  assumes "status_of r = deleted" "set_status r s now = Inr r'"
  shows "r' = r"
proof -
  have "isvalid s" "s = deleted"
    using assms set_status_iff [of r s now] by (auto simp: deleted_terminal)
  then show ?thesis using assms set_same [of s r now] by simp
qed

lemma deleted_forever: "status_of r = deleted \<Longrightarrow> attempts set_status r xs = r"
proof (induction xs)
  case (Cons x xs)
  obtain s now where x: "x = (s, now)" by (cases x)
  have "(case set_status r s now of Inl e \<Rightarrow> r | Inr r' \<Rightarrow> r') = r"
    using Cons.prems deleted_refuses [of r s now] by (auto split: sum.split)
  with Cons x show ?case by simp
qed simp

lemma attempts_walk:
  "\<exists>ts. walk can (status_of r) ts
     \<and> status_of (attempts set_status r xs) = last (status_of r # ts)"
proof (induction xs arbitrary: r)
  case Nil
  have "walk can (status_of r) []" by simp
  then show ?case by (metis attempts.simps(1) last.simps)
next
  case (Cons x xs)
  obtain s now where x: "x = (s, now)" by (cases x)
  show ?case
  proof (cases "set_status r s now")
    case (Inl e)
    then show ?thesis using Cons x by simp
  next
    case (Inr r')
    from Cons obtain ts where ts: "walk can (status_of r') ts"
      "status_of (attempts set_status r' xs) = last (status_of r' # ts)" by blast
    have s: "status_of r' = s" using Inr by (rule set_status_target)
    from Inr have "status_of r = s \<or> can (status_of r) s" using set_status_iff by blast
    then show ?thesis
    proof
      assume "status_of r = s"
      then show ?thesis using ts s Inr x by (intro exI [of _ ts]) simp
    next
      assume "can (status_of r) s"
      then show ?thesis using ts s Inr x by (intro exI [of _ "s # ts"]) simp
    qed
  qed
qed

lemma active_not_deleted_directly:
  assumes "status_of r = active" "status_of (attempts set_status r xs) = deleted"
  shows "\<exists>ts. walk can active ts \<and> inactive \<in> set ts \<and> last ts = deleted"
proof -
  obtain ts where ts: "walk can active ts" "last (active # ts) = deleted"
    using attempts_walk [of r xs] assms by auto
  have "ts \<noteq> []" using ts distinct_statuses by auto
  then have "deleted \<in> set ts" "last ts = deleted" using ts by (auto simp: last_in_set)
  then show ?thesis using ts delete_via_inactive by blast
qed

end

interpretation rule_sm: status_machine CanTransitionTo RuleStatus_IsValid
  RuleStatusDraft RuleStatusActive RuleStatusInactive RuleStatusDeleted
proof (standard, goal_cases)
  case 1
  show ?case by simp
next
  case (2 s)
  show ?case by (cases s) auto
next
  case (3 s t)
  show ?case by (cases s) (auto simp: status_defs)
qed

interpretation limit_sm: status_machine limit_can_transition LimitStatus_IsValid
  LimitStatusDraft LimitStatusActive LimitStatusInactive LimitStatusDeleted
proof (standard, goal_cases)
  case 1
  show ?case by simp
next
  case (2 s)
  show ?case by (cases s) auto
next
  case (3 s t)
  show ?case by (cases s) (auto simp: status_defs)
qed

end
