(* ===== verification/GoErrors.thy ===== *)
theory GoErrors
  imports Statuses
begin

text \<open>
  Go errors as values. The errors of \<^verbatim>\<open>pkg/constant/errors.go\<close> are values made by
  \<^verbatim>\<open>errors.New("TRC-nnnn")\<close> and compared by identity; their codes are pairwise different, so
  the code is their identity and each is an abbreviation of \<open>TRC n\<close>. The other
  constructors are the other kinds of error the source makes: a package-level \<^verbatim>\<open>errors.New\<close>
  with a text, \<^verbatim>\<open>fmt.Errorf\<close> with one or two \<^verbatim>\<open>%w\<close> verbs, the typed transition error of
  \<^verbatim>\<open>rule_status.go\<close>, the two context errors, and an error that comes from code outside the
  repository (driver, CEL, breaker).
\<close>

datatype err =
    TRC nat
  | Sentinel string
  | Wrap string err
  | Wrap2 string err err
  | InvalidTransitionError RuleStatus RuleStatus
  | CtxCanceled
  | CtxDeadlineExceeded
  | External string

text \<open>\<^verbatim>\<open>errors.Is(e, target)\<close> walks the wrapped errors.\<close>

fun errors_Is :: "err \<Rightarrow> err \<Rightarrow> bool" where
  "errors_Is (Wrap m e) t = (Wrap m e = t \<or> errors_Is e t)"
| "errors_Is (Wrap2 m e f) t = (Wrap2 m e f = t \<or> errors_Is e t \<or> errors_Is f t)"
| "errors_Is e t = (e = t)"

lemma errors_Is_refl [simp]: "errors_Is e e"
  by (cases e) auto

definition NewInvalidTransitionError :: "RuleStatus \<Rightarrow> RuleStatus \<Rightarrow> err" where
  "NewInvalidTransitionError from_status to_status = InvalidTransitionError from_status to_status"

definition InvalidTransitionError_Error :: "RuleStatus \<Rightarrow> RuleStatus \<Rightarrow> string" where
  "InvalidTransitionError_Error from_status to_status =
     ''invalid status transition from '' @ RuleStatus_String from_status @ '' to ''
     @ RuleStatus_String to_status"

subsection \<open>The error codes\<close>

abbreviation ErrUnexpectedFieldsInTheRequest :: err where
  "ErrUnexpectedFieldsInTheRequest \<equiv> TRC 1"

abbreviation ErrMissingFieldsInRequest :: err where
  "ErrMissingFieldsInRequest \<equiv> TRC 2"

abbreviation ErrBadRequest :: err where
  "ErrBadRequest \<equiv> TRC 3"

abbreviation ErrInternalServer :: err where
  "ErrInternalServer \<equiv> TRC 4"

abbreviation ErrCalculationFieldType :: err where
  "ErrCalculationFieldType \<equiv> TRC 5"

abbreviation ErrInvalidQueryParameter :: err where
  "ErrInvalidQueryParameter \<equiv> TRC 6"

abbreviation ErrInvalidPathParameter :: err where
  "ErrInvalidPathParameter \<equiv> TRC 7"

abbreviation ErrParentIDNotFound :: err where
  "ErrParentIDNotFound \<equiv> TRC 10"

abbreviation ErrPayloadTooLarge :: err where
  "ErrPayloadTooLarge \<equiv> TRC 11"

abbreviation ErrContextCancelled :: err where
  "ErrContextCancelled \<equiv> TRC 12"

abbreviation ErrInvalidDateFormat :: err where
  "ErrInvalidDateFormat \<equiv> TRC 20"

abbreviation ErrInvalidFinalDate :: err where
  "ErrInvalidFinalDate \<equiv> TRC 21"

abbreviation ErrDateRangeExceedsLimit :: err where
  "ErrDateRangeExceedsLimit \<equiv> TRC 22"

abbreviation ErrInvalidDateRange :: err where
  "ErrInvalidDateRange \<equiv> TRC 23"

abbreviation ErrPaginationLimitExceeded :: err where
  "ErrPaginationLimitExceeded \<equiv> TRC 40"

abbreviation ErrPaginationLimitInvalid :: err where
  "ErrPaginationLimitInvalid \<equiv> TRC 41"

abbreviation ErrInvalidSortOrder :: err where
  "ErrInvalidSortOrder \<equiv> TRC 42"

abbreviation ErrInvalidSortColumn :: err where
  "ErrInvalidSortColumn \<equiv> TRC 43"

abbreviation ErrInvalidCursor :: err where
  "ErrInvalidCursor \<equiv> TRC 44"

abbreviation ErrCursorWithSortParams :: err where
  "ErrCursorWithSortParams \<equiv> TRC 45"

abbreviation ErrMetadataKeyLengthExceeded :: err where
  "ErrMetadataKeyLengthExceeded \<equiv> TRC 60"

abbreviation ErrMetadataValueLengthExceeded :: err where
  "ErrMetadataValueLengthExceeded \<equiv> TRC 61"

abbreviation ErrInvalidMetadataNesting :: err where
  "ErrInvalidMetadataNesting \<equiv> TRC 62"

abbreviation ErrMetadataEntriesExceeded :: err where
  "ErrMetadataEntriesExceeded \<equiv> TRC 63"

abbreviation ErrMetadataKeyInvalidChars :: err where
  "ErrMetadataKeyInvalidChars \<equiv> TRC 64"

abbreviation ErrInvalidDecision :: err where
  "ErrInvalidDecision \<equiv> TRC 80"

abbreviation ErrReasonRequired :: err where
  "ErrReasonRequired \<equiv> TRC 81"

abbreviation ErrInvalidDefaultDecision :: err where
  "ErrInvalidDefaultDecision \<equiv> TRC 82"

abbreviation ErrExpressionSyntax :: err where
  "ErrExpressionSyntax \<equiv> TRC 83"

abbreviation ErrExpressionType :: err where
  "ErrExpressionType \<equiv> TRC 84"

abbreviation ErrExpressionCostExceeded :: err where
  "ErrExpressionCostExceeded \<equiv> TRC 85"

abbreviation ErrExpressionEvaluation :: err where
  "ErrExpressionEvaluation \<equiv> TRC 86"

abbreviation ErrExpressionProgram :: err where
  "ErrExpressionProgram \<equiv> TRC 87"

abbreviation ErrExpressionCostEstimation :: err where
  "ErrExpressionCostEstimation \<equiv> TRC 88"

abbreviation ErrAmountExceedsPrecision :: err where
  "ErrAmountExceedsPrecision \<equiv> TRC 89"

abbreviation ErrRuleNotFound :: err where
  "ErrRuleNotFound \<equiv> TRC 100"

abbreviation ErrRuleNameAlreadyExists :: err where
  "ErrRuleNameAlreadyExists \<equiv> TRC 101"

abbreviation ErrRuleInvalidStatus :: err where
  "ErrRuleInvalidStatus \<equiv> TRC 102"

abbreviation ErrRuleEvaluationFailed :: err where
  "ErrRuleEvaluationFailed \<equiv> TRC 103"

abbreviation ErrExpressionNotModifiable :: err where
  "ErrExpressionNotModifiable \<equiv> TRC 104"

abbreviation ErrRuleNilInput :: err where
  "ErrRuleNilInput \<equiv> TRC 105"

abbreviation ErrRuleNameRequired :: err where
  "ErrRuleNameRequired \<equiv> TRC 106"

abbreviation ErrRuleNameTooLong :: err where
  "ErrRuleNameTooLong \<equiv> TRC 107"

abbreviation ErrRuleExpressionRequired :: err where
  "ErrRuleExpressionRequired \<equiv> TRC 108"

abbreviation ErrRuleExpressionTooLong :: err where
  "ErrRuleExpressionTooLong \<equiv> TRC 109"

abbreviation ErrRuleInvalidAction :: err where
  "ErrRuleInvalidAction \<equiv> TRC 110"

abbreviation ErrRuleInvalidScope :: err where
  "ErrRuleInvalidScope \<equiv> TRC 111"

abbreviation ErrRuleDescriptionTooLong :: err where
  "ErrRuleDescriptionTooLong \<equiv> TRC 112"

abbreviation ErrRuleScopesTooMany :: err where
  "ErrRuleScopesTooMany \<equiv> TRC 113"

abbreviation ErrRuleInvalidTransition :: err where
  "ErrRuleInvalidTransition \<equiv> TRC 114"

abbreviation ErrLimitNotFound :: err where
  "ErrLimitNotFound \<equiv> TRC 120"

abbreviation ErrLimitInvalidStatusChange :: err where
  "ErrLimitInvalidStatusChange \<equiv> TRC 121"

abbreviation ErrLimitInvalidType :: err where
  "ErrLimitInvalidType \<equiv> TRC 122"

abbreviation ErrLimitInvalidMaxAmount :: err where
  "ErrLimitInvalidMaxAmount \<equiv> TRC 123"

abbreviation ErrLimitInvalidCurrency :: err where
  "ErrLimitInvalidCurrency \<equiv> TRC 124"

abbreviation ErrLimitInvalidScope :: err where
  "ErrLimitInvalidScope \<equiv> TRC 125"

abbreviation ErrLimitNameRequired :: err where
  "ErrLimitNameRequired \<equiv> TRC 126"

abbreviation ErrLimitNameTooLong :: err where
  "ErrLimitNameTooLong \<equiv> TRC 127"

abbreviation ErrLimitAlreadyDeleted :: err where
  "ErrLimitAlreadyDeleted \<equiv> TRC 128"

abbreviation ErrLimitNameInvalidChars :: err where
  "ErrLimitNameInvalidChars \<equiv> TRC 129"

abbreviation ErrLimitDescriptionInvalidChars :: err where
  "ErrLimitDescriptionInvalidChars \<equiv> TRC 130"

abbreviation ErrLimitInvalidID :: err where
  "ErrLimitInvalidID \<equiv> TRC 131"

abbreviation ErrLimitDescriptionTooLong :: err where
  "ErrLimitDescriptionTooLong \<equiv> TRC 132"

abbreviation ErrLimitInvalidStatusFilter :: err where
  "ErrLimitInvalidStatusFilter \<equiv> TRC 133"

abbreviation ErrLimitInvalidTypeFilter :: err where
  "ErrLimitInvalidTypeFilter \<equiv> TRC 134"

abbreviation ErrLimitDeletedAtInvariant :: err where
  "ErrLimitDeletedAtInvariant \<equiv> TRC 135"

abbreviation ErrLimitCheckFailed :: err where
  "ErrLimitCheckFailed \<equiv> TRC 136"

abbreviation ErrLimitNilInput :: err where
  "ErrLimitNilInput \<equiv> TRC 137"

abbreviation ErrLimitImmutableField :: err where
  "ErrLimitImmutableField \<equiv> TRC 138"

abbreviation ErrAuditEventNotFound :: err where
  "ErrAuditEventNotFound \<equiv> TRC 140"

abbreviation ErrInvalidAuditEventFilters :: err where
  "ErrInvalidAuditEventFilters \<equiv> TRC 141"

abbreviation ErrAuditEventInvalidType :: err where
  "ErrAuditEventInvalidType \<equiv> TRC 142"

abbreviation ErrAuditEventInvalidAction :: err where
  "ErrAuditEventInvalidAction \<equiv> TRC 143"

abbreviation ErrAuditEventInvalidResult :: err where
  "ErrAuditEventInvalidResult \<equiv> TRC 144"

abbreviation ErrAuditEventResourceIDRequired :: err where
  "ErrAuditEventResourceIDRequired \<equiv> TRC 145"

abbreviation ErrAuditEventInvalidResourceType :: err where
  "ErrAuditEventInvalidResourceType \<equiv> TRC 146"

abbreviation ErrAuditEventActorIDRequired :: err where
  "ErrAuditEventActorIDRequired \<equiv> TRC 147"

abbreviation ErrAuditEventActorTypeInvalid :: err where
  "ErrAuditEventActorTypeInvalid \<equiv> TRC 148"

abbreviation ErrUsageCounterOverflow :: err where
  "ErrUsageCounterOverflow \<equiv> TRC 160"

abbreviation ErrUsageCounterLimitIDRequired :: err where
  "ErrUsageCounterLimitIDRequired \<equiv> TRC 161"

abbreviation ErrUsageCounterScopeKeyRequired :: err where
  "ErrUsageCounterScopeKeyRequired \<equiv> TRC 162"

abbreviation ErrUsageCounterPeriodKeyRequired :: err where
  "ErrUsageCounterPeriodKeyRequired \<equiv> TRC 163"

abbreviation ErrUsageCounterCurrentUsageNegative :: err where
  "ErrUsageCounterCurrentUsageNegative \<equiv> TRC 164"

abbreviation ErrUsageCounterIncrementNonNegative :: err where
  "ErrUsageCounterIncrementNonNegative \<equiv> TRC 165"

abbreviation ErrUsageCounterNotFound :: err where
  "ErrUsageCounterNotFound \<equiv> TRC 166"

abbreviation ErrUsageCounterExceedsLimit :: err where
  "ErrUsageCounterExceedsLimit \<equiv> TRC 167"

abbreviation ErrUsageCounterDecrementNonNegative :: err where
  "ErrUsageCounterDecrementNonNegative \<equiv> TRC 168"

abbreviation ErrCheckLimitsInvalidAmount :: err where
  "ErrCheckLimitsInvalidAmount \<equiv> TRC 180"

abbreviation ErrCheckLimitsInvalidCurrency :: err where
  "ErrCheckLimitsInvalidCurrency \<equiv> TRC 181"

abbreviation ErrCheckLimitsUnknownLimitType :: err where
  "ErrCheckLimitsUnknownLimitType \<equiv> TRC 183"

abbreviation ErrCheckLimitsInvalidTimestamp :: err where
  "ErrCheckLimitsInvalidTimestamp \<equiv> TRC 184"

abbreviation ErrCheckLimitsNilInput :: err where
  "ErrCheckLimitsNilInput \<equiv> TRC 185"

abbreviation ErrCheckLimitsInvalidAccountID :: err where
  "ErrCheckLimitsInvalidAccountID \<equiv> TRC 186"

abbreviation ErrCheckLimitsInvalidTransactionType :: err where
  "ErrCheckLimitsInvalidTransactionType \<equiv> TRC 187"

abbreviation ErrCheckLimitsInvalidSubType :: err where
  "ErrCheckLimitsInvalidSubType \<equiv> TRC 188"

abbreviation ErrLimitCheckerNilLimitRepo :: err where
  "ErrLimitCheckerNilLimitRepo \<equiv> TRC 200"

abbreviation ErrLimitCheckerNilUsageCounterRepo :: err where
  "ErrLimitCheckerNilUsageCounterRepo \<equiv> TRC 201"

abbreviation ErrLimitCheckerNilClock :: err where
  "ErrLimitCheckerNilClock \<equiv> TRC 202"

abbreviation ErrValidationRequestIDRequired :: err where
  "ErrValidationRequestIDRequired \<equiv> TRC 220"

abbreviation ErrValidationInvalidTransactionType :: err where
  "ErrValidationInvalidTransactionType \<equiv> TRC 221"

abbreviation ErrValidationAmountNonPositive :: err where
  "ErrValidationAmountNonPositive \<equiv> TRC 222"

abbreviation ErrValidationCurrencyRequired :: err where
  "ErrValidationCurrencyRequired \<equiv> TRC 223"

abbreviation ErrValidationInvalidCurrency :: err where
  "ErrValidationInvalidCurrency \<equiv> TRC 224"

abbreviation ErrValidationTimestampRequired :: err where
  "ErrValidationTimestampRequired \<equiv> TRC 225"

abbreviation ErrValidationTimestampFuture :: err where
  "ErrValidationTimestampFuture \<equiv> TRC 226"

abbreviation ErrValidationAccountRequired :: err where
  "ErrValidationAccountRequired \<equiv> TRC 227"

abbreviation ErrValidationTimestampPast :: err where
  "ErrValidationTimestampPast \<equiv> TRC 228"

abbreviation ErrValidationTimeout :: err where
  "ErrValidationTimeout \<equiv> TRC 229"

abbreviation ErrValidationSegmentIDRequired :: err where
  "ErrValidationSegmentIDRequired \<equiv> TRC 230"

abbreviation ErrValidationPortfolioIDRequired :: err where
  "ErrValidationPortfolioIDRequired \<equiv> TRC 231"

abbreviation ErrValidationSubTypeTooLong :: err where
  "ErrValidationSubTypeTooLong \<equiv> TRC 232"

abbreviation ErrValidationInvalidAccountType :: err where
  "ErrValidationInvalidAccountType \<equiv> TRC 233"

abbreviation ErrValidationInvalidAccountStatus :: err where
  "ErrValidationInvalidAccountStatus \<equiv> TRC 234"

abbreviation ErrValidationInvalidMerchantCategory :: err where
  "ErrValidationInvalidMerchantCategory \<equiv> TRC 235"

abbreviation ErrValidationInvalidMerchantCountry :: err where
  "ErrValidationInvalidMerchantCountry \<equiv> TRC 236"

abbreviation ErrValidationMerchantIDRequired :: err where
  "ErrValidationMerchantIDRequired \<equiv> TRC 237"

abbreviation ErrInvalidTransactionValidationFilters :: err where
  "ErrInvalidTransactionValidationFilters \<equiv> TRC 250"

abbreviation ErrTransactionValidationNotFound :: err where
  "ErrTransactionValidationNotFound \<equiv> TRC 251"

abbreviation ErrListValidationsTimeout :: err where
  "ErrListValidationsTimeout \<equiv> TRC 252"

abbreviation ErrTransactionValidationIDRequired :: err where
  "ErrTransactionValidationIDRequired \<equiv> TRC 270"

abbreviation ErrTransactionValidationCreatedAtRequired :: err where
  "ErrTransactionValidationCreatedAtRequired \<equiv> TRC 271"

abbreviation ErrRuleCacheWarmUpFailed :: err where
  "ErrRuleCacheWarmUpFailed \<equiv> TRC 280"

abbreviation ErrRuleCacheNotReady :: err where
  "ErrRuleCacheNotReady \<equiv> TRC 281"

abbreviation ErrLimitTimeWindowMismatch :: err where
  "ErrLimitTimeWindowMismatch \<equiv> TRC 300"

abbreviation ErrLimitTimeWindowZeroWidth :: err where
  "ErrLimitTimeWindowZeroWidth \<equiv> TRC 301"

abbreviation ErrTimeOfDayInvalidFormat :: err where
  "ErrTimeOfDayInvalidFormat \<equiv> TRC 302"

abbreviation ErrRuleNameAlreadyExistsInCtx :: err where
  "ErrRuleNameAlreadyExistsInCtx \<equiv> TRC 303"

abbreviation ErrLimitNameAlreadyExists :: err where
  "ErrLimitNameAlreadyExists \<equiv> TRC 304"

abbreviation ErrLimitCustomDatesNotAllowed :: err where
  "ErrLimitCustomDatesNotAllowed \<equiv> TRC 305"

abbreviation ErrLimitUnknownType :: err where
  "ErrLimitUnknownType \<equiv> TRC 306"

abbreviation ErrLimitCustomPeriodTooLong :: err where
  "ErrLimitCustomPeriodTooLong \<equiv> TRC 307"

abbreviation ErrLimitCustomPeriodExpired :: err where
  "ErrLimitCustomPeriodExpired \<equiv> TRC 308"

abbreviation ErrLimitInvalidCustomStartFormat :: err where
  "ErrLimitInvalidCustomStartFormat \<equiv> TRC 309"

abbreviation ErrLimitInvalidCustomEndFormat :: err where
  "ErrLimitInvalidCustomEndFormat \<equiv> TRC 310"

abbreviation ErrLimitCustomDatesRequired :: err where
  "ErrLimitCustomDatesRequired \<equiv> TRC 311"

abbreviation ErrLimitCustomDatesOrder :: err where
  "ErrLimitCustomDatesOrder \<equiv> TRC 312"

end
