(* ===== verification/GoTime.thy ===== *)
theory GoTime
  imports GoErrors
begin

text \<open>
  The part of Go's \<^verbatim>\<open>time\<close> package that the source uses. A \<^verbatim>\<open>time.Time\<close> is an instant: the
  number of nanoseconds since the zero time 0001-01-01T00:00:00Z, as an integer. Locations are not
  represented: every computation of the source that reads calendar fields converts with
  \<^verbatim>\<open>UTC()\<close> first, which is the identity on instants. Dates are proleptic Gregorian. Day 0 is
  Monday 1 January of year 1. The 64-bit range of Go's seconds and durations is not modelled.
\<close>

type_synonym gotime = int

definition Minute_ns :: int where "Minute_ns = 60 * 1000000000"
definition Hour_ns :: int where "Hour_ns = 3600 * 1000000000"
definition Day_ns :: int where "Day_ns = 86400 * 1000000000"

lemma Day_ns_pos [simp]: "0 < Day_ns"
  by (simp add: Day_ns_def)

definition time_IsZero :: "gotime \<Rightarrow> bool" where
  "time_IsZero t = (t = 0)"

definition Truncate :: "gotime \<Rightarrow> int \<Rightarrow> gotime" where
  "Truncate t d = (if d \<le> 0 then t else t - t mod d)"

definition dayno :: "gotime \<Rightarrow> int" where
  "dayno t = t div Day_ns"

definition Hour :: "gotime \<Rightarrow> int" where
  "Hour t = (t mod Day_ns) div Hour_ns"

definition Minute :: "gotime \<Rightarrow> int" where
  "Minute t = (t mod Hour_ns) div Minute_ns"

lemma Truncate_day: "Truncate t Day_ns = Day_ns * dayno t"
  using Day_ns_pos by (simp add: Truncate_def dayno_def minus_mod_eq_mult_div del: Day_ns_pos)

lemma div_bounds:
  fixes a :: int
  assumes "0 < b"
  shows "b * (a div b) \<le> a" "a < b * (a div b) + b"
  using assms pos_mod_bound [of b a] pos_mod_sign [of b a] mult_div_mod_eq [of b a] by linarith+

lemma le_div_iff_mult_le:
  fixes a :: int
  assumes "0 < b"
  shows "d \<le> a div b \<longleftrightarrow> b * d \<le> a"
proof
  assume "d \<le> a div b"
  then have "b * d \<le> b * (a div b)" using assms by simp
  also have "\<dots> \<le> a" by (rule div_bounds [OF assms])
  finally show "b * d \<le> a" .
next
  assume "b * d \<le> a"
  then have "(b * d) div b \<le> a div b" using assms by (rule zdiv_mono1)
  then show "d \<le> a div b" using assms by simp
qed

lemma mod_div_range:
  fixes a :: int
  assumes "0 < b" "0 < c"
  shows "0 \<le> (a mod (c * b)) div b \<and> (a mod (c * b)) div b < c"
proof -
  let ?r = "a mod (c * b)"
  have cb: "0 < c * b" using assms by simp
  have "0 \<le> ?r" using cb by (rule pos_mod_sign)
  moreover have "b * (?r div b) < b * c"
    using pos_mod_bound [OF cb, of a] div_bounds(1) [OF assms(1), of ?r]
    by (simp add: mult.commute)
  ultimately show ?thesis
    using assms by (simp add: pos_imp_zdiv_nonneg_iff)
qed

lemma Hour_range: "0 \<le> Hour t \<and> Hour t < 24"
  using mod_div_range [of Hour_ns 24 t] by (simp add: Hour_def Hour_ns_def Day_ns_def)

lemma Minute_range: "0 \<le> Minute t \<and> Minute t < 60"
  using mod_div_range [of Minute_ns 60 t] by (simp add: Minute_def Hour_ns_def Minute_ns_def)

lemma dayno_le_iff: "d \<le> dayno t \<longleftrightarrow> Day_ns * d \<le> t"
  unfolding dayno_def by (rule le_div_iff_mult_le) simp

lemma dayno_less_iff: "dayno t < d \<longleftrightarrow> t < Day_ns * d"
  using dayno_le_iff [of d t] by linarith

lemma dayno_midnight [simp]: "dayno (Day_ns * d) = d"
  using Day_ns_pos by (simp add: dayno_def del: Day_ns_pos)

subsection \<open>The calendar\<close>

definition is_leap :: "int \<Rightarrow> bool" where
  "is_leap y = (y mod 4 = 0 \<and> y mod 100 \<noteq> 0 \<or> y mod 400 = 0)"

definition days_before_year :: "int \<Rightarrow> int" where
  "days_before_year y = 365 * (y - 1) + (y - 1) div 4 - (y - 1) div 100 + (y - 1) div 400"

definition year_of :: "int \<Rightarrow> int" where
  "year_of n = (let e = (400 * n) div 146097 + 1 in
     if days_before_year (e + 1) \<le> n then e + 1 else e)"

definition month_offset :: "bool \<Rightarrow> int \<Rightarrow> int" where
  "month_offset leap m = (let l = (if leap then 1 else 0) in
     if m \<le> 1 then 0 else if m = 2 then 31 else if m = 3 then 59 + l else if m = 4 then 90 + l
     else if m = 5 then 120 + l else if m = 6 then 151 + l else if m = 7 then 181 + l
     else if m = 8 then 212 + l else if m = 9 then 243 + l else if m = 10 then 273 + l
     else if m = 11 then 304 + l else if m = 12 then 334 + l else 365 + l)"

definition month_of_yday :: "bool \<Rightarrow> int \<Rightarrow> int" where
  "month_of_yday leap yd =
     (if yd < month_offset leap 2 then 1 else if yd < month_offset leap 3 then 2
      else if yd < month_offset leap 4 then 3 else if yd < month_offset leap 5 then 4
      else if yd < month_offset leap 6 then 5 else if yd < month_offset leap 7 then 6
      else if yd < month_offset leap 8 then 7 else if yd < month_offset leap 9 then 8
      else if yd < month_offset leap 10 then 9 else if yd < month_offset leap 11 then 10
      else if yd < month_offset leap 12 then 11 else 12)"

definition year_day :: "int \<Rightarrow> int" where
  "year_day n = n - days_before_year (year_of n)"

definition month_of :: "int \<Rightarrow> int" where
  "month_of n = month_of_yday (is_leap (year_of n)) (year_day n)"

definition day_of :: "int \<Rightarrow> int" where
  "day_of n = year_day n - month_offset (is_leap (year_of n)) (month_of n) + 1"

definition civil :: "int \<Rightarrow> int \<times> int \<times> int" where
  "civil n = (year_of n, month_of n, day_of n)"

text \<open>\<^verbatim>\<open>time.Date\<close> normalises the month into 1..12 and lets the day overflow.\<close>

definition days_of_date :: "int \<Rightarrow> int \<Rightarrow> int \<Rightarrow> int" where
  "days_of_date y m d =
     (let y' = y + (m - 1) div 12; m' = (m - 1) mod 12 + 1
      in days_before_year y' + month_offset (is_leap y') m' + (d - 1))"

definition Date_midnight :: "int \<Rightarrow> int \<Rightarrow> int \<Rightarrow> gotime" where
  "Date_midnight y m d = Day_ns * days_of_date y m d"

definition AddDate :: "gotime \<Rightarrow> int \<Rightarrow> int \<Rightarrow> int \<Rightarrow> gotime" where
  "AddDate t years months days =
     (let (y, m, d) = civil (dayno t)
      in Day_ns * days_of_date (y + years) (m + months) (d + days) + t mod Day_ns)"

definition Weekday :: "int \<Rightarrow> int" where
  "Weekday n = (n + 1) mod 7"

text \<open>\<^verbatim>\<open>ISOWeek\<close>: the year of the week's Thursday and the number of that Thursday's week.\<close>

definition iso_thursday :: "int \<Rightarrow> int" where
  "iso_thursday n = n - n mod 7 + 3"

definition ISOWeek :: "int \<Rightarrow> int \<times> int" where
  "ISOWeek n = (let th = iso_thursday n in (year_of th, year_day th div 7 + 1))"

subsection \<open>Calendar arithmetic is correct\<close>

lemma div_step:
  fixes y k :: int
  assumes "0 < k"
  shows "y div k = (y - 1) div k + (if y mod k = 0 then 1 else 0)"
proof (cases "y mod k = 0")
  case True
  then have "y - 1 = k * (y div k - 1) + (k - 1)"
    using mult_div_mod_eq [of k y] by (simp add: algebra_simps)
  then have "(y - 1) div k = y div k - 1"
    by (rule int_div_pos_eq) (use assms in auto)
  with True show ?thesis by simp
next
  case False
  have "y - 1 = k * (y div k) + (y mod k - 1)"
    using mult_div_mod_eq [of k y] by (simp add: algebra_simps)
  then have "(y - 1) div k = y div k"
    by (rule int_div_pos_eq)
      (use assms False pos_mod_sign [of k y] pos_mod_bound [of k y] in linarith)+
  with False show ?thesis by simp
qed

lemma mod_400_100_4:
  fixes y :: int
  shows "y mod 400 = 0 \<Longrightarrow> y mod 100 = 0" "y mod 100 = 0 \<Longrightarrow> y mod 4 = 0"
  using mod_mod_cancel [of 100 400 y] mod_mod_cancel [of 4 100 y] by simp_all

lemma sum_of_steps:
  fixes a b c :: int
  shows "a = a' + i \<Longrightarrow> b = b' + j \<Longrightarrow> c = c' + k \<Longrightarrow>
    365 * y + a - b + c = (365 * (y - 1) + a' - b' + c') + 365 + (i - j + k)"
  by simp

lemma days_before_year_Suc:
  "days_before_year (y + 1) = days_before_year y + (if is_leap y then 366 else 365)"
proof -
  let ?c = "\<lambda>k. if y mod k = 0 then 1 else (0 :: int)"
  have "days_before_year (y + 1) = 365 * y + y div 4 - y div 100 + y div 400"
    by (simp add: days_before_year_def)
  also have "\<dots> = days_before_year y + 365 + (?c 4 - ?c 100 + ?c 400)"
    unfolding days_before_year_def
    by (rule sum_of_steps) (rule div_step, simp)+
  also have "?c 4 - ?c 100 + ?c 400 = (if is_leap y then 1 else 0)"
    using mod_400_100_4 [of y] unfolding is_leap_def by (simp split: if_split)
  finally show ?thesis by simp
qed

lemma days_before_year_less: "days_before_year y < days_before_year (y + 1)"
  by (simp add: days_before_year_Suc)

lemma days_before_year_strict:
  assumes "y < z"
  shows "days_before_year y < days_before_year z"
  using assms
proof (induction z rule: int_gr_induct)
  case base
  show ?case by (rule days_before_year_less)
next
  case (step i)
  then show ?case using days_before_year_less [of i] by linarith
qed

lemma year_estimate:
  fixes m n a b c :: int
  assumes "4 * a \<le> m" "m < 4 * a + 4" "100 * b \<le> m" "m < 100 * b + 100"
    "400 * c \<le> m" "m < 400 * c + 400"
  shows "146097 * m \<le> 400 * n \<Longrightarrow> 365 * m + a - b + c \<le> n"
    "400 * n < 146097 * (m - 2) + 146097 \<Longrightarrow> n < 365 * m + a - b + c"
proof -
  have "146000 * m + 100 * m - 300 - 4 * m + m - 399 \<le> 400 * (365 * m + a - b + c)"
  proof -
    have "100 * m - 300 \<le> 400 * a" using assms by linarith
    moreover have "400 * b \<le> 4 * m" using assms by linarith
    moreover have "m - 399 \<le> 400 * c" using assms by linarith
    ultimately show ?thesis by simp
  qed
  then show "400 * n < 146097 * (m - 2) + 146097 \<Longrightarrow> n < 365 * m + a - b + c" by simp
qed (use assms in linarith)

lemma year_of_bounds:
  "days_before_year (year_of n) \<le> n" "n < days_before_year (year_of n + 1)"
proof -
  define m where "m = (400 * n) div 146097"
  have m: "146097 * m \<le> 400 * n" "400 * n < 146097 * m + 146097"
    unfolding m_def by (rule div_bounds, simp)+
  have lo: "days_before_year (m + 1) \<le> n"
    unfolding days_before_year_def add_diff_cancel_right'
    by (rule year_estimate(1)) (rule div_bounds m(1), simp?)+
  have hi: "n < days_before_year (m + 3)"
    unfolding days_before_year_def
    using year_estimate(2) [OF div_bounds(1) [of 4 "m + 2"] div_bounds(2) [of 4 "m + 2"]
        div_bounds(1) [of 100 "m + 2"] div_bounds(2) [of 100 "m + 2"]
        div_bounds(1) [of 400 "m + 2"] div_bounds(2) [of 400 "m + 2"], of n] m(2)
    by (simp add: algebra_simps)
  show "days_before_year (year_of n) \<le> n"
    using lo by (simp add: year_of_def Let_def flip: m_def)
  show "n < days_before_year (year_of n + 1)"
    using hi by (simp add: year_of_def Let_def add.commute add.left_commute flip: m_def)
qed

lemma year_of_unique:
  assumes "days_before_year y \<le> n" "n < days_before_year (y + 1)"
  shows "year_of n = y"
proof (rule ccontr)
  assume "year_of n \<noteq> y"
  then consider "year_of n + 1 \<le> y" | "y + 1 \<le> year_of n" by linarith
  then show False
  proof cases
    case 1
    then have "days_before_year (year_of n + 1) \<le> days_before_year y"
      using days_before_year_strict [of "year_of n + 1" y] by (cases "year_of n + 1 = y") auto
    then show False using assms year_of_bounds(2) [of n] by linarith
  next
    case 2
    then have "days_before_year (y + 1) \<le> days_before_year (year_of n)"
      using days_before_year_strict [of "y + 1" "year_of n"] by (cases "y + 1 = year_of n") auto
    then show False using assms year_of_bounds(1) [of n] by linarith
  qed
qed

lemma year_day_range:
  "0 \<le> year_day n" "year_day n < (if is_leap (year_of n) then 366 else 365)"
  using year_of_bounds [of n] days_before_year_Suc [of "year_of n"]
  by (auto simp: year_day_def split: if_splits)

definition month_length :: "bool \<Rightarrow> int \<Rightarrow> int" where
  "month_length leap m = month_offset leap (m + 1) - month_offset leap m"

lemma month_cases:
  fixes m :: int
  assumes "1 \<le> m" "m \<le> 12"
  shows "m \<in> {1, 2, 3, 4, 5, 6, 7, 8, 9, 10, 11, 12}"
  using assms by simp presburger

lemma month_offset_less:
  "1 \<le> m \<Longrightarrow> m \<le> 12 \<Longrightarrow> month_offset leap m < month_offset leap (m + 1)"
  using month_cases [of m] by (cases leap) (auto simp: month_offset_def)

lemma month_of_yday_spec:
  assumes "0 \<le> yd" "yd < month_offset leap 13"
  shows "1 \<le> month_of_yday leap yd \<and> month_of_yday leap yd \<le> 12
    \<and> month_offset leap (month_of_yday leap yd) \<le> yd
    \<and> yd < month_offset leap (month_of_yday leap yd + 1)"
  using assms by (cases leap) (simp_all add: month_of_yday_def month_offset_def)

lemma year_day_month_offset: "year_day n < month_offset (is_leap (year_of n)) 13"
  using year_day_range(2) [of n] by (simp add: month_offset_def split: if_splits)

lemmas month_of_spec =
  month_of_yday_spec [OF year_day_range(1) year_day_month_offset, folded month_of_def]

lemma day_of_pos: "1 \<le> day_of n"
  using month_of_spec [of n] by (simp add: day_of_def)

text \<open>The first day of the month with index \<open>k = 12 y + (m - 1)\<close>.\<close>

definition month_start :: "int \<Rightarrow> int" where
  "month_start k = days_before_year (k div 12) + month_offset (is_leap (k div 12)) (k mod 12 + 1)"

definition month_index :: "int \<Rightarrow> int" where
  "month_index n = 12 * year_of n + (month_of n - 1)"

lemma days_of_date_month: "days_of_date y m d = month_start (12 * y + (m - 1)) + (d - 1)"
  by (simp add: days_of_date_def month_start_def Let_def add.commute)

lemma month_index_parts:
  "month_index n div 12 = year_of n" "month_index n mod 12 + 1 = month_of n"
proof -
  have m: "0 \<le> month_of n - 1" "month_of n - 1 < 12" using month_of_spec [of n] by auto
  have eq: "month_index n = 12 * year_of n + (month_of n - 1)" by (simp add: month_index_def)
  show "month_index n div 12 = year_of n" by (rule int_div_pos_eq [OF eq m])
  have "month_index n mod 12 = month_of n - 1" by (rule int_mod_pos_eq [OF eq m])
  then show "month_index n mod 12 + 1 = month_of n" by simp
qed

lemma month_start_Suc:
  "month_start (k + 1) =
     month_start k + month_length (is_leap (k div 12)) (k mod 12 + 1)"
proof -
  define q r where "q = k div 12" and "r = k mod 12"
  have k: "k = 12 * q + r" and r: "0 \<le> r" "r < 12" by (simp_all add: q_def r_def)
  show ?thesis
  proof (cases "r = 11")
    case True
    have "(k + 1) div 12 = q + 1" "(k + 1) mod 12 = 0" using k True by simp_all
    then show ?thesis
      using True by (simp add: month_start_def month_length_def days_before_year_Suc
          month_offset_def flip: q_def r_def)
  next
    case False
    with r have r1: "0 \<le> r + 1" "r + 1 < 12" by auto
    have e: "k + 1 = 12 * q + (r + 1)" using k by simp
    have "(k + 1) div 12 = q" "(k + 1) mod 12 = r + 1"
      by (rule int_div_pos_eq [OF e r1], rule int_mod_pos_eq [OF e r1])
    then show ?thesis
      by (simp add: month_start_def month_length_def flip: q_def r_def)
  qed
qed

lemma month_length_pos: "1 \<le> m \<Longrightarrow> m \<le> 12 \<Longrightarrow> 0 < month_length leap m"
  using month_offset_less by (simp add: month_length_def)

lemma month_start_less: "month_start k < month_start (k + 1)"
proof -
  have "1 \<le> k mod 12 + 1" "k mod 12 + 1 \<le> 12" by simp_all
  from month_length_pos [OF this] show ?thesis by (simp add: month_start_Suc)
qed

lemma month_start_strict:
  assumes "j < k"
  shows "month_start j < month_start k"
  using assms
proof (induction k rule: int_gr_induct)
  case base
  show ?case by (rule month_start_less)
next
  case (step i)
  then show ?case using month_start_less [of i] by linarith
qed

lemma month_start_mono: "j \<le> k \<Longrightarrow> month_start j \<le> month_start k"
  using month_start_strict [of j k] by (cases "j = k") auto

lemma month_index_bounds:
  "month_start (month_index n) \<le> n" "n < month_start (month_index n + 1)"
proof -
  note parts = month_index_parts [of n]
  have eq: "month_start (month_index n) + year_day n
      = n + month_offset (is_leap (year_of n)) (month_of n)"
    by (simp add: month_start_def parts year_day_def)
  with month_of_spec [of n] show "month_start (month_index n) \<le> n" by linarith
  have "month_start (month_index n + 1) = month_start (month_index n)
      + (month_offset (is_leap (year_of n)) (month_of n + 1)
         - month_offset (is_leap (year_of n)) (month_of n))"
    by (simp add: month_start_Suc parts month_length_def)
  with eq month_of_spec [of n] show "n < month_start (month_index n + 1)" by linarith
qed

lemma month_index_eq_iff: "month_index n = k \<longleftrightarrow> month_start k \<le> n \<and> n < month_start (k + 1)"
proof
  assume "month_index n = k"
  then show "month_start k \<le> n \<and> n < month_start (k + 1)" using month_index_bounds [of n] by auto
next
  assume k: "month_start k \<le> n \<and> n < month_start (k + 1)"
  show "month_index n = k"
  proof (rule ccontr)
    assume "month_index n \<noteq> k"
    then consider "month_index n + 1 \<le> k" | "k + 1 \<le> month_index n" by linarith
    then show False
      using k month_index_bounds [of n] month_start_mono by cases fastforce+
  qed
qed

lemma days_of_date_civil:
  "days_of_date (year_of n) (month_of n) (day_of n + k) = n + k"
proof -
  have "days_of_date (year_of n) (month_of n) (day_of n + k)
      = month_start (month_index n) + (day_of n + k - 1)"
    by (simp add: days_of_date_month month_index_def)
  also have "\<dots> = n + k"
    by (simp add: month_start_def month_index_parts day_of_def year_day_def)
  finally show ?thesis .
qed

lemma AddDate_days: "AddDate t 0 0 k = t + Day_ns * k"
  using days_of_date_civil [of "dayno t" k] mult_div_mod_eq [of Day_ns t]
  by (simp add: AddDate_def civil_def dayno_def distrib_left)

lemma month_index_civil:
  assumes "month_index a = month_index b"
  shows "year_of a = year_of b \<and> month_of a = month_of b"
  using assms month_index_parts by metis

lemma civil_inject: "civil a = civil b \<longleftrightarrow> a = b"
proof
  assume "civil a = civil b"
  then have "days_of_date (year_of a) (month_of a) (day_of a + 0)
      = days_of_date (year_of b) (month_of b) (day_of b + 0)"
    by (simp add: civil_def)
  then show "a = b" unfolding days_of_date_civil by simp
qed simp

subsection \<open>ISO weeks\<close>

lemma iso_thursday_mod: "iso_thursday n mod 7 = 3"
proof -
  have "iso_thursday n = 7 * (n div 7) + 3"
    by (simp add: iso_thursday_def minus_mod_eq_mult_div)
  then show ?thesis by simp
qed

lemma iso_thursday_eq_iff: "iso_thursday a = iso_thursday b \<longleftrightarrow> a div 7 = b div 7"
  by (simp add: iso_thursday_def minus_mod_eq_mult_div)

lemma week_eq_of_mod:
  fixes a b c :: int
  assumes "a mod 7 = b mod 7" "(a - c) div 7 = (b - c) div 7"
  shows "a = b"
proof -
  have "(a - c) mod 7 = (b - c) mod 7" using assms(1) by (metis mod_diff_left_eq)
  then have "a - c = b - c" using assms(2) by (metis mult_div_mod_eq)
  then show ?thesis by simp
qed

lemma ISOWeek_eq_iff: "ISOWeek a = ISOWeek b \<longleftrightarrow> a div 7 = b div 7"
proof
  assume "ISOWeek a = ISOWeek b"
  then have y: "year_of (iso_thursday a) = year_of (iso_thursday b)"
    and w: "year_day (iso_thursday a) div 7 = year_day (iso_thursday b) div 7"
    by (simp_all add: ISOWeek_def Let_def)
  have "iso_thursday a = iso_thursday b"
    by (rule week_eq_of_mod [of _ _ "days_before_year (year_of (iso_thursday a))"])
      (use w y in \<open>simp_all add: iso_thursday_mod year_day_def\<close>)
  then show "a div 7 = b div 7" by (simp add: iso_thursday_eq_iff)
next
  assume "a div 7 = b div 7"
  then have "iso_thursday a = iso_thursday b" by (simp add: iso_thursday_eq_iff)
  then show "ISOWeek a = ISOWeek b" by (simp add: ISOWeek_def)
qed

lemma ISOWeek_week_range: "1 \<le> snd (ISOWeek n) \<and> snd (ISOWeek n) \<le> 53"
proof -
  have "0 \<le> year_day (iso_thursday n)" "year_day (iso_thursday n) < 366"
    using year_day_range [of "iso_thursday n"] by (auto split: if_splits)
  moreover from this have "0 \<le> year_day (iso_thursday n) div 7"
    "year_day (iso_thursday n) div 7 \<le> 365 div 7"
    by (simp, intro zdiv_mono1) simp_all
  ultimately show ?thesis by (simp add: ISOWeek_def Let_def)
qed

subsection \<open>Layouts\<close>

definition Format_date :: "gotime \<Rightarrow> string" where
  "Format_date t = (let (y, m, d) = civil (dayno t)
     in show_pad 4 y @ ''-'' @ show_pad 2 m @ ''-'' @ show_pad 2 d)"

definition Format_month :: "gotime \<Rightarrow> string" where
  "Format_month t = (let (y, m, d) = civil (dayno t) in show_pad 4 y @ ''-'' @ show_pad 2 m)"

end
