(* ===== verification/Scopes.thy ===== *)
theory Scopes
  imports GoTime
begin

text \<open>
  Transaction types, decisions and scopes (\<^verbatim>\<open>pkg/model/transaction.go\<close>,
  \<^verbatim>\<open>pkg/model/validation.go\<close>, \<^verbatim>\<open>pkg/model/scope.go\<close>, \<^verbatim>\<open>pkg/model/scope_matcher.go\<close>). A
  nil pointer is \<^term>\<open>None\<close>. A scope matches when each of its set fields equals the field of the
  other scope; a rule matches when one of its scopes does, or when it has none.
\<close>

datatype TransactionType =
    TransactionTypeCard
  | TransactionTypeWire
  | TransactionTypePix
  | TransactionTypeCrypto
  | TransactionTypeOther string

fun TransactionType_IsValid :: "TransactionType \<Rightarrow> bool" where
  "TransactionType_IsValid (TransactionTypeOther s) = False"
| "TransactionType_IsValid t = True"

fun TransactionType_String :: "TransactionType \<Rightarrow> string" where
  "TransactionType_String TransactionTypeCard = ''CARD''"
| "TransactionType_String TransactionTypeWire = ''WIRE''"
| "TransactionType_String TransactionTypePix = ''PIX''"
| "TransactionType_String TransactionTypeCrypto = ''CRYPTO''"
| "TransactionType_String (TransactionTypeOther s) = s"

datatype Decision =
    DecisionAllow
  | DecisionDeny
  | DecisionReview
  | DecisionOther string

fun Decision_IsValid :: "Decision \<Rightarrow> bool" where
  "Decision_IsValid (DecisionOther s) = False"
| "Decision_IsValid d = True"

fun Decision_String :: "Decision \<Rightarrow> string" where
  "Decision_String DecisionAllow = ''ALLOW''"
| "Decision_String DecisionDeny = ''DENY''"
| "Decision_String DecisionReview = ''REVIEW''"
| "Decision_String (DecisionOther s) = s"

record Scope =
  SegmentID :: "uuid option"
  PortfolioID :: "uuid option"
  AccountID :: "uuid option"
  MerchantID :: "uuid option"
  ScopeTransactionType :: "TransactionType option"
  ScopeSubType :: "string option"

definition Scope_IsEmpty :: "Scope \<Rightarrow> bool" where
  "Scope_IsEmpty s =
     (SegmentID s = None \<and> PortfolioID s = None \<and> AccountID s = None \<and> MerchantID s = None
      \<and> ScopeTransactionType s = None \<and> ScopeSubType s = None)"

fun ptrMatches :: "'a option \<Rightarrow> 'a option \<Rightarrow> bool" where
  "ptrMatches None v = True"
| "ptrMatches (Some p) None = False"
| "ptrMatches (Some p) (Some v) = (p = v)"

definition Scope_Matches :: "Scope \<Rightarrow> Scope \<Rightarrow> bool" where
  "Scope_Matches s other =
     (ptrMatches (AccountID s) (AccountID other)
      \<and> ptrMatches (SegmentID s) (SegmentID other)
      \<and> ptrMatches (PortfolioID s) (PortfolioID other)
      \<and> ptrMatches (MerchantID s) (MerchantID other)
      \<and> ptrMatches (ScopeTransactionType s) (ScopeTransactionType other)
      \<and> ptrMatches (ScopeSubType s) (ScopeSubType other))"

definition RuleScopesMatch :: "Scope list \<Rightarrow> Scope option \<Rightarrow> bool" where
  "RuleScopesMatch ruleScopes txScope =
     (if ruleScopes = [] then True
      else case txScope of
          None \<Rightarrow> False
        | Some tx \<Rightarrow> list_ex (\<lambda>s. Scope_Matches s tx) ruleScopes)"

text \<open>The map handed to the expression evaluator; the values are strings and the keys distinct,
  so an association list in insertion order stands for it.\<close>

definition Scope_ToMap :: "ext \<Rightarrow> Scope \<Rightarrow> (string \<times> string) list" where
  "Scope_ToMap X s =
     (case SegmentID s of None \<Rightarrow> [] | Some i \<Rightarrow> [(''segmentId'', x_uuid_string X i)])
     @ (case PortfolioID s of None \<Rightarrow> [] | Some i \<Rightarrow> [(''portfolioId'', x_uuid_string X i)])
     @ (case AccountID s of None \<Rightarrow> [] | Some i \<Rightarrow> [(''accountId'', x_uuid_string X i)])
     @ (case MerchantID s of None \<Rightarrow> [] | Some i \<Rightarrow> [(''merchantId'', x_uuid_string X i)])
     @ (case ScopeTransactionType s of None \<Rightarrow> []
        | Some t \<Rightarrow> [(''transactionType'', TransactionType_String t)])
     @ (case ScopeSubType s of None \<Rightarrow> [] | Some t \<Rightarrow> [(''subType'', t)])"

subsection \<open>Matching is containment of the set fields\<close>

lemma ptrMatches_iff: "ptrMatches p v \<longleftrightarrow> (\<forall>x. p = Some x \<longrightarrow> v = Some x)"
  by (cases p; cases v) auto

lemma ptrMatches_refl [simp]: "ptrMatches p p"
  by (simp add: ptrMatches_iff)

lemma ptrMatches_trans: "ptrMatches p q \<Longrightarrow> ptrMatches q v \<Longrightarrow> ptrMatches p v"
  by (simp add: ptrMatches_iff)

lemma ptrMatches_antisym: "ptrMatches p q \<Longrightarrow> ptrMatches q p \<Longrightarrow> p = q"
  by (cases p; cases q) auto

lemma Scope_Matches_refl [simp]: "Scope_Matches s s"
  by (simp add: Scope_Matches_def)

lemma Scope_Matches_trans: "Scope_Matches a b \<Longrightarrow> Scope_Matches b c \<Longrightarrow> Scope_Matches a c"
  unfolding Scope_Matches_def by (meson ptrMatches_trans)

lemma Scope_Matches_antisym:
  assumes "Scope_Matches a b" "Scope_Matches b a"
  shows "a = b"
  using assms by (cases a; cases b) (auto simp: Scope_Matches_def intro: ptrMatches_antisym)

lemma Scope_empty_matches: "Scope_IsEmpty s \<Longrightarrow> Scope_Matches s t"
  by (simp add: Scope_IsEmpty_def Scope_Matches_def)

lemma RuleScopesMatch_iff:
  "RuleScopesMatch ss (Some tx) \<longleftrightarrow> ss = [] \<or> (\<exists>s \<in> set ss. Scope_Matches s tx)"
  by (auto simp: RuleScopesMatch_def list_ex_iff)

lemma RuleScopesMatch_None: "RuleScopesMatch ss None \<longleftrightarrow> ss = []"
  by (simp add: RuleScopesMatch_def)

lemma RuleScopesMatch_mono:
  "RuleScopesMatch ss (Some a) \<Longrightarrow> Scope_Matches a b \<Longrightarrow> RuleScopesMatch ss (Some b)"
  by (auto simp: RuleScopesMatch_iff intro: Scope_Matches_trans)

end
