(* ===== verification/TimesOfDay.thy ===== *)
theory TimesOfDay
  imports GoTime
begin

text \<open>
  The value object \<^verbatim>\<open>TimeOfDay\<close> of \<^verbatim>\<open>pkg/model/time_of_day.go\<close>, with the layout \<^verbatim>\<open>15:04\<close> of
  \<^verbatim>\<open>time.Parse\<close> that its constructor uses: an hour of one or two digits below 24, a colon, and
  a minute of exactly two digits below 60, with nothing after it.
\<close>

record TimeOfDay =
  tod_hour :: int
  tod_minute :: int
  tod_isValid :: bool

definition is_digit :: "char \<Rightarrow> bool" where
  "is_digit c = (let n = (of_char c :: nat) in 48 \<le> n \<and> n \<le> 57)"

definition digit_value :: "char \<Rightarrow> int" where
  "digit_value c = int (of_char c) - 48"

fun getnum :: "bool \<Rightarrow> string \<Rightarrow> (int \<times> string) option" where
  "getnum fixed [] = None"
| "getnum fixed [c] =
     (if \<not> is_digit c \<or> fixed then None else Some (digit_value c, []))"
| "getnum fixed (c # d # cs) =
     (if \<not> is_digit c then None
      else if is_digit d then Some (10 * digit_value c + digit_value d, cs)
      else if fixed then None
      else Some (digit_value c, d # cs))"

definition time_Parse_15_04 :: "string \<Rightarrow> (int \<times> int) option" where
  "time_Parse_15_04 v =
     (case getnum False v of
        None \<Rightarrow> None
      | Some (h, rest) \<Rightarrow>
          if 24 \<le> h then None
          else case rest of
              [] \<Rightarrow> None
            | c # rest' \<Rightarrow>
                if c \<noteq> CHR '':'' then None
                else case getnum True rest' of
                    None \<Rightarrow> None
                  | Some (m, extra) \<Rightarrow>
                      if 60 \<le> m then None else if extra \<noteq> [] then None else Some (h, m))"

definition NewTimeOfDay :: "string \<Rightarrow> (err, TimeOfDay) result" where
  "NewTimeOfDay s =
     (case time_Parse_15_04 (TrimSpace s) of
        None \<Rightarrow> Inl ErrTimeOfDayInvalidFormat
      | Some (h, m) \<Rightarrow> Inr \<lparr>tod_hour = h, tod_minute = m, tod_isValid = True\<rparr>)"

definition TimeOfDay_String :: "TimeOfDay \<Rightarrow> string" where
  "TimeOfDay_String t =
     (if \<not> tod_isValid t then []
      else show_pad 2 (tod_hour t) @ '':'' @ show_pad 2 (tod_minute t))"

definition MinutesSinceMidnight :: "TimeOfDay \<Rightarrow> int" where
  "MinutesSinceMidnight t = tod_hour t * 60 + tod_minute t"

definition TimeOfDay_Before :: "TimeOfDay \<Rightarrow> TimeOfDay \<Rightarrow> bool" where
  "TimeOfDay_Before t u =
     (if \<not> tod_isValid t \<or> \<not> tod_isValid u then False
      else MinutesSinceMidnight t < MinutesSinceMidnight u)"

definition TimeOfDay_After :: "TimeOfDay \<Rightarrow> TimeOfDay \<Rightarrow> bool" where
  "TimeOfDay_After t u =
     (if \<not> tod_isValid t \<or> \<not> tod_isValid u then False
      else MinutesSinceMidnight t > MinutesSinceMidnight u)"

definition TimeOfDay_Equal :: "TimeOfDay \<Rightarrow> TimeOfDay \<Rightarrow> bool" where
  "TimeOfDay_Equal t u =
     (MinutesSinceMidnight t = MinutesSinceMidnight u \<and> tod_isValid t = tod_isValid u)"

definition TimeOfDay_IsZero :: "TimeOfDay \<Rightarrow> bool" where
  "TimeOfDay_IsZero t = (\<not> tod_isValid t)"

text \<open>What the constructor guarantees of its result.\<close>

definition tod_ok :: "TimeOfDay \<Rightarrow> bool" where
  "tod_ok t =
     (tod_isValid t \<and> 0 \<le> tod_hour t \<and> tod_hour t < 24 \<and> 0 \<le> tod_minute t \<and> tod_minute t < 60)"

subsection \<open>Parsing and printing\<close>

lemma digit_value_range: "is_digit c \<Longrightarrow> 0 \<le> digit_value c \<and> digit_value c \<le> 9"
  by (auto simp: is_digit_def digit_value_def Let_def)

lemma getnum_nonneg: "getnum fixed s = Some (n, r) \<Longrightarrow> 0 \<le> n"
  by (induction fixed s rule: getnum.induct)
    (auto split: if_splits dest!: digit_value_range)

lemma time_Parse_range:
  "time_Parse_15_04 v = Some (h, m) \<Longrightarrow> 0 \<le> h \<and> h < 24 \<and> 0 \<le> m \<and> m < 60"
  by (auto simp: time_Parse_15_04_def getnum_nonneg
      split: option.splits list.splits if_splits prod.splits)

lemma NewTimeOfDay_ok: "NewTimeOfDay s = Inr t \<Longrightarrow> tod_ok t"
  by (auto simp: NewTimeOfDay_def tod_ok_def split: option.splits prod.splits
      dest: time_Parse_range)

lemma NewTimeOfDay_error: "NewTimeOfDay s = Inl e \<Longrightarrow> e = ErrTimeOfDayInvalidFormat"
  by (auto simp: NewTimeOfDay_def split: option.splits prod.splits)

lemma is_digit_digit [simp]: "d < 10 \<Longrightarrow> is_digit (digit d)"
  by (simp add: is_digit_def)

lemma digit_value_digit [simp]: "d < 10 \<Longrightarrow> digit_value (digit d) = int d"
  by (simp add: digit_value_def)

lemma show_pad2:
  assumes "0 \<le> n" "n < 100"
  shows "show_pad 2 n = [digit (nat n div 10), digit (nat n mod 10)]"
proof (cases "n < 10")
  case True
  with assms show ?thesis
    by (simp add: show_pad_def pad_left_def nat_digits.simps [of "nat n"] numeral_2_eq_2
        nat_less_iff)
next
  case False
  with assms have "nat n div 10 < 10" "\<not> nat n < 10" by auto
  then show ?thesis
    using assms by (simp add: show_pad_def pad_left_def nat_digits.simps [of "nat n"]
        nat_digits.simps [of "nat n div 10"] numeral_2_eq_2)
qed

lemma getnum_show_pad2:
  assumes "0 \<le> n" "n < 100"
  shows "getnum fixed (show_pad 2 n @ rest) = Some (n, rest)"
proof -
  have "nat n div 10 < 10" "nat n mod 10 < 10" using assms by auto
  moreover have "10 * int (nat n div 10) + int (nat n mod 10) = n"
    using assms by (simp add: zdiv_int zmod_int)
  ultimately show ?thesis by (simp add: show_pad2 [OF assms])
qed

lemma TrimSpace_digits:
  assumes "s \<noteq> []" "is_digit (hd s)" "is_digit (last s)"
  shows "TrimSpace s = s"
  by (rule TrimSpace_text) (use assms in \<open>auto simp: is_digit_def Let_def\<close>)

lemma NewTimeOfDay_String:
  assumes "tod_ok t"
  shows "NewTimeOfDay (TimeOfDay_String t) = Inr t"
proof -
  have r: "0 \<le> tod_hour t" "tod_hour t < 100" "0 \<le> tod_minute t" "tod_minute t < 100"
    using assms by (auto simp: tod_ok_def)
  let ?s = "show_pad 2 (tod_hour t) @ '':'' @ show_pad 2 (tod_minute t)"
  have s: "TimeOfDay_String t = ?s"
    using assms by (simp add: TimeOfDay_String_def tod_ok_def)
  have "TrimSpace ?s = ?s"
    by (rule TrimSpace_digits) (use r in \<open>auto simp: show_pad2\<close>)
  moreover have "time_Parse_15_04 ?s = Some (tod_hour t, tod_minute t)"
    using assms getnum_show_pad2 [OF r(1,2)] getnum_show_pad2 [OF r(3,4), of True "[]"]
    by (simp add: time_Parse_15_04_def tod_ok_def)
  ultimately show ?thesis
    unfolding s NewTimeOfDay_def using assms by (simp add: tod_ok_def)
qed

lemma MinutesSinceMidnight_range:
  "tod_ok t \<Longrightarrow> 0 \<le> MinutesSinceMidnight t \<and> MinutesSinceMidnight t < 1440"
  by (auto simp: tod_ok_def MinutesSinceMidnight_def)

lemma MinutesSinceMidnight_inj:
  assumes "tod_ok t" "tod_ok u" "MinutesSinceMidnight t = MinutesSinceMidnight u"
  shows "t = u"
proof -
  have "tod_hour t = MinutesSinceMidnight t div 60" "tod_minute t = MinutesSinceMidnight t mod 60"
    if "tod_ok t" for t
    using that by (auto simp: tod_ok_def MinutesSinceMidnight_def)
  with assms have "tod_hour t = tod_hour u" "tod_minute t = tod_minute u" by metis+
  with assms show ?thesis by (cases t; cases u) (simp add: tod_ok_def)
qed

end
