(* ===== verification/Limits.thy ===== *)
theory Limits
  imports Scopes TimesOfDay
begin

text \<open>
  The entity \<^verbatim>\<open>Limit\<close> of \<^verbatim>\<open>pkg/model/limit.go\<close>: constructors, validation, field update,
  status change, the active time window and the custom period. Amounts
  (\<^verbatim>\<open>decimal.Decimal\<close>, exact arbitrary-precision numbers of a library) are elements of a
  linearly ordered abelian group \<open>'d\<close>: the source uses only zero, sums and comparisons of them here.
  A method that changes its receiver and returns an error gives the pair of the new receiver and
  the error, because some of them change fields before they fail. A fresh identifier
  (\<^verbatim>\<open>uuid.New()\<close>) is an argument.
\<close>

datatype LimitType =
    LimitTypeDaily
  | LimitTypeMonthly
  | LimitTypePerTransaction
  | LimitTypeWeekly
  | LimitTypeCustom
  | LimitTypeOther string

fun LimitType_IsValid :: "LimitType \<Rightarrow> bool" where
  "LimitType_IsValid (LimitTypeOther s) = False"
| "LimitType_IsValid t = True"

record 'd Limit =
  l_ID :: uuid
  l_Name :: string
  l_Description :: "string option"
  l_LimitType :: LimitType
  l_MaxAmount :: 'd
  l_Currency :: string
  l_Scopes :: "Scope list"
  l_Status :: LimitStatus
  l_ActiveTimeStart :: "TimeOfDay option"
  l_ActiveTimeEnd :: "TimeOfDay option"
  l_CustomStartDate :: "gotime option"
  l_CustomEndDate :: "gotime option"
  l_ResetAt :: "gotime option"
  l_CreatedAt :: gotime
  l_UpdatedAt :: gotime
  l_DeletedAt :: "gotime option"

definition MaxNameLength :: nat where "MaxNameLength = 255"
definition MaxDescriptionLength :: nat where "MaxDescriptionLength = 1000"
definition MaxSubTypeLength :: nat where "MaxSubTypeLength = 50"
definition MaxCustomPeriodYears :: int where "MaxCustomPeriodYears = 5"

subsection \<open>Reset times\<close>

definition CalculateResetAt :: "LimitType \<Rightarrow> gotime \<Rightarrow> gotime option" where
  "CalculateResetAt limitType now =
     (case limitType of
        LimitTypeDaily \<Rightarrow> Some (Truncate now (24 * Hour_ns) + 24 * Hour_ns)
      | LimitTypeMonthly \<Rightarrow>
          (case civil (dayno now) of (year, month, _) \<Rightarrow> Some (Date_midnight year (month + 1) 1))
      | LimitTypeWeekly \<Rightarrow>
          (let d = (8 - Weekday (dayno now)) mod 7;
               daysUntilMonday = (if d = 0 then 7 else d)
           in Some (AddDate (Truncate now (24 * Hour_ns)) 0 0 daysUntilMonday))
      | LimitTypePerTransaction \<Rightarrow> None
      | LimitTypeCustom \<Rightarrow> None
      | LimitTypeOther s \<Rightarrow> None)"

definition CalculateCustomResetAt :: "gotime \<Rightarrow> gotime" where
  "CalculateCustomResetAt customEndDate = AddDate (Truncate customEndDate (24 * Hour_ns)) 0 0 1"

subsection \<open>Field checks\<close>

definition IsValidCurrency :: "ext \<Rightarrow> string \<Rightarrow> bool" where
  "IsValidCurrency X code =
     (if list_ex (\<lambda>c. let n = (of_char c :: nat) in n < 65 \<or> 90 < n) code then False
      else x_parse_iso X code)"

definition validateCurrency :: "ext \<Rightarrow> string \<Rightarrow> err option" where
  "validateCurrency X currency =
     (if \<not> IsValidCurrency X currency then Some ErrLimitInvalidCurrency else None)"

fun validateScopes_loop :: "Scope list \<Rightarrow> err option" where
  "validateScopes_loop [] = None"
| "validateScopes_loop (scope # rest) =
     (if Scope_IsEmpty scope then Some ErrLimitInvalidScope
      else if (case ScopeTransactionType scope of None \<Rightarrow> False
               | Some t \<Rightarrow> \<not> TransactionType_IsValid t) then Some ErrLimitInvalidScope
      else validateScopes_loop rest)"

definition validateScopes :: "Scope list \<Rightarrow> err option" where
  "validateScopes scopes =
     (if scopes = [] then Some ErrLimitInvalidScope else validateScopes_loop scopes)"

text \<open>The regular expression \<^verbatim>\<open>^[a-zA-Z0-9 \-_.()]+$\<close>.\<close>

definition safeName_char :: "char \<Rightarrow> bool" where
  "safeName_char c =
     (let n = (of_char c :: nat)
      in 97 \<le> n \<and> n \<le> 122 \<or> 65 \<le> n \<and> n \<le> 90 \<or> 48 \<le> n \<and> n \<le> 57
         \<or> c \<in> set '' -_.()'')"

definition safeNameRegex :: "string \<Rightarrow> bool" where
  "safeNameRegex s = (s \<noteq> [] \<and> list_all safeName_char s)"

text \<open>The regular expression \<^verbatim>\<open>^[^<>]*$\<close>.\<close>

definition safeDescriptionRegex :: "string \<Rightarrow> bool" where
  "safeDescriptionRegex s = list_all (\<lambda>c. c \<noteq> CHR ''<'' \<and> c \<noteq> CHR ''>'') s"

definition validateName :: "string \<Rightarrow> err option" where
  "validateName name =
     (if TrimSpace name = [] then Some ErrLimitNameRequired
      else if MaxNameLength < length name then Some ErrLimitNameTooLong
      else if \<not> safeNameRegex name then Some ErrLimitNameInvalidChars
      else None)"

definition validateMaxAmount :: "'d::linordered_ab_group_add \<Rightarrow> err option" where
  "validateMaxAmount maxAmount = (if maxAmount \<le> 0 then Some ErrLimitInvalidMaxAmount else None)"

definition validateDescription :: "string option \<Rightarrow> err option" where
  "validateDescription description =
     (case description of
        None \<Rightarrow> None
      | Some d \<Rightarrow>
          if MaxDescriptionLength < length d then Some ErrLimitDescriptionTooLong
          else if \<not> safeDescriptionRegex d then Some ErrLimitDescriptionInvalidChars
          else None)"

definition ValidateTimeWindow :: "TimeOfDay option \<Rightarrow> TimeOfDay option \<Rightarrow> err option" where
  "ValidateTimeWindow s e =
     (case (s, e) of
        (None, None) \<Rightarrow> None
      | (Some s', Some e') \<Rightarrow>
          if TimeOfDay_Equal s' e' then Some ErrLimitTimeWindowZeroWidth else None
      | _ \<Rightarrow> Some ErrLimitTimeWindowMismatch)"

definition ValidateCustomPeriod ::
  "LimitType \<Rightarrow> gotime option \<Rightarrow> gotime option \<Rightarrow> gotime \<Rightarrow> err option" where
  "ValidateCustomPeriod limitType startDate endDate now =
     (if limitType = LimitTypeCustom then
        (case (startDate, endDate) of
           (Some s, Some e) \<Rightarrow>
             if \<not> e > s then Some ErrLimitCustomDatesOrder
             else if e > AddDate s MaxCustomPeriodYears 0 0 then Some ErrLimitCustomPeriodTooLong
             else if e < Truncate now (24 * Hour_ns) then Some ErrLimitCustomPeriodExpired
             else None
         | _ \<Rightarrow> Some ErrLimitCustomDatesRequired)
      else if startDate \<noteq> None \<or> endDate \<noteq> None then Some ErrLimitCustomDatesNotAllowed
      else None)"

text \<open>The custom-period part of \<^verbatim>\<open>Limit.Validate\<close>, which has no expiry check.\<close>

definition Validate_custom :: "LimitType \<Rightarrow> gotime option \<Rightarrow> gotime option \<Rightarrow> err option" where
  "Validate_custom limitType startDate endDate =
     (if limitType = LimitTypeCustom then
        (case (startDate, endDate) of
           (Some s, Some e) \<Rightarrow>
             if \<not> e > s then Some ErrLimitCustomDatesOrder
             else if e > AddDate s MaxCustomPeriodYears 0 0 then Some ErrLimitCustomPeriodTooLong
             else None
         | _ \<Rightarrow> Some ErrLimitCustomDatesRequired)
      else if startDate \<noteq> None \<or> endDate \<noteq> None then Some ErrLimitCustomDatesNotAllowed
      else None)"

definition Limit_Validate :: "ext \<Rightarrow> ('d::linordered_ab_group_add) Limit \<Rightarrow> err option" where
  "Limit_Validate X l = first_error
     [validateName (l_Name l),
      validateDescription (l_Description l),
      (if \<not> LimitType_IsValid (l_LimitType l) then Some ErrLimitInvalidType else None),
      validateMaxAmount (l_MaxAmount l),
      validateCurrency X (l_Currency l),
      validateScopes (l_Scopes l),
      (if \<not> LimitStatus_IsValid (l_Status l) then Some ErrLimitInvalidStatusChange else None),
      ValidateTimeWindow (l_ActiveTimeStart l) (l_ActiveTimeEnd l),
      Validate_custom (l_LimitType l) (l_CustomStartDate l) (l_CustomEndDate l),
      (if l_Status l = LimitStatusDeleted \<and> l_DeletedAt l = None
       then Some ErrLimitDeletedAtInvariant else None),
      (if l_Status l \<noteq> LimitStatusDeleted \<and> l_DeletedAt l \<noteq> None
       then Some ErrLimitDeletedAtInvariant else None)]"

subsection \<open>Constructors\<close>

definition newLimitBase ::
  "ext \<Rightarrow> uuid \<Rightarrow> string \<Rightarrow> LimitType \<Rightarrow> 'd::linordered_ab_group_add \<Rightarrow> string \<Rightarrow> Scope list
   \<Rightarrow> string option \<Rightarrow> gotime \<Rightarrow> 'd Limit" where
  "newLimitBase X newID name limitType maxAmount currency scopes description createdAt =
     \<lparr>l_ID = newID, l_Name = TrimSpace name, l_Description = map_option TrimSpace description,
      l_LimitType = limitType, l_MaxAmount = maxAmount,
      l_Currency = ToUpper X (TrimSpace currency), l_Scopes = scopes,
      l_Status = LimitStatusDraft, l_ActiveTimeStart = None, l_ActiveTimeEnd = None,
      l_CustomStartDate = None, l_CustomEndDate = None, l_ResetAt = None,
      l_CreatedAt = createdAt, l_UpdatedAt = createdAt, l_DeletedAt = None\<rparr>"

definition validated :: "ext \<Rightarrow> ('d::linordered_ab_group_add) Limit \<Rightarrow> (err, 'd Limit) result" where
  "validated X l = (case Limit_Validate X l of Some e \<Rightarrow> Inl e | None \<Rightarrow> Inr l)"

definition NewLimit ::
  "ext \<Rightarrow> uuid \<Rightarrow> string \<Rightarrow> LimitType \<Rightarrow> 'd::linordered_ab_group_add \<Rightarrow> string \<Rightarrow> Scope list
   \<Rightarrow> string option \<Rightarrow> gotime \<Rightarrow> (err, 'd Limit) result" where
  "NewLimit X newID name limitType maxAmount currency scopes description createdAt =
     (let l = newLimitBase X newID name limitType maxAmount currency scopes description createdAt
      in validated X (l\<lparr>l_ResetAt := CalculateResetAt limitType createdAt\<rparr>))"

definition NewLimitWithTimeWindow ::
  "ext \<Rightarrow> uuid \<Rightarrow> string \<Rightarrow> LimitType \<Rightarrow> 'd::linordered_ab_group_add \<Rightarrow> string \<Rightarrow> Scope list
   \<Rightarrow> string option \<Rightarrow> string \<Rightarrow> string \<Rightarrow> gotime \<Rightarrow> (err, 'd Limit) result" where
  "NewLimitWithTimeWindow X newID name limitType maxAmount currency scopes description
       activeTimeStart activeTimeEnd createdAt =
     bind_result (NewTimeOfDay activeTimeStart) (\<lambda>startTime.
     bind_result (NewTimeOfDay activeTimeEnd) (\<lambda>endTime.
       case ValidateTimeWindow (Some startTime) (Some endTime) of
         Some e \<Rightarrow> Inl e
       | None \<Rightarrow>
           let l = newLimitBase X newID name limitType maxAmount currency scopes description
                     createdAt
           in validated X (l\<lparr>l_ActiveTimeStart := Some startTime, l_ActiveTimeEnd := Some endTime,
                l_ResetAt := CalculateResetAt limitType createdAt\<rparr>)))"

definition NewLimitWithCustomPeriod ::
  "ext \<Rightarrow> uuid \<Rightarrow> string \<Rightarrow> LimitType \<Rightarrow> 'd::linordered_ab_group_add \<Rightarrow> string \<Rightarrow> Scope list
   \<Rightarrow> string option \<Rightarrow> gotime \<Rightarrow> gotime \<Rightarrow> gotime \<Rightarrow> (err, 'd Limit) result" where
  "NewLimitWithCustomPeriod X newID name limitType maxAmount currency scopes description
       customStartDate customEndDate createdAt =
     (case ValidateCustomPeriod limitType (Some customStartDate) (Some customEndDate) createdAt of
        Some e \<Rightarrow> Inl e
      | None \<Rightarrow>
          let l = newLimitBase X newID name limitType maxAmount currency scopes description
                    createdAt
          in validated X (l\<lparr>l_CustomStartDate := Some customStartDate,
               l_CustomEndDate := Some customEndDate,
               l_ResetAt := Some (CalculateCustomResetAt customEndDate)\<rparr>))"

definition NewLimitWithCustomPeriodAndTimeWindow ::
  "ext \<Rightarrow> uuid \<Rightarrow> string \<Rightarrow> LimitType \<Rightarrow> 'd::linordered_ab_group_add \<Rightarrow> string \<Rightarrow> Scope list
   \<Rightarrow> string option \<Rightarrow> gotime \<Rightarrow> gotime \<Rightarrow> string \<Rightarrow> string \<Rightarrow> gotime \<Rightarrow> (err, 'd Limit) result" where
  "NewLimitWithCustomPeriodAndTimeWindow X newID name limitType maxAmount currency scopes
       description customStartDate customEndDate activeTimeStart activeTimeEnd createdAt =
     (case ValidateCustomPeriod limitType (Some customStartDate) (Some customEndDate) createdAt of
        Some e \<Rightarrow> Inl e
      | None \<Rightarrow>
          bind_result (NewTimeOfDay activeTimeStart) (\<lambda>startTime.
          bind_result (NewTimeOfDay activeTimeEnd) (\<lambda>endTime.
            case ValidateTimeWindow (Some startTime) (Some endTime) of
              Some e \<Rightarrow> Inl e
            | None \<Rightarrow>
                let l = newLimitBase X newID name limitType maxAmount currency scopes description
                          createdAt
                in validated X (l\<lparr>l_CustomStartDate := Some customStartDate,
                     l_CustomEndDate := Some customEndDate,
                     l_ResetAt := Some (CalculateCustomResetAt customEndDate),
                     l_ActiveTimeStart := Some startTime, l_ActiveTimeEnd := Some endTime\<rparr>))))"

subsection \<open>Update\<close>

text \<open>\<^verbatim>\<open>Limit.Update\<close> checks and assigns one group of fields after another. The state of the
  steps is the receiver and the flag \<^verbatim>\<open>updated\<close>; a failed step gives the receiver as it is then,
  with the error.\<close>

type_synonym 'd update_step = "('d Limit \<times> err, 'd Limit \<times> bool) result"

definition Update_name :: "string option \<Rightarrow> 'd Limit \<times> bool \<Rightarrow> 'd update_step" where
  "Update_name name st =
     (case name of None \<Rightarrow> Inr st
      | Some n \<Rightarrow>
          (case validateName (TrimSpace n) of
             Some e \<Rightarrow> Inl (fst st, e)
           | None \<Rightarrow> Inr ((fst st)\<lparr>l_Name := TrimSpace n\<rparr>, True)))"

definition Update_maxAmount ::
  "'d::linordered_ab_group_add option \<Rightarrow> 'd Limit \<times> bool \<Rightarrow> 'd update_step" where
  "Update_maxAmount maxAmount st =
     (case maxAmount of None \<Rightarrow> Inr st
      | Some m \<Rightarrow>
          (case validateMaxAmount m of
             Some e \<Rightarrow> Inl (fst st, e)
           | None \<Rightarrow> Inr ((fst st)\<lparr>l_MaxAmount := m\<rparr>, True)))"

definition Update_description :: "string option \<Rightarrow> 'd Limit \<times> bool \<Rightarrow> 'd update_step" where
  "Update_description description st =
     (case description of None \<Rightarrow> Inr st
      | Some d \<Rightarrow>
          (case validateDescription (Some (TrimSpace d)) of
             Some e \<Rightarrow> Inl (fst st, e)
           | None \<Rightarrow> Inr ((fst st)\<lparr>l_Description := Some (TrimSpace d)\<rparr>, True)))"

definition Update_scopes :: "Scope list option \<Rightarrow> 'd Limit \<times> bool \<Rightarrow> 'd update_step" where
  "Update_scopes scopes st =
     (case scopes of None \<Rightarrow> Inr st
      | Some ss \<Rightarrow>
          (case validateScopes ss of
             Some e \<Rightarrow> Inl (fst st, e)
           | None \<Rightarrow> Inr ((fst st)\<lparr>l_Scopes := ss\<rparr>, True)))"

definition Update_timeWindow ::
  "TimeOfDay option \<Rightarrow> TimeOfDay option \<Rightarrow> 'd Limit \<times> bool \<Rightarrow> 'd update_step" where
  "Update_timeWindow ts te st =
     (if ts \<noteq> None \<or> te \<noteq> None then
        (case ValidateTimeWindow ts te of
           Some e \<Rightarrow> Inl (fst st, e)
         | None \<Rightarrow> Inr ((fst st)\<lparr>l_ActiveTimeStart := ts, l_ActiveTimeEnd := te\<rparr>, True))
      else Inr st)"

definition Update_customPeriod ::
  "gotime option \<Rightarrow> gotime option \<Rightarrow> gotime \<Rightarrow> 'd Limit \<times> bool \<Rightarrow> 'd update_step" where
  "Update_customPeriod cs ce now st =
     (if cs \<noteq> None \<or> ce \<noteq> None then
        (case ValidateCustomPeriod (l_LimitType (fst st)) cs ce now of
           Some e \<Rightarrow> Inl (fst st, e)
         | None \<Rightarrow>
             let l = (fst st)\<lparr>l_CustomStartDate := cs, l_CustomEndDate := ce\<rparr>
             in Inr (case ce of
                       None \<Rightarrow> (l, True)
                     | Some e \<Rightarrow> (l\<lparr>l_ResetAt := Some (CalculateCustomResetAt e)\<rparr>, True)))
      else Inr st)"

definition Limit_Update ::
  "('d::linordered_ab_group_add) Limit \<Rightarrow> string option \<Rightarrow> 'd option \<Rightarrow> string option
   \<Rightarrow> Scope list option \<Rightarrow> TimeOfDay option \<Rightarrow> TimeOfDay option \<Rightarrow> gotime option \<Rightarrow> gotime option
   \<Rightarrow> gotime \<Rightarrow> 'd Limit \<times> err option" where
  "Limit_Update l name maxAmount description scopes ts te cs ce now =
     (case
        bind_result (Update_name name (l, False)) (\<lambda>st.
        bind_result (Update_maxAmount maxAmount st) (\<lambda>st.
        bind_result (Update_description description st) (\<lambda>st.
        bind_result (Update_scopes scopes st) (\<lambda>st.
        bind_result (Update_timeWindow ts te st) (\<lambda>st.
          Update_customPeriod cs ce now st)))))
      of
        Inl (l', e) \<Rightarrow> (l', Some e)
      | Inr (l', updated) \<Rightarrow> (if updated then l'\<lparr>l_UpdatedAt := now\<rparr> else l', None))"

subsection \<open>Status, time window and custom period\<close>

definition Limit_SetStatus ::
  "'d Limit \<Rightarrow> LimitStatus \<Rightarrow> gotime \<Rightarrow> (err, 'd Limit) result" where
  "Limit_SetStatus l status now =
     (if \<not> LimitStatus_IsValid status then Inl ErrLimitInvalidStatusChange
      else if l_Status l = status then Inr l
      else if \<not> limit_can_transition (l_Status l) status then Inl ErrLimitInvalidStatusChange
      else Inr (l\<lparr>l_Status := status, l_UpdatedAt := now,
                  l_DeletedAt := (if status = LimitStatusDeleted then Some now else None)\<rparr>))"

definition Limit_IsActive :: "'d Limit \<Rightarrow> bool" where
  "Limit_IsActive l = (l_Status l = LimitStatusActive)"

definition IsWithinTimeWindow :: "'d Limit \<Rightarrow> gotime \<Rightarrow> bool" where
  "IsWithinTimeWindow l timestamp =
     (case (l_ActiveTimeStart l, l_ActiveTimeEnd l) of
        (Some s, Some e) \<Rightarrow>
          let currentMins = Hour timestamp * 60 + Minute timestamp;
              startMins = MinutesSinceMidnight s;
              endMins = MinutesSinceMidnight e
          in if startMins < endMins then currentMins \<ge> startMins \<and> currentMins < endMins
             else currentMins \<ge> startMins \<or> currentMins < endMins
      | _ \<Rightarrow> True)"

definition IsWithinCustomPeriod :: "'d Limit \<Rightarrow> gotime \<Rightarrow> bool" where
  "IsWithinCustomPeriod l timestamp =
     (if l_LimitType l \<noteq> LimitTypeCustom then True
      else case (l_CustomStartDate l, l_CustomEndDate l) of
          (Some s, Some e) \<Rightarrow> \<not> timestamp < s \<and> timestamp < e
        | _ \<Rightarrow> True)"

subsection \<open>What the checks mean\<close>

lemma validateScopes_loop_None:
  "validateScopes_loop ss = None \<longleftrightarrow>
     (\<forall>s \<in> set ss. \<not> Scope_IsEmpty s
        \<and> (\<forall>t. ScopeTransactionType s = Some t \<longrightarrow> TransactionType_IsValid t))"
  by (induction ss) (auto split: option.splits)

lemma validateScopes_None:
  "validateScopes ss = None \<longleftrightarrow>
     ss \<noteq> [] \<and> (\<forall>s \<in> set ss. \<not> Scope_IsEmpty s
        \<and> (\<forall>t. ScopeTransactionType s = Some t \<longrightarrow> TransactionType_IsValid t))"
  by (simp add: validateScopes_def validateScopes_loop_None)

lemma ValidateTimeWindow_None:
  "ValidateTimeWindow s e = None \<longleftrightarrow>
     s = None \<and> e = None
     \<or> (\<exists>s' e'. s = Some s' \<and> e = Some e' \<and> \<not> TimeOfDay_Equal s' e')"
  by (cases s; cases e) (auto simp: ValidateTimeWindow_def)

lemma Validate_custom_None:
  "Validate_custom t s e = None \<longleftrightarrow>
     (if t = LimitTypeCustom
      then (\<exists>s' e'. s = Some s' \<and> e = Some e' \<and> s' < e'
              \<and> e' \<le> AddDate s' MaxCustomPeriodYears 0 0)
      else s = None \<and> e = None)"
  by (cases s; cases e) (auto simp: Validate_custom_def)

lemma ValidateCustomPeriod_custom:
  "ValidateCustomPeriod t s e now = None \<Longrightarrow> Validate_custom t s e = None"
  by (auto simp: ValidateCustomPeriod_def Validate_custom_def split: if_splits option.splits)

lemma Limit_Validate_None:
  "Limit_Validate X l = None \<longleftrightarrow>
     validateName (l_Name l) = None \<and> validateDescription (l_Description l) = None
     \<and> LimitType_IsValid (l_LimitType l) \<and> 0 < l_MaxAmount l
     \<and> IsValidCurrency X (l_Currency l) \<and> validateScopes (l_Scopes l) = None
     \<and> LimitStatus_IsValid (l_Status l)
     \<and> ValidateTimeWindow (l_ActiveTimeStart l) (l_ActiveTimeEnd l) = None
     \<and> Validate_custom (l_LimitType l) (l_CustomStartDate l) (l_CustomEndDate l) = None
     \<and> (l_Status l = LimitStatusDeleted \<longleftrightarrow> l_DeletedAt l \<noteq> None)"
  by (auto simp: Limit_Validate_def validateMaxAmount_def validateCurrency_def split: if_splits)

lemma validated_Inr [simp]: "validated X l = Inr l' \<longleftrightarrow> l' = l \<and> Limit_Validate X l = None"
  by (auto simp: validated_def split: option.splits)

subsection \<open>Every operation keeps a valid limit valid\<close>

text \<open>The fields no operation but the constructors sets.\<close>

definition same_identity :: "'d Limit \<Rightarrow> 'd Limit \<Rightarrow> bool" where
  "same_identity l l' =
     (l_ID l' = l_ID l \<and> l_LimitType l' = l_LimitType l \<and> l_Currency l' = l_Currency l
      \<and> l_CreatedAt l' = l_CreatedAt l)"

lemma same_identity_refl [simp]: "same_identity l l"
  by (simp add: same_identity_def)

lemma same_identity_trans: "same_identity a b \<Longrightarrow> same_identity b c \<Longrightarrow> same_identity a c"
  by (simp add: same_identity_def)

text \<open>What a step of the update keeps: validity, the identity fields, the status and the
  timestamps that only the end of the update sets.\<close>

definition kept :: "ext \<Rightarrow> ('d::linordered_ab_group_add) Limit \<Rightarrow> 'd Limit \<Rightarrow> bool" where
  "kept X l l' =
     ((Limit_Validate X l = None \<longrightarrow> Limit_Validate X l' = None) \<and> same_identity l l'
      \<and> l_Status l' = l_Status l \<and> l_DeletedAt l' = l_DeletedAt l
      \<and> l_UpdatedAt l' = l_UpdatedAt l)"

lemma kept_refl: "kept X l l"
  by (simp add: kept_def)

lemma kept_trans: "kept X a b \<Longrightarrow> kept X b c \<Longrightarrow> kept X a c"
  unfolding kept_def by (metis same_identity_trans)

definition step_kept :: "ext \<Rightarrow> ('d::linordered_ab_group_add) Limit \<Rightarrow> 'd update_step \<Rightarrow> bool" where
  "step_kept X l r = (case r of Inl (l', e) \<Rightarrow> kept X l l' | Inr (l', u) \<Rightarrow> kept X l l')"

lemma step_kept_Inr: "step_kept X l (Inr (l, u))"
  by (simp add: step_kept_def kept_refl)

lemma step_kept_bind:
  assumes "step_kept X l r" "\<And>l' u. r = Inr (l', u) \<Longrightarrow> step_kept X l' (f (l', u))"
  shows "step_kept X l (bind_result r f)"
proof (cases r)
  case (Inl a)
  then show ?thesis using assms(1) by simp
next
  case (Inr b)
  obtain l' u where b: "b = (l', u)" by (cases b)
  have "kept X l l'" using assms(1) Inr b by (simp add: step_kept_def)
  with assms(2) [of l' u] Inr b show ?thesis
    by (auto simp: step_kept_def split: sum.splits intro: kept_trans)
qed

lemmas step_kept_defs = step_kept_def kept_def same_identity_def Limit_Validate_None

lemma Update_name_kept: "step_kept X l (Update_name name (l, u))"
  by (auto simp: Update_name_def step_kept_defs split: option.splits)

lemma Update_maxAmount_kept: "step_kept X l (Update_maxAmount m (l, u))"
  by (auto simp: Update_maxAmount_def step_kept_defs validateMaxAmount_def
      split: option.splits if_splits)

lemma Update_description_kept: "step_kept X l (Update_description d (l, u))"
  by (auto simp: Update_description_def step_kept_defs split: option.splits)

lemma Update_scopes_kept: "step_kept X l (Update_scopes ss (l, u))"
  by (auto simp: Update_scopes_def step_kept_defs split: option.splits)

lemma Update_timeWindow_kept: "step_kept X l (Update_timeWindow ts te (l, u))"
  by (auto simp: Update_timeWindow_def step_kept_defs split: option.splits)

lemma Update_customPeriod_kept: "step_kept X l (Update_customPeriod cs ce now (l, u))"
  by (auto simp: Update_customPeriod_def step_kept_defs Let_def
      split: option.splits dest: ValidateCustomPeriod_custom)

lemma Limit_Update_cases:
  assumes "Limit_Update l name m d ss ts te cs ce now = (l', r)"
  obtains l'' where "kept X l l''" "l' = l'' \<or> r = None \<and> l' = l''\<lparr>l_UpdatedAt := now\<rparr>"
proof -
  let ?r = "bind_result (Update_name name (l, False)) (\<lambda>st.
        bind_result (Update_maxAmount m st) (\<lambda>st.
        bind_result (Update_description d st) (\<lambda>st.
        bind_result (Update_scopes ss st) (\<lambda>st.
        bind_result (Update_timeWindow ts te st) (\<lambda>st.
          Update_customPeriod cs ce now st)))))"
  have "step_kept X l ?r"
    by (intro step_kept_bind Update_name_kept Update_maxAmount_kept Update_description_kept
        Update_scopes_kept Update_timeWindow_kept Update_customPeriod_kept)
  then show thesis
    using assms that
    by (cases ?r) (auto simp: Limit_Update_def step_kept_def split: prod.splits if_splits)
qed

lemma UpdatedAt_irrelevant [simp]:
  "Limit_Validate X (l\<lparr>l_UpdatedAt := t\<rparr>) = Limit_Validate X l"
  by (simp add: Limit_Validate_def)

lemma Limit_Update_frame:
  assumes "Limit_Update l name m d ss ts te cs ce now = (l', r)"
  shows "same_identity l l' \<and> l_Status l' = l_Status l \<and> l_DeletedAt l' = l_DeletedAt l"
  using assms
  by (rule Limit_Update_cases [where X = "undefined :: ext"])
    (auto simp: kept_def same_identity_def)

lemma Limit_Update_Validate:
  assumes "Limit_Update l name m d ss ts te cs ce now = (l', r)" "Limit_Validate X l = None"
  shows "Limit_Validate X l' = None"
  using assms(1) by (rule Limit_Update_cases [where X = X]) (use assms(2) in \<open>auto simp: kept_def\<close>)

lemma Limit_SetStatus_Inr:
  "Limit_SetStatus l s now = Inr l' \<longleftrightarrow>
     LimitStatus_IsValid s
     \<and> (l_Status l = s \<and> l' = l
        \<or> limit_can_transition (l_Status l) s
          \<and> l' = l\<lparr>l_Status := s, l_UpdatedAt := now,
                   l_DeletedAt := (if s = LimitStatusDeleted then Some now else None)\<rparr>)"
  using limit_sm.irreflexive [of s] by (auto simp: Limit_SetStatus_def)

lemma Limit_SetStatus_Validate:
  assumes "Limit_SetStatus l s now = Inr l'" "Limit_Validate X l = None"
  shows "Limit_Validate X l' = None"
proof (cases "l_Status l = s")
  case True
  with assms show ?thesis using limit_sm.irreflexive [of s] by (auto simp: Limit_SetStatus_Inr)
next
  case False
  with assms(1) have l': "LimitStatus_IsValid s"
    "l' = l\<lparr>l_Status := s, l_UpdatedAt := now,
       l_DeletedAt := (if s = LimitStatusDeleted then Some now else None)\<rparr>"
    by (auto simp: Limit_SetStatus_Inr)
  then show ?thesis
    using assms(2) by (cases "s = LimitStatusDeleted") (simp_all add: Limit_Validate_None)
qed

interpretation limit_setter: status_setter limit_can_transition LimitStatus_IsValid
  LimitStatusDraft LimitStatusActive LimitStatusInactive LimitStatusDeleted
  l_Status Limit_SetStatus
proof (standard, goal_cases)
  case (1 s r now)
  then show ?case by (simp add: Limit_SetStatus_def)
next
  case (2 r s now)
  then show ?case
    using limit_sm.can_valid [of "l_Status r" s] by (auto simp: Limit_SetStatus_def)
next
  case (3 s r now)
  then show ?case by (auto simp: Limit_SetStatus_def)
qed

lemma newLimitBase_draft:
  "l_Status (newLimitBase X i n t m c ss d at) = LimitStatusDraft"
  "l_LimitType (newLimitBase X i n t m c ss d at) = t"
  "l_CreatedAt (newLimitBase X i n t m c ss d at) = at"
  "l_UpdatedAt (newLimitBase X i n t m c ss d at) = at"
  "l_ID (newLimitBase X i n t m c ss d at) = i"
  by (simp_all add: newLimitBase_def)

subsection \<open>The active time window\<close>

definition minute_of_day :: "gotime \<Rightarrow> int" where
  "minute_of_day t = Hour t * 60 + Minute t"

lemma minute_of_day_range: "0 \<le> minute_of_day t \<and> minute_of_day t < 1440"
  using Hour_range [of t] Minute_range [of t] by (simp add: minute_of_day_def)

text \<open>On the clock face of 1440 minutes both branches of the test are one: the minutes passed
  since the start are fewer than the minutes from the start to the end.\<close>

lemma clock_interval:
  fixes c s e :: int
  assumes "0 \<le> c" "c < 1440" "0 \<le> s" "s < 1440" "0 \<le> e" "e < 1440" "s \<noteq> e"
  shows "(if s < e then c \<ge> s \<and> c < e else c \<ge> s \<or> c < e) \<longleftrightarrow>
    (c - s) mod 1440 < (e - s) mod 1440"
proof -
  have wrap: "x mod 1440 = (if 0 \<le> x then x else x + 1440)"
    if "-1440 < x" "x < 1440" for x :: int
  proof (cases "0 \<le> x")
    case False
    then have "(x + 1440) mod 1440 = x + 1440" using that by (intro mod_pos_pos_trivial) auto
    with False show ?thesis by simp
  qed (use that in simp)
  show ?thesis using assms by (auto simp: wrap)
qed

lemma IsWithinTimeWindow_clock:
  assumes "l_ActiveTimeStart l = Some s" "l_ActiveTimeEnd l = Some e" "tod_ok s" "tod_ok e"
    "s \<noteq> e"
  shows "IsWithinTimeWindow l t \<longleftrightarrow>
    (minute_of_day t - MinutesSinceMidnight s) mod 1440
      < (MinutesSinceMidnight e - MinutesSinceMidnight s) mod 1440"
proof -
  have "MinutesSinceMidnight s \<noteq> MinutesSinceMidnight e"
    using assms MinutesSinceMidnight_inj by blast
  then show ?thesis
    using clock_interval [of "minute_of_day t" "MinutesSinceMidnight s" "MinutesSinceMidnight e"]
      minute_of_day_range [of t] MinutesSinceMidnight_range [of s] MinutesSinceMidnight_range [of e]
      assms
    by (simp add: IsWithinTimeWindow_def Let_def flip: minute_of_day_def)
qed

end
