(* ===== verification/Rules.thy ===== *)
theory Rules
  imports Limits
begin

text \<open>
  The entity \<^verbatim>\<open>Rule\<close> of \<^verbatim>\<open>pkg/model/rule.go\<close>: constructor, atomic update, status
  and action changes. \<^verbatim>\<open>CompiledProgram\<close> is the transient field through which the cache hands
  the compiled expression (of type \<open>'p\<close>, a value of the CEL library) to the evaluator. The deep
  copies of scopes are copies of values and leave no trace here.
\<close>

record 'p Rule =
  r_ID :: uuid
  r_Name :: string
  r_Description :: "string option"
  r_Expression :: string
  r_Action :: Decision
  r_Scopes :: "Scope list"
  r_Status :: RuleStatus
  r_CreatedAt :: gotime
  r_UpdatedAt :: gotime
  r_ActivatedAt :: "gotime option"
  r_DeactivatedAt :: "gotime option"
  r_DeletedAt :: "gotime option"
  r_CompiledProgram :: "'p option"

definition MaxRuleNameLength :: nat where "MaxRuleNameLength = 255"
definition MaxRuleExpressionLength :: nat where "MaxRuleExpressionLength = 5000"

fun copyScopes :: "Scope list \<Rightarrow> (err, Scope list) result" where
  "copyScopes [] = Inr []"
| "copyScopes (scope # rest) =
     (if Scope_IsEmpty scope then Inl ErrRuleInvalidScope
      else bind_result (copyScopes rest) (\<lambda>copied. Inr (scope # copied)))"

definition NewRule ::
  "uuid \<Rightarrow> string \<Rightarrow> string \<Rightarrow> Decision \<Rightarrow> Scope list \<Rightarrow> string option \<Rightarrow> gotime
   \<Rightarrow> (err, 'p Rule) result" where
  "NewRule newID name expression action scopes description createdAt =
     (let normalizedName = TrimSpace name;
          normalizedExpression = TrimSpace expression;
          normalizedDescription = map_option TrimSpace description
      in if normalizedName = [] then Inl ErrRuleNameRequired
         else if MaxRuleNameLength < length normalizedName then Inl ErrRuleNameTooLong
         else if normalizedExpression = [] then Inl ErrRuleExpressionRequired
         else if MaxRuleExpressionLength < length normalizedExpression
           then Inl ErrRuleExpressionTooLong
         else if \<not> Decision_IsValid action then Inl ErrRuleInvalidAction
         else if (case normalizedDescription of None \<Rightarrow> False
                  | Some d \<Rightarrow> MaxDescriptionLength < length d) then Inl ErrRuleDescriptionTooLong
         else bind_result (copyScopes scopes) (\<lambda>scopesCopy. Inr
           \<lparr>r_ID = newID, r_Name = normalizedName, r_Description = normalizedDescription,
            r_Expression = normalizedExpression, r_Action = action, r_Scopes = scopesCopy,
            r_Status = RuleStatusDraft, r_CreatedAt = createdAt, r_UpdatedAt = createdAt,
            r_ActivatedAt = None, r_DeactivatedAt = None, r_DeletedAt = None,
            r_CompiledProgram = None\<rparr>))"

text \<open>\<^verbatim>\<open>Rule.Update\<close> checks every given field before it assigns any; \<open>Rule_Update_checks\<close> is
  the first half of the method, in its order.\<close>

definition Rule_Update_checks ::
  "string option \<Rightarrow> string option \<Rightarrow> string option \<Rightarrow> Scope list option \<Rightarrow> err option" where
  "Rule_Update_checks name expression description scopes = first_error
     [case name of None \<Rightarrow> None
      | Some n \<Rightarrow> if TrimSpace n = [] then Some ErrRuleNameRequired
          else if MaxRuleNameLength < length (TrimSpace n) then Some ErrRuleNameTooLong else None,
      case expression of None \<Rightarrow> None
      | Some e \<Rightarrow> if TrimSpace e = [] then Some ErrRuleExpressionRequired
          else if MaxRuleExpressionLength < length (TrimSpace e) then Some ErrRuleExpressionTooLong
          else None,
      case description of None \<Rightarrow> None
      | Some d \<Rightarrow> if MaxDescriptionLength < length (TrimSpace d)
          then Some ErrRuleDescriptionTooLong else None,
      case scopes of None \<Rightarrow> None
      | Some ss \<Rightarrow> if list_ex Scope_IsEmpty ss then Some ErrRuleInvalidScope else None]"

definition Rule_Update ::
  "'p Rule \<Rightarrow> string option \<Rightarrow> string option \<Rightarrow> string option \<Rightarrow> Scope list option \<Rightarrow> gotime
   \<Rightarrow> (err, 'p Rule) result" where
  "Rule_Update r name expression description scopes now =
     (case Rule_Update_checks name expression description scopes of
        Some e \<Rightarrow> Inl e
      | None \<Rightarrow>
          let r1 = (case name of None \<Rightarrow> r | Some n \<Rightarrow> r\<lparr>r_Name := TrimSpace n\<rparr>);
              r2 = (case expression of None \<Rightarrow> r1 | Some e \<Rightarrow> r1\<lparr>r_Expression := TrimSpace e\<rparr>);
              r3 = (case description of None \<Rightarrow> r2
                    | Some d \<Rightarrow> r2\<lparr>r_Description := Some (TrimSpace d)\<rparr>);
              r4 = (case scopes of None \<Rightarrow> r3 | Some ss \<Rightarrow> r3\<lparr>r_Scopes := ss\<rparr>);
              updated = (name \<noteq> None \<or> expression \<noteq> None \<or> description \<noteq> None \<or> scopes \<noteq> None)
          in Inr (if updated then r4\<lparr>r_UpdatedAt := now\<rparr> else r4))"

definition Rule_SetStatus :: "'p Rule \<Rightarrow> RuleStatus \<Rightarrow> gotime \<Rightarrow> (err, 'p Rule) result" where
  "Rule_SetStatus r status now =
     (if \<not> RuleStatus_IsValid status then Inl ErrRuleInvalidStatus
      else if r_Status r = status then Inr r
      else if \<not> CanTransitionTo (r_Status r) status
        then Inl (NewInvalidTransitionError (r_Status r) status)
      else let r' = r\<lparr>r_Status := status, r_UpdatedAt := now\<rparr>
        in Inr (case status of
             RuleStatusActive \<Rightarrow>
               r'\<lparr>r_ActivatedAt := Some now, r_DeactivatedAt := None, r_DeletedAt := None\<rparr>
           | RuleStatusInactive \<Rightarrow> r'\<lparr>r_DeactivatedAt := Some now, r_DeletedAt := None\<rparr>
           | RuleStatusDeleted \<Rightarrow> r'\<lparr>r_DeletedAt := Some now\<rparr>
           | RuleStatusDraft \<Rightarrow>
               r'\<lparr>r_ActivatedAt := None, r_DeactivatedAt := None, r_DeletedAt := None\<rparr>
           | RuleStatusOther s \<Rightarrow> r'))"

definition Rule_SetAction :: "'p Rule \<Rightarrow> Decision \<Rightarrow> gotime \<Rightarrow> (err, 'p Rule) result" where
  "Rule_SetAction r action now =
     (if \<not> Decision_IsValid action then Inl ErrRuleInvalidAction
      else if r_Action r = action then Inr r
      else Inr (r\<lparr>r_Action := action, r_UpdatedAt := now\<rparr>))"

subsection \<open>The invariant of rules\<close>

text \<open>The timestamps a rule of each status has: a draft has none, an active rule was activated and
  not deactivated, an inactive one was both, a deleted one was deleted.\<close>

definition rule_times :: "'p Rule \<Rightarrow> bool" where
  "rule_times r =
     (case r_Status r of
        RuleStatusDraft \<Rightarrow> r_ActivatedAt r = None \<and> r_DeactivatedAt r = None \<and> r_DeletedAt r = None
      | RuleStatusActive \<Rightarrow> r_ActivatedAt r \<noteq> None \<and> r_DeactivatedAt r = None \<and> r_DeletedAt r = None
      | RuleStatusInactive \<Rightarrow>
          r_ActivatedAt r \<noteq> None \<and> r_DeactivatedAt r \<noteq> None \<and> r_DeletedAt r = None
      | RuleStatusDeleted \<Rightarrow>
          r_DeletedAt r \<noteq> None \<and> (r_ActivatedAt r = None \<longleftrightarrow> r_DeactivatedAt r = None)
      | RuleStatusOther s \<Rightarrow> False)"

definition rule_fields :: "'p Rule \<Rightarrow> bool" where
  "rule_fields r =
     (r_Name r \<noteq> [] \<and> TrimSpace (r_Name r) = r_Name r \<and> length (r_Name r) \<le> MaxRuleNameLength
      \<and> r_Expression r \<noteq> [] \<and> TrimSpace (r_Expression r) = r_Expression r
      \<and> length (r_Expression r) \<le> MaxRuleExpressionLength
      \<and> Decision_IsValid (r_Action r)
      \<and> (\<forall>d. r_Description r = Some d \<longrightarrow> length d \<le> MaxDescriptionLength)
      \<and> (\<forall>s \<in> set (r_Scopes r). \<not> Scope_IsEmpty s))"

definition rule_ok :: "'p Rule \<Rightarrow> bool" where
  "rule_ok r = (rule_fields r \<and> rule_times r)"

lemma rule_ok_valid: "rule_ok r \<Longrightarrow> RuleStatus_IsValid (r_Status r)"
  by (cases "r_Status r") (auto simp: rule_ok_def rule_times_def)

lemma copyScopes_Inr [simp]:
  "copyScopes ss = Inr ss' \<longleftrightarrow> ss' = ss \<and> (\<forall>s \<in> set ss. \<not> Scope_IsEmpty s)"
  by (induction ss arbitrary: ss') (auto simp: bind_result_Inr_iff)

lemma NewRule_ok:
  assumes "NewRule i name expr action scopes desc at = Inr r"
  shows "rule_ok r" "r_Status r = RuleStatusDraft" "r_ID r = i" "r_CreatedAt r = at"
    "r_UpdatedAt r = at" "r_Scopes r = scopes" "r_Action r = action"
  using assms
  by (auto simp: NewRule_def Let_def rule_ok_def rule_fields_def rule_times_def
      bind_result_Inr_iff not_less split: if_splits option.splits)

lemma Rule_Update_checks_None:
  "Rule_Update_checks name expr desc scopes = None \<longleftrightarrow>
     (\<forall>n. name = Some n \<longrightarrow> TrimSpace n \<noteq> [] \<and> length (TrimSpace n) \<le> MaxRuleNameLength)
     \<and> (\<forall>e. expr = Some e \<longrightarrow> TrimSpace e \<noteq> [] \<and> length (TrimSpace e) \<le> MaxRuleExpressionLength)
     \<and> (\<forall>d. desc = Some d \<longrightarrow> length (TrimSpace d) \<le> MaxDescriptionLength)
     \<and> (\<forall>ss. scopes = Some ss \<longrightarrow> (\<forall>s \<in> set ss. \<not> Scope_IsEmpty s))"
  by (cases name; cases expr; cases desc; cases scopes)
    (auto simp: Rule_Update_checks_def list_ex_iff)

lemma Rule_Update_Inr:
  "Rule_Update r name expr desc scopes now = Inr r' \<longleftrightarrow>
     Rule_Update_checks name expr desc scopes = None
     \<and> r' = r\<lparr>r_Name := (case name of None \<Rightarrow> r_Name r | Some n \<Rightarrow> TrimSpace n),
              r_Description := (case desc of None \<Rightarrow> r_Description r
                                | Some d \<Rightarrow> Some (TrimSpace d)),
              r_Expression := (case expr of None \<Rightarrow> r_Expression r | Some e \<Rightarrow> TrimSpace e),
              r_Scopes := (case scopes of None \<Rightarrow> r_Scopes r | Some ss \<Rightarrow> ss),
              r_UpdatedAt := (if name \<noteq> None \<or> expr \<noteq> None \<or> desc \<noteq> None \<or> scopes \<noteq> None
                              then now else r_UpdatedAt r)\<rparr>"
  by (cases "Rule_Update_checks name expr desc scopes"; cases name; cases expr; cases desc;
      cases scopes) (auto simp: Rule_Update_def Let_def)

lemma Rule_Update_ok:
  assumes "Rule_Update r name expr desc scopes now = Inr r'" "rule_ok r"
  shows "rule_ok r'"
  using assms
  by (cases "r_Status r")
    (auto simp: Rule_Update_Inr Rule_Update_checks_None rule_ok_def rule_fields_def rule_times_def
      split: option.splits)

lemma Rule_SetStatus_Inr:
  "Rule_SetStatus r s now = Inr r' \<Longrightarrow> r_Status r = s \<and> r' = r \<or> CanTransitionTo (r_Status r) s"
  by (auto simp: Rule_SetStatus_def split: if_splits)

lemma Rule_SetStatus_ok:
  assumes "Rule_SetStatus r s now = Inr r'" "rule_ok r"
  shows "rule_ok r'"
  using assms
  by (cases s; cases "r_Status r")
    (auto simp: Rule_SetStatus_def rule_ok_def rule_fields_def rule_times_def Let_def status_defs
      split: if_splits)

lemma Rule_SetStatus_frame:
  assumes "Rule_SetStatus r s now = Inr r'"
  shows "r_ID r' = r_ID r" "r_Name r' = r_Name r" "r_Expression r' = r_Expression r"
    "r_Action r' = r_Action r" "r_Scopes r' = r_Scopes r" "r_CreatedAt r' = r_CreatedAt r"
    "r_Description r' = r_Description r" "r_CompiledProgram r' = r_CompiledProgram r"
  using assms by (auto simp: Rule_SetStatus_def Let_def split: if_splits RuleStatus.splits)

lemma Rule_SetAction_ok:
  "Rule_SetAction r a now = Inr r' \<Longrightarrow> rule_ok r \<Longrightarrow> rule_ok r'"
  by (cases "r_Status r")
    (auto simp: Rule_SetAction_def rule_ok_def rule_fields_def rule_times_def split: if_splits)

interpretation rule_setter: status_setter CanTransitionTo RuleStatus_IsValid
  RuleStatusDraft RuleStatusActive RuleStatusInactive RuleStatusDeleted
  r_Status Rule_SetStatus
proof (standard, goal_cases)
  case (1 s r now)
  then show ?case by (simp add: Rule_SetStatus_def)
next
  case (2 r s now)
  then have "RuleStatus_IsValid s" "r_Status r \<noteq> s"
    using rule_sm.can_valid [of "r_Status r" s] rule_sm.irreflexive [of s] by auto
  with 2 show ?case by (cases s) (auto simp: Rule_SetStatus_def Let_def)
next
  case (3 s r now)
  then show ?case by (auto simp: Rule_SetStatus_def)
qed

text \<open>Any sequence of attempts to change the status keeps the invariant.\<close>

lemma attempts_rule_ok: "rule_ok r \<Longrightarrow> rule_ok (attempts Rule_SetStatus r xs)"
proof (induction xs arbitrary: r)
  case (Cons x xs)
  obtain s now where x: "x = (s, now)" by (cases x)
  show ?case
    using Cons Rule_SetStatus_ok [of r s now] unfolding x
    by (cases "Rule_SetStatus r s now") simp_all
qed simp

end
