(* ===== verification/Periods.thy ===== *)
theory Periods
  imports Limits "HOL-Library.Char_ord" "HOL-Library.List_Lexorder"
begin

text \<open>
  The keys of usage counters (\<^verbatim>\<open>CalculatePeriodKey\<close> and \<^verbatim>\<open>CalculateScopeKey\<close> of
  \<^verbatim>\<open>pkg/model/check_limits.go\<close>) and their expiry (\<^verbatim>\<open>calculateCounterExpiresAt\<close> of
  \<^verbatim>\<open>internal/services/query/limit_checker.go\<close>). The lemmas relate the text of a period key to the
  reset time of the limit: the key of a later instant is the same exactly until the reset.
\<close>

definition CounterRetentionDays :: int where "CounterRetentionDays = 90"
definition GlobalScopeKey :: string where "GlobalScopeKey = ''global''"

definition LimitType_String :: "LimitType \<Rightarrow> string" where
  "LimitType_String t =
     (case t of
        LimitTypeDaily \<Rightarrow> ''DAILY''
      | LimitTypeMonthly \<Rightarrow> ''MONTHLY''
      | LimitTypePerTransaction \<Rightarrow> ''PER_TRANSACTION''
      | LimitTypeWeekly \<Rightarrow> ''WEEKLY''
      | LimitTypeCustom \<Rightarrow> ''CUSTOM''
      | LimitTypeOther s \<Rightarrow> s)"

definition CalculatePeriodKey :: "LimitType \<Rightarrow> gotime \<Rightarrow> (err, string) result" where
  "CalculatePeriodKey limitType timestamp =
     (case limitType of
        LimitTypeDaily \<Rightarrow> Inr (Format_date timestamp)
      | LimitTypeMonthly \<Rightarrow> Inr (Format_month timestamp)
      | LimitTypeWeekly \<Rightarrow>
          (case ISOWeek (dayno timestamp) of (year, week) \<Rightarrow>
             Inr (show_int year @ ''-W'' @ show_pad 2 week))
      | LimitTypeCustom \<Rightarrow> Inr ''custom''
      | LimitTypePerTransaction \<Rightarrow> Inr []
      | LimitTypeOther s \<Rightarrow> Inl (Wrap (LimitType_String limitType) ErrCheckLimitsUnknownLimitType))"

definition scope_key_parts :: "ext \<Rightarrow> Scope \<Rightarrow> string list" where
  "scope_key_parts X scope =
     (case AccountID scope of None \<Rightarrow> [] | Some i \<Rightarrow> [''acct:'' @ x_uuid_string X i])
     @ (case PortfolioID scope of None \<Rightarrow> [] | Some i \<Rightarrow> [''port:'' @ x_uuid_string X i])
     @ (case SegmentID scope of None \<Rightarrow> [] | Some i \<Rightarrow> [''seg:'' @ x_uuid_string X i])
     @ (case MerchantID scope of None \<Rightarrow> [] | Some i \<Rightarrow> [''merch:'' @ x_uuid_string X i])"

definition CalculateScopeKey :: "ext \<Rightarrow> Scope option \<Rightarrow> string" where
  "CalculateScopeKey X scope =
     (case scope of
        None \<Rightarrow> GlobalScopeKey
      | Some s \<Rightarrow>
          if Scope_IsEmpty s then GlobalScopeKey
          else join_strings ''|'' (sort (scope_key_parts X s)))"

definition calculateCounterExpiresAt ::
  "LimitType \<Rightarrow> gotime option \<Rightarrow> gotime option \<Rightarrow> gotime option" where
  "calculateCounterExpiresAt limitType resetAt customEndDate =
     (if limitType \<in> {LimitTypeDaily, LimitTypeWeekly, LimitTypeMonthly} then
        (case resetAt of None \<Rightarrow> None | Some r \<Rightarrow> Some (AddDate r 0 0 CounterRetentionDays))
      else if limitType = LimitTypeCustom then
        (case customEndDate of None \<Rightarrow> None | Some e \<Rightarrow> Some (AddDate e 0 0 CounterRetentionDays))
      else None)"

subsection \<open>The texts of keys are injective\<close>

lemma pad_left_chars: "c \<in> set (pad_left w (nat_digits n)) \<Longrightarrow> \<exists>d < 10. c = digit d"
  using nat_digits_chars [of c n] by (auto simp: pad_left_def intro: exI [of _ 0])

lemma pad_left_no_minus: "CHR ''-'' \<notin> set (pad_left w (nat_digits n))"
  using pad_left_chars digit_neq_minus by metis

lemma show_pad_inj: "show_pad w a = show_pad w b \<longleftrightarrow> a = b"
proof
  assume eq: "show_pad w a = show_pad w b"
  have no: "pad_left w (nat_digits n) \<noteq> CHR ''-'' # s" for n s
    using pad_left_no_minus [of w n] by auto
  from eq show "a = b"
    using no no [symmetric]
    by (auto simp: show_pad_def pad_left_digits_inj split: if_splits)
qed simp

lemma show_int_pad0: "show_int i = show_pad 0 i"
  by (simp add: show_int_def show_pad_def pad_left_def)

lemma show_int_inj: "show_int a = show_int b \<longleftrightarrow> a = b"
  by (simp add: show_int_pad0 show_pad_inj)

lemma show_pad2_length: "0 \<le> n \<Longrightarrow> n < 100 \<Longrightarrow> length (show_pad 2 n) = 2"
  by (simp add: show_pad2)

lemma month_of_range: "1 \<le> month_of n \<and> month_of n \<le> 12"
  using month_of_spec [of n] by simp

lemma month_length_le: "1 \<le> m \<Longrightarrow> m \<le> 12 \<Longrightarrow> month_length leap m \<le> 31"
  using month_cases [of m] by (cases leap) (auto simp: month_length_def month_offset_def)

lemma day_of_range: "1 \<le> day_of n \<and> day_of n \<le> 31"
  using month_of_spec [of n] month_length_le [of "month_of n" "is_leap (year_of n)"]
  by (auto simp: day_of_def month_length_def)

lemma append_same_tail_length:
  "length t = length u \<Longrightarrow> r @ t = s @ u \<longleftrightarrow> r = s \<and> t = u"
  by simp

lemma month_text_inj:
  assumes "1 \<le> m" "m \<le> 12" "1 \<le> m'" "m' \<le> 12"
  shows "show_pad 4 y @ ''-'' @ show_pad 2 m = show_pad 4 y' @ ''-'' @ show_pad 2 m'
     \<longleftrightarrow> y = y' \<and> m = m'"
proof -
  have "length (''-'' @ show_pad 2 m) = length (''-'' @ show_pad 2 m')"
    using assms by (simp add: show_pad2_length)
  from append_same_tail_length [OF this] show ?thesis
    by (simp only:) (simp add: show_pad_inj)
qed

lemma Format_month_eq_iff: "Format_month a = Format_month b \<longleftrightarrow>
  month_index (dayno a) = month_index (dayno b)"
proof -
  have "Format_month a = Format_month b \<longleftrightarrow>
      year_of (dayno a) = year_of (dayno b) \<and> month_of (dayno a) = month_of (dayno b)"
    unfolding Format_month_def civil_def Let_def prod.case
    by (rule month_text_inj) (use month_of_range in auto)
  also have "\<dots> \<longleftrightarrow> month_index (dayno a) = month_index (dayno b)"
    using month_index_civil by (auto simp: month_index_def)
  finally show ?thesis .
qed

lemma Format_date_eq_iff: "Format_date a = Format_date b \<longleftrightarrow> dayno a = dayno b"
proof -
  let ?d = "\<lambda>t. ''-'' @ show_pad 2 (day_of (dayno t))"
  have r: "0 \<le> day_of (dayno t) \<and> day_of (dayno t) < 100" for t
    using day_of_range [of "dayno t"] by linarith
  have split: "Format_date t = Format_month t @ ?d t" for t
    by (simp add: Format_date_def Format_month_def civil_def)
  have "length (?d a) = length (?d b)"
    using r by (simp add: show_pad2_length)
  then have "Format_date a = Format_date b \<longleftrightarrow> Format_month a = Format_month b \<and>
      day_of (dayno a) = day_of (dayno b)"
    unfolding split using append_same_tail_length by (simp add: show_pad_inj)
  also have "\<dots> \<longleftrightarrow> civil (dayno a) = civil (dayno b)"
    using month_index_civil by (auto simp: Format_month_eq_iff civil_def month_index_def)
  finally show ?thesis by (simp add: civil_inject)
qed

lemma week_text_eq_iff:
  assumes "1 \<le> w" "w \<le> 53" "1 \<le> w'" "w' \<le> 53"
  shows "show_int y @ ''-W'' @ show_pad 2 w = show_int y' @ ''-W'' @ show_pad 2 w'
     \<longleftrightarrow> y = y' \<and> w = w'"
proof -
  have "length (''-W'' @ show_pad 2 w) = length (''-W'' @ show_pad 2 w')"
    using assms by (simp add: show_pad2_length)
  from append_same_tail_length [OF this] show ?thesis
    by (simp only:) (simp add: show_pad_inj show_int_inj)
qed

text \<open>Two instants have the same key exactly when they are in the same day, month or week.\<close>

lemma daily_key_eq_iff:
  "CalculatePeriodKey LimitTypeDaily a = CalculatePeriodKey LimitTypeDaily b \<longleftrightarrow>
     dayno a = dayno b"
  by (simp add: CalculatePeriodKey_def Format_date_eq_iff)

lemma monthly_key_eq_iff:
  "CalculatePeriodKey LimitTypeMonthly a = CalculatePeriodKey LimitTypeMonthly b \<longleftrightarrow>
     month_index (dayno a) = month_index (dayno b)"
  by (simp add: CalculatePeriodKey_def Format_month_eq_iff)

lemma weekly_key_eq_iff:
  "CalculatePeriodKey LimitTypeWeekly a = CalculatePeriodKey LimitTypeWeekly b \<longleftrightarrow>
     dayno a div 7 = dayno b div 7"
proof -
  have "CalculatePeriodKey LimitTypeWeekly a = CalculatePeriodKey LimitTypeWeekly b \<longleftrightarrow>
      ISOWeek (dayno a) = ISOWeek (dayno b)"
    using ISOWeek_week_range [of "dayno a"] ISOWeek_week_range [of "dayno b"] week_text_eq_iff
    by (auto simp: CalculatePeriodKey_def split: prod.split)
  then show ?thesis by (simp add: ISOWeek_eq_iff)
qed

subsection \<open>Reset times\<close>

lemma day_24h [simp]: "24 * Hour_ns = Day_ns" "Hour_ns * 24 = Day_ns"
  by (simp_all add: Hour_ns_def Day_ns_def)

lemma CalculateResetAt_daily: "CalculateResetAt LimitTypeDaily now = Some (Day_ns * (dayno now + 1))"
  by (simp add: CalculateResetAt_def Truncate_day distrib_left)

lemma CalculateResetAt_monthly:
  "CalculateResetAt LimitTypeMonthly now =
     Some (Day_ns * month_start (month_index (dayno now) + 1))"
  by (simp add: CalculateResetAt_def civil_def Date_midnight_def days_of_date_month
      month_index_def algebra_simps)

lemma next_monday:
  fixes n :: int
  shows "n + (let d = (8 - (n + 1) mod 7) mod 7 in if d = 0 then 7 else d) = 7 * (n div 7 + 1)"
proof -
  define q r where "q = n div 7" and "r = n mod 7"
  have n: "n = 7 * q + r" "0 \<le> r" "r < 7" by (simp_all add: q_def r_def)
  then have "r \<in> {0, 1, 2, 3, 4, 5, 6}" by auto
  moreover have "(n + 1) mod 7 = (r + 1) mod 7" unfolding r_def by (simp add: mod_add_left_eq)
  ultimately show ?thesis unfolding q_def [symmetric] using n(1) by auto
qed

lemma CalculateResetAt_weekly:
  "CalculateResetAt LimitTypeWeekly now = Some (Day_ns * (7 * (dayno now div 7 + 1)))"
proof -
  have "CalculateResetAt LimitTypeWeekly now =
      Some (Day_ns * (dayno now + (let d = (8 - (dayno now + 1) mod 7) mod 7
        in if d = 0 then 7 else d)))"
    by (simp add: CalculateResetAt_def Truncate_day AddDate_days Weekday_def Let_def
        distrib_left)
  then show ?thesis unfolding next_monday .
qed

definition periodic :: "LimitType \<Rightarrow> bool" where
  "periodic t = (t \<in> {LimitTypeDaily, LimitTypeWeekly, LimitTypeMonthly})"

lemma periodic_cases:
  assumes "periodic t"
  obtains "t = LimitTypeDaily" | "t = LimitTypeWeekly" | "t = LimitTypeMonthly"
  using assms by (auto simp: periodic_def)

lemma dayno_mono: "a \<le> b \<Longrightarrow> dayno a \<le> dayno b"
  unfolding dayno_def by (rule zdiv_mono1) simp_all

lemma le_eq_iff_less_Suc: "(a :: int) \<le> b \<Longrightarrow> b = a \<longleftrightarrow> b < a + 1"
  by linarith

lemma same_period_iff:
  assumes "periodic lt" "now \<le> t" "CalculateResetAt lt now = Some r"
  shows "CalculatePeriodKey lt t = CalculatePeriodKey lt now \<longleftrightarrow> t < r"
  using assms(1)
proof (cases rule: periodic_cases)
  case 1
  then have r: "r = Day_ns * (dayno now + 1)" using assms(3) by (simp add: CalculateResetAt_daily)
  show ?thesis
    unfolding 1 daily_key_eq_iff r le_eq_iff_less_Suc [OF dayno_mono [OF assms(2)]]
    by (rule dayno_less_iff)
next
  case 2
  then have r: "r = Day_ns * (7 * (dayno now div 7 + 1))"
    using assms(3) by (simp add: CalculateResetAt_weekly)
  have "dayno now div 7 \<le> dayno t div 7"
    by (rule zdiv_mono1 [OF dayno_mono [OF assms(2)]]) simp
  then have "dayno t div 7 = dayno now div 7 \<longleftrightarrow> \<not> dayno now div 7 + 1 \<le> dayno t div 7"
    by linarith
  also have "\<dots> \<longleftrightarrow> t < r"
    unfolding r by (subst le_div_iff_mult_le) (simp_all add: dayno_le_iff not_le)
  finally show ?thesis unfolding 2 weekly_key_eq_iff .
next
  case 3
  then have r: "r = Day_ns * month_start (month_index (dayno now) + 1)"
    using assms(3) by (simp add: CalculateResetAt_monthly)
  have "month_start (month_index (dayno now)) \<le> dayno t"
    using month_index_bounds(1) [of "dayno now"] dayno_mono [OF assms(2)] by linarith
  then show ?thesis
    unfolding 3 monthly_key_eq_iff r month_index_eq_iff by (simp add: dayno_less_iff)
qed

lemma CalculateResetAt_periodic: "periodic lt \<Longrightarrow> \<exists>r. CalculateResetAt lt now = Some r"
  by (erule periodic_cases)
    (simp_all add: CalculateResetAt_daily CalculateResetAt_weekly CalculateResetAt_monthly)

lemma CalculateResetAt_future:
  assumes "CalculateResetAt lt now = Some r"
  shows "now < r"
proof -
  have "periodic lt"
    using assms by (cases lt) (simp_all add: CalculateResetAt_def periodic_def)
  then show ?thesis using same_period_iff [OF _ order_refl assms] by simp
qed

lemma periodic_expiry:
  assumes "periodic lt" "CalculateResetAt lt now = Some r"
  shows "calculateCounterExpiresAt lt (CalculateResetAt lt now) ce
     = Some (r + Day_ns * CounterRetentionDays)"
  using assms by (simp add: calculateCounterExpiresAt_def periodic_def AddDate_days)

subsection \<open>Scope keys\<close>

lemma join_strings_inj:
  assumes "\<forall>s \<in> set as. c \<notin> set s" "\<forall>s \<in> set bs. c \<notin> set s"
    "as \<noteq> []" "bs \<noteq> []" "join_strings [c] as = join_strings [c] bs"
  shows "as = bs"
  using assms
proof (induction as arbitrary: bs)
  case (Cons a as)
  have head: "x = y \<and> xs = ys"
    if "x @ [c] @ xs = y @ [c] @ ys" "c \<notin> set x" "c \<notin> set y" for x y xs ys :: string
    using that
  proof (induction x arbitrary: y)
    case Nil
    then show ?case by (cases y) auto
  next
    case (Cons d x)
    then show ?case by (cases y) auto
  qed
  obtain b bs' where bs: "bs = b # bs'" using Cons.prems by (cases bs) auto
  show ?case
  proof (cases as)
    case Nil
    then show ?thesis using Cons.prems bs by (cases bs') auto
  next
    case (Cons a2 as2)
    then obtain b2 bs2 where bs': "bs' = b2 # bs2"
      using Cons.prems bs by (cases bs') auto
    have "a @ [c] @ join_strings [c] as = b @ [c] @ join_strings [c] bs'"
      using Cons.prems bs bs' Cons by simp
    then have "a = b \<and> join_strings [c] as = join_strings [c] bs'"
      by (rule head) (use Cons.prems bs in auto)
    then show ?thesis using Cons.IH [of bs'] Cons.prems bs bs' Cons by simp
  qed
qed simp

text \<open>The documented form of a printed UUID that the keys rely on.\<close>

definition uuid_text :: "ext \<Rightarrow> bool" where
  "uuid_text X = (inj (x_uuid_string X) \<and> (\<forall>u. CHR ''|'' \<notin> set (x_uuid_string X u)))"

lemma set_case_option:
  "set (case p of None \<Rightarrow> [] | Some i \<Rightarrow> [g i]) = g ` set_option p"
  by (cases p) auto

lemma scope_key_parts_mem:
  "''acct:'' @ s \<in> set (scope_key_parts X a) \<longleftrightarrow> (\<exists>i. AccountID a = Some i \<and> s = x_uuid_string X i)"
  "''port:'' @ s \<in> set (scope_key_parts X a) \<longleftrightarrow> (\<exists>i. PortfolioID a = Some i \<and> s = x_uuid_string X i)"
  "''seg:'' @ s \<in> set (scope_key_parts X a) \<longleftrightarrow> (\<exists>i. SegmentID a = Some i \<and> s = x_uuid_string X i)"
  "''merch:'' @ s \<in> set (scope_key_parts X a) \<longleftrightarrow> (\<exists>i. MerchantID a = Some i \<and> s = x_uuid_string X i)"
  unfolding scope_key_parts_def set_append set_case_option
  by (auto simp: elem_set)

lemma uuid_option_inj:
  assumes "inj (x_uuid_string X)"
    "\<And>s. (\<exists>i. p = Some i \<and> s = x_uuid_string X i) = (\<exists>i. q = Some i \<and> s = x_uuid_string X i)"
  shows "p = q"
proof (cases p)
  case None
  with assms(2) show ?thesis by (cases q) auto
next
  case (Some i)
  with assms(2) obtain j where "q = Some j" "x_uuid_string X i = x_uuid_string X j" by blast
  with Some assms(1) show ?thesis by (simp add: inj_eq)
qed

lemma scope_key_parts_set_inj:
  assumes "inj (x_uuid_string X)" "set (scope_key_parts X a) = set (scope_key_parts X b)"
  shows "AccountID a = AccountID b \<and> PortfolioID a = PortfolioID b
     \<and> SegmentID a = SegmentID b \<and> MerchantID a = MerchantID b"
  by (intro conjI uuid_option_inj [OF assms(1)])
    (simp_all only: scope_key_parts_mem [symmetric] assms(2))

lemma scope_key_parts_chars:
  assumes "uuid_text X" "s \<in> set (scope_key_parts X a)"
  shows "CHR ''|'' \<notin> set s"
  using assms by (auto simp: uuid_text_def scope_key_parts_def split: option.splits)

lemma sort_eq_Nil: "sort xs = [] \<longleftrightarrow> xs = []"
  by (metis set_empty set_sort)

lemma CalculateScopeKey_inj:
  assumes "uuid_text X" "scope_key_parts X a \<noteq> []" "scope_key_parts X b \<noteq> []"
    "CalculateScopeKey X (Some a) = CalculateScopeKey X (Some b)"
  shows "AccountID a = AccountID b \<and> PortfolioID a = PortfolioID b
     \<and> SegmentID a = SegmentID b \<and> MerchantID a = MerchantID b"
proof (rule scope_key_parts_set_inj)
  show "inj (x_uuid_string X)" using assms(1) by (simp add: uuid_text_def)
  have ne: "\<not> Scope_IsEmpty c" if "scope_key_parts X c \<noteq> []" for c
    using that by (auto simp: Scope_IsEmpty_def scope_key_parts_def)
  have "sort (scope_key_parts X a) = sort (scope_key_parts X b)"
    by (rule join_strings_inj [of _ "CHR ''|''"])
      (use assms ne scope_key_parts_chars [OF assms(1)] in
        \<open>auto simp: CalculateScopeKey_def sort_eq_Nil\<close>)
  then show "set (scope_key_parts X a) = set (scope_key_parts X b)" by (metis set_sort)
qed

text \<open>A scope with only a transaction type or a sub type has no part: its key is empty, not the
  global key.\<close>

lemma CalculateScopeKey_no_parts:
  "scope_key_parts X s = [] \<Longrightarrow> \<not> Scope_IsEmpty s \<Longrightarrow> CalculateScopeKey X (Some s) = []"
  by (simp add: CalculateScopeKey_def)

end
