(* ===== verification/UsageCounters.thy ===== *)
theory UsageCounters
  imports Periods
begin

text \<open>
  Usage counters: the entity of \<^verbatim>\<open>pkg/model/limit.go\<close> and the repository
  \<^verbatim>\<open>internal/adapters/postgres/usage_counter_repository.go\<close>. The table \<^verbatim>\<open>usage_counters\<close> is the list
  of its rows. A statement that reaches the database first consumes one element of the list
  \<open>db_faults\<close>: \<^term>\<open>Some e\<close> is a failure of the driver with error \<open>e\<close>, \<^term>\<open>None\<close> (or the
  end of the list) is success. The state is an extensible record, so the stores of other
  components extend it and share the repository's operations. Statements run one after the
  other; row locks and their waiting are not represented. Logging and tracing are left out.

  The locale \<open>usage_counter_repository\<close> states the contract of the interface
  \<^verbatim>\<open>query.UsageCounterRepository\<close> that the limit checker relies on; it is interpreted on the
  repository's model at the end.
\<close>

record 'd UsageCounter =
  u_ID :: uuid
  u_LimitID :: uuid
  u_ScopeKey :: string
  u_PeriodKey :: string
  u_CurrentUsage :: 'd
  u_LastUpdatedAt :: gotime

record 'd CounterRow = "'d UsageCounter" +
  u_ExpiresAt :: "gotime option"

subsection \<open>The entity\<close>

definition NewUsageCounter ::
  "uuid \<Rightarrow> uuid \<Rightarrow> string \<Rightarrow> string \<Rightarrow> gotime \<Rightarrow> (err, ('d::linordered_ab_group_add) UsageCounter) result"
  where
  "NewUsageCounter newID limitID scopeKey periodKey createdAt =
     (if limitID = uuid_Nil then Inl ErrUsageCounterLimitIDRequired
      else if TrimSpace scopeKey = [] then Inl ErrUsageCounterScopeKeyRequired
      else if TrimSpace periodKey = [] then Inl ErrUsageCounterPeriodKeyRequired
      else Inr \<lparr>u_ID = newID, u_LimitID = limitID, u_ScopeKey = TrimSpace scopeKey,
                u_PeriodKey = TrimSpace periodKey, u_CurrentUsage = 0,
                u_LastUpdatedAt = createdAt\<rparr>)"

definition UsageCounter_Increment ::
  "('d::linordered_ab_group_add) UsageCounter \<Rightarrow> 'd \<Rightarrow> gotime \<Rightarrow> (err, 'd UsageCounter) result" where
  "UsageCounter_Increment u amount now =
     (if amount < 0 then Inl ErrUsageCounterIncrementNonNegative
      else if amount = 0 then Inr u
      else Inr (u\<lparr>u_CurrentUsage := u_CurrentUsage u + amount, u_LastUpdatedAt := now\<rparr>))"

definition UsageCounter_Validate :: "('d::linordered_ab_group_add) UsageCounter \<Rightarrow> err option" where
  "UsageCounter_Validate u =
     (if u_LimitID u = uuid_Nil then Some ErrUsageCounterLimitIDRequired
      else if TrimSpace (u_ScopeKey u) = [] then Some ErrUsageCounterScopeKeyRequired
      else if TrimSpace (u_PeriodKey u) = [] then Some ErrUsageCounterPeriodKeyRequired
      else if u_CurrentUsage u < 0 then Some ErrUsageCounterCurrentUsageNegative
      else None)"

lemma NewUsageCounter_valid:
  "NewUsageCounter i l sk pk now = Inr u \<Longrightarrow> UsageCounter_Validate u = None"
  by (auto simp: NewUsageCounter_def UsageCounter_Validate_def split: if_splits)

lemma UsageCounter_Increment_valid:
  "UsageCounter_Increment u a now = Inr u' \<Longrightarrow> UsageCounter_Validate u = None \<Longrightarrow>
    UsageCounter_Validate u' = None \<and> u_CurrentUsage u' = u_CurrentUsage u + a"
  using add_nonneg_nonneg [of "u_CurrentUsage u" a]
  by (auto simp: UsageCounter_Increment_def UsageCounter_Validate_def not_less split: if_splits)

subsection \<open>The store\<close>

record 'd counter_db =
  db_counters :: "'d CounterRow list"
  db_faults :: "err option list"

definition next_fault :: "('d, 'x) counter_db_scheme \<Rightarrow> err option" where
  "next_fault db = (case db_faults db of [] \<Rightarrow> None | f # _ \<Rightarrow> f)"

definition consume_fault :: "('d, 'x) counter_db_scheme \<Rightarrow> ('d, 'x) counter_db_scheme" where
  "consume_fault db = db\<lparr>db_faults := tl (db_faults db)\<rparr>"

definition no_faults :: "('d, 'x) counter_db_scheme \<Rightarrow> bool" where
  "no_faults db = list_all (\<lambda>f. f = None) (db_faults db)"

definition row_key :: "'d CounterRow \<Rightarrow> uuid \<times> string \<times> string" where
  "row_key r = (u_LimitID r, u_ScopeKey r, u_PeriodKey r)"

definition find_row :: "uuid \<times> string \<times> string \<Rightarrow> 'd CounterRow list \<Rightarrow> 'd CounterRow option" where
  "find_row k rows = find (\<lambda>r. row_key r = k) rows"

text \<open>The constant \<^verbatim>\<open>upsertAndIncrementCTEQuery\<close>: insert, or update the conflicting row under the
  guard, or (guard false) the current usage with \<^verbatim>\<open>succeeded\<close> false. An insert whose identifier is
  taken violates the primary key, which the conflict clause does not cover: \<^term>\<open>None\<close>.\<close>

definition upsertAndIncrementCTEQuery ::
  "uuid \<Rightarrow> uuid \<Rightarrow> string \<Rightarrow> string \<Rightarrow> 'd::linordered_ab_group_add \<Rightarrow> gotime \<Rightarrow> 'd
   \<Rightarrow> gotime option \<Rightarrow> 'd CounterRow list \<Rightarrow> ('d CounterRow list \<times> 'd \<times> bool) option" where
  "upsertAndIncrementCTEQuery counterID limitID scopeKey periodKey amount now maxAmount expiresAt
     rows =
     (case find_row (limitID, scopeKey, periodKey) rows of
        None \<Rightarrow>
          if list_ex (\<lambda>r. u_ID r = counterID) rows then None else Some
          (rows @ [\<lparr>u_ID = counterID, u_LimitID = limitID, u_ScopeKey = scopeKey,
                    u_PeriodKey = periodKey, u_CurrentUsage = amount, u_LastUpdatedAt = now,
                    u_ExpiresAt = expiresAt\<rparr>],
           amount, True)
      | Some r \<Rightarrow>
          if u_CurrentUsage r + amount \<le> maxAmount then Some
            (map (\<lambda>r'. if row_key r' = (limitID, scopeKey, periodKey)
                       then r'\<lparr>u_CurrentUsage := u_CurrentUsage r' + amount,
                               u_LastUpdatedAt := now, u_ExpiresAt := expiresAt\<rparr>
                       else r') rows,
             u_CurrentUsage r + amount, True)
          else Some (rows, u_CurrentUsage r, False))"

definition UpsertAndIncrementAtomic ::
  "uuid \<Rightarrow> gotime \<Rightarrow> ('d::linordered_ab_group_add, 'x) counter_db_scheme \<Rightarrow> uuid \<Rightarrow> string \<Rightarrow> string
   \<Rightarrow> 'd \<Rightarrow> 'd \<Rightarrow> gotime option \<Rightarrow> ('d, 'x) counter_db_scheme \<times> 'd \<times> err option" where
  "UpsertAndIncrementAtomic counterID now db limitID scopeKey periodKey amount maxAmount expiresAt =
     (if amount = 0 then (db, 0, None)
      else if amount < 0 then (db, 0, Some ErrUsageCounterIncrementNonNegative)
      else if amount > maxAmount then (db, 0, Some ErrUsageCounterExceedsLimit)
      else case next_fault db of
          Some e \<Rightarrow> (consume_fault db, 0, Some (Wrap ''failed to scan CTE result'' e))
        | None \<Rightarrow>
            (case upsertAndIncrementCTEQuery counterID limitID scopeKey periodKey amount now
                    maxAmount expiresAt (db_counters db) of
               None \<Rightarrow> (consume_fault db, 0,
                 Some (Wrap ''failed to scan CTE result'' (External ''usage_counters_pkey'')))
             | Some (rows, currentUsage, succeeded) \<Rightarrow>
                 let db' = (consume_fault db)\<lparr>db_counters := rows\<rparr> in
                 if \<not> succeeded then (db', currentUsage, Some ErrUsageCounterExceedsLimit)
                 else (db', currentUsage, None)))"

text \<open>The result map of \<^verbatim>\<open>GetUsageForLimits\<close>: the last row of a limit wins.\<close>

definition GetUsageForLimits ::
  "('d, 'x) counter_db_scheme \<Rightarrow> uuid list \<Rightarrow> string \<Rightarrow> string
   \<Rightarrow> ('d, 'x) counter_db_scheme \<times> (err, uuid \<Rightarrow> 'd option) result" where
  "GetUsageForLimits db limitIDs scopeKey periodKey =
     (if limitIDs = [] then (db, Inr (\<lambda>_. None))
      else case next_fault db of
          Some e \<Rightarrow> (consume_fault db, Inl (Wrap ''failed to get usage'' e))
        | None \<Rightarrow>
            (consume_fault db,
             Inr (foldl (\<lambda>m r. m(u_LimitID r \<mapsto> u_CurrentUsage r)) (\<lambda>_. None)
               (filter (\<lambda>r. u_LimitID r \<in> set limitIDs \<and> u_ScopeKey r = scopeKey
                            \<and> u_PeriodKey r = periodKey) (db_counters db)))))"

definition IncrementAtomic ::
  "gotime \<Rightarrow> ('d::linordered_ab_group_add, 'x) counter_db_scheme \<Rightarrow> uuid \<Rightarrow> 'd
   \<Rightarrow> ('d, 'x) counter_db_scheme \<times> err option" where
  "IncrementAtomic now db counterID amount =
     (if amount < 0 then (db, Some ErrUsageCounterIncrementNonNegative)
      else if amount = 0 then (db, None)
      else case next_fault db of
          Some e \<Rightarrow> (consume_fault db, Some (Wrap ''failed to increment counter'' e))
        | None \<Rightarrow>
            let db' = (consume_fault db)\<lparr>db_counters :=
                  map (\<lambda>r. if u_ID r = counterID
                           then r\<lparr>u_CurrentUsage := u_CurrentUsage r + amount,
                                  u_LastUpdatedAt := now\<rparr>
                           else r) (db_counters db)\<rparr>
            in if \<not> list_ex (\<lambda>r. u_ID r = counterID) (db_counters db)
               then (db', Some ErrUsageCounterNotFound)
               else (db', None))"

text \<open>The rows of a limit, latest period first and then by scope key.\<close>

definition GetByLimitID ::
  "('d, 'x) counter_db_scheme \<Rightarrow> uuid
   \<Rightarrow> ('d, 'x) counter_db_scheme \<times> (err, 'd UsageCounter list) result" where
  "GetByLimitID db limitID =
     (case next_fault db of
        Some e \<Rightarrow> (consume_fault db, Inl (Wrap ''failed to get usage counters'' e))
      | None \<Rightarrow>
          (consume_fault db,
           Inr (map UsageCounter.truncate
             (rev (sort_key u_PeriodKey
               (rev (sort_key u_ScopeKey
                 (filter (\<lambda>r. u_LimitID r = limitID) (db_counters db)))))))))"

subsection \<open>Clean-up of expired rows\<close>

definition DefaultDeleteBatchSize :: nat where "DefaultDeleteBatchSize = 1000"

definition row_expired :: "gotime \<Rightarrow> 'd CounterRow \<Rightarrow> bool" where
  "row_expired now r = (case u_ExpiresAt r of None \<Rightarrow> False | Some e \<Rightarrow> e < now)"

definition delete_batch :: "nat \<Rightarrow> gotime \<Rightarrow> 'd CounterRow list \<Rightarrow> 'd CounterRow list" where
  "delete_batch batchSize now rows =
     (let ids = map u_ID (take batchSize (filter (row_expired now) rows))
      in filter (\<lambda>r. u_ID r \<notin> set ids) rows)"

text \<open>The loop of \<^verbatim>\<open>DeleteExpiredCounters\<close>. \<open>ctx i\<close> is \<^verbatim>\<open>ctx.Err()\<close> at the start of batch \<open>i\<close>;
  a batch runs two calls that can fail, \<^verbatim>\<open>GetDB\<close> and \<^verbatim>\<open>ExecContext\<close>.\<close>

function delete_expired_loop ::
  "(nat \<Rightarrow> err option) \<Rightarrow> nat \<Rightarrow> nat \<Rightarrow> gotime \<Rightarrow> ('d, 'x) counter_db_scheme \<Rightarrow> nat
   \<Rightarrow> ('d, 'x) counter_db_scheme \<times> nat \<times> err option" where
  "delete_expired_loop ctx i batchSize now db totalDeleted =
     (case ctx i of
        Some e \<Rightarrow> (db, totalDeleted, Some (Wrap ''context cancelled during batch deletion'' e))
      | None \<Rightarrow>
          (case next_fault db of
             Some e \<Rightarrow>
               (consume_fault db, totalDeleted, Some (Wrap ''failed to get database connection'' e))
           | None \<Rightarrow>
               let db1 = consume_fault db in
               (case next_fault db1 of
                  Some e \<Rightarrow>
                    (consume_fault db1, totalDeleted,
                     Some (Wrap ''failed to delete expired counters by expires_at'' e))
                | None \<Rightarrow>
                    let rows = delete_batch batchSize now (db_counters db);
                        rowsAffected = length (db_counters db) - length rows;
                        db2 = (consume_fault db1)\<lparr>db_counters := rows\<rparr>
                    in if rowsAffected = 0 then (db2, totalDeleted, None)
                       else delete_expired_loop ctx (Suc i) batchSize now db2
                              (totalDeleted + rowsAffected))))"
  by pat_completeness auto
termination
  by (relation "measure (\<lambda>(ctx, i, batchSize, now, db, totalDeleted). length (db_counters db))")
    (auto simp: Let_def)

declare delete_expired_loop.simps [simp del]

definition DeleteExpiredCounters ::
  "(nat \<Rightarrow> err option) \<Rightarrow> nat \<Rightarrow> gotime \<Rightarrow> ('d, 'x) counter_db_scheme
   \<Rightarrow> ('d, 'x) counter_db_scheme \<times> nat \<times> err option" where
  "DeleteExpiredCounters ctx batchSize now db = delete_expired_loop ctx 0 batchSize now db 0"

subsection \<open>What a counter holds\<close>

definition usage :: "('d::zero, 'x) counter_db_scheme \<Rightarrow> uuid \<times> string \<times> string \<Rightarrow> 'd" where
  "usage db k = (case find_row k (db_counters db) of None \<Rightarrow> 0 | Some r \<Rightarrow> u_CurrentUsage r)"

text \<open>The constraints of the table: one row per key, one row per identifier, no negative usage.\<close>

definition counters_ok :: "('d::linordered_ab_group_add, 'x) counter_db_scheme \<Rightarrow> bool" where
  "counters_ok db =
     (distinct (map row_key (db_counters db)) \<and> distinct (map u_ID (db_counters db))
      \<and> list_all (\<lambda>r. 0 \<le> u_CurrentUsage r) (db_counters db))"

lemma consume_fault_simps [simp]:
  "db_counters (consume_fault db) = db_counters db"
  "db_faults (consume_fault db) = tl (db_faults db)"
  by (simp_all add: consume_fault_def)

lemma usage_consume [simp]: "usage (consume_fault db) = usage db"
  by (simp add: usage_def fun_eq_iff)

lemma counters_ok_consume [simp]: "counters_ok (consume_fault db) = counters_ok db"
  by (simp add: counters_ok_def)

lemma no_faults_next: "no_faults db \<Longrightarrow> next_fault db = None"
  by (cases "db_faults db") (auto simp: no_faults_def next_fault_def)

lemma no_faults_consume: "no_faults db \<Longrightarrow> no_faults (consume_fault db)"
  by (cases "db_faults db") (auto simp: no_faults_def)

lemma find_row_Some: "find_row k rows = Some r \<Longrightarrow> r \<in> set rows \<and> row_key r = k"
  by (auto simp: find_row_def find_Some_iff)

lemma find_row_None: "find_row k rows = None \<longleftrightarrow> k \<notin> row_key ` set rows"
  by (auto simp: find_row_def find_None_iff)

lemma find_row_mem:
  "distinct (map row_key rows) \<Longrightarrow> r \<in> set rows \<Longrightarrow> find_row (row_key r) rows = Some r"
  by (induction rows) (auto simp: find_row_def rev_image_eqI)

lemma find_row_append: "find_row k (rows @ [r]) =
  (case find_row k rows of Some r' \<Rightarrow> Some r' | None \<Rightarrow> if row_key r = k then Some r else None)"
  by (induction rows) (auto simp: find_row_def)

lemma find_row_update:
  assumes "\<And>r. row_key (f r) = row_key r"
  shows "find_row k' (map (\<lambda>r. if row_key r = k then f r else r) rows) =
    (if k' = k then map_option f (find_row k' rows) else find_row k' rows)"
  by (induction rows) (auto simp: find_row_def assms)

lemma usage_nonneg: "counters_ok db \<Longrightarrow> 0 \<le> usage db k"
  by (auto simp: usage_def counters_ok_def list_all_iff split: option.split dest!: find_row_Some)

subsection \<open>The upsert, branch by branch\<close>

lemma map_update_keys:
  assumes "\<And>r. g (f r) = g r"
  shows "map g (map (\<lambda>r. if P r then f r else r) rows) = map g rows"
  using assms by simp

lemma cte_spec:
  fixes db :: "('d::linordered_ab_group_add, 'x) counter_db_scheme"
  assumes ok: "counters_ok db" and a: "0 < amount" "amount \<le> maxAmount"
    and cte: "upsertAndIncrementCTEQuery i l sk pk amount now maxAmount ea (db_counters db)
      = Some (rows, cur, succ)"
  shows "succ \<longleftrightarrow> usage db (l, sk, pk) + amount \<le> maxAmount"
    and "succ \<Longrightarrow> cur = usage db (l, sk, pk) + amount"
    and "\<not> succ \<Longrightarrow> cur = usage db (l, sk, pk) \<and> rows = db_counters db"
    and "counters_ok (db\<lparr>db_counters := rows\<rparr>)"
    and "usage (db\<lparr>db_counters := rows\<rparr>) k =
      (if succ \<and> k = (l, sk, pk) then usage db k + amount else usage db k)"
proof -
  let ?k = "(l, sk, pk)"
  let ?f = "\<lambda>r'. r'\<lparr>u_CurrentUsage := u_CurrentUsage r' + amount, u_LastUpdatedAt := now,
              u_ExpiresAt := ea\<rparr>"
  have key: "row_key (?f r) = row_key r" "u_ID (?f r) = u_ID r" for r :: "'d CounterRow"
    by (simp_all add: row_key_def)
  have goal: "(succ \<longleftrightarrow> usage db ?k + amount \<le> maxAmount)
    \<and> (succ \<longrightarrow> cur = usage db ?k + amount)
    \<and> (\<not> succ \<longrightarrow> cur = usage db ?k \<and> rows = db_counters db)
    \<and> counters_ok (db\<lparr>db_counters := rows\<rparr>)
    \<and> usage (db\<lparr>db_counters := rows\<rparr>) k =
        (if succ \<and> k = ?k then usage db k + amount else usage db k)"
  proof (cases "find_row ?k (db_counters db)")
    case None
    let ?new = "\<lparr>u_ID = i, u_LimitID = l, u_ScopeKey = sk, u_PeriodKey = pk,
      u_CurrentUsage = amount, u_LastUpdatedAt = now, u_ExpiresAt = ea\<rparr>"
    have r: "rows = db_counters db @ [?new]" "cur = amount" "succ"
      and fresh: "i \<notin> u_ID ` set (db_counters db)"
      using cte None by (auto simp: upsertAndIncrementCTEQuery_def list_ex_iff split: if_splits)
    have new: "row_key ?new = ?k" by (simp add: row_key_def)
    have "counters_ok (db\<lparr>db_counters := rows\<rparr>)"
      using ok fresh None a r by (auto simp: counters_ok_def find_row_None row_key_def)
    moreover have "usage (db\<lparr>db_counters := rows\<rparr>) k =
        (if k = ?k then usage db k + amount else usage db k)"
      using None r new by (auto simp: usage_def find_row_append split: option.split)
    moreover have "usage db ?k = 0" using None by (simp add: usage_def)
    ultimately show ?thesis using r a by simp
  next
    case (Some r)
    have cur0: "usage db ?k = u_CurrentUsage r" using Some by (simp add: usage_def)
    show ?thesis
    proof (cases "u_CurrentUsage r + amount \<le> maxAmount")
      case False
      then show ?thesis
        using cte Some cur0 ok by (auto simp: upsertAndIncrementCTEQuery_def)
    next
      case True
      have r': "rows = map (\<lambda>r'. if row_key r' = ?k then ?f r' else r') (db_counters db)"
        "cur = u_CurrentUsage r + amount" "succ"
        using cte Some True by (auto simp: upsertAndIncrementCTEQuery_def)
      have "map row_key rows = map row_key (db_counters db)"
        "map u_ID rows = map u_ID (db_counters db)"
        unfolding r'(1) by (rule map_update_keys, rule key)+
      moreover have "\<forall>r \<in> set rows. 0 \<le> u_CurrentUsage r"
        using ok a by (auto simp: counters_ok_def r'(1) list_all_iff)
      ultimately have "counters_ok (db\<lparr>db_counters := rows\<rparr>)"
        using ok by (simp add: counters_ok_def list_all_iff)
      moreover have "usage (db\<lparr>db_counters := rows\<rparr>) k =
          (if k = ?k then usage db k + amount else usage db k)"
        unfolding r'(1) using Some
        by (auto simp: usage_def find_row_update [OF key(1)] split: option.split)
      ultimately show ?thesis using r' cur0 True by simp
    qed
  qed
  from goal show "succ \<longleftrightarrow> usage db ?k + amount \<le> maxAmount"
    "succ \<Longrightarrow> cur = usage db ?k + amount"
    "\<not> succ \<Longrightarrow> cur = usage db ?k \<and> rows = db_counters db"
    "counters_ok (db\<lparr>db_counters := rows\<rparr>)"
    "usage (db\<lparr>db_counters := rows\<rparr>) k =
      (if succ \<and> k = ?k then usage db k + amount else usage db k)"
    by blast+
qed

text \<open>The three outcomes of an upsert: it failed before or in the driver and changed no row; it was
  refused and changed no row; or it counted the amount and no more.\<close>

definition upsert_outcome ::
  "('d::linordered_ab_group_add, 'x) counter_db_scheme \<Rightarrow> uuid \<times> string \<times> string \<Rightarrow> 'd \<Rightarrow> 'd
   \<Rightarrow> ('d, 'x) counter_db_scheme \<times> 'd \<times> err option \<Rightarrow> bool" where
  "upsert_outcome db k amount maxAmount res =
     (case res of (db', cur, e) \<Rightarrow>
        counters_ok db'
        \<and> (e = None \<longrightarrow> cur = usage db k + amount \<and> cur \<le> maxAmount
             \<and> usage db' = (usage db)(k := cur))
        \<and> (e \<noteq> None \<longrightarrow> db_counters db' = db_counters db)
        \<and> (e = Some ErrUsageCounterExceedsLimit \<longrightarrow> maxAmount < usage db k + amount))"

lemma usage_cong: "db_counters a = db_counters b \<Longrightarrow> usage a = usage b"
  by (simp add: usage_def fun_eq_iff)

lemma counters_ok_cong: "db_counters a = db_counters b \<Longrightarrow> counters_ok a = counters_ok b"
  by (simp add: counters_ok_def)

lemma counters_ok_same_rows [simp]:
  "counters_ok (consume_fault db\<lparr>db_counters := db_counters db\<rparr>) = counters_ok db"
  by (rule counters_ok_cong) simp

lemma Upsert_outcome:
  assumes ok: "counters_ok db" and a: "0 < amount"
  shows "upsert_outcome db (l, sk, pk) amount maxAmount
    (UpsertAndIncrementAtomic i now db l sk pk amount maxAmount ea)"
proof (cases "amount > maxAmount")
  case True
  moreover have "maxAmount < usage db (l, sk, pk) + amount"
    using add_increasing [OF usage_nonneg [OF ok], of amount amount "(l, sk, pk)"] True
    by (meson less_le_trans order_refl)
  ultimately show ?thesis
    using a ok by (auto simp: UpsertAndIncrementAtomic_def upsert_outcome_def)
next
  case False
  then have le: "amount \<le> maxAmount" by simp
  show ?thesis
  proof (cases "next_fault db")
    case (Some e)
    then show ?thesis
      using a ok False by (auto simp: UpsertAndIncrementAtomic_def upsert_outcome_def)
  next
    case None
    show ?thesis
    proof (cases "upsertAndIncrementCTEQuery i l sk pk amount now maxAmount ea (db_counters db)")
      case (Some res)
      then obtain rows cur succ where cte:
        "upsertAndIncrementCTEQuery i l sk pk amount now maxAmount ea (db_counters db)
           = Some (rows, cur, succ)" by (cases res) auto
      note spec = cte_spec [OF ok a le cte]
      have db': "usage ((consume_fault db)\<lparr>db_counters := rows\<rparr>) = usage (db\<lparr>db_counters := rows\<rparr>)"
        "counters_ok ((consume_fault db)\<lparr>db_counters := rows\<rparr>)
          = counters_ok (db\<lparr>db_counters := rows\<rparr>)"
        by (rule usage_cong counters_ok_cong, simp)+
      show ?thesis
        using None a False cte spec
        by (auto simp: UpsertAndIncrementAtomic_def upsert_outcome_def Let_def db' fun_eq_iff)
    qed (use None a ok False in
        \<open>auto simp: UpsertAndIncrementAtomic_def upsert_outcome_def\<close>)
  qed
qed

subsection \<open>The contract of the repository\<close>

record 'd upsert_request =
  q_id :: uuid
  q_now :: gotime
  q_limit :: uuid
  q_scope :: string
  q_period :: string
  q_amount :: 'd
  q_max :: 'd
  q_expires :: "gotime option"

definition q_key :: "'d upsert_request \<Rightarrow> uuid \<times> string \<times> string" where
  "q_key q = (q_limit q, q_scope q, q_period q)"

definition upsert_q ::
  "('d::linordered_ab_group_add, 'x) counter_db_scheme \<Rightarrow> 'd upsert_request
   \<Rightarrow> ('d, 'x) counter_db_scheme \<times> 'd \<times> err option" where
  "upsert_q db q = UpsertAndIncrementAtomic (q_id q) (q_now q) db (q_limit q) (q_scope q)
     (q_period q) (q_amount q) (q_max q) (q_expires q)"

text \<open>Requests served one after the other, with the list of those that succeeded.\<close>

fun run_upserts :: "('s \<Rightarrow> 'q \<Rightarrow> 's \<times> 'd \<times> err option) \<Rightarrow> 's \<Rightarrow> 'q list \<Rightarrow> 's \<times> 'q list" where
  "run_upserts upsert s [] = (s, [])"
| "run_upserts upsert s (q # qs) =
     (case upsert s q of (s', c, e) \<Rightarrow>
        (case run_upserts upsert s' qs of (s'', accepted) \<Rightarrow>
           (s'', if e = None then q # accepted else accepted)))"

locale usage_counter_repository =
  fixes usage_of :: "'s \<Rightarrow> 'k \<Rightarrow> 'd::linordered_ab_group_add"
    and sound :: "'s \<Rightarrow> bool"
    and upsert :: "'s \<Rightarrow> 'q \<Rightarrow> 's \<times> 'd \<times> err option"
    and key_of :: "'q \<Rightarrow> 'k" and amount_of :: "'q \<Rightarrow> 'd" and max_of :: "'q \<Rightarrow> 'd"
  assumes keeps_sound: "sound s \<Longrightarrow> 0 < amount_of q \<Longrightarrow> upsert s q = (s', c, res) \<Longrightarrow> sound s'"
    and counted: "sound s \<Longrightarrow> 0 < amount_of q \<Longrightarrow> upsert s q = (s', c, None) \<Longrightarrow>
      c = usage_of s (key_of q) + amount_of q \<and> c \<le> max_of q
      \<and> usage_of s' = (usage_of s)(key_of q := c)"
    and not_counted: "sound s \<Longrightarrow> 0 < amount_of q \<Longrightarrow> upsert s q = (s', c, Some e) \<Longrightarrow>
      usage_of s' = usage_of s"
    and refused: "sound s \<Longrightarrow> 0 < amount_of q \<Longrightarrow>
      upsert s q = (s', c, Some ErrUsageCounterExceedsLimit) \<Longrightarrow>
      max_of q < usage_of s (key_of q) + amount_of q"
begin

lemma run_usage:
  "sound s \<Longrightarrow> \<forall>q \<in> set qs. 0 < amount_of q \<Longrightarrow> run_upserts upsert s qs = (s', acc) \<Longrightarrow>
    sound s' \<and> set acc \<subseteq> set qs
    \<and> usage_of s' k = usage_of s k + sum_list (map amount_of (filter (\<lambda>q. key_of q = k) acc))"
proof (induction qs arbitrary: s s' acc)
  case (Cons q qs)
  obtain s1 c e where u: "upsert s q = (s1, c, e)" by (rule prod_cases3)
  obtain s2 acc2 where r: "run_upserts upsert s1 qs = (s2, acc2)" by (cases "run_upserts upsert s1 qs")
  have s1: "sound s1" using keeps_sound [OF _ _ u] Cons.prems by simp
  have eq: "s' = s2" "acc = (if e = None then q # acc2 else acc2)"
    using Cons.prems u r by auto
  note IH = Cons.IH [OF s1 _ r]
  show ?case
  proof (cases e)
    case None
    with counted [of s q s1 c] u Cons.prems
    have "usage_of s1 = (usage_of s)(key_of q := usage_of s (key_of q) + amount_of q)" by simp
    then show ?thesis using IH Cons.prems eq None by (auto simp: algebra_simps)
  next
    case (Some e')
    with not_counted [of s q s1 c] u Cons.prems have "usage_of s1 = usage_of s" by simp
    then show ?thesis using IH Cons.prems eq Some by auto
  qed
qed simp

lemma run_bounded:
  "sound s \<Longrightarrow> \<forall>q \<in> set qs. 0 < amount_of q \<Longrightarrow> \<forall>q \<in> set qs. key_of q = k \<longrightarrow> max_of q \<le> m \<Longrightarrow>
    usage_of s k \<le> m \<Longrightarrow> run_upserts upsert s qs = (s', acc) \<Longrightarrow> usage_of s' k \<le> m"
proof (induction qs arbitrary: s s' acc)
  case (Cons q qs)
  obtain s1 c e where u: "upsert s q = (s1, c, e)" by (rule prod_cases3)
  obtain s2 acc2 where r: "run_upserts upsert s1 qs = (s2, acc2)" by (cases "run_upserts upsert s1 qs")
  have s1: "sound s1" using keeps_sound [OF _ _ u] Cons.prems by simp
  have "usage_of s1 k \<le> m"
  proof (cases e)
    case None
    with counted [of s q s1 c] u Cons.prems show ?thesis by (auto intro: order_trans)
  next
    case (Some e')
    with not_counted [of s q s1 c] u Cons.prems show ?thesis by simp
  qed
  then show ?case using Cons.IH [OF s1 _ _ _ r] Cons.prems u r by auto
qed simp

end

lemma upsert_q_outcome:
  assumes "counters_ok db" "0 < q_amount q"
  shows "upsert_outcome db (q_key q) (q_amount q) (q_max q) (upsert_q db q)"
  unfolding upsert_q_def q_key_def using assms by (rule Upsert_outcome)

interpretation counters: usage_counter_repository usage counters_ok upsert_q q_key q_amount q_max
proof (standard, goal_cases)
  case (1 s q s' c e)
  then show ?case using upsert_q_outcome [of s q] by (simp add: upsert_outcome_def)
next
  case (2 s q s' c)
  then show ?case using upsert_q_outcome [of s q] by (auto simp: upsert_outcome_def)
next
  case (3 s q s' c e)
  then show ?case
    using upsert_q_outcome [of s q] by (auto simp: upsert_outcome_def intro: usage_cong)
next
  case (4 s q s' c)
  then show ?case using upsert_q_outcome [of s q] by (simp add: upsert_outcome_def)
qed

subsection \<open>The clean-up deletes the expired rows and no other\<close>

lemma delete_batch_expired:
  assumes "distinct (map u_ID rows)"
  shows "filter (\<lambda>r. \<not> row_expired now r) (delete_batch n now rows)
    = filter (\<lambda>r. \<not> row_expired now r) rows"
proof -
  have "u_ID r \<notin> set (map u_ID (take n (filter (row_expired now) rows)))"
    if "r \<in> set rows" "\<not> row_expired now r" for r
  proof
    assume "u_ID r \<in> set (map u_ID (take n (filter (row_expired now) rows)))"
    then obtain r' where "r' \<in> set (take n (filter (row_expired now) rows))" "u_ID r' = u_ID r"
      by auto
    moreover from this have "r' \<in> set rows" "row_expired now r'"
      by (auto dest: in_set_takeD)
    ultimately have r': "r' \<in> set rows" "row_expired now r'" "u_ID r' = u_ID r" by auto
    then have "r' = r" using assms that(1) by (auto simp: distinct_map inj_on_def)
    with that(2) r'(2) show False by simp
  qed
  then show ?thesis
    unfolding delete_batch_def Let_def filter_filter
    by (intro filter_cong) auto
qed

lemma delete_batch_distinct:
  "distinct (map u_ID rows) \<Longrightarrow> distinct (map u_ID (delete_batch n now rows))"
  by (auto simp: delete_batch_def Let_def distinct_map intro: inj_on_subset)

lemma delete_batch_length: "length (delete_batch n now rows) \<le> length rows"
  by (simp add: delete_batch_def Let_def)

lemma delete_batch_stuck:
  assumes "length (delete_batch n now rows) = length rows" "0 < n"
  shows "filter (row_expired now) rows = []"
proof (rule ccontr)
  assume "filter (row_expired now) rows \<noteq> []"
  then obtain r rs where f: "filter (row_expired now) rows = r # rs"
    by (cases "filter (row_expired now) rows") auto
  then have "r \<in> set rows" by (metis filter_is_subset list.set_intros(1) subsetD)
  moreover have "u_ID r \<in> set (map u_ID (take n (filter (row_expired now) rows)))"
    using f assms(2) by (cases n) auto
  ultimately have "length (delete_batch n now rows) < length rows"
    unfolding delete_batch_def Let_def by (intro length_filter_less) auto
  with assms(1) show False by simp
qed

lemma delete_expired_loop_keeps:
  assumes "distinct (map u_ID (db_counters db))"
    "delete_expired_loop ctx i n now db tot = (db', tot', e)"
  shows "filter (\<lambda>r. \<not> row_expired now r) (db_counters db')
      = filter (\<lambda>r. \<not> row_expired now r) (db_counters db)
    \<and> tot' + length (db_counters db') = tot + length (db_counters db)"
  using assms
proof (induction ctx i n now db tot rule: delete_expired_loop.induct)
  case (1 ctx i n now db tot)
  let ?rows = "delete_batch n now (db_counters db)"
  note simps = delete_expired_loop.simps [of ctx i n now db tot]
  have len: "length ?rows \<le> length (db_counters db)" by (rule delete_batch_length)
  show ?case
  proof (cases "ctx i = None \<and> next_fault db = None \<and> next_fault (consume_fault db) = None
      \<and> length (db_counters db) - length ?rows \<noteq> 0")
    case True
    then show ?thesis
      using 1 len simps delete_batch_expired [of "db_counters db" now n]
        delete_batch_distinct [of "db_counters db" n now]
      by (simp add: Let_def)
  next
    case False
    then show ?thesis
      using 1 len simps delete_batch_expired [of "db_counters db" now n]
      by (auto simp: Let_def split: option.splits)
  qed
qed

lemma delete_expired_loop_clean:
  assumes "ctx = (\<lambda>_. None)" "no_faults db" "0 < n"
    "delete_expired_loop ctx i n now db tot = (db', tot', e)"
  shows "e = None \<and> filter (row_expired now) (db_counters db') = []"
  using assms
proof (induction ctx i n now db tot rule: delete_expired_loop.induct)
  case (1 ctx i n now db tot)
  let ?rows = "delete_batch n now (db_counters db)"
  have nf: "next_fault db = None" "next_fault (consume_fault db) = None"
    "no_faults (consume_fault (consume_fault db))"
    using 1(3) no_faults_consume no_faults_next by blast+
  have nf2: "no_faults ((consume_fault (consume_fault db))\<lparr>db_counters := ?rows\<rparr>)"
    using nf(3) by (simp add: no_faults_def)
  have ctx: "ctx i = None" using 1(2) by simp
  note simps = delete_expired_loop.simps [of ctx i n now db tot]
  show ?case
  proof (cases "length (db_counters db) - length ?rows = 0")
    case True
    then have "length ?rows = length (db_counters db)"
      using delete_batch_length [of n now "db_counters db"] by linarith
    then have "filter (row_expired now) (db_counters db) = []"
      using delete_batch_stuck 1(4) by blast
    then have clean: "filter (row_expired now) ?rows = []"
      by (auto simp: delete_batch_def filter_empty_conv)
    have "(db', tot', e) =
        ((consume_fault (consume_fault db))\<lparr>db_counters := ?rows\<rparr>, tot, None)"
      using 1(5) nf True ctx unfolding simps by (simp add: Let_def)
    with clean show ?thesis by simp
  next
    case False
    have "delete_expired_loop ctx (Suc i) n now ((consume_fault (consume_fault db))\<lparr>db_counters := ?rows\<rparr>)
        (tot + (length (db_counters db) - length ?rows)) = (db', tot', e)"
      using 1(5) nf False ctx unfolding simps by (simp add: Let_def)
    from 1(1) [OF ctx nf(1) refl nf(2) refl refl refl False 1(2) nf2 1(4) this] show ?thesis .
  qed
qed

end
