(* ===== verification/Paging.thy ===== *)
theory Paging
  imports GoErrors
begin

text \<open>
  Keyset pagination as the repositories do it: filter, order, cut. \<open>sort_by lt\<close> is the
  \<^verbatim>\<open>ORDER BY\<close> of a statement whose order is the strict relation \<open>lt\<close> on rows. The locale
  \<open>paged_source\<close> is the contract of a paged list: what a page and the pages after it hold together
  is what was left. A client that follows the cursors gets the whole list, each row once.
\<close>

fun insert_by :: "('r \<Rightarrow> 'r \<Rightarrow> bool) \<Rightarrow> 'r \<Rightarrow> 'r list \<Rightarrow> 'r list" where
  "insert_by lt x [] = [x]"
| "insert_by lt x (y # ys) = (if lt x y then x # y # ys else y # insert_by lt x ys)"

definition sort_by :: "('r \<Rightarrow> 'r \<Rightarrow> bool) \<Rightarrow> 'r list \<Rightarrow> 'r list" where
  "sort_by lt xs = foldr (insert_by lt) xs []"

lemma set_insert_by [simp]: "set (insert_by lt x ys) = insert x (set ys)"
  by (induction ys) auto

lemma length_insert_by [simp]: "length (insert_by lt x ys) = Suc (length ys)"
  by (induction ys) auto

lemma set_sort_by [simp]: "set (sort_by lt xs) = set xs"
  by (induction xs) (auto simp: sort_by_def)

lemma length_sort_by [simp]: "length (sort_by lt xs) = length xs"
  by (induction xs) (auto simp: sort_by_def)

text \<open>A strict order that is total on a set of rows.\<close>

definition strict_on :: "'r set \<Rightarrow> ('r \<Rightarrow> 'r \<Rightarrow> bool) \<Rightarrow> bool" where
  "strict_on A lt =
     ((\<forall>x \<in> A. \<not> lt x x)
      \<and> (\<forall>x \<in> A. \<forall>y \<in> A. \<forall>z \<in> A. lt x y \<longrightarrow> lt y z \<longrightarrow> lt x z)
      \<and> (\<forall>x \<in> A. \<forall>y \<in> A. x \<noteq> y \<longrightarrow> lt x y \<or> lt y x))"

lemma strict_on_irrefl: "strict_on A lt \<Longrightarrow> x \<in> A \<Longrightarrow> \<not> lt x x"
  unfolding strict_on_def by (elim conjE) (rule bspec)

lemma strict_on_trans:
  "strict_on A lt \<Longrightarrow> x \<in> A \<Longrightarrow> y \<in> A \<Longrightarrow> z \<in> A \<Longrightarrow> lt x y \<Longrightarrow> lt y z \<Longrightarrow> lt x z"
proof -
  assume "strict_on A lt"
  then have t: "\<forall>x \<in> A. \<forall>y \<in> A. \<forall>z \<in> A. lt x y \<longrightarrow> lt y z \<longrightarrow> lt x z"
    unfolding strict_on_def by (elim conjE)
  assume "x \<in> A" "y \<in> A" "z \<in> A" "lt x y" "lt y z"
  with t show "lt x z" by (metis (no_types))
qed

lemma strict_on_total: "strict_on A lt \<Longrightarrow> x \<in> A \<Longrightarrow> y \<in> A \<Longrightarrow> x \<noteq> y \<Longrightarrow> lt x y \<or> lt y x"
  unfolding strict_on_def by (elim conjE) blast

lemma strict_on_asym:
  assumes "strict_on A lt" "x \<in> A" "y \<in> A" "lt x y"
  shows "\<not> lt y x"
  using strict_on_trans [OF assms(1,2,3,2,4)] strict_on_irrefl [OF assms(1,2)] by blast

lemma strict_on_subset:
  assumes "strict_on A lt" "B \<subseteq> A"
  shows "strict_on B lt"
proof -
  have A: "x \<in> A" if "x \<in> B" for x using that assms(2) by blast
  show ?thesis
    unfolding strict_on_def
    using strict_on_irrefl [OF assms(1) A] strict_on_trans [OF assms(1) A A A]
      strict_on_total [OF assms(1) A A] by blast
qed

lemma sorted_insert_by:
  "strict_on (insert x (set ys)) lt \<Longrightarrow> x \<notin> set ys \<Longrightarrow> sorted_wrt lt ys \<Longrightarrow>
    sorted_wrt lt (insert_by lt x ys)"
proof (induction ys)
  case (Cons y ys)
  have tot: "strict_on (insert x (set ys)) lt"
    using Cons.prems(1) by (rule strict_on_subset) auto
  show ?case
  proof (cases "lt x y")
    case True
    have "lt x z" if "z \<in> set ys" for z
      by (rule strict_on_trans [OF Cons.prems(1), of x y z])
        (use that True Cons.prems(3) in auto)
    with True Cons.prems(3) show ?thesis by simp
  next
    case False
    then have "lt y x"
      using strict_on_total [OF Cons.prems(1), of x y] Cons.prems(2) by auto
    with False Cons tot show ?thesis by simp
  qed
qed simp

lemma sorted_sort_by:
  "strict_on (set xs) lt \<Longrightarrow> distinct xs \<Longrightarrow> sorted_wrt lt (sort_by lt xs)"
proof (induction xs)
  case (Cons x xs)
  then have "strict_on (set xs) lt" by (auto elim: strict_on_subset)
  then show ?case
    using Cons sorted_insert_by [of x "sort_by lt xs" lt] by (simp add: sort_by_def [symmetric])
      (simp add: sort_by_def)
qed (simp add: sort_by_def)

lemma sorted_wrt_unique:
  "strict_on (set xs) lt \<Longrightarrow> sorted_wrt lt xs \<Longrightarrow> sorted_wrt lt ys \<Longrightarrow> set xs = set ys \<Longrightarrow> xs = ys"
proof (induction xs arbitrary: ys)
  case (Cons x xs)
  then obtain y ys' where ys: "ys = y # ys'" by (cases ys) auto
  have xy: "x = y"
  proof (rule ccontr)
    assume "x \<noteq> y"
    then have "lt x y" "lt y x" using Cons.prems ys by auto
    moreover have "y \<in> set (x # xs)" using Cons.prems(4) ys by simp
    ultimately show False using strict_on_asym [OF Cons.prems(1), of x y] by simp
  qed
  have "\<not> lt x x" using strict_on_irrefl [OF Cons.prems(1)] by simp
  then have "x \<notin> set xs" "x \<notin> set ys'" using Cons.prems(2,3) ys xy by auto
  then have "set xs = set ys'" using Cons.prems(4) ys xy by auto
  moreover have "strict_on (set xs) lt" using Cons.prems(1) by (rule strict_on_subset) auto
  ultimately show ?case using Cons.IH [of ys'] Cons.prems ys xy by simp
qed simp

lemma sort_by_filter:
  assumes "strict_on (set xs) lt" "distinct xs"
  shows "sort_by lt (filter P xs) = filter P (sort_by lt xs)"
proof (rule sorted_wrt_unique)
  show s: "strict_on (set (sort_by lt (filter P xs))) lt"
    using assms(1) by (rule strict_on_subset) auto
  show "sorted_wrt lt (sort_by lt (filter P xs))"
    using s assms(2) by (intro sorted_sort_by) auto
  show "sorted_wrt lt (filter P (sort_by lt xs))"
    using sorted_sort_by [OF assms] by (rule sorted_wrt_filter)
qed auto

text \<open>After a full page, the rows that come after its last row are the rest.\<close>

lemma rest_after_page:
  assumes "strict_on (set xs) lt" "sorted_wrt lt xs" "0 < n" "n \<le> length xs"
  shows "filter (lt (last (take n xs))) xs = drop n xs"
proof -
  have ne: "take n xs \<noteq> []" using assms(3,4) by auto
  obtain ps x where ps: "take n xs = ps @ [x]"
    by (metis ne rev_exhaust)
  then have xs: "xs = ps @ x # drop n xs" by (metis append.assoc append_Cons append_Nil append_take_drop_id)
  have sw: "sorted_wrt lt (ps @ x # drop n xs)" using assms(2) xs by simp
  have "\<forall>y \<in> set ps. lt y x" "\<forall>y \<in> set (drop n xs). lt x y"
    using sw by (auto simp: sorted_wrt_append)
  moreover have x: "x \<in> set xs" by (subst xs) simp
  moreover have sub: "set ps \<subseteq> set xs" by (subst xs) auto
  ultimately have before: "\<forall>y \<in> set ps. \<not> lt x y" and later: "\<forall>y \<in> set (drop n xs). lt x y"
    using strict_on_asym [OF assms(1)] by blast+
  have "filter (lt x) ps = []" using before by (simp add: filter_empty_conv)
  moreover have "filter (lt x) (drop n xs) = drop n xs" using later by (simp add: filter_id_conv)
  ultimately have "filter (lt x) (ps @ x # drop n xs) = drop n xs"
    using strict_on_irrefl [OF assms(1) x] by simp
  then show ?thesis using ps xs by simp
qed

subsection \<open>The contract of a paged list\<close>

fun drain :: "('c option \<Rightarrow> 'r list \<times> 'c option) \<Rightarrow> nat \<Rightarrow> 'c option \<Rightarrow> 'r list option" where
  "drain fetch 0 c = None"
| "drain fetch (Suc n) c =
     (case fetch c of
        (xs, None) \<Rightarrow> Some xs
      | (xs, Some c') \<Rightarrow> map_option ((@) xs) (drain fetch n (Some c')))"

locale paged_source =
  fixes fetch :: "'c option \<Rightarrow> 'r list \<times> 'c option"
    and rest :: "'c option \<Rightarrow> 'r list"
    and reachable :: "'c option \<Rightarrow> bool"
  assumes last_page: "reachable c \<Longrightarrow> fetch c = (xs, None) \<Longrightarrow> rest c = xs"
    and next_page: "reachable c \<Longrightarrow> fetch c = (xs, Some c') \<Longrightarrow>
      xs \<noteq> [] \<and> reachable (Some c') \<and> rest c = xs @ rest (Some c')"
begin

lemma drain_rest: "reachable c \<Longrightarrow> length (rest c) < n \<Longrightarrow> drain fetch n c = Some (rest c)"
proof (induction n arbitrary: c)
  case (Suc n)
  obtain xs k where f: "fetch c = (xs, k)" by (cases "fetch c")
  show ?case
  proof (cases k)
    case None
    then show ?thesis using f last_page Suc.prems by simp
  next
    case (Some c')
    with f have nx: "xs \<noteq> []" "reachable (Some c')" "rest c = xs @ rest (Some c')"
      using next_page Suc.prems by blast+
    then have "length (rest (Some c')) < n"
      using Suc.prems(2) by (cases xs) auto
    then show ?thesis using Suc.IH nx f Some by simp
  qed
qed simp

lemma drain_all: "reachable None \<Longrightarrow> drain fetch (Suc (length (rest None))) None = Some (rest None)"
  by (erule drain_rest) simp

end

end
