(* ===== verification/LimitStore.thy ===== *)
theory LimitStore
  imports UsageCounters Paging
begin

text \<open>
  The limits table: \<^verbatim>\<open>internal/adapters/postgres/limit_repository.go\<close> with the filter of
  \<^verbatim>\<open>pkg/model/limit.go\<close> and the cursor of \<^verbatim>\<open>pkg/net/http/cursor.go\<close>. A row is the entity (the
  conversions of \<^verbatim>\<open>limit_postgresql_model.go\<close> keep every field). A cursor text is represented by
  what \<^verbatim>\<open>DecodeCursor\<close> makes of it; a sort value by the typed value the database reads from it.
  Each operation makes two calls that can fail, for the connection and for the statement.
\<close>

subsection \<open>Filters and cursors\<close>

datatype 'd sort_value =
    SvTime gotime
  | SvName string
  | SvAmount 'd
  | SvBad string

record 'd Cursor =
  cu_ID :: uuid
  cu_SortValue :: "'d sort_value"
  cu_SortBy :: string
  cu_SortOrder :: string

datatype 'd cursor_text =
    NoCursor
  | BadCursor err
  | CursorText "'d Cursor"

record 'd ListLimitsFilter =
  f_Name :: "string option"
  f_Status :: "LimitStatus option"
  f_LimitType :: "LimitType option"
  f_Currency :: "string option"
  f_ScopeFilter :: "Scope option"
  f_Limit :: int
  f_Cursor :: "'d cursor_text"
  f_SortBy :: string
  f_SortOrder :: string

definition DefaultPaginationLimit :: int where "DefaultPaginationLimit = 10"
definition MaxPaginationLimit :: int where "MaxPaginationLimit = 100"
definition DefaultLimitSortField :: string where "DefaultLimitSortField = ''createdAt''"

definition IsValidLimitSortField :: "string \<Rightarrow> bool" where
  "IsValidLimitSortField field =
     (field \<in> {''name'', DefaultLimitSortField, ''updatedAt'', ''maxAmount''})"

definition ListLimitsFilter_ApplyDefaults :: "ext \<Rightarrow> 'd ListLimitsFilter \<Rightarrow> 'd ListLimitsFilter" where
  "ListLimitsFilter_ApplyDefaults X f =
     (let f = (if f_Limit f \<le> 0 then f\<lparr>f_Limit := DefaultPaginationLimit\<rparr>
               else if f_Limit f > MaxPaginationLimit then f\<lparr>f_Limit := MaxPaginationLimit\<rparr>
               else f);
          f = (if f_SortBy f = [] then f\<lparr>f_SortBy := DefaultLimitSortField\<rparr> else f)
      in if f_SortOrder f = [] then f\<lparr>f_SortOrder := ''desc''\<rparr>
         else f\<lparr>f_SortOrder := ToLower X (f_SortOrder f)\<rparr>)"

definition ListLimitsFilter_Validate :: "ext \<Rightarrow> 'd ListLimitsFilter \<Rightarrow> err option" where
  "ListLimitsFilter_Validate X f = first_error
     [(case f_Status f of None \<Rightarrow> None
       | Some s \<Rightarrow> if \<not> LimitStatus_IsValid s then Some ErrLimitInvalidStatusFilter else None),
      (case f_LimitType f of None \<Rightarrow> None
       | Some t \<Rightarrow> if \<not> LimitType_IsValid t then Some ErrLimitInvalidTypeFilter else None),
      (if f_Limit f \<le> 0 then Some ErrPaginationLimitInvalid else None),
      (if f_Limit f > MaxPaginationLimit then Some ErrPaginationLimitExceeded else None),
      (if f_SortBy f \<noteq> [] \<and> \<not> IsValidLimitSortField (f_SortBy f)
       then Some ErrInvalidSortColumn else None),
      (if f_SortOrder f \<noteq> [] \<and> ToLower X (f_SortOrder f) \<notin> {''asc'', ''desc''}
       then Some ErrInvalidSortOrder else None)]"

subsection \<open>The table\<close>

record 'd limit_db = "'d counter_db" +
  db_limits :: "'d Limit list"

text \<open>A connection, then a statement; each may fail.\<close>

definition with_db ::
  "string \<Rightarrow> (('d, 'x) counter_db_scheme \<Rightarrow> ('d, 'x) counter_db_scheme \<times> (err, 'a) result)
   \<Rightarrow> ('d, 'x) counter_db_scheme \<Rightarrow> ('d, 'x) counter_db_scheme \<times> (err, 'a) result" where
  "with_db what run db =
     (case next_fault db of
        Some e \<Rightarrow> (consume_fault db, Inl (Wrap ''failed to get database connection'' e))
      | None \<Rightarrow>
          let db1 = consume_fault db in
          (case next_fault db1 of
             Some e \<Rightarrow> (consume_fault db1, Inl (Wrap what e))
           | None \<Rightarrow> run (consume_fault db1)))"

text \<open>The check of \<^verbatim>\<open>scanLimit\<close> on the scopes of a row it has read.\<close>

definition scan_scopes :: "Scope list \<Rightarrow> err option" where
  "scan_scopes ss =
     (if list_ex (\<lambda>s. case ScopeTransactionType s of None \<Rightarrow> False
                      | Some t \<Rightarrow> \<not> TransactionType_IsValid t) ss
      then Some (Sentinel ''invalid transactionType'') else None)"

fun scan_limits :: "'d Limit list \<Rightarrow> (err, 'd Limit list) result" where
  "scan_limits [] = Inr []"
| "scan_limits (l # ls) =
     (case scan_scopes (l_Scopes l) of
        Some e \<Rightarrow> Inl (Wrap ''failed to scan limit'' e)
      | None \<Rightarrow> bind_result (scan_limits ls) (\<lambda>rest. Inr (l # rest)))"

text \<open>The partial unique index \<^verbatim>\<open>idx_limits_name_active\<close>.\<close>

definition name_taken :: "string \<Rightarrow> 'd Limit list \<Rightarrow> bool" where
  "name_taken name rows = list_ex (\<lambda>l. l_Status l \<noteq> LimitStatusDeleted \<and> l_Name l = name) rows"

definition LimitRepo_Create ::
  "'d Limit \<Rightarrow> ('d, 'x) limit_db_scheme \<Rightarrow> ('d, 'x) limit_db_scheme \<times> (err, unit) result" where
  "LimitRepo_Create lmt = with_db ''failed to insert limit'' (\<lambda>db.
     if l_Status lmt \<noteq> LimitStatusDeleted \<and> name_taken (l_Name lmt) (db_limits db)
     then (db, Inl ErrLimitNameAlreadyExists)
     else if list_ex (\<lambda>l. l_ID l = l_ID lmt) (db_limits db)
     then (db, Inl (Wrap ''failed to insert limit'' (External ''limits_pkey'')))
     else (db\<lparr>db_limits := db_limits db @ [lmt\<lparr>l_DeletedAt := None\<rparr>]\<rparr>, Inr ()))"

definition live_row :: "uuid \<Rightarrow> 'd Limit \<Rightarrow> bool" where
  "live_row i l = (l_ID l = i \<and> l_DeletedAt l = None)"

definition LimitRepo_GetByID ::
  "uuid \<Rightarrow> ('d, 'x) limit_db_scheme \<Rightarrow> ('d, 'x) limit_db_scheme \<times> (err, 'd Limit) result" where
  "LimitRepo_GetByID limitID = with_db ''failed to get limit'' (\<lambda>db.
     (db, case find (live_row limitID) (db_limits db) of
            None \<Rightarrow> Inl ErrLimitNotFound
          | Some l \<Rightarrow>
              (case scan_scopes (l_Scopes l) of
                 Some e \<Rightarrow> Inl (Wrap ''failed to get limit'' e)
               | None \<Rightarrow> Inr l)))"

definition updated_row :: "'d Limit \<Rightarrow> 'd Limit \<Rightarrow> 'd Limit" where
  "updated_row lmt l = l\<lparr>l_Name := l_Name lmt, l_Description := l_Description lmt,
     l_MaxAmount := l_MaxAmount lmt, l_Scopes := l_Scopes lmt, l_Status := l_Status lmt,
     l_ResetAt := l_ResetAt lmt, l_ActiveTimeStart := l_ActiveTimeStart lmt,
     l_ActiveTimeEnd := l_ActiveTimeEnd lmt, l_CustomStartDate := l_CustomStartDate lmt,
     l_CustomEndDate := l_CustomEndDate lmt, l_UpdatedAt := l_UpdatedAt lmt\<rparr>"

definition LimitRepo_Update ::
  "'d Limit \<Rightarrow> ('d, 'x) limit_db_scheme \<Rightarrow> ('d, 'x) limit_db_scheme \<times> (err, unit) result" where
  "LimitRepo_Update lmt = with_db ''failed to update limit'' (\<lambda>db.
     if \<not> list_ex (live_row (l_ID lmt)) (db_limits db) then (db, Inl ErrLimitNotFound)
     else if l_Status lmt \<noteq> LimitStatusDeleted
             \<and> name_taken (l_Name lmt) (filter (\<lambda>l. \<not> live_row (l_ID lmt) l) (db_limits db))
     then (db, Inl ErrLimitNameAlreadyExists)
     else (db\<lparr>db_limits := map (\<lambda>l. if live_row (l_ID lmt) l then updated_row lmt l else l)
                (db_limits db)\<rparr>, Inr ()))"

definition status_row :: "LimitStatus \<Rightarrow> gotime \<Rightarrow> 'd Limit \<Rightarrow> 'd Limit" where
  "status_row status updatedAt l =
     (let l' = l\<lparr>l_Status := status, l_UpdatedAt := updatedAt\<rparr>
      in if status = LimitStatusDeleted then l'\<lparr>l_DeletedAt := Some updatedAt\<rparr> else l')"

definition LimitRepo_UpdateStatus ::
  "uuid \<Rightarrow> LimitStatus \<Rightarrow> gotime \<Rightarrow> ('d, 'x) limit_db_scheme
   \<Rightarrow> ('d, 'x) limit_db_scheme \<times> (err, unit) result" where
  "LimitRepo_UpdateStatus limitID status updatedAt = with_db ''failed to update limit status'' (\<lambda>db.
     if \<not> list_ex (live_row limitID) (db_limits db) then (db, Inl ErrLimitNotFound)
     else (db\<lparr>db_limits := map (\<lambda>l. if live_row limitID l then status_row status updatedAt l else l)
                (db_limits db)\<rparr>, Inr ()))"

subsection \<open>Listing\<close>

text \<open>The escapes of \<^verbatim>\<open>escapeLikePattern\<close>: one pass over the bytes does what the three replacements
  do in turn, since a replacement of one of the three characters adds only backslashes before it
  and the backslashes are replaced first.\<close>

fun escapeLikePattern :: "string \<Rightarrow> string" where
  "escapeLikePattern [] = []"
| "escapeLikePattern (c # cs) =
     (if c = byte 92 \<or> c = CHR ''%'' \<or> c = CHR ''_'' then byte 92 # c # escapeLikePattern cs
      else c # escapeLikePattern cs)"

definition normalizeListFilters :: "'d ListLimitsFilter \<Rightarrow> 'd ListLimitsFilter" where
  "normalizeListFilters f =
     (if f_Limit f \<le> 0 then f\<lparr>f_Limit := DefaultPaginationLimit\<rparr>
      else if f_Limit f > MaxPaginationLimit then f\<lparr>f_Limit := MaxPaginationLimit\<rparr>
      else f)"

text \<open>The scope condition of \<^verbatim>\<open>buildScopeFilter\<close>: a row without scopes matches, otherwise one of its
  scopes agrees with each set field of the filter or leaves it open.\<close>

definition scope_agrees :: "Scope \<Rightarrow> Scope \<Rightarrow> bool" where
  "scope_agrees filter_scope s =
     (let agrees = (\<lambda>p v. p = None \<or> v = None \<or> p = v) in
      agrees (AccountID filter_scope) (AccountID s)
      \<and> agrees (SegmentID filter_scope) (SegmentID s)
      \<and> agrees (PortfolioID filter_scope) (PortfolioID s)
      \<and> agrees (MerchantID filter_scope) (MerchantID s)
      \<and> (ScopeTransactionType filter_scope = None \<or> ScopeTransactionType s = None
          \<or> ScopeTransactionType filter_scope = ScopeTransactionType s)
      \<and> (ScopeSubType filter_scope = None \<or> ScopeSubType s = None
          \<or> ScopeSubType filter_scope = ScopeSubType s))"

definition applyListFilters :: "ext \<Rightarrow> 'd ListLimitsFilter \<Rightarrow> 'd Limit \<Rightarrow> bool" where
  "applyListFilters X f l =
     ((case f_Name f of None \<Rightarrow> True
       | Some n \<Rightarrow> n = [] \<or> x_ilike X (''%'' @ escapeLikePattern n @ ''%'') (l_Name l))
      \<and> (case f_Status f of None \<Rightarrow> True | Some s \<Rightarrow> l_Status l = s)
      \<and> (case f_LimitType f of None \<Rightarrow> True | Some t \<Rightarrow> l_LimitType l = t)
      \<and> (case f_Currency f of None \<Rightarrow> True | Some c \<Rightarrow> l_Currency l = ToUpper X c)
      \<and> (case f_ScopeFilter f of None \<Rightarrow> True
         | Some s \<Rightarrow> Scope_IsEmpty s \<or> l_Scopes l = [] \<or> list_ex (scope_agrees s) (l_Scopes l)))"

definition validateAndNormalizeSort ::
  "ext \<Rightarrow> 'd ListLimitsFilter \<Rightarrow> (err, string \<times> string) result" where
  "validateAndNormalizeSort X f =
     (let sortBy = (if f_SortBy f = [] then DefaultLimitSortField else f_SortBy f) in
      if \<not> IsValidLimitSortField sortBy then Inl ErrInvalidSortColumn
      else let sortOrder = ToUpper X (f_SortOrder f)
           in Inr (sortBy, if sortOrder = ''ASC'' then ''ASC'' else ''DESC''))"

definition validateCursorSortValue :: "string \<Rightarrow> 'd sort_value \<Rightarrow> err option" where
  "validateCursorSortValue sortBy v =
     (if sortBy \<in> {''createdAt'', ''updatedAt''} then
        (case v of SvTime t \<Rightarrow> None | _ \<Rightarrow> Some (Sentinel ''invalid timestamp format''))
      else if sortBy = ''maxAmount'' then
        (case v of SvAmount d \<Rightarrow> None | _ \<Rightarrow> Some (Sentinel ''invalid decimal format''))
      else if sortBy = ''name'' then None
      else Some (Sentinel ''unsupported sort column''))"

definition getSortValueFromLimit :: "'d Limit \<Rightarrow> string \<Rightarrow> 'd sort_value" where
  "getSortValueFromLimit l sortBy =
     (if sortBy = ''name'' then SvName (l_Name l)
      else if sortBy = ''maxAmount'' then SvAmount (l_MaxAmount l)
      else if sortBy = ''updatedAt'' then SvTime (l_UpdatedAt l)
      else SvTime (l_CreatedAt l))"

fun sort_value_less :: "ext \<Rightarrow> 'd::linorder sort_value \<Rightarrow> 'd sort_value \<Rightarrow> bool" where
  "sort_value_less X (SvTime a) (SvTime b) = (a < b)"
| "sort_value_less X (SvAmount a) (SvAmount b) = (a < b)"
| "sort_value_less X (SvName a) (SvName b) = x_collate X a b"
| "sort_value_less X a b = False"

text \<open>\<^verbatim>\<open>buildCursorCondition\<close>: the row lies after the sort value and identifier of the cursor.\<close>

definition buildCursorCondition ::
  "ext \<Rightarrow> string \<Rightarrow> string \<Rightarrow> 'd::linorder sort_value \<Rightarrow> uuid \<Rightarrow> 'd Limit \<Rightarrow> bool" where
  "buildCursorCondition X sortBy sortOrder v i l =
     (let w = getSortValueFromLimit l sortBy in
      if sortOrder = ''DESC'' then sort_value_less X w v \<or> w = v \<and> l_ID l < i
      else sort_value_less X v w \<or> w = v \<and> i < l_ID l)"

text \<open>\<^verbatim>\<open>applyOrderBy\<close>: by the sort column and then the identifier, both in the same direction.\<close>

definition list_before ::
  "ext \<Rightarrow> string \<Rightarrow> string \<Rightarrow> 'd::linorder Limit \<Rightarrow> 'd Limit \<Rightarrow> bool" where
  "list_before X sortBy sortOrder l =
     buildCursorCondition X sortBy sortOrder (getSortValueFromLimit l sortBy) (l_ID l)"

definition applyCursorFilter ::
  "ext \<Rightarrow> 'd::linorder cursor_text \<Rightarrow> string \<Rightarrow> string \<Rightarrow> (err, 'd Limit \<Rightarrow> bool) result" where
  "applyCursorFilter X cursor requestedSortBy requestedOrderDir =
     (case cursor of
        NoCursor \<Rightarrow> Inr (\<lambda>_. True)
      | BadCursor e \<Rightarrow> Inl (Wrap2 ''%w: %w'' ErrInvalidCursor e)
      | CursorText cu \<Rightarrow>
          let sortField = (if cu_SortBy cu = [] then DefaultLimitSortField else cu_SortBy cu);
              orderDir = (if cu_SortOrder cu = ''ASC'' then ''ASC'' else ''DESC'')
          in if \<not> IsValidLimitSortField sortField then Inl ErrInvalidSortColumn
             else if sortField \<noteq> requestedSortBy then
               Inl (Wrap ''cursor sortBy does not match request'' ErrInvalidCursor)
             else if orderDir \<noteq> requestedOrderDir then
               Inl (Wrap ''cursor sortOrder does not match request'' ErrInvalidCursor)
             else case validateCursorSortValue sortField (cu_SortValue cu) of
                 Some e \<Rightarrow> Inl (Wrap2 ''%w: %w'' ErrInvalidCursor e)
               | None \<Rightarrow>
                   Inr (buildCursorCondition X sortField orderDir (cu_SortValue cu) (cu_ID cu)))"

definition buildNextCursor :: "'d Limit \<Rightarrow> string \<Rightarrow> string \<Rightarrow> 'd cursor_text" where
  "buildNextCursor l sortBy sortOrder =
     CursorText \<lparr>cu_ID = l_ID l, cu_SortValue = getSortValueFromLimit l sortBy,
       cu_SortBy = sortBy, cu_SortOrder = (if sortOrder = ''ASC'' then ''ASC'' else ''DESC'')\<rparr>"

record 'd ListLimitsResult =
  res_Limits :: "'d Limit list"
  res_NextCursor :: "'d cursor_text"
  res_HasMore :: bool

definition list_statement ::
  "ext \<Rightarrow> 'd::linorder ListLimitsFilter \<Rightarrow> string \<Rightarrow> string \<Rightarrow> ('d Limit \<Rightarrow> bool) \<Rightarrow> 'd Limit list
   \<Rightarrow> 'd Limit list" where
  "list_statement X f sortBy sortOrder after rows =
     take (nat (f_Limit f + 1)) (sort_by (list_before X sortBy sortOrder)
       (filter (\<lambda>l. l_DeletedAt l = None \<and> applyListFilters X f l \<and> after l) rows))"

definition list_page ::
  "int \<Rightarrow> string \<Rightarrow> string \<Rightarrow> 'd Limit list \<Rightarrow> 'd ListLimitsResult" where
  "list_page n sortBy sortOrder limits =
     (let hasMore = int (length limits) > n;
          page = (if hasMore then take (nat n) limits else limits)
      in \<lparr>res_Limits = page,
          res_NextCursor = (if hasMore \<and> page \<noteq> []
            then buildNextCursor (last page) sortBy sortOrder else NoCursor),
          res_HasMore = hasMore\<rparr>)"

definition LimitRepo_List ::
  "ext \<Rightarrow> 'd::linorder ListLimitsFilter \<Rightarrow> ('d, 'x) limit_db_scheme
   \<Rightarrow> ('d, 'x) limit_db_scheme \<times> (err, 'd ListLimitsResult) result" where
  "LimitRepo_List X filters db =
     (let f = normalizeListFilters filters in
      case validateAndNormalizeSort X f of
        Inl e \<Rightarrow> (db, Inl e)
      | Inr (sortBy, sortOrder) \<Rightarrow>
          (case next_fault db of
             Some e \<Rightarrow> (consume_fault db, Inl (Wrap ''failed to get database connection'' e))
           | None \<Rightarrow>
               let db1 = consume_fault db in
               (case applyCursorFilter X (f_Cursor f) sortBy sortOrder of
                  Inl e \<Rightarrow> (db1, Inl e)
                | Inr after \<Rightarrow>
                    (case next_fault db1 of
                       Some e \<Rightarrow> (consume_fault db1, Inl (Wrap ''failed to list limits'' e))
                     | None \<Rightarrow>
                         (consume_fault db1,
                          bind_result
                            (scan_limits (list_statement X f sortBy sortOrder after (db_limits db)))
                            (\<lambda>limits. Inr (list_page (f_Limit f) sortBy sortOrder limits)))))))"

subsection \<open>The pages of a list hold every matching row once\<close>

definition valid_sort :: "string \<Rightarrow> string \<Rightarrow> bool" where
  "valid_sort sortBy sortOrder =
     (IsValidLimitSortField sortBy \<and> sortOrder \<in> {''ASC'', ''DESC''})"

text \<open>The rows that match a filter and come after the position of a cursor.\<close>

definition cursor_after ::
  "ext \<Rightarrow> string \<Rightarrow> string \<Rightarrow> 'd::linorder cursor_text option \<Rightarrow> 'd Limit \<Rightarrow> bool" where
  "cursor_after X sortBy sortOrder c l =
     (case c of
        Some (CursorText cu) \<Rightarrow>
          buildCursorCondition X sortBy sortOrder (cu_SortValue cu) (cu_ID cu) l
      | _ \<Rightarrow> True)"

definition matching :: "ext \<Rightarrow> 'd ListLimitsFilter \<Rightarrow> 'd Limit \<Rightarrow> bool" where
  "matching X f l = (l_DeletedAt l = None \<and> applyListFilters X f l)"

definition list_rest ::
  "ext \<Rightarrow> 'd::linorder ListLimitsFilter \<Rightarrow> string \<Rightarrow> string \<Rightarrow> 'd Limit list
   \<Rightarrow> 'd cursor_text option \<Rightarrow> 'd Limit list" where
  "list_rest X f sortBy sortOrder rows c =
     sort_by (list_before X sortBy sortOrder)
       (filter (\<lambda>l. matching X f l \<and> cursor_after X sortBy sortOrder c l) rows)"

definition the_cursor :: "'d cursor_text option \<Rightarrow> 'd cursor_text" where
  "the_cursor c = (case c of None \<Rightarrow> NoCursor | Some k \<Rightarrow> k)"

definition list_fetch ::
  "ext \<Rightarrow> 'd::linorder ListLimitsFilter \<Rightarrow> 'd Limit list \<Rightarrow> 'd cursor_text option
   \<Rightarrow> 'd Limit list \<times> 'd cursor_text option" where
  "list_fetch X f rows c =
     (case LimitRepo_List X (f\<lparr>f_Cursor := the_cursor c\<rparr>)
             \<lparr>db_counters = [], db_faults = [], db_limits = rows\<rparr> of
        (_, Inr r) \<Rightarrow> (res_Limits r, if res_HasMore r then Some (res_NextCursor r) else None)
      | (_, Inl e) \<Rightarrow> ([], None))"

definition row_cursor :: "string \<Rightarrow> string \<Rightarrow> 'd Limit \<Rightarrow> 'd cursor_text" where
  "row_cursor sortBy sortOrder x =
     CursorText \<lparr>cu_ID = l_ID x, cu_SortValue = getSortValueFromLimit x sortBy, cu_SortBy = sortBy,
       cu_SortOrder = sortOrder\<rparr>"

definition list_reachable ::
  "ext \<Rightarrow> 'd::linorder ListLimitsFilter \<Rightarrow> string \<Rightarrow> string \<Rightarrow> 'd Limit list
   \<Rightarrow> 'd cursor_text option \<Rightarrow> bool" where
  "list_reachable X f sortBy sortOrder rows c =
     (distinct rows \<and> strict_on (set rows) (list_before X sortBy sortOrder)
      \<and> (\<forall>l \<in> set rows. scan_scopes (l_Scopes l) = None)
      \<and> 0 < f_Limit f \<and> f_Limit f \<le> MaxPaginationLimit
      \<and> valid_sort sortBy sortOrder \<and> validateAndNormalizeSort X f = Inr (sortBy, sortOrder)
      \<and> (c = None \<or> (\<exists>x \<in> set rows. c = Some (row_cursor sortBy sortOrder x))))"

lemma scan_limits_ok:
  "\<forall>l \<in> set ls. scan_scopes (l_Scopes l) = None \<Longrightarrow> scan_limits ls = Inr ls"
  by (induction ls) auto

lemma validateCursorSortValue_row:
  "IsValidLimitSortField sortBy \<Longrightarrow>
    validateCursorSortValue sortBy (getSortValueFromLimit x sortBy) = None"
  by (auto simp: IsValidLimitSortField_def DefaultLimitSortField_def validateCursorSortValue_def
      getSortValueFromLimit_def)

lemma applyCursorFilter_reachable:
  assumes "valid_sort sortBy sortOrder" "c = None \<or> c = Some (row_cursor sortBy sortOrder x)"
  shows "applyCursorFilter X (the_cursor c) sortBy sortOrder
    = Inr (cursor_after X sortBy sortOrder c)"
  using assms validateCursorSortValue_row [of sortBy x]
  by (auto simp: applyCursorFilter_def the_cursor_def row_cursor_def cursor_after_def fun_eq_iff
      valid_sort_def IsValidLimitSortField_def Let_def)

lemma cursor_after_row:
  "cursor_after X sortBy sortOrder (Some (row_cursor sortBy sortOrder x))
     = list_before X sortBy sortOrder x"
  by (simp add: cursor_after_def row_cursor_def list_before_def fun_eq_iff)

lemma sort_cursor_irrelevant:
  "validateAndNormalizeSort X (f\<lparr>f_Cursor := k\<rparr>) = validateAndNormalizeSort X f"
  by (simp add: validateAndNormalizeSort_def Let_def)

text \<open>One call of the repository, on a store without faults.\<close>

lemma List_reachable:
  assumes "list_reachable X f sortBy sortOrder (db_limits db) c" "no_faults db"
  shows "LimitRepo_List X (f\<lparr>f_Cursor := the_cursor c\<rparr>) db =
    (consume_fault (consume_fault db),
     Inr (list_page (f_Limit f) sortBy sortOrder
       (take (nat (f_Limit f + 1)) (list_rest X f sortBy sortOrder (db_limits db) c))))"
proof -
  let ?f = "f\<lparr>f_Cursor := the_cursor c\<rparr>"
  have n: "normalizeListFilters ?f = ?f"
    using assms(1) by (simp add: normalizeListFilters_def list_reachable_def MaxPaginationLimit_def)
  have v: "validateAndNormalizeSort X ?f = Inr (sortBy, sortOrder)"
    using assms(1) by (simp add: list_reachable_def sort_cursor_irrelevant)
  have a: "applyCursorFilter X (the_cursor c) sortBy sortOrder
      = Inr (cursor_after X sortBy sortOrder c)"
  proof -
    obtain x where "c = None \<or> c = Some (row_cursor sortBy sortOrder x)" "valid_sort sortBy sortOrder"
      using assms(1) by (auto simp: list_reachable_def)
    then show ?thesis by (intro applyCursorFilter_reachable)
  qed
  have m: "applyListFilters X ?f = applyListFilters X f"
    by (simp add: applyListFilters_def fun_eq_iff)
  have st: "list_statement X ?f sortBy sortOrder (cursor_after X sortBy sortOrder c) (db_limits db)
      = take (nat (f_Limit f + 1)) (list_rest X f sortBy sortOrder (db_limits db) c)"
    by (simp add: list_statement_def list_rest_def matching_def m conj_assoc)
  have sc: "scan_limits (take (nat (f_Limit f + 1)) (list_rest X f sortBy sortOrder (db_limits db) c))
      = Inr (take (nat (f_Limit f + 1)) (list_rest X f sortBy sortOrder (db_limits db) c))"
    by (rule scan_limits_ok)
      (use assms(1) in \<open>auto simp: list_reachable_def list_rest_def dest!: in_set_takeD\<close>)
  have nf: "next_fault db = None" "next_fault (consume_fault db) = None"
    using assms(2) no_faults_next no_faults_consume by blast+
  show ?thesis
    by (simp add: LimitRepo_List_def n v a nf st sc)
qed

lemma list_page_cases:
  assumes "0 < n"
  shows "list_page n sortBy sortOrder (take (nat (n + 1)) S) =
    (if nat n < length S
     then \<lparr>res_Limits = take (nat n) S,
           res_NextCursor = buildNextCursor (last (take (nat n) S)) sortBy sortOrder,
           res_HasMore = True\<rparr>
     else \<lparr>res_Limits = S, res_NextCursor = NoCursor, res_HasMore = False\<rparr>)"
proof (cases "nat n < length S")
  case True
  then have "length (take (nat (n + 1)) S) = nat n + 1" using assms by simp
  moreover have "min (nat n) (nat (n + 1)) = nat n" using assms by simp
  moreover have "take (nat n) S \<noteq> []" using True assms by auto
  ultimately show ?thesis using True assms by (simp add: list_page_def Let_def)
next
  case False
  then have "take (nat (n + 1)) S = S" using assms by simp
  then show ?thesis using False assms by (simp add: list_page_def Let_def)
qed

lemma list_rest_next:
  assumes "list_reachable X f sortBy sortOrder rows c"
    and S: "S = list_rest X f sortBy sortOrder rows c" and n: "0 < n" "n < length S"
  defines "x \<equiv> last (take n S)"
  shows "x \<in> set rows"
    and "S = take n S @ list_rest X f sortBy sortOrder rows (Some (row_cursor sortBy sortOrder x))"
proof -
  let ?lt = "list_before X sortBy sortOrder"
  have so: "strict_on (set rows) ?lt" and d: "distinct rows"
    using assms(1) by (auto simp: list_reachable_def)
  have sub: "set S \<subseteq> set rows" by (auto simp: S list_rest_def)
  have ne: "take n S \<noteq> []" using n by auto
  have xS: "x \<in> set S" unfolding x_def using last_in_set [OF ne] by (rule in_set_takeD)
  then show x: "x \<in> set rows" using sub by blast
  have sorted: "sorted_wrt ?lt S"
    unfolding S list_rest_def
    by (rule sorted_sort_by) (use so d in \<open>auto intro: strict_on_subset\<close>)
  have so': "strict_on (set S) ?lt" using so sub by (rule strict_on_subset)
  have "drop n S = filter (?lt x) S"
    unfolding x_def using rest_after_page [OF so' sorted n(1)] n(2) by simp
  also have "\<dots> = sort_by ?lt (filter (?lt x)
      (filter (\<lambda>l. matching X f l \<and> cursor_after X sortBy sortOrder c l) rows))"
    unfolding S list_rest_def
    by (rule sort_by_filter [symmetric]) (use so d in \<open>auto intro: strict_on_subset\<close>)
  also have "filter (?lt x)
      (filter (\<lambda>l. matching X f l \<and> cursor_after X sortBy sortOrder c l) rows)
      = filter (\<lambda>l. matching X f l \<and> ?lt x l) rows"
    unfolding filter_filter
  proof (rule filter_cong [OF refl])
    fix l assume l: "l \<in> set rows"
    have "cursor_after X sortBy sortOrder c l" if "?lt x l"
    proof (cases c)
      case None
      then show ?thesis by (simp add: cursor_after_def)
    next
      case (Some k)
      then obtain y where y: "y \<in> set rows" "c = Some (row_cursor sortBy sortOrder y)"
        using assms(1) by (auto simp: list_reachable_def)
      have "?lt y x"
        using xS y(2) by (auto simp: S list_rest_def cursor_after_row)
      then have "?lt y l" using strict_on_trans [OF so y(1) x l] that by blast
      then show ?thesis using y(2) by (simp add: cursor_after_row)
    qed
    then show "((matching X f l \<and> cursor_after X sortBy sortOrder c l) \<and> ?lt x l)
        = (matching X f l \<and> ?lt x l)" by blast
  qed
  finally have "drop n S = list_rest X f sortBy sortOrder rows (Some (row_cursor sortBy sortOrder x))"
    by (simp add: list_rest_def cursor_after_row)
  then show "S = take n S @ list_rest X f sortBy sortOrder rows (Some (row_cursor sortBy sortOrder x))"
    by (metis append_take_drop_id)
qed

lemma buildNextCursor_row:
  "valid_sort sortBy sortOrder \<Longrightarrow> buildNextCursor x sortBy sortOrder = row_cursor sortBy sortOrder x"
  by (auto simp: buildNextCursor_def row_cursor_def valid_sort_def)

lemma list_fetch_reachable:
  assumes "list_reachable X f sortBy sortOrder rows c"
  shows "list_fetch X f rows c =
    (let S = list_rest X f sortBy sortOrder rows c; n = nat (f_Limit f) in
     if n < length S then (take n S, Some (row_cursor sortBy sortOrder (last (take n S))))
     else (S, None))"
proof -
  let ?db = "\<lparr>db_counters = [], db_faults = [], db_limits = rows\<rparr>"
  have "list_reachable X f sortBy sortOrder (db_limits ?db) c" "no_faults ?db"
    using assms by (simp_all add: no_faults_def)
  note L = List_reachable [OF this]
  have "0 < f_Limit f" "valid_sort sortBy sortOrder"
    using assms by (simp_all add: list_reachable_def)
  then show ?thesis
    by (simp add: list_fetch_def L list_page_cases buildNextCursor_row Let_def)
qed

interpretation limit_pages: paged_source "list_fetch X f rows" "list_rest X f sortBy sortOrder rows"
  "list_reachable X f sortBy sortOrder rows" for X f rows sortBy sortOrder
proof (standard, goal_cases)
  case (1 c xs)
  then show ?case by (auto simp: list_fetch_reachable Let_def split: if_splits)
next
  case (2 c xs c')
  let ?S = "list_rest X f sortBy sortOrder rows c"
  let ?n = "nat (f_Limit f)"
  have n: "0 < ?n" using 2(1) by (simp add: list_reachable_def)
  from 2 have S: "?n < length ?S" "xs = take ?n ?S"
    "c' = row_cursor sortBy sortOrder (last (take ?n ?S))"
    by (auto simp: list_fetch_reachable Let_def split: if_splits)
  note nx = list_rest_next [OF 2(1) refl n S(1)]
  have "list_reachable X f sortBy sortOrder rows (Some c')"
    using 2(1) nx(1) S(3) by (auto simp: list_reachable_def)
  moreover have "xs \<noteq> []" using S(1,2) n by auto
  ultimately show ?case using nx(2) S by simp
qed

end
