(* ===== verification/LimitChecker.thy ===== *)
theory LimitChecker
  imports LimitStore
begin

text \<open>
  Limit checking: the input and output of \<^verbatim>\<open>pkg/model/check_limits.go\<close>, the usage details of
  \<^verbatim>\<open>pkg/model/validation.go\<close> and the service \<^verbatim>\<open>internal/services/query/limit_checker.go\<close>. The
  clock (\<^verbatim>\<open>serverNow\<close>), the time the repository reads (\<open>repoNow\<close>) and the identifiers it draws
  (\<open>newID i\<close> for the limit at position \<open>i\<close>) are arguments.
\<close>

subsection \<open>Input and output\<close>

record 'd CheckLimitsInput =
  ci_Amount :: 'd
  ci_Currency :: string
  ci_AccountID :: uuid
  ci_SegmentID :: "uuid option"
  ci_PortfolioID :: "uuid option"
  ci_TransactionType :: "TransactionType option"
  ci_SubType :: "string option"
  ci_TransactionTimestamp :: gotime

definition CheckLimitsInput_Validate ::
  "ext \<Rightarrow> ('d::linordered_ab_group_add) CheckLimitsInput option \<Rightarrow> err option" where
  "CheckLimitsInput_Validate X input =
     (case input of
        None \<Rightarrow> Some ErrCheckLimitsNilInput
      | Some i \<Rightarrow>
          if ci_Amount i \<le> 0 then Some ErrCheckLimitsInvalidAmount
          else if \<not> IsValidCurrency X (ci_Currency i) then Some ErrCheckLimitsInvalidCurrency
          else if ci_AccountID i = uuid_Nil then Some ErrCheckLimitsInvalidAccountID
          else if time_IsZero (ci_TransactionTimestamp i) then Some ErrCheckLimitsInvalidTimestamp
          else if (case ci_TransactionType i of None \<Rightarrow> False
                   | Some t \<Rightarrow> \<not> TransactionType_IsValid t)
            then Some ErrCheckLimitsInvalidTransactionType
          else if (case ci_SubType i of None \<Rightarrow> False | Some s \<Rightarrow> MaxSubTypeLength < length s)
            then Some ErrCheckLimitsInvalidSubType
          else None)"

definition NewCheckLimitsInput ::
  "ext \<Rightarrow> 'd::linordered_ab_group_add \<Rightarrow> string \<Rightarrow> uuid \<Rightarrow> uuid option \<Rightarrow> uuid option
   \<Rightarrow> TransactionType option \<Rightarrow> string option \<Rightarrow> gotime \<Rightarrow> (err, 'd CheckLimitsInput) result" where
  "NewCheckLimitsInput X amount currency accountID segmentID portfolioID transactionType subType
     timestamp =
     (let i = \<lparr>ci_Amount = amount, ci_Currency = ToUpper X (TrimSpace currency),
                ci_AccountID = accountID, ci_SegmentID = segmentID, ci_PortfolioID = portfolioID,
                ci_TransactionType = transactionType, ci_SubType = subType,
                ci_TransactionTimestamp = timestamp\<rparr>
      in case CheckLimitsInput_Validate X (Some i) of Some e \<Rightarrow> Inl e | None \<Rightarrow> Inr i)"

record 'd LimitUsageDetail =
  d_LimitID :: uuid
  d_LimitAmount :: 'd
  d_Scope :: string
  d_Period :: LimitType
  d_CurrentUsage :: 'd
  d_AttemptedAmount :: 'd
  d_Exceeded :: bool
  d_Skipped :: bool
  d_SkipReason :: string
  d_InternalLimitType :: LimitType
  d_Scopes :: "Scope list"
  d_InternalPeriodKey :: string

record 'd CheckLimitsOutput =
  co_Allowed :: bool
  co_ExceededLimitIDs :: "uuid list"
  co_LimitUsageDetails :: "'d LimitUsageDetail list"
  co_EvaluatedAt :: gotime

definition NewCheckLimitsOutput :: "bool \<Rightarrow> gotime \<Rightarrow> 'd CheckLimitsOutput" where
  "NewCheckLimitsOutput allowed evaluatedAt =
     \<lparr>co_Allowed = allowed, co_ExceededLimitIDs = [], co_LimitUsageDetails = [],
      co_EvaluatedAt = evaluatedAt\<rparr>"

text \<open>The chained setters allocate a zero output for a nil receiver; a nil slice becomes empty.\<close>

definition WithExceededLimits ::
  "'d CheckLimitsOutput option \<Rightarrow> uuid list option \<Rightarrow> 'd CheckLimitsOutput" where
  "WithExceededLimits receiver ids =
     (case receiver of None \<Rightarrow> NewCheckLimitsOutput False 0 | Some out \<Rightarrow> out)
       \<lparr>co_ExceededLimitIDs := (case ids of None \<Rightarrow> [] | Some xs \<Rightarrow> xs)\<rparr>"

definition WithLimitUsageDetails ::
  "'d CheckLimitsOutput option \<Rightarrow> 'd LimitUsageDetail list option \<Rightarrow> 'd CheckLimitsOutput" where
  "WithLimitUsageDetails receiver ds =
     (case receiver of None \<Rightarrow> NewCheckLimitsOutput False 0 | Some out \<Rightarrow> out)
       \<lparr>co_LimitUsageDetails := (case ds of None \<Rightarrow> [] | Some l \<Rightarrow> l)\<rparr>"

definition RemainingAmount :: "('d::linordered_ab_group_add) LimitUsageDetail option \<Rightarrow> 'd" where
  "RemainingAmount d =
     (case d of
        None \<Rightarrow> 0
      | Some u \<Rightarrow>
          if d_CurrentUsage u \<le> 0 then d_LimitAmount u
          else if d_CurrentUsage u \<ge> d_LimitAmount u then 0
          else d_LimitAmount u - d_CurrentUsage u)"

subsection \<open>Scopes\<close>

definition buildTransactionScope :: "'d CheckLimitsInput option \<Rightarrow> Scope option" where
  "buildTransactionScope input =
     (case input of
        None \<Rightarrow> None
      | Some i \<Rightarrow> Some \<lparr>SegmentID = ci_SegmentID i, PortfolioID = ci_PortfolioID i,
          AccountID = Some (ci_AccountID i), MerchantID = None,
          ScopeTransactionType = ci_TransactionType i, ScopeSubType = ci_SubType i\<rparr>)"

definition scopeMatchesLimit :: "Scope list \<Rightarrow> Scope option \<Rightarrow> bool" where
  "scopeMatchesLimit limitScopes txScope =
     (if limitScopes = [] then True
      else case txScope of None \<Rightarrow> False
        | Some tx \<Rightarrow> list_ex (\<lambda>s. Scope_Matches s tx) limitScopes)"

definition calculateScopeKeyFromScopes :: "ext \<Rightarrow> Scope list \<Rightarrow> Scope \<Rightarrow> string" where
  "calculateScopeKeyFromScopes X scopes txScope =
     (if scopes = [] then GlobalScopeKey
      else case find (\<lambda>s. Scope_Matches s txScope) scopes of
          Some s \<Rightarrow> CalculateScopeKey X (Some s)
        | None \<Rightarrow> CalculateScopeKey X (Some txScope))"

definition scope_fields :: "ext \<Rightarrow> Scope \<Rightarrow> string list" where
  "scope_fields X s =
     (case AccountID s of None \<Rightarrow> [] | Some i \<Rightarrow> [''account:'' @ x_uuid_string X i])
     @ (case SegmentID s of None \<Rightarrow> [] | Some i \<Rightarrow> [''segment:'' @ x_uuid_string X i])
     @ (case PortfolioID s of None \<Rightarrow> [] | Some i \<Rightarrow> [''portfolio:'' @ x_uuid_string X i])
     @ (case MerchantID s of None \<Rightarrow> [] | Some i \<Rightarrow> [''merchant:'' @ x_uuid_string X i])
     @ (case ScopeTransactionType s of None \<Rightarrow> []
        | Some t \<Rightarrow> [''transactionType:'' @ TransactionType_String t])
     @ (case ScopeSubType s of None \<Rightarrow> [] | Some t \<Rightarrow> [''subType:'' @ t])"

definition formatScopeString :: "ext \<Rightarrow> Scope list \<Rightarrow> string" where
  "formatScopeString X scopes =
     (if scopes = [] then GlobalScopeKey
      else let scopeGroups = map (\<lambda>fs. ''('' @ join_strings '','' fs @ '')'')
                 (filter (\<lambda>fs. fs \<noteq> []) (map (scope_fields X) scopes))
           in if scopeGroups = [] then GlobalScopeKey else join_strings '' OR '' scopeGroups)"

subsection \<open>One limit\<close>

definition limit_detail ::
  "ext \<Rightarrow> ('d::linordered_ab_group_add) Limit \<Rightarrow> 'd CheckLimitsInput \<Rightarrow> 'd LimitUsageDetail" where
  "limit_detail X l input =
     \<lparr>d_LimitID = l_ID l, d_LimitAmount = l_MaxAmount l,
      d_Scope = formatScopeString X (l_Scopes l), d_Period = l_LimitType l, d_CurrentUsage = 0,
      d_AttemptedAmount = ci_Amount input, d_Exceeded = False, d_Skipped = False,
      d_SkipReason = [], d_InternalLimitType = l_LimitType l, d_Scopes = l_Scopes l,
      d_InternalPeriodKey = []\<rparr>"

definition skipIfOutsideTimeWindow ::
  "ext \<Rightarrow> ('d::linordered_ab_group_add) Limit \<Rightarrow> 'd CheckLimitsInput \<Rightarrow> gotime
   \<Rightarrow> 'd LimitUsageDetail option" where
  "skipIfOutsideTimeWindow X l input serverNow =
     (if \<not> IsWithinTimeWindow l serverNow
      then Some ((limit_detail X l input)\<lparr>d_Skipped := True, d_SkipReason := ''outside_time_window''\<rparr>)
      else None)"

definition skipIfOutsideCustomPeriod ::
  "ext \<Rightarrow> ('d::linordered_ab_group_add) Limit \<Rightarrow> 'd CheckLimitsInput \<Rightarrow> gotime
   \<Rightarrow> 'd LimitUsageDetail option" where
  "skipIfOutsideCustomPeriod X l input serverNow =
     (if \<not> IsWithinCustomPeriod l serverNow
      then Some ((limit_detail X l input)\<lparr>d_Skipped := True, d_SkipReason := ''outside_custom_period''\<rparr>)
      else None)"

definition handlePerTransactionLimit ::
  "ext \<Rightarrow> ('d::linordered_ab_group_add) Limit \<Rightarrow> 'd CheckLimitsInput
   \<Rightarrow> 'd LimitUsageDetail \<times> bool" where
  "handlePerTransactionLimit X l input =
     (let exceeded = ci_Amount input > l_MaxAmount l
      in ((limit_detail X l input)\<lparr>d_Exceeded := exceeded\<rparr>, exceeded))"

definition processLimitAtomic ::
  "ext \<Rightarrow> uuid \<Rightarrow> gotime \<Rightarrow> ('d::linordered_ab_group_add) Limit \<Rightarrow> 'd CheckLimitsInput \<Rightarrow> string
   \<Rightarrow> gotime \<Rightarrow> ('d, 'x) counter_db_scheme
   \<Rightarrow> ('d, 'x) counter_db_scheme \<times> (err, 'd LimitUsageDetail \<times> bool) result" where
  "processLimitAtomic X counterID repoNow l input scopeKey serverNow db =
     (case skipIfOutsideTimeWindow X l input serverNow of
        Some detail \<Rightarrow> (db, Inr (detail, False))
      | None \<Rightarrow>
     (case skipIfOutsideCustomPeriod X l input serverNow of
        Some detail \<Rightarrow> (db, Inr (detail, False))
      | None \<Rightarrow>
     if l_LimitType l = LimitTypePerTransaction then
       (db, Inr (handlePerTransactionLimit X l input))
     else
     (case CalculatePeriodKey (l_LimitType l) serverNow of
        Inl e \<Rightarrow> (db, Inl e)
      | Inr periodKey \<Rightarrow>
        let resetAt = CalculateResetAt (l_LimitType l) serverNow;
            expiresAt = calculateCounterExpiresAt (l_LimitType l) resetAt (l_CustomEndDate l);
            detail = (limit_detail X l input)\<lparr>d_InternalPeriodKey := periodKey\<rparr>
        in
        if ci_Amount input > l_MaxAmount l then
          (case GetUsageForLimits db [l_ID l] scopeKey periodKey of
             (db', Inl e) \<Rightarrow>
               (db', Inl (Wrap ''failed to get existing usage for pre-check'' e))
           | (db', Inr usageMap) \<Rightarrow>
               let currentUsage = (case usageMap (l_ID l) of None \<Rightarrow> 0 | Some u \<Rightarrow> u)
               in (db', Inr (detail\<lparr>d_CurrentUsage := currentUsage + ci_Amount input,
                                    d_Exceeded := True\<rparr>, True)))
        else
          (case UpsertAndIncrementAtomic counterID repoNow db (l_ID l) scopeKey periodKey
                  (ci_Amount input) (l_MaxAmount l) expiresAt of
             (db', newUsage, None) \<Rightarrow>
               (db', Inr (detail\<lparr>d_CurrentUsage := newUsage\<rparr>, False))
           | (db', newUsage, Some e) \<Rightarrow>
               if errors_Is e ErrUsageCounterExceedsLimit then
                 (db', Inr (detail\<lparr>d_CurrentUsage := newUsage + ci_Amount input,
                                   d_Exceeded := True\<rparr>, True))
               else (db', Inl (Wrap ''failed to upsert and increment counter'' e))))))"

subsection \<open>The applicable limits\<close>

definition checker_filter :: "string \<Rightarrow> 'd cursor_text \<Rightarrow> 'd ListLimitsFilter" where
  "checker_filter currency cursor =
     \<lparr>f_Name = None, f_Status = Some LimitStatusActive, f_LimitType = None,
      f_Currency = Some currency, f_ScopeFilter = None, f_Limit = MaxPaginationLimit,
      f_Cursor = cursor, f_SortBy = [], f_SortOrder = []\<rparr>"

text \<open>The rows a cursor leaves, the measure of the loop over the pages.\<close>

definition rows_left :: "ext \<Rightarrow> string \<Rightarrow> 'd::linorder cursor_text \<Rightarrow> 'd Limit list \<Rightarrow> nat" where
  "rows_left X currency cursor rows =
     (case applyCursorFilter X cursor ''createdAt'' ''DESC'' of
        Inl e \<Rightarrow> 0
      | Inr after \<Rightarrow>
          length (filter (\<lambda>l. matching X (checker_filter currency NoCursor) l \<and> after l) rows))"

lemma checker_sort: "validateAndNormalizeSort X (checker_filter currency cursor)
    = Inr (''createdAt'', ''DESC'')"
  by (simp add: validateAndNormalizeSort_def checker_filter_def DefaultLimitSortField_def
      IsValidLimitSortField_def ToUpper_def isASCII_def)

lemma checker_normalize:
  "normalizeListFilters (checker_filter currency cursor) = checker_filter currency cursor"
  by (simp add: normalizeListFilters_def checker_filter_def MaxPaginationLimit_def)

lemma checker_matching:
  "l_DeletedAt l = None \<and> applyListFilters X (checker_filter currency cursor) l
     \<longleftrightarrow> matching X (checker_filter currency NoCursor) l"
  by (simp add: matching_def applyListFilters_def checker_filter_def)

lemma scan_limits_Inr: "scan_limits ls = Inr ls' \<Longrightarrow> ls' = ls"
  by (induction ls arbitrary: ls') (auto simp: bind_result_Inr_iff split: option.splits)

lemma checker_filter_fields [simp]:
  "f_Cursor (checker_filter currency cursor) = cursor"
  "f_Limit (checker_filter currency cursor) = 100"
  by (simp_all add: checker_filter_def MaxPaginationLimit_def)

definition created_after :: "gotime \<Rightarrow> uuid \<Rightarrow> 'd Limit \<Rightarrow> bool" where
  "created_after t i l = (l_CreatedAt l < t \<or> l_CreatedAt l = t \<and> l_ID l < i)"

lemma createdAt_condition:
  "buildCursorCondition X ''createdAt'' ''DESC'' (SvTime t) i = created_after t i"
  by (simp add: buildCursorCondition_def getSortValueFromLimit_def created_after_def fun_eq_iff)

lemma created_after_trans:
  "created_after t i x \<Longrightarrow> created_after (l_CreatedAt x) (l_ID x) y \<Longrightarrow> created_after t i y"
  unfolding created_after_def by (auto intro: less_trans)

lemma createdAt_before:
  "list_before X ''createdAt'' ''DESC'' x = created_after (l_CreatedAt x) (l_ID x)"
  by (simp add: list_before_def getSortValueFromLimit_def createdAt_condition)

lemma createdAt_cursor:
  assumes "applyCursorFilter X cursor ''createdAt'' ''DESC'' = Inr after"
  shows "after = (\<lambda>_. True) \<or> (\<exists>t i. after = created_after t i)"
  using assms
  by (auto simp: applyCursorFilter_def validateCursorSortValue_def Let_def createdAt_condition
      DefaultLimitSortField_def split: cursor_text.splits if_splits option.splits sort_value.splits)

definition checker_rows ::
  "ext \<Rightarrow> string \<Rightarrow> ('d::linorder Limit \<Rightarrow> bool) \<Rightarrow> 'd Limit list \<Rightarrow> 'd Limit list" where
  "checker_rows X currency after rows =
     sort_by (list_before X ''createdAt'' ''DESC'')
       (filter (\<lambda>l. matching X (checker_filter currency NoCursor) l \<and> after l) rows)"

lemma checker_statement:
  "list_statement X (checker_filter currency cursor) ''createdAt'' ''DESC'' after rows
     = take 101 (checker_rows X currency after rows)"
  by (simp add: list_statement_def checker_rows_def flip: checker_matching [of _ X currency cursor])

lemma checker_List:
  assumes "LimitRepo_List X (checker_filter currency cursor) db = (db', Inr r)"
  obtains after where "applyCursorFilter X cursor ''createdAt'' ''DESC'' = Inr after"
    "db' = consume_fault (consume_fault db)"
    "r = list_page 100 ''createdAt'' ''DESC'' (take 101 (checker_rows X currency after (db_limits db)))"
  using assms unfolding LimitRepo_List_def Let_def checker_normalize checker_sort
  by (auto simp: checker_statement bind_result_Inr_iff split: option.splits sum.splits
      dest!: scan_limits_Inr)

lemma db_limits_consume [simp]: "db_limits (consume_fault db) = db_limits db"
  by (simp add: consume_fault_def)

lemma next_page_decreases:
  assumes L: "LimitRepo_List X (checker_filter currency cursor) db = (db', Inr r)"
    and more: "res_HasMore r" "res_NextCursor r \<noteq> NoCursor"
  shows "rows_left X currency (res_NextCursor r) (db_limits db') < rows_left X currency cursor (db_limits db)"
proof -
  let ?m = "matching X (checker_filter currency NoCursor)"
  let ?rows = "db_limits db"
  from L obtain after where after: "applyCursorFilter X cursor ''createdAt'' ''DESC'' = Inr after"
    and db': "db_limits db' = ?rows"
    and r: "r = list_page 100 ''createdAt'' ''DESC'' (take 101 (checker_rows X currency after ?rows))"
    by (rule checker_List) simp
  let ?S = "checker_rows X currency after ?rows"
  from r more(1) have len: "100 < length ?S"
    by (auto simp: list_page_def Let_def split: if_splits)
  then have ne: "take 100 ?S \<noteq> []" by auto
  define x where "x = last (take 100 ?S)"
  have "x \<in> set ?S" unfolding x_def using last_in_set [OF ne] by (rule in_set_takeD)
  then have x: "x \<in> set ?rows" "?m x" "after x" by (auto simp: checker_rows_def)
  have cur: "res_NextCursor r = buildNextCursor x ''createdAt'' ''DESC''"
    using r len ne unfolding x_def by (simp add: list_page_def Let_def min_def)
  let ?cond = "created_after (l_CreatedAt x) (l_ID x)"
  have nx: "applyCursorFilter X (res_NextCursor r) ''createdAt'' ''DESC'' = Inr ?cond"
    by (simp add: cur buildNextCursor_def applyCursorFilter_def IsValidLimitSortField_def
        DefaultLimitSortField_def validateCursorSortValue_def getSortValueFromLimit_def
        createdAt_condition)
  have "\<not> ?cond x" by (simp add: created_after_def)
  then have "length (filter ?cond (filter (\<lambda>l. ?m l \<and> after l) ?rows))
      < length (filter (\<lambda>l. ?m l \<and> after l) ?rows)"
    using x by (intro length_filter_less) auto
  moreover have "filter ?cond (filter (\<lambda>l. ?m l \<and> after l) ?rows)
      = filter (\<lambda>l. ?m l \<and> ?cond l) ?rows"
    unfolding filter_filter
    by (rule filter_cong [OF refl])
      (use createdAt_cursor [OF after] x(3) created_after_trans in blast)
  ultimately show ?thesis
    by (simp add: rows_left_def nx after db')
qed

text \<open>The loop of \<^verbatim>\<open>getApplicableLimits\<close> over the pages.\<close>

function all_limits ::
  "ext \<Rightarrow> string \<Rightarrow> ('d::linorder, 'x) limit_db_scheme \<Rightarrow> 'd cursor_text \<Rightarrow> 'd Limit list
   \<Rightarrow> ('d, 'x) limit_db_scheme \<times> (err, 'd Limit list) result" where
  "all_limits X currency db cursor allLimits =
     (case LimitRepo_List X (checker_filter currency cursor) db of
        (db', Inl e) \<Rightarrow> (db', Inl e)
      | (db', Inr r) \<Rightarrow>
          if \<not> res_HasMore r \<or> res_NextCursor r = NoCursor
          then (db', Inr (allLimits @ res_Limits r))
          else all_limits X currency db' (res_NextCursor r) (allLimits @ res_Limits r))"
  by pat_completeness auto
termination
  by (relation "measure (\<lambda>(X, currency, db, cursor, acc). rows_left X currency cursor (db_limits db))")
    (simp_all add: next_page_decreases)

declare all_limits.simps [simp del]

definition getApplicableLimits ::
  "ext \<Rightarrow> 'd CheckLimitsInput \<Rightarrow> ('d::linorder, 'x) limit_db_scheme
   \<Rightarrow> ('d, 'x) limit_db_scheme \<times> (err, 'd Limit list) result" where
  "getApplicableLimits X input db =
     (case all_limits X (ci_Currency input) db NoCursor [] of
        (db', Inl e) \<Rightarrow> (db', Inl e)
      | (db', Inr ls) \<Rightarrow>
          (db', Inr (filter (\<lambda>l. scopeMatchesLimit (l_Scopes l) (buildTransactionScope (Some input))) ls)))"

subsection \<open>The check\<close>

fun process_limits ::
  "ext \<Rightarrow> (nat \<Rightarrow> uuid) \<Rightarrow> gotime \<Rightarrow> ('d::linordered_ab_group_add) CheckLimitsInput \<Rightarrow> Scope \<Rightarrow> gotime
   \<Rightarrow> nat \<Rightarrow> 'd Limit list \<Rightarrow> ('d, 'x) counter_db_scheme
   \<Rightarrow> ('d, 'x) counter_db_scheme \<times> (err, 'd LimitUsageDetail list \<times> uuid list) result" where
  "process_limits X newID repoNow input txScope serverNow i [] db = (db, Inr ([], []))"
| "process_limits X newID repoNow input txScope serverNow i (l # ls) db =
     (case processLimitAtomic X (newID i) repoNow l input
             (calculateScopeKeyFromScopes X (l_Scopes l) txScope) serverNow db of
        (db1, Inl e) \<Rightarrow> (db1, Inl e)
      | (db1, Inr (detail, exceeded)) \<Rightarrow>
          (case process_limits X newID repoNow input txScope serverNow (Suc i) ls db1 of
             (db2, Inl e) \<Rightarrow> (db2, Inl e)
           | (db2, Inr (details, ids)) \<Rightarrow>
               (db2, Inr (detail # details, if exceeded then l_ID l # ids else ids))))"

definition checkLimitsInternal ::
  "ext \<Rightarrow> (nat \<Rightarrow> uuid) \<Rightarrow> gotime \<Rightarrow> gotime \<Rightarrow> ('d::linordered_ab_group_add) CheckLimitsInput option
   \<Rightarrow> ('d, 'x) limit_db_scheme
   \<Rightarrow> ('d, 'x) limit_db_scheme \<times> (err, 'd CheckLimitsOutput) result" where
  "checkLimitsInternal X newID repoNow serverNow input db =
     (case input of
        None \<Rightarrow> (db, Inl ErrCheckLimitsNilInput)
      | Some i \<Rightarrow>
     (case CheckLimitsInput_Validate X (Some i) of
        Some e \<Rightarrow> (db, Inl e)
      | None \<Rightarrow>
     (case getApplicableLimits X i db of
        (db1, Inl e) \<Rightarrow> (db1, Inl e)
      | (db1, Inr limits) \<Rightarrow>
          if limits = [] then (db1, Inr (NewCheckLimitsOutput True serverNow))
          else
            (case process_limits X newID repoNow i (the (buildTransactionScope (Some i))) serverNow
                    0 limits db1 of
               (db2, Inl e) \<Rightarrow> (db2, Inl e)
             | (db2, Inr (usageDetails, exceededLimitIDs)) \<Rightarrow>
                 let allowed = (exceededLimitIDs = []);
                     output = WithLimitUsageDetails (Some (NewCheckLimitsOutput allowed serverNow))
                                (Some usageDetails)
                 in (db2, Inr (if \<not> allowed
                               then WithExceededLimits (Some output) (Some exceededLimitIDs)
                               else output))))))"

definition ErrNilConnection :: err where
  "ErrNilConnection = Sentinel ''database connection is nil''"

definition CheckLimits ::
  "ext \<Rightarrow> (nat \<Rightarrow> uuid) \<Rightarrow> gotime \<Rightarrow> gotime \<Rightarrow> bool \<Rightarrow> ('d::linordered_ab_group_add) CheckLimitsInput option
   \<Rightarrow> ('d, 'x) limit_db_scheme
   \<Rightarrow> ('d, 'x) limit_db_scheme \<times> (err, 'd CheckLimitsOutput) result" where
  "CheckLimits X newID repoNow serverNow db_given input db =
     (if \<not> db_given then (db, Inl ErrNilConnection)
      else checkLimitsInternal X newID repoNow serverNow input db)"

end
