(* ===== verification/Requests.thy ===== *)
theory Requests
  imports Rules LimitChecker "HOL-Library.Multiset"
begin

text \<open>
  The validation request of \<^verbatim>\<open>pkg/model/validation.go\<close> and its contexts
  (\<^verbatim>\<open>pkg/model/context.go\<close>). Metadata are maps from strings to JSON values; the association
  list holds their entries, with distinct keys, in the order in which a loop of the program meets
  them (Go iterates maps in an arbitrary order). \<^verbatim>\<open>ClockSkewTolerance\<close> and
  \<^verbatim>\<open>MaxTimestampAge\<close> are package variables: they are the record \<open>timestamp_window\<close>.
\<close>

datatype json =
    JNull
  | JBool bool
  | JNumber string
  | JString string
  | JArray "json list"
  | JObject "(string \<times> json) list"

type_synonym metadata = "(string \<times> json) list"

subsection \<open>Contexts\<close>

record AccountContext =
  ac_ID :: uuid
  ac_Type :: string
  ac_Status :: string
  ac_Metadata :: "metadata option"

record MerchantContext =
  mc_ID :: uuid
  mc_Name :: string
  mc_Category :: string
  mc_Country :: string
  mc_Metadata :: "metadata option"

record SegmentContext =
  sc_ID :: uuid
  sc_Name :: string
  sc_Metadata :: "metadata option"

record PortfolioContext =
  pc_ID :: uuid
  pc_Name :: string
  pc_Metadata :: "metadata option"

definition metadata_value :: "metadata option \<Rightarrow> json" where
  "metadata_value m = JObject (case m of None \<Rightarrow> [] | Some kvs \<Rightarrow> kvs)"

definition AccountContext_ToMap :: "ext \<Rightarrow> AccountContext option \<Rightarrow> (string \<times> json) list option" where
  "AccountContext_ToMap X a = map_option (\<lambda>a.
     [(''accountId'', JString (x_uuid_string X (ac_ID a))), (''type'', JString (ac_Type a)),
      (''status'', JString (ac_Status a)), (''metadata'', metadata_value (ac_Metadata a))]) a"

definition MerchantContext_ToMap :: "ext \<Rightarrow> MerchantContext option \<Rightarrow> (string \<times> json) list option" where
  "MerchantContext_ToMap X m = map_option (\<lambda>m.
     [(''merchantId'', JString (x_uuid_string X (mc_ID m))), (''name'', JString (mc_Name m)),
      (''category'', JString (mc_Category m)), (''country'', JString (mc_Country m)),
      (''metadata'', metadata_value (mc_Metadata m))]) m"

definition SegmentContext_ToMap :: "ext \<Rightarrow> SegmentContext option \<Rightarrow> (string \<times> json) list option" where
  "SegmentContext_ToMap X s = map_option (\<lambda>s.
     [(''segmentId'', JString (x_uuid_string X (sc_ID s))), (''name'', JString (sc_Name s)),
      (''metadata'', metadata_value (sc_Metadata s))]) s"

definition PortfolioContext_ToMap :: "ext \<Rightarrow> PortfolioContext option \<Rightarrow> (string \<times> json) list option" where
  "PortfolioContext_ToMap X p = map_option (\<lambda>p.
     [(''portfolioId'', JString (x_uuid_string X (pc_ID p))), (''name'', JString (pc_Name p)),
      (''metadata'', metadata_value (pc_Metadata p))]) p"

subsection \<open>The request\<close>

record 'd ValidationRequest =
  v_RequestID :: uuid
  v_TransactionType :: TransactionType
  v_SubType :: "string option"
  v_Amount :: 'd
  v_Currency :: string
  v_TransactionTimestamp :: gotime
  v_Account :: AccountContext
  v_Segment :: "SegmentContext option"
  v_Portfolio :: "PortfolioContext option"
  v_Merchant :: "MerchantContext option"
  v_Metadata :: "metadata option"

record timestamp_window =
  ClockSkewTolerance :: int
  MaxTimestampAge :: int

definition default_window :: timestamp_window where
  "default_window = \<lparr>ClockSkewTolerance = Minute_ns, MaxTimestampAge = 24 * Hour_ns\<rparr>"

definition MaxMetadataEntries :: nat where "MaxMetadataEntries = 50"
definition MaxMetadataKeyLength :: nat where "MaxMetadataKeyLength = 64"

definition validAccountTypes :: "string list" where
  "validAccountTypes = [''checking'', ''savings'', ''credit'']"

definition validAccountStatuses :: "string list" where
  "validAccountStatuses = [''active'', ''suspended'', ''closed'']"

text \<open>The regular expressions \<^verbatim>\<open>^[a-zA-Z0-9_]+$\<close>, \<^verbatim>\<open>^\d{4}$\<close> and \<^verbatim>\<open>^[A-Z]{2}$\<close>.\<close>

definition digit_char :: "char \<Rightarrow> bool" where
  "digit_char c = (let n = (of_char c :: nat) in 48 \<le> n \<and> n \<le> 57)"

definition upper_letter :: "char \<Rightarrow> bool" where
  "upper_letter c = (let n = (of_char c :: nat) in 65 \<le> n \<and> n \<le> 90)"

definition lower_letter :: "char \<Rightarrow> bool" where
  "lower_letter c = (let n = (of_char c :: nat) in 97 \<le> n \<and> n \<le> 122)"

definition metadataKeyPattern :: "string \<Rightarrow> bool" where
  "metadataKeyPattern s = (s \<noteq> []
     \<and> list_all (\<lambda>c. lower_letter c \<or> upper_letter c \<or> digit_char c \<or> c = CHR ''_'') s)"

definition mccPattern :: "string \<Rightarrow> bool" where
  "mccPattern s = (length s = 4 \<and> list_all digit_char s)"

definition countryCodePattern :: "string \<Rightarrow> bool" where
  "countryCodePattern s = (length s = 2 \<and> list_all upper_letter s)"

definition validateRequiredFields ::
  "ext \<Rightarrow> timestamp_window \<Rightarrow> ('d::linordered_ab_group_add) ValidationRequest \<Rightarrow> gotime
   \<Rightarrow> err option" where
  "validateRequiredFields X W r now =
     (if v_RequestID r = uuid_Nil then Some ErrValidationRequestIDRequired
      else if \<not> TransactionType_IsValid (v_TransactionType r)
        then Some ErrValidationInvalidTransactionType
      else if v_Amount r \<le> 0 then Some ErrValidationAmountNonPositive
      else if v_Currency r = [] then Some ErrValidationCurrencyRequired
      else if \<not> IsValidCurrency X (v_Currency r) then Some ErrValidationInvalidCurrency
      else if time_IsZero (v_TransactionTimestamp r) then Some ErrValidationTimestampRequired
      else if v_TransactionTimestamp r > now + ClockSkewTolerance W
        then Some ErrValidationTimestampFuture
      else if \<not> v_TransactionTimestamp r > now - MaxTimestampAge W
        then Some ErrValidationTimestampPast
      else if ac_ID (v_Account r) = uuid_Nil then Some ErrValidationAccountRequired
      else None)"

definition validateOptionalFields :: "'d ValidationRequest \<Rightarrow> err option" where
  "validateOptionalFields r =
     (if (case v_SubType r of None \<Rightarrow> False | Some s \<Rightarrow> MaxSubTypeLength < length s)
        then Some ErrValidationSubTypeTooLong
      else if (case v_Segment r of None \<Rightarrow> False | Some s \<Rightarrow> sc_ID s = uuid_Nil)
        then Some ErrValidationSegmentIDRequired
      else if (case v_Portfolio r of None \<Rightarrow> False | Some p \<Rightarrow> pc_ID p = uuid_Nil)
        then Some ErrValidationPortfolioIDRequired
      else if ac_Type (v_Account r) \<noteq> [] \<and> ac_Type (v_Account r) \<notin> set validAccountTypes
        then Some ErrValidationInvalidAccountType
      else if ac_Status (v_Account r) \<noteq> [] \<and> ac_Status (v_Account r) \<notin> set validAccountStatuses
        then Some ErrValidationInvalidAccountStatus
      else None)"

definition validateMerchant :: "'d ValidationRequest \<Rightarrow> err option" where
  "validateMerchant r =
     (case v_Merchant r of
        None \<Rightarrow> None
      | Some m \<Rightarrow>
          if mc_ID m = uuid_Nil then Some ErrValidationMerchantIDRequired
          else if mc_Category m \<noteq> [] \<and> \<not> mccPattern (mc_Category m)
            then Some ErrValidationInvalidMerchantCategory
          else if mc_Country m \<noteq> [] \<and> \<not> countryCodePattern (mc_Country m)
            then Some ErrValidationInvalidMerchantCountry
          else None)"

fun validateMetadata_keys :: "string list \<Rightarrow> err option" where
  "validateMetadata_keys [] = None"
| "validateMetadata_keys (key # rest) =
     (if MaxMetadataKeyLength < length key then Some ErrMetadataKeyLengthExceeded
      else if \<not> metadataKeyPattern key then Some ErrMetadataKeyInvalidChars
      else validateMetadata_keys rest)"

definition validateMetadata :: "'d ValidationRequest \<Rightarrow> err option" where
  "validateMetadata r =
     (case v_Metadata r of
        None \<Rightarrow> None
      | Some m \<Rightarrow>
          if MaxMetadataEntries < length m then Some ErrMetadataEntriesExceeded
          else validateMetadata_keys (map fst m))"

definition ValidationRequest_Validate ::
  "ext \<Rightarrow> timestamp_window \<Rightarrow> ('d::linordered_ab_group_add) ValidationRequest \<Rightarrow> gotime
   \<Rightarrow> err option" where
  "ValidationRequest_Validate X W r now = first_error
     [validateRequiredFields X W r now, validateOptionalFields r, validateMerchant r,
      validateMetadata r]"

text \<open>The copies of the maps are copies of values. The two constructors differ in the currency:
  \<^verbatim>\<open>NewValidationRequest\<close> normalizes it, \<^verbatim>\<open>NormalizeAndValidate\<close> takes it as it is.\<close>

definition NewValidationRequest ::
  "ext \<Rightarrow> timestamp_window \<Rightarrow> gotime \<Rightarrow> uuid \<Rightarrow> TransactionType \<Rightarrow> string option
   \<Rightarrow> 'd::linordered_ab_group_add \<Rightarrow> string \<Rightarrow> gotime \<Rightarrow> AccountContext \<Rightarrow> SegmentContext option
   \<Rightarrow> PortfolioContext option \<Rightarrow> MerchantContext option \<Rightarrow> metadata option
   \<Rightarrow> (err, 'd ValidationRequest) result" where
  "NewValidationRequest X W now requestID transactionType subType amount currency
     transactionTimestamp account segment portfolio merchant meta =
     (let req = \<lparr>v_RequestID = requestID, v_TransactionType = transactionType,
            v_SubType = map_option TrimSpace subType, v_Amount = amount,
            v_Currency = ToUpper X (TrimSpace currency),
            v_TransactionTimestamp = transactionTimestamp, v_Account = account,
            v_Segment = segment, v_Portfolio = portfolio, v_Merchant = merchant,
            v_Metadata = meta\<rparr>
      in case ValidationRequest_Validate X W req now of Some e \<Rightarrow> Inl e | None \<Rightarrow> Inr req)"

definition NormalizeAndValidate ::
  "ext \<Rightarrow> timestamp_window \<Rightarrow> ('d::linordered_ab_group_add) ValidationRequest \<Rightarrow> gotime
   \<Rightarrow> (err, 'd ValidationRequest) result" where
  "NormalizeAndValidate X W r now =
     (let temp = r\<lparr>v_SubType := map_option TrimSpace (v_SubType r)\<rparr>
      in case ValidationRequest_Validate X W temp now of Some e \<Rightarrow> Inl e | None \<Rightarrow> Inr temp)"

definition ToCheckLimitsInput :: "'d ValidationRequest \<Rightarrow> 'd CheckLimitsInput" where
  "ToCheckLimitsInput r =
     \<lparr>ci_Amount = v_Amount r, ci_Currency = v_Currency r, ci_AccountID = ac_ID (v_Account r),
      ci_SegmentID = map_option sc_ID (v_Segment r),
      ci_PortfolioID = map_option pc_ID (v_Portfolio r),
      ci_TransactionType = Some (v_TransactionType r), ci_SubType = v_SubType r,
      ci_TransactionTimestamp = v_TransactionTimestamp r\<rparr>"

definition ToTransactionScope :: "'d ValidationRequest \<Rightarrow> Scope" where
  "ToTransactionScope r =
     \<lparr>SegmentID = map_option sc_ID (v_Segment r), PortfolioID = map_option pc_ID (v_Portfolio r),
      AccountID = Some (ac_ID (v_Account r)), MerchantID = map_option mc_ID (v_Merchant r),
      ScopeTransactionType = Some (v_TransactionType r), ScopeSubType = v_SubType r\<rparr>"

subsection \<open>A valid request is a valid input of the limit check\<close>

lemma validateMetadata_keys_None:
  "validateMetadata_keys ks = None \<longleftrightarrow>
     (\<forall>k \<in> set ks. length k \<le> MaxMetadataKeyLength \<and> metadataKeyPattern k)"
  by (induction ks) auto

text \<open>Whether the metadata are accepted does not depend on the order of the iteration.\<close>

lemma validateMetadata_order:
  assumes "mset m = mset m'"
  shows "validateMetadata (r\<lparr>v_Metadata := Some m\<rparr>) = None
    \<longleftrightarrow> validateMetadata (r\<lparr>v_Metadata := Some m'\<rparr>) = None"
  using mset_eq_length [OF assms] mset_eq_setD [OF assms]
  by (auto simp: validateMetadata_def validateMetadata_keys_None)

lemma ValidationRequest_Validate_None:
  "ValidationRequest_Validate X W r now = None \<longleftrightarrow>
     validateRequiredFields X W r now = None \<and> validateOptionalFields r = None
     \<and> validateMerchant r = None \<and> validateMetadata r = None"
  by (simp add: ValidationRequest_Validate_def)

lemma validateRequiredFields_None:
  "validateRequiredFields X W r now = None \<longleftrightarrow>
     v_RequestID r \<noteq> uuid_Nil \<and> TransactionType_IsValid (v_TransactionType r) \<and> 0 < v_Amount r
     \<and> v_Currency r \<noteq> [] \<and> IsValidCurrency X (v_Currency r)
     \<and> \<not> time_IsZero (v_TransactionTimestamp r)
     \<and> now - MaxTimestampAge W < v_TransactionTimestamp r
     \<and> v_TransactionTimestamp r \<le> now + ClockSkewTolerance W
     \<and> ac_ID (v_Account r) \<noteq> uuid_Nil"
  by (auto simp: validateRequiredFields_def not_le)

lemma ToCheckLimitsInput_valid:
  assumes "ValidationRequest_Validate X W r now = None"
  shows "CheckLimitsInput_Validate X (Some (ToCheckLimitsInput r)) = None"
  using assms
  by (auto simp: ValidationRequest_Validate_None validateRequiredFields_None
      validateOptionalFields_def CheckLimitsInput_Validate_def ToCheckLimitsInput_def
      split: option.splits if_splits)

lemma NormalizeAndValidate_Inr:
  "NormalizeAndValidate X W r now = Inr r' \<longleftrightarrow>
     r' = r\<lparr>v_SubType := map_option TrimSpace (v_SubType r)\<rparr>
     \<and> ValidationRequest_Validate X W r' now = None"
  by (auto simp: NormalizeAndValidate_def Let_def split: option.splits)

lemma NewValidationRequest_Inr:
  "NewValidationRequest X W now i t st a c ts ac sg pf m md = Inr r \<Longrightarrow>
     ValidationRequest_Validate X W r now = None"
  by (auto simp: NewValidationRequest_def Let_def split: option.splits)

text \<open>The scope that limits see is the scope that rules see without the merchant.\<close>

lemma limit_scope_of_request:
  "buildTransactionScope (Some (ToCheckLimitsInput r)) = Some ((ToTransactionScope r)\<lparr>MerchantID := None\<rparr>)"
  by (simp add: buildTransactionScope_def ToCheckLimitsInput_def ToTransactionScope_def)

end
