(* ===== verification/RuleEvaluation.thy ===== *)
theory RuleEvaluation
  imports Requests
begin

text \<open>
  Rule evaluation: the decision by precedence (\<^verbatim>\<open>pkg/model/decision_maker.go\<close>,
  \<^verbatim>\<open>pkg/model/evaluation_result.go\<close>), the evaluation of one rule
  (\<^verbatim>\<open>internal/services/query/rule_evaluator.go\<close>), of all rules
  (\<^verbatim>\<open>complete_evaluator.go\<close>) and the query that orchestrates them
  (\<^verbatim>\<open>get_active_rules.go\<close>, \<^verbatim>\<open>evaluate_rules.go\<close>). The compiler and the evaluator of the
  CEL library are the parameter \<open>cel_ops\<close>. \<^verbatim>\<open>ctx.Err()\<close> at the n-th look at the context is the
  n-th element of a list (an exhausted list is a live context).
\<close>

record ('p, 'd) cel_ops =
  cel_Compile :: "string \<Rightarrow> (err, 'p) result"
  cel_Evaluate :: "'p \<Rightarrow> 'd ValidationRequest \<Rightarrow> (err, bool) result"

definition ctx_Err :: "err option list \<Rightarrow> err option" where
  "ctx_Err ctx = (case ctx of [] \<Rightarrow> None | e # _ \<Rightarrow> e)"

definition live_context :: "err option list \<Rightarrow> bool" where
  "live_context ctx = list_all (\<lambda>e. e = None) ctx"

lemma live_context_Err [simp]: "live_context ctx \<Longrightarrow> ctx_Err ctx = None"
  by (cases ctx) (auto simp: live_context_def ctx_Err_def)

lemma live_context_tl [simp]: "live_context ctx \<Longrightarrow> live_context (tl ctx)"
  by (cases ctx) (auto simp: live_context_def)

subsection \<open>Decisions\<close>

record EvaluationResult =
  e_Decision :: Decision
  e_MatchedRuleIDs :: "uuid list"
  e_EvaluatedRuleIDs :: "uuid list"
  e_Reason :: string
  e_TotalRulesLoaded :: int
  e_Truncated :: bool

definition NewEvaluationResult ::
  "Decision \<Rightarrow> uuid list \<Rightarrow> uuid list \<Rightarrow> string \<Rightarrow> (err, EvaluationResult) result" where
  "NewEvaluationResult decision matchedRuleIDs evaluatedRuleIDs reason =
     (if \<not> Decision_IsValid decision then Inl ErrInvalidDecision
      else if reason = [] then Inl ErrReasonRequired
      else Inr \<lparr>e_Decision = decision, e_MatchedRuleIDs = matchedRuleIDs,
        e_EvaluatedRuleIDs = evaluatedRuleIDs, e_Reason = reason, e_TotalRulesLoaded = 0,
        e_Truncated = False\<rparr>)"

definition WithTruncationInfo :: "EvaluationResult \<Rightarrow> int \<Rightarrow> bool \<Rightarrow> EvaluationResult" where
  "WithTruncationInfo r totalLoaded truncated =
     r\<lparr>e_TotalRulesLoaded := totalLoaded, e_Truncated := truncated\<rparr>"

definition NewNoMatchResult :: "Decision \<Rightarrow> uuid list \<Rightarrow> (err, EvaluationResult) result" where
  "NewNoMatchResult defaultDecision evaluatedRuleIDs =
     (if \<not> Decision_IsValid defaultDecision then Inl ErrInvalidDefaultDecision
      else Inr \<lparr>e_Decision = defaultDecision, e_MatchedRuleIDs = [],
        e_EvaluatedRuleIDs = evaluatedRuleIDs, e_Reason = ''No matching rules found'',
        e_TotalRulesLoaded = 0, e_Truncated = False\<rparr>)"

definition MakeDecision ::
  "uuid list \<Rightarrow> uuid list \<Rightarrow> uuid list \<Rightarrow> uuid list \<Rightarrow> Decision
   \<Rightarrow> (err, EvaluationResult) result" where
  "MakeDecision denyRuleIDs allowRuleIDs reviewRuleIDs evaluatedRuleIDs defaultDecision =
     (let allMatchedRuleIDs = denyRuleIDs @ reviewRuleIDs @ allowRuleIDs
      in if denyRuleIDs \<noteq> [] then
           NewEvaluationResult DecisionDeny allMatchedRuleIDs evaluatedRuleIDs
             ''Rule matched with DENY action''
         else if reviewRuleIDs \<noteq> [] then
           NewEvaluationResult DecisionReview allMatchedRuleIDs evaluatedRuleIDs
             ''Rule matched with REVIEW action''
         else if allowRuleIDs \<noteq> [] then
           NewEvaluationResult DecisionAllow allMatchedRuleIDs evaluatedRuleIDs
             ''Rule matched with ALLOW action''
         else NewNoMatchResult defaultDecision evaluatedRuleIDs)"

subsection \<open>One rule\<close>

definition ErrNilRule :: err where "ErrNilRule = Sentinel ''rule cannot be nil''"
definition ErrNilRequest :: err where "ErrNilRequest = Sentinel ''request cannot be nil''"

definition RuleEvaluator_Evaluate ::
  "('p, 'd) cel_ops \<Rightarrow> 'p Rule option \<Rightarrow> 'd ValidationRequest option \<Rightarrow> (err, bool) result" where
  "RuleEvaluator_Evaluate cel rule req =
     (case rule of None \<Rightarrow> Inl ErrNilRule
      | Some r \<Rightarrow>
     (case req of None \<Rightarrow> Inl ErrNilRequest
      | Some q \<Rightarrow>
          if \<not> RuleScopesMatch (r_Scopes r) (Some (ToTransactionScope q)) then Inr False
          else
            bind_result
              (case r_CompiledProgram r of
                 Some p \<Rightarrow> Inr p
               | None \<Rightarrow>
                   (case cel_Compile cel (r_Expression r) of
                      Inl e \<Rightarrow> Inl (Wrap ''failed to compile expression'' e)
                    | Inr p \<Rightarrow> Inr p))
              (\<lambda>prog. case cel_Evaluate cel prog q of
                 Inl e \<Rightarrow> Inl (Wrap ''failed to evaluate expression'' e)
               | Inr matched \<Rightarrow> Inr matched)))"

subsection \<open>All rules\<close>

record EvaluationCollector =
  DenyRuleIDs :: "uuid list"
  AllowRuleIDs :: "uuid list"
  ReviewRuleIDs :: "uuid list"
  EvaluatedRuleIDs :: "uuid list"

definition empty_collector :: EvaluationCollector where
  "empty_collector = \<lparr>DenyRuleIDs = [], AllowRuleIDs = [], ReviewRuleIDs = [],
     EvaluatedRuleIDs = []\<rparr>"

definition collect :: "'p Rule \<Rightarrow> bool \<Rightarrow> EvaluationCollector \<Rightarrow> EvaluationCollector" where
  "collect rule matched c =
     (let c1 = c\<lparr>EvaluatedRuleIDs := EvaluatedRuleIDs c @ [r_ID rule]\<rparr>
      in if matched then
           (case r_Action rule of
              DecisionDeny \<Rightarrow> c1\<lparr>DenyRuleIDs := DenyRuleIDs c1 @ [r_ID rule]\<rparr>
            | DecisionAllow \<Rightarrow> c1\<lparr>AllowRuleIDs := AllowRuleIDs c1 @ [r_ID rule]\<rparr>
            | DecisionReview \<Rightarrow> c1\<lparr>ReviewRuleIDs := ReviewRuleIDs c1 @ [r_ID rule]\<rparr>
            | DecisionOther s \<Rightarrow> c1)
         else c1)"

text \<open>The loop looks at the context before each rule that is not nil: the head of \<open>ctx\<close> is its
  error then.\<close>

fun evaluate_loop ::
  "('p, 'd) cel_ops \<Rightarrow> err option list \<Rightarrow> 'd ValidationRequest \<Rightarrow> 'p Rule option list
   \<Rightarrow> EvaluationCollector \<Rightarrow> (err, EvaluationCollector) result" where
  "evaluate_loop cel ctx req [] c = Inr c"
| "evaluate_loop cel ctx req (None # rules) c = evaluate_loop cel ctx req rules c"
| "evaluate_loop cel ctx req (Some rule # rules) c =
     (case ctx_Err ctx of
        Some e \<Rightarrow> Inl (Wrap ''context cancelled during evaluation'' e)
      | None \<Rightarrow>
          (case RuleEvaluator_Evaluate cel (Some rule) (Some req) of
             Inl e \<Rightarrow> Inl (Wrap ''failed to evaluate rule'' e)
           | Inr matched \<Rightarrow> evaluate_loop cel (tl ctx) req rules (collect rule matched c)))"

definition EvaluateAll ::
  "('p, 'd) cel_ops \<Rightarrow> err option list \<Rightarrow> 'p Rule option list \<Rightarrow> 'd ValidationRequest option
   \<Rightarrow> (err, EvaluationCollector) result" where
  "EvaluateAll cel ctx rules req =
     (case req of
        None \<Rightarrow> Inl ErrNilRequest
      | Some q \<Rightarrow> evaluate_loop cel ctx q rules empty_collector)"

subsection \<open>The query\<close>

record EvaluationConfig =
  DefaultDecisionWhenNoMatch :: Decision
  MaxRulesPerRequest :: int

definition ErrNilValidationRequest :: err where
  "ErrNilValidationRequest = Sentinel ''validation request is nil''"

definition GetActiveRulesQuery_Execute ::
  "(Scope option \<Rightarrow> (err, 'p Rule option list) result) \<Rightarrow> Scope option
   \<Rightarrow> (err, 'p Rule option list) result" where
  "GetActiveRulesQuery_Execute repo txScope =
     (case repo txScope of
        Inl e \<Rightarrow> Inl (Wrap ''failed to get active rules'' e)
      | Inr rules \<Rightarrow> Inr rules)"

definition truncate_rules :: "EvaluationConfig \<Rightarrow> 'a list \<Rightarrow> 'a list \<times> bool" where
  "truncate_rules cfg rules =
     (if 0 < MaxRulesPerRequest cfg \<and> MaxRulesPerRequest cfg < int (length rules)
      then (take (nat (MaxRulesPerRequest cfg)) rules, True)
      else (rules, False))"

definition EvaluateRules ::
  "('p, 'd) cel_ops \<Rightarrow> EvaluationConfig \<Rightarrow> err option list
   \<Rightarrow> (Scope option \<Rightarrow> (err, 'p Rule option list) result) \<Rightarrow> 'd ValidationRequest option
   \<Rightarrow> (err, EvaluationResult) result" where
  "EvaluateRules cel cfg ctx repo req =
     (case ctx_Err ctx of
        Some e \<Rightarrow> Inl e
      | None \<Rightarrow>
     (case req of
        None \<Rightarrow> Inl ErrNilValidationRequest
      | Some q \<Rightarrow>
     (case GetActiveRulesQuery_Execute repo (Some (ToTransactionScope q)) of
        Inl e \<Rightarrow> Inl (Wrap ''failed to load rules'' e)
      | Inr loaded \<Rightarrow>
          let originalCount = int (length loaded);
              (rules, truncated) = truncate_rules cfg loaded
          in
          (case EvaluateAll cel (tl ctx) rules (Some q) of
             Inl e \<Rightarrow> Inl (Wrap ''failed to evaluate rules'' e)
           | Inr collector \<Rightarrow>
          (case MakeDecision (DenyRuleIDs collector) (AllowRuleIDs collector)
                  (ReviewRuleIDs collector) (EvaluatedRuleIDs collector)
                  (DefaultDecisionWhenNoMatch cfg) of
             Inl e \<Rightarrow> Inl (Wrap ''failed to make decision'' e)
           | Inr r \<Rightarrow> Inr (WithTruncationInfo r originalCount truncated))))))"

subsection \<open>The specification of a decision\<close>

text \<open>The effective program of a rule: the compiled one it carries, else its expression compiled.\<close>

definition rule_program :: "('p, 'd) cel_ops \<Rightarrow> 'p Rule \<Rightarrow> (err, 'p) result" where
  "rule_program cel r = (case r_CompiledProgram r of Some p \<Rightarrow> Inr p
     | None \<Rightarrow> cel_Compile cel (r_Expression r))"

definition rule_applies :: "'p Rule \<Rightarrow> 'd ValidationRequest \<Rightarrow> bool" where
  "rule_applies r q = (r_Scopes r = [] \<or> (\<exists>s \<in> set (r_Scopes r). Scope_Matches s (ToTransactionScope q)))"

definition rule_matches :: "('p, 'd) cel_ops \<Rightarrow> 'd ValidationRequest \<Rightarrow> 'p Rule \<Rightarrow> bool" where
  "rule_matches cel q r = (rule_applies r q
     \<and> (case rule_program cel r of Inl e \<Rightarrow> False | Inr p \<Rightarrow> cel_Evaluate cel p q = Inr True))"

definition rule_fails :: "('p, 'd) cel_ops \<Rightarrow> 'd ValidationRequest \<Rightarrow> 'p Rule \<Rightarrow> bool" where
  "rule_fails cel q r = (rule_applies r q
     \<and> (case rule_program cel r of Inl e \<Rightarrow> True
        | Inr p \<Rightarrow> (case cel_Evaluate cel p q of Inl e \<Rightarrow> True | Inr b \<Rightarrow> False)))"

text \<open>The action that wins among the rules that match.\<close>

definition winning :: "Decision \<Rightarrow> Decision set \<Rightarrow> Decision" where
  "winning dflt acts =
     (if DecisionDeny \<in> acts then DecisionDeny
      else if DecisionReview \<in> acts then DecisionReview
      else if DecisionAllow \<in> acts then DecisionAllow else dflt)"

lemma RuleEvaluator_Evaluate_Inr:
  "(\<exists>b. RuleEvaluator_Evaluate cel (Some r) (Some q) = Inr b) \<longleftrightarrow> \<not> rule_fails cel q r"
  by (cases "r_CompiledProgram r")
    (auto simp: RuleEvaluator_Evaluate_def rule_fails_def rule_applies_def RuleScopesMatch_iff
      rule_program_def split: sum.splits)

lemma RuleEvaluator_Evaluate_value:
  assumes "\<not> rule_fails cel q r"
  shows "RuleEvaluator_Evaluate cel (Some r) (Some q) = Inr (rule_matches cel q r)"
  using assms
  by (cases "r_CompiledProgram r")
    (auto simp: RuleEvaluator_Evaluate_def rule_fails_def rule_matches_def rule_applies_def
      RuleScopesMatch_iff rule_program_def split: sum.splits)

text \<open>The rules of one action that match, and all the rules of a list, in order.\<close>

definition matched_with :: "('p, 'd) cel_ops \<Rightarrow> 'd ValidationRequest \<Rightarrow> Decision \<Rightarrow> 'p Rule option list
    \<Rightarrow> uuid list" where
  "matched_with cel q a rules =
     map r_ID (filter (\<lambda>r. rule_matches cel q r \<and> r_Action r = a) (List.map_filter id rules))"

lemma map_filter_id_simps [simp]:
  "List.map_filter id [] = []" "List.map_filter id (None # xs) = List.map_filter id xs"
  "List.map_filter id (Some x # xs) = x # List.map_filter id xs"
  by (simp_all add: List.map_filter_def)

lemma set_map_filter_id: "x \<in> set (List.map_filter id xs) \<longleftrightarrow> Some x \<in> set xs"
  by (induction xs) (auto simp: List.map_filter_def split: option.splits)

lemma evaluate_loop_value:
  assumes "live_context ctx" "\<forall>r. Some r \<in> set rules \<longrightarrow> \<not> rule_fails cel q r"
  shows "evaluate_loop cel ctx q rules c = Inr
    \<lparr>DenyRuleIDs = DenyRuleIDs c @ matched_with cel q DecisionDeny rules,
     AllowRuleIDs = AllowRuleIDs c @ matched_with cel q DecisionAllow rules,
     ReviewRuleIDs = ReviewRuleIDs c @ matched_with cel q DecisionReview rules,
     EvaluatedRuleIDs = EvaluatedRuleIDs c @ map r_ID (List.map_filter id rules)\<rparr>"
  using assms
proof (induction cel ctx q rules c rule: evaluate_loop.induct)
  case (1 cel ctx req c)
  show ?case by (simp add: matched_with_def)
next
  case (2 cel ctx req rules c)
  then show ?case by (simp add: matched_with_def)
next
  case (3 cel ctx req rule rules c)
  have e: "RuleEvaluator_Evaluate cel (Some rule) (Some req) = Inr (rule_matches cel req rule)"
    using 3 by (intro RuleEvaluator_Evaluate_value) simp
  have "ctx_Err ctx = None" using 3 by simp
  note IH = 3(1) [OF this e]
  show ?case
    using 3(2,3) IH e
    by (cases "r_Action rule") (simp_all add: collect_def Let_def matched_with_def)
qed

lemma evaluate_loop_Inl:
  assumes "live_context ctx" "Some r \<in> set rules" "rule_fails cel q r"
  shows "\<exists>e. evaluate_loop cel ctx q rules c = Inl (Wrap ''failed to evaluate rule'' e)"
  using assms
proof (induction cel ctx q rules c rule: evaluate_loop.induct)
  case (3 cel ctx req rule rules c)
  show ?case
  proof (cases "RuleEvaluator_Evaluate cel (Some rule) (Some req)")
    case (Inl e)
    then show ?thesis using 3 by simp
  next
    case (Inr matched)
    then have "\<not> rule_fails cel req rule" using RuleEvaluator_Evaluate_Inr [of cel rule req] by blast
    then have "r \<noteq> rule" using 3 by blast
    then show ?thesis using 3 Inr by simp
  qed
qed simp_all

text \<open>What the evaluation of a list of rules decides.\<close>

lemma MakeDecision_value:
  assumes "Decision_IsValid dflt"
  shows "\<exists>r. MakeDecision ds as rs es dflt = Inr r
    \<and> e_Decision r = (if ds \<noteq> [] then DecisionDeny else if rs \<noteq> [] then DecisionReview
        else if as \<noteq> [] then DecisionAllow else dflt)
    \<and> e_MatchedRuleIDs r = ds @ rs @ as \<and> e_EvaluatedRuleIDs r = es \<and> e_Reason r \<noteq> []"
  using assms
  by (simp add: MakeDecision_def NewEvaluationResult_def NewNoMatchResult_def Let_def)

lemma matched_with_nonempty:
  "matched_with cel q a rules \<noteq> [] \<longleftrightarrow>
     a \<in> r_Action ` {r. Some r \<in> set rules \<and> rule_matches cel q r}"
  by (force simp: matched_with_def filter_empty_conv set_map_filter_id)

definition winner :: "('p, 'd) cel_ops \<Rightarrow> 'd ValidationRequest \<Rightarrow> Decision \<Rightarrow> 'p Rule set \<Rightarrow> Decision" where
  "winner cel q dflt rs = winning dflt (r_Action ` {r \<in> rs. rule_matches cel q r})"

lemma EvaluateRules_outcome:
  assumes repo: "repo (Some (ToTransactionScope q)) = Inr loaded"
    and live: "live_context ctx" and valid: "Decision_IsValid (DefaultDecisionWhenNoMatch cfg)"
    and tr: "truncate_rules cfg loaded = (rules, truncated)"
    and acts: "\<forall>r. Some r \<in> set rules \<longrightarrow> Decision_IsValid (r_Action r)"
  shows "if \<exists>r. Some r \<in> set rules \<and> rule_fails cel q r
    then \<exists>e. EvaluateRules cel cfg ctx repo (Some q) = Inl (Wrap ''failed to evaluate rules'' e)
    else \<exists>res. EvaluateRules cel cfg ctx repo (Some q) = Inr res
      \<and> e_Decision res = winner cel q (DefaultDecisionWhenNoMatch cfg) {r. Some r \<in> set rules}
      \<and> set (e_MatchedRuleIDs res) = r_ID ` {r. Some r \<in> set rules \<and> rule_matches cel q r}
      \<and> e_EvaluatedRuleIDs res = map r_ID (List.map_filter id rules)
      \<and> e_TotalRulesLoaded res = int (length loaded) \<and> e_Truncated res = truncated"
proof (cases "\<exists>r. Some r \<in> set rules \<and> rule_fails cel q r")
  case True
  then obtain e where "evaluate_loop cel (tl ctx) q rules empty_collector
      = Inl (Wrap ''failed to evaluate rule'' e)"
    using evaluate_loop_Inl live by (metis live_context_tl)
  with True show ?thesis
    using repo live tr
    by (simp add: EvaluateRules_def GetActiveRulesQuery_Execute_def EvaluateAll_def)
next
  case False
  let ?m = "\<lambda>a. matched_with cel q a rules"
  have loop: "evaluate_loop cel (tl ctx) q rules empty_collector = Inr
     \<lparr>DenyRuleIDs = ?m DecisionDeny, AllowRuleIDs = ?m DecisionAllow,
      ReviewRuleIDs = ?m DecisionReview, EvaluatedRuleIDs = map r_ID (List.map_filter id rules)\<rparr>"
    using evaluate_loop_value [of "tl ctx" rules cel q empty_collector] live False
    by (simp add: empty_collector_def)
  obtain r where r: "MakeDecision (?m DecisionDeny) (?m DecisionAllow) (?m DecisionReview)
      (map r_ID (List.map_filter id rules)) (DefaultDecisionWhenNoMatch cfg) = Inr r"
    "e_Decision r = (if ?m DecisionDeny \<noteq> [] then DecisionDeny else if ?m DecisionReview \<noteq> []
       then DecisionReview else if ?m DecisionAllow \<noteq> [] then DecisionAllow
       else DefaultDecisionWhenNoMatch cfg)"
    "e_MatchedRuleIDs r = ?m DecisionDeny @ ?m DecisionReview @ ?m DecisionAllow"
    "e_EvaluatedRuleIDs r = map r_ID (List.map_filter id rules)"
    using MakeDecision_value [OF valid, of "?m DecisionDeny" "?m DecisionAllow" "?m DecisionReview"
        "map r_ID (List.map_filter id rules)"] by (elim exE conjE) (rule that)
  have set_m: "set (?m a) = r_ID ` {r. Some r \<in> set rules \<and> rule_matches cel q r \<and> r_Action r = a}" for a
    by (auto simp: matched_with_def set_map_filter_id)
  have three: "r_Action x = DecisionDeny \<or> r_Action x = DecisionReview \<or> r_Action x = DecisionAllow"
    if "Some x \<in> set rules" for x
    using acts that by (cases "r_Action x") auto
  have ids: "set (e_MatchedRuleIDs r) = r_ID ` {r. Some r \<in> set rules \<and> rule_matches cel q r}"
    unfolding r(3) set_append set_m image_Un [symmetric]
    by (rule arg_cong [of _ _ "(`) r_ID"]) (use three in blast)
  have win: "e_Decision r = winner cel q (DefaultDecisionWhenNoMatch cfg) {r. Some r \<in> set rules}"
    unfolding r(2) matched_with_nonempty by (simp add: winner_def winning_def)
  have "EvaluateRules cel cfg ctx repo (Some q)
      = Inr (WithTruncationInfo r (int (length loaded)) truncated)"
    using repo live tr loop r(1)
    by (simp add: EvaluateRules_def GetActiveRulesQuery_Execute_def EvaluateAll_def)
  with False show ?thesis
    using win ids r(4) by (simp add: WithTruncationInfo_def)
qed

end
