(* ===== verification/RuleStore.thy ===== *)
theory RuleStore
  imports RuleEvaluation
begin

text \<open>
  The table of rules (\<^verbatim>\<open>internal/adapters/postgres/rule_repository.go\<close>,
  \<^verbatim>\<open>rule_postgresql_model.go\<close>, \<^verbatim>\<open>rule_sync_repository.go\<close>). It is one more table of
  the database of \<open>LimitStore\<close>, with the same list of faults: each operation takes a connection and
  runs one statement. A row holds what the columns hold, so no compiled program. The lists come in
  the order of their \<^verbatim>\<open>ORDER BY\<close> (ties as the table has them).
\<close>

record ('d, 'p) rule_db = "'d limit_db" +
  db_rules :: "'p Rule list"

fun string_less :: "string \<Rightarrow> string \<Rightarrow> bool" where
  "string_less s [] = False"
| "string_less [] (d # t) = True"
| "string_less (c # s) (d # t) =
     ((of_char c :: nat) < of_char d \<or> c = d \<and> string_less s t)"

text \<open>\<^verbatim>\<open>FromEntity\<close>: the smallest text of a segment id among the scopes is the context.\<close>

fun smallest_segment :: "ext \<Rightarrow> string option \<Rightarrow> Scope list \<Rightarrow> string option" where
  "smallest_segment X best [] = best"
| "smallest_segment X best (s # ss) =
     smallest_segment X
       (case SegmentID s of
          None \<Rightarrow> best
        | Some i \<Rightarrow>
            (case best of
               None \<Rightarrow> Some (x_uuid_string X i)
             | Some b \<Rightarrow> if string_less (x_uuid_string X i) b then Some (x_uuid_string X i)
                 else Some b)) ss"

definition context_id :: "ext \<Rightarrow> 'p Rule \<Rightarrow> string option" where
  "context_id X r = smallest_segment X None (r_Scopes r)"

text \<open>The partial unique index \<^verbatim>\<open>idx_rules_name_per_context_active\<close>, nulls not distinct.\<close>

definition rule_name_taken :: "ext \<Rightarrow> 'p Rule \<Rightarrow> 'p Rule list \<Rightarrow> bool" where
  "rule_name_taken X r rows =
     list_ex (\<lambda>r'. r_Status r' \<noteq> RuleStatusDeleted \<and> r_Name r' = r_Name r
                   \<and> context_id X r' = context_id X r) rows"

definition live_rule :: "uuid \<Rightarrow> 'p Rule \<Rightarrow> bool" where
  "live_rule i r = (r_ID r = i \<and> r_DeletedAt r = None)"

definition inserted_rule :: "'p Rule \<Rightarrow> 'p Rule" where
  "inserted_rule r = r\<lparr>r_ActivatedAt := None, r_DeactivatedAt := None, r_DeletedAt := None,
     r_CompiledProgram := None\<rparr>"

definition RuleRepo_Create ::
  "ext \<Rightarrow> 'p Rule \<Rightarrow> ('d, 'p, 'x) rule_db_scheme
   \<Rightarrow> ('d, 'p, 'x) rule_db_scheme \<times> (err, 'p Rule) result" where
  "RuleRepo_Create X rule = with_db ''failed to insert rule'' (\<lambda>db.
     if r_Status rule \<noteq> RuleStatusDeleted \<and> rule_name_taken X rule (db_rules db)
     then (db, Inl ErrRuleNameAlreadyExistsInCtx)
     else if list_ex (\<lambda>r. r_ID r = r_ID rule) (db_rules db)
     then (db, Inl (Wrap ''failed to insert rule'' (External ''rules_pkey'')))
     else (db\<lparr>db_rules := db_rules db @ [inserted_rule rule]\<rparr>, Inr rule))"

definition RuleRepo_GetByID ::
  "uuid \<Rightarrow> ('d, 'p, 'x) rule_db_scheme
   \<Rightarrow> ('d, 'p, 'x) rule_db_scheme \<times> (err, 'p Rule) result" where
  "RuleRepo_GetByID ruleID = with_db ''failed to get rule'' (\<lambda>db.
     (db, case find (live_rule ruleID) (db_rules db) of
            None \<Rightarrow> Inl ErrRuleNotFound
          | Some r \<Rightarrow> Inr r))"

definition RuleRepo_GetByName ::
  "string \<Rightarrow> ('d, 'p, 'x) rule_db_scheme
   \<Rightarrow> ('d, 'p, 'x) rule_db_scheme \<times> (err, 'p Rule) result" where
  "RuleRepo_GetByName name = with_db ''failed to get rule by name'' (\<lambda>db.
     (db, case find (\<lambda>r. r_Name r = name \<and> r_DeletedAt r = None) (db_rules db) of
            None \<Rightarrow> Inl ErrRuleNotFound
          | Some r \<Rightarrow> Inr r))"

text \<open>The columns that \<^verbatim>\<open>Repository.Update\<close> sets; the lifecycle timestamps are not among
  them.\<close>

definition updated_rule :: "'p Rule \<Rightarrow> 'p Rule \<Rightarrow> 'p Rule" where
  "updated_rule rule r = r\<lparr>r_Name := r_Name rule, r_Description := r_Description rule,
     r_Expression := r_Expression rule, r_Action := r_Action rule, r_Scopes := r_Scopes rule,
     r_Status := r_Status rule, r_UpdatedAt := r_UpdatedAt rule\<rparr>"

definition RuleRepo_Update ::
  "ext \<Rightarrow> 'p Rule \<Rightarrow> ('d, 'p, 'x) rule_db_scheme
   \<Rightarrow> ('d, 'p, 'x) rule_db_scheme \<times> (err, 'p Rule) result" where
  "RuleRepo_Update X rule = with_db ''failed to update rule'' (\<lambda>db.
     if \<not> list_ex (live_rule (r_ID rule)) (db_rules db) then (db, Inl ErrRuleNotFound)
     else if r_Status rule \<noteq> RuleStatusDeleted
             \<and> rule_name_taken X rule (filter (\<lambda>r. \<not> live_rule (r_ID rule) r) (db_rules db))
     then (db, Inl ErrRuleNameAlreadyExistsInCtx)
     else (db\<lparr>db_rules := map (\<lambda>r. if live_rule (r_ID rule) r then updated_rule rule r else r)
                (db_rules db)\<rparr>, Inr rule))"

definition deleted_rule :: "gotime \<Rightarrow> 'p Rule \<Rightarrow> 'p Rule" where
  "deleted_rule now r =
     r\<lparr>r_Status := RuleStatusDeleted, r_DeletedAt := Some now, r_UpdatedAt := now\<rparr>"

definition RuleRepo_Delete ::
  "uuid \<Rightarrow> gotime \<Rightarrow> ('d, 'p, 'x) rule_db_scheme
   \<Rightarrow> ('d, 'p, 'x) rule_db_scheme \<times> (err, unit) result" where
  "RuleRepo_Delete ruleID now = with_db ''failed to delete rule'' (\<lambda>db.
     if \<not> list_ex (live_rule ruleID) (db_rules db) then (db, Inl ErrRuleNotFound)
     else (db\<lparr>db_rules := map (\<lambda>r. if live_rule ruleID r then deleted_rule now r else r)
                (db_rules db)\<rparr>, Inr ()))"

definition RuleRepo_UpdateStatus ::
  "uuid \<Rightarrow> RuleStatus \<Rightarrow> gotime \<Rightarrow> gotime option \<Rightarrow> gotime option \<Rightarrow> ('d, 'p, 'x) rule_db_scheme
   \<Rightarrow> ('d, 'p, 'x) rule_db_scheme \<times> (err, unit) result" where
  "RuleRepo_UpdateStatus ruleID status updatedAt activatedAt deactivatedAt =
     with_db ''failed to update rule status'' (\<lambda>db.
     if \<not> list_ex (live_rule ruleID) (db_rules db) then (db, Inl ErrRuleNotFound)
     else (db\<lparr>db_rules := map (\<lambda>r. if live_rule ruleID r then
                r\<lparr>r_Status := status, r_UpdatedAt := updatedAt,
                  r_ActivatedAt := (case activatedAt of None \<Rightarrow> r_ActivatedAt r | Some t \<Rightarrow> Some t),
                  r_DeactivatedAt :=
                    (case deactivatedAt of None \<Rightarrow> r_DeactivatedAt r | Some t \<Rightarrow> Some t)\<rparr>
                else r) (db_rules db)\<rparr>, Inr ()))"

subsection \<open>Lists of rules\<close>

definition newest_first :: "'p Rule \<Rightarrow> 'p Rule \<Rightarrow> bool" where
  "newest_first r r' = (r_CreatedAt r' < r_CreatedAt r)"

definition RuleRepo_ListByStatus ::
  "RuleStatus option \<Rightarrow> ('d, 'p, 'x) rule_db_scheme
   \<Rightarrow> ('d, 'p, 'x) rule_db_scheme \<times> (err, 'p Rule list) result" where
  "RuleRepo_ListByStatus status = with_db ''failed to list rules'' (\<lambda>db.
     (db, Inr (sort_by newest_first
       (filter (\<lambda>r. r_DeletedAt r = None
                \<and> (case status of None \<Rightarrow> True | Some s \<Rightarrow> r_Status r = s)) (db_rules db)))))"

text \<open>\<^verbatim>\<open>buildScopeFilter\<close>; an empty filter scope gives the condition \<^verbatim>\<open>1=1\<close> on every element
  of the row's scopes, as \<open>scope_agrees\<close> does.\<close>

definition buildScopeFilter :: "Scope list \<Rightarrow> 'p Rule \<Rightarrow> bool" where
  "buildScopeFilter filterScopes r =
     (if filterScopes = [] then True
      else r_Scopes r = []
        \<or> list_ex (\<lambda>s. list_ex (\<lambda>f. scope_agrees f s) filterScopes) (r_Scopes r))"

definition RuleRepo_ListActiveByScopes ::
  "Scope list \<Rightarrow> ('d, 'p, 'x) rule_db_scheme
   \<Rightarrow> ('d, 'p, 'x) rule_db_scheme \<times> (err, 'p Rule list) result" where
  "RuleRepo_ListActiveByScopes scopes = with_db ''failed to list active rules'' (\<lambda>db.
     (db, Inr (sort_by newest_first
       (filter (\<lambda>r. r_Status r = RuleStatusActive \<and> r_DeletedAt r = None
                \<and> buildScopeFilter scopes r) (db_rules db)))))"

definition RuleRepo_GetActiveRules ::
  "Scope option \<Rightarrow> ('d, 'p, 'x) rule_db_scheme
   \<Rightarrow> ('d, 'p, 'x) rule_db_scheme \<times> (err, 'p Rule list) result" where
  "RuleRepo_GetActiveRules txScope =
     (if (case txScope of None \<Rightarrow> True | Some s \<Rightarrow> Scope_IsEmpty s)
      then RuleRepo_ListByStatus (Some RuleStatusActive)
      else RuleRepo_ListActiveByScopes [the txScope])"

text \<open>The queries of the cache synchronization.\<close>

definition active_rows :: "'p Rule list \<Rightarrow> 'p Rule list" where
  "active_rows rows = filter (\<lambda>r. r_Status r = RuleStatusActive \<and> r_DeletedAt r = None) rows"

definition GetAllActiveRules ::
  "('d, 'p, 'x) rule_db_scheme \<Rightarrow> ('d, 'p, 'x) rule_db_scheme \<times> (err, 'p Rule list) result" where
  "GetAllActiveRules = with_db ''failed to query active rules'' (\<lambda>db.
     (db, Inr (sort_by newest_first (active_rows (db_rules db)))))"

definition GetRulesUpdatedSince ::
  "gotime \<Rightarrow> ('d, 'p, 'x) rule_db_scheme
   \<Rightarrow> ('d, 'p, 'x) rule_db_scheme \<times> (err, 'p Rule list) result" where
  "GetRulesUpdatedSince since = with_db ''failed to query updated rules'' (\<lambda>db.
     (db, Inr (sort_by (\<lambda>r r'. r_UpdatedAt r < r_UpdatedAt r')
       (filter (\<lambda>r. r_UpdatedAt r \<ge> since) (db_rules db)))))"

subsection \<open>The store keeps its constraints\<close>

definition same_slot :: "ext \<Rightarrow> 'p Rule \<Rightarrow> 'p Rule \<Rightarrow> bool" where
  "same_slot X r r' = (r_Status r \<noteq> RuleStatusDeleted \<and> r_Status r' \<noteq> RuleStatusDeleted
     \<and> r_Name r = r_Name r' \<and> context_id X r = context_id X r')"

text \<open>Identifiers are unique, live rows have unique names per context, and a row is deleted exactly
  when it has a deletion time.\<close>

definition rules_ok :: "ext \<Rightarrow> ('d, 'p, 'x) rule_db_scheme \<Rightarrow> bool" where
  "rules_ok X db =
     (distinct (map r_ID (db_rules db))
      \<and> (\<forall>r \<in> set (db_rules db). \<forall>r' \<in> set (db_rules db). same_slot X r r' \<longrightarrow> r = r')
      \<and> (\<forall>r \<in> set (db_rules db). r_Status r = RuleStatusDeleted \<longleftrightarrow> r_DeletedAt r \<noteq> None))"

lemma with_db_cases:
  assumes "with_db what run db = (db', r)"
  obtains (fault) e where "r = Inl e" "db' = consume_fault db \<or> db' = consume_fault (consume_fault db)"
  | (ran) "run (consume_fault (consume_fault db)) = (db', r)" "next_fault db = None"
      "next_fault (consume_fault db) = None"
  using assms that by (auto simp: with_db_def Let_def split: option.splits)

lemma consume_fault_rules [simp]:
  "db_rules (consume_fault db) = db_rules db" "db_limits (consume_fault db) = db_limits db"
  by (simp_all add: consume_fault_def)

lemma rules_ok_consume [simp]: "rules_ok X (consume_fault db) = rules_ok X db"
  by (simp add: rules_ok_def)

lemma live_rule_unique:
  assumes "distinct (map r_ID rows)" "r \<in> set rows" "live_rule i r" "r' \<in> set rows" "live_rule i r'"
  shows "r = r'"
  using assms by (simp add: live_rule_def distinct_map inj_on_def)

lemma same_slot_updated [simp]:
  "same_slot X r (updated_rule rule x) = same_slot X r rule"
  "same_slot X (updated_rule rule x) r = same_slot X rule r"
  by (simp_all add: same_slot_def updated_rule_def context_id_def)

lemma rule_name_taken_iff:
  "r_Status rule \<noteq> RuleStatusDeleted \<Longrightarrow>
    rule_name_taken X rule rows \<longleftrightarrow> (\<exists>r \<in> set rows. same_slot X r rule)"
  by (auto simp: rule_name_taken_def same_slot_def list_ex_iff)

lemma same_slot_sym: "same_slot X r r' \<longleftrightarrow> same_slot X r' r"
  by (auto simp: same_slot_def)

lemma not_taken:
  assumes "\<not> (r_Status rule \<noteq> RuleStatusDeleted \<and> rule_name_taken X rule rows)"
  shows "\<forall>r \<in> set rows. \<not> same_slot X r rule"
  using assms rule_name_taken_iff by (auto simp: same_slot_def)

lemma rules_ok_map:
  assumes "rules_ok X db" "db_rules db' = map f (db_rules db)" "\<And>r. r_ID (f r) = r_ID r"
    and "\<And>r r'. r \<in> set (db_rules db) \<Longrightarrow> r' \<in> set (db_rules db) \<Longrightarrow> same_slot X (f r) (f r')
      \<Longrightarrow> f r = f r'"
    and "\<And>r. r \<in> set (db_rules db) \<Longrightarrow>
      r_Status (f r) = RuleStatusDeleted \<longleftrightarrow> r_DeletedAt (f r) \<noteq> None"
  shows "rules_ok X db'"
proof -
  have "map r_ID (db_rules db') = map r_ID (db_rules db)"
    unfolding assms(2) map_map by (simp add: assms(3))
  moreover have "\<forall>r \<in> set (db_rules db'). \<exists>r0 \<in> set (db_rules db). r = f r0"
    unfolding assms(2) set_map by blast
  ultimately show ?thesis
    using assms(1,4,5) unfolding rules_ok_def by metis
qed

lemma RuleRepo_Create_ok:
  assumes "RuleRepo_Create X rule db = (db', res)" "rules_ok X db"
    "r_Status rule \<noteq> RuleStatusDeleted"
  shows "rules_ok X db'"
  using assms(1) unfolding RuleRepo_Create_def
proof (cases rule: with_db_cases)
  case (fault e)
  then show ?thesis using assms(2) by auto
next
  case ran
  then consider "db' = consume_fault (consume_fault db)"
    | "\<not> rule_name_taken X rule (db_rules db)" "\<forall>r \<in> set (db_rules db). r_ID r \<noteq> r_ID rule"
      "db' = (consume_fault (consume_fault db))\<lparr>db_rules := db_rules db @ [inserted_rule rule]\<rparr>"
    using assms(3) by (auto simp: list_ex_iff split: if_splits)
  then show ?thesis
  proof cases
    case 1
    then show ?thesis using assms(2) by simp
  next
    case 2
    have slot: "\<not> same_slot X r (inserted_rule rule)" "\<not> same_slot X (inserted_rule rule) r"
      if "r \<in> set (db_rules db)" for r
      using not_taken [of rule X "db_rules db"] 2(1) that
      by (auto simp: same_slot_def inserted_rule_def context_id_def)
    have "r_ID (inserted_rule rule) = r_ID rule" "r_DeletedAt (inserted_rule rule) = None"
      "r_Status (inserted_rule rule) \<noteq> RuleStatusDeleted"
      using assms(3) by (simp_all add: inserted_rule_def)
    then show ?thesis
      using assms(2) 2(2,3) slot by (auto simp: rules_ok_def)
  qed
qed

lemma RuleRepo_Update_ok:
  assumes "RuleRepo_Update X rule db = (db', res)" "rules_ok X db"
    "r_Status rule \<noteq> RuleStatusDeleted"
  shows "rules_ok X db'"
  using assms(1) unfolding RuleRepo_Update_def
proof (cases rule: with_db_cases)
  case (fault e)
  then show ?thesis using assms(2) by auto
next
  case ran
  let ?live = "live_rule (r_ID rule)"
  let ?f = "\<lambda>r. if ?live r then updated_rule rule r else r"
  from ran consider "db' = consume_fault (consume_fault db)"
    | "\<not> rule_name_taken X rule (filter (\<lambda>r. \<not> ?live r) (db_rules db))"
      "db' = (consume_fault (consume_fault db))\<lparr>db_rules := map ?f (db_rules db)\<rparr>"
    using assms(3) by (auto split: if_splits)
  then show ?thesis
  proof cases
    case 1
    then show ?thesis using assms(2) by simp
  next
    case 2
    have slot: "\<not> same_slot X r rule" "\<not> same_slot X rule r"
      if "r \<in> set (db_rules db)" "\<not> ?live r" for r
      using not_taken [of rule X "filter (\<lambda>r. \<not> ?live r) (db_rules db)"] 2(1) that
        same_slot_sym [of X r rule] by auto
    have ids: "r_ID (?f r) = r_ID r" for r by (simp add: updated_rule_def)
    have uniq: "?f r = ?f r'"
      if "r \<in> set (db_rules db)" "r' \<in> set (db_rules db)" "same_slot X (?f r) (?f r')" for r r'
      using that assms(2) slot [of r] slot [of r'] live_rule_unique [of "db_rules db" r "r_ID rule" r']
      by (auto simp: rules_ok_def split: if_splits)
    have del: "r_Status (?f r) = RuleStatusDeleted \<longleftrightarrow> r_DeletedAt (?f r) \<noteq> None"
      if "r \<in> set (db_rules db)" for r
      using that assms(2,3) by (auto simp: rules_ok_def updated_rule_def live_rule_def)
    show ?thesis
      by (rule rules_ok_map [OF assms(2), where f = ?f]) (rule ids uniq del | simp add: 2(2) | assumption)+
  qed
qed

lemma RuleRepo_Delete_ok:
  assumes "RuleRepo_Delete i now db = (db', res)" "rules_ok X db"
  shows "rules_ok X db'"
  using assms(1) unfolding RuleRepo_Delete_def
proof (cases rule: with_db_cases)
  case (fault e)
  then show ?thesis using assms(2) by auto
next
  case ran
  let ?f = "\<lambda>r. if live_rule i r then deleted_rule now r else r"
  from ran consider "db' = consume_fault (consume_fault db)"
    | "db' = (consume_fault (consume_fault db))\<lparr>db_rules := map ?f (db_rules db)\<rparr>"
    by (auto split: if_splits)
  then show ?thesis
  proof cases
    case 1
    then show ?thesis using assms(2) by simp
  next
    case 2
    have ids: "r_ID (?f r) = r_ID r" for r by (simp add: deleted_rule_def)
    have uniq: "?f r = ?f r'"
      if "r \<in> set (db_rules db)" "r' \<in> set (db_rules db)" "same_slot X (?f r) (?f r')" for r r'
      using that assms(2) by (auto simp: rules_ok_def same_slot_def deleted_rule_def split: if_splits)
    have del: "r_Status (?f r) = RuleStatusDeleted \<longleftrightarrow> r_DeletedAt (?f r) \<noteq> None"
      if "r \<in> set (db_rules db)" for r
      using that assms(2) by (auto simp: rules_ok_def deleted_rule_def)
    show ?thesis
      by (rule rules_ok_map [OF assms(2), where f = ?f]) (rule ids uniq del | simp add: 2 | assumption)+
  qed
qed

text \<open>The filter of the database loses no rule that the evaluation would find in scope.\<close>

lemma ptrMatches_agrees: "ptrMatches p v \<Longrightarrow> v = None \<or> p = None \<or> v = p"
  by (cases p; cases v) auto

lemma scope_agrees_superset: "Scope_Matches s tx \<Longrightarrow> scope_agrees tx s"
  unfolding Scope_Matches_def scope_agrees_def Let_def by (intro conjI ptrMatches_agrees) simp_all

lemma buildScopeFilter_superset:
  "RuleScopesMatch (r_Scopes r) (Some tx) \<Longrightarrow> buildScopeFilter [tx] r"
  by (auto simp: RuleScopesMatch_iff buildScopeFilter_def list_ex_iff intro: scope_agrees_superset)

end
