(* ===== verification/RuleCache.thy ===== *)
theory RuleCache
  imports RuleStore
begin

text \<open>
  The in-memory rule cache (\<^verbatim>\<open>internal/services/cache/rule_cache.go\<close>), the adapter through
  which the evaluation reads it (\<^verbatim>\<open>adapter.go\<close>) and the warm-up (\<^verbatim>\<open>warmup.go\<close>). The
  Go map is a partial function; a loop over it meets the entries in an order the runtime picks, which
  is the argument \<open>order\<close> (a list of the keys). The locks make each operation one step. Both writers
  skip nil pointers, so the map holds cached rules and not pointers to them. The locale
  \<open>active_rules_source\<close> is the interface \<^verbatim>\<open>ActiveRulesRepository\<close> of the evaluation, provided by
  the cache and by the table of rules.
\<close>

record 'p CachedRule =
  cr_Rule :: "'p Rule option"
  cr_Program :: "'p option"

record 'p RuleCache =
  rc_rules :: "uuid \<Rightarrow> 'p CachedRule option"
  rc_ready :: bool
  rc_lastSyncTime :: gotime

definition NewRuleCache :: "'p RuleCache" where
  "NewRuleCache = \<lparr>rc_rules = (\<lambda>_. None), rc_ready = False, rc_lastSyncTime = 0\<rparr>"

definition Cache_GetActiveRules ::
  "uuid list \<Rightarrow> 'p RuleCache \<Rightarrow> Scope option \<Rightarrow> 'p CachedRule list" where
  "Cache_GetActiveRules order c txScope =
     List.map_filter (\<lambda>i.
       case rc_rules c i of
         None \<Rightarrow> None
       | Some cached \<Rightarrow>
           (case cr_Rule cached of
              None \<Rightarrow> None
            | Some rule \<Rightarrow>
                if txScope = None \<or> RuleScopesMatch (r_Scopes rule) txScope then Some cached
                else None)) order"

definition store_rule ::
  "'p CachedRule option \<Rightarrow> (uuid \<Rightarrow> 'p CachedRule option) \<Rightarrow> uuid \<Rightarrow> 'p CachedRule option" where
  "store_rule r m =
     (case r of None \<Rightarrow> m
      | Some cr \<Rightarrow> (case cr_Rule cr of None \<Rightarrow> m | Some rule \<Rightarrow> m(r_ID rule \<mapsto> cr)))"

definition SetRules :: "'p CachedRule option list \<Rightarrow> gotime \<Rightarrow> 'p RuleCache \<Rightarrow> 'p RuleCache" where
  "SetRules rules now c =
     c\<lparr>rc_rules := fold store_rule rules (\<lambda>_. None), rc_lastSyncTime := now\<rparr>"

definition ApplyChanges ::
  "'p CachedRule option list \<Rightarrow> uuid list \<Rightarrow> gotime \<Rightarrow> 'p RuleCache \<Rightarrow> 'p RuleCache" where
  "ApplyChanges upserts removeIDs now c =
     c\<lparr>rc_rules := fold (\<lambda>i m. m(i := None)) removeIDs (fold store_rule upserts (rc_rules c)),
       rc_lastSyncTime := now\<rparr>"

definition UpsertRule :: "'p Rule \<Rightarrow> 'p option \<Rightarrow> gotime \<Rightarrow> 'p RuleCache \<Rightarrow> 'p RuleCache" where
  "UpsertRule rule program now c =
     ApplyChanges [Some \<lparr>cr_Rule = Some rule, cr_Program = program\<rparr>] [] now c"

definition RemoveRule :: "uuid \<Rightarrow> gotime \<Rightarrow> 'p RuleCache \<Rightarrow> 'p RuleCache" where
  "RemoveRule i now c = ApplyChanges [] [i] now c"

definition MarkReady :: "'p RuleCache \<Rightarrow> 'p RuleCache" where
  "MarkReady c = c\<lparr>rc_ready := True\<rparr>"

definition Cache_Size :: "uuid list \<Rightarrow> 'p RuleCache \<Rightarrow> nat" where
  "Cache_Size order c = length (filter (\<lambda>i. rc_rules c i \<noteq> None) order)"

definition MaxInt64 :: int where "MaxInt64 = 2 ^ 63 - 1"

text \<open>\<^verbatim>\<open>Time.Sub\<close> saturates.\<close>

definition time_Sub :: "gotime \<Rightarrow> gotime \<Rightarrow> int" where
  "time_Sub t u = max (- (2 ^ 63)) (min MaxInt64 (t - u))"

definition Staleness :: "gotime \<Rightarrow> 'p RuleCache \<Rightarrow> int" where
  "Staleness now c =
     (if time_IsZero (rc_lastSyncTime c) then MaxInt64 else time_Sub now (rc_lastSyncTime c))"

subsection \<open>The adapter\<close>

definition CacheAdapter_GetActiveRules ::
  "uuid list \<Rightarrow> 'p RuleCache \<Rightarrow> Scope option \<Rightarrow> (err, 'p Rule option list) result" where
  "CacheAdapter_GetActiveRules order c txScope =
     (if \<not> rc_ready c then Inl ErrRuleCacheNotReady
      else Inr (List.map_filter (\<lambda>cached.
        case cr_Rule cached of
          None \<Rightarrow> None
        | Some rule \<Rightarrow> Some (Some (rule\<lparr>r_CompiledProgram := cr_Program cached\<rparr>)))
        (Cache_GetActiveRules order c txScope)))"

subsection \<open>The warm-up\<close>

text \<open>\<open>compile_all\<close> is the loop of \<^verbatim>\<open>WarmUp\<close>: a look at the context, a nil check and a
  compilation for each rule; the first failure aborts it.\<close>

fun compile_all ::
  "(string \<Rightarrow> (err, 'p) result) \<Rightarrow> err option list \<Rightarrow> 'p Rule option list
   \<Rightarrow> (err, 'p CachedRule option list) result" where
  "compile_all compile ctx [] = Inr []"
| "compile_all compile ctx (rule # rules) =
     (case ctx_Err ctx of
        Some e \<Rightarrow> Inl (Wrap2 [] ErrRuleCacheWarmUpFailed e)
      | None \<Rightarrow>
          (case rule of
             None \<Rightarrow> compile_all compile (tl ctx) rules
           | Some r \<Rightarrow>
               (case compile (r_Expression r) of
                  Inl e \<Rightarrow> Inl (Wrap2 ''rule failed to compile'' ErrRuleCacheWarmUpFailed e)
                | Inr p \<Rightarrow>
                    bind_result (compile_all compile (tl ctx) rules) (\<lambda>cached.
                      Inr (Some \<lparr>cr_Rule = Some r, cr_Program = Some p\<rparr> # cached)))))"

text \<open>The clock is read at the start, by \<^verbatim>\<open>SetRules\<close> and at the end. The result is the cache, the
  number of cached rules with the duration, and the error.\<close>

definition WarmUp ::
  "gotime \<Rightarrow> gotime \<Rightarrow> gotime \<Rightarrow> (string \<Rightarrow> (err, 'p) result) \<Rightarrow> err option list
   \<Rightarrow> (err, 'p Rule option list) result \<Rightarrow> 'p RuleCache
   \<Rightarrow> 'p RuleCache \<times> (nat \<times> int) \<times> err option" where
  "WarmUp start set_time finish compile ctx loaded c =
     (case loaded of
        Inl e \<Rightarrow> (c, (0, time_Sub finish start), Some (Wrap2 [] ErrRuleCacheWarmUpFailed e))
      | Inr rules \<Rightarrow>
          (case compile_all compile ctx rules of
             Inl e \<Rightarrow> (c, (0, time_Sub finish start), Some e)
           | Inr cachedRules \<Rightarrow>
               (MarkReady (SetRules cachedRules set_time c),
                (length cachedRules, time_Sub finish start), None)))"

subsection \<open>The contents of the cache\<close>

text \<open>A cache is well formed when each entry holds a rule under its identifier.\<close>

definition cache_wf :: "'p RuleCache \<Rightarrow> bool" where
  "cache_wf c = (\<forall>i cr. rc_rules c i = Some cr \<longrightarrow> (\<exists>r. cr_Rule cr = Some r \<and> r_ID r = i))"

definition cache_rule :: "'p RuleCache \<Rightarrow> uuid \<Rightarrow> 'p Rule option" where
  "cache_rule c i = (case rc_rules c i of None \<Rightarrow> None | Some cr \<Rightarrow> cr_Rule cr)"

text \<open>The rules the cache serves, with their programs.\<close>

definition served :: "'p RuleCache \<Rightarrow> 'p Rule set" where
  "served c = {r\<lparr>r_CompiledProgram := cr_Program cr\<rparr> | i cr r.
     rc_rules c i = Some cr \<and> cr_Rule cr = Some r}"

definition enumerates :: "uuid list \<Rightarrow> 'p RuleCache \<Rightarrow> bool" where
  "enumerates order c = (distinct order \<and> set order = {i. rc_rules c i \<noteq> None})"

lemma NewRuleCache_wf: "cache_wf NewRuleCache"
  by (simp add: cache_wf_def NewRuleCache_def)

lemma store_rule_wf:
  assumes "\<forall>i cr. m i = Some cr \<longrightarrow> (\<exists>r. cr_Rule cr = Some r \<and> r_ID r = i)"
  shows "\<forall>i cr. store_rule x m i = Some cr \<longrightarrow> (\<exists>r. cr_Rule cr = Some r \<and> r_ID r = i)"
  using assms by (auto simp: store_rule_def split: option.splits if_splits)

lemma fold_store_wf:
  assumes "\<forall>i cr. m i = Some cr \<longrightarrow> (\<exists>r. cr_Rule cr = Some r \<and> r_ID r = i)"
  shows "\<forall>i cr. fold store_rule xs m i = Some cr \<longrightarrow> (\<exists>r. cr_Rule cr = Some r \<and> r_ID r = i)"
  using assms
proof (induction xs arbitrary: m)
  case (Cons x xs)
  show ?case unfolding fold_Cons o_apply by (rule Cons.IH, rule store_rule_wf, rule Cons.prems)
qed simp

lemma fold_remove: "fold (\<lambda>i m. m(i := None)) is m j = (if j \<in> set is then None else m j)"
  by (induction "is" arbitrary: m) auto

lemma SetRules_wf: "cache_wf (SetRules rules now c)"
  using fold_store_wf [of "\<lambda>_. None" rules] by (simp add: cache_wf_def SetRules_def)

lemma ApplyChanges_wf: "cache_wf c \<Longrightarrow> cache_wf (ApplyChanges ups rem now c)"
  using fold_store_wf [of "rc_rules c" ups] by (simp add: cache_wf_def ApplyChanges_def fold_remove)

lemma MarkReady_wf [simp]: "cache_wf (MarkReady c) = cache_wf c"
  by (simp add: cache_wf_def MarkReady_def)

lemma store_rule_other:
  "(\<And>cr r. x = Some cr \<Longrightarrow> cr_Rule cr = Some r \<Longrightarrow> r_ID r \<noteq> i) \<Longrightarrow> store_rule x m i = m i"
  by (auto simp: store_rule_def split: option.splits)

text \<open>The entry after a sequence of writes: the last rule written under the identifier.\<close>

lemma fold_store_other:
  "(\<And>cr r. Some cr \<in> set xs \<Longrightarrow> cr_Rule cr = Some r \<Longrightarrow> r_ID r \<noteq> i) \<Longrightarrow>
    fold store_rule xs m i = m i"
proof (induction xs arbitrary: m)
  case (Cons x xs)
  have "fold store_rule (x # xs) m i = store_rule x m i"
    unfolding fold_Cons o_apply by (rule Cons.IH) (use Cons.prems in auto)
  also have "\<dots> = m i" by (rule store_rule_other) (use Cons.prems in auto)
  finally show ?case .
qed simp

lemma fold_store_mem:
  assumes "Some cr \<in> set xs" "cr_Rule cr = Some r" "r_ID r = i"
    and "\<And>cr' r'. Some cr' \<in> set xs \<Longrightarrow> cr_Rule cr' = Some r' \<Longrightarrow> r_ID r' = i \<Longrightarrow> cr' = cr"
  shows "fold store_rule xs m i = Some cr"
  using assms
proof (induction xs arbitrary: m)
  case (Cons x xs)
  show ?case
  proof (cases "Some cr \<in> set xs")
    case True
    show ?thesis unfolding fold_Cons o_apply
      by (rule Cons.IH [OF True Cons.prems(2,3)]) (use Cons.prems(4) in auto)
  next
    case False
    then have x: "x = Some cr" using Cons.prems(1) by simp
    have "fold store_rule (x # xs) m i = store_rule x m i"
      unfolding fold_Cons o_apply
    proof (rule fold_store_other, rule notI)
      fix cr' r' assume a: "Some cr' \<in> set xs" "cr_Rule cr' = Some r'" "r_ID r' = i"
      then have "cr' = cr" using Cons.prems(4) by simp
      then show False using a False by simp
    qed
    moreover have "store_rule x m i = Some cr"
      using x Cons.prems(2,3) by (simp add: store_rule_def)
    ultimately show ?thesis by simp
  qed
qed simp

subsection \<open>Sources of active rules\<close>

lemma rule_applies_iff:
  "rule_applies r q \<longleftrightarrow> RuleScopesMatch (r_Scopes r) (Some (ToTransactionScope q))"
  by (simp add: rule_applies_def RuleScopesMatch_iff)

lemma only_applying:
  "rule_matches cel q r \<Longrightarrow> rule_applies r q" "rule_fails cel q r \<Longrightarrow> rule_applies r q"
  by (simp_all add: rule_matches_def rule_fails_def)

text \<open>What the evaluation needs of \<^verbatim>\<open>GetActiveRules\<close>: it returns active rules only, and all those
  in the scope of the transaction (it may return more, the evaluation checks the scope again).\<close>

locale active_rules_source =
  fixes ok :: "'s \<Rightarrow> bool"
    and rules :: "'s \<Rightarrow> 'p Rule set"
    and fetch :: "'s \<Rightarrow> Scope \<Rightarrow> 'p Rule list"
  assumes sound: "ok s \<Longrightarrow> set (fetch s tx) \<subseteq> rules s"
    and complete: "ok s \<Longrightarrow> r \<in> rules s \<Longrightarrow> RuleScopesMatch (r_Scopes r) (Some tx) \<Longrightarrow>
      r \<in> set (fetch s tx)"
begin

lemma matching_fetched:
  assumes "ok s"
  shows "{r \<in> set (fetch s (ToTransactionScope q)). rule_matches cel q r}
    = {r \<in> rules s. rule_matches cel q r}"
  using sound [OF assms] complete [OF assms] only_applying(1)
  unfolding rule_applies_iff by blast

lemma failing_fetched:
  assumes "ok s"
  shows "(\<exists>r \<in> set (fetch s (ToTransactionScope q)). rule_fails cel q r)
    \<longleftrightarrow> (\<exists>r \<in> rules s. rule_fails cel q r)"
  using sound [OF assms] complete [OF assms] only_applying(2)
  unfolding rule_applies_iff by blast

lemma decision_of_source:
  assumes "ok s" "live_context ctx" "Decision_IsValid (DefaultDecisionWhenNoMatch cfg)"
    and repo: "repo (Some (ToTransactionScope q)) = Inr (map Some (fetch s (ToTransactionScope q)))"
    and acts: "\<forall>r \<in> rules s. Decision_IsValid (r_Action r)"
    and fits: "MaxRulesPerRequest cfg \<le> 0
      \<or> int (length (fetch s (ToTransactionScope q))) \<le> MaxRulesPerRequest cfg"
  shows "if \<exists>r \<in> rules s. rule_fails cel q r
    then \<exists>e. EvaluateRules cel cfg ctx repo (Some q) = Inl (Wrap ''failed to evaluate rules'' e)
    else \<exists>res. EvaluateRules cel cfg ctx repo (Some q) = Inr res
      \<and> e_Decision res = winner cel q (DefaultDecisionWhenNoMatch cfg) (rules s)
      \<and> set (e_MatchedRuleIDs res) = r_ID ` {r \<in> rules s. rule_matches cel q r}
      \<and> \<not> e_Truncated res"
proof -
  let ?l = "map Some (fetch s (ToTransactionScope q))"
  have tr: "truncate_rules cfg ?l = (?l, False)"
    using fits by (auto simp: truncate_rules_def)
  have mem: "Some r \<in> set ?l \<longleftrightarrow> r \<in> set (fetch s (ToTransactionScope q))" for r by auto
  have acts': "\<forall>r. Some r \<in> set ?l \<longrightarrow> Decision_IsValid (r_Action r)"
    using acts sound [OF assms(1)] unfolding mem by blast
  have m: "{r. Some r \<in> set ?l \<and> rule_matches cel q r} = {r \<in> rules s. rule_matches cel q r}"
    using matching_fetched [OF assms(1), of q cel] unfolding mem by simp
  have w: "winner cel q d {r. Some r \<in> set ?l} = winner cel q d (rules s)" for d
    using m by (simp add: winner_def)
  have f: "(\<exists>r. Some r \<in> set ?l \<and> rule_fails cel q r) \<longleftrightarrow> (\<exists>r \<in> rules s. rule_fails cel q r)"
    using failing_fetched [OF assms(1), of q cel] unfolding mem by blast
  note out = EvaluateRules_outcome [where cel = cel and q = q and repo = repo and cfg = cfg, OF repo assms(2,3) tr acts']
  show ?thesis
  proof (cases "\<exists>r \<in> rules s. rule_fails cel q r")
    case True
    with out show ?thesis unfolding f by simp
  next
    case False
    with out show ?thesis unfolding f w m by auto
  qed
qed

end

text \<open>The rules that the adapter returns, without the nil pointers.\<close>

definition adapter_fetch :: "uuid list \<times> 'p RuleCache \<Rightarrow> Scope \<Rightarrow> 'p Rule list" where
  "adapter_fetch s tx = List.map_filter (\<lambda>cached. map_option
       (\<lambda>rule. rule\<lparr>r_CompiledProgram := cr_Program cached\<rparr>) (cr_Rule cached))
     (Cache_GetActiveRules (fst s) (snd s) (Some tx))"

lemma set_map_filter: "y \<in> set (List.map_filter f xs) \<longleftrightarrow> (\<exists>x \<in> set xs. f x = Some y)"
  by (induction xs) (auto simp: List.map_filter_def split: option.splits)

lemma map_filter_Cons: "List.map_filter f (x # xs) =
    (case f x of None \<Rightarrow> List.map_filter f xs | Some y \<Rightarrow> y # List.map_filter f xs)"
  by (simp add: List.map_filter_def split: option.splits)

lemma map_filter_Some: "List.map_filter (\<lambda>x. map_option Some (f x)) xs = map Some (List.map_filter f xs)"
  by (induction xs) (auto simp: map_filter_Cons List.map_filter_def split: option.splits)

lemma adapter_pointer:
  "(case cr_Rule cached of None \<Rightarrow> None
     | Some rule \<Rightarrow> Some (Some (rule\<lparr>r_CompiledProgram := cr_Program cached\<rparr>)))
   = map_option Some (map_option (\<lambda>rule. rule\<lparr>r_CompiledProgram := cr_Program cached\<rparr>)
       (cr_Rule cached))"
  by (simp split: option.splits)

lemma CacheAdapter_fetch:
  assumes "rc_ready c"
  shows "CacheAdapter_GetActiveRules order c (Some tx) = Inr (map Some (adapter_fetch (order, c) tx))"
  using assms
  by (simp only: CacheAdapter_GetActiveRules_def adapter_fetch_def map_filter_Some adapter_pointer
      fst_conv snd_conv not_True_eq_False if_False)

lemma cache_entry_Some:
  "(case rc_rules c i of None \<Rightarrow> None
    | Some cached \<Rightarrow>
        (case cr_Rule cached of None \<Rightarrow> None
         | Some rule \<Rightarrow> if P (r_Scopes rule) then Some cached else None)) = Some cr
   \<longleftrightarrow> rc_rules c i = Some cr \<and> (\<exists>r. cr_Rule cr = Some r \<and> P (r_Scopes r))"
proof (cases "rc_rules c i")
  case (Some cached)
  then show ?thesis by (cases "cr_Rule cached") auto
qed simp

lemma set_Cache_GetActiveRules:
  "cr \<in> set (Cache_GetActiveRules order c txScope) \<longleftrightarrow>
     (\<exists>i \<in> set order. rc_rules c i = Some cr
       \<and> (\<exists>r. cr_Rule cr = Some r \<and> (txScope = None \<or> RuleScopesMatch (r_Scopes r) txScope)))"
  unfolding Cache_GetActiveRules_def set_map_filter
  by (simp add: cache_entry_Some [where P = "\<lambda>ss. txScope = None \<or> RuleScopesMatch ss txScope"])

lemma set_adapter_fetch:
  assumes "enumerates order c"
  shows "set (adapter_fetch (order, c) tx) = {r \<in> served c. RuleScopesMatch (r_Scopes r) (Some tx)}"
proof -
  have o: "set order = {i. rc_rules c i \<noteq> None}" using assms by (simp add: enumerates_def)
  have "x \<in> set (adapter_fetch (order, c) tx) \<longleftrightarrow>
      (\<exists>i cr r. rc_rules c i = Some cr \<and> cr_Rule cr = Some r \<and> RuleScopesMatch (r_Scopes r) (Some tx)
        \<and> x = r\<lparr>r_CompiledProgram := cr_Program cr\<rparr>)" for x
    unfolding adapter_fetch_def set_map_filter fst_conv snd_conv
    using set_Cache_GetActiveRules [of _ order c "Some tx"] o by fastforce
  then show ?thesis by (fastforce simp: served_def)
qed

interpretation cache_source: active_rules_source
  "\<lambda>s. enumerates (fst s) (snd s)" "\<lambda>s. served (snd s)" adapter_fetch
proof (standard, goal_cases)
  case (1 s tx)
  then show ?case using set_adapter_fetch [of "fst s" "snd s" tx] by auto
next
  case (2 s r tx)
  then show ?case using set_adapter_fetch [of "fst s" "snd s" tx] by auto
qed

text \<open>The table of rules as a source: the rows that the query for a scope returns.\<close>

definition table_fetch :: "('d, 'p) rule_db \<Rightarrow> Scope \<Rightarrow> 'p Rule list" where
  "table_fetch db tx = (case snd (RuleRepo_GetActiveRules (Some tx) db) of Inl e \<Rightarrow> [] | Inr rs \<Rightarrow> rs)"

lemma table_fetch_set:
  assumes "no_faults db"
  shows "set (table_fetch db tx)
    = {r \<in> set (active_rows (db_rules db)). Scope_IsEmpty tx \<or> buildScopeFilter [tx] r}"
proof -
  have "next_fault db = None" "next_fault (consume_fault db) = None"
    using assms by (cases "db_faults db"; cases "tl (db_faults db)";
        auto simp: no_faults_def next_fault_def)+
  then show ?thesis
    by (auto simp: table_fetch_def RuleRepo_GetActiveRules_def RuleRepo_ListByStatus_def
        RuleRepo_ListActiveByScopes_def with_db_def active_rows_def)
qed

interpretation table_source: active_rules_source
  no_faults "\<lambda>db. set (active_rows (db_rules db))" table_fetch
proof (standard, goal_cases)
  case (1 s tx)
  then show ?case by (auto simp: table_fetch_set)
next
  case (2 s r tx)
  then show ?case using buildScopeFilter_superset [of r tx] by (auto simp: table_fetch_set)
qed

end
