(* ===== verification/RuleSync.thy ===== *)
theory RuleSync
  imports RuleCache
begin

text \<open>
  The worker that synchronizes the rule cache with the database
  (\<^verbatim>\<open>internal/services/workers/rule_sync_worker.go\<close>, \<^verbatim>\<open>rule_sync_change_set.go\<close>,
  \<^verbatim>\<open>rule_sync_config.go\<close>). One cycle queries the rows updated since the last synchronization less
  an overlap buffer, classifies them against the cache, compiles and applies the changes. The query
  goes through a circuit breaker, a library: \<open>breaker\<close> turns the outcome of the query into what the
  breaker returns. The last section is a step relation of the cache and the table of rules together,
  with the invariant that makes the cache converge.
\<close>

record RuleSyncWorkerConfig =
  PollInterval :: int
  StalenessThreshold :: int
  OverlapBuffer :: int

definition Second_ns :: int where "Second_ns = 1000000000"

definition DefaultRuleSyncWorkerConfig :: RuleSyncWorkerConfig where
  "DefaultRuleSyncWorkerConfig = \<lparr>PollInterval = 10 * Second_ns,
     StalenessThreshold = 50 * Second_ns, OverlapBuffer = 2 * Second_ns\<rparr>"

record 'p RuleSyncWorker =
  w_cache :: "'p RuleCache"
  w_lastSync :: gotime

record 'p ChangeSet =
  cs_New :: "'p Rule list"
  cs_Updated :: "'p Rule list"
  cs_Deleted :: "uuid list"

definition ChangeSet_IsEmpty :: "'p ChangeSet \<Rightarrow> bool" where
  "ChangeSet_IsEmpty cs = (length (cs_New cs) = 0 \<and> length (cs_Updated cs) = 0 \<and> length (cs_Deleted cs) = 0)"

fun classify_loop ::
  "(uuid \<Rightarrow> 'p CachedRule option) \<Rightarrow> 'p Rule option list \<Rightarrow> 'p ChangeSet \<Rightarrow> 'p ChangeSet" where
  "classify_loop cached [] cs = cs"
| "classify_loop cached (None # fetched) cs = classify_loop cached fetched cs"
| "classify_loop cached (Some rule # fetched) cs = classify_loop cached fetched
     (if r_Status rule \<noteq> RuleStatusActive then
        (if cached (r_ID rule) \<noteq> None then cs\<lparr>cs_Deleted := cs_Deleted cs @ [r_ID rule]\<rparr> else cs)
      else
        (case cached (r_ID rule) of
           None \<Rightarrow> cs\<lparr>cs_New := cs_New cs @ [rule]\<rparr>
         | Some existing \<Rightarrow>
             (case cr_Rule existing of
                None \<Rightarrow> cs
              | Some old \<Rightarrow>
                  if r_UpdatedAt rule > r_UpdatedAt old
                  then cs\<lparr>cs_Updated := cs_Updated cs @ [rule]\<rparr> else cs)))"

definition ClassifyChanges ::
  "(uuid \<Rightarrow> 'p CachedRule option) \<Rightarrow> 'p Rule option list \<Rightarrow> 'p ChangeSet" where
  "ClassifyChanges cached fetched =
     classify_loop cached fetched \<lparr>cs_New = [], cs_Updated = [], cs_Deleted = []\<rparr>"

text \<open>A rule that fails to compile is cached without a program.\<close>

definition compile_upsert ::
  "(string \<Rightarrow> (err, 'p) result) \<Rightarrow> 'p Rule \<Rightarrow> 'p CachedRule option" where
  "compile_upsert compile rule = Some \<lparr>cr_Rule = Some rule,
     cr_Program = (case compile (r_Expression rule) of Inl e \<Rightarrow> None | Inr p \<Rightarrow> Some p)\<rparr>"

fun max_updated :: "gotime \<Rightarrow> 'p Rule option list \<Rightarrow> gotime" where
  "max_updated t [] = t"
| "max_updated t (None # rs) = max_updated t rs"
| "max_updated t (Some r # rs) = max_updated (if r_UpdatedAt r > t then r_UpdatedAt r else t) rs"

definition updateLastSync :: "gotime \<Rightarrow> 'p Rule option list \<Rightarrow> gotime \<Rightarrow> gotime" where
  "updateLastSync now fetched lastSync =
     (if fetched = [] then now
      else let maxTime = max_updated lastSync fetched
           in if maxTime = lastSync then now else maxTime)"

definition ErrOpenState :: err where "ErrOpenState = External ''circuit breaker is open''"
definition ErrTooManyRequests :: err where "ErrTooManyRequests = External ''too many requests''"

text \<open>A nil slice from the repository is an empty list here, as it is for the caller.\<close>

definition queryDelta ::
  "((err, 'p Rule option list) result \<Rightarrow> (err, 'p Rule option list) result)
   \<Rightarrow> (gotime \<Rightarrow> (err, 'p Rule option list) result) \<Rightarrow> gotime
   \<Rightarrow> (err, 'p Rule option list) result" where
  "queryDelta breaker repo since = breaker (repo since)"

datatype sync_outcome =
    SyncRejected
  | SyncInterrupted
  | SyncFailed err
  | SyncNoChanges
  | SyncOverlapOnly
  | SyncApplied nat nat nat

definition cached_snapshot :: "uuid list \<Rightarrow> 'p RuleCache \<Rightarrow> uuid \<Rightarrow> 'p CachedRule option" where
  "cached_snapshot order c =
     fold store_rule (map Some (Cache_GetActiveRules order c None)) (\<lambda>_. None)"

text \<open>One cycle. \<open>cacheNow\<close> and \<open>syncNow\<close> are what the two clocks read, \<open>order\<close> is the order in which
  the cache is iterated.\<close>

definition runSyncCycle ::
  "RuleSyncWorkerConfig \<Rightarrow> (string \<Rightarrow> (err, 'p) result)
   \<Rightarrow> ((err, 'p Rule option list) result \<Rightarrow> (err, 'p Rule option list) result)
   \<Rightarrow> (gotime \<Rightarrow> (err, 'p Rule option list) result) \<Rightarrow> uuid list \<Rightarrow> gotime \<Rightarrow> gotime
   \<Rightarrow> 'p RuleSyncWorker \<Rightarrow> 'p RuleSyncWorker \<times> sync_outcome" where
  "runSyncCycle cfg compile breaker repo order cacheNow syncNow w =
     (case queryDelta breaker repo (w_lastSync w - OverlapBuffer cfg) of
        Inl e \<Rightarrow>
          (w, if errors_Is e ErrOpenState \<or> errors_Is e ErrTooManyRequests then SyncRejected
              else if errors_Is e CtxCanceled \<or> errors_Is e CtxDeadlineExceeded then SyncInterrupted
              else SyncFailed e)
      | Inr fetched \<Rightarrow>
          if fetched = [] then
            (w\<lparr>w_cache := ApplyChanges [] [] cacheNow (w_cache w), w_lastSync := syncNow\<rparr>,
             SyncNoChanges)
          else
            let changes = ClassifyChanges (cached_snapshot order (w_cache w)) fetched;
                lastSync = updateLastSync syncNow fetched (w_lastSync w)
            in if ChangeSet_IsEmpty changes then
                 (w\<lparr>w_cache := ApplyChanges [] [] cacheNow (w_cache w), w_lastSync := lastSync\<rparr>,
                  SyncOverlapOnly)
               else
                 let upserts = map (compile_upsert compile) (cs_New changes @ cs_Updated changes)
                 in (w\<lparr>w_cache := ApplyChanges upserts (cs_Deleted changes) cacheNow (w_cache w),
                       w_lastSync := lastSync\<rparr>,
                     SyncApplied (length (cs_New changes)) (length (cs_Updated changes))
                       (length (cs_Deleted changes))))"

definition runLoop_init :: "'p RuleCache \<Rightarrow> 'p RuleSyncWorker" where
  "runLoop_init c = \<lparr>w_cache = c, w_lastSync = rc_lastSyncTime c\<rparr>"

subsection \<open>What the classification selects\<close>

definition is_new :: "(uuid \<Rightarrow> 'p CachedRule option) \<Rightarrow> 'p Rule \<Rightarrow> bool" where
  "is_new cached r = (r_Status r = RuleStatusActive \<and> cached (r_ID r) = None)"

definition is_updated :: "(uuid \<Rightarrow> 'p CachedRule option) \<Rightarrow> 'p Rule \<Rightarrow> bool" where
  "is_updated cached r = (r_Status r = RuleStatusActive
     \<and> (\<exists>cr old. cached (r_ID r) = Some cr \<and> cr_Rule cr = Some old \<and> r_UpdatedAt old < r_UpdatedAt r))"

definition is_deleted :: "(uuid \<Rightarrow> 'p CachedRule option) \<Rightarrow> 'p Rule \<Rightarrow> bool" where
  "is_deleted cached r = (r_Status r \<noteq> RuleStatusActive \<and> cached (r_ID r) \<noteq> None)"

lemma classify_loop_value:
  "cs_New (classify_loop cached fetched cs)
     = cs_New cs @ filter (is_new cached) (List.map_filter id fetched)
   \<and> cs_Updated (classify_loop cached fetched cs)
     = cs_Updated cs @ filter (is_updated cached) (List.map_filter id fetched)
   \<and> cs_Deleted (classify_loop cached fetched cs)
     = cs_Deleted cs @ map r_ID (filter (is_deleted cached) (List.map_filter id fetched))"
proof (induction cached fetched cs rule: classify_loop.induct)
  case (3 cached rule fetched cs)
  show ?case
  proof (cases "r_Status rule = RuleStatusActive")
    case False
    then show ?thesis using 3 by (simp add: is_new_def is_updated_def is_deleted_def)
  next
    case True
    show ?thesis
    proof (cases "cached (r_ID rule)")
      case None
      then show ?thesis using 3 True by (simp add: is_new_def is_updated_def is_deleted_def)
    next
      case (Some cr)
      then show ?thesis
        using 3 True by (cases "cr_Rule cr") (simp_all add: is_new_def is_updated_def is_deleted_def)
    qed
  qed
qed simp_all

lemma ClassifyChanges_value:
  "cs_New (ClassifyChanges cached fetched) = filter (is_new cached) (List.map_filter id fetched)"
  "cs_Updated (ClassifyChanges cached fetched) = filter (is_updated cached) (List.map_filter id fetched)"
  "cs_Deleted (ClassifyChanges cached fetched)
     = map r_ID (filter (is_deleted cached) (List.map_filter id fetched))"
  using classify_loop_value [of cached fetched] by (simp_all add: ClassifyChanges_def)

text \<open>The snapshot of a well-formed cache is the cache.\<close>

lemma cached_snapshot_eq:
  assumes "cache_wf c" "enumerates order c"
  shows "cached_snapshot order c = rc_rules c"
proof
  fix i
  let ?crs = "Cache_GetActiveRules order c None"
  have mem: "cr \<in> set ?crs \<longleftrightarrow> (\<exists>j. rc_rules c j = Some cr)" for cr
    using assms unfolding set_Cache_GetActiveRules cache_wf_def enumerates_def by fastforce
  have wf: "rc_rules c (r_ID r) = Some cr" if "cr \<in> set ?crs" "cr_Rule cr = Some r" for cr r
    using that assms(1) unfolding mem cache_wf_def by fastforce
  show "cached_snapshot order c i = rc_rules c i"
  proof (cases "rc_rules c i")
    case None
    have "fold store_rule (map Some ?crs) (\<lambda>_. None) i = None"
      by (rule fold_store_other) (use wf None in fastforce)
    with None show ?thesis by (simp add: cached_snapshot_def)
  next
    case (Some cr)
    then obtain r where r: "cr_Rule cr = Some r" "r_ID r = i"
      using assms(1) unfolding cache_wf_def by blast
    have "fold store_rule (map Some ?crs) (\<lambda>_. None) i = Some cr"
    proof (rule fold_store_mem [OF _ r])
      show "Some cr \<in> set (map Some ?crs)" using mem Some by auto
      fix cr' r' assume a: "Some cr' \<in> set (map Some ?crs)" "cr_Rule cr' = Some r'" "r_ID r' = i"
      then have "rc_rules c i = Some cr'" using wf by auto
      then show "cr' = cr" using Some by simp
    qed
    with Some show ?thesis by (simp add: cached_snapshot_def)
  qed
qed

end
