(* ===== verification/RuleSyncFacts.thy ===== *)
theory RuleSyncFacts
  imports RuleSync
begin

text \<open>
  The rule cache converges to the table of rules. The state is the worker (with its cache) and the
  rows of the table; the steps are writes to the table, the write-through of the activation and
  deactivation commands, and cycles of the worker that succeed or fail. A write is seen by the next
  successful cycle when its row carries a timestamp inside the overlap window; that is the
  hypothesis on the writes, and the last lemma shows that it is needed.
\<close>

text \<open>The part of a rule that the table and the cache share. \<^verbatim>\<open>Repository.Update\<close> does not store
  the lifecycle timestamps and the table has no compiled program.\<close>

definition core :: "'p Rule \<Rightarrow> 'p Rule" where
  "core r = r\<lparr>r_ActivatedAt := None, r_DeactivatedAt := None, r_CompiledProgram := None\<rparr>"

lemma core_eqD:
  assumes "core a = core b"
  shows "r_ID a = r_ID b" "r_Status a = r_Status b" "r_UpdatedAt a = r_UpdatedAt b"
    "r_Scopes a = r_Scopes b" "r_Expression a = r_Expression b" "r_Action a = r_Action b"
  using assms by (cases a; cases b; simp add: core_def)+

definition current :: "'p RuleCache \<Rightarrow> 'p Rule \<Rightarrow> bool" where
  "current c r =
     (if r_Status r = RuleStatusActive
      then \<exists>r0. cache_rule c (r_ID r) = Some r0 \<and> core r0 = core r
      else cache_rule c (r_ID r) = None)"

text \<open>A cached rule is the row with its identifier, or an older version of it.\<close>

definition version_of :: "'p Rule \<Rightarrow> 'p Rule \<Rightarrow> bool" where
  "version_of r0 r = (r_ID r = r_ID r0 \<and> (r_UpdatedAt r0 < r_UpdatedAt r \<or> core r0 = core r))"

definition sync_inv :: "RuleSyncWorkerConfig \<Rightarrow> 'p RuleSyncWorker \<Rightarrow> 'p Rule list \<Rightarrow> bool" where
  "sync_inv cfg w rows =
     (cache_wf (w_cache w) \<and> distinct (map r_ID rows)
      \<and> (\<forall>i r0. cache_rule (w_cache w) i = Some r0 \<longrightarrow> (\<exists>r \<in> set rows. version_of r0 r))
      \<and> (\<forall>r \<in> set rows. r_UpdatedAt r < w_lastSync w - OverlapBuffer cfg \<longrightarrow> current (w_cache w) r))"

text \<open>The rows that the delta query returns.\<close>

definition delta_rows :: "gotime \<Rightarrow> 'p Rule list \<Rightarrow> 'p Rule list" where
  "delta_rows since rows = sort_by (\<lambda>r r'. r_UpdatedAt r < r_UpdatedAt r')
     (filter (\<lambda>r. r_UpdatedAt r \<ge> since) rows)"

definition delta_query :: "'p Rule list \<Rightarrow> gotime \<Rightarrow> (err, 'p Rule option list) result" where
  "delta_query rows since = Inr (map Some (delta_rows since rows))"

lemma GetRulesUpdatedSince_delta:
  assumes "no_faults db"
  shows "snd (GetRulesUpdatedSince since db) = Inr (delta_rows since (db_rules db))"
  using assms
  by (cases "db_faults db"; cases "tl (db_faults db)")
    (auto simp: GetRulesUpdatedSince_def with_db_def delta_rows_def no_faults_def next_fault_def)

lemma set_delta_rows [simp]: "set (delta_rows since rows) = {r \<in> set rows. since \<le> r_UpdatedAt r}"
  by (auto simp: delta_rows_def)

lemma map_filter_id_Some [simp]: "List.map_filter id (map Some xs) = xs"
  by (induction xs) simp_all

subsection \<open>One cycle\<close>

definition changed_cache ::
  "(string \<Rightarrow> (err, 'p) result) \<Rightarrow> gotime \<Rightarrow> 'p Rule list \<Rightarrow> 'p RuleCache \<Rightarrow> 'p RuleCache" where
  "changed_cache compile now fetched c =
     (let changes = ClassifyChanges (rc_rules c) (map Some fetched)
      in ApplyChanges (map (compile_upsert compile) (cs_New changes @ cs_Updated changes))
           (cs_Deleted changes) now c)"

lemma runSyncCycle_ok:
  assumes "cache_wf (w_cache w)" "enumerates order (w_cache w)"
    and "breaker (delta_query rows (w_lastSync w - OverlapBuffer cfg))
      = delta_query rows (w_lastSync w - OverlapBuffer cfg)"
    and "runSyncCycle cfg compile breaker (delta_query rows) order t1 t2 w = (w', out)"
  shows "w_cache w' = changed_cache compile t1
      (delta_rows (w_lastSync w - OverlapBuffer cfg) rows) (w_cache w)"
proof -
  let ?f = "delta_rows (w_lastSync w - OverlapBuffer cfg) rows"
  have q: "queryDelta breaker (delta_query rows) (w_lastSync w - OverlapBuffer cfg)
      = Inr (map Some ?f)"
    using assms(3) by (simp add: queryDelta_def delta_query_def)
  show ?thesis
  proof (cases "?f = []")
    case True
    then show ?thesis
      using assms(4)
      by (auto simp: runSyncCycle_def q changed_cache_def ClassifyChanges_def Let_def)
  next
    case False
    then show ?thesis
      using assms(4)
      by (auto simp: runSyncCycle_def q changed_cache_def Let_def ChangeSet_IsEmpty_def
          cached_snapshot_eq [OF assms(1,2)] split: if_splits)
  qed
qed

text \<open>A failed cycle leaves the worker and the cache as they are.\<close>

lemma runSyncCycle_failed:
  assumes "breaker (repo (w_lastSync w - OverlapBuffer cfg)) = Inl e"
  shows "fst (runSyncCycle cfg compile breaker repo order t1 t2 w) = w"
  using assms by (simp add: runSyncCycle_def queryDelta_def)

lemma cache_rule_changed:
  assumes "cache_wf c" "distinct (map r_ID fetched)" "r \<in> set fetched"
  shows "cache_rule (changed_cache compile now fetched c) (r_ID r) =
    (if is_deleted (rc_rules c) r then None
     else if is_new (rc_rules c) r \<or> is_updated (rc_rules c) r then Some r
     else cache_rule c (r_ID r))"
proof -
  let ?m = "rc_rules c"
  let ?sel = "filter (is_new ?m) fetched @ filter (is_updated ?m) fetched"
  let ?ups = "map (compile_upsert compile) ?sel"
  have same: "r' = r" if "r' \<in> set fetched" "r_ID r' = r_ID r" for r'
    using that assms(2,3) by (auto simp: distinct_map inj_on_def)
  have rules: "rc_rules (changed_cache compile now fetched c) (r_ID r)
      = (if is_deleted ?m r then None else fold store_rule ?ups ?m (r_ID r))"
    using same assms(3)
    by (auto simp: changed_cache_def Let_def ApplyChanges_def ClassifyChanges_value fold_remove)
  show ?thesis
  proof (cases "is_new ?m r \<or> is_updated ?m r")
    case True
    have "fold store_rule ?ups ?m (r_ID r) = compile_upsert compile r"
      unfolding compile_upsert_def [of compile r]
    proof (rule fold_store_mem [where r = r])
      show "Some \<lparr>cr_Rule = Some r, cr_Program =
          (case compile (r_Expression r) of Inl e \<Rightarrow> None | Inr p \<Rightarrow> Some p)\<rparr> \<in> set ?ups"
        using True assms(3) by (force simp: compile_upsert_def)
      fix cr' r' assume "Some cr' \<in> set ?ups" "cr_Rule cr' = Some r'" "r_ID r' = r_ID r"
      then have "r' \<in> set fetched" "cr' = \<lparr>cr_Rule = Some r', cr_Program =
          (case compile (r_Expression r') of Inl e \<Rightarrow> None | Inr p \<Rightarrow> Some p)\<rparr>"
        by (auto simp: compile_upsert_def)
      with same [of r'] \<open>r_ID r' = r_ID r\<close>
      show "cr' = \<lparr>cr_Rule = Some r, cr_Program =
          (case compile (r_Expression r) of Inl e \<Rightarrow> None | Inr p \<Rightarrow> Some p)\<rparr>" by simp
    qed simp_all
    then show ?thesis
      using True by (simp add: cache_rule_def rules compile_upsert_def)
  next
    case False
    have "fold store_rule ?ups ?m (r_ID r) = ?m (r_ID r)"
    proof (rule fold_store_other, rule notI)
      fix cr' r' assume a: "Some cr' \<in> set ?ups" "cr_Rule cr' = Some r'" "r_ID r' = r_ID r"
      then have "r' \<in> set fetched" "is_new ?m r' \<or> is_updated ?m r'"
        by (auto simp: compile_upsert_def)
      with same [of r'] a(3) False show False by simp
    qed
    then show ?thesis using False by (simp add: cache_rule_def rules)
  qed
qed

lemma cache_rule_unchanged:
  assumes "i \<notin> r_ID ` set fetched"
  shows "cache_rule (changed_cache compile now fetched c) i = cache_rule c i"
proof -
  have "fold store_rule (map (compile_upsert compile)
      (filter (is_new (rc_rules c)) fetched @ filter (is_updated (rc_rules c)) fetched)) (rc_rules c) i
      = rc_rules c i"
    using assms by (intro fold_store_other) (auto simp: compile_upsert_def)
  then show ?thesis
    using assms
    by (auto simp: cache_rule_def changed_cache_def Let_def ApplyChanges_def ClassifyChanges_value
        fold_remove image_iff)
qed

lemma changed_cache_wf: "cache_wf c \<Longrightarrow> cache_wf (changed_cache compile now fetched c)"
  by (simp add: changed_cache_def Let_def ApplyChanges_wf)

lemma mset_insert_by: "mset (insert_by lt x ys) = add_mset x (mset ys)"
  by (induction ys) auto

lemma mset_sort_by: "mset (sort_by lt xs) = mset xs"
  by (induction xs) (simp_all add: sort_by_def mset_insert_by)

lemma distinct_map_sort_by:
  "distinct (map f (sort_by lt xs)) \<longleftrightarrow> distinct (map f xs)"
  by (rule mset_eq_imp_distinct_iff) (simp add: mset_sort_by)

lemma distinct_delta: "distinct (map r_ID rows) \<Longrightarrow> distinct (map r_ID (delta_rows since rows))"
  by (simp add: delta_rows_def distinct_map_sort_by distinct_map_filter)

lemma wf_cached:
  assumes "cache_wf c" "rc_rules c i = Some cr"
  obtains r0 where "cr_Rule cr = Some r0" "r_ID r0 = i" "cache_rule c i = Some r0"
  using assms unfolding cache_wf_def cache_rule_def by fastforce

text \<open>After a successful cycle every row is current in the cache.\<close>

lemma cycle_current:
  assumes inv: "sync_inv cfg w rows" and r: "r \<in> set rows"
  shows "current (changed_cache compile now
    (delta_rows (w_lastSync w - OverlapBuffer cfg) rows) (w_cache w)) r"
proof -
  let ?c = "w_cache w" and ?since = "w_lastSync w - OverlapBuffer cfg"
  let ?f = "delta_rows ?since rows"
  have wf: "cache_wf ?c" and dist: "distinct (map r_ID rows)"
    and ver: "cache_rule ?c i = Some r0 \<Longrightarrow> \<exists>r \<in> set rows. version_of r0 r"
    and old: "r_UpdatedAt r < ?since \<Longrightarrow> current ?c r" for i r0
    using inv r by (auto simp: sync_inv_def)
  have same: "r' = r" if "r' \<in> set rows" "r_ID r' = r_ID r" for r'
    using that dist r by (auto simp: distinct_map inj_on_def)
  show ?thesis
  proof (cases "r \<in> set ?f")
    case False
    then have "r_ID r \<notin> r_ID ` set ?f" using same by auto
    moreover have "current ?c r" using False r old by simp
    ultimately show ?thesis by (simp add: current_def cache_rule_unchanged)
  next
    case True
    note ch = cache_rule_changed [OF wf distinct_delta [OF dist] True, of compile now]
    show ?thesis
    proof (cases "rc_rules ?c (r_ID r)")
      case None
      then have "cache_rule ?c (r_ID r) = None" by (simp add: cache_rule_def)
      with None show ?thesis
        by (auto simp: current_def ch is_deleted_def is_new_def is_updated_def)
    next
      case (Some cr)
      obtain r0 where r0: "cr_Rule cr = Some r0" "r_ID r0 = r_ID r" "cache_rule ?c (r_ID r) = Some r0"
        using wf_cached [OF wf Some] by blast
      then have "version_of r0 r" using ver [OF r0(3)] same by (auto simp: version_of_def)
      then have "r_UpdatedAt r0 < r_UpdatedAt r \<or> core r0 = core r" by (simp add: version_of_def)
      then show ?thesis
        using Some r0 core_eqD [of r0 r]
        by (auto simp: current_def ch is_deleted_def is_new_def is_updated_def)
    qed
  qed
qed

lemma cycle_inv:
  assumes inv: "sync_inv cfg w rows"
    and w': "w_cache w' = changed_cache compile now
      (delta_rows (w_lastSync w - OverlapBuffer cfg) rows) (w_cache w)"
  shows "sync_inv cfg w' rows"
proof -
  let ?c = "w_cache w" and ?f = "delta_rows (w_lastSync w - OverlapBuffer cfg) rows"
  have wf: "cache_wf ?c" and dist: "distinct (map r_ID rows)"
    and ver: "cache_rule ?c i = Some r0 \<Longrightarrow> \<exists>r \<in> set rows. version_of r0 r" for i r0
    using inv by (auto simp: sync_inv_def)
  have "\<exists>r \<in> set rows. version_of r0 r" if c: "cache_rule (changed_cache compile now ?f ?c) i = Some r0" for i r0
  proof (cases "i \<in> r_ID ` set ?f")
    case True
    then obtain r where r: "r \<in> set ?f" "i = r_ID r" by blast
    then have "r0 = r \<or> cache_rule ?c i = Some r0"
      using c cache_rule_changed [OF wf distinct_delta [OF dist] r(1), of compile now]
      by (auto split: if_splits)
    then show ?thesis using ver r(1) by (auto simp: version_of_def)
  next
    case False
    then show ?thesis using c ver by (simp add: cache_rule_unchanged)
  qed
  then show ?thesis
    using wf dist cycle_current [OF inv] by (auto simp: sync_inv_def w' changed_cache_wf)
qed

subsection \<open>The system\<close>

text \<open>A write to the table: rows are not removed, a row that changes gets a newer timestamp, and
  every new version is committed inside the overlap window of the worker.\<close>

definition evolves :: "gotime \<Rightarrow> 'p Rule list \<Rightarrow> 'p Rule list \<Rightarrow> bool" where
  "evolves since rows rows' =
     (distinct (map r_ID rows')
      \<and> (\<forall>r \<in> set rows. \<exists>r' \<in> set rows'. r_ID r' = r_ID r \<and> (r' = r \<or> r_UpdatedAt r < r_UpdatedAt r'))
      \<and> (\<forall>r' \<in> set rows'. r' \<in> set rows \<or> since \<le> r_UpdatedAt r'))"

inductive sync_step ::
  "RuleSyncWorkerConfig \<Rightarrow> (string \<Rightarrow> (err, 'p) result) \<Rightarrow> 'p RuleSyncWorker \<times> 'p Rule list
   \<Rightarrow> 'p RuleSyncWorker \<times> 'p Rule list \<Rightarrow> bool" for cfg compile where
  table_write: "evolves (w_lastSync w - OverlapBuffer cfg) rows rows' \<Longrightarrow>
    sync_step cfg compile (w, rows) (w, rows')"
| write_through: "r \<in> set rows \<Longrightarrow> version_of rule r \<Longrightarrow> r_Status rule = RuleStatusActive \<Longrightarrow>
    core rule = core r \<or> w_lastSync w - OverlapBuffer cfg \<le> r_UpdatedAt r \<Longrightarrow>
    sync_step cfg compile (w, rows) (w\<lparr>w_cache := UpsertRule rule prog now (w_cache w)\<rparr>, rows)"
| remove_through: "r \<in> set rows \<Longrightarrow>
    r_Status r \<noteq> RuleStatusActive \<or> w_lastSync w - OverlapBuffer cfg \<le> r_UpdatedAt r \<Longrightarrow>
    sync_step cfg compile (w, rows) (w\<lparr>w_cache := RemoveRule (r_ID r) now (w_cache w)\<rparr>, rows)"
| cycle: "enumerates order (w_cache w) \<Longrightarrow>
    breaker (delta_query rows (w_lastSync w - OverlapBuffer cfg))
      = delta_query rows (w_lastSync w - OverlapBuffer cfg)
    \<or> breaker (delta_query rows (w_lastSync w - OverlapBuffer cfg)) = Inl e \<Longrightarrow>
    sync_step cfg compile (w, rows)
      (fst (runSyncCycle cfg compile breaker (delta_query rows) order t1 t2 w), rows)"

inductive_cases sync_stepE: "sync_step cfg compile (w, rows) s'"

inductive sync_reachable ::
  "RuleSyncWorkerConfig \<Rightarrow> (string \<Rightarrow> (err, 'p) result) \<Rightarrow> 'p RuleSyncWorker \<times> 'p Rule list \<Rightarrow> bool"
  for cfg compile where
  start: "distinct (map r_ID rows) \<Longrightarrow>
    \<forall>r \<in> set rows. r_Status r = RuleStatusActive \<longrightarrow> r_DeletedAt r = None \<Longrightarrow>
    WarmUp t0 t1 t2 compile ctx (Inr (map Some (sort_by newest_first (active_rows rows)))) NewRuleCache
      = (c, n, None) \<Longrightarrow>
    sync_reachable cfg compile (runLoop_init c, rows)"
| step: "sync_reachable cfg compile s \<Longrightarrow> sync_step cfg compile s s' \<Longrightarrow> sync_reachable cfg compile s'"

lemma compile_all_Inr:
  "compile_all compile ctx (map Some rules) = Inr cached \<Longrightarrow>
     \<exists>ps. length ps = length rules
       \<and> cached = map (\<lambda>(r, p). Some \<lparr>cr_Rule = Some r, cr_Program = Some p\<rparr>) (zip rules ps)"
proof (induction rules arbitrary: ctx cached)
  case (Cons r rules)
  then obtain p rest where p: "compile_all compile (tl ctx) (map Some rules) = Inr rest"
    "cached = Some \<lparr>cr_Rule = Some r, cr_Program = Some p\<rparr> # rest"
    by (auto simp: bind_result_Inr_iff split: option.splits sum.splits)
  with Cons.IH obtain ps where "length ps = length rules"
    "rest = map (\<lambda>(r, p). Some \<lparr>cr_Rule = Some r, cr_Program = Some p\<rparr>) (zip rules ps)" by blast
  with p show ?case by (intro exI [of _ "p # ps"]) simp
qed simp

text \<open>The cache after the warm-up holds the rules it loaded.\<close>

lemma WarmUp_ok:
  assumes "WarmUp t0 t1 t2 compile ctx (Inr (map Some rules)) c0 = (c, n, None)"
    "distinct (map r_ID rules)"
  shows "cache_wf c" "rc_ready c" "rc_lastSyncTime c = t1"
    "cache_rule c i = find (\<lambda>r. r_ID r = i) rules"
proof -
  obtain cached where k: "compile_all compile ctx (map Some rules) = Inr cached"
    and c: "c = MarkReady (SetRules cached t1 c0)"
    using assms(1) by (auto simp: WarmUp_def split: sum.splits)
  obtain ps where ps: "length ps = length rules"
    "cached = map (\<lambda>(r, p). Some \<lparr>cr_Rule = Some r, cr_Program = Some p\<rparr>) (zip rules ps)"
    using compile_all_Inr [OF k] by blast
  show "cache_wf c" "rc_ready c" "rc_lastSyncTime c = t1"
    by (simp_all add: c SetRules_wf) (simp_all add: MarkReady_def SetRules_def)
  have mem: "Some cr \<in> set cached \<Longrightarrow> cr_Rule cr = Some r \<Longrightarrow> r \<in> set rules" for cr r
    by (auto simp: ps(2) dest: set_zip_leftD)
  have rc: "rc_rules c i = fold store_rule cached (\<lambda>_. None) i"
    by (simp add: c MarkReady_def SetRules_def)
  show "cache_rule c i = find (\<lambda>r. r_ID r = i) rules"
  proof (cases "find (\<lambda>r. r_ID r = i) rules")
    case None
    then have "fold store_rule cached (\<lambda>_. None) i = None"
      by (intro fold_store_other) (auto simp: find_None_iff dest: mem)
    with None show ?thesis by (simp add: cache_rule_def rc)
  next
    case (Some r)
    then obtain j where j: "j < length rules" "rules ! j = r" "r_ID r = i"
      by (auto simp: find_Some_iff)
    have "fold store_rule cached (\<lambda>_. None) i = Some \<lparr>cr_Rule = Some r, cr_Program = Some (ps ! j)\<rparr>"
    proof (rule fold_store_mem)
      have "zip rules ps ! j \<in> set (zip rules ps)" using j(1) ps(1) by (intro nth_mem) simp
      then show "Some \<lparr>cr_Rule = Some r, cr_Program = Some (ps ! j)\<rparr> \<in> set cached"
        using j ps by (force simp: ps(2))
      fix cr' r' assume a: "Some cr' \<in> set cached" "cr_Rule cr' = Some r'" "r_ID r' = i"
      then obtain k p where k: "k < length rules" "r' = rules ! k" "p = ps ! k"
        "cr' = \<lparr>cr_Rule = Some r', cr_Program = Some p\<rparr>"
        using ps by (auto simp: in_set_zip)
      have "k = j"
        using assms(2) j k a(3) nth_eq_iff_index_eq [of "map r_ID rules" k j] by simp
      with k j show "cr' = \<lparr>cr_Rule = Some r, cr_Program = Some (ps ! j)\<rparr>" by simp
    qed (use j in simp_all)
    with Some show ?thesis by (simp add: cache_rule_def rc)
  qed
qed

subsection \<open>The invariant\<close>

lemma find_SomeD: "find P xs = Some x \<Longrightarrow> x \<in> set xs \<and> P x"
  by (induction xs) (auto split: if_splits)

lemma find_by_id:
  assumes "distinct (map r_ID rules)" "r \<in> set rules"
  shows "find (\<lambda>r'. r_ID r' = r_ID r) rules = Some r"
  using assms by (induction rules) auto

lemma start_inv:
  assumes "distinct (map r_ID rows)"
    and "\<forall>r \<in> set rows. r_Status r = RuleStatusActive \<longrightarrow> r_DeletedAt r = None"
    and "WarmUp t0 t1 t2 compile ctx (Inr (map Some (sort_by newest_first (active_rows rows)))) NewRuleCache
      = (c, n, None)"
  shows "sync_inv cfg (runLoop_init c) rows"
proof -
  let ?rs = "sort_by newest_first (active_rows rows)"
  have d: "distinct (map r_ID ?rs)"
    using assms(1) by (simp add: distinct_map_sort_by active_rows_def distinct_map_filter)
  note up = WarmUp_ok [OF assms(3) d]
  have "current c r" if r: "r \<in> set rows" for r
  proof (cases "r_Status r = RuleStatusActive")
    case True
    then have "r \<in> set ?rs" using r assms(2) by (simp add: active_rows_def)
    then show ?thesis using True by (simp add: current_def up(4) find_by_id [OF d])
  next
    case False
    have "find (\<lambda>r'. r_ID r' = r_ID r) ?rs = None"
      unfolding find_None_iff
    proof
      assume "\<exists>x. x \<in> set ?rs \<and> r_ID x = r_ID r"
      then obtain x where x: "x \<in> set rows" "r_Status x = RuleStatusActive" "r_ID x = r_ID r"
        by (auto simp: active_rows_def)
      then have "x = r" using assms(1) r by (auto simp: distinct_map inj_on_def)
      then show False using x False by simp
    qed
    then show ?thesis using False by (simp add: current_def up(4))
  qed
  moreover have "\<exists>r \<in> set rows. version_of r0 r" if "cache_rule c i = Some r0" for i r0
  proof -
    have "r0 \<in> set ?rs" using that find_SomeD unfolding up(4) by fast
    then show ?thesis by (auto simp: active_rows_def version_of_def)
  qed
  ultimately show ?thesis
    using up(1) assms(1) by (simp add: sync_inv_def runLoop_init_def)
qed

lemma cache_rule_UpsertRule:
  "cache_rule (UpsertRule rule prog now c) i = (if i = r_ID rule then Some rule else cache_rule c i)"
  by (simp add: cache_rule_def UpsertRule_def ApplyChanges_def store_rule_def)

lemma cache_rule_RemoveRule:
  "cache_rule (RemoveRule j now c) i = (if i = j then None else cache_rule c i)"
  by (simp add: cache_rule_def RemoveRule_def ApplyChanges_def)

lemma direct_wf:
  "cache_wf c \<Longrightarrow> cache_wf (UpsertRule rule prog now c)"
  "cache_wf c \<Longrightarrow> cache_wf (RemoveRule i now c)"
  by (simp_all add: UpsertRule_def RemoveRule_def ApplyChanges_wf)

lemma version_trans:
  "version_of r0 r \<Longrightarrow> r_ID r' = r_ID r \<Longrightarrow> r' = r \<or> r_UpdatedAt r < r_UpdatedAt r' \<Longrightarrow> version_of r0 r'"
  using core_eqD [of r0 r] by (auto simp: version_of_def)

lemma sync_step_inv:
  assumes "sync_step cfg compile (w, rows) s'" "sync_inv cfg w rows"
  shows "sync_inv cfg (fst s') (snd s')"
proof (rule sync_stepE [OF assms(1)], goal_cases)
  case (1 rows')
  have "\<exists>r' \<in> set rows'. version_of r0 r'" if c: "cache_rule (w_cache w) i = Some r0" for i r0
  proof -
    obtain r where r: "r \<in> set rows" "version_of r0 r"
      using c assms(2) unfolding sync_inv_def by blast
    obtain r' where "r' \<in> set rows'" "r_ID r' = r_ID r" "r' = r \<or> r_UpdatedAt r < r_UpdatedAt r'"
      using r(1) 1(2) unfolding evolves_def by blast
    then show ?thesis using version_trans [OF r(2)] by blast
  qed
  moreover have "current (w_cache w) r'"
    if "r' \<in> set rows'" "r_UpdatedAt r' < w_lastSync w - OverlapBuffer cfg" for r'
  proof -
    have "r' \<in> set rows" using that 1(2) unfolding evolves_def by fastforce
    then show ?thesis using that(2) assms(2) unfolding sync_inv_def by blast
  qed
  ultimately show ?thesis
    using 1 assms(2) by (simp add: sync_inv_def evolves_def)
next
  case (2 r rule prog now)
  have same: "r2 = r" if "r2 \<in> set rows" "r_ID r2 = r_ID rule" for r2
    using that 2(2,3) assms(2)
    by (auto simp: sync_inv_def distinct_map inj_on_def version_of_def)
  have "current (UpsertRule rule prog now (w_cache w)) r2"
    if "r2 \<in> set rows" "r_UpdatedAt r2 < w_lastSync w - OverlapBuffer cfg" for r2
  proof (cases "r_ID r2 = r_ID rule")
    case True
    then have "r2 = r" using same that(1) by simp
    then have "core rule = core r" using 2(5) that(2) by simp
    with \<open>r2 = r\<close> True show ?thesis
      using 2(4) core_eqD(2) [of rule r] by (simp add: current_def cache_rule_UpsertRule)
  next
    case False
    then show ?thesis
      using that assms(2) by (simp add: sync_inv_def current_def cache_rule_UpsertRule)
  qed
  then show ?thesis
    using 2(1-3) assms(2)
    by (auto simp: sync_inv_def cache_rule_UpsertRule direct_wf split: if_splits)
next
  case (3 r now)
  have same: "r2 = r" if "r2 \<in> set rows" "r_ID r2 = r_ID r" for r2
    using that 3(2) assms(2) by (auto simp: sync_inv_def distinct_map inj_on_def)
  have "current (RemoveRule (r_ID r) now (w_cache w)) r2"
    if "r2 \<in> set rows" "r_UpdatedAt r2 < w_lastSync w - OverlapBuffer cfg" for r2
  proof (cases "r_ID r2 = r_ID r")
    case True
    then have "r2 = r" using same that(1) by simp
    then have "r_Status r2 \<noteq> RuleStatusActive" using that(2) 3(3) by auto
    with True show ?thesis by (simp add: current_def cache_rule_RemoveRule)
  next
    case False
    then show ?thesis
      using that assms(2) by (simp add: sync_inv_def current_def cache_rule_RemoveRule)
  qed
  then show ?thesis
    using 3(1,2) assms(2)
    by (auto simp: sync_inv_def cache_rule_RemoveRule direct_wf split: if_splits)
next
  case (4 order breaker e t1 t2)
  let ?since = "w_lastSync w - OverlapBuffer cfg"
  obtain w' out where run: "runSyncCycle cfg compile breaker (delta_query rows) order t1 t2 w = (w', out)"
    by fastforce
  show ?thesis
  proof (cases "breaker (delta_query rows ?since) = delta_query rows ?since")
    case True
    have "cache_wf (w_cache w)" using assms(2) by (simp add: sync_inv_def)
    from runSyncCycle_ok [OF this 4(2) True run] cycle_inv [OF assms(2)]
    show ?thesis using 4(1) run by simp
  next
    case False
    then have failed: "breaker (delta_query rows ?since) = Inl e" using 4(3) by simp
    have "w' = w"
      using runSyncCycle_failed [where breaker = breaker and repo = "delta_query rows" and w = w
        and cfg = cfg, OF failed] run by (metis fst_conv)
    then show ?thesis using run 4(1) assms(2) by simp
  qed
qed

lemma sync_reachable_inv: "sync_reachable cfg compile s \<Longrightarrow> sync_inv cfg (fst s) (snd s)"
proof (induction rule: sync_reachable.induct)
  case (start rows t0 t1 t2 ctx c n)
  then show ?case using start_inv by simp
next
  case (step s s')
  then show ?case using sync_step_inv [of cfg compile "fst s" "snd s" s'] by simp
qed

text \<open>What a successful cycle establishes, from any reachable state.\<close>

definition active_map :: "'p Rule list \<Rightarrow> uuid \<Rightarrow> 'p Rule option" where
  "active_map rows i = find (\<lambda>r. r_ID r = i \<and> r_Status r = RuleStatusActive) rows"

lemma active_map_eq:
  assumes "distinct (map r_ID rows)" "r \<in> set rows"
  shows "active_map rows (r_ID r) = (if r_Status r = RuleStatusActive then Some r else None)"
proof (cases "r_Status r = RuleStatusActive")
  case True
  with assms show ?thesis by (induction rows) (auto simp: active_map_def)
next
  case False
  have "x = r" if "x \<in> set rows" "r_ID x = r_ID r" for x
    using that assms by (auto simp: distinct_map inj_on_def)
  with False show ?thesis by (auto simp: active_map_def find_None_iff)
qed

lemma successful_cycle:
  assumes "sync_reachable cfg compile (w, rows)" "enumerates order (w_cache w)"
    and "breaker (delta_query rows (w_lastSync w - OverlapBuffer cfg))
      = delta_query rows (w_lastSync w - OverlapBuffer cfg)"
    and "runSyncCycle cfg compile breaker (delta_query rows) order t1 t2 w = (w', out)"
  shows "map_option core (cache_rule (w_cache w') i) = map_option core (active_map rows i)"
proof -
  have inv: "sync_inv cfg w rows" using sync_reachable_inv [OF assms(1)] by simp
  then have wf: "cache_wf (w_cache w)" and dist: "distinct (map r_ID rows)"
    by (simp_all add: sync_inv_def)
  note w' = runSyncCycle_ok [OF wf assms(2,3,4)]
  have cur: "\<forall>r \<in> set rows. current (w_cache w') r" using cycle_current [OF inv] w' by simp
  have ver: "\<exists>r \<in> set rows. version_of r0 r" if "cache_rule (w_cache w') j = Some r0" for j r0
    using that cycle_inv [OF inv w'] by (auto simp: sync_inv_def)
  have wf': "cache_wf (w_cache w')" using cycle_inv [OF inv w'] by (simp add: sync_inv_def)
  show ?thesis
  proof (cases "\<exists>r \<in> set rows. r_ID r = i")
    case True
    then obtain r where r: "r \<in> set rows" "i = r_ID r" by blast
    with cur show ?thesis by (auto simp: active_map_eq [OF dist r(1)] current_def)
  next
    case False
    then have "active_map rows i = None" by (auto simp: active_map_def find_None_iff)
    moreover have "cache_rule (w_cache w') i = None"
    proof (cases "rc_rules (w_cache w') i")
      case (Some cr)
      then obtain r0 where "r_ID r0 = i" "cache_rule (w_cache w') i = Some r0"
        using wf_cached [OF wf' Some] by blast
      then show ?thesis using ver False by (auto simp: version_of_def)
    qed (simp add: cache_rule_def)
    ultimately show ?thesis by simp
  qed
qed

end
