(* ===== verification/LimitCheckerFacts.thy ===== *)
theory LimitCheckerFacts
  imports LimitChecker
begin

text \<open>
  What limit checking promises, over the abstract reading of the store: \<^term>\<open>usage db k\<close> is the
  amount counted under a key. A limit's verdict depends on the usage before the check; a counter
  grows by the amount exactly for the limits in effect that are not exceeded; the answer is the
  conjunction of the verdicts over the limits that apply.
\<close>

definition in_effect :: "'d Limit \<Rightarrow> gotime \<Rightarrow> bool" where
  "in_effect l now = (IsWithinTimeWindow l now \<and> IsWithinCustomPeriod l now)"

definition period_key_of :: "LimitType \<Rightarrow> gotime \<Rightarrow> string" where
  "period_key_of t now = (case CalculatePeriodKey t now of Inr k \<Rightarrow> k | Inl e \<Rightarrow> [])"

definition counter_key :: "ext \<Rightarrow> Scope \<Rightarrow> gotime \<Rightarrow> 'd Limit \<Rightarrow> uuid \<times> string \<times> string" where
  "counter_key X tx now l =
     (l_ID l, calculateScopeKeyFromScopes X (l_Scopes l) tx, period_key_of (l_LimitType l) now)"

text \<open>The verdict on a limit: it is in effect and the amount does not fit.\<close>

definition over_limit ::
  "ext \<Rightarrow> Scope \<Rightarrow> gotime \<Rightarrow> 'd \<Rightarrow> ('d::linordered_ab_group_add, 'x) counter_db_scheme \<Rightarrow> 'd Limit \<Rightarrow> bool"
  where
  "over_limit X tx now amount db l =
     (in_effect l now
      \<and> (if l_LimitType l = LimitTypePerTransaction then l_MaxAmount l < amount
         else l_MaxAmount l < usage db (counter_key X tx now l) + amount))"

text \<open>The limits whose counter the check increments.\<close>

definition counted_limit ::
  "ext \<Rightarrow> Scope \<Rightarrow> gotime \<Rightarrow> 'd \<Rightarrow> ('d::linordered_ab_group_add, 'x) counter_db_scheme \<Rightarrow> 'd Limit \<Rightarrow> bool"
  where
  "counted_limit X tx now amount db l =
     (in_effect l now \<and> l_LimitType l \<noteq> LimitTypePerTransaction \<and> \<not> over_limit X tx now amount db l)"

definition driver_faults :: "('d, 'x) counter_db_scheme \<Rightarrow> bool" where
  "driver_faults db =
     list_all (\<lambda>f. case f of None \<Rightarrow> True | Some e \<Rightarrow> \<not> errors_Is e ErrUsageCounterExceedsLimit)
       (db_faults db)"

text \<open>An operation of the counter repository changes only the rows and the faults left.\<close>

definition counters_only :: "('d, 'x) counter_db_scheme \<Rightarrow> ('d, 'x) counter_db_scheme \<Rightarrow> bool" where
  "counters_only db db' =
     (db' = db\<lparr>db_counters := db_counters db', db_faults := db_faults db'\<rparr>
      \<and> (\<exists>n. db_faults db' = drop n (db_faults db)))"

lemma counters_only_refl: "counters_only db db"
  unfolding counters_only_def by (intro conjI exI [of _ 0]) simp_all

lemma counters_only_trans:
  assumes "counters_only a b" "counters_only b c"
  shows "counters_only a c"
proof -
  obtain m n where f: "db_faults b = drop m (db_faults a)" "db_faults c = drop n (db_faults b)"
    using assms by (auto simp: counters_only_def)
  have b: "b = a\<lparr>db_counters := db_counters b, db_faults := db_faults b\<rparr>"
    and c: "c = b\<lparr>db_counters := db_counters c, db_faults := db_faults c\<rparr>"
    using assms by (simp_all add: counters_only_def)
  have "c = a\<lparr>db_counters := db_counters c, db_faults := db_faults c\<rparr>"
    by (subst c, subst b) simp
  moreover have "db_faults c = drop (n + m) (db_faults a)" using f by simp
  ultimately show ?thesis unfolding counters_only_def by blast
qed

lemma counters_only_consume: "counters_only db (consume_fault db)"
  unfolding counters_only_def consume_fault_def
  by (intro conjI exI [of _ 1]) (simp_all add: drop_Suc)

lemma counters_only_rows: "counters_only db ((consume_fault db)\<lparr>db_counters := rows\<rparr>)"
  unfolding counters_only_def consume_fault_def
  by (intro conjI exI [of _ 1]) (simp_all add: drop_Suc)

lemma counters_only_faults: "counters_only db db' \<Longrightarrow> set (db_faults db') \<subseteq> set (db_faults db)"
  unfolding counters_only_def by (metis set_drop_subset)

lemma counters_only_no_faults: "counters_only db db' \<Longrightarrow> no_faults db \<Longrightarrow> no_faults db'"
  using counters_only_faults [of db db'] by (auto simp: no_faults_def list_all_iff)

lemma counters_only_driver: "counters_only db db' \<Longrightarrow> driver_faults db \<Longrightarrow> driver_faults db'"
  using counters_only_faults [of db db'] by (auto simp: driver_faults_def list_all_iff)

lemma driver_next: "driver_faults db \<Longrightarrow> next_fault db = Some e \<Longrightarrow>
    \<not> errors_Is e ErrUsageCounterExceedsLimit"
  by (cases "db_faults db") (auto simp: driver_faults_def next_fault_def)

lemma Upsert_counters_only:
  "UpsertAndIncrementAtomic i now db l sk pk a m ea = (db', c, e) \<Longrightarrow> counters_only db db'"
  using counters_only_refl [of db] counters_only_consume [of db] counters_only_rows [of db]
  by (auto simp: UpsertAndIncrementAtomic_def Let_def split: if_splits option.splits prod.splits)

lemma Upsert_error:
  assumes "UpsertAndIncrementAtomic i now db l sk pk a m ea = (db', c, Some e)"
    "driver_faults db" "0 < a"
  shows "errors_Is e ErrUsageCounterExceedsLimit \<longleftrightarrow> e = ErrUsageCounterExceedsLimit"
  using assms driver_next [OF assms(2)]
  by (auto simp: UpsertAndIncrementAtomic_def Let_def split: if_splits option.splits prod.splits)

subsection \<open>Reading one counter\<close>

lemma filter_key:
  "distinct (map row_key rows) \<Longrightarrow>
    filter (\<lambda>r. row_key r = k) rows = (case find_row k rows of None \<Rightarrow> [] | Some r \<Rightarrow> [r])"
proof (induction rows)
  case (Cons r rows)
  show ?case
  proof (cases "row_key r = k")
    case True
    then have "filter (\<lambda>r. row_key r = k) rows = []"
      using Cons.prems by (auto simp: filter_empty_conv) (metis imageI)
    with True show ?thesis by (simp add: find_row_def)
  next
    case False
    with Cons show ?thesis by (simp add: find_row_def)
  qed
qed (simp add: find_row_def)

lemma GetUsage_one:
  assumes "counters_ok db" "GetUsageForLimits db [l] sk pk = (db', Inr m)"
  shows "(case m l of None \<Rightarrow> 0 | Some u \<Rightarrow> u) = usage db (l, sk, pk)
    \<and> db_counters db' = db_counters db \<and> counters_only db db'"
proof -
  have "(\<lambda>r. u_LimitID r \<in> set [l] \<and> u_ScopeKey r = sk \<and> u_PeriodKey r = pk)
      = (\<lambda>r :: 'a CounterRow. row_key r = (l, sk, pk))"
    by (auto simp: row_key_def fun_eq_iff)
  then have m: "m = foldl (\<lambda>m r. m(u_LimitID r \<mapsto> u_CurrentUsage r)) (\<lambda>_. None)
      (filter (\<lambda>r. row_key r = (l, sk, pk)) (db_counters db))"
    and db': "db' = consume_fault db"
    using assms(2) by (auto simp: GetUsageForLimits_def split: option.splits)
  have "m l = map_option u_CurrentUsage (find_row (l, sk, pk) (db_counters db))"
  proof -
    have d: "distinct (map row_key (db_counters db))" using assms(1) by (simp add: counters_ok_def)
    have "u_LimitID r = l" if "find_row (l, sk, pk) (db_counters db) = Some r" for r
      using find_row_Some [OF that] by (simp add: row_key_def)
    then show ?thesis
      unfolding m filter_key [OF d] by (auto split: option.split)
  qed
  then show ?thesis
    by (auto simp: usage_def db' counters_only_consume split: option.split)
qed

lemma GetUsage_counters_only:
  "GetUsageForLimits db ls sk pk = (db', r) \<Longrightarrow> counters_only db db' \<and> db_counters db' = db_counters db"
  using counters_only_refl counters_only_consume
  by (auto simp: GetUsageForLimits_def split: option.splits if_splits)

subsection \<open>One limit\<close>

lemma limit_detail_simps [simp]:
  "d_LimitID (limit_detail X l i) = l_ID l" "d_Exceeded (limit_detail X l i) = False"
  "d_Skipped (limit_detail X l i) = False" "d_CurrentUsage (limit_detail X l i) = 0"
  by (simp_all add: limit_detail_def)

lemma process_counters_only:
  assumes "processLimitAtomic X i rn l input sk now db = (db', r)"
  shows "counters_only db db'"
  using assms counters_only_refl [of db]
  by (auto simp: processLimitAtomic_def Let_def split: option.splits sum.splits if_splits prod.splits
      dest: GetUsage_counters_only Upsert_counters_only)

lemma over_limit_not_in_effect:
  "\<not> in_effect l now \<Longrightarrow> \<not> over_limit X tx now a db l \<and> \<not> counted_limit X tx now a db l"
  by (simp add: over_limit_def counted_limit_def)

text \<open>The outcome on one limit in terms of the verdict.\<close>

definition limit_outcome ::
  "ext \<Rightarrow> Scope \<Rightarrow> gotime \<Rightarrow> 'd \<Rightarrow> ('d::linordered_ab_group_add, 'x) counter_db_scheme \<Rightarrow> 'd Limit
   \<Rightarrow> ('d, 'x) counter_db_scheme \<Rightarrow> 'd LimitUsageDetail \<Rightarrow> bool \<Rightarrow> bool" where
  "limit_outcome X tx now a db l db' d exc =
     (counters_ok db' \<and> d_LimitID d = l_ID l \<and> d_Exceeded d = exc
      \<and> exc = over_limit X tx now a db l
      \<and> usage db' = (if counted_limit X tx now a db l
          then (usage db)(counter_key X tx now l := usage db (counter_key X tx now l) + a)
          else usage db))"

lemma process_outcome:
  assumes ok: "counters_ok db" "driver_faults db" and a: "0 < ci_Amount input"
    and p: "processLimitAtomic X i rn l input
      (calculateScopeKeyFromScopes X (l_Scopes l) tx) now db = (db', Inr (d, exc))"
  shows "limit_outcome X tx now (ci_Amount input) db l db' d exc"
proof -
  let ?a = "ci_Amount input"
  let ?k = "counter_key X tx now l"
  let ?sk = "calculateScopeKeyFromScopes X (l_Scopes l) tx"
  note outcome_defs = limit_outcome_def over_limit_def counted_limit_def
  consider (outside) "\<not> in_effect l now"
    | (per) "in_effect l now" "l_LimitType l = LimitTypePerTransaction"
    | (counter) "in_effect l now" "l_LimitType l \<noteq> LimitTypePerTransaction" by blast
  then show ?thesis
  proof cases
    case outside
    then have "db' = db" "d_LimitID d = l_ID l" "d_Exceeded d = False" "exc = False"
      using p by (auto simp: processLimitAtomic_def skipIfOutsideTimeWindow_def
          skipIfOutsideCustomPeriod_def in_effect_def split: if_splits)
    then show ?thesis using ok(1) outside by (simp add: outcome_defs)
  next
    case per
    then show ?thesis
      using p ok(1) by (auto simp: processLimitAtomic_def skipIfOutsideTimeWindow_def
          skipIfOutsideCustomPeriod_def handlePerTransactionLimit_def outcome_defs in_effect_def
          Let_def)
  next
    case counter
    then obtain pk where pk: "CalculatePeriodKey (l_LimitType l) now = Inr pk"
      using p by (auto simp: processLimitAtomic_def skipIfOutsideTimeWindow_def
          skipIfOutsideCustomPeriod_def in_effect_def split: sum.splits)
    then have k: "?k = (l_ID l, ?sk, pk)" by (simp add: counter_key_def period_key_of_def)
    have pre: "skipIfOutsideTimeWindow X l input now = None"
      "skipIfOutsideCustomPeriod X l input now = None"
      using counter(1) by (simp_all add: skipIfOutsideTimeWindow_def skipIfOutsideCustomPeriod_def
          in_effect_def)
    show ?thesis
    proof (cases "?a > l_MaxAmount l")
      case True
      obtain db1 r where g: "GetUsageForLimits db [l_ID l] ?sk pk = (db1, r)"
        by (cases "GetUsageForLimits db [l_ID l] ?sk pk")
      note same = GetUsage_counters_only [OF g]
      have "l_MaxAmount l < usage db ?k + ?a"
        using True usage_nonneg [OF ok(1), of ?k] by (simp add: add_increasing less_le_trans)
      moreover have "db' = db1" "d_LimitID d = l_ID l" "d_Exceeded d" "exc"
        using p pre pk counter(2) True g
        by (auto simp: processLimitAtomic_def Let_def split: sum.splits)
      moreover have "usage db1 = usage db" "counters_ok db1"
        using same ok(1) usage_cong [of db1 db] counters_ok_cong [of db1 db] by auto
      ultimately show ?thesis using counter by (simp add: outcome_defs)
    next
      case False
      obtain db1 c e where u: "UpsertAndIncrementAtomic i rn db (l_ID l) ?sk pk ?a (l_MaxAmount l)
          (calculateCounterExpiresAt (l_LimitType l) (CalculateResetAt (l_LimitType l) now)
             (l_CustomEndDate l)) = (db1, c, e)" by (rule prod_cases3)
      have out: "upsert_outcome db ?k ?a (l_MaxAmount l) (db1, c, e)"
        using Upsert_outcome [OF ok(1) a] u k by metis
      show ?thesis
      proof (cases e)
        case None
        then have "db' = db1" "d_LimitID d = l_ID l" "d_Exceeded d = False" "exc = False"
          using p pre pk counter(2) False u by (auto simp: processLimitAtomic_def Let_def)
        then show ?thesis
          using out None counter by (auto simp: outcome_defs upsert_outcome_def)
      next
        case (Some e')
        have iff_e: "errors_Is e' ErrUsageCounterExceedsLimit \<longleftrightarrow> e' = ErrUsageCounterExceedsLimit"
          using Upsert_error [OF _ ok(2) a] u Some by blast
        then have e': "e' = ErrUsageCounterExceedsLimit" "db' = db1" "d_LimitID d = l_ID l"
          "d_Exceeded d" "exc"
          using p pre pk counter(2) False u Some iff_e
          by (auto simp: processLimitAtomic_def Let_def split: if_splits)
        have "l_MaxAmount l < usage db ?k + ?a" "usage db1 = usage db" "counters_ok db1"
          using out Some e'(1) usage_cong [of db1 db] by (auto simp: upsert_outcome_def)
        then show ?thesis using e' counter by (simp add: outcome_defs)
      qed
    qed
  qed
qed

subsection \<open>All limits\<close>

lemma counter_key_limit: "counter_key X tx now l = counter_key X tx now l' \<Longrightarrow> l_ID l = l_ID l'"
  by (simp add: counter_key_def)

lemma verdict_cong:
  assumes "\<And>k. fst k = l_ID l \<Longrightarrow> usage db' k = usage db k"
  shows "over_limit X tx now a db' l = over_limit X tx now a db l"
    "counted_limit X tx now a db' l = counted_limit X tx now a db l"
  using assms by (simp_all add: over_limit_def counted_limit_def counter_key_def)

lemma process_limits_counters_only:
  "process_limits X newID rn input tx now i ls db = (db', r) \<Longrightarrow> counters_only db db'"
proof (induction ls arbitrary: i db db' r)
  case (Cons l ls)
  obtain db1 r1 where p: "processLimitAtomic X (newID i) rn l input
      (calculateScopeKeyFromScopes X (l_Scopes l) tx) now db = (db1, r1)" by fastforce
  note c1 = process_counters_only [OF p]
  show ?case
  proof (cases r1)
    case (Inl e)
    then show ?thesis using Cons.prems p c1 by simp
  next
    case (Inr de)
    obtain db2 r2 where q: "process_limits X newID rn input tx now (Suc i) ls db1 = (db2, r2)"
      by fastforce
    have "db' = db2" using Cons.prems p q Inr by (auto split: sum.splits prod.splits)
    then show ?thesis using counters_only_trans [OF c1 Cons.IH [OF q]] by simp
  qed
qed (simp add: counters_only_refl)

lemma process_limits_outcome:
  assumes "counters_ok db" "driver_faults db" "0 < ci_Amount input" "distinct (map l_ID ls)"
    "process_limits X newID rn input tx now i ls db = (db', Inr (ds, ids))"
  shows "counters_ok db'
    \<and> ids = map l_ID (filter (over_limit X tx now (ci_Amount input) db) ls)
    \<and> map d_LimitID ds = map l_ID ls
    \<and> map d_Exceeded ds = map (over_limit X tx now (ci_Amount input) db) ls
    \<and> (\<forall>k. usage db' k =
         (if \<exists>l \<in> set ls. counter_key X tx now l = k \<and> counted_limit X tx now (ci_Amount input) db l
          then usage db k + ci_Amount input else usage db k))"
  using assms
proof (induction ls arbitrary: i db ds ids)
  case (Cons l ls)
  let ?a = "ci_Amount input"
  obtain db1 d exc where p: "processLimitAtomic X (newID i) rn l input
      (calculateScopeKeyFromScopes X (l_Scopes l) tx) now db = (db1, Inr (d, exc))"
    using Cons.prems(5) by (auto split: sum.splits prod.splits)
  obtain ds' ids' where q: "process_limits X newID rn input tx now (Suc i) ls db1 = (db', Inr (ds', ids'))"
    and eq: "ds = d # ds'" "ids = (if exc then l_ID l # ids' else ids')"
    using Cons.prems(5) p by (auto split: sum.splits prod.splits)
  have out: "limit_outcome X tx now ?a db l db1 d exc"
    by (rule process_outcome [OF Cons.prems(1,2,3) p])
  have "counters_ok db1" using out by (simp add: limit_outcome_def)
  moreover have "driver_faults db1"
    using counters_only_driver [OF process_counters_only [OF p] Cons.prems(2)] .
  ultimately have IH: "counters_ok db'
    \<and> ids' = map l_ID (filter (over_limit X tx now ?a db1) ls)
    \<and> map d_LimitID ds' = map l_ID ls
    \<and> map d_Exceeded ds' = map (over_limit X tx now ?a db1) ls
    \<and> (\<forall>k. usage db' k =
         (if \<exists>l \<in> set ls. counter_key X tx now l = k \<and> counted_limit X tx now ?a db1 l
          then usage db1 k + ?a else usage db1 k))"
    using Cons.IH [OF _ _ Cons.prems(3) _ q] Cons.prems(4) by simp
  have same: "usage db1 k = usage db k" if "fst k \<noteq> l_ID l" for k
    using out that by (auto simp: limit_outcome_def counter_key_def)
  have verdicts: "over_limit X tx now ?a db1 l' = over_limit X tx now ?a db l'"
    "counted_limit X tx now ?a db1 l' = counted_limit X tx now ?a db l'" if "l' \<in> set ls" for l'
  proof -
    have "l_ID l' \<noteq> l_ID l" using Cons.prems(4) that by (rule distinct_map_neq)
    then have k: "usage db1 k = usage db k" if "fst k = l_ID l'" for k using same that by simp
    show "over_limit X tx now ?a db1 l' = over_limit X tx now ?a db l'"
      by (rule verdict_cong(1)) (rule k)
    show "counted_limit X tx now ?a db1 l' = counted_limit X tx now ?a db l'"
      by (rule verdict_cong(2)) (rule k)
  qed
  have later: "usage db' k = (if \<exists>l' \<in> set ls. counter_key X tx now l' = k
      \<and> counted_limit X tx now ?a db l' then usage db1 k + ?a else usage db1 k)" for k
  proof -
    have "usage db' k = (if \<exists>l' \<in> set ls. counter_key X tx now l' = k
        \<and> counted_limit X tx now ?a db1 l' then usage db1 k + ?a else usage db1 k)"
      using IH by blast
    moreover have "(\<exists>l' \<in> set ls. counter_key X tx now l' = k \<and> counted_limit X tx now ?a db1 l')
        = (\<exists>l' \<in> set ls. counter_key X tx now l' = k \<and> counted_limit X tx now ?a db l')"
      using verdicts(2) by blast
    ultimately show ?thesis by (simp only:)
  qed
  have "usage db' k = (if \<exists>l' \<in> set (l # ls). counter_key X tx now l' = k
      \<and> counted_limit X tx now ?a db l' then usage db k + ?a else usage db k)" for k
  proof (cases "\<exists>l' \<in> set ls. counter_key X tx now l' = k \<and> counted_limit X tx now ?a db l'")
    case True
    then obtain l' where l': "l' \<in> set ls" "counter_key X tx now l' = k" by blast
    then have "fst k \<noteq> l_ID l"
      using distinct_map_neq [OF Cons.prems(4) l'(1)] by (auto simp: counter_key_def)
    then have "usage db1 k = usage db k" by (rule same)
    then show ?thesis using later [of k] True by simp
  next
    case False
    with later [of k] have "usage db' k = usage db1 k" by (simp only: if_False)
    then show ?thesis using False out by (auto simp: limit_outcome_def)
  qed
  moreover have "filter (over_limit X tx now ?a db1) ls = filter (over_limit X tx now ?a db) ls"
    by (rule filter_cong) (simp_all add: verdicts)
  ultimately show ?case
    using IH out eq verdicts by (auto simp: limit_outcome_def)
qed simp

lemma process_no_faults:
  assumes "no_faults db" "LimitType_IsValid (l_LimitType l)" "counters_ok db" "0 < ci_Amount input"
    "\<forall>r \<in> set (db_counters db). u_ID r \<noteq> i"
  shows "\<exists>db' r. processLimitAtomic X i rn l input sk now db = (db', Inr r)"
proof -
  obtain pk where pk: "CalculatePeriodKey (l_LimitType l) now = Inr pk"
    using assms(2) by (cases "l_LimitType l") (simp_all add: CalculatePeriodKey_def case_prod_beta)
  have nf: "next_fault db = None" by (rule no_faults_next [OF assms(1)])
  have "\<exists>res. upsertAndIncrementCTEQuery i (l_ID l) sk pk a now' m ea (db_counters db) = Some res"
    for a now' m ea
    using assms(5) by (auto simp: upsertAndIncrementCTEQuery_def list_ex_iff split: option.split)
  then obtain res where "upsertAndIncrementCTEQuery i (l_ID l) sk pk (ci_Amount input) rn
      (l_MaxAmount l) (calculateCounterExpiresAt (l_LimitType l) (CalculateResetAt (l_LimitType l) now)
        (l_CustomEndDate l)) (db_counters db) = Some res" by blast
  then show ?thesis
    using nf pk assms(4)
    by (auto simp: processLimitAtomic_def GetUsageForLimits_def UpsertAndIncrementAtomic_def
        handlePerTransactionLimit_def Let_def split: option.split prod.split)
qed

lemma upsert_ids:
  assumes "UpsertAndIncrementAtomic i rn db l sk pk a m ea = (db', c, e)"
  shows "u_ID ` set (db_counters db') \<subseteq> insert i (u_ID ` set (db_counters db))"
  using assms
  by (auto simp: UpsertAndIncrementAtomic_def upsertAndIncrementCTEQuery_def Let_def
      split: if_splits option.splits)

lemma process_ids:
  assumes "processLimitAtomic X i rn l input sk now db = (db', r)"
  shows "u_ID ` set (db_counters db') \<subseteq> insert i (u_ID ` set (db_counters db))"
  using assms
  by (auto simp: processLimitAtomic_def Let_def split: option.splits sum.splits if_splits prod.splits
      dest!: GetUsage_counters_only upsert_ids)

lemma driver_of_no_faults: "no_faults db \<Longrightarrow> driver_faults db"
  by (auto simp: no_faults_def driver_faults_def list_all_iff)

text \<open>The identifiers drawn for the positions \<open>i, i + 1, ...\<close> are new and pairwise different.\<close>

definition fresh_ids :: "(nat \<Rightarrow> uuid) \<Rightarrow> nat \<Rightarrow> nat \<Rightarrow> ('d, 'x) counter_db_scheme \<Rightarrow> bool" where
  "fresh_ids newID i n db =
     (inj_on newID {i..<i + n} \<and> newID ` {i..<i + n} \<inter> u_ID ` set (db_counters db) = {})"

lemma fresh_ids_next:
  assumes "fresh_ids newID i (Suc n) db"
    "u_ID ` set (db_counters db') \<subseteq> insert (newID i) (u_ID ` set (db_counters db))"
  shows "fresh_ids newID (Suc i) n db'"
proof -
  have sub: "{Suc i..<Suc i + n} \<subseteq> {i..<i + Suc n}" "i \<in> {i..<i + Suc n}" by auto
  have "newID j \<noteq> newID i" if "j \<in> {Suc i..<Suc i + n}" for j
    using assms(1) that sub unfolding fresh_ids_def inj_on_def by force
  moreover have "newID j \<notin> u_ID ` set (db_counters db)" if "j \<in> {Suc i..<Suc i + n}" for j
    using assms(1) that sub unfolding fresh_ids_def by blast
  ultimately have "newID ` {Suc i..<Suc i + n} \<inter> u_ID ` set (db_counters db') = {}"
    using assms(2) by blast
  moreover have "inj_on newID {Suc i..<Suc i + n}"
    using assms(1) sub(1) unfolding fresh_ids_def by (blast intro: inj_on_subset)
  ultimately show ?thesis by (simp add: fresh_ids_def)
qed

lemma process_limits_no_faults:
  assumes "no_faults db" "\<forall>l \<in> set ls. LimitType_IsValid (l_LimitType l)" "counters_ok db"
    "0 < ci_Amount input" "fresh_ids newID i (length ls) db"
  shows "\<exists>db' ds ids. process_limits X newID rn input tx now i ls db = (db', Inr (ds, ids))"
  using assms
proof (induction ls arbitrary: i db)
  case (Cons l ls)
  let ?sk = "calculateScopeKeyFromScopes X (l_Scopes l) tx"
  have "newID i \<notin> u_ID ` set (db_counters db)"
    using Cons.prems(5) unfolding fresh_ids_def by fastforce
  then have "\<forall>r \<in> set (db_counters db). u_ID r \<noteq> newID i" by (metis imageI)
  then obtain db1 d exc where p: "processLimitAtomic X (newID i) rn l input ?sk now db = (db1, Inr (d, exc))"
    using process_no_faults [OF Cons.prems(1) _ Cons.prems(3,4), of l "newID i" X rn ?sk now] Cons.prems(2)
    by (auto simp: split_paired_all)
  have "counters_ok db1"
    using process_outcome [OF Cons.prems(3) driver_of_no_faults [OF Cons.prems(1)] Cons.prems(4) p]
    by (simp add: limit_outcome_def)
  moreover have "no_faults db1"
    using counters_only_no_faults [OF process_counters_only [OF p] Cons.prems(1)] .
  moreover have "fresh_ids newID (Suc i) (length ls) db1"
    using fresh_ids_next process_ids [OF p] Cons.prems(5) by (metis length_Cons)
  ultimately obtain db2 ds ids where
    "process_limits X newID rn input tx now (Suc i) ls db1 = (db2, Inr (ds, ids))"
    using Cons.IH Cons.prems(2,4) by fastforce
  then show ?case using p by simp
qed simp

subsection \<open>The applicable limits are the matching rows\<close>

lemma upper_char_upper:
  assumes "65 \<le> (of_char c :: nat)" "(of_char c :: nat) \<le> 90"
  shows "upper_char c = c"
  using assms by (simp add: upper_char_def Let_def)

lemma ToUpper_currency: "IsValidCurrency X c \<Longrightarrow> ToUpper X c = c"
proof -
  assume "IsValidCurrency X c"
  then have r: "\<forall>d \<in> set c. 65 \<le> (of_char d :: nat) \<and> (of_char d :: nat) \<le> 90"
    by (auto simp: IsValidCurrency_def list_ex_iff Let_def not_less split: if_splits)
  then have "isASCII c" by (auto simp: isASCII_def list_all_iff)
  moreover have "map upper_char c = c"
    using r by (intro map_idI) (auto intro: upper_char_upper)
  ultimately show ?thesis by (simp add: ToUpper_def)
qed

definition limits_ok :: "('d, 'x) limit_db_scheme \<Rightarrow> bool" where
  "limits_ok db =
     (distinct (map l_ID (db_limits db))
      \<and> (\<forall>l \<in> set (db_limits db). LimitType_IsValid (l_LimitType l) \<and> scan_scopes (l_Scopes l) = None))"

text \<open>The limits a transaction is checked against.\<close>

definition applies :: "'d CheckLimitsInput \<Rightarrow> 'd Limit \<Rightarrow> bool" where
  "applies input l =
     (l_DeletedAt l = None \<and> l_Status l = LimitStatusActive \<and> l_Currency l = ci_Currency input
      \<and> RuleScopesMatch (l_Scopes l) (buildTransactionScope (Some input)))"

lemma scopeMatchesLimit_eq: "scopeMatchesLimit = RuleScopesMatch"
  by (simp add: scopeMatchesLimit_def RuleScopesMatch_def fun_eq_iff split: option.split)

lemma distinct_of_ids: "distinct (map l_ID rows) \<Longrightarrow> distinct rows"
  by (simp add: distinct_map)

lemma created_strict:
  fixes rows :: "('d::linorder) Limit list"
  assumes "distinct (map l_ID rows)"
  shows "strict_on (set rows) (list_before X ''createdAt'' ''DESC'')"
proof -
  have "l_ID x \<noteq> l_ID y" if "x \<in> set rows" "y \<in> set rows" "x \<noteq> y" for x y
    using assms that by (auto simp: distinct_map inj_on_def)
  then show ?thesis
    unfolding strict_on_def createdAt_before created_after_def
    by (intro conjI ballI impI) (auto intro: less_trans simp: neq_iff)
qed

lemma checker_reachable:
  assumes "limits_ok db"
  shows "list_reachable X (checker_filter currency NoCursor) ''createdAt'' ''DESC'' (db_limits db) None"
  using assms created_strict [of "db_limits db" X]
  by (auto simp: list_reachable_def limits_ok_def distinct_of_ids checker_sort valid_sort_def
      IsValidLimitSortField_def DefaultLimitSortField_def MaxPaginationLimit_def)

lemma all_limits_rest:
  assumes "list_reachable X (checker_filter currency NoCursor) ''createdAt'' ''DESC'' (db_limits db) c"
    "no_faults db"
  shows "\<exists>db'. all_limits X currency db (the_cursor c) acc =
    (db', Inr (acc @ list_rest X (checker_filter currency NoCursor) ''createdAt'' ''DESC'' (db_limits db) c))
    \<and> counters_only db db' \<and> db_counters db' = db_counters db"
  using assms
proof (induction "rows_left X currency (the_cursor c) (db_limits db)" arbitrary: db c acc rule: less_induct)
  case less
  let ?f = "checker_filter currency NoCursor"
  let ?rows = "db_limits db"
  let ?S = "list_rest X ?f ''createdAt'' ''DESC'' ?rows c"
  let ?db = "consume_fault (consume_fault db)"
  have f: "?f\<lparr>f_Cursor := the_cursor c\<rparr> = checker_filter currency (the_cursor c)"
    by (simp add: checker_filter_def)
  have L: "LimitRepo_List X (checker_filter currency (the_cursor c)) db =
      (?db, Inr (list_page 100 ''createdAt'' ''DESC'' (take 101 ?S)))"
    using List_reachable [OF less.prems] by (simp add: f)
  have page: "list_page 100 ''createdAt'' ''DESC'' (take 101 ?S) =
      (if 100 < length ?S
       then \<lparr>res_Limits = take 100 ?S,
             res_NextCursor = row_cursor ''createdAt'' ''DESC'' (last (take 100 ?S)), res_HasMore = True\<rparr>
       else \<lparr>res_Limits = ?S, res_NextCursor = NoCursor, res_HasMore = False\<rparr>)"
    using list_page_cases [of 100 "''createdAt''" "''DESC''" ?S]
    by (simp add: buildNextCursor_row valid_sort_def IsValidLimitSortField_def DefaultLimitSortField_def)
  have co: "counters_only db ?db"
    using counters_only_trans [OF counters_only_consume counters_only_consume] .
  show ?case
  proof (cases "100 < length ?S")
    case False
    then show ?thesis
      using L page co by (subst all_limits.simps) (simp add: consume_fault_def)
  next
    case True
    let ?x = "last (take 100 ?S)"
    let ?c = "Some (row_cursor ''createdAt'' ''DESC'' ?x)"
    note nx = list_rest_next [OF less.prems(1) refl _ True]
    have r: "list_reachable X ?f ''createdAt'' ''DESC'' (db_limits ?db) ?c"
      using less.prems(1) nx(1) by (auto simp: list_reachable_def)
    have nf: "no_faults ?db" using less.prems(2) no_faults_consume by blast
    have more: "res_HasMore (list_page 100 ''createdAt'' ''DESC'' (take 101 ?S))"
      "res_NextCursor (list_page 100 ''createdAt'' ''DESC'' (take 101 ?S)) = the_cursor ?c"
      "res_NextCursor (list_page 100 ''createdAt'' ''DESC'' (take 101 ?S)) \<noteq> NoCursor"
      using page True by (simp_all add: the_cursor_def row_cursor_def)
    have dec: "rows_left X currency (the_cursor ?c) (db_limits ?db)
        < rows_left X currency (the_cursor c) (db_limits db)"
      using next_page_decreases [OF L more(1,3)] more(2) by simp
    obtain db' where IH: "all_limits X currency ?db (the_cursor ?c) (acc @ take 100 ?S) =
        (db', Inr ((acc @ take 100 ?S) @ list_rest X ?f ''createdAt'' ''DESC'' (db_limits ?db) ?c))"
      "counters_only ?db db'" "db_counters db' = db_counters ?db"
      using less.hyps [OF dec r nf] by blast
    have "?S = take 100 ?S @ list_rest X ?f ''createdAt'' ''DESC'' ?rows ?c"
      using nx(2) by simp
    moreover have "all_limits X currency db (the_cursor c) acc
        = all_limits X currency ?db (the_cursor ?c) (acc @ take 100 ?S)"
      using L page True more by (subst all_limits.simps) (simp add: the_cursor_def row_cursor_def)
    ultimately show ?thesis
      using IH counters_only_trans [OF co IH(2)]
      by (metis append.assoc consume_fault_simps(1) db_limits_consume)
  qed
qed

lemma list_rest_set:
  "set (list_rest X (checker_filter currency NoCursor) ''createdAt'' ''DESC'' rows None)
     = {l \<in> set rows. matching X (checker_filter currency NoCursor) l}"
  by (auto simp: list_rest_def cursor_after_def)

lemma checker_matching_iff:
  "matching X (checker_filter currency NoCursor) l \<longleftrightarrow>
     l_DeletedAt l = None \<and> l_Status l = LimitStatusActive \<and> l_Currency l = ToUpper X currency"
  by (simp add: matching_def applyListFilters_def checker_filter_def)

lemma sort_by_distinct_map:
  assumes "distinct (map f xs)"
  shows "distinct (map f (sort_by lt xs))"
proof -
  have "distinct (sort_by lt xs)"
    using assms card_distinct [of "sort_by lt xs"] distinct_card [of xs] by (simp add: distinct_map)
  then show ?thesis using assms by (simp add: distinct_map)
qed

lemma getApplicableLimits_spec:
  assumes "limits_ok db" "no_faults db" "IsValidCurrency X (ci_Currency i)"
  shows "\<exists>db' ls. getApplicableLimits X i db = (db', Inr ls)
    \<and> counters_only db db' \<and> db_counters db' = db_counters db
    \<and> set ls = {l \<in> set (db_limits db). applies i l}
    \<and> distinct (map l_ID ls) \<and> length ls \<le> length (db_limits db)"
proof -
  let ?f = "checker_filter (ci_Currency i) NoCursor"
  let ?S = "list_rest X ?f ''createdAt'' ''DESC'' (db_limits db) None"
  obtain db' where a: "all_limits X (ci_Currency i) db (the_cursor None) [] = (db', Inr ([] @ ?S))"
    "counters_only db db'" "db_counters db' = db_counters db"
    using all_limits_rest [OF checker_reachable [OF assms(1)] assms(2)] by blast
  let ?ls = "filter (\<lambda>l. scopeMatchesLimit (l_Scopes l) (buildTransactionScope (Some i))) ?S"
  have "getApplicableLimits X i db = (db', Inr ?ls)"
    using a(1) by (simp add: getApplicableLimits_def the_cursor_def)
  moreover have "set ?ls = {l \<in> set (db_limits db). applies i l}"
    using list_rest_set [of X "ci_Currency i" "db_limits db"] ToUpper_currency [OF assms(3)]
    by (auto simp: applies_def checker_matching_iff scopeMatchesLimit_eq)
  moreover have "distinct (map l_ID ?S)"
    unfolding list_rest_def
    by (rule sort_by_distinct_map) (use assms(1) in \<open>auto simp: limits_ok_def distinct_map inj_on_def\<close>)
  then have "distinct (map l_ID ?ls)" by (simp add: distinct_map_filter)
  moreover have "length ?ls \<le> length (db_limits db)"
  proof -
    have "length ?ls \<le> length ?S" by (rule length_filter_le)
    also have "\<dots> \<le> length (db_limits db)" by (simp add: list_rest_def)
    finally show ?thesis .
  qed
  ultimately show ?thesis using a by blast
qed

text \<open>The check as a whole.\<close>

definition check_verdict ::
  "ext \<Rightarrow> gotime \<Rightarrow> ('d::linordered_ab_group_add) CheckLimitsInput \<Rightarrow> ('d, 'x) limit_db_scheme
   \<Rightarrow> 'd Limit \<Rightarrow> bool" where
  "check_verdict X now i db l =
     (applies i l \<and> over_limit X (the (buildTransactionScope (Some i))) now (ci_Amount i) db l)"

definition check_counts ::
  "ext \<Rightarrow> gotime \<Rightarrow> ('d::linordered_ab_group_add) CheckLimitsInput \<Rightarrow> ('d, 'x) limit_db_scheme
   \<Rightarrow> 'd Limit \<Rightarrow> bool" where
  "check_counts X now i db l =
     (applies i l \<and> counted_limit X (the (buildTransactionScope (Some i))) now (ci_Amount i) db l)"

definition check_key ::
  "ext \<Rightarrow> gotime \<Rightarrow> 'd CheckLimitsInput \<Rightarrow> 'd Limit \<Rightarrow> uuid \<times> string \<times> string" where
  "check_key X now i l = counter_key X (the (buildTransactionScope (Some i))) now l"

lemma CheckLimits_outcome:
  assumes "counters_ok db" "limits_ok db" "no_faults db" "CheckLimitsInput_Validate X (Some i) = None"
    "fresh_ids newID 0 (length (db_limits db)) db"
  shows "\<exists>db' out. CheckLimits X newID rn now True (Some i) db = (db', Inr out)
    \<and> counters_only db db' \<and> counters_ok db'
    \<and> (co_Allowed out \<longleftrightarrow> (\<forall>l \<in> set (db_limits db). \<not> check_verdict X now i db l))
    \<and> set (co_ExceededLimitIDs out) = l_ID ` {l \<in> set (db_limits db). check_verdict X now i db l}
    \<and> set (map d_LimitID (co_LimitUsageDetails out)) = l_ID ` {l \<in> set (db_limits db). applies i l}
    \<and> (\<forall>k. usage db' k =
         (if \<exists>l \<in> set (db_limits db). check_counts X now i db l \<and> check_key X now i l = k
          then usage db k + ci_Amount i else usage db k))"
proof -
  let ?tx = "the (buildTransactionScope (Some i))"
  have a: "0 < ci_Amount i" and cur: "IsValidCurrency X (ci_Currency i)"
    using assms(4) by (auto simp: CheckLimitsInput_Validate_def split: if_splits)
  obtain db1 ls where g: "getApplicableLimits X i db = (db1, Inr ls)"
    and db1: "counters_only db db1" "db_counters db1 = db_counters db"
    and ls: "set ls = {l \<in> set (db_limits db). applies i l}" "distinct (map l_ID ls)"
      "length ls \<le> length (db_limits db)"
    using getApplicableLimits_spec [OF assms(2,3) cur] by blast
  have u1: "usage db1 = usage db" and ok1: "counters_ok db1"
    using db1(2) usage_cong [of db1 db] counters_ok_cong [of db1 db] assms(1) by auto
  have nf1: "no_faults db1" using counters_only_no_faults [OF db1(1) assms(3)] .
  have fresh: "fresh_ids newID 0 (length ls) db1"
  proof -
    have sub: "{0..<0 + length ls} \<subseteq> {0..<0 + length (db_limits db)}" using ls(3) by auto
    show ?thesis
      using assms(5) sub db1(2) image_mono [OF sub, of newID] unfolding fresh_ids_def
      by (metis (no_types) inf_mono inj_on_subset order_refl subset_empty)
  qed
  have types: "\<forall>l \<in> set ls. LimitType_IsValid (l_LimitType l)"
    using assms(2) ls(1) by (auto simp: limits_ok_def)
  obtain db2 ds ids where p: "process_limits X newID rn i ?tx now 0 ls db1 = (db2, Inr (ds, ids))"
    using process_limits_no_faults [OF nf1 types ok1 a fresh] by blast
  note out = process_limits_outcome [OF ok1 driver_of_no_faults [OF nf1] a ls(2) p]
  have verdict: "over_limit X ?tx now (ci_Amount i) db1 = over_limit X ?tx now (ci_Amount i) db"
    "counted_limit X ?tx now (ci_Amount i) db1 = counted_limit X ?tx now (ci_Amount i) db"
    by (simp_all add: over_limit_def counted_limit_def u1 fun_eq_iff)
  have co: "counters_only db db2"
    using counters_only_trans [OF db1(1) process_limits_counters_only [OF p]] .
  have ids: "set ids = l_ID ` {l \<in> set (db_limits db). check_verdict X now i db l}"
    using out ls(1) by (auto simp: verdict check_verdict_def)
  have details: "set (map d_LimitID ds) = l_ID ` {l \<in> set (db_limits db). applies i l}"
    using out ls(1) by (metis list.set_map)
  have usage2: "usage db2 k = (if \<exists>l \<in> set (db_limits db). check_counts X now i db l
      \<and> check_key X now i l = k then usage db k + ci_Amount i else usage db k)" for k
  proof -
    have "(\<exists>l \<in> set ls. counter_key X ?tx now l = k \<and> counted_limit X ?tx now (ci_Amount i) db l)
        = (\<exists>l \<in> set (db_limits db). check_counts X now i db l \<and> check_key X now i l = k)"
      using ls(1) by (auto simp: check_counts_def check_key_def)
    moreover have "usage db2 k = (if \<exists>l \<in> set ls. counter_key X ?tx now l = k
        \<and> counted_limit X ?tx now (ci_Amount i) db1 l then usage db1 k + ci_Amount i else usage db1 k)"
      using out by blast
    ultimately show ?thesis by (simp only: verdict u1)
  qed
  define out' where "out' = (if ids = [] then WithLimitUsageDetails (Some (NewCheckLimitsOutput True now)) (Some ds)
     else WithExceededLimits (Some (WithLimitUsageDetails (Some (NewCheckLimitsOutput False now)) (Some ds))) (Some ids))"
  have fields: "co_Allowed out' = (ids = [])" "co_ExceededLimitIDs out' = ids"
    "co_LimitUsageDetails out' = ds"
    by (simp_all add: out'_def WithLimitUsageDetails_def WithExceededLimits_def NewCheckLimitsOutput_def)
  have run: "CheckLimits X newID rn now True (Some i) db = (db2, Inr out')"
  proof (cases "ls = []")
    case True
    then have "db2 = db1" "ids = []" "ds = []" using p by auto
    then show ?thesis
      using g True assms(4) by (simp add: CheckLimits_def checkLimitsInternal_def out'_def
          WithLimitUsageDetails_def NewCheckLimitsOutput_def)
  next
    case False
    then show ?thesis
      using g p assms(4) by (simp add: CheckLimits_def checkLimitsInternal_def out'_def Let_def)
  qed
  have allowed: "(ids = []) = (\<forall>l \<in> set (db_limits db). \<not> check_verdict X now i db l)"
    using ids by (auto simp flip: set_empty)
  have ok2: "counters_ok db2" using out by blast
  show ?thesis
    by (intro exI [of _ db2] exI [of _ out'] conjI allI, rule run, rule co, rule ok2)
      (simp_all only: fields allowed ids details usage2)
qed

text \<open>A limit whose every scope names a merchant never applies: the transaction scope that the
  checker builds has no merchant.\<close>

lemma merchant_limit_never_applies:
  assumes "l_Scopes l \<noteq> []" "\<forall>s \<in> set (l_Scopes l). MerchantID s \<noteq> None"
  shows "\<not> applies i l"
  using assms
  by (auto simp: applies_def RuleScopesMatch_iff buildTransactionScope_def Scope_Matches_def
      ptrMatches_iff)

end
