(* ===== verification/LimitProperties.thy ===== *)
theory LimitProperties
  imports LimitCheckerFacts
begin

text \<open>
  The properties of limits, usage counters and limit checking, each with a concrete instance where
  its hypotheses hold. The first definitions are the data of those instances.
\<close>

definition ext0 :: ext where
  "ext0 = \<lparr>x_unicode_upper = id, x_unicode_lower = id, x_parse_iso = (\<lambda>c. c = ''USD''),
     x_uuid_string = (\<lambda>u. nat_digits (unat u)), x_ilike = (\<lambda>p s. True),
     x_collate = (\<lambda>a b. a < b)\<rparr>"

definition account_scope :: "uuid \<Rightarrow> Scope" where
  "account_scope i = \<lparr>SegmentID = None, PortfolioID = None, AccountID = Some i, MerchantID = None,
     ScopeTransactionType = None, ScopeSubType = None\<rparr>"

definition daily_limit :: "uuid \<Rightarrow> int \<Rightarrow> int Limit" where
  "daily_limit i m = \<lparr>l_ID = i, l_Name = ''daily'', l_Description = None,
     l_LimitType = LimitTypeDaily, l_MaxAmount = m, l_Currency = ''USD'',
     l_Scopes = [account_scope 7], l_Status = LimitStatusActive,
     l_ActiveTimeStart = None, l_ActiveTimeEnd = None, l_CustomStartDate = None,
     l_CustomEndDate = None, l_ResetAt = None, l_CreatedAt = 1, l_UpdatedAt = 1,
     l_DeletedAt = None\<rparr>"

definition store0 :: "int Limit list \<Rightarrow> int limit_db" where
  "store0 ls = \<lparr>db_counters = [], db_faults = [], db_limits = ls\<rparr>"

definition input0 :: "int \<Rightarrow> int CheckLimitsInput" where
  "input0 a = \<lparr>ci_Amount = a, ci_Currency = ''USD'', ci_AccountID = 7, ci_SegmentID = None,
     ci_PortfolioID = None, ci_TransactionType = Some TransactionTypeCard, ci_SubType = None,
     ci_TransactionTimestamp = 1\<rparr>"

definition ids0 :: "nat \<Rightarrow> uuid" where
  "ids0 j = of_nat (100 + j)"

lemma store0_hyps:
  "counters_ok (store0 [daily_limit 1 10])" "limits_ok (store0 [daily_limit 1 10])"
  "no_faults (store0 [daily_limit 1 10])"
  "CheckLimitsInput_Validate ext0 (Some (input0 4)) = None"
  "fresh_ids ids0 0 (length (db_limits (store0 [daily_limit 1 10]))) (store0 [daily_limit 1 10])"
  by (simp_all add: counters_ok_def limits_ok_def no_faults_def store0_def daily_limit_def
      scan_scopes_def account_scope_def CheckLimitsInput_Validate_def input0_def IsValidCurrency_def
      ext0_def time_IsZero_def fresh_ids_def)

subsection \<open>Spending\<close>

text \<open>C1. The usage of a counter is the sum of the amounts that were accepted for it, and it never
  exceeds the maximum: whatever requests are served in whatever order, including failed and refused
  ones, the accepted amounts are counted once each, and a counter that starts at most at \<open>m\<close> stays
  at most \<open>m\<close> while every request for it carries a maximum of at most \<open>m\<close>.\<close>

theorem spending_bounded:
  assumes "counters_ok db" "\<forall>q \<in> set qs. 0 < q_amount q" "run_upserts upsert_q db qs = (db', acc)"
  shows "counters_ok db' \<and> set acc \<subseteq> set qs
    \<and> usage db' k = usage db k + sum_list (map q_amount (filter (\<lambda>q. q_key q = k) acc))
    \<and> ((\<forall>q \<in> set qs. q_key q = k \<longrightarrow> q_max q \<le> m) \<longrightarrow> usage db k \<le> m \<longrightarrow> usage db' k \<le> m)"
  using counters.run_usage [OF assms, of k] counters.run_bounded [OF assms(1,2) _ _ assms(3), of k m]
  by blast

definition request0 :: "uuid \<Rightarrow> int \<Rightarrow> int upsert_request" where
  "request0 i a = \<lparr>q_id = i, q_now = 1, q_limit = 1, q_scope = ''acct:7'', q_period = ''d'',
     q_amount = a, q_max = 10, q_expires = None\<rparr>"

theorem spending_bounded_witness:
  "\<exists>db' acc. run_upserts upsert_q (store0 []) [request0 1 6, request0 2 5, request0 3 4] = (db', acc)
     \<and> usage db' (1, ''acct:7'', ''d'') \<le> 10"
proof -
  obtain db' acc where r: "run_upserts upsert_q (store0 []) [request0 1 6, request0 2 5, request0 3 4]
      = (db', acc)" by fastforce
  have "usage db' (1, ''acct:7'', ''d'') \<le> 10"
    using spending_bounded [OF _ _ r, of "(1, ''acct:7'', ''d'')" 10]
    by (simp add: request0_def store0_def counters_ok_def usage_def find_row_def)
  with r show ?thesis by blast
qed

text \<open>C2. Limit checking implements its specification: on a consistent store, without driver
  failures and with a valid input, it returns; the transaction is allowed exactly when no limit that
  applies (active, not deleted, of the currency, one of its scopes matching) and is in effect at the
  server's time would be exceeded; the exceeded limits are reported; every limit that applies has a
  usage detail; and the counters of the limits that apply, are in effect and fit grow by the amount
  while every other counter stays as it is.\<close>

theorem check_limits_correct:
  assumes "counters_ok db" "limits_ok db" "no_faults db" "CheckLimitsInput_Validate X (Some i) = None"
    "fresh_ids newID 0 (length (db_limits db)) db"
  shows "\<exists>db' out. CheckLimits X newID rn now True (Some i) db = (db', Inr out)
    \<and> counters_only db db' \<and> counters_ok db'
    \<and> (co_Allowed out \<longleftrightarrow> (\<forall>l \<in> set (db_limits db). \<not> check_verdict X now i db l))
    \<and> set (co_ExceededLimitIDs out) = l_ID ` {l \<in> set (db_limits db). check_verdict X now i db l}
    \<and> set (map d_LimitID (co_LimitUsageDetails out)) = l_ID ` {l \<in> set (db_limits db). applies i l}
    \<and> (\<forall>k. usage db' k =
         (if \<exists>l \<in> set (db_limits db). check_counts X now i db l \<and> check_key X now i l = k
          then usage db k + ci_Amount i else usage db k))"
  using assms by (rule CheckLimits_outcome)

theorem check_limits_correct_witness:
  "\<exists>db' out. CheckLimits ext0 ids0 1 1 True (Some (input0 4)) (store0 [daily_limit 1 10]) = (db', Inr out)
     \<and> counters_ok db' \<and> co_Allowed out"
proof -
  have "\<not> check_verdict ext0 1 (input0 4) (store0 [daily_limit 1 10]) (daily_limit 1 10)"
    by (simp add: check_verdict_def over_limit_def usage_def store0_def find_row_def daily_limit_def
        input0_def)
  then have "\<forall>l \<in> set (db_limits (store0 [daily_limit 1 10])).
      \<not> check_verdict ext0 1 (input0 4) (store0 [daily_limit 1 10]) l"
    by (simp add: store0_def)
  with check_limits_correct [OF store0_hyps] show ?thesis by metis
qed

text \<open>C3. What an allowed transaction means: after the check, each limit that applies and is in
  effect has room for it: the amount of a per-transaction limit is at most its maximum, and the
  counter of any other limit, the amount included, is at most its maximum.\<close>

theorem allowed_within_limits:
  assumes "counters_ok db" "limits_ok db" "no_faults db" "CheckLimitsInput_Validate X (Some i) = None"
    "fresh_ids newID 0 (length (db_limits db)) db"
    and "CheckLimits X newID rn now True (Some i) db = (db', Inr out)" "co_Allowed out"
    and "l \<in> set (db_limits db)" "applies i l" "in_effect l now"
  shows "if l_LimitType l = LimitTypePerTransaction then ci_Amount i \<le> l_MaxAmount l
    else usage db' (check_key X now i l) = usage db (check_key X now i l) + ci_Amount i
      \<and> usage db' (check_key X now i l) \<le> l_MaxAmount l"
proof -
  obtain db2 out2 where c: "CheckLimits X newID rn now True (Some i) db = (db2, Inr out2)"
    "co_Allowed out2 \<longleftrightarrow> (\<forall>l \<in> set (db_limits db). \<not> check_verdict X now i db l)"
    and us2: "\<forall>k. usage db2 k = (if \<exists>l \<in> set (db_limits db). check_counts X now i db l
        \<and> check_key X now i l = k then usage db k + ci_Amount i else usage db k)"
    using CheckLimits_outcome [OF assms(1-5), of rn now] by blast
  have "db2 = db'" "out2 = out" using c(1) assms(6) by simp_all
  then have out: "\<not> check_verdict X now i db l"
    and us: "usage db' k = (if \<exists>l \<in> set (db_limits db). check_counts X now i db l
        \<and> check_key X now i l = k then usage db k + ci_Amount i else usage db k)" for k
    using c(2) us2 assms(7,8) by blast+
  show ?thesis
  proof (cases "l_LimitType l = LimitTypePerTransaction")
    case True
    with out assms(9,10) show ?thesis by (simp add: check_verdict_def over_limit_def)
  next
    case False
    then have "check_counts X now i db l"
      using out assms(9,10) by (simp add: check_counts_def check_verdict_def counted_limit_def)
    then have "usage db' (check_key X now i l) = usage db (check_key X now i l) + ci_Amount i"
      using us [of "check_key X now i l"] assms(8) by auto
    then show ?thesis
      using False out assms(9,10)
      by (simp add: check_verdict_def over_limit_def check_key_def not_less)
  qed
qed

theorem allowed_within_limits_witness:
  "\<exists>db' out. CheckLimits ext0 ids0 1 1 True (Some (input0 4)) (store0 [daily_limit 1 10]) = (db', Inr out)
     \<and> usage db' (check_key ext0 1 (input0 4) (daily_limit 1 10)) \<le> 10"
proof -
  let ?l = "daily_limit 1 10" and ?i = "input0 4" and ?db = "store0 [daily_limit 1 10]"
  have v: "\<not> check_verdict ext0 1 ?i ?db ?l"
    by (simp add: check_verdict_def over_limit_def usage_def store0_def find_row_def daily_limit_def
        input0_def)
  have l: "?l \<in> set (db_limits ?db)" by (simp add: store0_def)
  have ap: "applies ?i ?l"
    by (simp add: applies_def daily_limit_def input0_def buildTransactionScope_def
        RuleScopesMatch_def account_scope_def Scope_Matches_def)
  have ie: "in_effect ?l 1"
    by (simp add: in_effect_def daily_limit_def IsWithinTimeWindow_def IsWithinCustomPeriod_def)
  obtain db' out where r: "CheckLimits ext0 ids0 1 1 True (Some ?i) ?db = (db', Inr out)"
    "co_Allowed out"
    using CheckLimits_outcome [OF store0_hyps, of 1 1] v by (auto simp: store0_def)
  have "usage db' (check_key ext0 1 ?i ?l) \<le> l_MaxAmount ?l"
    using allowed_within_limits [OF store0_hyps r l ap ie] by (simp add: daily_limit_def)
  then show ?thesis using r by (auto simp: daily_limit_def)
qed

subsection \<open>Periods\<close>

lemma upsert_writes_expiry:
  assumes "upsertAndIncrementCTEQuery i lid sk pk amount now m x rows = Some (rows', cur, True)"
    "row \<in> set rows'" "row_key row = (lid, sk, pk)"
  shows "u_ExpiresAt row = x"
proof (cases "find_row (lid, sk, pk) rows")
  case None
  then have "row \<notin> set rows" using assms(3) by (auto simp: find_row_None image_iff)
  then show ?thesis
    using None assms(1,2) by (auto simp: upsertAndIncrementCTEQuery_def split: if_splits)
next
  case (Some r)
  let ?set = "\<lambda>r'. r'\<lparr>u_CurrentUsage := u_CurrentUsage r' + amount, u_LastUpdatedAt := now, u_ExpiresAt := x\<rparr>"
  have "rows' = map (\<lambda>r'. if row_key r' = (lid, sk, pk) then ?set r' else r') rows"
    using Some assms(1) by (simp add: upsertAndIncrementCTEQuery_def split: if_splits)
  with assms(2) have "row \<in> (\<lambda>r'. if row_key r' = (lid, sk, pk) then ?set r' else r') ` set rows"
    by simp
  then obtain r' where "row = (if row_key r' = (lid, sk, pk) then ?set r' else r')"
    by (rule imageE)
  then show ?thesis using assms(3) by (auto split: if_splits)
qed

text \<open>C4. A daily, weekly or monthly counter is shared exactly until the reset time: the reset lies
  in the future, and a later instant has the same period key if and only if it is before the reset.\<close>

theorem period_key_until_reset:
  assumes "periodic lt" "now \<le> t"
  shows "\<exists>r. CalculateResetAt lt now = Some r \<and> now < r
    \<and> (CalculatePeriodKey lt t = CalculatePeriodKey lt now \<longleftrightarrow> t < r)"
  using CalculateResetAt_periodic [OF assms(1), of now] CalculateResetAt_future same_period_iff [OF assms]
  by blast

theorem period_key_until_reset_witness:
  "\<exists>r. CalculateResetAt LimitTypeMonthly (Date_midnight 2024 2 10) = Some r
     \<and> (CalculatePeriodKey LimitTypeMonthly (Date_midnight 2024 2 29)
          = CalculatePeriodKey LimitTypeMonthly (Date_midnight 2024 2 10)
        \<longleftrightarrow> Date_midnight 2024 2 29 < r)"
proof -
  have "periodic LimitTypeMonthly" by (simp add: periodic_def)
  moreover have "Date_midnight 2024 2 10 \<le> Date_midnight 2024 2 29"
    by (simp add: Date_midnight_def days_of_date_def Let_def Day_ns_def)
  ultimately show ?thesis using period_key_until_reset by blast
qed

text \<open>C5. When a counter becomes eligible for the clean-up, from the row that an accepted upsert at
  time \<open>now\<close> leaves under its key. For daily, weekly and monthly limits it is not eligible at any later
  instant with the same period key, and not for the 90 days of retention after it. For a custom limit
  it becomes eligible exactly 90 days after the end date that the limit had at that upsert, so not
  before 90 days after any instant of that period; a later end date that an update gives the limit is
  not taken into account until the next accepted upsert, because the period key stays the same and
  nothing else writes the expiry: the counter of an extended period can be deleted while the period is
  still running, and counting then starts again from nothing.\<close>

theorem counter_expiry:
  fixes rows :: "('d::linordered_ab_group_add) CounterRow list"
  assumes "CalculatePeriodKey lt now = Inr pk"
    and "upsertAndIncrementCTEQuery i lid sk pk amount now m
      (calculateCounterExpiresAt lt (CalculateResetAt lt now) ce) rows = Some (rows', cur, True)"
    and "row \<in> set rows'" "row_key row = (lid, sk, pk)" "now \<le> t"
  shows "(periodic lt \<and> CalculatePeriodKey lt t = Inr pk
      \<longrightarrow> \<not> row_expired (t + 90 * Day_ns) row)
    \<and> (lt = LimitTypeCustom \<and> ce = Some e
      \<longrightarrow> (row_expired t row \<longleftrightarrow> e + 90 * Day_ns < t)
        \<and> (t < e \<longrightarrow> \<not> row_expired (t + 90 * Day_ns) row)
        \<and> (\<forall>l. l_LimitType l = LimitTypeCustom \<and> IsWithinCustomPeriod l t \<and> e + 90 * Day_ns < t
            \<longrightarrow> row_expired t row \<and> CalculatePeriodKey (l_LimitType l) t = Inr (u_PeriodKey row)))"
proof -
  have x: "u_ExpiresAt row = calculateCounterExpiresAt lt (CalculateResetAt lt now) ce"
    by (rule upsert_writes_expiry [OF assms(2-4)])
  have "\<not> row_expired (t + 90 * Day_ns) row"
    if p: "periodic lt \<and> CalculatePeriodKey lt t = Inr pk"
  proof -
    obtain r where r: "CalculateResetAt lt now = Some r"
      using CalculateResetAt_periodic p by blast
    then have "t < r" using same_period_iff [OF _ assms(5) r] p assms(1) by simp
    then show ?thesis
      using x periodic_expiry [OF _ r, of ce] p
      by (simp add: row_expired_def CounterRetentionDays_def)
  qed
  moreover have "u_ExpiresAt row = Some (e + 90 * Day_ns)" if "lt = LimitTypeCustom \<and> ce = Some e"
    using x that by (simp add: calculateCounterExpiresAt_def AddDate_days CounterRetentionDays_def)
  moreover have "u_PeriodKey row = pk" using assms(4) by (simp add: row_key_def)
  ultimately show ?thesis using assms(1) by (auto simp: row_expired_def CalculatePeriodKey_def)
qed

text \<open>A counter of a custom limit that ends at 9, in its period and, with the limit extended since,
  well after it.\<close>

theorem counter_expiry_witness:
  "\<exists>rows'. upsertAndIncrementCTEQuery 1 1 ''s'' ''custom'' (3::int) 5 10
       (calculateCounterExpiresAt LimitTypeCustom (CalculateResetAt LimitTypeCustom 5) (Some 9)) []
       = Some (rows', 3, True)
     \<and> (\<forall>row \<in> set rows'. \<not> row_expired (8 + 90 * Day_ns) row
          \<and> row_expired (100 * Day_ns) row)"
proof -
  let ?x = "calculateCounterExpiresAt LimitTypeCustom (CalculateResetAt LimitTypeCustom 5) (Some 9)"
  let ?row = "\<lparr>u_ID = 1, u_LimitID = 1, u_ScopeKey = ''s'', u_PeriodKey = ''custom'',
    u_CurrentUsage = 3::int, u_LastUpdatedAt = 5, u_ExpiresAt = ?x\<rparr>"
  have u: "upsertAndIncrementCTEQuery 1 1 ''s'' ''custom'' (3::int) 5 10 ?x []
      = Some ([?row], 3, True)"
    by (simp add: upsertAndIncrementCTEQuery_def find_row_def)
  have k: "CalculatePeriodKey LimitTypeCustom 5 = Inr ''custom''" by (simp add: CalculatePeriodKey_def)
  have e: "row_expired t ?row \<longleftrightarrow> 9 + 90 * Day_ns < t" if "5 \<le> t" for t
    using counter_expiry [OF k u, where row = ?row and t = t and e = 9] that
    by (auto simp: row_key_def)
  have "\<not> row_expired (8 + 90 * Day_ns) ?row" "row_expired (100 * Day_ns) ?row"
    by (subst e; simp add: Day_ns_def)+
  then show ?thesis using u by auto
qed

text \<open>C6. The clean-up of expired counters ends, deletes exactly the expired rows and counts them,
  whatever the batch size: without cancellation and driver failures nothing expired is left, no other
  row is touched, and the number returned is the number of expired rows.\<close>

theorem delete_expired_exact:
  assumes "distinct (map u_ID (db_counters db))" "no_faults db" "0 < n"
    "DeleteExpiredCounters (\<lambda>_. None) n now db = (db', removed, e)"
  shows "e = None
    \<and> filter (\<lambda>r. \<not> row_expired now r) (db_counters db') = filter (\<lambda>r. \<not> row_expired now r) (db_counters db)
    \<and> filter (row_expired now) (db_counters db') = []
    \<and> removed = length (filter (row_expired now) (db_counters db))"
proof -
  have loop: "delete_expired_loop (\<lambda>_. None) 0 n now db 0 = (db', removed, e)"
    using assms(4) by (simp add: DeleteExpiredCounters_def)
  note clean = delete_expired_loop_clean [OF refl assms(2,3) loop]
  note keeps = delete_expired_loop_keeps [OF assms(1) loop]
  have len: "length xs = length (filter (row_expired now) xs) + length (filter (\<lambda>r. \<not> row_expired now r) xs)"
    for xs :: "'a CounterRow list"
    by (simp add: sum_length_filter_compl)
  have "removed = length (filter (row_expired now) (db_counters db))"
    using conjunct1 [OF keeps] conjunct2 [OF keeps] conjunct2 [OF clean] len [of "db_counters db'"]
      len [of "db_counters db"] by simp
  then show ?thesis using clean keeps by simp
qed

definition row0 :: "uuid \<Rightarrow> gotime option \<Rightarrow> int CounterRow" where
  "row0 i e = \<lparr>u_ID = i, u_LimitID = i, u_ScopeKey = ''s'', u_PeriodKey = ''p'', u_CurrentUsage = 1,
     u_LastUpdatedAt = 1, u_ExpiresAt = e\<rparr>"

theorem delete_expired_exact_witness:
  "\<exists>db' removed e. DeleteExpiredCounters (\<lambda>_. None) 1 5
       ((store0 [])\<lparr>db_counters := [row0 1 (Some 2), row0 2 None, row0 3 (Some 4)]\<rparr>) = (db', removed, e)
     \<and> removed = 2 \<and> e = None"
proof -
  let ?db = "(store0 [])\<lparr>db_counters := [row0 1 (Some 2), row0 2 None, row0 3 (Some 4)]\<rparr>"
  obtain db' removed e where r: "DeleteExpiredCounters (\<lambda>_. None) 1 5 ?db = (db', removed, e)"
    by (rule prod_cases3)
  have "e = None \<and> removed = length (filter (row_expired 5) (db_counters ?db))"
    using delete_expired_exact [OF _ _ _ r] by (simp add: row0_def no_faults_def store0_def)
  then show ?thesis using r by (simp add: row0_def row_expired_def)
qed

end
