(* ===== verification/RuleProperties.thy ===== *)
theory RuleProperties
  imports RuleSyncFacts LimitProperties
begin

text \<open>
  The properties of rules, their evaluation, the cache and its synchronization, each with a concrete
  instance where its hypotheses hold. The first definitions are the data of those instances: programs
  are their expressions, and the toy evaluator answers the expression \<open>true\<close> with yes.
\<close>

definition cel0 :: "(string, int) cel_ops" where
  "cel0 = \<lparr>cel_Compile = (\<lambda>s. if s = ''bad'' then Inl (External ''syntax'') else Inr s),
     cel_Evaluate = (\<lambda>p q. Inr (p = ''true''))\<rparr>"

definition rule0 :: "uuid \<Rightarrow> string \<Rightarrow> Decision \<Rightarrow> RuleStatus \<Rightarrow> gotime \<Rightarrow> string Rule" where
  "rule0 i e a st t = \<lparr>r_ID = i, r_Name = ''rule'', r_Description = None, r_Expression = e,
     r_Action = a, r_Scopes = [], r_Status = st, r_CreatedAt = 1, r_UpdatedAt = t,
     r_ActivatedAt = None, r_DeactivatedAt = None, r_DeletedAt = None, r_CompiledProgram = None\<rparr>"

definition vrequest0 :: "int ValidationRequest" where
  "vrequest0 = \<lparr>v_RequestID = 1, v_TransactionType = TransactionTypePix, v_SubType = None,
     v_Amount = 5, v_Currency = ''USD'', v_TransactionTimestamp = 10,
     v_Account = \<lparr>ac_ID = 7, ac_Type = [], ac_Status = [], ac_Metadata = None\<rparr>,
     v_Segment = None, v_Portfolio = None, v_Merchant = None, v_Metadata = None\<rparr>"

definition config0 :: "int \<Rightarrow> EvaluationConfig" where
  "config0 n = \<lparr>DefaultDecisionWhenNoMatch = DecisionReview, MaxRulesPerRequest = n\<rparr>"

subsection \<open>The life of a rule\<close>

datatype rule_op =
    Set_status RuleStatus gotime
  | Update_fields "string option" "string option" "string option" "Scope list option" gotime
  | Set_action Decision gotime

fun rule_op_result :: "'p Rule \<Rightarrow> rule_op \<Rightarrow> (err, 'p Rule) result" where
  "rule_op_result r (Set_status s now) = Rule_SetStatus r s now"
| "rule_op_result r (Update_fields n e d ss now) = Rule_Update r n e d ss now"
| "rule_op_result r (Set_action a now) = Rule_SetAction r a now"

text \<open>Operations one after another; one that is refused leaves the rule as it is.\<close>

definition rule_ops :: "rule_op list \<Rightarrow> 'p Rule \<Rightarrow> 'p Rule" where
  "rule_ops ops r = fold (\<lambda>x r. case rule_op_result r x of Inl e \<Rightarrow> r | Inr r' \<Rightarrow> r') ops r"

lemma rule_op_result_ok:
  assumes "rule_op_result r x = Inr r'"
  shows "rule_ok r \<Longrightarrow> rule_ok r'" "r_ID r' = r_ID r" "r_CreatedAt r' = r_CreatedAt r"
proof -
  show "rule_ok r \<Longrightarrow> rule_ok r'"
    using assms Rule_SetStatus_ok Rule_Update_ok Rule_SetAction_ok by (cases x) auto
  have "r_ID r' = r_ID r \<and> r_CreatedAt r' = r_CreatedAt r"
  proof (cases x)
    case (Set_status s now)
    then show ?thesis using assms by (simp add: Rule_SetStatus_frame)
  next
    case (Update_fields n e d ss now)
    then show ?thesis using assms by (simp add: Rule_Update_Inr)
  next
    case (Set_action a now)
    then show ?thesis using assms by (auto simp: Rule_SetAction_def split: if_splits)
  qed
  then show "r_ID r' = r_ID r" "r_CreatedAt r' = r_CreatedAt r" by simp_all
qed

text \<open>C10. The invariant of rules (field limits, valid action, no empty scope, and the lifecycle
  timestamps that its status calls for) holds of every rule that \<^verbatim>\<open>NewRule\<close> makes, after any sequence
  of status changes, updates and action changes in any mixture, the refused ones included; identifier
  and creation time never change.\<close>

theorem rule_invariant:
  assumes "NewRule i name expr action scopes desc at = Inr r"
  shows "rule_ok (rule_ops ops r) \<and> r_ID (rule_ops ops r) = i \<and> r_CreatedAt (rule_ops ops r) = at"
proof -
  have "rule_ok r0 \<and> r_ID r0 = i \<and> r_CreatedAt r0 = at \<Longrightarrow>
      rule_ok (rule_ops ops r0) \<and> r_ID (rule_ops ops r0) = i \<and> r_CreatedAt (rule_ops ops r0) = at"
    for r0 :: "'a Rule"
  proof (induction ops arbitrary: r0)
    case (Cons x ops)
    show ?case
    proof (cases "rule_op_result r0 x")
      case (Inr r1)
      from Cons.IH [of r1] Cons.prems rule_op_result_ok [OF Inr] Inr show ?thesis
        by (simp add: rule_ops_def)
    qed (use Cons in \<open>simp add: rule_ops_def\<close>)
  qed (simp add: rule_ops_def)
  then show ?thesis using NewRule_ok [OF assms] by blast
qed

text \<open>A rule is activated, renamed, deactivated, renamed and given another action, and deleted; the
  direct deletion of the active rule and the blank name are refused.\<close>

theorem rule_invariant_witness:
  "rule_ok (rule_ops [Set_status RuleStatusActive 2, Set_status RuleStatusDeleted 3,
     Update_fields (Some ''rule'') None None None 4, Set_status RuleStatusInactive 5,
     Update_fields (Some '' '') None None (Some []) 6, Set_action DecisionAllow 7, Set_status RuleStatusDeleted 8]
     (rule0 1 ''true'' DecisionDeny RuleStatusDraft 1))"
proof -
  have "TrimSpace ''rule'' = ''rule''" "TrimSpace ''true'' = ''true''" by (simp_all add: TrimSpace_text)
  then have "NewRule 1 ''rule'' ''true'' DecisionDeny [] None 1
      = Inr (rule0 1 ''true'' DecisionDeny RuleStatusDraft 1)"
    by (simp add: NewRule_def rule0_def MaxRuleNameLength_def MaxRuleExpressionLength_def)
  from rule_invariant [OF this] show ?thesis by blast
qed

text \<open>A deleted rule stays as it is whatever is attempted, and an active rule gets deleted only
  through the inactive status: no sequence of status changes deletes it directly.\<close>

theorem rule_lifecycle:
  shows "(r_Status r = RuleStatusDeleted \<longrightarrow> attempts Rule_SetStatus r xs = r)
    \<and> (r_Status r = RuleStatusActive \<and> r_Status (attempts Rule_SetStatus r xs) = RuleStatusDeleted
       \<longrightarrow> (\<exists>ts. walk CanTransitionTo RuleStatusActive ts \<and> RuleStatusInactive \<in> set ts
              \<and> last ts = RuleStatusDeleted))"
  using rule_setter.deleted_forever rule_setter.active_not_deleted_directly by blast

theorem rule_lifecycle_witness:
  "attempts Rule_SetStatus (rule0 1 ''x'' DecisionDeny RuleStatusDeleted 1) [(RuleStatusActive, 2)]
     = rule0 1 ''x'' DecisionDeny RuleStatusDeleted 1"
proof -
  have "r_Status (rule0 1 ''x'' DecisionDeny RuleStatusDeleted 1) = RuleStatusDeleted"
    by (simp add: rule0_def)
  with rule_lifecycle [of "rule0 1 ''x'' DecisionDeny RuleStatusDeleted 1"] show ?thesis by blast
qed

text \<open>C11. \<^verbatim>\<open>Rule.Update\<close> is atomic: it fails exactly when one of the given fields is invalid, and
  then no rule results; otherwise every given field has its normalized new value, every other field
  its old one, and the update time is set exactly when a field was given.\<close>

theorem rule_update_atomic:
  "(case Rule_Update r name expr desc scopes now of
      Inl e \<Rightarrow>
        (\<exists>n. name = Some n \<and> (TrimSpace n = [] \<or> MaxRuleNameLength < length (TrimSpace n)))
        \<or> (\<exists>e. expr = Some e \<and> (TrimSpace e = [] \<or> MaxRuleExpressionLength < length (TrimSpace e)))
        \<or> (\<exists>d. desc = Some d \<and> MaxDescriptionLength < length (TrimSpace d))
        \<or> (\<exists>ss. scopes = Some ss \<and> (\<exists>s \<in> set ss. Scope_IsEmpty s))
    | Inr r' \<Rightarrow>
        \<not> (\<exists>n. name = Some n \<and> (TrimSpace n = [] \<or> MaxRuleNameLength < length (TrimSpace n)))
        \<and> \<not> (\<exists>e. expr = Some e \<and> (TrimSpace e = [] \<or> MaxRuleExpressionLength < length (TrimSpace e)))
        \<and> \<not> (\<exists>d. desc = Some d \<and> MaxDescriptionLength < length (TrimSpace d))
        \<and> \<not> (\<exists>ss. scopes = Some ss \<and> (\<exists>s \<in> set ss. Scope_IsEmpty s))
        \<and> r' = r\<lparr>r_Name := (case name of None \<Rightarrow> r_Name r | Some n \<Rightarrow> TrimSpace n),
            r_Description := (case desc of None \<Rightarrow> r_Description r | Some d \<Rightarrow> Some (TrimSpace d)),
            r_Expression := (case expr of None \<Rightarrow> r_Expression r | Some e \<Rightarrow> TrimSpace e),
            r_Scopes := (case scopes of None \<Rightarrow> r_Scopes r | Some ss \<Rightarrow> ss),
            r_UpdatedAt := (if name \<noteq> None \<or> expr \<noteq> None \<or> desc \<noteq> None \<or> scopes \<noteq> None
                            then now else r_UpdatedAt r)\<rparr>)"
proof (cases "Rule_Update r name expr desc scopes now")
  case (Inl e)
  then have "Rule_Update_checks name expr desc scopes \<noteq> None"
    by (auto simp: Rule_Update_def Let_def split: option.splits)
  with Inl show ?thesis unfolding Rule_Update_checks_None by (auto simp: not_le)
next
  case (Inr r')
  note u = Inr [unfolded Rule_Update_Inr]
  note c = conjunct1 [OF u, unfolded Rule_Update_checks_None]
  show ?thesis
    unfolding Inr sum.case
    by (intro conjI conjunct2 [OF u]) (use c in \<open>auto simp: not_le\<close>)
qed

theorem rule_update_atomic_witness:
  "\<exists>e. Rule_Update (rule0 1 ''x'' DecisionDeny RuleStatusDraft 1) (Some []) None None None 2 = Inl e"
proof (cases "Rule_Update (rule0 1 ''x'' DecisionDeny RuleStatusDraft 1) (Some []) None None None 2")
  case (Inr r')
  have "TrimSpace [] = []" using TrimSpace_length [of "[]"] by simp
  with rule_update_atomic [where r = "rule0 1 ''x'' DecisionDeny RuleStatusDraft 1" and name = "Some []"
      and expr = None and desc = None and scopes = None and now = 2] Inr
  show ?thesis by simp
qed simp

subsection \<open>Decisions\<close>

text \<open>C12. Rule evaluation implements its specification: with a live context, a valid default decision
  and rules of valid actions, it fails exactly when a rule in scope fails to compile or to evaluate;
  otherwise it returns the strongest action (deny, then review, then allow) among the rules that are
  in scope and match, the default when none does, the identifiers of exactly those rules, and those of
  all rules evaluated, each once and in order.\<close>

theorem decision_correct:
  assumes "repo (Some (ToTransactionScope q)) = Inr loaded" "live_context ctx"
    "Decision_IsValid (DefaultDecisionWhenNoMatch cfg)"
    "truncate_rules cfg loaded = (rules, truncated)"
    "\<forall>r. Some r \<in> set rules \<longrightarrow> Decision_IsValid (r_Action r)"
  shows "if \<exists>r. Some r \<in> set rules \<and> rule_fails cel q r
    then \<exists>e. EvaluateRules cel cfg ctx repo (Some q) = Inl (Wrap ''failed to evaluate rules'' e)
    else \<exists>res. EvaluateRules cel cfg ctx repo (Some q) = Inr res
      \<and> e_Decision res = winner cel q (DefaultDecisionWhenNoMatch cfg) {r. Some r \<in> set rules}
      \<and> set (e_MatchedRuleIDs res) = r_ID ` {r. Some r \<in> set rules \<and> rule_matches cel q r}
      \<and> e_EvaluatedRuleIDs res = map r_ID (List.map_filter id rules)
      \<and> e_TotalRulesLoaded res = int (length loaded) \<and> e_Truncated res = truncated"
  using assms by (rule EvaluateRules_outcome)

definition two_rules :: "string Rule option list" where
  "two_rules = [Some (rule0 1 ''true'' DecisionAllow RuleStatusActive 1), None,
     Some (rule0 2 ''true'' DecisionDeny RuleStatusActive 1)]"

theorem decision_correct_witness:
  "\<exists>res. EvaluateRules cel0 (config0 0) [] (\<lambda>_. Inr two_rules) (Some vrequest0) = Inr res
     \<and> e_Decision res = DecisionDeny \<and> set (e_MatchedRuleIDs res) = {1, 2}"
proof -
  have set: "{r. Some r \<in> set two_rules} = {rule0 1 ''true'' DecisionAllow RuleStatusActive 1,
      rule0 2 ''true'' DecisionDeny RuleStatusActive 1}"
    by (auto simp: two_rules_def)
  have m: "rule_matches cel0 vrequest0 (rule0 i ''true'' a RuleStatusActive 1)"
    "\<not> rule_fails cel0 vrequest0 (rule0 i ''true'' a RuleStatusActive 1)" for i a
    by (simp_all add: rule_matches_def rule_fails_def rule_applies_def rule_program_def cel0_def rule0_def)
  have nf: "\<not> (\<exists>r. Some r \<in> set two_rules \<and> rule_fails cel0 vrequest0 r)"
    using m by (auto simp: two_rules_def)
  have "{r. Some r \<in> set two_rules \<and> rule_matches cel0 vrequest0 r} = {r. Some r \<in> set two_rules}"
    using m by (auto simp: two_rules_def)
  then have ids: "r_ID ` {r. Some r \<in> set two_rules \<and> rule_matches cel0 vrequest0 r} = {1, 2}"
    unfolding set by (simp add: rule0_def)
  have w: "winner cel0 vrequest0 DecisionReview {r. Some r \<in> set two_rules} = DecisionDeny"
    unfolding set winner_def winning_def using m by (force simp: rule0_def)
  have acts: "\<forall>r. Some r \<in> set two_rules \<longrightarrow> Decision_IsValid (r_Action r)"
    by (auto simp: two_rules_def rule0_def)
  have "live_context []" "Decision_IsValid (DefaultDecisionWhenNoMatch (config0 0))"
    "truncate_rules (config0 0) two_rules = (two_rules, False)"
    by (simp_all add: live_context_def config0_def truncate_rules_def)
  from decision_correct [where cel = cel0 and q = vrequest0 and repo = "\<lambda>_. Inr two_rules", OF refl this acts]
  show ?thesis using nf ids w by (auto simp: config0_def)
qed

lemma cached_evaluation:
  assumes "rc_ready c" "enumerates order c" "live_context ctx"
    "Decision_IsValid (DefaultDecisionWhenNoMatch cfg)"
    "\<forall>r \<in> served c. Decision_IsValid (r_Action r)"
    "MaxRulesPerRequest cfg \<le> 0 \<or> int (length order) \<le> MaxRulesPerRequest cfg"
  shows "if \<exists>r \<in> served c. rule_fails cel q r
    then \<exists>e. EvaluateRules cel cfg ctx (CacheAdapter_GetActiveRules order c) (Some q)
           = Inl (Wrap ''failed to evaluate rules'' e)
    else \<exists>res. EvaluateRules cel cfg ctx (CacheAdapter_GetActiveRules order c) (Some q) = Inr res
      \<and> e_Decision res = winner cel q (DefaultDecisionWhenNoMatch cfg) (served c)
      \<and> set (e_MatchedRuleIDs res) = r_ID ` {r \<in> served c. rule_matches cel q r}
      \<and> \<not> e_Truncated res"
proof -
  have len: "length (List.map_filter f xs) \<le> length xs" for f :: "'x \<Rightarrow> 'y option" and xs
    by (simp add: List.map_filter_def)
  have "length (adapter_fetch (order, c) (ToTransactionScope q)) \<le> length order"
    unfolding adapter_fetch_def Cache_GetActiveRules_def fst_conv snd_conv
    by (rule order_trans [OF len len])
  then have fits: "MaxRulesPerRequest cfg \<le> 0
      \<or> int (length (adapter_fetch (order, c) (ToTransactionScope q))) \<le> MaxRulesPerRequest cfg"
    using assms(6) by linarith
  show ?thesis
    using cache_source.decision_of_source [where s = "(order, c)" and cel = cel and cfg = cfg
        and q = q and repo = "CacheAdapter_GetActiveRules order c", unfolded fst_conv snd_conv,
        OF assms(2-4) CacheAdapter_fetch [OF assms(1)] assms(5) fits] .
qed

text \<open>C13. Through the cache the decision is the one of its specification over all the rules the cache
  serves, in whatever order the runtime iterates the map: the scope filter of the cache loses no rule
  that could match or fail, and it adds none. The hypothesis on \<^verbatim>\<open>MaxRulesPerRequest\<close> says that no
  rule is cut off.\<close>

theorem cache_decision:
  assumes "rc_ready c" "enumerates order c" "live_context ctx"
    "Decision_IsValid (DefaultDecisionWhenNoMatch cfg)"
    "\<forall>r \<in> served c. Decision_IsValid (r_Action r)"
    "MaxRulesPerRequest cfg \<le> 0 \<or> int (length order) \<le> MaxRulesPerRequest cfg"
  shows "if \<exists>r \<in> served c. rule_fails cel q r
    then \<exists>e. EvaluateRules cel cfg ctx (CacheAdapter_GetActiveRules order c) (Some q)
           = Inl (Wrap ''failed to evaluate rules'' e)
    else \<exists>res. EvaluateRules cel cfg ctx (CacheAdapter_GetActiveRules order c) (Some q) = Inr res
      \<and> e_Decision res = winner cel q (DefaultDecisionWhenNoMatch cfg) (served c)
      \<and> set (e_MatchedRuleIDs res) = r_ID ` {r \<in> served c. rule_matches cel q r}
      \<and> \<not> e_Truncated res"
  using assms by (rule cached_evaluation)

definition cache0 :: "string Rule list \<Rightarrow> string RuleCache" where
  "cache0 rs = MarkReady (SetRules
     (map (\<lambda>r. Some \<lparr>cr_Rule = Some r, cr_Program = Some (r_Expression r)\<rparr>) rs) 5 NewRuleCache)"

definition allow_1 :: "string Rule" where
  "allow_1 = rule0 1 ''true'' DecisionAllow RuleStatusActive 1"

definition deny_2 :: "string Rule" where
  "deny_2 = rule0 2 ''true'' DecisionDeny RuleStatusActive 1"

lemma cache0_rules:
  "rc_rules (cache0 [allow_1, deny_2]) = (\<lambda>_. None)
     (1 \<mapsto> \<lparr>cr_Rule = Some allow_1, cr_Program = Some ''true''\<rparr>,
      2 \<mapsto> \<lparr>cr_Rule = Some deny_2, cr_Program = Some ''true''\<rparr>)"
  "rc_ready (cache0 rs)"
  by (simp_all add: cache0_def MarkReady_def SetRules_def store_rule_def allow_1_def deny_2_def rule0_def)

lemma cache0_enumerates:
  "enumerates [1, 2] (cache0 [allow_1, deny_2])" "enumerates [2, 1] (cache0 [allow_1, deny_2])"
  by (auto simp: enumerates_def cache0_rules)

lemma cache0_served:
  "served (cache0 [allow_1, deny_2])
     = {allow_1\<lparr>r_CompiledProgram := Some ''true''\<rparr>, deny_2\<lparr>r_CompiledProgram := Some ''true''\<rparr>}"
  by (auto simp: served_def cache0_rules split: if_splits) (rule exI [of _ 2], simp)

lemma cache0_adapter:
  "CacheAdapter_GetActiveRules [1, 2] (cache0 [allow_1, deny_2]) tx
     = Inr [Some (allow_1\<lparr>r_CompiledProgram := Some ''true''\<rparr>),
            Some (deny_2\<lparr>r_CompiledProgram := Some ''true''\<rparr>)]"
  "CacheAdapter_GetActiveRules [2, 1] (cache0 [allow_1, deny_2]) tx
     = Inr [Some (deny_2\<lparr>r_CompiledProgram := Some ''true''\<rparr>),
            Some (allow_1\<lparr>r_CompiledProgram := Some ''true''\<rparr>)]"
proof -
  have "List.map_filter f [] = []" for f :: "'x \<Rightarrow> 'y option" by (simp add: List.map_filter_def)
  moreover have "r_Scopes allow_1 = []" "r_Scopes deny_2 = []"
    by (simp_all add: allow_1_def deny_2_def rule0_def)
  ultimately show "CacheAdapter_GetActiveRules [1, 2] (cache0 [allow_1, deny_2]) tx
     = Inr [Some (allow_1\<lparr>r_CompiledProgram := Some ''true''\<rparr>),
            Some (deny_2\<lparr>r_CompiledProgram := Some ''true''\<rparr>)]"
    "CacheAdapter_GetActiveRules [2, 1] (cache0 [allow_1, deny_2]) tx
     = Inr [Some (deny_2\<lparr>r_CompiledProgram := Some ''true''\<rparr>),
            Some (allow_1\<lparr>r_CompiledProgram := Some ''true''\<rparr>)]"
    by (simp_all add: CacheAdapter_GetActiveRules_def Cache_GetActiveRules_def cache0_rules
        map_filter_Cons RuleScopesMatch_def)
qed

theorem cache_decision_witness:
  "\<exists>res. EvaluateRules cel0 (config0 0) [] (CacheAdapter_GetActiveRules [2, 1] (cache0 [allow_1, deny_2]))
      (Some vrequest0) = Inr res \<and> e_Decision res = DecisionDeny"
proof -
  let ?c = "cache0 [allow_1, deny_2]"
  have m: "rule_matches cel0 vrequest0 r" "\<not> rule_fails cel0 vrequest0 r" "Decision_IsValid (r_Action r)"
    if "r \<in> served ?c" for r
    using that unfolding cache0_served
    by (auto simp: rule_matches_def rule_fails_def rule_applies_def rule_program_def
        cel0_def allow_1_def deny_2_def rule0_def)
  have "{r \<in> served ?c. rule_matches cel0 vrequest0 r} = served ?c" using m by blast
  then have w: "winner cel0 vrequest0 DecisionReview (served ?c) = DecisionDeny"
    unfolding winner_def cache0_served by (simp add: winning_def deny_2_def rule0_def)
  have "live_context []" "Decision_IsValid (DefaultDecisionWhenNoMatch (config0 0))"
    "MaxRulesPerRequest (config0 0) \<le> 0 \<or> int (length [2, 1 :: uuid]) \<le> MaxRulesPerRequest (config0 0)"
    by (simp_all add: live_context_def config0_def)
  from cache_decision [where cel = cel0 and q = vrequest0, OF cache0_rules(2) cache0_enumerates(2)
      this(1,2) _ this(3)]
  show ?thesis using m w by (auto simp: config0_def)
qed

text \<open>The rule that the cache serves under an identifier, and the identifiers in the scope of a request:
  the adapter serves the latter in the order of the iteration.\<close>

definition served_rule :: "'p RuleCache \<Rightarrow> uuid \<Rightarrow> 'p Rule" where
  "served_rule c i = (case rc_rules c i of
     Some cr \<Rightarrow> (the (cr_Rule cr))\<lparr>r_CompiledProgram := cr_Program cr\<rparr>)"

definition in_scope :: "'p RuleCache \<Rightarrow> 'd ValidationRequest \<Rightarrow> uuid \<Rightarrow> bool" where
  "in_scope c q i = (rc_rules c i \<noteq> None \<and> rule_applies (served_rule c i) q)"

lemma adapter_in_order:
  assumes "rc_ready c" "cache_wf c"
  shows "CacheAdapter_GetActiveRules order c (Some (ToTransactionScope q))
    = Inr (map (\<lambda>i. Some (served_rule c i)) (filter (in_scope c q) order))"
proof -
  have "List.map_filter (\<lambda>cached. case cr_Rule cached of None \<Rightarrow> None
      | Some rule \<Rightarrow> Some (Some (rule\<lparr>r_CompiledProgram := cr_Program cached\<rparr>)))
      (Cache_GetActiveRules order c (Some (ToTransactionScope q)))
    = map (\<lambda>i. Some (served_rule c i)) (filter (in_scope c q) order)"
  proof (induction order)
    case (Cons i order)
    show ?case
    proof (cases "rc_rules c i")
      case (Some cr)
      moreover from this obtain r where "cr_Rule cr = Some r"
        using assms(2) unfolding cache_wf_def by blast
      ultimately show ?thesis
        using Cons by (simp add: Cache_GetActiveRules_def map_filter_Cons in_scope_def served_rule_def
            rule_applies_iff)
    qed (use Cons in \<open>simp add: Cache_GetActiveRules_def map_filter_Cons in_scope_def\<close>)
  qed (simp add: Cache_GetActiveRules_def List.map_filter_def)
  with assms(1) show ?thesis by (simp add: CacheAdapter_GetActiveRules_def)
qed

lemma served_rule_served:
  assumes "cache_wf c"
  shows "served c = served_rule c ` {i. rc_rules c i \<noteq> None}"
    and "inj_on (served_rule c) {i. rc_rules c i \<noteq> None}"
proof -
  have ex: "\<exists>cr r. rc_rules c i = Some cr \<and> cr_Rule cr = Some r \<and> r_ID r = i" if "rc_rules c i \<noteq> None" for i
    using assms that unfolding cache_wf_def by blast
  show "served c = served_rule c ` {i. rc_rules c i \<noteq> None}"
    using ex by (fastforce simp: served_def served_rule_def image_iff)
  have "r_ID (served_rule c i) = i" if "rc_rules c i \<noteq> None" for i
    using ex [OF that] by (auto simp: served_rule_def)
  then show "inj_on (served_rule c) {i. rc_rules c i \<noteq> None}" by (metis (mono_tags) inj_onI mem_Collect_eq)
qed

text \<open>The decision with one order when more rules are in scope than are evaluated: that of the first of
  them.\<close>

lemma truncated_evaluation:
  assumes "rc_ready c" "cache_wf c" "enumerates order c" "live_context ctx"
    "Decision_IsValid (DefaultDecisionWhenNoMatch cfg)"
    "\<forall>r \<in> served c. Decision_IsValid (r_Action r) \<and> \<not> rule_fails cel q r"
    "0 < MaxRulesPerRequest cfg" "MaxRulesPerRequest cfg < int (length (filter (in_scope c q) order))"
  shows "\<exists>res. EvaluateRules cel cfg ctx (CacheAdapter_GetActiveRules order c) (Some q) = Inr res
    \<and> e_Decision res = winner cel q (DefaultDecisionWhenNoMatch cfg)
        (served_rule c ` set (take (nat (MaxRulesPerRequest cfg)) (filter (in_scope c q) order)))
    \<and> e_Truncated res"
proof -
  let ?ids = "take (nat (MaxRulesPerRequest cfg)) (filter (in_scope c q) order)"
  let ?rules = "map (\<lambda>i. Some (served_rule c i)) ?ids"
  have sub: "r \<in> served c" if "Some r \<in> set ?rules" for r
    using that assms(2) by (auto simp: served_rule_served in_scope_def dest!: in_set_takeD)
  have nf: "\<not> (\<exists>r. Some r \<in> set ?rules \<and> rule_fails cel q r)" using sub assms(6) by blast
  have acts: "\<forall>r. Some r \<in> set ?rules \<longrightarrow> Decision_IsValid (r_Action r)" using sub assms(6) by blast
  have tr: "truncate_rules cfg (map (\<lambda>i. Some (served_rule c i)) (filter (in_scope c q) order))
      = (?rules, True)"
    using assms(7,8) by (simp add: truncate_rules_def take_map)
  have set: "{r. Some r \<in> set ?rules} = served_rule c ` set ?ids" by auto
  show ?thesis
    using EvaluateRules_outcome [where cel = cel and q = q and repo = "CacheAdapter_GetActiveRules order c",
      OF adapter_in_order [OF assms(1,2)] assms(4,5) tr acts]
    unfolding if_not_P [OF nf] set by blast
qed

lemma winner_cases:
  shows "d \<in> S \<Longrightarrow> rule_matches cel q d \<Longrightarrow> r_Action d = DecisionDeny \<Longrightarrow> winner cel q dflt S = DecisionDeny"
    and "\<forall>r \<in> S. \<not> (rule_matches cel q r \<and> r_Action r = DecisionDeny) \<Longrightarrow> dflt \<noteq> DecisionDeny \<Longrightarrow>
      winner cel q dflt S \<noteq> DecisionDeny"
proof -
  assume "d \<in> S" "rule_matches cel q d" "r_Action d = DecisionDeny"
  then have "DecisionDeny \<in> r_Action ` {r \<in> S. rule_matches cel q r}" by force
  then show "winner cel q dflt S = DecisionDeny" by (simp add: winner_def winning_def)
qed (auto simp: winner_def winning_def)

lemma in_scope_image:
  assumes "cache_wf c"
  shows "served_rule c ` {i. in_scope c q i} = {r \<in> served c. rule_applies r q}"
    and "inj_on (served_rule c) {i. in_scope c q i}"
  using served_rule_served [OF assms] by (auto simp: in_scope_def elim: inj_on_subset)

lemma subset_with:
  assumes "finite R" "d \<in> R" "0 < n" "n \<le> card R"
  shows "\<exists>S \<subseteq> R. card S = n \<and> d \<in> S"
proof -
  have "n - 1 \<le> card (R - {d})" using assms by simp
  then obtain T where T: "T \<subseteq> R - {d}" "card T = n - 1" "finite T"
    using obtain_subset_with_card_n by (metis assms(1) finite_Diff finite_subset)
  then have "card (insert d T) = n" using assms(3) by (subst card_insert_disjoint) auto
  then show ?thesis using T assms(2) by (intro exI [of _ "insert d T"]) auto
qed

text \<open>Every order evaluates as many of the rules in scope as the maximum, and every choice of so many
  is evaluated with some order.\<close>

lemma in_scope_length:
  assumes "cache_wf c" "enumerates order c"
  shows "length (filter (in_scope c q) order) = card {r \<in> served c. rule_applies r q}"
    "distinct (filter (in_scope c q) order)" "set (filter (in_scope c q) order) = {i. in_scope c q i}"
proof -
  show d: "distinct (filter (in_scope c q) order)" "set (filter (in_scope c q) order) = {i. in_scope c q i}"
    using assms(2) by (auto simp: enumerates_def in_scope_def)
  show "length (filter (in_scope c q) order) = card {r \<in> served c. rule_applies r q}"
    using distinct_card [OF d(1)] card_image [OF in_scope_image(2) [OF assms(1), of q]]
    by (simp add: d(2) in_scope_image(1) [OF assms(1)] del: set_filter)
qed

lemma in_order_subset:
  assumes "rc_ready c" "cache_wf c" "enumerates order c" "live_context ctx"
    "Decision_IsValid (DefaultDecisionWhenNoMatch cfg)"
    "\<forall>r \<in> served c. Decision_IsValid (r_Action r) \<and> \<not> rule_fails cel q r"
    "0 < MaxRulesPerRequest cfg" "MaxRulesPerRequest cfg < int (card {r \<in> served c. rule_applies r q})"
  shows "\<exists>S res. S \<subseteq> {r \<in> served c. rule_applies r q} \<and> int (card S) = MaxRulesPerRequest cfg
    \<and> EvaluateRules cel cfg ctx (CacheAdapter_GetActiveRules order c) (Some q) = Inr res
    \<and> e_Decision res = winner cel q (DefaultDecisionWhenNoMatch cfg) S"
proof -
  let ?ids = "take (nat (MaxRulesPerRequest cfg)) (filter (in_scope c q) order)"
  note l = in_scope_length [OF assms(2,3), of q]
  have sub: "set ?ids \<subseteq> {i. in_scope c q i}" using l(3) set_take_subset by metis
  have "card (served_rule c ` set ?ids) = card (set ?ids)"
    by (rule card_image, rule inj_on_subset [OF in_scope_image(2) [OF assms(2)] sub])
  also have "\<dots> = nat (MaxRulesPerRequest cfg)"
    using l assms(7,8) by (subst distinct_card) auto
  finally have "int (card (served_rule c ` set ?ids)) = MaxRulesPerRequest cfg" using assms(7) by simp
  moreover have "served_rule c ` set ?ids \<subseteq> {r \<in> served c. rule_applies r q}"
    using sub in_scope_image(1) [OF assms(2)] by blast
  moreover have "MaxRulesPerRequest cfg < int (length (filter (in_scope c q) order))"
    using assms(8) l(1) by simp
  ultimately show ?thesis using truncated_evaluation [OF assms(1-7)] by blast
qed

lemma subset_in_order:
  assumes "rc_ready c" "cache_wf c" "enumerates order0 c" "live_context ctx"
    "Decision_IsValid (DefaultDecisionWhenNoMatch cfg)"
    "\<forall>r \<in> served c. Decision_IsValid (r_Action r) \<and> \<not> rule_fails cel q r"
    "0 < MaxRulesPerRequest cfg" "MaxRulesPerRequest cfg < int (card {r \<in> served c. rule_applies r q})"
    "S \<subseteq> {r \<in> served c. rule_applies r q}" "int (card S) = MaxRulesPerRequest cfg"
  shows "\<exists>order res. enumerates order c
    \<and> EvaluateRules cel cfg ctx (CacheAdapter_GetActiveRules order c) (Some q) = Inr res
    \<and> e_Decision res = winner cel q (DefaultDecisionWhenNoMatch cfg) S"
proof -
  have "S \<subseteq> served_rule c ` {i. in_scope c q i}"
    using assms(9) unfolding in_scope_image(1) [OF assms(2)] .
  then obtain I where I: "I \<subseteq> {i. in_scope c q i}" "S = served_rule c ` I"
    unfolding subset_image_iff by blast
  have inj: "inj_on (served_rule c) I" by (rule inj_on_subset [OF in_scope_image(2) [OF assms(2)] I(1)])
  have keys: "{i. in_scope c q i} \<subseteq> set order0" using assms(3) by (auto simp: enumerates_def in_scope_def)
  let ?order = "filter (\<lambda>i. i \<in> I) order0 @ filter (\<lambda>i. i \<notin> I) order0"
  have e: "enumerates ?order c" using assms(3) by (auto simp: enumerates_def)
  have sI: "set (filter (\<lambda>i. i \<in> I) order0) = I" using I(1) keys by auto
  have len: "length (filter (\<lambda>i. i \<in> I) order0) = nat (MaxRulesPerRequest cfg)"
    using card_image [OF inj] I(2) sI assms(3,10) distinct_card [of "filter (\<lambda>i. i \<in> I) order0"]
    by (simp add: enumerates_def)
  have "filter (in_scope c q) (filter (\<lambda>i. i \<in> I) order0) = filter (\<lambda>i. i \<in> I) order0"
    by (rule filter_True) (use I(1) in auto)
  then have "take (nat (MaxRulesPerRequest cfg)) (filter (in_scope c q) ?order) = filter (\<lambda>i. i \<in> I) order0"
    using len by simp
  then have S: "served_rule c ` set (take (nat (MaxRulesPerRequest cfg)) (filter (in_scope c q) ?order)) = S"
    using I(2) sI by simp
  have "MaxRulesPerRequest cfg < int (length (filter (in_scope c q) ?order))"
    using assms(8) in_scope_length(1) [OF assms(2) e, of q] by simp
  from truncated_evaluation [OF assms(1,2) e assms(4-7) this] show ?thesis
    unfolding S using e by blast
qed

lemma decisions_of_orders:
  fixes c :: "'p RuleCache" and q :: "'d ValidationRequest"
  assumes "rc_ready c" "cache_wf c" "enumerates order0 c" "live_context ctx"
    "Decision_IsValid (DefaultDecisionWhenNoMatch cfg)"
    "\<forall>r \<in> served c. Decision_IsValid (r_Action r) \<and> \<not> rule_fails cel q r"
    "0 < MaxRulesPerRequest cfg" "MaxRulesPerRequest cfg < int (card {r \<in> served c. rule_applies r q})"
  shows "{e_Decision res | order res. enumerates order c
        \<and> EvaluateRules cel cfg ctx (CacheAdapter_GetActiveRules order c) (Some q) = Inr res}
      = winner cel q (DefaultDecisionWhenNoMatch cfg)
          ` {S. S \<subseteq> {r \<in> served c. rule_applies r q} \<and> int (card S) = MaxRulesPerRequest cfg}"
    (is "?D = ?w ` ?Ss")
proof -
  let ?R = "{r \<in> served c. rule_applies r q}" and ?n = "MaxRulesPerRequest cfg"
  let ?run = "\<lambda>order. EvaluateRules cel cfg ctx (CacheAdapter_GetActiveRules order c) (Some q)"
  have one: "\<exists>S res. S \<subseteq> ?R \<and> int (card S) = ?n \<and> ?run order = Inr res \<and> e_Decision res = ?w S"
    if "enumerates order c" for order
    using in_order_subset [OF assms(1,2) that assms(4-8)] by blast
  have all: "\<exists>order res. enumerates order c \<and> ?run order = Inr res \<and> e_Decision res = ?w S"
    if "S \<subseteq> ?R" "int (card S) = ?n" for S
    using subset_in_order [OF assms(1-8) that] by blast
  show ?thesis
  proof (intro equalityI subsetI)
    fix x assume "x \<in> ?D"
    then obtain order res where run: "enumerates order c" "?run order = Inr res" "x = e_Decision res" by blast
    obtain S res' where "S \<in> ?Ss" "?run order = Inr res'" "e_Decision res' = ?w S"
      using one [OF run(1)] by blast
    then have "S \<in> ?Ss" "x = ?w S" using run(2,3) by simp_all
    then show "x \<in> ?w ` ?Ss" by (rule rev_image_eqI)
  next
    fix x assume "x \<in> ?w ` ?Ss"
    then obtain S where S: "S \<subseteq> ?R" "int (card S) = ?n" "x = ?w S" by blast
    obtain order res where "enumerates order c" "?run order = Inr res" "e_Decision res = ?w S"
      using all [OF S(1,2)] by blast
    then show "x \<in> ?D" unfolding mem_Collect_eq S(3) by metis
  qed
qed

text \<open>C14. When more rules are in scope than \<^verbatim>\<open>MaxRulesPerRequest\<close>, the decision depends on the order in
  which the runtime iterates the map of the cache, which Go leaves open: the decisions that the orders
  can give are those over all the subsets of the rules in scope that have as many rules as the maximum.
  So as soon as one rule in scope denies and as many others as the maximum do not, some order denies the
  transaction and some other does not (unless the default is to deny). The cache is ready, the context
  live, and no cached rule fails.\<close>

theorem truncated_decision_depends_on_order:
  fixes c :: "'p RuleCache" and q :: "'d ValidationRequest"
  assumes "rc_ready c" "cache_wf c" "enumerates order0 c" "live_context ctx"
    "Decision_IsValid (DefaultDecisionWhenNoMatch cfg)"
    "\<forall>r \<in> served c. Decision_IsValid (r_Action r) \<and> \<not> rule_fails cel q r"
    "0 < MaxRulesPerRequest cfg" "MaxRulesPerRequest cfg < int (card {r \<in> served c. rule_applies r q})"
  shows "{e_Decision res | order res. enumerates order c
        \<and> EvaluateRules cel cfg ctx (CacheAdapter_GetActiveRules order c) (Some q) = Inr res}
      = winner cel q (DefaultDecisionWhenNoMatch cfg)
          ` {S. S \<subseteq> {r \<in> served c. rule_applies r q} \<and> int (card S) = MaxRulesPerRequest cfg}
    \<and> (DefaultDecisionWhenNoMatch cfg \<noteq> DecisionDeny
        \<and> (\<exists>d \<in> served c. rule_matches cel q d \<and> r_Action d = DecisionDeny)
        \<and> MaxRulesPerRequest cfg \<le> int (card {r \<in> served c. rule_applies r q
            \<and> \<not> (rule_matches cel q r \<and> r_Action r = DecisionDeny)})
      \<longrightarrow> (\<exists>o1 o2 r1 r2. enumerates o1 c \<and> enumerates o2 c
            \<and> EvaluateRules cel cfg ctx (CacheAdapter_GetActiveRules o1 c) (Some q) = Inr r1
            \<and> EvaluateRules cel cfg ctx (CacheAdapter_GetActiveRules o2 c) (Some q) = Inr r2
            \<and> e_Decision r1 = DecisionDeny \<and> e_Decision r2 \<noteq> DecisionDeny))"
proof -
  let ?R = "{r \<in> served c. rule_applies r q}" and ?n = "MaxRulesPerRequest cfg"
  let ?w = "winner cel q (DefaultDecisionWhenNoMatch cfg)"
  let ?run = "\<lambda>order. EvaluateRules cel cfg ctx (CacheAdapter_GetActiveRules order c) (Some q)"
  have fin: "finite ?R"
    using assms(2,3) by (simp add: served_rule_served enumerates_def flip: set_eq_iff)
  have all: "\<exists>order res. enumerates order c \<and> ?run order = Inr res \<and> e_Decision res = ?w S"
    if "S \<subseteq> ?R" "int (card S) = ?n" for S
    using subset_in_order [OF assms(1-8) that] by blast
  have "\<exists>o1 o2 r1 r2. enumerates o1 c \<and> enumerates o2 c \<and> ?run o1 = Inr r1 \<and> ?run o2 = Inr r2
      \<and> e_Decision r1 = DecisionDeny \<and> e_Decision r2 \<noteq> DecisionDeny"
    if dflt: "DefaultDecisionWhenNoMatch cfg \<noteq> DecisionDeny"
      and d: "d \<in> served c" "rule_matches cel q d" "r_Action d = DecisionDeny"
      and many: "?n \<le> int (card {r \<in> served c. rule_applies r q
            \<and> \<not> (rule_matches cel q r \<and> r_Action r = DecisionDeny)})" for d
  proof -
    have "d \<in> ?R" using d(1) only_applying(1) [OF d(2)] by simp
    moreover have "0 < nat ?n" "nat ?n \<le> card ?R" using assms(7,8) by linarith+
    ultimately obtain S1 where "S1 \<subseteq> ?R" "card S1 = nat ?n" and dS: "d \<in> S1"
      using subset_with [OF fin] by blast
    then have S1: "S1 \<subseteq> ?R" "int (card S1) = ?n" using assms(7) by simp_all
    obtain S2 where S2: "S2 \<subseteq> {r \<in> served c. rule_applies r q
            \<and> \<not> (rule_matches cel q r \<and> r_Action r = DecisionDeny)}" "card S2 = nat ?n"
      using obtain_subset_with_card_n [OF iffD2 [OF nat_le_iff many]] by blast
    have "?w S1 = DecisionDeny" using winner_cases(1) [OF dS d(2,3)] .
    moreover have "?w S2 \<noteq> DecisionDeny" using S2(1) dflt by (intro winner_cases(2)) auto
    moreover have "S2 \<subseteq> ?R" "int (card S2) = ?n" using S2 assms(7) by auto
    ultimately show ?thesis using all [OF S1(1,2)] all [of S2] by metis
  qed
  with decisions_of_orders [OF assms] show ?thesis by blast
qed

theorem truncated_decision_depends_on_order_witness:
  "\<exists>o1 o2 r1 r2. enumerates o1 (cache0 [allow_1, deny_2]) \<and> enumerates o2 (cache0 [allow_1, deny_2])
     \<and> EvaluateRules cel0 (config0 1) [] (CacheAdapter_GetActiveRules o1 (cache0 [allow_1, deny_2]))
         (Some vrequest0) = Inr r1
     \<and> EvaluateRules cel0 (config0 1) [] (CacheAdapter_GetActiveRules o2 (cache0 [allow_1, deny_2]))
         (Some vrequest0) = Inr r2
     \<and> e_Decision r1 = DecisionDeny \<and> e_Decision r2 \<noteq> DecisionDeny"
proof -
  let ?c = "cache0 [allow_1, deny_2]"
  let ?a = "allow_1\<lparr>r_CompiledProgram := Some ''true''\<rparr>" and ?d = "deny_2\<lparr>r_CompiledProgram := Some ''true''\<rparr>"
  have m: "rule_matches cel0 vrequest0 r" "\<not> rule_fails cel0 vrequest0 r" "Decision_IsValid (r_Action r)"
    "rule_applies r vrequest0" if "r \<in> served ?c" for r
    using that unfolding cache0_served
    by (auto simp: rule_matches_def rule_fails_def rule_applies_def rule_program_def
        cel0_def allow_1_def deny_2_def rule0_def)
  have R: "{r \<in> served ?c. rule_applies r vrequest0} = {?a, ?d}" using m(4) cache0_served by auto
  have ne: "?a \<noteq> ?d" "r_Action ?a = DecisionAllow" "r_Action ?d = DecisionDeny"
    by (simp_all add: allow_1_def deny_2_def rule0_def)
  have wf: "cache_wf ?c" by (simp add: cache0_def SetRules_wf)
  have c: "live_context []" "Decision_IsValid (DefaultDecisionWhenNoMatch (config0 1))"
    "\<forall>r \<in> served ?c. Decision_IsValid (r_Action r) \<and> \<not> rule_fails cel0 vrequest0 r"
    "0 < MaxRulesPerRequest (config0 1)"
    "MaxRulesPerRequest (config0 1) < int (card {r \<in> served ?c. rule_applies r vrequest0})"
    using m ne(1) by (simp_all add: live_context_def config0_def R)
  have "{r \<in> served ?c. rule_applies r vrequest0
      \<and> \<not> (rule_matches cel0 vrequest0 r \<and> r_Action r = DecisionDeny)} = {?a}"
    using m ne R by auto
  then have "MaxRulesPerRequest (config0 1) \<le> int (card {r \<in> served ?c. rule_applies r vrequest0
      \<and> \<not> (rule_matches cel0 vrequest0 r \<and> r_Action r = DecisionDeny)})"
    by (simp add: config0_def)
  moreover have "\<exists>d \<in> served ?c. rule_matches cel0 vrequest0 d \<and> r_Action d = DecisionDeny"
    using m(1) ne(3) unfolding cache0_served by blast
  moreover have "DefaultDecisionWhenNoMatch (config0 1) \<noteq> DecisionDeny" by (simp add: config0_def)
  ultimately show ?thesis
    using truncated_decision_depends_on_order [OF cache0_rules(2) wf cache0_enumerates(1) c] by blast
qed

subsection \<open>The cache and the table\<close>

text \<open>C15. From every reachable state of the system of worker, cache and table (warm-up, writes to the
  table inside the overlap window, write-throughs of the commands even when late, failed cycles), a
  cycle whose query succeeds makes the cache hold exactly the active rules of the table, with their
  current contents.\<close>

theorem sync_converges:
  assumes "sync_reachable cfg compile (w, rows)" "enumerates order (w_cache w)"
    "breaker (delta_query rows (w_lastSync w - OverlapBuffer cfg))
      = delta_query rows (w_lastSync w - OverlapBuffer cfg)"
    "runSyncCycle cfg compile breaker (delta_query rows) order t1 t2 w = (w', out)"
  shows "map_option core (cache_rule (w_cache w') i) = map_option core (active_map rows i)"
  using assms by (rule successful_cycle)

definition sync0 :: RuleSyncWorkerConfig where
  "sync0 = \<lparr>PollInterval = 1, StalenessThreshold = 5, OverlapBuffer = 2\<rparr>"

definition off_2 :: "gotime \<Rightarrow> string Rule" where
  "off_2 t = rule0 2 ''true'' DecisionDeny RuleStatusInactive t"

lemma warm0:
  "WarmUp 0 5 6 (cel_Compile cel0) [] (Inr (map Some (sort_by newest_first (active_rows [deny_2]))))
     NewRuleCache = (cache0 [deny_2], (1, 6), None)"
  by (simp add: WarmUp_def active_rows_def deny_2_def rule0_def sort_by_def ctx_Err_def cel0_def
      cache0_def time_Sub_def MaxInt64_def)

lemma start0: "sync_reachable sync0 (cel_Compile cel0) (runLoop_init (cache0 [deny_2]), [deny_2])"
  by (rule sync_reachable.start [OF _ _ warm0]) (simp_all add: deny_2_def rule0_def)

lemma init0: "w_lastSync (runLoop_init (cache0 rs)) = 5" "w_cache (runLoop_init c) = c"
  by (simp_all add: runLoop_init_def cache0_def MarkReady_def SetRules_def)

lemma enumerates0: "enumerates [2] (cache0 [deny_2])"
  by (simp add: enumerates_def cache0_def MarkReady_def SetRules_def store_rule_def deny_2_def
      rule0_def NewRuleCache_def)

theorem sync_converges_witness:
  "cache_rule (w_cache (fst (runSyncCycle sync0 (cel_Compile cel0) id (delta_query [off_2 9]) [2] 10 10
     (runLoop_init (cache0 [deny_2]))))) 2 = None"
proof -
  have "evolves 3 [deny_2] [off_2 9]"
    by (simp add: evolves_def deny_2_def off_2_def rule0_def)
  then have "sync_step sync0 (cel_Compile cel0) (runLoop_init (cache0 [deny_2]), [deny_2])
      (runLoop_init (cache0 [deny_2]), [off_2 9])"
    by (intro sync_step.table_write) (simp add: init0 sync0_def)
  then have r: "sync_reachable sync0 (cel_Compile cel0) (runLoop_init (cache0 [deny_2]), [off_2 9])"
    by (rule sync_reachable.step [OF start0])
  obtain w' out where run: "runSyncCycle sync0 (cel_Compile cel0) id (delta_query [off_2 9]) [2] 10 10
      (runLoop_init (cache0 [deny_2])) = (w', out)" by fastforce
  have "map_option core (cache_rule (w_cache w') 2) = map_option core (active_map [off_2 9] 2)"
    by (rule sync_converges [OF r _ _ run]) (simp_all add: init0 enumerates0)
  moreover have "active_map [off_2 9] 2 = None" by (simp add: active_map_def off_2_def rule0_def)
  ultimately show ?thesis by (simp add: run)
qed

text \<open>A sequence of cycles, each with the table it finds, what its circuit breaker does (hands the
  outcome of the query through, or fails), the order of its iteration and the times its clocks read.\<close>

type_synonym 'p sync_cycle = "'p Rule list
  \<times> ((err, 'p Rule option list) result \<Rightarrow> (err, 'p Rule option list) result) \<times> uuid list \<times> gotime \<times> gotime"

definition breaker_ok :: "((err, 'p) result \<Rightarrow> (err, 'p) result) \<Rightarrow> bool" where
  "breaker_ok breaker = (\<forall>x. breaker x = x \<or> (\<exists>e. breaker x = Inl e))"

fun sync_cycles ::
  "RuleSyncWorkerConfig \<Rightarrow> (string \<Rightarrow> (err, 'p) result) \<Rightarrow> 'p sync_cycle list
   \<Rightarrow> 'p RuleSyncWorker \<Rightarrow> 'p RuleSyncWorker" where
  "sync_cycles cfg compile [] w = w"
| "sync_cycles cfg compile ((rows, breaker, order, t1, t2) # cs) w = sync_cycles cfg compile cs
     (fst (runSyncCycle cfg compile breaker (delta_query rows) order t1 t2 w))"

text \<open>A cycle changes only entries of rules that it fetches, and does not take the synchronization
  time back before its clock.\<close>

lemma applied_changes_other:
  assumes "i \<notin> r_ID ` set fetched"
  shows "cache_rule (ApplyChanges
      (map (compile_upsert compile) (cs_New (ClassifyChanges cached (map Some fetched))
        @ cs_Updated (ClassifyChanges cached (map Some fetched))))
      (cs_Deleted (ClassifyChanges cached (map Some fetched))) now c) i = cache_rule c i"
proof -
  have "fold store_rule (map (compile_upsert compile)
      (filter (is_new cached) fetched @ filter (is_updated cached) fetched)) (rc_rules c) i = rc_rules c i"
    using assms by (intro fold_store_other) (auto simp: compile_upsert_def)
  then show ?thesis
    using assms
    by (auto simp: cache_rule_def ApplyChanges_def ClassifyChanges_value fold_remove image_iff)
qed

lemma max_updated_ge: "t \<le> max_updated t rs"
proof (induction t rs rule: max_updated.induct)
  case (3 t r rs)
  then show ?case by (auto split: if_splits)
qed simp_all

lemma updateLastSync_ge: "b \<le> now \<Longrightarrow> b \<le> lastSync \<Longrightarrow> b \<le> updateLastSync now fetched lastSync"
  using max_updated_ge [of lastSync fetched] by (auto simp: updateLastSync_def Let_def)

lemma cycle_other_rules:
  assumes "breaker_ok breaker" "\<forall>r \<in> set rows. r_ID r = i \<longrightarrow> r_UpdatedAt r < b - OverlapBuffer cfg"
    "b \<le> w_lastSync w" "b \<le> t2"
  shows "cache_rule (w_cache (fst (runSyncCycle cfg compile breaker (delta_query rows) order t1 t2 w))) i
      = cache_rule (w_cache w) i
    \<and> b \<le> w_lastSync (fst (runSyncCycle cfg compile breaker (delta_query rows) order t1 t2 w))"
proof -
  let ?since = "w_lastSync w - OverlapBuffer cfg"
  let ?f = "delta_rows ?since rows"
  consider e where "breaker (delta_query rows ?since) = Inl e"
    | "breaker (delta_query rows ?since) = Inr (map Some ?f)"
    using assms(1) unfolding breaker_ok_def delta_query_def by metis
  then show ?thesis
  proof cases
    case 1
    then show ?thesis using assms(3) by (simp add: runSyncCycle_failed)
  next
    case 2
    have "i \<notin> r_ID ` set ?f" using assms(2,3) by auto
    note other = applied_changes_other [OF this]
    have "cache_rule (ApplyChanges [] [] t1 (w_cache w)) i = cache_rule (w_cache w) i"
      by (simp add: ApplyChanges_def cache_rule_def)
    then show ?thesis
      using 2 other assms(3,4) updateLastSync_ge [of b t2 "w_lastSync w" "map Some ?f"]
      by (auto simp: runSyncCycle_def queryDelta_def Let_def)
  qed
qed

lemma cycles_other_rules:
  assumes "\<forall>(rows, breaker, order, t1, t2) \<in> set cs. breaker_ok breaker \<and> b \<le> t2
      \<and> (\<forall>r \<in> set rows. r_ID r = i \<longrightarrow> r_UpdatedAt r < b - OverlapBuffer cfg)"
    "b \<le> w_lastSync w"
  shows "cache_rule (w_cache (sync_cycles cfg compile cs w)) i = cache_rule (w_cache w) i"
  using assms
proof (induction cs arbitrary: w)
  case (Cons k cs)
  obtain rows breaker order t1 t2 where k: "k = (rows, breaker, order, t1, t2)" by (cases k)
  let ?w = "fst (runSyncCycle cfg compile breaker (delta_query rows) order t1 t2 w)"
  have "cache_rule (w_cache ?w) i = cache_rule (w_cache w) i \<and> b \<le> w_lastSync ?w"
    using Cons.prems by (intro cycle_other_rules) (auto simp: k)
  with Cons.IH [of ?w] Cons.prems(1) show ?case by (simp add: k)
qed simp

text \<open>C16. The window can lose a write: \<^verbatim>\<open>SetRules\<close> stamps the cache at the end of the warm-up, after
  all rules are compiled, and the worker starts from that time less the overlap buffer. A rule that the
  warm-up loaded and whose row was changed (deactivated, say) after it was loaded but more than the
  buffer before that stamp is served in its old version through every later cycle, whatever happens to
  the other rules and however many cycles fail, until its row changes again.\<close>

theorem late_write_never_seen:
  assumes "WarmUp start set_time finish compile ctx (Inr (map Some loaded)) c0 = (c, n, None)"
    "distinct (map r_ID loaded)" "r \<in> set loaded"
    "\<forall>(rows, breaker, order, t1, t2) \<in> set cs. breaker_ok breaker \<and> set_time \<le> t2
      \<and> (\<forall>r' \<in> set rows. r_ID r' = r_ID r \<longrightarrow> r_UpdatedAt r' < set_time - OverlapBuffer cfg)"
  shows "cache_rule (w_cache (sync_cycles cfg compile cs (runLoop_init c))) (r_ID r) = Some r"
proof -
  note ok = WarmUp_ok [OF assms(1,2)]
  have "cache_rule c (r_ID r) = Some r"
    using ok(4) [of "r_ID r"] find_by_id [OF assms(2,3)] by simp
  moreover have "set_time \<le> w_lastSync (runLoop_init c)" "w_cache (runLoop_init c) = c"
    using ok(3) by (simp_all add: runLoop_init_def)
  ultimately show ?thesis using cycles_other_rules [OF assms(4)] by simp
qed

text \<open>The warm-up loads an active rule at 0 and ends at 5; the rule is deactivated at 2. It is served
  through a cycle that fails and one that brings another rule.\<close>

theorem late_write_never_seen_witness:
  "\<exists>n. WarmUp 0 5 6 (cel_Compile cel0) [] (Inr (map Some [deny_2])) NewRuleCache = (cache0 [deny_2], n, None)
   \<and> cache_rule (w_cache (sync_cycles sync0 (cel_Compile cel0)
       [([off_2 2], \<lambda>_. Inl (External ''down''), [2], 7, 7),
        ([off_2 2, rule0 1 ''true'' DecisionAllow RuleStatusActive 20], id, [2], 20, 20),
        ([off_2 2], id, [1, 2], 90, 90)] (runLoop_init (cache0 [deny_2])))) 2 = Some deny_2"
proof -
  let ?cs = "[([off_2 2], \<lambda>_. Inl (External ''down''), [2], 7, 7),
        ([off_2 2, rule0 1 ''true'' DecisionAllow RuleStatusActive 20], id, [2], 20, 20),
        ([off_2 2], id, [1, 2], 90, 90)] :: string sync_cycle list"
  have w: "WarmUp 0 5 6 (cel_Compile cel0) [] (Inr (map Some [deny_2])) NewRuleCache
      = (cache0 [deny_2], (1, 6), None)"
    by (simp add: WarmUp_def deny_2_def rule0_def ctx_Err_def cel0_def cache0_def time_Sub_def MaxInt64_def)
  have b: "breaker_ok (\<lambda>_. Inl (External ''down'') :: (err, string Rule option list) result)"
    "breaker_ok (id :: (err, string Rule option list) result \<Rightarrow> _)"
    by (simp_all add: breaker_ok_def)
  have i: "r_ID deny_2 = 2" "r_ID (off_2 2) = 2" "r_UpdatedAt (off_2 2) = 2"
    "r_ID (rule0 1 ''true'' DecisionAllow RuleStatusActive 20) = 1" "OverlapBuffer sync0 = 2"
    by (simp_all add: deny_2_def off_2_def rule0_def sync0_def)
  have "cache_rule (w_cache (sync_cycles sync0 (cel_Compile cel0) ?cs (runLoop_init (cache0 [deny_2]))))
      (r_ID deny_2) = Some deny_2"
    by (rule late_write_never_seen [OF w]) (simp_all add: i b)
  then show ?thesis using w i(1) by auto
qed




definition rdb0 :: "(int, string) rule_db" where
  "rdb0 = \<lparr>db_counters = [], db_faults = [None, Some (External ''down'')], db_limits = [], db_rules = []\<rparr>"


text \<open>The scope filter that the database evaluates is at least as wide as the scope check of the
  evaluation: a rule in the scope of a transaction is always among the rows of the filtered query.\<close>

theorem database_filter_keeps_matches:
  assumes "no_faults db" "r \<in> set (db_rules db)" "r_Status r = RuleStatusActive" "r_DeletedAt r = None"
    "RuleScopesMatch (r_Scopes r) (Some tx)"
  shows "r \<in> set (table_fetch db tx)"
  using assms by (intro table_source.complete) (auto simp: active_rows_def)

theorem database_filter_keeps_matches_witness:
  "deny_2 \<in> set (table_fetch (rdb0\<lparr>db_faults := [], db_rules := [allow_1, deny_2]\<rparr>)
     (ToTransactionScope vrequest0))"
  by (rule database_filter_keeps_matches)
    (simp_all add: no_faults_def deny_2_def rule0_def RuleScopesMatch_def)

text \<open>A request that passes validation is a valid input of the limit check, and the limit check
  sees the scope that the rules see, but for the merchant.\<close>

theorem validated_request_checks_limits:
  assumes "NormalizeAndValidate X W r now = Inr r'"
  shows "CheckLimitsInput_Validate X (Some (ToCheckLimitsInput r')) = None
    \<and> buildTransactionScope (Some (ToCheckLimitsInput r')) = Some ((ToTransactionScope r')\<lparr>MerchantID := None\<rparr>)"
  using assms ToCheckLimitsInput_valid limit_scope_of_request by (auto simp: NormalizeAndValidate_Inr)

theorem validated_request_checks_limits_witness:
  "CheckLimitsInput_Validate ext0 (Some (ToCheckLimitsInput vrequest0)) = None"
proof -
  have "NormalizeAndValidate ext0 default_window vrequest0 10 = Inr vrequest0"
    by (simp add: NormalizeAndValidate_def ValidationRequest_Validate_def validateRequiredFields_def
        validateOptionalFields_def validateMerchant_def validateMetadata_def vrequest0_def
        IsValidCurrency_def ext0_def time_IsZero_def default_window_def Minute_ns_def Hour_ns_def)
  from validated_request_checks_limits [OF this] show ?thesis by simp
qed

end
