(* ===== verification/AuditEvents.thy ===== *)
theory AuditEvents
  imports RuleStore
begin

text \<open>
  Audit events: the entity (\<^verbatim>\<open>pkg/model/audit_event.go\<close>), the command that records it
  (\<^verbatim>\<open>internal/services/command/record_audit_event.go\<close>), the append-only table with its hash
  chain (\<^verbatim>\<open>internal/adapters/postgres/audit_event_repository.go\<close> and the database functions
  \<^verbatim>\<open>migrations/functions\<close>). A value of type \<^verbatim>\<open>any\<close> inside a context is \<open>any\<close>, by its
  dynamic type; a Go map of such values is an association list. \<^verbatim>\<open>uuid.New\<close> and
  \<^verbatim>\<open>time.Now\<close> are arguments; \<^verbatim>\<open>sha256\<close>, the text of a timestamp and the parsing of
  network addresses are the record \<open>audit_ext\<close>.
\<close>

subsection \<open>Enumerations\<close>

datatype ActorType = ActorTypeUser | ActorTypeSystem | ActorTypeOther string

fun ActorType_IsValid :: "ActorType \<Rightarrow> bool" where
  "ActorType_IsValid (ActorTypeOther s) = False"
| "ActorType_IsValid a = True"

datatype AuditEventType =
    AuditEventTransactionValidated
  | AuditEventRuleCreated | AuditEventRuleUpdated | AuditEventRuleActivated
  | AuditEventRuleDeactivated | AuditEventRuleDrafted | AuditEventRuleDeleted
  | AuditEventLimitCreated | AuditEventLimitUpdated | AuditEventLimitDeleted
  | AuditEventLimitActivated | AuditEventLimitDeactivated | AuditEventLimitDrafted
  | AuditEventOther string

fun AuditEventType_IsValid :: "AuditEventType \<Rightarrow> bool" where
  "AuditEventType_IsValid (AuditEventOther s) = False"
| "AuditEventType_IsValid t = True"

fun AuditEventType_text :: "AuditEventType \<Rightarrow> string" where
  "AuditEventType_text AuditEventTransactionValidated = ''TRANSACTION_VALIDATED''"
| "AuditEventType_text AuditEventRuleCreated = ''RULE_CREATED''"
| "AuditEventType_text AuditEventRuleUpdated = ''RULE_UPDATED''"
| "AuditEventType_text AuditEventRuleActivated = ''RULE_ACTIVATED''"
| "AuditEventType_text AuditEventRuleDeactivated = ''RULE_DEACTIVATED''"
| "AuditEventType_text AuditEventRuleDrafted = ''RULE_DRAFTED''"
| "AuditEventType_text AuditEventRuleDeleted = ''RULE_DELETED''"
| "AuditEventType_text AuditEventLimitCreated = ''LIMIT_CREATED''"
| "AuditEventType_text AuditEventLimitUpdated = ''LIMIT_UPDATED''"
| "AuditEventType_text AuditEventLimitDeleted = ''LIMIT_DELETED''"
| "AuditEventType_text AuditEventLimitActivated = ''LIMIT_ACTIVATED''"
| "AuditEventType_text AuditEventLimitDeactivated = ''LIMIT_DEACTIVATED''"
| "AuditEventType_text AuditEventLimitDrafted = ''LIMIT_DRAFTED''"
| "AuditEventType_text (AuditEventOther s) = s"

datatype AuditAction =
    AuditActionValidate | AuditActionCreate | AuditActionUpdate | AuditActionDelete
  | AuditActionActivate | AuditActionDeactivate | AuditActionDraft | AuditActionOther string

fun AuditAction_IsValid :: "AuditAction \<Rightarrow> bool" where
  "AuditAction_IsValid (AuditActionOther s) = False"
| "AuditAction_IsValid a = True"

datatype AuditResult =
    AuditResultSuccess | AuditResultFailed | AuditResultAllow | AuditResultDeny | AuditResultReview
  | AuditResultOther string

fun AuditResult_IsValid :: "AuditResult \<Rightarrow> bool" where
  "AuditResult_IsValid (AuditResultOther s) = False"
| "AuditResult_IsValid r = True"

datatype ResourceType = ResourceTypeTransaction | ResourceTypeRule | ResourceTypeLimit
  | ResourceTypeOther string

fun ResourceType_IsValid :: "ResourceType \<Rightarrow> bool" where
  "ResourceType_IsValid (ResourceTypeOther s) = False"
| "ResourceType_IsValid r = True"

fun DecisionToAuditResult :: "Decision \<Rightarrow> AuditResult" where
  "DecisionToAuditResult DecisionAllow = AuditResultAllow"
| "DecisionToAuditResult DecisionDeny = AuditResultDeny"
| "DecisionToAuditResult DecisionReview = AuditResultReview"
| "DecisionToAuditResult (DecisionOther s) = AuditResultFailed"

subsection \<open>The entity\<close>

datatype 'd any =
    AnyNil
  | AnyBool bool
  | AnyString string
  | AnyInt int
  | AnyFloat int
  | AnyAmount 'd
  | AnyTime gotime
  | AnyMetadata "metadata option"
  | AnyUUID uuid
  | AnyUUIDs "uuid list"
  | AnyStrings "string list"
  | AnyScopes "Scope list"
  | AnyDetails "'d LimitUsageDetail list"
  | AnyList "'d any list"
  | AnyMap "(string \<times> 'd any) list"

type_synonym 'd any_map = "(string \<times> 'd any) list"

record Actor =
  actor_Type :: ActorType
  actor_ID :: string
  actor_Name :: string
  actor_Role :: string
  actor_IPAddress :: string

record 'd ValidationResponseContext =
  vrc_ProcessingTimeMs :: int
  vrc_LimitUsageDetails :: "'d LimitUsageDetail list"

record 'd AuditEvent =
  ae_ID :: int
  ae_Hash :: string
  ae_PreviousHash :: "string option"
  ae_EventID :: uuid
  ae_EventType :: AuditEventType
  ae_CreatedAt :: gotime
  ae_Action :: AuditAction
  ae_Result :: AuditResult
  ae_ResourceID :: string
  ae_ResourceType :: ResourceType
  ae_Actor :: Actor
  ae_Context :: "'d any_map"
  ae_Metadata :: "'d any_map"

definition NewAuditEvent ::
  "uuid \<Rightarrow> gotime \<Rightarrow> AuditEventType \<Rightarrow> AuditAction \<Rightarrow> AuditResult \<Rightarrow> string \<Rightarrow> ResourceType \<Rightarrow> Actor
   \<Rightarrow> (err, 'd AuditEvent) result" where
  "NewAuditEvent newID now eventType action res resourceID resourceType actor =
     (let normalizedResourceID = TrimSpace resourceID;
          normalizedActorID = TrimSpace (actor_ID actor) in
      if \<not> AuditEventType_IsValid eventType then Inl ErrAuditEventInvalidType
      else if \<not> AuditAction_IsValid action then Inl ErrAuditEventInvalidAction
      else if \<not> AuditResult_IsValid res then Inl ErrAuditEventInvalidResult
      else if normalizedResourceID = [] then Inl ErrAuditEventResourceIDRequired
      else if \<not> ResourceType_IsValid resourceType then Inl ErrAuditEventInvalidResourceType
      else if \<not> ActorType_IsValid (actor_Type actor) then Inl ErrAuditEventActorTypeInvalid
      else if normalizedActorID = [] then Inl ErrAuditEventActorIDRequired
      else Inr \<lparr>ae_ID = 0, ae_Hash = [], ae_PreviousHash = None, ae_EventID = newID,
        ae_EventType = eventType, ae_CreatedAt = now, ae_Action = action, ae_Result = res,
        ae_ResourceID = normalizedResourceID, ae_ResourceType = resourceType,
        ae_Actor = actor\<lparr>actor_ID := normalizedActorID\<rparr>, ae_Context = [], ae_Metadata = []\<rparr>)"

definition WithContext :: "'d AuditEvent \<Rightarrow> 'd any_map \<Rightarrow> 'd AuditEvent" where
  "WithContext e ctx = e\<lparr>ae_Context := ctx\<rparr>"

definition WithMetadata :: "'d AuditEvent \<Rightarrow> 'd any_map \<Rightarrow> 'd AuditEvent" where
  "WithMetadata e md = e\<lparr>ae_Metadata := md\<rparr>"

definition WithValidationContext ::
  "'d AuditEvent \<Rightarrow> 'd any_map \<Rightarrow> EvaluationResult \<Rightarrow> 'd ValidationResponseContext \<Rightarrow> 'd AuditEvent" where
  "WithValidationContext e request evalResult response = e\<lparr>ae_Context :=
     [(''request'', AnyMap request),
      (''response'', AnyMap
        [(''decision'', AnyString (Decision_String (e_Decision evalResult))),
         (''reason'', AnyString (e_Reason evalResult)),
         (''matchedRuleIds'', AnyUUIDs (e_MatchedRuleIDs evalResult)),
         (''evaluatedRuleIds'', AnyUUIDs (e_EvaluatedRuleIDs evalResult)),
         (''totalRulesLoaded'', AnyInt (e_TotalRulesLoaded evalResult)),
         (''truncated'', AnyBool (e_Truncated evalResult)),
         (''processingTimeMs'', AnyInt (vrc_ProcessingTimeMs response)),
         (''limitUsageDetails'', AnyDetails (vrc_LimitUsageDetails response))])]\<rparr>"

text \<open>A nil map is \<^term>\<open>None\<close>.\<close>

definition WithCRUDContext ::
  "'d AuditEvent \<Rightarrow> 'd any_map option \<Rightarrow> 'd any_map option \<Rightarrow> string \<Rightarrow> 'd AuditEvent" where
  "WithCRUDContext e before after reason = e\<lparr>ae_Context :=
     (case before of None \<Rightarrow> [] | Some m \<Rightarrow> [(''before'', AnyMap m)])
     @ (case after of None \<Rightarrow> [] | Some m \<Rightarrow> [(''after'', AnyMap m)])
     @ (if reason \<noteq> [] then [(''reason'', AnyString reason)] else [])\<rparr>"

definition map_entry :: "string \<Rightarrow> 'd any_map \<Rightarrow> 'd any_map option" where
  "map_entry key m = (case map_of m key of Some (AnyMap x) \<Rightarrow> Some x | _ \<Rightarrow> None)"

definition GetValidationRequest :: "'d AuditEvent \<Rightarrow> 'd any_map option" where
  "GetValidationRequest e = map_entry ''request'' (ae_Context e)"

definition GetValidationResponse :: "'d AuditEvent \<Rightarrow> 'd any_map option" where
  "GetValidationResponse e = map_entry ''response'' (ae_Context e)"

definition string_entry :: "string \<Rightarrow> 'd any_map \<Rightarrow> string option" where
  "string_entry key m = (case map_of m key of Some (AnyString s) \<Rightarrow> Some s | _ \<Rightarrow> None)"

definition GetReason :: "'d AuditEvent \<Rightarrow> string" where
  "GetReason e =
     (case Option.bind (GetValidationResponse e) (string_entry ''reason'') of
        Some s \<Rightarrow> s
      | None \<Rightarrow> (case string_entry ''reason'' (ae_Context e) of Some s \<Rightarrow> s | None \<Rightarrow> []))"

text \<open>A \<^verbatim>\<open>float64\<close> is kept by its integer part, all that is read of it.\<close>

definition GetProcessingTimeMs :: "'d AuditEvent \<Rightarrow> int" where
  "GetProcessingTimeMs e =
     (case GetValidationResponse e of
        None \<Rightarrow> 0
      | Some resp \<Rightarrow>
          (case map_of resp ''processingTimeMs'' of
             Some (AnyFloat n) \<Rightarrow> n
           | Some (AnyInt n) \<Rightarrow> n
           | _ \<Rightarrow> 0))"

definition parsed :: "(string \<Rightarrow> (err, uuid) result) \<Rightarrow> string list \<Rightarrow> uuid list" where
  "parsed uuid_Parse ss =
     List.map_filter (\<lambda>s. case uuid_Parse s of Inl e \<Rightarrow> None | Inr i \<Rightarrow> Some i) ss"

definition rule_ids_entry :: "(string \<Rightarrow> (err, uuid) result) \<Rightarrow> string \<Rightarrow> 'd AuditEvent \<Rightarrow> uuid list option" where
  "rule_ids_entry uuid_Parse key e =
     (case GetValidationResponse e of
        None \<Rightarrow> None
      | Some resp \<Rightarrow>
          (case map_of resp key of
             Some (AnyUUIDs us) \<Rightarrow> Some us
           | Some (AnyStrings ss) \<Rightarrow> Some (parsed uuid_Parse ss)
           | Some (AnyList xs) \<Rightarrow>
               Some (parsed uuid_Parse
                 (List.map_filter (\<lambda>x. case x of AnyString s \<Rightarrow> Some s | _ \<Rightarrow> None) xs))
           | _ \<Rightarrow> None))"

definition GetMatchedRuleIDs :: "(string \<Rightarrow> (err, uuid) result) \<Rightarrow> 'd AuditEvent \<Rightarrow> uuid list option" where
  "GetMatchedRuleIDs uuid_Parse e = rule_ids_entry uuid_Parse ''matchedRuleIds'' e"

definition GetEvaluatedRuleIDs :: "(string \<Rightarrow> (err, uuid) result) \<Rightarrow> 'd AuditEvent \<Rightarrow> uuid list option" where
  "GetEvaluatedRuleIDs uuid_Parse e = rule_ids_entry uuid_Parse ''evaluatedRuleIds'' e"

end
