(* ===== verification/AuditStore.thy ===== *)
theory AuditStore
  imports AuditEvents
begin

text \<open>
  The table of audit events and its hash chain (\<^verbatim>\<open>audit_event_repository.go\<close>, the trigger
  \<^verbatim>\<open>calculate_audit_event_hash\<close> and the function \<^verbatim>\<open>verify_audit_hash_chain\<close> of
  \<^verbatim>\<open>migrations/functions\<close>). An insert first draws the row's number from the sequence and then,
  in the trigger, under a lock that lasts until commit, reads the hash of the row with the largest
  number: two steps, between which another transaction can run. Numbers that are drawn stay drawn.
\<close>

record audit_ext =
  a_sha256 :: "string \<Rightarrow> string"
  a_time_text :: "gotime \<Rightarrow> string"
  a_host_of :: "string \<Rightarrow> string option"
  a_is_ip :: "string \<Rightarrow> bool"

record ('d, 'p) audit_db = "('d, 'p) rule_db" +
  db_audits :: "'d AuditEvent list"
  db_audit_seq :: int

subsection \<open>The trigger\<close>

definition latest_event :: "'d AuditEvent list \<Rightarrow> 'd AuditEvent option" where
  "latest_event rows = (case rev (sort_key ae_ID rows) of [] \<Rightarrow> None | r # _ \<Rightarrow> Some r)"

definition chain_input :: "ext \<Rightarrow> audit_ext \<Rightarrow> string option \<Rightarrow> 'd AuditEvent \<Rightarrow> string" where
  "chain_input X A prev e =
     (case prev of None \<Rightarrow> ''GENESIS'' | Some h \<Rightarrow> h) @ ''|'' @ x_uuid_string X (ae_EventID e) @ ''|''
     @ AuditEventType_text (ae_EventType e) @ ''|'' @ a_time_text A (ae_CreatedAt e) @ ''|''
     @ ae_ResourceID e"

definition calculate_audit_event_hash ::
  "ext \<Rightarrow> audit_ext \<Rightarrow> 'd AuditEvent list \<Rightarrow> 'd AuditEvent \<Rightarrow> 'd AuditEvent" where
  "calculate_audit_event_hash X A rows e =
     (let prev = map_option ae_Hash (latest_event rows)
      in e\<lparr>ae_PreviousHash := prev, ae_Hash := a_sha256 A (chain_input X A prev e)\<rparr>)"

definition audit_duplicate :: "'d AuditEvent list \<Rightarrow> 'd AuditEvent \<Rightarrow> bool" where
  "audit_duplicate rows e =
     (ae_ResourceType e = ResourceTypeTransaction
      \<and> list_ex (\<lambda>r. ae_ResourceID r = ae_ResourceID e \<and> ae_EventType r = ae_EventType e
                      \<and> ae_ResourceType r = ResourceTypeTransaction) rows)"

definition draw_audit_id :: "('d, 'p, 'x) audit_db_scheme \<Rightarrow> int \<times> ('d, 'p, 'x) audit_db_scheme" where
  "draw_audit_id db = (db_audit_seq db + 1, db\<lparr>db_audit_seq := db_audit_seq db + 1\<rparr>)"

definition insert_with_id ::
  "ext \<Rightarrow> audit_ext \<Rightarrow> int \<Rightarrow> 'd AuditEvent \<Rightarrow> ('d, 'p, 'x) audit_db_scheme
   \<Rightarrow> ('d, 'p, 'x) audit_db_scheme" where
  "insert_with_id X A i e db =
     db\<lparr>db_audits := db_audits db @ [calculate_audit_event_hash X A (db_audits db) (e\<lparr>ae_ID := i\<rparr>)]\<rparr>"

subsection \<open>The repository\<close>

definition AuditRepo_insertInternal ::
  "ext \<Rightarrow> audit_ext \<Rightarrow> 'd AuditEvent \<Rightarrow> ('d, 'p, 'x) audit_db_scheme
   \<Rightarrow> ('d, 'p, 'x) audit_db_scheme \<times> err option" where
  "AuditRepo_insertInternal X A e db =
     (case next_fault db of
        Some f \<Rightarrow> (consume_fault db, Some (Wrap ''failed to insert audit event'' f))
      | None \<Rightarrow>
          let db1 = consume_fault db in
          if audit_duplicate (db_audits db1) e then (db1, None)
          else let (i, db2) = draw_audit_id db1 in
            if list_ex (\<lambda>r. ae_EventID r = ae_EventID e) (db_audits db2)
            then (db2, Some (Wrap ''failed to insert audit event'' (External ''audit_events_event_id_key'')))
            else (insert_with_id X A i e db2, None))"

definition AuditRepo_Insert ::
  "ext \<Rightarrow> audit_ext \<Rightarrow> 'd AuditEvent \<Rightarrow> ('d, 'p, 'x) audit_db_scheme
   \<Rightarrow> ('d, 'p, 'x) audit_db_scheme \<times> err option" where
  "AuditRepo_Insert X A e db =
     (case next_fault db of
        Some f \<Rightarrow> (consume_fault db, Some (Wrap ''failed to get database connection'' f))
      | None \<Rightarrow> AuditRepo_insertInternal X A e (consume_fault db))"

definition AuditRepo_GetByID ::
  "uuid \<Rightarrow> ('d, 'p, 'x) audit_db_scheme
   \<Rightarrow> ('d, 'p, 'x) audit_db_scheme \<times> (err, 'd AuditEvent) result" where
  "AuditRepo_GetByID eventID = with_db ''failed to get audit event'' (\<lambda>db.
     (db, case find (\<lambda>e. ae_EventID e = eventID) (db_audits db) of
            None \<Rightarrow> Inl ErrAuditEventNotFound
          | Some e \<Rightarrow> Inr e))"

text \<open>The function \<^verbatim>\<open>verify_audit_hash_chain(start, end)\<close>: the verdict, the number of the first
  bad row, how many rows were read.\<close>

fun verify_loop ::
  "ext \<Rightarrow> audit_ext \<Rightarrow> string option \<Rightarrow> int \<Rightarrow> 'd AuditEvent list \<Rightarrow> bool \<times> int option \<times> int" where
  "verify_loop X A prev checked [] = (True, None, checked)"
| "verify_loop X A prev checked (e # es) =
     (if ae_Hash e \<noteq> a_sha256 A (chain_input X A prev e) then (False, Some (ae_ID e), checked + 1)
      else if (case ae_PreviousHash e of None \<Rightarrow> ''GENESIS'' | Some h \<Rightarrow> h)
              \<noteq> (case prev of None \<Rightarrow> ''GENESIS'' | Some h \<Rightarrow> h)
        then (False, Some (ae_ID e), checked + 1)
      else verify_loop X A (Some (ae_Hash e)) (checked + 1) es)"

definition verify_audit_hash_chain ::
  "ext \<Rightarrow> audit_ext \<Rightarrow> int \<Rightarrow> int \<Rightarrow> 'd AuditEvent list \<Rightarrow> bool \<times> int option \<times> int" where
  "verify_audit_hash_chain X A start_id end_id rows =
     verify_loop X A None 0
       (sort_key ae_ID (filter (\<lambda>e. start_id \<le> ae_ID e \<and> ae_ID e \<le> end_id) rows))"

record HashChainVerificationResult =
  hc_IsValid :: bool
  hc_FirstInvalidID :: "int option"
  hc_TotalChecked :: int
  hc_Message :: string

definition VerifyHashChain ::
  "ext \<Rightarrow> audit_ext \<Rightarrow> uuid \<Rightarrow> ('d, 'p, 'x) audit_db_scheme
   \<Rightarrow> ('d, 'p, 'x) audit_db_scheme \<times> (err, HashChainVerificationResult) result" where
  "VerifyHashChain X A eventID = with_db ''failed to get event internal ID'' (\<lambda>db.
     case find (\<lambda>e. ae_EventID e = eventID) (db_audits db) of
       None \<Rightarrow> (db, Inl ErrAuditEventNotFound)
     | Some e \<Rightarrow>
         (case next_fault db of
            Some f \<Rightarrow> (consume_fault db, Inl (Wrap ''failed to verify hash chain'' f))
          | None \<Rightarrow>
              let (isValid, firstInvalidID, totalChecked) =
                    verify_audit_hash_chain X A 1 (ae_ID e) (db_audits db)
              in (consume_fault db, Inr \<lparr>hc_IsValid = isValid,
                    hc_FirstInvalidID = (if isValid then None else firstInvalidID),
                    hc_TotalChecked = totalChecked,
                    hc_Message = (if isValid then ''Hash chain integrity verified successfully''
                      else ''Hash chain integrity compromised - possible data tampering detected'')\<rparr>)))"

definition VerifyAuditEventQuery_Execute ::
  "ext \<Rightarrow> audit_ext \<Rightarrow> uuid \<Rightarrow> ('d, 'p, 'x) audit_db_scheme
   \<Rightarrow> ('d, 'p, 'x) audit_db_scheme \<times> (err, HashChainVerificationResult) result" where
  "VerifyAuditEventQuery_Execute X A eventID db =
     (if eventID = uuid_Nil then (db, Inl ErrAuditEventNotFound) else VerifyHashChain X A eventID db)"

subsection \<open>Recording\<close>

definition normalizeIP :: "audit_ext \<Rightarrow> string \<Rightarrow> string" where
  "normalizeIP A ip =
     (if ip = [] then ''0.0.0.0''
      else let host = (case a_host_of A ip of None \<Rightarrow> ip | Some h \<Rightarrow> h)
           in if \<not> a_is_ip A host then ''0.0.0.0'' else host)"

definition tracer_actor :: "audit_ext \<Rightarrow> string \<Rightarrow> string \<Rightarrow> Actor" where
  "tracer_actor A name clientIP = \<lparr>actor_Type = ActorTypeSystem, actor_ID = ''svc_tracer'',
     actor_Name = name, actor_Role = [], actor_IPAddress = normalizeIP A clientIP\<rparr>"

definition validation_event ::
  "ext \<Rightarrow> audit_ext \<Rightarrow> uuid \<Rightarrow> gotime \<Rightarrow> uuid \<Rightarrow> 'd any_map \<Rightarrow> EvaluationResult
   \<Rightarrow> 'd ValidationResponseContext \<Rightarrow> string \<Rightarrow> (err, 'd AuditEvent) result" where
  "validation_event X A newID now validationID request evalResult responseContext clientIP =
     (case NewAuditEvent newID now AuditEventTransactionValidated AuditActionValidate
             (DecisionToAuditResult (e_Decision evalResult)) (x_uuid_string X validationID)
             ResourceTypeTransaction (tracer_actor A ''Tracer Validation Engine'' clientIP) of
        Inl e \<Rightarrow> Inl (Wrap ''failed to create audit event'' e)
      | Inr event \<Rightarrow> Inr (WithValidationContext event request evalResult responseContext))"

definition RecordValidationEvent ::
  "ext \<Rightarrow> audit_ext \<Rightarrow> uuid \<Rightarrow> gotime \<Rightarrow> uuid \<Rightarrow> 'd any_map \<Rightarrow> EvaluationResult
   \<Rightarrow> 'd ValidationResponseContext \<Rightarrow> string \<Rightarrow> ('d, 'p, 'x) audit_db_scheme
   \<Rightarrow> ('d, 'p, 'x) audit_db_scheme \<times> err option" where
  "RecordValidationEvent X A newID now validationID request evalResult responseContext clientIP db =
     (case validation_event X A newID now validationID request evalResult responseContext clientIP of
        Inl e \<Rightarrow> (db, Some e)
      | Inr event \<Rightarrow> AuditRepo_Insert X A event db)"

definition RecordValidationEventWithTx ::
  "ext \<Rightarrow> audit_ext \<Rightarrow> uuid \<Rightarrow> gotime \<Rightarrow> uuid \<Rightarrow> 'd any_map \<Rightarrow> EvaluationResult
   \<Rightarrow> 'd ValidationResponseContext \<Rightarrow> string \<Rightarrow> ('d, 'p, 'x) audit_db_scheme
   \<Rightarrow> ('d, 'p, 'x) audit_db_scheme \<times> err option" where
  "RecordValidationEventWithTx X A newID now validationID request evalResult responseContext clientIP
     db =
     (case validation_event X A newID now validationID request evalResult responseContext clientIP of
        Inl e \<Rightarrow> (db, Some e)
      | Inr event \<Rightarrow> AuditRepo_insertInternal X A event db)"

definition record_crud_event ::
  "ext \<Rightarrow> audit_ext \<Rightarrow> ResourceType \<Rightarrow> string \<Rightarrow> uuid \<Rightarrow> gotime \<Rightarrow> AuditEventType \<Rightarrow> AuditAction \<Rightarrow> uuid
   \<Rightarrow> 'd any_map option \<Rightarrow> 'd any_map option \<Rightarrow> string \<Rightarrow> string \<Rightarrow> ('d, 'p, 'x) audit_db_scheme
   \<Rightarrow> ('d, 'p, 'x) audit_db_scheme \<times> err option" where
  "record_crud_event X A rt name newID now eventType action i before after reason clientIP db =
     (case NewAuditEvent newID now eventType action AuditResultSuccess (x_uuid_string X i) rt
             (tracer_actor A name clientIP) of
        Inl e \<Rightarrow> (db, Some (Wrap ''failed to create audit event'' e))
      | Inr event \<Rightarrow> AuditRepo_Insert X A (WithCRUDContext event before after reason) db)"

definition RecordRuleEvent ::
  "ext \<Rightarrow> audit_ext \<Rightarrow> uuid \<Rightarrow> gotime \<Rightarrow> AuditEventType \<Rightarrow> AuditAction \<Rightarrow> uuid
   \<Rightarrow> 'd any_map option \<Rightarrow> 'd any_map option \<Rightarrow> string \<Rightarrow> string \<Rightarrow> ('d, 'p, 'x) audit_db_scheme
   \<Rightarrow> ('d, 'p, 'x) audit_db_scheme \<times> err option" where
  "RecordRuleEvent X A newID now eventType action ruleID before after reason clientIP db =
     record_crud_event X A ResourceTypeRule ''Tracer Rule Manager'' newID now eventType action ruleID
       before after reason clientIP db"

definition RecordLimitEvent ::
  "ext \<Rightarrow> audit_ext \<Rightarrow> uuid \<Rightarrow> gotime \<Rightarrow> AuditEventType \<Rightarrow> AuditAction \<Rightarrow> uuid
   \<Rightarrow> 'd any_map option \<Rightarrow> 'd any_map option \<Rightarrow> string \<Rightarrow> string \<Rightarrow> ('d, 'p, 'x) audit_db_scheme
   \<Rightarrow> ('d, 'p, 'x) audit_db_scheme \<times> err option" where
  "RecordLimitEvent X A newID now eventType action limitID before after reason clientIP db =
     record_crud_event X A ResourceTypeLimit ''Tracer Limit Manager'' newID now eventType action limitID
       before after reason clientIP db"

end
