(* ===== verification/StringArrays.thy ===== *)
theory StringArrays
  imports GoErrors
begin

text \<open>
  Text of PostgreSQL arrays (\<^verbatim>\<open>internal/adapters/postgres/types.go\<close>: the type
  \<^verbatim>\<open>StringArray\<close> with its \<^verbatim>\<open>Scan\<close> and \<^verbatim>\<open>Value\<close>) and of UUID arrays
  (\<^verbatim>\<open>transaction_validation_postgresql_model.go\<close>). A \<^verbatim>\<open>StringArray\<close> is \<^term>\<open>None\<close> when
  it is nil. The \<^verbatim>\<open>strings.Builder\<close> of the parser is the argument \<open>current\<close> of its loop.
\<close>

abbreviation backslash :: char where "backslash \<equiv> CHR 0x5C"
abbreviation quote :: char where "quote \<equiv> CHR 0x22"
abbreviation comma :: char where "comma \<equiv> CHR '',''"

datatype sql_source = SqlNull | SqlText string | SqlOther

definition NullString :: string where
  "NullString = [CHR 0x00] @ ''NULL'' @ [CHR 0x00]"

text \<open>\<^verbatim>\<open>strings.NewReplacer\<close> with the pairs \<open>\"\<close> to \<open>"\<close> and \<open>\\\<close> to \<open>\\<close>, in one pass.\<close>

fun unescape :: "string \<Rightarrow> string" where
  "unescape (c # d # s) =
     (if c = backslash \<and> (d = quote \<or> d = backslash) then d # unescape s
      else c # unescape (d # s))"
| "unescape s = s"

definition quoted :: "string \<Rightarrow> bool" where
  "quoted s = (2 \<le> length s \<and> hd s = quote \<and> last s = quote)"

definition unquoteElement :: "string \<Rightarrow> string" where
  "unquoteElement s =
     (if s = ''NULL'' then NullString
      else if quoted s then unescape (butlast (tl s)) else s)"

definition needs_quotes :: "string \<Rightarrow> bool" where
  "needs_quotes s = (s = []
     \<or> list_ex (\<lambda>c. c \<in> {CHR ''{'', CHR ''}'', comma, quote, backslash}) s
     \<or> list_ex (\<lambda>c. c \<in> {CHR '' '', CHR 0x09, CHR 0x0A, CHR 0x0D}) s)"

definition replace_all :: "char \<Rightarrow> string \<Rightarrow> string \<Rightarrow> string" where
  "replace_all c new s = concat (map (\<lambda>d. if d = c then new else [d]) s)"

definition quoteArrayElement :: "string \<Rightarrow> string" where
  "quoteArrayElement s =
     (if \<not> needs_quotes s then s
      else [quote] @ replace_all quote [backslash, quote] (replace_all backslash [backslash, backslash] s)
           @ [quote])"

text \<open>The loop over the bytes, then what follows it.\<close>

fun parse_loop :: "string \<Rightarrow> string list \<Rightarrow> string \<Rightarrow> bool \<Rightarrow> bool
    \<Rightarrow> string list \<times> string \<times> bool \<times> bool" where
  "parse_loop [] found current inQuotes escaped = (found, current, inQuotes, escaped)"
| "parse_loop (c # s) found current inQuotes escaped =
     (if escaped then parse_loop s found (current @ [c]) inQuotes False
      else if c = backslash then parse_loop s found current inQuotes True
      else if c = quote then parse_loop s found current (\<not> inQuotes) escaped
      else if c = comma then
        if inQuotes then parse_loop s found (current @ [c]) inQuotes escaped
        else parse_loop s (found @ [unquoteElement current]) [] inQuotes escaped
      else parse_loop s found (current @ [c]) inQuotes escaped)"

definition parseArrayElements :: "string \<Rightarrow> (err, string list) result" where
  "parseArrayElements content =
     (let (found, current, inQuotes, escaped) = parse_loop content [] [] False False
      in if inQuotes then Inl (Sentinel ''invalid PostgreSQL array format: unclosed quote'')
         else let current = (if escaped then current @ [backslash] else current)
              in if current \<noteq> [] \<or> found \<noteq> [] \<or> content \<noteq> []
                 then Inr (found @ [unquoteElement current]) else Inr found)"

definition StringArray_Scan :: "sql_source \<Rightarrow> (err, string list option) result" where
  "StringArray_Scan src =
     (case src of
        SqlNull \<Rightarrow> Inr None
      | SqlOther \<Rightarrow> Inl (Sentinel ''incompatible type for StringArray'')
      | SqlText source \<Rightarrow>
          if source = ''{}'' then Inr (Some [])
          else if length source < 2 \<or> hd source \<noteq> CHR ''{'' \<or> last source \<noteq> CHR ''}''
            then Inl (Sentinel ''invalid PostgreSQL array format'')
          else let content = butlast (tl source)
               in if content = [] then Inr (Some [])
                  else map_sum id Some (parseArrayElements content))"

definition StringArray_Value :: "string list option \<Rightarrow> string option" where
  "StringArray_Value a = map_option (\<lambda>elems.
     if elems = [] then ''{}''
     else ''{'' @ join_strings '','' (map quoteArrayElement elems) @ ''}'') a"

subsection \<open>Arrays of UUIDs\<close>

definition formatStringArrayToPostgres :: "string list \<Rightarrow> string" where
  "formatStringArrayToPostgres strs =
     (if strs = [] then ''{}'' else ''{'' @ join_strings '','' strs @ ''}'')"

definition formatUUIDArrayString :: "ext \<Rightarrow> uuid list option \<Rightarrow> string" where
  "formatUUIDArrayString X uuids =
     formatStringArrayToPostgres (map (x_uuid_string X) (case uuids of None \<Rightarrow> [] | Some us \<Rightarrow> us))"

definition formatUUIDArrayFromStringArray :: "string list option \<Rightarrow> string" where
  "formatUUIDArrayFromStringArray strs =
     formatStringArrayToPostgres (case strs of None \<Rightarrow> [] | Some ss \<Rightarrow> ss)"

definition uuidSliceToStringArray :: "ext \<Rightarrow> uuid list option \<Rightarrow> string list" where
  "uuidSliceToStringArray X uuids =
     (case uuids of None \<Rightarrow> [] | Some us \<Rightarrow> map (x_uuid_string X) us)"

text \<open>\<open>part\<close> is the text since the last comma.\<close>

fun split_loop :: "string \<Rightarrow> string \<Rightarrow> string list" where
  "split_loop [] part = (if part = [] then [] else [part])"
| "split_loop (c # s) part =
     (if c = comma then (if part = [] then [] else [part]) @ split_loop s []
      else split_loop s (part @ [c]))"

definition splitUUIDArray :: "string \<Rightarrow> string list" where
  "splitUUIDArray s = (if s = [] then [] else split_loop s [])"

fun parse_uuids :: "(string \<Rightarrow> (err, uuid) result) \<Rightarrow> string list \<Rightarrow> (err, uuid list) result" where
  "parse_uuids uuid_Parse [] = Inr []"
| "parse_uuids uuid_Parse (part # parts) =
     (case uuid_Parse part of
        Inl e \<Rightarrow> Inl (Wrap ''invalid UUID in array'' e)
      | Inr i \<Rightarrow> map_sum id ((#) i) (parse_uuids uuid_Parse parts))"

definition parseUUIDArrayString ::
  "(string \<Rightarrow> (err, uuid) result) \<Rightarrow> string \<Rightarrow> (err, uuid list) result" where
  "parseUUIDArrayString uuid_Parse arrayStr =
     (if arrayStr = [] \<or> arrayStr = ''{}'' then Inr []
      else let trimmed = (if 2 \<le> length arrayStr \<and> hd arrayStr = CHR ''{'' \<and> last arrayStr = CHR ''}''
                          then butlast (tl arrayStr) else arrayStr)
           in if trimmed = [] then Inr [] else parse_uuids uuid_Parse (splitUUIDArray trimmed))"

subsection \<open>Reading back what was written\<close>

lemma parse_loop_plain:
  assumes "\<forall>c \<in> set s. c \<noteq> backslash \<and> c \<noteq> quote \<and> c \<noteq> comma"
  shows "parse_loop (s @ rest) found current inQuotes False
    = parse_loop rest found (current @ s) inQuotes False"
  using assms by (induction s arbitrary: current) auto

lemma escaped_text:
  "replace_all quote [backslash, quote] (replace_all backslash [backslash, backslash] s)
   = concat (map (\<lambda>c. if c = backslash \<or> c = quote then [backslash, c] else [c]) s)"
  by (induction s) (auto simp: replace_all_def)

lemma parse_loop_escaped:
  "parse_loop (concat (map (\<lambda>c. if c = backslash \<or> c = quote then [backslash, c] else [c]) s) @ rest)
     found current True False = parse_loop rest found (current @ s) True False"
  by (induction s arbitrary: current) auto

lemma parse_loop_element:
  "parse_loop (quoteArrayElement s @ rest) found [] False False = parse_loop rest found s False False"
proof (cases "needs_quotes s")
  case True
  then show ?thesis
    by (simp add: quoteArrayElement_def escaped_text parse_loop_escaped)
next
  case False
  then have "\<forall>c \<in> set s. c \<noteq> backslash \<and> c \<noteq> quote \<and> c \<noteq> comma"
    by (auto simp: needs_quotes_def list_ex_iff)
  with False show ?thesis
    by (simp add: quoteArrayElement_def parse_loop_plain)
qed

lemma parse_loop_elements:
  "elems \<noteq> [] \<Longrightarrow> parse_loop (join_strings '','' (map quoteArrayElement elems)) found [] False False
     = (found @ map unquoteElement (butlast elems), last elems, False, False)"
proof (induction elems arbitrary: found)
  case (Cons s elems)
  show ?case
  proof (cases elems)
    case Nil
    then show ?thesis using parse_loop_element [of s "[]"] by simp
  next
    case (Cons t ts)
    then have "join_strings '','' (map quoteArrayElement (s # elems))
        = quoteArrayElement s @ comma # join_strings '','' (map quoteArrayElement elems)"
      by simp
    then show ?thesis using Cons.IH Cons by (simp add: parse_loop_element)
  qed
qed simp

lemma quoteArrayElement_not_empty [simp]: "quoteArrayElement s \<noteq> []"
  by (auto simp: quoteArrayElement_def needs_quotes_def)

lemma join_strings_not_empty: "elems \<noteq> [] \<Longrightarrow> hd elems \<noteq> [] \<Longrightarrow> join_strings sep elems \<noteq> []"
  by (cases "(sep, elems)" rule: join_strings.cases) auto

lemma parseArrayElements_quoted:
  assumes "elems \<noteq> []"
  shows "parseArrayElements (join_strings '','' (map quoteArrayElement elems))
    = Inr (map unquoteElement elems)"
proof -
  have ne: "join_strings '','' (map quoteArrayElement elems) \<noteq> []"
    by (rule join_strings_not_empty) (use assms in \<open>auto simp: hd_map\<close>)
  have "map unquoteElement (butlast elems) @ [unquoteElement (last elems)] = map unquoteElement elems"
    using assms by (metis append_butlast_last_id list.simps(8,9) map_append)
  then show ?thesis
    using ne by (simp add: parseArrayElements_def parse_loop_elements [OF assms])
qed

text \<open>What is read back: each element through \<open>unquoteElement\<close> once more.\<close>

lemma Scan_Value:
  "StringArray_Scan (case StringArray_Value a of None \<Rightarrow> SqlNull | Some t \<Rightarrow> SqlText t)
   = Inr (map_option (map unquoteElement) a)"
proof (cases a)
  case None
  then show ?thesis by (simp add: StringArray_Value_def StringArray_Scan_def)
next
  case (Some elems)
  show ?thesis
  proof (cases "elems = []")
    case True
    with Some show ?thesis by (simp add: StringArray_Value_def StringArray_Scan_def)
  next
    case False
    let ?c = "join_strings '','' (map quoteArrayElement elems)"
    have ne: "?c \<noteq> []"
      by (rule join_strings_not_empty) (use False in \<open>auto simp: hd_map\<close>)
    have v: "StringArray_Value a = Some (''{'' @ ?c @ ''}'')"
      using Some False by (simp add: StringArray_Value_def)
    show ?thesis
      using v Some ne parseArrayElements_quoted [OF False] by (simp add: StringArray_Scan_def Let_def)
  qed
qed

definition plain_element :: "string \<Rightarrow> bool" where
  "plain_element s = (s \<noteq> ''NULL'' \<and> \<not> quoted s)"

lemma unquoteElement_plain: "plain_element s \<Longrightarrow> unquoteElement s = s"
  by (simp add: plain_element_def unquoteElement_def)

lemma unquoteElement_id_iff: "unquoteElement s = s \<longleftrightarrow> plain_element s"
proof -
  have shorter: "length (unescape s) \<le> length s" for s by (induction s rule: unescape.induct) auto
  have "unescape (butlast (tl s)) \<noteq> s" if "quoted s"
    using shorter [of "butlast (tl s)"] that by (auto simp: quoted_def)
  then show ?thesis by (auto simp: unquoteElement_def plain_element_def NullString_def)
qed

lemma split_loop_plain:
  "comma \<notin> set s \<Longrightarrow> split_loop (s @ rest) part = split_loop rest (part @ s)"
  by (induction s arbitrary: part) auto

lemma split_loop_join:
  assumes "\<forall>s \<in> set ss. s \<noteq> [] \<and> comma \<notin> set s" "ss \<noteq> []"
  shows "split_loop (join_strings '','' ss) [] = ss"
  using assms
proof (induction ss)
  case (Cons s ss)
  show ?case
  proof (cases ss)
    case Nil
    then show ?thesis using Cons.prems split_loop_plain [of s "[]"] by simp
  next
    case (Cons t ts)
    then have "join_strings '','' (s # ss) = s @ comma # join_strings '','' ss" by simp
    then show ?thesis using Cons.prems Cons.IH Cons by (simp add: split_loop_plain)
  qed
qed simp

lemma parse_uuids_strings:
  assumes "\<And>i. uuid_Parse (x_uuid_string X i) = Inr i"
  shows "parse_uuids uuid_Parse (map (x_uuid_string X) us) = Inr us"
  by (induction us) (simp_all add: assms)

text \<open>The documented behaviour of \<^verbatim>\<open>uuid.String\<close> and \<^verbatim>\<open>uuid.Parse\<close>.\<close>

definition uuid_codec :: "ext \<Rightarrow> (string \<Rightarrow> (err, uuid) result) \<Rightarrow> bool" where
  "uuid_codec X uuid_Parse =
     (\<forall>i. uuid_Parse (x_uuid_string X i) = Inr i \<and> x_uuid_string X i \<noteq> []
          \<and> comma \<notin> set (x_uuid_string X i) \<and> plain_element (x_uuid_string X i)
          \<and> TrimSpace (x_uuid_string X i) = x_uuid_string X i)"

lemma uuid_codec_inj:
  assumes "uuid_codec X uuid_Parse"
  shows "x_uuid_string X i = x_uuid_string X j \<longleftrightarrow> i = j"
  using assms unfolding uuid_codec_def by (metis sum.inject(2))

lemma parseUUIDArrayString_format:
  assumes "uuid_codec X uuid_Parse"
  shows "parseUUIDArrayString uuid_Parse (formatUUIDArrayString X us)
    = Inr (case us of None \<Rightarrow> [] | Some is \<Rightarrow> is)"
proof -
  define ids where "ids = (case us of None \<Rightarrow> [] | Some is \<Rightarrow> is)"
  have f: "formatUUIDArrayString X us = formatStringArrayToPostgres (map (x_uuid_string X) ids)"
    by (simp add: formatUUIDArrayString_def ids_def)
  show ?thesis
  proof (cases "ids = []")
    case True
    then show ?thesis
      unfolding f ids_def [symmetric]
      by (simp add: formatStringArrayToPostgres_def parseUUIDArrayString_def)
  next
    case False
    let ?c = "join_strings '','' (map (x_uuid_string X) ids)"
    have ok: "\<forall>s \<in> set (map (x_uuid_string X) ids). s \<noteq> [] \<and> comma \<notin> set s"
      using assms by (auto simp: uuid_codec_def)
    have ne: "?c \<noteq> []"
      by (rule join_strings_not_empty) (use False assms in \<open>auto simp: hd_map uuid_codec_def\<close>)
    have "splitUUIDArray ?c = map (x_uuid_string X) ids"
      using split_loop_join [OF ok] False ne by (simp add: splitUUIDArray_def)
    moreover have "parse_uuids uuid_Parse (map (x_uuid_string X) ids) = Inr ids"
      by (rule parse_uuids_strings) (use assms in \<open>simp add: uuid_codec_def\<close>)
    ultimately show ?thesis
      unfolding f ids_def [symmetric]
      using False ne by (simp add: formatStringArrayToPostgres_def parseUUIDArrayString_def Let_def)
  qed
qed

end
