(* ===== verification/Sanitize.thy ===== *)
theory Sanitize
  imports Requests
begin

text \<open>
  Sanitizing of metadata before they are stored (\<^verbatim>\<open>pkg/sanitize/metadata.go\<close>). A Go value is a
  tree whose maps, slices and pointers carry their address; a cycle is a tree in which an address
  occurs below itself, and two occurrences of one container have one address. The table of visited
  addresses is threaded through the calls, as the Go map is shared by them. Keys are matched against
  the patterns by a matcher for the fragment of \<^verbatim>\<open>regexp\<close> that the default patterns use:
  letters under \<^verbatim>\<open>(?i)\<close>, \<^verbatim>\<open>.?\<close> and \<^verbatim>\<open>\b\<close>.
\<close>

datatype go_value =
    GNil
  | GBool bool
  | GNumber string
  | GString string
  | GNilMap
  | GMap nat "(string \<times> go_value) list"
  | GNilSlice
  | GSlice nat "go_value list"
  | GNilPtr
  | GPtr nat go_value
  | GStruct "go_value list"
  | GTypedContainer nat
  | GChan
  | GFunc
  | GComplex
  | GUnsafePointer

subsection \<open>Patterns\<close>

datatype pattern_item = PLetter char | POptAny | PWordBoundary

type_synonym key_pattern = "pattern_item list"

abbreviation letters :: "string \<Rightarrow> key_pattern" where
  "letters s \<equiv> map PLetter s"

abbreviation spaced :: "string \<Rightarrow> string \<Rightarrow> key_pattern" where
  "spaced a b \<equiv> letters a @ [POptAny] @ letters b"

definition DefaultSensitivePatterns :: "key_pattern list" where
  "DefaultSensitivePatterns =
    [letters ''password'', letters ''passwd'', letters ''secret'', letters ''token'',
     spaced ''api'' ''key'', letters ''auth'', letters ''bearer'', letters ''credential'',
     spaced ''private'' ''key'', spaced ''access'' ''key'',
     letters ''ssn'', spaced ''social'' ''security'', letters ''cpf'', letters ''cnpj'',
     letters ''passport'', spaced ''driver'' ''license'', spaced ''national'' ''id'',
     letters ''email'', spaced ''e'' ''mail'', letters ''phone'', letters ''mobile'',
     letters ''cell'', letters ''fax'', letters ''address'', letters ''street'',
     spaced ''zip'' ''code'', letters ''postal'',
     spaced ''card'' ''number'', spaced ''card'' ''num'', letters ''cvv'', letters ''cvc'',
     spaced ''account'' ''number'', spaced ''account'' ''num'', letters ''routing'',
     letters ''iban'', letters ''swift'', letters ''bic'',
     [PWordBoundary] @ letters ''pin'' @ [PWordBoundary],
     spaced ''full'' ''name'', spaced ''first'' ''name'', spaced ''last'' ''name'',
     spaced ''middle'' ''name'', spaced ''birth'' ''date'',
     letters ''date'' @ [POptAny] @ spaced ''of'' ''birth'', letters ''dob'', letters ''maiden'',
     spaced ''mother'' ''name'',
     letters ''health'', letters ''medical'', letters ''diagnosis'', letters ''prescription'',
     spaced ''ip'' ''address'', spaced ''device'' ''id'', spaced ''mac'' ''address'',
     letters ''fingerprint'']"

text \<open>The runes of a string; a byte that starts no valid sequence is the rune U+FFFD.\<close>

fun utf8_runes :: "nat list \<Rightarrow> nat list" where
  "utf8_runes (b # c # d # e # s) =
     (if b < 128 then b # utf8_runes (c # d # e # s)
      else if 194 \<le> b \<and> b \<le> 223 \<and> 128 \<le> c \<and> c \<le> 191
        then ((b - 192) * 64 + (c - 128)) # utf8_runes (d # e # s)
      else if 224 \<le> b \<and> b \<le> 239 \<and> (if b = 224 then 160 else 128) \<le> c
              \<and> c \<le> (if b = 237 then 159 else 191) \<and> 128 \<le> d \<and> d \<le> 191
        then ((b - 224) * 4096 + (c - 128) * 64 + (d - 128)) # utf8_runes (e # s)
      else if 240 \<le> b \<and> b \<le> 244 \<and> (if b = 240 then 144 else 128) \<le> c
              \<and> c \<le> (if b = 244 then 143 else 191) \<and> 128 \<le> d \<and> d \<le> 191 \<and> 128 \<le> e \<and> e \<le> 191
        then ((b - 240) * 262144 + (c - 128) * 4096 + (d - 128) * 64 + (e - 128)) # utf8_runes s
      else 65533 # utf8_runes (c # d # e # s))"
| "utf8_runes [b, c, d] =
     (if b < 128 then b # utf8_runes [c, d]
      else if 194 \<le> b \<and> b \<le> 223 \<and> 128 \<le> c \<and> c \<le> 191
        then ((b - 192) * 64 + (c - 128)) # utf8_runes [d]
      else if 224 \<le> b \<and> b \<le> 239 \<and> (if b = 224 then 160 else 128) \<le> c
              \<and> c \<le> (if b = 237 then 159 else 191) \<and> 128 \<le> d \<and> d \<le> 191
        then [(b - 224) * 4096 + (c - 128) * 64 + (d - 128)]
      else 65533 # utf8_runes [c, d])"
| "utf8_runes [b, c] =
     (if b < 128 then b # utf8_runes [c]
      else if 194 \<le> b \<and> b \<le> 223 \<and> 128 \<le> c \<and> c \<le> 191 then [(b - 192) * 64 + (c - 128)]
      else 65533 # utf8_runes [c])"
| "utf8_runes [b] = (if b < 128 then [b] else [65533])"
| "utf8_runes [] = []"

text \<open>A lower-case ASCII letter matches itself, its upper case, and under simple folding the long s
  (U+017F) and the Kelvin sign (U+212A).\<close>

definition letter_matches :: "char \<Rightarrow> nat \<Rightarrow> bool" where
  "letter_matches c r = (let n = of_char c in
     r = n \<or> r + 32 = n \<or> (n = 115 \<and> r = 383) \<or> (n = 107 \<and> r = 8490))"

definition word_rune :: "nat \<Rightarrow> bool" where
  "word_rune r = (48 \<le> r \<and> r \<le> 57 \<or> 65 \<le> r \<and> r \<le> 90 \<or> r = 95 \<or> 97 \<le> r \<and> r \<le> 122)"

definition at_boundary :: "nat option \<Rightarrow> nat list \<Rightarrow> bool" where
  "at_boundary prev s =
     ((case prev of None \<Rightarrow> False | Some r \<Rightarrow> word_rune r)
      \<noteq> (case s of [] \<Rightarrow> False | r # _ \<Rightarrow> word_rune r))"

fun match_here :: "key_pattern \<Rightarrow> nat option \<Rightarrow> nat list \<Rightarrow> bool" where
  "match_here [] prev s = True"
| "match_here (PWordBoundary # ps) prev s = (at_boundary prev s \<and> match_here ps prev s)"
| "match_here (PLetter c # ps) prev [] = False"
| "match_here (PLetter c # ps) prev (r # s) = (letter_matches c r \<and> match_here ps (Some r) s)"
| "match_here (POptAny # ps) prev [] = match_here ps prev []"
| "match_here (POptAny # ps) prev (r # s) =
     (match_here ps prev (r # s) \<or> r \<noteq> 10 \<and> match_here ps (Some r) s)"

fun match_from :: "key_pattern \<Rightarrow> nat option \<Rightarrow> nat list \<Rightarrow> bool" where
  "match_from ps prev [] = match_here ps prev []"
| "match_from ps prev (r # s) = (match_here ps prev (r # s) \<or> match_from ps (Some r) s)"

definition MatchString :: "key_pattern \<Rightarrow> string \<Rightarrow> bool" where
  "MatchString ps key = match_from ps None (utf8_runes (map of_char key))"

definition isSensitiveKey :: "key_pattern list \<Rightarrow> string \<Rightarrow> bool" where
  "isSensitiveKey patterns key = list_ex (\<lambda>p. MatchString p key) patterns"

text \<open>\<^verbatim>\<open>MergePatterns\<close> works on the texts of the patterns.\<close>

fun merge_loop :: "string set \<Rightarrow> string list \<Rightarrow> string list" where
  "merge_loop seen [] = []"
| "merge_loop seen (p # ps) =
     (let n = TrimSpace p in
      if n \<noteq> [] \<and> n \<notin> seen then n # merge_loop (insert n seen) ps else merge_loop seen ps)"

definition MergePatterns :: "string list list \<Rightarrow> string list" where
  "MergePatterns patternLists = merge_loop {} (concat patternLists)"

subsection \<open>Values that cannot be marshalled\<close>

definition MaskedValue :: go_value where "MaskedValue = GString ''[REDACTED]''"

definition NonSerializable :: "string \<Rightarrow> string" where
  "NonSerializable what = ''[non-serializable: '' @ what @ '']''"

fun nonSerializableDescriptor :: "go_value \<Rightarrow> nat list \<Rightarrow> string option \<times> nat list"
  and checkStructNonSerializable :: "go_value list \<Rightarrow> nat list \<Rightarrow> string option \<times> nat list" where
  "nonSerializableDescriptor GChan visited = (Some (NonSerializable ''chan''), visited)"
| "nonSerializableDescriptor GFunc visited = (Some (NonSerializable ''func''), visited)"
| "nonSerializableDescriptor GComplex visited = (Some (NonSerializable ''complex''), visited)"
| "nonSerializableDescriptor GUnsafePointer visited =
     (Some (NonSerializable ''unsafe.Pointer''), visited)"
| "nonSerializableDescriptor (GPtr a v) visited =
     (if a \<in> set visited then (Some (NonSerializable ''cyclic reference''), visited)
      else nonSerializableDescriptor v (a # visited))"
| "nonSerializableDescriptor (GMap a m) visited =
     (if a \<in> set visited then (Some (NonSerializable ''cyclic reference''), visited)
      else (None, a # visited))"
| "nonSerializableDescriptor (GSlice a xs) visited =
     (if a \<in> set visited then (Some (NonSerializable ''cyclic reference''), visited)
      else (None, a # visited))"
| "nonSerializableDescriptor (GTypedContainer a) visited =
     (if a \<in> set visited then (Some (NonSerializable ''cyclic reference''), visited)
      else (None, a # visited))"
| "nonSerializableDescriptor (GStruct fs) visited = checkStructNonSerializable fs visited"
| "nonSerializableDescriptor v visited = (None, visited)"
| "checkStructNonSerializable [] visited = (None, visited)"
| "checkStructNonSerializable (f # fs) visited =
     (case nonSerializableDescriptor f visited of
        (Some desc, visited') \<Rightarrow> (Some desc, visited')
      | (None, visited') \<Rightarrow> checkStructNonSerializable fs visited')"

definition IsNonSerializable :: "go_value \<Rightarrow> bool" where
  "IsNonSerializable v = (fst (nonSerializableDescriptor v []) \<noteq> None)"

subsection \<open>Sanitizing\<close>

text \<open>The copies that the sanitizer makes are new containers; nobody asks for their address again,
  so the model keeps the old one. A nil map is copied to an empty one.\<close>

fun sanitizeWithCycleDetection ::
  "(string \<Rightarrow> bool) \<Rightarrow> (string \<times> go_value) list \<Rightarrow> nat list
   \<Rightarrow> (string \<times> go_value) list \<times> nat list"
  and sanitizeSliceWithCycleDetection ::
  "(string \<Rightarrow> bool) \<Rightarrow> go_value list \<Rightarrow> nat list \<Rightarrow> go_value list \<times> nat list"
  and sanitize_nested ::
  "(string \<Rightarrow> bool) \<Rightarrow> go_value \<Rightarrow> nat list \<Rightarrow> go_value \<times> nat list" where
  "sanitizeWithCycleDetection sensitive [] visited = ([], visited)"
| "sanitizeWithCycleDetection sensitive ((key, v) # m) visited =
     (let (v', visited1) =
        (if sensitive key then (MaskedValue, visited)
         else case nonSerializableDescriptor v visited of
             (Some desc, visited') \<Rightarrow> (GString desc, visited')
           | (None, visited') \<Rightarrow> sanitize_nested sensitive v visited');
        (m', visited2) = sanitizeWithCycleDetection sensitive m visited1
      in ((key, v') # m', visited2))"
| "sanitizeSliceWithCycleDetection sensitive [] visited = ([], visited)"
| "sanitizeSliceWithCycleDetection sensitive (v # xs) visited =
     (let (v', visited1) =
        (case nonSerializableDescriptor v visited of
           (Some desc, visited') \<Rightarrow> (GString desc, visited')
         | (None, visited') \<Rightarrow> sanitize_nested sensitive v visited');
        (xs', visited2) = sanitizeSliceWithCycleDetection sensitive xs visited1
      in (v' # xs', visited2))"
| "sanitize_nested sensitive (GMap a m) visited =
     (let (m', visited') = sanitizeWithCycleDetection sensitive m visited in (GMap a m', visited'))"
| "sanitize_nested sensitive GNilMap visited = (GMap 0 [], visited)"
| "sanitize_nested sensitive (GSlice a xs) visited =
     (let (xs', visited') = sanitizeSliceWithCycleDetection sensitive xs visited
      in (GSlice a xs', visited'))"
| "sanitize_nested sensitive v visited = (v, visited)"

definition MetadataSanitizer_Sanitize ::
  "(string \<Rightarrow> bool) \<Rightarrow> (string \<times> go_value) list option \<Rightarrow> (string \<times> go_value) list option" where
  "MetadataSanitizer_Sanitize sensitive m =
     (case m of
        None \<Rightarrow> None
      | Some m \<Rightarrow> if m = [] then Some [] else Some (fst (sanitizeWithCycleDetection sensitive m [])))"

definition SanitizeValue :: "key_pattern list \<Rightarrow> string \<Rightarrow> go_value \<Rightarrow> go_value" where
  "SanitizeValue patterns key v = (if isSensitiveKey patterns key then MaskedValue else v)"

definition SanitizeMetadata ::
  "(string \<times> go_value) list option \<Rightarrow> (string \<times> go_value) list option" where
  "SanitizeMetadata m = MetadataSanitizer_Sanitize (isSensitiveKey DefaultSensitivePatterns) m"

subsection \<open>Metadata of a request\<close>

text \<open>Metadata decoded from JSON are a tree of maps and slices; \<open>heap\<close> gives the address of the
  container at each path.\<close>

fun to_go :: "(nat list \<Rightarrow> nat) \<Rightarrow> nat list \<Rightarrow> json \<Rightarrow> go_value"
  and to_go_list :: "(nat list \<Rightarrow> nat) \<Rightarrow> nat list \<Rightarrow> nat \<Rightarrow> json list \<Rightarrow> go_value list"
  and to_go_entries ::
    "(nat list \<Rightarrow> nat) \<Rightarrow> nat list \<Rightarrow> nat \<Rightarrow> (string \<times> json) list \<Rightarrow> (string \<times> go_value) list" where
  "to_go heap p JNull = GNil"
| "to_go heap p (JBool b) = GBool b"
| "to_go heap p (JNumber n) = GNumber n"
| "to_go heap p (JString s) = GString s"
| "to_go heap p (JArray xs) = GSlice (heap p) (to_go_list heap p 0 xs)"
| "to_go heap p (JObject m) = GMap (heap p) (to_go_entries heap p 0 m)"
| "to_go_list heap p i [] = []"
| "to_go_list heap p i (x # xs) = to_go heap (i # p) x # to_go_list heap p (Suc i) xs"
| "to_go_entries heap p i [] = []"
| "to_go_entries heap p i ((k, x) # m) = (k, to_go heap (i # p) x) # to_go_entries heap p (Suc i) m"

text \<open>The JSON that a sanitized value is marshalled to; the other constructors do not occur in it.\<close>

fun of_go :: "go_value \<Rightarrow> json"
  and of_go_list :: "go_value list \<Rightarrow> json list"
  and of_go_entries :: "(string \<times> go_value) list \<Rightarrow> (string \<times> json) list" where
  "of_go (GBool b) = JBool b"
| "of_go (GNumber n) = JNumber n"
| "of_go (GString s) = JString s"
| "of_go (GSlice a xs) = JArray (of_go_list xs)"
| "of_go (GMap a m) = JObject (of_go_entries m)"
| "of_go v = JNull"
| "of_go_list [] = []"
| "of_go_list (x # xs) = of_go x # of_go_list xs"
| "of_go_entries [] = []"
| "of_go_entries ((k, x) # m) = (k, of_go x) # of_go_entries m"

definition sanitized_metadata :: "(nat list \<Rightarrow> nat) \<Rightarrow> metadata option \<Rightarrow> metadata option" where
  "sanitized_metadata heap md =
     map_option of_go_entries (SanitizeMetadata (map_option (to_go_entries heap [] 0) md))"

text \<open>The reference: mask the sensitive keys at every depth and keep everything else.\<close>

fun mask_json :: "(string \<Rightarrow> bool) \<Rightarrow> json \<Rightarrow> json"
  and mask_list :: "(string \<Rightarrow> bool) \<Rightarrow> json list \<Rightarrow> json list"
  and mask_entries :: "(string \<Rightarrow> bool) \<Rightarrow> (string \<times> json) list \<Rightarrow> (string \<times> json) list" where
  "mask_json sensitive (JArray xs) = JArray (mask_list sensitive xs)"
| "mask_json sensitive (JObject m) = JObject (mask_entries sensitive m)"
| "mask_json sensitive v = v"
| "mask_list sensitive [] = []"
| "mask_list sensitive (x # xs) = mask_json sensitive x # mask_list sensitive xs"
| "mask_entries sensitive [] = []"
| "mask_entries sensitive ((k, x) # m) =
     (k, if sensitive k then JString ''[REDACTED]'' else mask_json sensitive x) # mask_entries sensitive m"

text \<open>The paths below a path, and below the children of a path from an index on.\<close>

definition below :: "nat list \<Rightarrow> nat list set" where
  "below p = {q. suffix p q}"

definition below_from :: "nat \<Rightarrow> nat list \<Rightarrow> nat list set" where
  "below_from i p = (\<Union>j \<in> {i..}. below (j # p))"

lemma suffix_not_longer: "\<not> suffix (j # p) p"
  by (auto dest: suffix_length_le)

lemma below_children: "below_from i p \<subseteq> below p"
  by (auto simp: below_from_def below_def dest: suffix_ConsD)

lemma below_self: "p \<in> below p" "p \<notin> below_from i p"
  by (auto simp: below_from_def below_def dest: suffix_length_le)

lemma below_from_Suc:
  "below_from i p = below (i # p) \<union> below_from (Suc i) p"
  "below (i # p) \<inter> below_from (Suc i) p = {}"
proof -
  have "{i..} = insert i {Suc i..}" by auto
  then show "below_from i p = below (i # p) \<union> below_from (Suc i) p"
    by (simp add: below_from_def)
  have "i = j" if "suffix (i # p) q" "suffix (j # p) q" for j q
    using suffix_length_suffix [OF that] suffix_not_longer [of i p] by (simp add: suffix_Cons)
  then show "below (i # p) \<inter> below_from (Suc i) p = {}"
    by (fastforce simp: below_from_def below_def)
qed

definition unvisited :: "(nat list \<Rightarrow> nat) \<Rightarrow> nat list set \<Rightarrow> nat list \<Rightarrow> bool" where
  "unvisited heap P visited = (heap ` P \<inter> set visited = {})"

definition visit :: "(string \<Rightarrow> bool) \<Rightarrow> go_value \<Rightarrow> nat list \<Rightarrow> go_value \<times> nat list" where
  "visit sensitive v visited =
     (case nonSerializableDescriptor v visited of
        (Some desc, visited') \<Rightarrow> (GString desc, visited')
      | (None, visited') \<Rightarrow> sanitize_nested sensitive v visited')"

lemma sanitize_entries_visit:
  "sanitizeWithCycleDetection sensitive ((key, v) # m) visited =
     (let (v', visited1) = (if sensitive key then (MaskedValue, visited) else visit sensitive v visited);
          (m', visited2) = sanitizeWithCycleDetection sensitive m visited1
      in ((key, v') # m', visited2))"
  by (simp only: sanitizeWithCycleDetection.simps visit_def)

lemma sanitize_slice_visit:
  "sanitizeSliceWithCycleDetection sensitive (v # xs) visited =
     (let (v', visited1) = visit sensitive v visited;
          (xs', visited2) = sanitizeSliceWithCycleDetection sensitive xs visited1
      in (v' # xs', visited2))"
  by (simp only: sanitizeSliceWithCycleDetection.simps visit_def)

lemma unvisited_step:
  assumes "inj heap" "unvisited heap P visited" "set visited' \<subseteq> set visited \<union> heap ` Q" "P \<inter> Q = {}"
  shows "unvisited heap P visited'"
proof -
  have "heap ` P \<inter> heap ` Q = {}"
    using assms(1,4) by (simp add: image_Int [symmetric])
  with assms(2,3) show ?thesis unfolding unvisited_def by blast
qed

lemma visit_container:
  assumes "unvisited heap (below p) visited"
  shows "visit sensitive (GMap (heap p) m) visited =
      (let (m', visited') = sanitizeWithCycleDetection sensitive m (heap p # visited)
       in (GMap (heap p) m', visited'))"
    and "visit sensitive (GSlice (heap p) xs) visited =
      (let (xs', visited') = sanitizeSliceWithCycleDetection sensitive xs (heap p # visited)
       in (GSlice (heap p) xs', visited'))"
proof -
  have "heap p \<notin> set visited" using assms below_self(1) [of p] by (auto simp: unvisited_def)
  then show "visit sensitive (GMap (heap p) m) visited =
      (let (m', visited') = sanitizeWithCycleDetection sensitive m (heap p # visited)
       in (GMap (heap p) m', visited'))"
    "visit sensitive (GSlice (heap p) xs) visited =
      (let (xs', visited') = sanitizeSliceWithCycleDetection sensitive xs (heap p # visited)
       in (GSlice (heap p) xs', visited'))"
    by (simp_all add: visit_def)
qed

lemma unvisited_children:
  assumes "inj heap" "unvisited heap (below p) visited"
  shows "unvisited heap (below_from i p) (heap p # visited)"
  using assms below_children [of i p] below_self(2) [of p i]
  by (auto simp: unvisited_def inj_eq)

lemma below_image: "insert (heap p) (heap ` below_from i p) \<subseteq> heap ` below p"
  using below_children [of i p] below_self(1) [of p] by blast

text \<open>On a tree whose containers have different addresses the sanitizer is the reference.\<close>

lemma sanitize_json:
  assumes "inj heap"
  shows "unvisited heap (below p) visited \<Longrightarrow>
      of_go (fst (visit sensitive (to_go heap p x) visited)) = mask_json sensitive x
      \<and> set (snd (visit sensitive (to_go heap p x) visited)) \<subseteq> set visited \<union> heap ` below p"
    and "unvisited heap (below_from i p) visited \<Longrightarrow>
      of_go_list (fst (sanitizeSliceWithCycleDetection sensitive (to_go_list heap p i xs) visited))
        = mask_list sensitive xs
      \<and> set (snd (sanitizeSliceWithCycleDetection sensitive (to_go_list heap p i xs) visited))
        \<subseteq> set visited \<union> heap ` below_from i p"
    and "unvisited heap (below_from i p) visited \<Longrightarrow>
      of_go_entries (fst (sanitizeWithCycleDetection sensitive (to_go_entries heap p i m) visited))
        = mask_entries sensitive m
      \<and> set (snd (sanitizeWithCycleDetection sensitive (to_go_entries heap p i m) visited))
        \<subseteq> set visited \<union> heap ` below_from i p"
  using assms
proof (induction heap p x and heap p i xs and heap p i m arbitrary: visited and visited and visited
    rule: to_go_to_go_list_to_go_entries.induct)
  case (5 heap p xs)
  note c = visit_container(2) [OF 5(2)] and u = unvisited_children [OF 5(3,2), of 0]
  from 5(1) [OF u 5(3)] below_image [of heap p 0] show ?case
    by (fastforce simp: c split: prod.splits)
next
  case (6 heap p m)
  note c = visit_container(1) [OF 6(2)] and u = unvisited_children [OF 6(3,2), of 0]
  from 6(1) [OF u 6(3)] below_image [of heap p 0] show ?case
    by (fastforce simp: c split: prod.splits)
next
  case (8 heap p i x xs)
  obtain v' visited1 where v: "visit sensitive (to_go heap (i # p) x) visited = (v', visited1)"
    by fastforce
  have u: "unvisited heap (below (i # p)) visited" "unvisited heap (below_from (Suc i) p) visited"
    using 8(3) by (auto simp: unvisited_def below_from_Suc(1) [of i p])
  have x: "of_go v' = mask_json sensitive x" "set visited1 \<subseteq> set visited \<union> heap ` below (i # p)"
    using 8(1) [OF u(1) 8(4)] v by simp_all
  have u1: "unvisited heap (below_from (Suc i) p) visited1"
    by (rule unvisited_step [OF 8(4) u(2) x(2)]) (use below_from_Suc(2) in blast)
  from 8(2) [OF u1 8(4)] x v show ?case
    unfolding to_go_list.simps sanitize_slice_visit below_from_Suc(1) [of i p] image_Un
    by (auto split: prod.splits)
next
  case (10 heap p i k x m)
  obtain v' visited1 where v: "(if sensitive k then (MaskedValue, visited)
      else visit sensitive (to_go heap (i # p) x) visited) = (v', visited1)"
    by fastforce
  have u: "unvisited heap (below (i # p)) visited" "unvisited heap (below_from (Suc i) p) visited"
    using 10(3) by (auto simp: unvisited_def below_from_Suc(1) [of i p])
  have x: "of_go v' = (if sensitive k then JString ''[REDACTED]'' else mask_json sensitive x)"
    "set visited1 \<subseteq> set visited \<union> heap ` below (i # p)"
    using 10(1) [OF u(1) 10(4)] v by (auto simp: MaskedValue_def split: if_splits)
  have u1: "unvisited heap (below_from (Suc i) p) visited1"
    by (rule unvisited_step [OF 10(4) u(2) x(2)]) (use below_from_Suc(2) in blast)
  from 10(2) [OF u1 10(4)] x v show ?case
    unfolding to_go_entries.simps sanitize_entries_visit below_from_Suc(1) [of i p] image_Un
    by (auto split: prod.splits)
qed (simp_all add: visit_def)

lemma sanitized_metadata_masks:
  assumes "inj heap"
  shows "sanitized_metadata heap md
    = map_option (mask_entries (isSensitiveKey DefaultSensitivePatterns)) md"
proof (cases md)
  case None
  then show ?thesis
    by (simp add: sanitized_metadata_def SanitizeMetadata_def MetadataSanitizer_Sanitize_def)
next
  case (Some m)
  have "unvisited heap (below_from 0 []) []" by (simp add: unvisited_def)
  from sanitize_json(3) [OF assms this] Some show ?thesis
    by (cases m) (auto simp: sanitized_metadata_def SanitizeMetadata_def MetadataSanitizer_Sanitize_def)
qed

text \<open>The sanitizer looks into maps with values of any type and into slices of such values. A pointer, a
  struct and a container of another type are copied as they are, unless they are replaced by a
  descriptor: \<open>masked P\<close> asks \<open>P\<close> of those, and of everything else that the value of every sensitive key
  is the mask. \<open>copied P\<close> asks \<open>P\<close> of those that the sanitizer reaches in a value.\<close>

fun masked :: "(go_value \<Rightarrow> bool) \<Rightarrow> (string \<Rightarrow> bool) \<Rightarrow> go_value \<Rightarrow> bool"
  and masked_list :: "(go_value \<Rightarrow> bool) \<Rightarrow> (string \<Rightarrow> bool) \<Rightarrow> go_value list \<Rightarrow> bool"
  and masked_entries :: "(go_value \<Rightarrow> bool) \<Rightarrow> (string \<Rightarrow> bool) \<Rightarrow> (string \<times> go_value) list \<Rightarrow> bool" where
  "masked P sensitive (GMap a m) = masked_entries P sensitive m"
| "masked P sensitive (GSlice a xs) = masked_list P sensitive xs"
| "masked P sensitive (GPtr a v) = P (GPtr a v)"
| "masked P sensitive (GStruct fs) = P (GStruct fs)"
| "masked P sensitive (GTypedContainer a) = P (GTypedContainer a)"
| "masked P sensitive v = True"
| "masked_list P sensitive [] = True"
| "masked_list P sensitive (v # xs) = (masked P sensitive v \<and> masked_list P sensitive xs)"
| "masked_entries P sensitive [] = True"
| "masked_entries P sensitive ((k, v) # m) =
     ((sensitive k \<longrightarrow> v = MaskedValue) \<and> masked P sensitive v \<and> masked_entries P sensitive m)"

fun copied :: "(go_value \<Rightarrow> bool) \<Rightarrow> (string \<Rightarrow> bool) \<Rightarrow> go_value \<Rightarrow> bool"
  and copied_list :: "(go_value \<Rightarrow> bool) \<Rightarrow> (string \<Rightarrow> bool) \<Rightarrow> go_value list \<Rightarrow> bool"
  and copied_entries :: "(go_value \<Rightarrow> bool) \<Rightarrow> (string \<Rightarrow> bool) \<Rightarrow> (string \<times> go_value) list \<Rightarrow> bool" where
  "copied P sensitive (GMap a m) = copied_entries P sensitive m"
| "copied P sensitive (GSlice a xs) = copied_list P sensitive xs"
| "copied P sensitive (GPtr a v) = P (GPtr a v)"
| "copied P sensitive (GStruct fs) = P (GStruct fs)"
| "copied P sensitive (GTypedContainer a) = P (GTypedContainer a)"
| "copied P sensitive v = True"
| "copied_list P sensitive [] = True"
| "copied_list P sensitive (v # xs) = (copied P sensitive v \<and> copied_list P sensitive xs)"
| "copied_entries P sensitive [] = True"
| "copied_entries P sensitive ((k, v) # m) =
     ((sensitive k \<or> copied P sensitive v) \<and> copied_entries P sensitive m)"

lemma masked_text [simp]: "masked P sensitive MaskedValue"
  by (simp add: MaskedValue_def)

lemma sanitize_masked:
  "copied_entries P sensitive m \<Longrightarrow>
    masked_entries P sensitive (fst (sanitizeWithCycleDetection sensitive m visited))"
  "copied_list P sensitive xs \<Longrightarrow>
    masked_list P sensitive (fst (sanitizeSliceWithCycleDetection sensitive xs visited))"
  "copied P sensitive v \<Longrightarrow> masked P sensitive (fst (sanitize_nested sensitive v visited))"
proof (induction sensitive m visited and sensitive xs visited and sensitive v visited
    rule: sanitizeWithCycleDetection_sanitizeSliceWithCycleDetection_sanitize_nested.induct)
  case (2 sensitive key v m visited)
  then show ?case
    by (cases "nonSerializableDescriptor v visited"; cases "sanitize_nested sensitive v (snd (nonSerializableDescriptor v visited))";
        cases "fst (nonSerializableDescriptor v visited)")
      (auto simp: case_prod_unfold Let_def)
next
  case (4 sensitive v xs visited)
  then show ?case
    by (cases "nonSerializableDescriptor v visited"; cases "sanitize_nested sensitive v (snd (nonSerializableDescriptor v visited))";
        cases "fst (nonSerializableDescriptor v visited)")
      (auto simp: case_prod_unfold Let_def)
qed (simp_all add: case_prod_unfold Let_def)

text \<open>Decoded JSON has none of the values that are copied.\<close>

lemma json_copied:
  "copied P sensitive (to_go heap p x)" "copied_list P sensitive (to_go_list heap p i xs)"
  "copied_entries P sensitive (to_go_entries heap p i m)"
  by (induction heap p x and heap p i xs and heap p i m rule: to_go_to_go_list_to_go_entries.induct)
    simp_all

fun copied_as_is :: "go_value \<Rightarrow> bool" where
  "copied_as_is (GPtr a v) = True"
| "copied_as_is (GStruct fs) = True"
| "copied_as_is (GTypedContainer a) = True"
| "copied_as_is v = False"

lemma sanitize_nested_as_is: "copied_as_is v \<Longrightarrow> sanitize_nested sensitive v visited = (v, visited)"
  by (cases v) simp_all

end
