(* ===== verification/Validations.thy ===== *)
theory Validations
  imports AuditStore StringArrays Sanitize
begin

text \<open>
  The record of a validation: the entity and the response (\<^verbatim>\<open>pkg/model/transaction_validation.go\<close>,
  \<^verbatim>\<open>pkg/model/validation.go\<close>), the row it becomes
  (\<^verbatim>\<open>transaction_validation_postgresql_model.go\<close>) and the insert-only table
  (\<^verbatim>\<open>transaction_validation_repository.go\<close>, with the unique index of migration 9). A JSON
  column holds the value that its text decodes to, so what \<^verbatim>\<open>encoding/json\<close> does to the
  structures is written out: fields tagged \<^verbatim>\<open>json:"-"\<close> are lost and empty maps tagged
  \<^verbatim>\<open>omitempty\<close> come back nil. UUIDs and arrays are kept as the texts the code makes.
\<close>

subsection \<open>The entity\<close>

record 'd TransactionValidation =
  t_ID :: uuid
  t_RequestID :: uuid
  t_TransactionType :: TransactionType
  t_SubType :: "string option"
  t_Amount :: 'd
  t_Currency :: string
  t_TransactionTimestamp :: gotime
  t_Account :: AccountContext
  t_Segment :: "SegmentContext option"
  t_Portfolio :: "PortfolioContext option"
  t_Merchant :: "MerchantContext option"
  t_Metadata :: "metadata option"
  t_Result :: EvaluationResult
  t_LimitUsageDetails :: "'d LimitUsageDetail list"
  t_ProcessingTimeMs :: int
  t_CreatedAt :: gotime

record 'd ValidationResponse =
  vr_ValidationID :: uuid
  vr_RequestID :: uuid
  vr_Result :: EvaluationResult
  vr_LimitUsageDetails :: "'d LimitUsageDetail list"
  vr_ProcessingTimeMs :: int
  vr_EvaluatedAt :: gotime

definition bare_result :: "Decision \<Rightarrow> EvaluationResult" where
  "bare_result d = \<lparr>e_Decision = d, e_MatchedRuleIDs = [], e_EvaluatedRuleIDs = [], e_Reason = [],
     e_TotalRulesLoaded = 0, e_Truncated = False\<rparr>"

definition NewValidationResponse :: "uuid \<Rightarrow> uuid \<Rightarrow> Decision \<Rightarrow> gotime \<Rightarrow> 'd ValidationResponse" where
  "NewValidationResponse validationID requestID decision evaluatedAt =
     \<lparr>vr_ValidationID = validationID, vr_RequestID = requestID, vr_Result = bare_result decision,
      vr_LimitUsageDetails = [], vr_ProcessingTimeMs = 0, vr_EvaluatedAt = evaluatedAt\<rparr>"

text \<open>What the literal of \<^verbatim>\<open>NewTransactionValidation\<close> leaves out has its zero value.\<close>

definition NewTransactionValidation ::
  "uuid \<Rightarrow> Decision \<Rightarrow> gotime \<Rightarrow> (err, 'd::zero TransactionValidation) result" where
  "NewTransactionValidation i decision createdAt =
     (if i = uuid_Nil then Inl ErrTransactionValidationIDRequired
      else if \<not> Decision_IsValid decision then Inl ErrInvalidDecision
      else if time_IsZero createdAt then Inl ErrTransactionValidationCreatedAtRequired
      else Inr \<lparr>t_ID = i, t_RequestID = uuid_Nil, t_TransactionType = TransactionTypeOther [],
        t_SubType = None, t_Amount = 0, t_Currency = [], t_TransactionTimestamp = 0,
        t_Account = \<lparr>ac_ID = uuid_Nil, ac_Type = [], ac_Status = [], ac_Metadata = None\<rparr>,
        t_Segment = None, t_Portfolio = None, t_Merchant = None, t_Metadata = None,
        t_Result = bare_result decision, t_LimitUsageDetails = [], t_ProcessingTimeMs = 0,
        t_CreatedAt = createdAt\<rparr>)"

text \<open>The counts of loaded rules are not among the fields that are copied.\<close>

definition ToValidationResponse :: "'d TransactionValidation option \<Rightarrow> 'd ValidationResponse option" where
  "ToValidationResponse tv = map_option (\<lambda>tv.
     \<lparr>vr_ValidationID = t_ID tv, vr_RequestID = t_RequestID tv,
      vr_Result = (bare_result (e_Decision (t_Result tv)))
        \<lparr>e_Reason := e_Reason (t_Result tv), e_MatchedRuleIDs := e_MatchedRuleIDs (t_Result tv),
         e_EvaluatedRuleIDs := e_EvaluatedRuleIDs (t_Result tv)\<rparr>,
      vr_LimitUsageDetails = t_LimitUsageDetails tv, vr_ProcessingTimeMs = t_ProcessingTimeMs tv,
      vr_EvaluatedAt = t_CreatedAt tv\<rparr>) tv"

subsection \<open>JSON columns\<close>

definition json_metadata :: "metadata option \<Rightarrow> metadata option" where
  "json_metadata m = (if m = Some [] then None else m)"

definition json_account :: "AccountContext \<Rightarrow> AccountContext" where
  "json_account a = a\<lparr>ac_Metadata := json_metadata (ac_Metadata a)\<rparr>"

definition json_segment :: "SegmentContext \<Rightarrow> SegmentContext" where
  "json_segment s = s\<lparr>sc_Metadata := json_metadata (sc_Metadata s)\<rparr>"

definition json_portfolio :: "PortfolioContext \<Rightarrow> PortfolioContext" where
  "json_portfolio p = p\<lparr>pc_Metadata := json_metadata (pc_Metadata p)\<rparr>"

definition json_merchant :: "MerchantContext \<Rightarrow> MerchantContext" where
  "json_merchant m = m\<lparr>mc_Metadata := json_metadata (mc_Metadata m)\<rparr>"

definition json_detail :: "'d LimitUsageDetail \<Rightarrow> 'd LimitUsageDetail" where
  "json_detail d = d\<lparr>d_InternalLimitType := LimitTypeOther [], d_Scopes := [], d_InternalPeriodKey := []\<rparr>"

subsection \<open>Rows\<close>

record 'd TransactionValidationPostgreSQLModel =
  m_ID :: string
  m_RequestID :: string
  m_TransactionType :: string
  m_SubType :: "string option"
  m_Amount :: 'd
  m_Currency :: string
  m_TransactionTimestamp :: gotime
  m_Account :: AccountContext
  m_Segment :: "SegmentContext option"
  m_Portfolio :: "PortfolioContext option"
  m_Merchant :: "MerchantContext option"
  m_Metadata :: metadata
  m_Decision :: string
  m_Reason :: string
  m_MatchedRuleIds :: string
  m_EvaluatedRuleIds :: string
  m_LimitUsageDetails :: "'d LimitUsageDetail list"
  m_ProcessingTimeMs :: int
  m_CreatedAt :: gotime

text \<open>The conversions \<^verbatim>\<open>model.TransactionType(s)\<close> and \<^verbatim>\<open>model.Decision(s)\<close>.\<close>

definition TransactionType_of :: "string \<Rightarrow> TransactionType" where
  "TransactionType_of s =
     (if s = ''CARD'' then TransactionTypeCard else if s = ''WIRE'' then TransactionTypeWire
      else if s = ''PIX'' then TransactionTypePix else if s = ''CRYPTO'' then TransactionTypeCrypto
      else TransactionTypeOther s)"

definition Decision_of :: "string \<Rightarrow> Decision" where
  "Decision_of s =
     (if s = ''ALLOW'' then DecisionAllow else if s = ''DENY'' then DecisionDeny
      else if s = ''REVIEW'' then DecisionReview else DecisionOther s)"

definition FromEntity :: "ext \<Rightarrow> 'd TransactionValidation \<Rightarrow> 'd TransactionValidationPostgreSQLModel" where
  "FromEntity X e =
     \<lparr>m_ID = x_uuid_string X (t_ID e), m_RequestID = x_uuid_string X (t_RequestID e),
      m_TransactionType = TransactionType_String (t_TransactionType e), m_SubType = t_SubType e,
      m_Amount = t_Amount e, m_Currency = t_Currency e,
      m_TransactionTimestamp = t_TransactionTimestamp e, m_Account = json_account (t_Account e),
      m_Segment = map_option json_segment (t_Segment e),
      m_Portfolio = map_option json_portfolio (t_Portfolio e),
      m_Merchant = map_option json_merchant (t_Merchant e),
      m_Metadata = (case t_Metadata e of None \<Rightarrow> [] | Some m \<Rightarrow> m),
      m_Decision = Decision_String (e_Decision (t_Result e)), m_Reason = e_Reason (t_Result e),
      m_MatchedRuleIds = formatUUIDArrayString X (Some (e_MatchedRuleIDs (t_Result e))),
      m_EvaluatedRuleIds = formatUUIDArrayString X (Some (e_EvaluatedRuleIDs (t_Result e))),
      m_LimitUsageDetails = map json_detail (t_LimitUsageDetails e),
      m_ProcessingTimeMs = t_ProcessingTimeMs e, m_CreatedAt = t_CreatedAt e\<rparr>"

definition ToEntity ::
  "(string \<Rightarrow> (err, uuid) result) \<Rightarrow> 'd TransactionValidationPostgreSQLModel
   \<Rightarrow> (err, 'd TransactionValidation) result" where
  "ToEntity uuid_Parse m =
     (case uuid_Parse (m_ID m) of
        Inl e \<Rightarrow> Inl (Wrap ''invalid TransactionValidation ID'' e)
      | Inr i \<Rightarrow>
     (case uuid_Parse (m_RequestID m) of
        Inl e \<Rightarrow> Inl (Wrap ''invalid RequestID'' e)
      | Inr requestID \<Rightarrow>
     (case parseUUIDArrayString uuid_Parse (m_MatchedRuleIds m) of
        Inl e \<Rightarrow> Inl (Wrap ''failed to parse matched_rule_ids'' e)
      | Inr matchedRuleIDs \<Rightarrow>
     (case parseUUIDArrayString uuid_Parse (m_EvaluatedRuleIds m) of
        Inl e \<Rightarrow> Inl (Wrap ''failed to parse evaluated_rule_ids'' e)
      | Inr evaluatedRuleIDs \<Rightarrow>
        Inr \<lparr>t_ID = i, t_RequestID = requestID, t_TransactionType = TransactionType_of (m_TransactionType m),
          t_SubType = m_SubType m, t_Amount = m_Amount m, t_Currency = m_Currency m,
          t_TransactionTimestamp = m_TransactionTimestamp m, t_Account = m_Account m,
          t_Segment = m_Segment m, t_Portfolio = m_Portfolio m, t_Merchant = m_Merchant m,
          t_Metadata = (if m_Metadata m = [] then None else Some (m_Metadata m)),
          t_Result = (bare_result (Decision_of (m_Decision m)))\<lparr>e_Reason := m_Reason m,
            e_MatchedRuleIDs := matchedRuleIDs, e_EvaluatedRuleIDs := evaluatedRuleIDs\<rparr>,
          t_LimitUsageDetails = m_LimitUsageDetails m, t_ProcessingTimeMs = m_ProcessingTimeMs m,
          t_CreatedAt = m_CreatedAt m\<rparr>))))"

text \<open>What a column of type \<^verbatim>\<open>TIMESTAMP WITH TIME ZONE\<close> holds of a time: microseconds, to which the
  driver (\<^verbatim>\<open>pgx\<close>) cuts it.\<close>

definition timestamptz :: "gotime \<Rightarrow> gotime" where
  "timestamptz t = t - t mod 1000"

lemma timestamptz_bounds: "timestamptz t \<le> t" "t < timestamptz t + 1000"
  "timestamptz (timestamptz t) = timestamptz t"
  by (simp_all add: timestamptz_def mod_diff_eq)

text \<open>The arrays pass the driver as the text of a \<^verbatim>\<open>StringArray\<close>.\<close>

definition inserted_row :: "ext \<Rightarrow> 'd TransactionValidation \<Rightarrow> 'd TransactionValidationPostgreSQLModel" where
  "inserted_row X e =
     (FromEntity X e)
       \<lparr>m_MatchedRuleIds := the (StringArray_Value (Some (uuidSliceToStringArray X
            (Some (e_MatchedRuleIDs (t_Result e)))))),
        m_EvaluatedRuleIds := the (StringArray_Value (Some (uuidSliceToStringArray X
            (Some (e_EvaluatedRuleIDs (t_Result e)))))),
        m_TransactionTimestamp := timestamptz (t_TransactionTimestamp e),
        m_CreatedAt := timestamptz (t_CreatedAt e)\<rparr>"

definition scanValidation ::
  "(string \<Rightarrow> (err, uuid) result) \<Rightarrow> 'd TransactionValidationPostgreSQLModel
   \<Rightarrow> (err, 'd TransactionValidation) result" where
  "scanValidation uuid_Parse m =
     bind_result (StringArray_Scan (SqlText (m_MatchedRuleIds m))) (\<lambda>matchedRuleIDs.
     bind_result (StringArray_Scan (SqlText (m_EvaluatedRuleIds m))) (\<lambda>evaluatedRuleIDs.
     (case ToEntity uuid_Parse (m\<lparr>m_MatchedRuleIds := formatUUIDArrayFromStringArray matchedRuleIDs,
             m_EvaluatedRuleIds := formatUUIDArrayFromStringArray evaluatedRuleIDs\<rparr>) of
        Inl e \<Rightarrow> Inl (Wrap ''failed to convert to entity'' e)
      | Inr tv \<Rightarrow> Inr tv)))"

subsection \<open>The table\<close>

record ('d, 'p) tracer_db = "('d, 'p) audit_db" +
  db_validations :: "'d TransactionValidationPostgreSQLModel list"

definition ErrDuplicateValidation :: err where
  "ErrDuplicateValidation = Sentinel ''duplicate transaction validation''"

text \<open>The checks of the table: the enumerations, the positive amount, the non-negative time.\<close>

definition row_accepted :: "('d::linordered_ab_group_add) TransactionValidationPostgreSQLModel \<Rightarrow> bool" where
  "row_accepted m =
     (TransactionType_IsValid (TransactionType_of (m_TransactionType m))
      \<and> Decision_IsValid (Decision_of (m_Decision m)) \<and> 0 < m_Amount m \<and> 0 \<le> m_ProcessingTimeMs m)"

definition ValidationRepo_insertInternal ::
  "ext \<Rightarrow> ('d::linordered_ab_group_add) TransactionValidation option \<Rightarrow> ('d, 'p, 'x) tracer_db_scheme
   \<Rightarrow> ('d, 'p, 'x) tracer_db_scheme \<times> err option" where
  "ValidationRepo_insertInternal X validation db =
     (case validation of
        None \<Rightarrow> (db, Some (Sentinel ''validation cannot be nil''))
      | Some tv \<Rightarrow>
     (case next_fault db of
        Some f \<Rightarrow> (consume_fault db, Some (Wrap ''failed to insert transaction validation'' f))
      | None \<Rightarrow>
          let db1 = consume_fault db; row = inserted_row X tv in
          if \<not> row_accepted row
          then (db1, Some (Wrap ''failed to insert transaction validation'' (External ''check_violation'')))
          else if list_ex (\<lambda>r. m_RequestID r = m_RequestID row \<or> m_ID r = m_ID row) (db_validations db1)
          then (db1, Some (Wrap ''request_id'' ErrDuplicateValidation))
          else (db1\<lparr>db_validations := db_validations db1 @ [row]\<rparr>, None)))"

definition ValidationRepo_Insert ::
  "ext \<Rightarrow> ('d::linordered_ab_group_add) TransactionValidation option \<Rightarrow> ('d, 'p, 'x) tracer_db_scheme
   \<Rightarrow> ('d, 'p, 'x) tracer_db_scheme \<times> err option" where
  "ValidationRepo_Insert X validation db =
     (case validation of
        None \<Rightarrow> (db, Some (Sentinel ''validation cannot be nil''))
      | Some tv \<Rightarrow>
     (case next_fault db of
        Some f \<Rightarrow> (consume_fault db, Some (Wrap ''failed to get database connection'' f))
      | None \<Rightarrow> ValidationRepo_insertInternal X (Some tv) (consume_fault db)))"

definition ValidationRepo_InsertWithTx ::
  "ext \<Rightarrow> bool \<Rightarrow> ('d::linordered_ab_group_add) TransactionValidation option
   \<Rightarrow> ('d, 'p, 'x) tracer_db_scheme \<Rightarrow> ('d, 'p, 'x) tracer_db_scheme \<times> err option" where
  "ValidationRepo_InsertWithTx X db_given validation db =
     (case validation of
        None \<Rightarrow> (db, Some (Sentinel ''validation cannot be nil''))
      | Some tv \<Rightarrow>
          if \<not> db_given then (db, Some ErrNilConnection)
          else ValidationRepo_insertInternal X (Some tv) db)"

definition ValidationRepo_GetByID ::
  "ext \<Rightarrow> (string \<Rightarrow> (err, uuid) result) \<Rightarrow> uuid \<Rightarrow> ('d, 'p, 'x) tracer_db_scheme
   \<Rightarrow> ('d, 'p, 'x) tracer_db_scheme \<times> (err, 'd TransactionValidation) result" where
  "ValidationRepo_GetByID X uuid_Parse i = with_db ''failed to get transaction validation'' (\<lambda>db.
     (db, case find (\<lambda>r. m_ID r = x_uuid_string X i) (db_validations db) of
            None \<Rightarrow> Inl ErrTransactionValidationNotFound
          | Some r \<Rightarrow>
              (case scanValidation uuid_Parse r of
                 Inl e \<Rightarrow> Inl (Wrap ''failed to get transaction validation'' e)
               | Inr tv \<Rightarrow> Inr tv)))"

definition FindByRequestID ::
  "ext \<Rightarrow> (string \<Rightarrow> (err, uuid) result) \<Rightarrow> uuid \<Rightarrow> ('d, 'p, 'x) tracer_db_scheme
   \<Rightarrow> ('d, 'p, 'x) tracer_db_scheme \<times> (err, 'd TransactionValidation option) result" where
  "FindByRequestID X uuid_Parse requestID db =
     (if requestID = uuid_Nil then (db, Inr None)
      else with_db ''failed to find transaction validation by request ID'' (\<lambda>db.
        (db, case find (\<lambda>r. m_RequestID r = x_uuid_string X requestID) (db_validations db) of
               None \<Rightarrow> Inr None
             | Some r \<Rightarrow>
                 (case scanValidation uuid_Parse r of
                    Inl e \<Rightarrow> Inl (Wrap ''failed to find transaction validation by request ID'' e)
                  | Inr tv \<Rightarrow> Inr (Some tv)))) db)"

subsection \<open>What is read back\<close>

lemma TransactionType_of_String: "TransactionType_IsValid t \<Longrightarrow> TransactionType_of (TransactionType_String t) = t"
  by (cases t) (simp_all add: TransactionType_of_def)

lemma Decision_of_String: "Decision_IsValid d \<Longrightarrow> Decision_of (Decision_String d) = d"
  by (cases d) (simp_all add: Decision_of_def)

definition whole_microseconds :: "'d TransactionValidation \<Rightarrow> 'd TransactionValidation" where
  "whole_microseconds tv = tv
     \<lparr>t_TransactionTimestamp := timestamptz (t_TransactionTimestamp tv),
      t_CreatedAt := timestamptz (t_CreatedAt tv)\<rparr>"

definition stored :: "'d TransactionValidation \<Rightarrow> 'd TransactionValidation" where
  "stored tv = (whole_microseconds tv)
     \<lparr>t_Account := json_account (t_Account tv), t_Segment := map_option json_segment (t_Segment tv),
      t_Portfolio := map_option json_portfolio (t_Portfolio tv),
      t_Merchant := map_option json_merchant (t_Merchant tv),
      t_Metadata := json_metadata (t_Metadata tv),
      t_Result := (t_Result tv)\<lparr>e_TotalRulesLoaded := 0, e_Truncated := False\<rparr>,
      t_LimitUsageDetails := map json_detail (t_LimitUsageDetails tv)\<rparr>"

lemma array_column:
  assumes "uuid_codec X uuid_Parse"
  shows "StringArray_Scan (SqlText (the (StringArray_Value (Some (uuidSliceToStringArray X (Some us))))))
      = Inr (Some (map (x_uuid_string X) us))"
    and "formatUUIDArrayFromStringArray (Some (map (x_uuid_string X) us)) = formatUUIDArrayString X (Some us)"
proof -
  have "map unquoteElement (map (x_uuid_string X) us) = map (x_uuid_string X) us"
    using assms by (simp add: unquoteElement_plain uuid_codec_def)
  then show "StringArray_Scan (SqlText (the (StringArray_Value (Some (uuidSliceToStringArray X (Some us))))))
      = Inr (Some (map (x_uuid_string X) us))"
    using Scan_Value [of "Some (map (x_uuid_string X) us)"]
    by (simp add: uuidSliceToStringArray_def StringArray_Value_def)
  show "formatUUIDArrayFromStringArray (Some (map (x_uuid_string X) us)) = formatUUIDArrayString X (Some us)"
    by (simp add: formatUUIDArrayFromStringArray_def formatUUIDArrayString_def)
qed

lemma ToEntity_FromEntity:
  assumes "uuid_codec X uuid_Parse" "TransactionType_IsValid (t_TransactionType tv)"
    "Decision_IsValid (e_Decision (t_Result tv))"
  shows "ToEntity uuid_Parse (FromEntity X (whole_microseconds tv)) = Inr (stored tv)"
proof -
  have p: "uuid_Parse (x_uuid_string X i) = Inr i" for i using assms(1) by (simp add: uuid_codec_def)
  note a = parseUUIDArrayString_format [OF assms(1)]
  show ?thesis
    using TransactionType_of_String [OF assms(2)] Decision_of_String [OF assms(3)]
    by (cases tv; cases "t_Result tv"; cases "t_Metadata tv")
      (simp_all add: ToEntity_def FromEntity_def p a stored_def whole_microseconds_def bare_result_def
        json_metadata_def)
qed

lemma scan_inserted_row:
  assumes "uuid_codec X uuid_Parse" "TransactionType_IsValid (t_TransactionType tv)"
    "Decision_IsValid (e_Decision (t_Result tv))"
  shows "scanValidation uuid_Parse (inserted_row X tv) = Inr (stored tv)"
proof -
  have "(inserted_row X tv)\<lparr>m_MatchedRuleIds := formatUUIDArrayString X (Some (e_MatchedRuleIDs (t_Result tv))),
      m_EvaluatedRuleIds := formatUUIDArrayString X (Some (e_EvaluatedRuleIDs (t_Result tv)))\<rparr>
      = FromEntity X (whole_microseconds tv)"
    by (simp add: inserted_row_def FromEntity_def whole_microseconds_def)
  then show ?thesis
    using ToEntity_FromEntity [OF assms]
    by (simp add: scanValidation_def inserted_row_def array_column [OF assms(1)])
qed

end
