(* ===== verification/ValidationService.thy ===== *)
theory ValidationService
  imports Validations
begin

text \<open>
  The orchestration of a validation (\<^verbatim>\<open>internal/services/validation_service.go\<close>). The rule
  evaluator and the limit checker are arguments, as they are interfaces there. A transaction works on
  the database itself and rollback puts back the tables as they were when it began; what a rollback
  does not undo are the calls to the driver and the numbers drawn from a sequence. \<open>others\<close> is what
  other requests do to the database between the look for a duplicate and the rest: two requests with
  the same identifier can meet there. The clock, the identifiers, the measured time and the addresses
  of the metadata's containers are the record \<open>request_env\<close>.
\<close>

record request_env =
  n_ctx :: "err option"
  n_validationID :: uuid
  n_evaluatedAt :: gotime
  n_persistNow :: gotime
  n_elapsedMs :: int
  n_eventID :: uuid
  n_eventNow :: gotime
  n_clientIP :: string
  n_heap :: "nat list \<Rightarrow> nat"

record service_env =
  s_ext :: ext
  s_audit :: audit_ext
  s_uuid_Parse :: "string \<Rightarrow> (err, uuid) result"

record 'd ValidateResult =
  res_Response :: "'d ValidationResponse"
  res_IsDuplicate :: bool

subsection \<open>Transactions\<close>

definition BeginTx :: "('d, 'x) counter_db_scheme \<Rightarrow> ('d, 'x) counter_db_scheme \<times> err option" where
  "BeginTx db = (consume_fault db, next_fault db)"

definition rolled_back ::
  "('d, 'p, 'x) tracer_db_scheme \<Rightarrow> ('d, 'p, 'x) tracer_db_scheme \<Rightarrow> ('d, 'p, 'x) tracer_db_scheme" where
  "rolled_back began tx = began\<lparr>db_faults := db_faults tx, db_audit_seq := db_audit_seq tx\<rparr>"

text \<open>A rollback that reports an error has still ended the transaction.\<close>

definition Rollback ::
  "('d, 'p, 'x) tracer_db_scheme \<Rightarrow> ('d, 'p, 'x) tracer_db_scheme \<Rightarrow> ('d, 'p, 'x) tracer_db_scheme" where
  "Rollback began tx = consume_fault (rolled_back began tx)"

definition Commit ::
  "('d, 'p, 'x) tracer_db_scheme \<Rightarrow> ('d, 'p, 'x) tracer_db_scheme
   \<Rightarrow> ('d, 'p, 'x) tracer_db_scheme \<times> err option" where
  "Commit began tx =
     (case next_fault tx of
        Some e \<Rightarrow> (consume_fault (rolled_back began tx), Some e)
      | None \<Rightarrow> (consume_fault tx, None))"

subsection \<open>The records of a validation\<close>

definition validateTransactionValidation ::
  "('d::linordered_ab_group_add) TransactionValidation \<Rightarrow> err option" where
  "validateTransactionValidation tv = first_error
     [(if t_ID tv = uuid_Nil then Some (Sentinel ''transaction validation ID is nil'') else None),
      (if \<not> Decision_IsValid (e_Decision (t_Result tv)) then Some (Sentinel ''invalid decision'') else None),
      (if t_RequestID tv = uuid_Nil
       then Some (Sentinel ''transaction validation request ID is nil'') else None),
      (if \<not> TransactionType_IsValid (t_TransactionType tv)
       then Some (Sentinel ''invalid transaction type'') else None),
      (if t_Amount tv \<le> 0 then Some (Sentinel ''invalid amount'') else None),
      (if t_Currency tv = [] then Some (Sentinel ''currency is empty'') else None),
      (if time_IsZero (t_TransactionTimestamp tv)
       then Some (Sentinel ''transaction timestamp is zero'') else None),
      (if ac_ID (t_Account tv) = uuid_Nil then Some (Sentinel ''account ID is nil'') else None)]"

definition filled_validation ::
  "(nat list \<Rightarrow> nat) \<Rightarrow> 'd ValidationRequest \<Rightarrow> 'd ValidationResponse \<Rightarrow> 'd TransactionValidation
   \<Rightarrow> 'd TransactionValidation" where
  "filled_validation heap req resp tv = tv
     \<lparr>t_RequestID := v_RequestID req, t_TransactionType := v_TransactionType req,
      t_SubType := v_SubType req, t_Amount := v_Amount req, t_Currency := v_Currency req,
      t_TransactionTimestamp := v_TransactionTimestamp req, t_Account := v_Account req,
      t_Segment := v_Segment req, t_Portfolio := v_Portfolio req, t_Merchant := v_Merchant req,
      t_Metadata := sanitized_metadata heap (v_Metadata req), t_Result := vr_Result resp,
      t_LimitUsageDetails := vr_LimitUsageDetails resp, t_ProcessingTimeMs := vr_ProcessingTimeMs resp\<rparr>"

definition buildTransactionValidation ::
  "(nat list \<Rightarrow> nat) \<Rightarrow> ('d::linordered_ab_group_add) ValidationRequest \<Rightarrow> 'd ValidationResponse \<Rightarrow> gotime
   \<Rightarrow> (err, 'd TransactionValidation) result" where
  "buildTransactionValidation heap req resp createdAt =
     (case NewTransactionValidation (vr_ValidationID resp) (e_Decision (vr_Result resp)) createdAt of
        Inl e \<Rightarrow> Inl (Wrap ''failed to create transaction validation record'' e)
      | Inr tv0 \<Rightarrow>
          let tv = filled_validation heap req resp tv0 in
          (case validateTransactionValidation tv of
             Some e \<Rightarrow> Inl (Wrap ''transaction validation record validation failed'' e)
           | None \<Rightarrow> Inr tv))"

definition buildRequestSnapshot :: "ext \<Rightarrow> 'd ValidationRequest \<Rightarrow> 'd any_map" where
  "buildRequestSnapshot X req =
     [(''requestId'', AnyString (x_uuid_string X (v_RequestID req))),
      (''transactionType'', AnyString (TransactionType_String (v_TransactionType req))),
      (''subType'', (case v_SubType req of None \<Rightarrow> AnyNil | Some s \<Rightarrow> AnyString s)),
      (''amount'', AnyAmount (v_Amount req)),
      (''currency'', AnyString (v_Currency req)),
      (''timestamp'', AnyTime (v_TransactionTimestamp req)),
      (''account'', AnyMap
        ([(''id'', AnyString (x_uuid_string X (ac_ID (v_Account req)))),
          (''type'', AnyString (ac_Type (v_Account req))),
          (''status'', AnyString (ac_Status (v_Account req))),
          (''metadata'', AnyMetadata (ac_Metadata (v_Account req)))]
         @ (case v_Segment req of None \<Rightarrow> []
            | Some s \<Rightarrow> [(''segmentId'', AnyString (x_uuid_string X (sc_ID s)))])
         @ (case v_Portfolio req of None \<Rightarrow> []
            | Some p \<Rightarrow> [(''portfolioId'', AnyString (x_uuid_string X (pc_ID p)))]))),
      (''metadata'', AnyMetadata (v_Metadata req))]
     @ (case v_Segment req of None \<Rightarrow> []
        | Some s \<Rightarrow> [(''segment'', AnyMap
            [(''segmentId'', AnyString (x_uuid_string X (sc_ID s))), (''name'', AnyString (sc_Name s)),
             (''metadata'', AnyMetadata (sc_Metadata s))])])
     @ (case v_Portfolio req of None \<Rightarrow> []
        | Some p \<Rightarrow> [(''portfolio'', AnyMap
            [(''portfolioId'', AnyString (x_uuid_string X (pc_ID p))), (''name'', AnyString (pc_Name p)),
             (''metadata'', AnyMetadata (pc_Metadata p))])])
     @ (case v_Merchant req of None \<Rightarrow> []
        | Some m \<Rightarrow> [(''merchant'', AnyMap
            [(''merchantId'', AnyUUID (mc_ID m)), (''name'', AnyString (mc_Name m)),
             (''category'', AnyString (mc_Category m)), (''country'', AnyString (mc_Country m)),
             (''metadata'', AnyMetadata (mc_Metadata m))])])"

definition response_context :: "'d ValidationResponse \<Rightarrow> 'd ValidationResponseContext" where
  "response_context resp = \<lparr>vrc_ProcessingTimeMs = vr_ProcessingTimeMs resp,
     vrc_LimitUsageDetails = vr_LimitUsageDetails resp\<rparr>"

text \<open>Outside a transaction errors are logged and dropped.\<close>

definition persistTransactionValidation ::
  "service_env \<Rightarrow> request_env \<Rightarrow> ('d::linordered_ab_group_add) ValidationRequest \<Rightarrow> 'd ValidationResponse
   \<Rightarrow> ('d, 'p, 'x) tracer_db_scheme \<Rightarrow> ('d, 'p, 'x) tracer_db_scheme" where
  "persistTransactionValidation S N req resp db =
     (case buildTransactionValidation (n_heap N) req resp (n_persistNow N) of
        Inl e \<Rightarrow> db
      | Inr tv \<Rightarrow> fst (ValidationRepo_Insert (s_ext S) (Some tv) db))"

definition persistAuditEvent ::
  "service_env \<Rightarrow> request_env \<Rightarrow> 'd ValidationRequest \<Rightarrow> 'd ValidationResponse
   \<Rightarrow> ('d, 'p, 'x) tracer_db_scheme \<Rightarrow> ('d, 'p, 'x) tracer_db_scheme" where
  "persistAuditEvent S N req resp db =
     fst (RecordValidationEvent (s_ext S) (s_audit S) (n_eventID N) (n_eventNow N)
       (vr_ValidationID resp) (buildRequestSnapshot (s_ext S) req) (vr_Result resp)
       (response_context resp) (n_clientIP N) db)"

definition persistTransactionValidationWithTx ::
  "service_env \<Rightarrow> request_env \<Rightarrow> ('d::linordered_ab_group_add) ValidationRequest \<Rightarrow> 'd ValidationResponse
   \<Rightarrow> ('d, 'p, 'x) tracer_db_scheme \<Rightarrow> ('d, 'p, 'x) tracer_db_scheme \<times> err option" where
  "persistTransactionValidationWithTx S N req resp tx =
     (case buildTransactionValidation (n_heap N) req resp (n_persistNow N) of
        Inl e \<Rightarrow> (tx, Some (Wrap ''failed to build transaction validation record'' e))
      | Inr tv \<Rightarrow>
          (case ValidationRepo_InsertWithTx (s_ext S) True (Some tv) tx of
             (tx', Some e) \<Rightarrow> (tx', Some (Wrap ''failed to persist transaction validation record'' e))
           | (tx', None) \<Rightarrow> (tx', None)))"

definition persistAuditEventWithTx ::
  "service_env \<Rightarrow> request_env \<Rightarrow> 'd ValidationRequest \<Rightarrow> 'd ValidationResponse
   \<Rightarrow> ('d, 'p, 'x) tracer_db_scheme \<Rightarrow> ('d, 'p, 'x) tracer_db_scheme \<times> err option" where
  "persistAuditEventWithTx S N req resp tx =
     (case RecordValidationEventWithTx (s_ext S) (s_audit S) (n_eventID N) (n_eventNow N)
             (vr_ValidationID resp) (buildRequestSnapshot (s_ext S) req) (vr_Result resp)
             (response_context resp) (n_clientIP N) tx of
        (tx', Some e) \<Rightarrow> (tx', Some (Wrap ''failed to persist audit event'' e))
      | (tx', None) \<Rightarrow> (tx', None))"

definition rollbackAndPersist ::
  "service_env \<Rightarrow> request_env \<Rightarrow> ('d::linordered_ab_group_add) ValidationRequest \<Rightarrow> 'd ValidationResponse
   \<Rightarrow> ('d, 'p, 'x) tracer_db_scheme \<Rightarrow> ('d, 'p, 'x) tracer_db_scheme \<Rightarrow> ('d, 'p, 'x) tracer_db_scheme" where
  "rollbackAndPersist S N req resp began tx =
     persistAuditEvent S N req resp (persistTransactionValidation S N req resp (Rollback began tx))"

text \<open>The look for the other request's record runs on a connection of its own, which sees the database
  without the open transaction.\<close>

definition handleConcurrentDuplicate ::
  "service_env \<Rightarrow> err \<Rightarrow> 'd ValidationRequest \<Rightarrow> ('d, 'p, 'x) tracer_db_scheme
   \<Rightarrow> ('d, 'p, 'x) tracer_db_scheme \<times> 'd ValidateResult option" where
  "handleConcurrentDuplicate S e req db =
     (if \<not> errors_Is e ErrDuplicateValidation then (db, None)
      else case FindByRequestID (s_ext S) (s_uuid_Parse S) (v_RequestID req) db of
          (db', Inl findErr) \<Rightarrow> (db', None)
        | (db', Inr existing) \<Rightarrow>
            (db', map_option (\<lambda>resp. \<lparr>res_Response = resp, res_IsDuplicate = True\<rparr>)
                    (ToValidationResponse existing)))"

subsection \<open>Validation\<close>

text \<open>The part inside the transaction, for a decision other than deny; \<open>began\<close> is the database when
  it began.\<close>

definition allow_in_tx ::
  "service_env \<Rightarrow> request_env \<Rightarrow> ('d::linordered_ab_group_add) ValidationRequest \<Rightarrow> 'd ValidationResponse
   \<Rightarrow> ('d, 'p, 'x) tracer_db_scheme \<Rightarrow> ('d, 'p, 'x) tracer_db_scheme
   \<Rightarrow> ('d, 'p, 'x) tracer_db_scheme \<times> (err, 'd ValidateResult) result" where
  "allow_in_tx S N req response began tx =
     (case persistTransactionValidationWithTx S N req response tx of
        (tx1, Some e) \<Rightarrow>
          (case handleConcurrentDuplicate S e req (rolled_back began tx1) of
             (db', Some r) \<Rightarrow> (consume_fault db', Inr r)
           | (db', None) \<Rightarrow>
               (consume_fault db', Inl (Wrap ''failed to persist transaction validation'' e)))
      | (tx1, None) \<Rightarrow>
     (case persistAuditEventWithTx S N req response tx1 of
        (tx2, Some e) \<Rightarrow> (Rollback began tx2, Inl (Wrap ''failed to persist audit event'' e))
      | (tx2, None) \<Rightarrow>
     (case Commit began tx2 of
        (db', Some e) \<Rightarrow> (db', Inl (Wrap ''failed to commit transaction'' e))
      | (db', None) \<Rightarrow> (db', Inr \<lparr>res_Response = response, res_IsDuplicate = False\<rparr>))))"

definition limits_in_tx ::
  "service_env \<Rightarrow> request_env
   \<Rightarrow> ('d CheckLimitsInput \<Rightarrow> ('d, 'p, 'x) tracer_db_scheme
       \<Rightarrow> ('d, 'p, 'x) tracer_db_scheme \<times> (err, 'd CheckLimitsOutput option) result)
   \<Rightarrow> ('d::linordered_ab_group_add) ValidationRequest \<Rightarrow> 'd ValidationResponse
   \<Rightarrow> ('d, 'p, 'x) tracer_db_scheme
   \<Rightarrow> ('d, 'p, 'x) tracer_db_scheme \<times> (err, 'd ValidateResult) result" where
  "limits_in_tx S N check req response began =
     (case check (ToCheckLimitsInput req) began of
        (tx, Inl e) \<Rightarrow> (Rollback began tx, Inl (Wrap ''limit check failed'' e))
      | (tx, Inr None) \<Rightarrow> (Rollback began tx, Inl (Sentinel ''limit check returned nil result''))
      | (tx, Inr (Some limitOutput)) \<Rightarrow>
          let response = response\<lparr>vr_LimitUsageDetails := co_LimitUsageDetails limitOutput,
                vr_EvaluatedAt := co_EvaluatedAt limitOutput\<rparr>;
              timed = response\<lparr>vr_ProcessingTimeMs := n_elapsedMs N\<rparr>
          in
          if \<not> co_Allowed limitOutput then
            let denied = timed\<lparr>vr_Result := (vr_Result timed)\<lparr>e_Decision := DecisionDeny,
                  e_Reason := ''limit_exceeded''\<rparr>\<rparr>
            in (rollbackAndPersist S N req denied began tx,
                Inr \<lparr>res_Response = denied, res_IsDuplicate = False\<rparr>)
          else if e_Decision (vr_Result response) = DecisionReview then
            (rollbackAndPersist S N req timed began tx,
             Inr \<lparr>res_Response = timed, res_IsDuplicate = False\<rparr>)
          else allow_in_tx S N req timed began tx)"

definition Validate ::
  "service_env \<Rightarrow> request_env
   \<Rightarrow> ('d ValidationRequest \<Rightarrow> (err, EvaluationResult option) result)
   \<Rightarrow> ('d CheckLimitsInput \<Rightarrow> ('d, 'p, 'x) tracer_db_scheme
       \<Rightarrow> ('d, 'p, 'x) tracer_db_scheme \<times> (err, 'd CheckLimitsOutput option) result)
   \<Rightarrow> (('d, 'p, 'x) tracer_db_scheme \<Rightarrow> ('d, 'p, 'x) tracer_db_scheme)
   \<Rightarrow> ('d::linordered_ab_group_add) ValidationRequest option
   \<Rightarrow> ('d, 'p, 'x) tracer_db_scheme
   \<Rightarrow> ('d, 'p, 'x) tracer_db_scheme \<times> (err, 'd ValidateResult) result" where
  "Validate S N exec check others request db =
     (case n_ctx N of
        Some e \<Rightarrow> (db, Inl e)
      | None \<Rightarrow>
     (case request of
        None \<Rightarrow> (db, Inl (Sentinel ''validation request cannot be nil''))
      | Some req \<Rightarrow>
     (case FindByRequestID (s_ext S) (s_uuid_Parse S) (v_RequestID req) db of
        (db1, Inl e) \<Rightarrow> (db1, Inl (Wrap ''failed to check for duplicate request'' e))
      | (db1, Inr (Some existing)) \<Rightarrow>
          (db1, Inr \<lparr>res_Response = the (ToValidationResponse (Some existing)), res_IsDuplicate = True\<rparr>)
      | (db1, Inr None) \<Rightarrow>
          let db2 = others db1;
              response = NewValidationResponse (n_validationID N) (v_RequestID req) DecisionAllow
                (n_evaluatedAt N)
          in
          (case exec req of
             Inl e \<Rightarrow> (db2, Inl (Wrap ''rule evaluation failed'' e))
           | Inr None \<Rightarrow> (db2, Inl (Sentinel ''rule evaluation returned nil result''))
           | Inr (Some evalResult) \<Rightarrow>
               let response = response\<lparr>vr_Result := evalResult\<rparr> in
               if e_Decision evalResult = DecisionDeny then
                 let denied = response\<lparr>vr_ProcessingTimeMs := n_elapsedMs N\<rparr>
                 in (persistAuditEvent S N req denied
                       (persistTransactionValidation S N req denied db2),
                     Inr \<lparr>res_Response = denied, res_IsDuplicate = False\<rparr>)
               else
                 (case BeginTx db2 of
                    (db3, Some e) \<Rightarrow> (db3, Inl (Wrap ''failed to begin transaction'' e))
                  | (db3, None) \<Rightarrow> limits_in_tx S N check req response db3)))))"

end
