(* ===== verification/AuditFacts.thy ===== *)
theory AuditFacts
  imports AuditStore
begin

text \<open>
  The hash chain of the audit table: what the trigger writes one insert after the other is linked,
  a linked table verifies, and two tables that verify and end in the same hash record the same
  events. \<open>event_key\<close> is what the hash covers of an event.
\<close>

subsection \<open>Linked rows\<close>

fun linked :: "ext \<Rightarrow> audit_ext \<Rightarrow> string option \<Rightarrow> 'd AuditEvent list \<Rightarrow> bool" where
  "linked X A prev [] = True"
| "linked X A prev (e # es) =
     (ae_PreviousHash e = prev \<and> ae_Hash e = a_sha256 A (chain_input X A prev e)
      \<and> linked X A (Some (ae_Hash e)) es)"

definition last_hash :: "string option \<Rightarrow> 'd AuditEvent list \<Rightarrow> string option" where
  "last_hash prev es = (if es = [] then prev else Some (ae_Hash (last es)))"

lemma linked_append:
  "linked X A prev (es @ fs) \<longleftrightarrow> linked X A prev es \<and> linked X A (last_hash prev es) fs"
  by (induction es arbitrary: prev) (auto simp: last_hash_def)

lemma verify_linked:
  "linked X A prev es \<Longrightarrow> verify_loop X A prev n es = (True, None, n + int (length es))"
  by (induction es arbitrary: prev n) auto

definition audit_ok :: "ext \<Rightarrow> audit_ext \<Rightarrow> ('d, 'p, 'x) audit_db_scheme \<Rightarrow> bool" where
  "audit_ok X A db =
     (linked X A None (db_audits db) \<and> sorted_wrt (<) (map ae_ID (db_audits db))
      \<and> (\<forall>e \<in> set (db_audits db). 1 \<le> ae_ID e \<and> ae_ID e \<le> db_audit_seq db)
      \<and> 0 \<le> db_audit_seq db)"

lemma sort_key_sorted: "sorted_wrt (<) (map ae_ID rows) \<Longrightarrow> sort_key ae_ID rows = rows"
  by (simp add: sort_key_id_if_sorted strict_sorted_imp_sorted)

lemma latest_event_sorted:
  "sorted_wrt (<) (map ae_ID rows) \<Longrightarrow> latest_event rows = (if rows = [] then None else Some (last rows))"
  by (cases rows rule: rev_cases) (simp_all add: latest_event_def sort_key_sorted)

lemma audit_ok_consume [simp]: "audit_ok X A (consume_fault db) = audit_ok X A db"
  by (simp add: audit_ok_def consume_fault_def)

lemma audit_ok_draw: "audit_ok X A db \<Longrightarrow> audit_ok X A (snd (draw_audit_id db))"
  by (fastforce simp: audit_ok_def draw_audit_id_def)

lemma chain_row_simps [simp]:
  "ae_ID (calculate_audit_event_hash X A rows e) = ae_ID e"
  "ae_EventID (calculate_audit_event_hash X A rows e) = ae_EventID e"
  "ae_PreviousHash (calculate_audit_event_hash X A rows e) = map_option ae_Hash (latest_event rows)"
  "ae_Hash (calculate_audit_event_hash X A rows e)
     = a_sha256 A (chain_input X A (map_option ae_Hash (latest_event rows)) e)"
  by (simp_all add: calculate_audit_event_hash_def Let_def)

lemma chain_input_cong [simp]:
  "chain_input X A prev (calculate_audit_event_hash X A rows e) = chain_input X A prev e"
  "chain_input X A prev (e\<lparr>ae_ID := i\<rparr>) = chain_input X A prev e"
  by (simp_all add: chain_input_def calculate_audit_event_hash_def Let_def)

lemma insert_with_id_ok:
  assumes "audit_ok X A db" "\<forall>r \<in> set (db_audits db). ae_ID r < i" "1 \<le> i" "i \<le> db_audit_seq db"
  shows "audit_ok X A (insert_with_id X A i e db)"
proof -
  have "map_option ae_Hash (latest_event (db_audits db)) = last_hash None (db_audits db)"
    using assms(1) by (simp add: audit_ok_def latest_event_sorted last_hash_def)
  then show ?thesis
    using assms by (auto simp: audit_ok_def insert_with_id_def linked_append sorted_wrt_append)
qed

lemma draw_and_insert_ok:
  assumes "audit_ok X A db" "draw_audit_id db = (i, db')"
  shows "audit_ok X A (insert_with_id X A i e db')"
proof (rule insert_with_id_ok)
  show "audit_ok X A db'" using audit_ok_draw [OF assms(1)] assms(2) by simp
  show "\<forall>r \<in> set (db_audits db'). ae_ID r < i" "1 \<le> i" "i \<le> db_audit_seq db'"
    using assms by (auto simp: audit_ok_def draw_audit_id_def)
qed

lemma AuditRepo_insertInternal_ok:
  assumes "audit_ok X A db" "AuditRepo_insertInternal X A e db = (db', r)"
  shows "audit_ok X A db'"
proof -
  obtain i db2 where d: "draw_audit_id (consume_fault db) = (i, db2)" by fastforce
  have ok: "audit_ok X A (consume_fault db)" using assms(1) by simp
  show ?thesis
    using assms(2) ok draw_and_insert_ok [OF ok d] audit_ok_draw [OF ok] d
    by (auto simp: AuditRepo_insertInternal_def Let_def split: option.splits if_splits)
qed

lemma AuditRepo_Insert_ok:
  assumes "audit_ok X A db" "AuditRepo_Insert X A e db = (db', r)"
  shows "audit_ok X A db'"
  using assms AuditRepo_insertInternal_ok [of X A "consume_fault db" e db' r]
  by (auto simp: AuditRepo_Insert_def split: option.splits)

subsection \<open>Verification of what was inserted\<close>

lemma filter_le_prefix:
  assumes "sorted_wrt (<) (map ae_ID rows)"
  shows "\<exists>rest. rows = filter (\<lambda>e. ae_ID e \<le> k) rows @ rest"
  using assms
proof (induction rows)
  case (Cons e rows)
  show ?case
  proof (cases "ae_ID e \<le> k")
    case True
    then show ?thesis using Cons by auto
  next
    case False
    then have "filter (\<lambda>e. ae_ID e \<le> k) rows = []"
      using Cons.prems by (fastforce simp: filter_empty_conv)
    with False show ?thesis by auto
  qed
qed simp

lemma verify_prefix:
  assumes "audit_ok X A db"
  shows "verify_audit_hash_chain X A 1 k (db_audits db)
    = (True, None, int (length (filter (\<lambda>e. ae_ID e \<le> k) (db_audits db))))"
proof -
  let ?rows = "db_audits db"
  have s: "sorted_wrt (<) (map ae_ID ?rows)" "linked X A None ?rows"
    using assms by (simp_all add: audit_ok_def)
  have f: "filter (\<lambda>e. 1 \<le> ae_ID e \<and> ae_ID e \<le> k) ?rows = filter (\<lambda>e. ae_ID e \<le> k) ?rows"
    using assms by (intro filter_cong) (auto simp: audit_ok_def)
  obtain rest where r: "?rows = filter (\<lambda>e. ae_ID e \<le> k) ?rows @ rest"
    using filter_le_prefix [OF s(1)] by blast
  have "linked X A None (filter (\<lambda>e. ae_ID e \<le> k) ?rows)"
    using s(2) r linked_append by metis
  moreover have "sorted_wrt (<) (map ae_ID (filter (\<lambda>e. ae_ID e \<le> k) ?rows))"
    using s(1) r by (metis map_append sorted_wrt_append)
  ultimately show ?thesis
    unfolding verify_audit_hash_chain_def f
    by (simp add: sort_key_sorted verify_linked)
qed

subsection \<open>What a verified table fixes\<close>

definition event_key :: "'d AuditEvent \<Rightarrow> uuid \<times> AuditEventType \<times> gotime \<times> string" where
  "event_key e = (ae_EventID e, ae_EventType e, ae_CreatedAt e, ae_ResourceID e)"

text \<open>The documented form of the texts that are hashed: UUIDs, timestamps and hexadecimal digests
  hold no bar, and different values have different texts.\<close>

definition chain_texts :: "ext \<Rightarrow> audit_ext \<Rightarrow> bool" where
  "chain_texts X A =
     (uuid_text X \<and> inj (a_time_text A) \<and> (\<forall>t. CHR ''|'' \<notin> set (a_time_text A t))
      \<and> (\<forall>s. CHR ''|'' \<notin> set (a_sha256 A s) \<and> a_sha256 A s \<noteq> ''GENESIS''))"

fun chain_inputs :: "ext \<Rightarrow> audit_ext \<Rightarrow> string option \<Rightarrow> 'd AuditEvent list \<Rightarrow> string set" where
  "chain_inputs X A prev [] = {}"
| "chain_inputs X A prev (e # es) =
     insert (chain_input X A prev e) (chain_inputs X A (Some (ae_Hash e)) es)"

lemma chain_inputs_append:
  "chain_inputs X A prev (es @ fs) = chain_inputs X A prev es \<union> chain_inputs X A (last_hash prev es) fs"
  by (induction es arbitrary: prev) (auto simp: last_hash_def)

definition verified_from :: "ext \<Rightarrow> audit_ext \<Rightarrow> string option \<Rightarrow> 'd AuditEvent list \<Rightarrow> bool" where
  "verified_from X A prev es = fst (verify_loop X A prev 0 es)"

lemma verify_loop_count: "fst (verify_loop X A prev n es) = fst (verify_loop X A prev m es)"
  by (induction es arbitrary: prev n m) auto

lemma verified_from_append:
  "verified_from X A prev (es @ [e]) \<longleftrightarrow> verified_from X A prev es
     \<and> ae_Hash e = a_sha256 A (chain_input X A (last_hash prev es) e)
     \<and> (case ae_PreviousHash e of None \<Rightarrow> ''GENESIS'' | Some h \<Rightarrow> h)
         = (case last_hash prev es of None \<Rightarrow> ''GENESIS'' | Some h \<Rightarrow> h)"
proof (induction es arbitrary: prev)
  case (Cons f es)
  have "fst (verify_loop X A p 1 l) = verified_from X A p l" for p and l :: "'a AuditEvent list"
    unfolding verified_from_def by (rule verify_loop_count)
  with Cons show ?case by (auto simp: verified_from_def last_hash_def)
qed (simp add: verified_from_def last_hash_def)

lemma bar_split:
  assumes "a @ CHR ''|'' # s = b @ CHR ''|'' # t" "CHR ''|'' \<notin> set a" "CHR ''|'' \<notin> set b"
  shows "a = b \<and> s = t"
  using assms
proof (induction a arbitrary: b)
  case Nil
  then show ?case by (cases b) auto
next
  case (Cons c a)
  then show ?case by (cases b) auto
qed

lemma event_type_no_bar:
  "AuditEventType_IsValid t \<Longrightarrow> CHR ''|'' \<notin> set (AuditEventType_text t)"
  by (cases t) simp_all

lemma event_type_text_inj:
  "AuditEventType_IsValid t \<Longrightarrow> AuditEventType_IsValid u \<Longrightarrow>
     AuditEventType_text t = AuditEventType_text u \<Longrightarrow> t = u"
  by (cases t; cases u) simp_all

definition prev_text :: "string option \<Rightarrow> string" where
  "prev_text prev = (case prev of None \<Rightarrow> ''GENESIS'' | Some h \<Rightarrow> h)"

lemma chain_input_inj:
  assumes "chain_texts X A" "AuditEventType_IsValid (ae_EventType e)" "AuditEventType_IsValid (ae_EventType f)"
    "CHR ''|'' \<notin> set (prev_text p)" "CHR ''|'' \<notin> set (prev_text q)"
    "chain_input X A p e = chain_input X A q f"
  shows "prev_text p = prev_text q \<and> event_key e = event_key f"
proof -
  note t = assms(1) [unfolded chain_texts_def uuid_text_def]
  have eq: "prev_text p @ CHR ''|'' # x_uuid_string X (ae_EventID e) @ CHR ''|''
      # AuditEventType_text (ae_EventType e) @ CHR ''|'' # a_time_text A (ae_CreatedAt e) @ CHR ''|''
      # ae_ResourceID e
    = prev_text q @ CHR ''|'' # x_uuid_string X (ae_EventID f) @ CHR ''|''
      # AuditEventType_text (ae_EventType f) @ CHR ''|'' # a_time_text A (ae_CreatedAt f) @ CHR ''|''
      # ae_ResourceID f"
    using assms(6) by (simp add: chain_input_def prev_text_def)
  note 1 = bar_split [OF eq assms(4,5)]
  have 2: "x_uuid_string X (ae_EventID e) = x_uuid_string X (ae_EventID f)
      \<and> AuditEventType_text (ae_EventType e) @ CHR ''|'' # a_time_text A (ae_CreatedAt e) @ CHR ''|'' # ae_ResourceID e
        = AuditEventType_text (ae_EventType f) @ CHR ''|'' # a_time_text A (ae_CreatedAt f) @ CHR ''|'' # ae_ResourceID f"
    by (rule bar_split [OF conjunct2 [OF 1]]) (use t in auto)
  have 3: "AuditEventType_text (ae_EventType e) = AuditEventType_text (ae_EventType f)
      \<and> a_time_text A (ae_CreatedAt e) @ CHR ''|'' # ae_ResourceID e
        = a_time_text A (ae_CreatedAt f) @ CHR ''|'' # ae_ResourceID f"
    by (rule bar_split [OF conjunct2 [OF 2]]) (use event_type_no_bar assms(2,3) in auto)
  have 4: "a_time_text A (ae_CreatedAt e) = a_time_text A (ae_CreatedAt f) \<and> ae_ResourceID e = ae_ResourceID f"
    by (rule bar_split [OF conjunct2 [OF 3]]) (use t in auto)
  show ?thesis
    using 1 2 3 4 t event_type_text_inj [OF assms(2,3)] by (auto simp: event_key_def inj_eq)
qed

text \<open>Two verified tables with the same last hash hold the same events, if no two of the texts that
  were hashed collide.\<close>

lemma verified_hash:
  "verified_from X A prev es \<Longrightarrow> e \<in> set es \<Longrightarrow> \<exists>s. ae_Hash e = a_sha256 A s"
  by (induction es rule: rev_induct) (auto simp: verified_from_append)

lemma last_hash_bar:
  assumes "chain_texts X A" "verified_from X A None es"
  shows "CHR ''|'' \<notin> set (prev_text (last_hash None es))"
    and "es \<noteq> [] \<Longrightarrow> prev_text (last_hash None es) \<noteq> ''GENESIS''"
  using verified_hash [OF assms(2), of "last es"] assms(1)
  by (auto simp: last_hash_def prev_text_def chain_texts_def)

lemma same_last_hash_same_events:
  assumes "chain_texts X A" "verified_from X A None es" "verified_from X A None fs"
    "\<forall>e \<in> set es \<union> set fs. AuditEventType_IsValid (ae_EventType e)"
    "inj_on (a_sha256 A) (chain_inputs X A None es \<union> chain_inputs X A None fs)"
    "prev_text (last_hash None es) = prev_text (last_hash None fs)"
  shows "map event_key es = map event_key fs"
  using assms(2-)
proof (induction es arbitrary: fs rule: rev_induct)
  case Nil
  then show ?case
    using last_hash_bar(2) [OF assms(1), of fs] by (cases fs) (auto simp: last_hash_def prev_text_def)
next
  case (snoc e es)
  from snoc.prems(1) last_hash_bar(2) [OF assms(1) snoc.prems(1)] snoc.prems(5)
  have "fs \<noteq> []" by (auto simp: last_hash_def prev_text_def)
  then obtain gs f where fs: "fs = gs @ [f]" by (cases fs rule: rev_cases) auto
  have v: "verified_from X A None es" "verified_from X A None gs"
    and h: "ae_Hash e = a_sha256 A (chain_input X A (last_hash None es) e)"
      "ae_Hash f = a_sha256 A (chain_input X A (last_hash None gs) f)"
    using snoc.prems(1,2) by (simp_all add: fs verified_from_append)
  have "a_sha256 A (chain_input X A (last_hash None es) e)
      = a_sha256 A (chain_input X A (last_hash None gs) f)"
    using snoc.prems(5) h by (simp add: fs last_hash_def prev_text_def)
  then have "chain_input X A (last_hash None es) e = chain_input X A (last_hash None gs) f"
    by (rule inj_onD [OF snoc.prems(4)]) (simp_all add: fs chain_inputs_append)
  from chain_input_inj [OF assms(1) _ _ last_hash_bar(1) [OF assms(1) v(1)]
      last_hash_bar(1) [OF assms(1) v(2)] this]
  have k: "prev_text (last_hash None es) = prev_text (last_hash None gs)" "event_key e = event_key f"
    using snoc.prems(3) by (simp_all add: fs)
  have "inj_on (a_sha256 A) (chain_inputs X A None es \<union> chain_inputs X A None gs)"
    by (rule inj_on_subset [OF snoc.prems(4)]) (auto simp: fs chain_inputs_append)
  then have "map event_key es = map event_key gs"
    using snoc.IH [OF v _ _ k(1)] snoc.prems(3) by (auto simp: fs)
  with k(2) show ?case by (simp add: fs)
qed

text \<open>Changing what the hash does not cover changes no verdict.\<close>

definition same_cover :: "'d AuditEvent \<Rightarrow> 'd AuditEvent \<Rightarrow> bool" where
  "same_cover e f = (event_key e = event_key f \<and> ae_ID e = ae_ID f \<and> ae_Hash e = ae_Hash f
     \<and> ae_PreviousHash e = ae_PreviousHash f)"

lemma verify_same_cover:
  "list_all2 same_cover es fs \<Longrightarrow> verify_loop X A prev n es = verify_loop X A prev n fs"
  by (induction es fs arbitrary: prev n rule: list_all2_induct)
    (auto simp: same_cover_def event_key_def chain_input_def)

subsection \<open>Two inserts at once\<close>

text \<open>Two transactions draw their numbers, and the one with the larger number gets the lock first.\<close>

definition crossed_inserts ::
  "ext \<Rightarrow> audit_ext \<Rightarrow> 'd AuditEvent \<Rightarrow> 'd AuditEvent \<Rightarrow> ('d, 'p, 'x) audit_db_scheme
   \<Rightarrow> ('d, 'p, 'x) audit_db_scheme" where
  "crossed_inserts X A e f db =
     (let (i, db1) = draw_audit_id db; (j, db2) = draw_audit_id db1
      in insert_with_id X A i e (insert_with_id X A j f db2))"

lemma crossed_rows:
  fixes e f :: "'d AuditEvent"
  assumes "audit_ok X A db"
  defines "p \<equiv> last_hash None (db_audits db)" and "n \<equiv> db_audit_seq db"
  defines "row_f \<equiv> calculate_audit_event_hash X A (db_audits db) (f\<lparr>ae_ID := n + 2\<rparr>)"
  shows "sort_key ae_ID (db_audits (crossed_inserts X A e f db))
    = db_audits db @ [calculate_audit_event_hash X A (db_audits db @ [row_f]) (e\<lparr>ae_ID := n + 1\<rparr>), row_f]"
proof -
  let ?row_e = "calculate_audit_event_hash X A (db_audits db @ [row_f]) (e\<lparr>ae_ID := n + 1\<rparr>)"
  have s: "sorted_wrt (<) (map ae_ID (db_audits db @ [?row_e, row_f]))"
    using assms(1) by (fastforce simp: row_f_def sorted_wrt_append audit_ok_def n_def)
  have "db_audits (crossed_inserts X A e f db) = (db_audits db @ [row_f]) @ [?row_e]"
    by (simp add: crossed_inserts_def draw_audit_id_def insert_with_id_def row_f_def n_def ac_simps)
  moreover have "sort_key ae_ID ((db_audits db @ [row_f]) @ [?row_e]) = db_audits db @ [?row_e, row_f]"
  proof (rule sort_key_inj_key_eq)
    show "mset ((db_audits db @ [row_f]) @ [?row_e]) = mset (db_audits db @ [?row_e, row_f])" by simp
    have "sorted (map ae_ID (db_audits db @ [?row_e, row_f]))
        \<and> distinct (map ae_ID (db_audits db @ [?row_e, row_f]))"
      using s unfolding strict_sorted_iff .
    then show "sorted (map ae_ID (db_audits db @ [?row_e, row_f]))"
      "inj_on ae_ID (set ((db_audits db @ [row_f]) @ [?row_e]))"
      by (auto simp: distinct_map)
  qed
  ultimately show ?thesis by simp
qed

text \<open>No row is altered, yet the table does not verify, unless two of the hashed texts collide.\<close>

lemma crossed_not_verified:
  fixes e f :: "'d AuditEvent"
  assumes "audit_ok X A db"
  defines "p \<equiv> last_hash None (db_audits db)"
  defines "q \<equiv> Some (a_sha256 A (chain_input X A p f))"
  assumes differ: "a_sha256 A (chain_input X A p e) \<noteq> a_sha256 A (chain_input X A q e)"
  shows "fst (verify_audit_hash_chain X A 1 (db_audit_seq db + 1) (db_audits (crossed_inserts X A e f db)))
    = False"
proof -
  define n where "n = db_audit_seq db"
  define row_f where "row_f = calculate_audit_event_hash X A (db_audits db) (f\<lparr>ae_ID := n + 2\<rparr>)"
  define row_e where
    "row_e = calculate_audit_event_hash X A (db_audits db @ [row_f]) (e\<lparr>ae_ID := n + 1\<rparr>)"
  have ok: "linked X A None (db_audits db)" "sorted_wrt (<) (map ae_ID (db_audits db))"
    "\<forall>r \<in> set (db_audits db). 1 \<le> ae_ID r \<and> ae_ID r \<le> n" "0 \<le> n"
    using assms(1) by (simp_all add: audit_ok_def n_def)
  have rows: "sort_key ae_ID (db_audits (crossed_inserts X A e f db)) = db_audits db @ [row_e, row_f]"
    unfolding row_e_def row_f_def n_def by (rule crossed_rows [OF assms(1)])
  have "map_option ae_Hash (latest_event (db_audits db)) = p"
    using ok(2) by (simp add: latest_event_sorted p_def last_hash_def)
  then have hf: "ae_Hash row_f = a_sha256 A (chain_input X A p f)"
    by (simp add: row_f_def)
  have "sorted_wrt (<) (map ae_ID (db_audits db @ [row_f]))"
    using ok(2,3) by (fastforce simp: row_f_def sorted_wrt_append)
  then have "map_option ae_Hash (latest_event (db_audits db @ [row_f])) = q"
    using hf by (simp add: latest_event_sorted q_def)
  then have he: "ae_Hash row_e = a_sha256 A (chain_input X A q e)"
    by (simp add: row_e_def)
  have ids: "ae_ID row_e = n + 1" "ae_ID row_f = n + 2" by (simp_all add: row_e_def row_f_def)
  have "sort_key ae_ID (filter (\<lambda>r. 1 \<le> ae_ID r \<and> ae_ID r \<le> n + 1)
      (db_audits (crossed_inserts X A e f db))) = db_audits db @ [row_e]"
    using ok(3,4) ids unfolding filter_sort [symmetric] rows
    by (simp add: filter_id_conv) (fastforce intro: order.trans)
  moreover have "\<not> fst (verify_loop X A None 0 (db_audits db @ [row_e]))"
    using verified_from_append [of X A None "db_audits db" row_e] he differ
    by (simp add: verified_from_def p_def row_e_def)
  ultimately show ?thesis by (simp add: verify_audit_hash_chain_def n_def)
qed

end
