(* ===== verification/ValidationFacts.thy ===== *)
theory ValidationFacts
  imports ValidationService AuditFacts LimitCheckerFacts
begin

text \<open>
  What a validation does to the tables, whatever the rules, the driver and the other requests do:
  an error and a duplicate leave nothing behind; a refused or reviewed transaction leaves at most its
  two records; an allowed one leaves its record, its audit event and the counters of the limit check,
  all together. The limit checker is any one that touches counters only (\<open>limit_checking\<close>).
\<close>

subsection \<open>The limit checker touches counters only\<close>

lemma LimitRepo_List_counters_only:
  "LimitRepo_List X f db = (db', r) \<Longrightarrow> counters_only db db'"
  using counters_only_refl [of db] counters_only_consume [of db]
    counters_only_trans [OF counters_only_consume counters_only_consume, of db]
  by (auto simp: LimitRepo_List_def Let_def split: sum.splits option.splits prod.splits)

lemma all_limits_counters_only:
  "all_limits X cur db cursor acc = (db', r) \<Longrightarrow> counters_only db db'"
proof (induction X cur db cursor acc arbitrary: db' r rule: all_limits.induct)
  case (1 X cur db cursor acc)
  obtain db1 r1 where l: "LimitRepo_List X (checker_filter cur cursor) db = (db1, r1)" by fastforce
  note c = LimitRepo_List_counters_only [OF l]
  show ?case
  proof (cases r1)
    case (Inl e)
    with 1(2) l c show ?thesis by (simp add: all_limits.simps [of X cur db])
  next
    case (Inr page)
    show ?thesis
    proof (cases "\<not> res_HasMore page \<or> res_NextCursor page = NoCursor")
      case True
      with 1(2) l c Inr show ?thesis by (simp add: all_limits.simps [of X cur db])
    next
      case False
      with 1(2) l Inr have "all_limits X cur db1 (res_NextCursor page) (acc @ res_Limits page) = (db', r)"
        by (simp add: all_limits.simps [of X cur db])
      from 1(1) [OF l [symmetric] Inr _ this] False c show ?thesis
        by (blast intro: counters_only_trans)
    qed
  qed
qed

lemma getApplicableLimits_counters_only:
  "getApplicableLimits X i db = (db', r) \<Longrightarrow> counters_only db db'"
  using all_limits_counters_only by (fastforce simp: getApplicableLimits_def split: prod.splits sum.splits)

lemma CheckLimits_counters_only:
  assumes "CheckLimits X newID rn now given input db = (db', r)"
  shows "counters_only db db'"
proof (cases "\<exists>i. given \<and> input = Some i \<and> CheckLimitsInput_Validate X (Some i) = None")
  case False
  with assms show ?thesis
    by (auto simp: CheckLimits_def checkLimitsInternal_def counters_only_refl split: option.splits if_splits)
next
  case True
  then obtain i where i: "given" "input = Some i" "CheckLimitsInput_Validate X (Some i) = None" by blast
  obtain db1 r1 where g: "getApplicableLimits X i db = (db1, r1)" by fastforce
  note c1 = getApplicableLimits_counters_only [OF g]
  obtain db2 r2 where p: "process_limits X newID rn i (the (buildTransactionScope (Some i))) now 0
      (case r1 of Inl e \<Rightarrow> [] | Inr ls \<Rightarrow> ls) db1 = (db2, r2)" by fastforce
  have "db' = db1 \<or> db' = db2"
    using assms i g p
    by (cases r1) (auto simp: CheckLimits_def checkLimitsInternal_def Let_def split: sum.splits if_splits prod.splits)
  then show ?thesis
    using c1 counters_only_trans [OF c1 process_limits_counters_only [OF p]] by blast
qed

lemma counters_only_tables:
  assumes "counters_only db (db' :: ('d, 'p, 'x) tracer_db_scheme)"
  shows "db_limits db' = db_limits db" "db_rules db' = db_rules db" "db_audits db' = db_audits db"
    "db_validations db' = db_validations db" "db_audit_seq db' = db_audit_seq db"
proof -
  have d: "db' = db\<lparr>db_counters := db_counters db', db_faults := db_faults db'\<rparr>"
    using assms by (simp add: counters_only_def)
  show "db_limits db' = db_limits db" by (subst d) simp
  show "db_rules db' = db_rules db" by (subst d) simp
  show "db_audits db' = db_audits db" by (subst d) simp
  show "db_validations db' = db_validations db" by (subst d) simp
  show "db_audit_seq db' = db_audit_seq db" by (subst d) simp
qed

subsection \<open>The records\<close>

definition tables_kept :: "('d, 'p, 'x) tracer_db_scheme \<Rightarrow> ('d, 'p, 'x) tracer_db_scheme \<Rightarrow> bool" where
  "tables_kept a b = (db_counters b = db_counters a \<and> db_limits b = db_limits a \<and> db_rules b = db_rules a
     \<and> db_validations b = db_validations a \<and> db_audits b = db_audits a)"

lemma tables_kept_refl [simp]: "tables_kept db db"
  by (simp add: tables_kept_def)

lemma tables_kept_trans: "tables_kept a b \<Longrightarrow> tables_kept b c \<Longrightarrow> tables_kept a c"
  by (simp add: tables_kept_def)

lemma consume_fault_tables [simp]:
  "db_rules (consume_fault db) = db_rules db" "db_limits (consume_fault db) = db_limits db"
  "db_audits (consume_fault db) = db_audits db" "db_validations (consume_fault db) = db_validations db"
  "db_audit_seq (consume_fault db) = db_audit_seq db"
  by (simp_all add: consume_fault_def)

lemma tables_kept_consume [simp]: "tables_kept db (consume_fault db')= tables_kept db db'"
  "tables_kept (consume_fault db) db' = tables_kept db db'"
  by (simp_all add: tables_kept_def)

lemma rolled_back_tables [simp]:
  "db_counters (rolled_back a tx) = db_counters a" "db_limits (rolled_back a tx) = db_limits a"
  "db_rules (rolled_back a tx) = db_rules a" "db_validations (rolled_back a tx) = db_validations a"
  "db_audits (rolled_back a tx) = db_audits a"
  by (simp_all add: rolled_back_def)

lemma tables_kept_rolled_back [simp]: "tables_kept a (rolled_back a tx)" "tables_kept a (Rollback a tx)"
  by (simp_all add: tables_kept_def Rollback_def)

lemma FindByRequestID_kept:
  assumes "FindByRequestID X P i db = (db', r)"
  shows "tables_kept db db'"
  using assms by (auto simp: FindByRequestID_def with_db_def Let_def split: if_splits option.splits)

text \<open>An insert of a record adds its row or changes nothing; it adds it exactly when it reports no
  error.\<close>

lemma insertInternal_cases:
  assumes "ValidationRepo_insertInternal X (Some tv) db = (db', r)"
  shows "db_counters db' = db_counters db \<and> db_limits db' = db_limits db \<and> db_rules db' = db_rules db
    \<and> db_audits db' = db_audits db
    \<and> (r = None \<longrightarrow> db_validations db' = db_validations db @ [inserted_row X tv]
         \<and> (\<forall>m \<in> set (db_validations db). m_RequestID m \<noteq> m_RequestID (inserted_row X tv)))
    \<and> (r \<noteq> None \<longrightarrow> db_validations db' = db_validations db)"
  using assms
  by (auto simp: ValidationRepo_insertInternal_def Let_def list_ex_iff split: option.splits if_splits)

lemma Insert_cases:
  assumes "ValidationRepo_Insert X (Some tv) db = (db', r)"
  shows "db_counters db' = db_counters db \<and> db_limits db' = db_limits db \<and> db_rules db' = db_rules db
    \<and> db_audits db' = db_audits db
    \<and> (r = None \<longrightarrow> db_validations db' = db_validations db @ [inserted_row X tv]
         \<and> (\<forall>m \<in> set (db_validations db). m_RequestID m \<noteq> m_RequestID (inserted_row X tv)))
    \<and> (r \<noteq> None \<longrightarrow> db_validations db' = db_validations db)"
  using assms insertInternal_cases [of X tv "consume_fault db" db' r]
  by (auto simp: ValidationRepo_Insert_def split: option.splits)

text \<open>An insert of an audit event appends the row that the trigger makes of it, or changes nothing; when it
  reports no error, the row is there unless an event for the same validation was there before.\<close>

definition audit_row_added ::
  "ext \<Rightarrow> audit_ext \<Rightarrow> 'd AuditEvent \<Rightarrow> ('d, 'p, 'x) audit_db_scheme \<Rightarrow> ('d, 'p, 'x) audit_db_scheme
   \<Rightarrow> bool" where
  "audit_row_added X A e db db' =
     (\<exists>i. db_audits db' = db_audits db @ [calculate_audit_event_hash X A (db_audits db) (e\<lparr>ae_ID := i\<rparr>)])"

lemma insertInternal_tables:
  assumes "AuditRepo_insertInternal X A e db = (db', r)"
  shows "db_counters db' = db_counters db \<and> db_limits db' = db_limits db \<and> db_rules db' = db_rules db
    \<and> db_validations db' = db_validations db
    \<and> (db_audits db' = db_audits db \<or> audit_row_added X A e db db')
    \<and> (r = None \<longrightarrow> audit_row_added X A e db db'
         \<or> audit_duplicate (db_audits db) e \<and> db_audits db' = db_audits db)"
  using assms
  by (auto simp: AuditRepo_insertInternal_def Let_def draw_audit_id_def insert_with_id_def
      audit_row_added_def split: option.splits if_splits)

lemma AuditInsert_tables:
  assumes "AuditRepo_Insert X A e db = (db', r)"
  shows "db_counters db' = db_counters db \<and> db_limits db' = db_limits db \<and> db_rules db' = db_rules db
    \<and> db_validations db' = db_validations db
    \<and> (db_audits db' = db_audits db \<or> audit_row_added X A e db db')"
proof (cases "next_fault db")
  case None
  then have "AuditRepo_insertInternal X A e (consume_fault db) = (db', r)"
    using assms by (simp add: AuditRepo_Insert_def)
  from insertInternal_tables [OF this] show ?thesis by (simp add: audit_row_added_def)
next
  case (Some f)
  with assms show ?thesis by (auto simp: AuditRepo_Insert_def)
qed

text \<open>The audit event of a validation.\<close>

definition own_event ::
  "service_env \<Rightarrow> request_env \<Rightarrow> 'd ValidationRequest \<Rightarrow> 'd ValidationResponse \<Rightarrow> (err, 'd AuditEvent) result"
  where
  "own_event S N req resp = validation_event (s_ext S) (s_audit S) (n_eventID N) (n_eventNow N)
     (vr_ValidationID resp) (buildRequestSnapshot (s_ext S) req) (vr_Result resp) (response_context resp)
     (n_clientIP N)"

definition event_added ::
  "service_env \<Rightarrow> request_env \<Rightarrow> 'd ValidationRequest \<Rightarrow> 'd ValidationResponse
   \<Rightarrow> ('d, 'p, 'x) tracer_db_scheme \<Rightarrow> ('d, 'p, 'x) tracer_db_scheme \<Rightarrow> bool" where
  "event_added S N req resp db db' =
     (\<exists>event. own_event S N req resp = Inr event \<and> audit_row_added (s_ext S) (s_audit S) event db db')"

lemma event_added_cong:
  "event_added S N req resp a b \<Longrightarrow> db_audits a' = db_audits a \<Longrightarrow> db_audits b' = db_audits b \<Longrightarrow>
    event_added S N req resp a' b'"
  by (auto simp: event_added_def audit_row_added_def)

text \<open>A validation that is recorded outside the transaction leaves at most its record and its audit
  event.\<close>

definition recorded ::
  "service_env \<Rightarrow> request_env \<Rightarrow> ('d::linordered_ab_group_add) ValidationRequest \<Rightarrow> 'd ValidationResponse
   \<Rightarrow> ('d, 'p, 'x) tracer_db_scheme \<Rightarrow> ('d, 'p, 'x) tracer_db_scheme \<Rightarrow> bool" where
  "recorded S N req resp db db' =
     (db_limits db' = db_limits db \<and> db_rules db' = db_rules db
      \<and> (db_audits db' = db_audits db \<or> event_added S N req resp db db')
      \<and> (db_validations db' = db_validations db
         \<or> (\<exists>tv. buildTransactionValidation (n_heap N) req resp (n_persistNow N) = Inr tv
              \<and> db_validations db' = db_validations db @ [inserted_row (s_ext S) tv]
              \<and> (\<forall>m \<in> set (db_validations db). m_RequestID m \<noteq> m_RequestID (inserted_row (s_ext S) tv)))))"

lemma recorded_cong:
  assumes "recorded S N req resp a b" "db_limits a' = db_limits a" "db_rules a' = db_rules a"
    "db_audits a' = db_audits a" "db_validations a' = db_validations a"
  shows "recorded S N req resp a' b"
  using assms by (simp add: recorded_def event_added_def audit_row_added_def)

lemma persistTransactionValidation_tables:
  fixes db db' :: "('d::linordered_ab_group_add, 'p, 'x) tracer_db_scheme"
  assumes db'_def: "db' = persistTransactionValidation S N req resp db"
  shows "db_counters db' = db_counters db \<and> db_audits db' = db_audits db \<and> recorded S N req resp db db'"
proof (cases "buildTransactionValidation (n_heap N) req resp (n_persistNow N)")
  case (Inl e)
  then show ?thesis by (simp add: db'_def persistTransactionValidation_def recorded_def)
next
  case (Inr tv)
  obtain db2 r where i: "ValidationRepo_Insert (s_ext S) (Some tv) db = (db2, r)" by fastforce
  have "db' = db2" using Inr i by (simp add: db'_def persistTransactionValidation_def)
  with Insert_cases [OF i] Inr show ?thesis by (cases r) (auto simp: recorded_def)
qed

lemma persistAuditEvent_tables:
  fixes db db' :: "('d::linordered_ab_group_add, 'p, 'x) tracer_db_scheme"
  assumes db'_def: "db' = persistAuditEvent S N req resp db"
  shows "db_counters db' = db_counters db \<and> db_limits db' = db_limits db \<and> db_rules db' = db_rules db
    \<and> db_validations db' = db_validations db
    \<and> (db_audits db' = db_audits db \<or> event_added S N req resp db db')"
proof (cases "own_event S N req resp")
  case (Inl e)
  then show ?thesis
    by (simp add: db'_def persistAuditEvent_def RecordValidationEvent_def own_event_def)
next
  case (Inr event)
  obtain db2 r where i: "AuditRepo_Insert (s_ext S) (s_audit S) event db = (db2, r)" by fastforce
  have "db' = db2"
    using Inr i by (simp add: db'_def persistAuditEvent_def RecordValidationEvent_def own_event_def)
  with AuditInsert_tables [OF i] Inr show ?thesis by (auto simp: event_added_def)
qed

lemma persist_both_tables:
  fixes db db' :: "('d::linordered_ab_group_add, 'p, 'x) tracer_db_scheme"
  assumes db'_def: "db' = persistAuditEvent S N req resp (persistTransactionValidation S N req resp db)"
  shows "db_counters db' = db_counters db \<and> recorded S N req resp db db'"
proof -
  let ?db1 = "persistTransactionValidation S N req resp db"
  note a = persistTransactionValidation_tables [OF refl, of S N req resp db]
  note b = persistAuditEvent_tables [OF refl, of S N req resp ?db1]
  have "event_added S N req resp db (persistAuditEvent S N req resp ?db1)"
    if "event_added S N req resp ?db1 (persistAuditEvent S N req resp ?db1)"
    using that a by (simp add: event_added_def audit_row_added_def)
  then show ?thesis using a b unfolding recorded_def db'_def by auto
qed

lemma rollbackAndPersist_tables:
  "db_counters (rollbackAndPersist S N req resp began tx) = db_counters began
   \<and> recorded S N req resp began (rollbackAndPersist S N req resp began tx)"
proof -
  note p = persist_both_tables [OF refl, of S N req resp "Rollback began tx"]
  have "recorded S N req resp began (rollbackAndPersist S N req resp began tx)"
    unfolding rollbackAndPersist_def
    by (rule recorded_cong [OF conjunct2 [OF p]]) (simp_all add: Rollback_def)
  moreover have "db_counters (rollbackAndPersist S N req resp began tx) = db_counters began"
    using conjunct1 [OF p] by (simp add: rollbackAndPersist_def Rollback_def)
  ultimately show ?thesis by simp
qed

text \<open>A validation committed in its transaction: its record and its audit event are there (the latter is
  left out only when an event for the same validation is there already), the rest is what the limit check
  made of the counters.\<close>

definition committed ::
  "service_env \<Rightarrow> request_env \<Rightarrow> ('d::linordered_ab_group_add) ValidationRequest \<Rightarrow> 'd ValidationResponse
   \<Rightarrow> ('d, 'p, 'x) tracer_db_scheme \<Rightarrow> ('d, 'p, 'x) tracer_db_scheme \<Rightarrow> bool" where
  "committed S N req resp tx db' =
     (db_counters db' = db_counters tx \<and> db_limits db' = db_limits tx \<and> db_rules db' = db_rules tx
      \<and> (event_added S N req resp tx db'
         \<or> (\<exists>event. own_event S N req resp = Inr event \<and> audit_duplicate (db_audits tx) event
              \<and> db_audits db' = db_audits tx))
      \<and> (\<exists>tv. buildTransactionValidation (n_heap N) req resp (n_persistNow N) = Inr tv
           \<and> db_validations db' = db_validations tx @ [inserted_row (s_ext S) tv]
           \<and> (\<forall>m \<in> set (db_validations tx). m_RequestID m \<noteq> m_RequestID (inserted_row (s_ext S) tv))))"

lemma handleConcurrentDuplicate_kept:
  assumes "handleConcurrentDuplicate S e req db = (db', r)"
  shows "tables_kept db db' \<and> (\<forall>res. r = Some res \<longrightarrow> res_IsDuplicate res)"
  using assms FindByRequestID_kept
  by (fastforce simp: handleConcurrentDuplicate_def split: if_splits prod.splits sum.splits)

lemma allow_in_tx_outcome:
  assumes "allow_in_tx S N req resp began tx = (db', r)"
  shows "case r of Inl e \<Rightarrow> tables_kept began db'
    | Inr res \<Rightarrow> if res_IsDuplicate res then tables_kept began db'
        else res_Response res = resp \<and> committed S N req resp tx db'"
proof -
  obtain tx1 e1 where p: "persistTransactionValidationWithTx S N req resp tx = (tx1, e1)" by fastforce
  show ?thesis
  proof (cases e1)
    case (Some e)
    obtain db2 res where h: "handleConcurrentDuplicate S e req (rolled_back began tx1) = (db2, res)"
      by fastforce
    have "tables_kept began db2"
      using handleConcurrentDuplicate_kept [OF h] by (auto simp: tables_kept_def)
    with assms p Some h handleConcurrentDuplicate_kept [OF h] show ?thesis
      by (auto simp: allow_in_tx_def split: option.splits)
  next
    case None
    then obtain tv where tv: "buildTransactionValidation (n_heap N) req resp (n_persistNow N) = Inr tv"
      "ValidationRepo_insertInternal (s_ext S) (Some tv) tx = (tx1, None)"
      using p by (auto simp: persistTransactionValidationWithTx_def ValidationRepo_InsertWithTx_def
          split: sum.splits option.splits prod.splits)
    note i = insertInternal_cases [OF tv(2)]
    obtain tx2 e2 where a: "persistAuditEventWithTx S N req resp tx1 = (tx2, e2)" by fastforce
    show ?thesis
    proof (cases e2)
      case (Some e)
      with assms p None a show ?thesis by (auto simp: allow_in_tx_def)
    next
      case none2: None
      obtain event where ev: "own_event S N req resp = Inr event"
        "AuditRepo_insertInternal (s_ext S) (s_audit S) event tx1 = (tx2, None)"
        using a none2 by (auto simp: persistAuditEventWithTx_def RecordValidationEventWithTx_def own_event_def
            split: sum.splits option.splits prod.splits)
      note au = insertInternal_tables [OF ev(2)]
      have "event_added S N req resp tx tx2
          \<or> audit_duplicate (db_audits tx) event \<and> db_audits tx2 = db_audits tx"
        using au i ev(1) by (simp add: event_added_def audit_row_added_def)
      then have c: "committed S N req resp tx tx2" using i au tv(1) ev(1) by (auto simp: committed_def)
      have "committed S N req resp tx (consume_fault tx2)"
        using c by (simp add: committed_def event_added_def audit_row_added_def)
      with assms p None a none2 show ?thesis
        by (auto simp: allow_in_tx_def Commit_def tables_kept_def split: option.splits)
    qed
  qed
qed

subsection \<open>The service\<close>

locale limit_checking =
  fixes check :: "'d::linordered_ab_group_add CheckLimitsInput \<Rightarrow> ('d, 'p, 'x) tracer_db_scheme
    \<Rightarrow> ('d, 'p, 'x) tracer_db_scheme \<times> (err, 'd CheckLimitsOutput option) result"
  assumes frame: "check i db = (db', r) \<Longrightarrow> counters_only db db'"
begin

definition outcome ::
  "service_env \<Rightarrow> request_env \<Rightarrow> 'd ValidationRequest \<Rightarrow> ('d, 'p, 'x) tracer_db_scheme
   \<Rightarrow> ('d, 'p, 'x) tracer_db_scheme \<Rightarrow> (err, 'd ValidateResult) result \<Rightarrow> bool" where
  "outcome S N req began db' r =
     (case r of
        Inl e \<Rightarrow> tables_kept began db'
      | Inr res \<Rightarrow>
          if res_IsDuplicate res then tables_kept began db'
          else if e_Decision (vr_Result (res_Response res)) \<in> {DecisionDeny, DecisionReview}
          then db_counters db' = db_counters began \<and> recorded S N req (res_Response res) began db'
          else committed S N req (res_Response res)
            (began\<lparr>db_counters := db_counters (fst (check (ToCheckLimitsInput req) (consume_fault began)))\<rparr>) db')"

lemma limits_in_tx_outcome:
  assumes "limits_in_tx S N check req resp (consume_fault began) = (db', r)"
    "e_Decision (vr_Result resp) \<noteq> DecisionDeny"
  shows "outcome S N req began db' r"
proof -
  let ?b = "consume_fault began"
  obtain tx c where ck: "check (ToCheckLimitsInput req) ?b = (tx, c)" by fastforce
  note t = counters_only_tables [OF frame [OF ck]]
  show ?thesis
  proof (cases "\<exists>out. c = Inr (Some out)")
    case False
    with assms(1) ck show ?thesis
      by (auto simp: limits_in_tx_def outcome_def tables_kept_def Rollback_def split: sum.splits option.splits)
  next
    case True
    then obtain out where c: "c = Inr (Some out)" by blast
    define timed where "timed = resp\<lparr>vr_LimitUsageDetails := co_LimitUsageDetails out,
      vr_EvaluatedAt := co_EvaluatedAt out, vr_ProcessingTimeMs := n_elapsedMs N\<rparr>"
    have d: "e_Decision (vr_Result timed) = e_Decision (vr_Result resp)" by (simp add: timed_def)
    note rp = rollbackAndPersist_tables [of S N req _ ?b tx]
    show ?thesis
    proof (cases "\<not> co_Allowed out \<or> e_Decision (vr_Result resp) = DecisionReview")
      case True
      then obtain resp' where r: "r = Inr \<lparr>res_Response = resp', res_IsDuplicate = False\<rparr>"
        "e_Decision (vr_Result resp') \<in> {DecisionDeny, DecisionReview}"
        "db' = rollbackAndPersist S N req resp' ?b tx"
        using assms(1) ck c by (auto simp: limits_in_tx_def Let_def split: if_splits)
      moreover have "recorded S N req resp' began (rollbackAndPersist S N req resp' ?b tx)"
        by (rule recorded_cong [OF conjunct2 [OF rp]]) simp_all
      ultimately show ?thesis using rp [of resp'] by (simp add: outcome_def)
    next
      case False
      then have a: "allow_in_tx S N req timed ?b tx = (db', r)"
        using assms(1) ck c by (simp add: limits_in_tx_def Let_def timed_def)
      have "\<not> e_Decision (vr_Result timed) \<in> {DecisionDeny, DecisionReview}"
        using assms(2) False d by simp
      moreover have "committed S N req timed
          (began\<lparr>db_counters := db_counters (fst (check (ToCheckLimitsInput req) ?b))\<rparr>) db'"
        if "committed S N req timed tx db'"
        using that ck t by (simp add: committed_def event_added_def audit_row_added_def)
      ultimately show ?thesis
        using allow_in_tx_outcome [OF a] by (auto simp: outcome_def tables_kept_def split: sum.splits)
    qed
  qed
qed

lemma Validate_outcome:
  assumes "Validate S N exec check others (Some req) db = (db', r)"
  shows "outcome S N req db db' r
    \<or> outcome S N req (others (fst (FindByRequestID (s_ext S) (s_uuid_Parse S) (v_RequestID req) db))) db' r"
proof (cases "n_ctx N")
  case (Some e)
  with assms have "outcome S N req db db' r" by (auto simp: Validate_def outcome_def)
  then show ?thesis ..
next
  case ctx: None
  obtain db1 f where f: "FindByRequestID (s_ext S) (s_uuid_Parse S) (v_RequestID req) db = (db1, f)"
    by fastforce
  note k = FindByRequestID_kept [OF f]
  show ?thesis
  proof (cases "f = Inr None")
    case False
    then have "outcome S N req db db' r"
      using assms ctx f k by (cases f) (auto simp: Validate_def outcome_def split: option.splits)
    then show ?thesis ..
  next
    case True
    let ?db2 = "others db1"
    have "outcome S N req ?db2 db' r"
    proof (cases "exec req")
      case (Inl e)
      with assms ctx f True show ?thesis by (auto simp: Validate_def outcome_def)
    next
      case (Inr er)
      show ?thesis
      proof (cases er)
        case None
        with assms ctx f True Inr show ?thesis by (auto simp: Validate_def outcome_def)
      next
        case (Some ev)
        show ?thesis
        proof (cases "e_Decision ev = DecisionDeny")
          case deny: True
          then show ?thesis
            using assms ctx f True Inr Some persist_both_tables [OF refl, of S N req _ ?db2]
            by (auto simp: Validate_def outcome_def Let_def)
        next
          case False
          show ?thesis
          proof (cases "next_fault ?db2")
            case None
            with assms ctx f True Inr Some False
            have "limits_in_tx S N check req ((NewValidationResponse (n_validationID N) (v_RequestID req)
                DecisionAllow (n_evaluatedAt N))\<lparr>vr_Result := ev\<rparr>) (consume_fault ?db2) = (db', r)"
              by (simp add: Validate_def Let_def BeginTx_def)
            then show ?thesis by (rule limits_in_tx_outcome) (use False in simp)
          next
            case fault: (Some e)
            with assms ctx f True Inr Some False show ?thesis
              by (auto simp: Validate_def Let_def BeginTx_def outcome_def)
          qed
        qed
      qed
    qed
    then show ?thesis using f by simp
  qed
qed

end

end
