(* ===== verification/ValidationOutcome.thy ===== *)
theory ValidationOutcome
  imports ValidationFacts
begin

text \<open>
  The service with the limit checker and the rule evaluator of the program. Without driver failures a
  valid new request gets the decision that the rules and the limits determine, its record and its
  audit event are stored, and a later request with the same identifier gets the stored answer.
\<close>

definition checker ::
  "ext \<Rightarrow> (nat \<Rightarrow> uuid) \<Rightarrow> gotime \<Rightarrow> gotime \<Rightarrow> ('d::linordered_ab_group_add) CheckLimitsInput
   \<Rightarrow> ('d, 'x) limit_db_scheme \<Rightarrow> ('d, 'x) limit_db_scheme \<times> (err, 'd CheckLimitsOutput option) result" where
  "checker X newID repoNow serverNow input db =
     (let (db', r) = CheckLimits X newID repoNow serverNow True (Some input) db
      in (db', map_sum id Some r))"

definition evaluator ::
  "('p, 'd) cel_ops \<Rightarrow> EvaluationConfig \<Rightarrow> err option list
   \<Rightarrow> (Scope option \<Rightarrow> (err, 'p Rule option list) result) \<Rightarrow> 'd ValidationRequest
   \<Rightarrow> (err, EvaluationResult option) result" where
  "evaluator cel cfg ctx repo req = map_sum id Some (EvaluateRules cel cfg ctx repo (Some req))"

interpretation program_checks: limit_checking "checker X newID rn now" for X newID rn now
  by unfold_locales
    (auto simp: checker_def split: prod.splits dest: CheckLimits_counters_only)

subsection \<open>The record is built and stored\<close>

lemma build_ok:
  fixes req :: "('d::linordered_ab_group_add) ValidationRequest"
  assumes "ValidationRequest_Validate X W req now = None" "vr_ValidationID resp \<noteq> uuid_Nil"
    "Decision_IsValid (e_Decision (vr_Result resp))" "\<not> time_IsZero createdAt"
  obtains tv where "buildTransactionValidation heap req resp createdAt = Inr tv"
    "t_ID tv = vr_ValidationID resp" "t_RequestID tv = v_RequestID req" "t_Amount tv = v_Amount req"
    "t_TransactionType tv = v_TransactionType req" "t_Result tv = vr_Result resp"
    "t_ProcessingTimeMs tv = vr_ProcessingTimeMs resp" "t_LimitUsageDetails tv = vr_LimitUsageDetails resp"
    "t_CreatedAt tv = createdAt" "t_Metadata tv = sanitized_metadata heap (v_Metadata req)"
proof -
  have v: "v_RequestID req \<noteq> uuid_Nil" "TransactionType_IsValid (v_TransactionType req)"
    "0 < v_Amount req" "v_Currency req \<noteq> []" "\<not> time_IsZero (v_TransactionTimestamp req)"
    "ac_ID (v_Account req) \<noteq> uuid_Nil"
    using assms(1) by (auto simp: ValidationRequest_Validate_None validateRequiredFields_None)
  obtain tv0 :: "'d TransactionValidation" where tv0: "NewTransactionValidation (vr_ValidationID resp) (e_Decision (vr_Result resp)) createdAt
      = Inr tv0" "t_ID tv0 = vr_ValidationID resp" "t_CreatedAt tv0 = createdAt"
    using assms by (simp add: NewTransactionValidation_def)
  let ?tv = "filled_validation heap req resp tv0"
  have "validateTransactionValidation ?tv = None"
    using v tv0 assms(2,3) by (simp add: validateTransactionValidation_def filled_validation_def not_le)
  then have "buildTransactionValidation heap req resp createdAt = Inr ?tv"
    using tv0(1) by (simp add: buildTransactionValidation_def Let_def)
  then show thesis
    by (rule that) (simp_all add: filled_validation_def tv0)
qed

text \<open>Nothing in the tables carries the identifiers of the request.\<close>

definition fresh_request ::
  "service_env \<Rightarrow> request_env \<Rightarrow> uuid \<Rightarrow> ('d, 'p, 'x) tracer_db_scheme \<Rightarrow> bool" where
  "fresh_request S N i db =
     (list_all (\<lambda>m. m_RequestID m \<noteq> x_uuid_string (s_ext S) i
                   \<and> m_ID m \<noteq> x_uuid_string (s_ext S) (n_validationID N)) (db_validations db)
      \<and> list_all (\<lambda>e. ae_EventID e \<noteq> n_eventID N
                   \<and> ae_ResourceID e \<noteq> x_uuid_string (s_ext S) (n_validationID N)) (db_audits db))"

lemma fresh_request_consume [simp]: "fresh_request S N i (consume_fault db) = fresh_request S N i db"
  by (simp add: fresh_request_def)

definition env_ok :: "service_env \<Rightarrow> request_env \<Rightarrow> bool" where
  "env_ok S N = (uuid_codec (s_ext S) (s_uuid_Parse S) \<and> n_ctx N = None \<and> n_validationID N \<noteq> uuid_Nil
     \<and> \<not> time_IsZero (n_persistNow N) \<and> 0 \<le> n_elapsedMs N)"

lemma inserted_row_fields [simp]:
  "m_ID (inserted_row X tv) = x_uuid_string X (t_ID tv)"
  "m_RequestID (inserted_row X tv) = x_uuid_string X (t_RequestID tv)"
  by (simp_all add: inserted_row_def FromEntity_def)

lemma row_accepted_valid:
  assumes "TransactionType_IsValid (t_TransactionType tv)" "Decision_IsValid (e_Decision (t_Result tv))"
    "0 < t_Amount tv" "0 \<le> t_ProcessingTimeMs tv"
  shows "row_accepted (inserted_row X tv)"
  using assms TransactionType_of_String [OF assms(1)] Decision_of_String [OF assms(2)]
  by (simp add: row_accepted_def inserted_row_def FromEntity_def)

lemma insertInternal_fresh:
  assumes "next_fault db = None" "row_accepted (inserted_row X tv)"
    "list_all (\<lambda>m. m_RequestID m \<noteq> x_uuid_string X (t_RequestID tv)
                   \<and> m_ID m \<noteq> x_uuid_string X (t_ID tv)) (db_validations db)"
  shows "ValidationRepo_insertInternal X (Some tv) db
    = ((consume_fault db)\<lparr>db_validations := db_validations db @ [inserted_row X tv]\<rparr>, None)"
  using assms
  by (auto simp: ValidationRepo_insertInternal_def Let_def list_ex_iff list_all_iff)

lemma audit_insert_fresh:
  fixes db :: "('d, 'p, 'x) tracer_db_scheme"
  assumes "next_fault db = None" "list_all (\<lambda>e. ae_EventID e \<noteq> ae_EventID event
      \<and> ae_ResourceID e \<noteq> ae_ResourceID event) (db_audits db)"
  shows "\<exists>row. AuditRepo_insertInternal X A event db
      = ((consume_fault db)\<lparr>db_audit_seq := db_audit_seq db + 1, db_audits := db_audits db @ [row]\<rparr>, None)
    \<and> row = calculate_audit_event_hash X A (db_audits db) (event\<lparr>ae_ID := db_audit_seq db + 1\<rparr>)"
  using assms
  by (auto simp: AuditRepo_insertInternal_def Let_def audit_duplicate_def draw_audit_id_def
      insert_with_id_def list_ex_iff list_all_iff)

lemma validation_event_made:
  assumes "uuid_codec X P"
  shows "\<exists>event. validation_event X A newID now i request ev rc ip = Inr event
    \<and> ae_EventID event = newID \<and> ae_ResourceID event = x_uuid_string X i
    \<and> ae_Result event = DecisionToAuditResult (e_Decision ev)
    \<and> ae_ResourceType event = ResourceTypeTransaction
    \<and> GetValidationRequest event = Some request \<and> GetReason event = e_Reason ev"
proof -
  have t: "TrimSpace (x_uuid_string X i) = x_uuid_string X i" "x_uuid_string X i \<noteq> []"
    using assms by (simp_all add: uuid_codec_def)
  have "TrimSpace ''svc_tracer'' = ''svc_tracer''" by (simp add: TrimSpace_text)
  moreover have "AuditResult_IsValid (DecisionToAuditResult d)" for d by (cases d) simp_all
  ultimately show ?thesis
    using t by (simp add: validation_event_def NewAuditEvent_def tracer_actor_def WithValidationContext_def
        GetValidationRequest_def map_entry_def GetReason_def GetValidationResponse_def string_entry_def)
qed

subsection \<open>Both records, outside and inside a transaction\<close>

lemma chain_row_more [simp]:
  "ae_Result (calculate_audit_event_hash X A rows e) = ae_Result e"
  "ae_ResourceID (calculate_audit_event_hash X A rows e) = ae_ResourceID e"
  "ae_ResourceType (calculate_audit_event_hash X A rows e) = ae_ResourceType e"
  by (simp_all add: calculate_audit_event_hash_def Let_def)

text \<open>The two records of a validation were added.\<close>

definition logged ::
  "service_env \<Rightarrow> request_env \<Rightarrow> ('d::linordered_ab_group_add) ValidationRequest \<Rightarrow> 'd ValidationResponse
   \<Rightarrow> ('d, 'p, 'x) tracer_db_scheme \<Rightarrow> ('d, 'p, 'x) tracer_db_scheme \<Rightarrow> bool" where
  "logged S N req resp db db' =
     (\<exists>tv row. buildTransactionValidation (n_heap N) req resp (n_persistNow N) = Inr tv
        \<and> db_validations db' = db_validations db @ [inserted_row (s_ext S) tv]
        \<and> db_audits db' = db_audits db @ [row]
        \<and> ae_EventID row = n_eventID N
        \<and> ae_ResourceID row = x_uuid_string (s_ext S) (vr_ValidationID resp)
        \<and> ae_ResourceType row = ResourceTypeTransaction
        \<and> ae_Result row = DecisionToAuditResult (e_Decision (vr_Result resp)))"

lemma logged_cong:
  assumes "logged S N req resp a b" "db_validations a' = db_validations a" "db_audits a' = db_audits a"
    "db_validations b' = db_validations b" "db_audits b' = db_audits b"
  shows "logged S N req resp a' b'"
  using assms by (simp add: logged_def)

definition resp_ok :: "request_env \<Rightarrow> 'd ValidationResponse \<Rightarrow> bool" where
  "resp_ok N resp = (vr_ValidationID resp = n_validationID N \<and> vr_ProcessingTimeMs resp = n_elapsedMs N
     \<and> Decision_IsValid (e_Decision (vr_Result resp)))"

lemma record_of_request:
  assumes "env_ok S N" "ValidationRequest_Validate (s_ext S) W req now = None" "resp_ok N resp"
  obtains tv where "buildTransactionValidation (n_heap N) req resp (n_persistNow N) = Inr tv"
    "t_ID tv = n_validationID N" "t_RequestID tv = v_RequestID req"
    "row_accepted (inserted_row (s_ext S) tv)"
proof -
  have r: "vr_ValidationID resp \<noteq> uuid_Nil" "Decision_IsValid (e_Decision (vr_Result resp))"
    "\<not> time_IsZero (n_persistNow N)"
    using assms by (simp_all add: env_ok_def resp_ok_def)
  obtain tv where tv: "buildTransactionValidation (n_heap N) req resp (n_persistNow N) = Inr tv"
    "t_ID tv = vr_ValidationID resp" "t_RequestID tv = v_RequestID req" "t_Amount tv = v_Amount req"
    "t_TransactionType tv = v_TransactionType req" "t_Result tv = vr_Result resp"
    "t_ProcessingTimeMs tv = vr_ProcessingTimeMs resp"
    by (rule build_ok [OF assms(2) r])
  have "row_accepted (inserted_row (s_ext S) tv)"
    by (rule row_accepted_valid)
      (use assms tv in \<open>auto simp: ValidationRequest_Validate_None validateRequiredFields_None
        resp_ok_def env_ok_def\<close>)
  with tv assms(3) show thesis by (intro that) (auto simp: resp_ok_def)
qed

lemma next_fault_none: "no_faults db \<Longrightarrow> next_fault db = None \<and> next_fault (consume_fault db) = None
    \<and> no_faults (consume_fault db)"
  using no_faults_next no_faults_consume by blast

lemma persist_both_logged:
  fixes db :: "('d::linordered_ab_group_add, 'p, 'x) tracer_db_scheme"
  assumes "env_ok S N" "ValidationRequest_Validate (s_ext S) W req now = None" "resp_ok N resp"
    "no_faults db" "fresh_request S N (v_RequestID req) db"
  shows "logged S N req resp db (persistAuditEvent S N req resp (persistTransactionValidation S N req resp db))"
proof -
  obtain tv where tv: "buildTransactionValidation (n_heap N) req resp (n_persistNow N) = Inr tv"
    "t_ID tv = n_validationID N" "t_RequestID tv = v_RequestID req"
    "row_accepted (inserted_row (s_ext S) tv)"
    by (rule record_of_request [OF assms(1-3)])
  note nf = next_fault_none [OF assms(4)]
  define db1 where "db1 = (consume_fault (consume_fault db))
    \<lparr>db_validations := db_validations db @ [inserted_row (s_ext S) tv]\<rparr>"
  have "ValidationRepo_insertInternal (s_ext S) (Some tv) (consume_fault db)
      = ((consume_fault (consume_fault db))\<lparr>db_validations := db_validations (consume_fault db)
           @ [inserted_row (s_ext S) tv]\<rparr>, None)"
    by (rule insertInternal_fresh) (use nf tv assms(5) in \<open>simp_all add: fresh_request_def\<close>)
  then have p: "persistTransactionValidation S N req resp db = db1"
    using nf tv(1) by (simp add: persistTransactionValidation_def ValidationRepo_Insert_def db1_def)
  have nf1: "no_faults db1" using nf no_faults_consume [of "consume_fault db"] by (simp add: db1_def no_faults_def)
  obtain event where e: "validation_event (s_ext S) (s_audit S) (n_eventID N) (n_eventNow N)
      (vr_ValidationID resp) (buildRequestSnapshot (s_ext S) req) (vr_Result resp) (response_context resp)
      (n_clientIP N) = Inr event"
    "ae_EventID event = n_eventID N" "ae_ResourceID event = x_uuid_string (s_ext S) (vr_ValidationID resp)"
    "ae_Result event = DecisionToAuditResult (e_Decision (vr_Result resp))"
    "ae_ResourceType event = ResourceTypeTransaction"
    using validation_event_made [of "s_ext S" "s_uuid_Parse S"] assms(1) by (metis env_ok_def)
  have fr: "list_all (\<lambda>e. ae_EventID e \<noteq> ae_EventID event \<and> ae_ResourceID e \<noteq> ae_ResourceID event)
      (db_audits (consume_fault db1))"
    using assms(3,5) e(2,3) by (simp add: fresh_request_def db1_def resp_ok_def)
  have "next_fault (consume_fault db1) = None" using next_fault_none [OF nf1] by blast
  from audit_insert_fresh [OF this fr, of "s_ext S" "s_audit S"]
  have "persistAuditEvent S N req resp db1 = (consume_fault (consume_fault db1))
      \<lparr>db_audit_seq := db_audit_seq db + 1, db_audits := db_audits db
        @ [calculate_audit_event_hash (s_ext S) (s_audit S) (db_audits db) (event\<lparr>ae_ID := db_audit_seq db + 1\<rparr>)]\<rparr>"
    using e(1) next_fault_none [OF nf1]
    by (auto simp: persistAuditEvent_def RecordValidationEvent_def AuditRepo_Insert_def db1_def)
  then show ?thesis
    using tv(1) e(2-5) by (simp add: logged_def p db1_def)
qed

lemma allow_in_tx_logged:
  fixes tx :: "('d::linordered_ab_group_add, 'p, 'x) tracer_db_scheme"
  assumes "env_ok S N" "ValidationRequest_Validate (s_ext S) W req now = None" "resp_ok N resp"
    "no_faults tx" "fresh_request S N (v_RequestID req) tx"
  shows "\<exists>db'. allow_in_tx S N req resp began tx = (db', Inr \<lparr>res_Response = resp, res_IsDuplicate = False\<rparr>)
    \<and> db_counters db' = db_counters tx \<and> logged S N req resp tx db'"
proof -
  obtain tv where tv: "buildTransactionValidation (n_heap N) req resp (n_persistNow N) = Inr tv"
    "t_ID tv = n_validationID N" "t_RequestID tv = v_RequestID req"
    "row_accepted (inserted_row (s_ext S) tv)"
    by (rule record_of_request [OF assms(1-3)])
  note nf = next_fault_none [OF assms(4)]
  define tx1 where "tx1 = (consume_fault tx)
    \<lparr>db_validations := db_validations tx @ [inserted_row (s_ext S) tv]\<rparr>"
  have "ValidationRepo_insertInternal (s_ext S) (Some tv) tx = (tx1, None)"
    unfolding tx1_def
    by (rule insertInternal_fresh) (use nf tv assms(5) in \<open>simp_all add: fresh_request_def\<close>)
  then have p: "persistTransactionValidationWithTx S N req resp tx = (tx1, None)"
    using tv(1) by (simp add: persistTransactionValidationWithTx_def ValidationRepo_InsertWithTx_def)
  have nf1: "no_faults tx1" using nf by (simp add: tx1_def no_faults_def)
  obtain event where e: "validation_event (s_ext S) (s_audit S) (n_eventID N) (n_eventNow N)
      (vr_ValidationID resp) (buildRequestSnapshot (s_ext S) req) (vr_Result resp) (response_context resp)
      (n_clientIP N) = Inr event"
    "ae_EventID event = n_eventID N" "ae_ResourceID event = x_uuid_string (s_ext S) (vr_ValidationID resp)"
    "ae_Result event = DecisionToAuditResult (e_Decision (vr_Result resp))"
    "ae_ResourceType event = ResourceTypeTransaction"
    using validation_event_made [of "s_ext S" "s_uuid_Parse S"] assms(1) by (metis env_ok_def)
  have fr: "list_all (\<lambda>e. ae_EventID e \<noteq> ae_EventID event \<and> ae_ResourceID e \<noteq> ae_ResourceID event)
      (db_audits tx1)"
    using assms(3,5) e(2,3) by (simp add: fresh_request_def tx1_def resp_ok_def)
  define tx2 where "tx2 = (consume_fault tx1)\<lparr>db_audit_seq := db_audit_seq tx1 + 1, db_audits := db_audits tx1
      @ [calculate_audit_event_hash (s_ext S) (s_audit S) (db_audits tx1) (event\<lparr>ae_ID := db_audit_seq tx1 + 1\<rparr>)]\<rparr>"
  have "AuditRepo_insertInternal (s_ext S) (s_audit S) event tx1 = (tx2, None)"
    using audit_insert_fresh [OF conjunct1 [OF next_fault_none [OF nf1]] fr, of "s_ext S" "s_audit S"]
    by (simp add: tx2_def)
  then have a: "persistAuditEventWithTx S N req resp tx1 = (tx2, None)"
    using e(1) by (simp add: persistAuditEventWithTx_def RecordValidationEventWithTx_def)
  have "next_fault tx2 = None"
    using next_fault_none [OF nf1] by (simp add: tx2_def next_fault_def)
  then have "allow_in_tx S N req resp began tx
      = (consume_fault tx2, Inr \<lparr>res_Response = resp, res_IsDuplicate = False\<rparr>)"
    using p a by (simp add: allow_in_tx_def Commit_def)
  moreover have "logged S N req resp tx (consume_fault tx2)"
    using tv(1) e(2-5) by (simp add: logged_def tx2_def tx1_def)
  ultimately show ?thesis by (auto simp: tx2_def tx1_def)
qed

subsection \<open>The decision\<close>

definition final_decision :: "Decision \<Rightarrow> bool \<Rightarrow> Decision" where
  "final_decision by_rules allowed =
     (if by_rules = DecisionDeny \<or> \<not> allowed then DecisionDeny else by_rules)"

lemma find_none_fresh:
  assumes "no_faults db" "fresh_request S N i db" "i \<noteq> uuid_Nil"
  shows "FindByRequestID (s_ext S) P i db = (consume_fault (consume_fault db), Inr None)"
proof -
  have "find (\<lambda>r. m_RequestID r = x_uuid_string (s_ext S) i) (db_validations db) = None"
    using assms(2) by (auto simp: fresh_request_def list_all_iff find_None_iff)
  then show ?thesis
    using next_fault_none [OF assms(1)] assms(3) by (simp add: FindByRequestID_def with_db_def Let_def)
qed

lemma store_hyps_consume:
  assumes "no_faults db" "counters_ok db" "limits_ok db" "fresh_ids newID 0 n db"
  shows "no_faults (consume_fault db)" "counters_ok (consume_fault db)" "limits_ok (consume_fault db)"
    "fresh_ids newID 0 n (consume_fault db)"
  using assms no_faults_consume by (auto simp: limits_ok_def fresh_ids_def)

lemma usage_counters: "db_counters a = db_counters b \<Longrightarrow> usage a k = usage b k"
  by (simp add: usage_def)

lemma verdict_usage:
  assumes "db_counters a = db_counters b"
  shows "check_verdict X now i a l = check_verdict X now i b l"
    "check_counts X now i a l = check_counts X now i b l"
  using usage_counters [OF assms]
  by (simp_all add: check_verdict_def check_counts_def over_limit_def counted_limit_def)

lemma limits_in_tx_decides:
  fixes db :: "('d::linordered_ab_group_add, 'p, 'x) tracer_db_scheme"
  assumes "env_ok S N" "ValidationRequest_Validate (s_ext S) W req vnow = None"
    and db: "no_faults db" "counters_ok db" "limits_ok db" "fresh_ids newID 0 (length (db_limits db)) db"
    and fresh: "fresh_request S N (v_RequestID req) db"
    and resp: "vr_ValidationID resp = n_validationID N" "Decision_IsValid (e_Decision (vr_Result resp))"
      "e_Decision (vr_Result resp) \<noteq> DecisionDeny"
  shows "\<exists>db' r. limits_in_tx S N (checker (s_ext S) newID rn now) req resp db
      = (db', Inr \<lparr>res_Response = r, res_IsDuplicate = False\<rparr>)
    \<and> vr_ValidationID r = n_validationID N \<and> vr_RequestID r = vr_RequestID resp
    \<and> e_Decision (vr_Result r) = final_decision (e_Decision (vr_Result resp))
        (\<forall>l \<in> set (db_limits db). \<not> check_verdict (s_ext S) now (ToCheckLimitsInput req) db l)
    \<and> logged S N req r db db'
    \<and> (\<forall>k. usage db' k =
         (if e_Decision (vr_Result r) = DecisionAllow
            \<and> (\<exists>l \<in> set (db_limits db). check_counts (s_ext S) now (ToCheckLimitsInput req) db l
                 \<and> check_key (s_ext S) now (ToCheckLimitsInput req) l = k)
          then usage db k + v_Amount req else usage db k))"
proof -
  let ?X = "s_ext S" and ?i = "ToCheckLimitsInput req"
  let ?ok = "\<forall>l \<in> set (db_limits db). \<not> check_verdict ?X now ?i db l"
  have am: "ci_Amount ?i = v_Amount req" by (simp add: ToCheckLimitsInput_def)
  obtain tx out where c: "CheckLimits ?X newID rn now True (Some ?i) db = (tx, Inr out)"
    and co: "counters_only db tx" and allowed: "co_Allowed out \<longleftrightarrow> ?ok"
    and us: "\<forall>k. usage tx k = (if \<exists>l \<in> set (db_limits db). check_counts ?X now ?i db l
        \<and> check_key ?X now ?i l = k then usage db k + v_Amount req else usage db k)"
    using CheckLimits_outcome [OF db(2,3,1) ToCheckLimitsInput_valid [OF assms(2)] db(4), of rn now]
    unfolding am by blast
  have ck: "checker ?X newID rn now ?i db = (tx, Inr (Some out))"
    using c by (simp add: checker_def)
  note t = counters_only_tables [OF co]
  have nf: "no_faults tx" by (rule counters_only_no_faults [OF co db(1)])
  define timed where "timed = resp\<lparr>vr_LimitUsageDetails := co_LimitUsageDetails out,
    vr_EvaluatedAt := co_EvaluatedAt out, vr_ProcessingTimeMs := n_elapsedMs N\<rparr>"
  define denied where "denied = timed\<lparr>vr_Result := (vr_Result timed)\<lparr>e_Decision := DecisionDeny,
    e_Reason := ''limit_exceeded''\<rparr>\<rparr>"
  have ok: "resp_ok N timed" "resp_ok N denied"
    using resp by (simp_all add: resp_ok_def timed_def denied_def)
  have fields: "e_Decision (vr_Result timed) = e_Decision (vr_Result resp)"
    "vr_ValidationID timed = n_validationID N" "vr_ValidationID denied = n_validationID N"
    "vr_RequestID timed = vr_RequestID resp" "vr_RequestID denied = vr_RequestID resp"
    "e_Decision (vr_Result denied) = DecisionDeny"
    using resp(1) by (simp_all add: timed_def denied_def)
  have rb: "no_faults (Rollback db tx)" "fresh_request S N (v_RequestID req) (Rollback db tx)"
    using nf no_faults_consume [of "rolled_back db tx"] fresh
    by (simp_all add: Rollback_def rolled_back_def no_faults_def fresh_request_def)
  have log: "logged S N req r db (rollbackAndPersist S N req r db tx)"
    and cnt: "usage (rollbackAndPersist S N req r db tx) k = usage db k" if "resp_ok N r" for r k
  proof -
    show "logged S N req r db (rollbackAndPersist S N req r db tx)"
      unfolding rollbackAndPersist_def
      by (rule logged_cong [OF persist_both_logged [OF assms(1,2) that rb]]) (simp_all add: Rollback_def)
    show "usage (rollbackAndPersist S N req r db tx) k = usage db k"
      by (rule usage_counters) (simp add: conjunct1 [OF rollbackAndPersist_tables])
  qed
  show ?thesis
  proof (cases "?ok")
    case False
    then have "limits_in_tx S N (checker ?X newID rn now) req resp db
        = (rollbackAndPersist S N req denied db tx, Inr \<lparr>res_Response = denied, res_IsDuplicate = False\<rparr>)"
      using ck allowed by (simp add: limits_in_tx_def Let_def timed_def denied_def)
    then show ?thesis
      using False log [OF ok(2)] cnt [OF ok(2)] fields by (simp add: final_decision_def)
  next
    case okay: True
    show ?thesis
    proof (cases "e_Decision (vr_Result resp) = DecisionReview")
      case True
      then have "limits_in_tx S N (checker ?X newID rn now) req resp db
          = (rollbackAndPersist S N req timed db tx, Inr \<lparr>res_Response = timed, res_IsDuplicate = False\<rparr>)"
        using ck allowed okay by (simp add: limits_in_tx_def Let_def timed_def)
      then show ?thesis
        using okay True log [OF ok(1)] cnt [OF ok(1)] fields by (simp add: final_decision_def)
    next
      case False
      then have allow: "e_Decision (vr_Result resp) = DecisionAllow"
        using resp(2,3) by (cases "e_Decision (vr_Result resp)") auto
      have l: "limits_in_tx S N (checker ?X newID rn now) req resp db = allow_in_tx S N req timed db tx"
        using ck allowed okay False by (simp add: limits_in_tx_def Let_def timed_def)
      have "fresh_request S N (v_RequestID req) tx" using fresh t by (simp add: fresh_request_def)
      from allow_in_tx_logged [OF assms(1,2) ok(1) nf this, of db]
      obtain db' where a: "allow_in_tx S N req timed db tx
          = (db', Inr \<lparr>res_Response = timed, res_IsDuplicate = False\<rparr>)"
        "db_counters db' = db_counters tx" "logged S N req timed tx db'" by blast
      have "logged S N req timed db db'"
        by (rule logged_cong [OF a(3)]) (simp_all add: t)
      moreover have "usage db' k = usage tx k" for k using a(2) by (rule usage_counters)
      ultimately show ?thesis
        using l a(1) us okay allow fields by (simp add: final_decision_def)
    qed
  qed
qed

subsection \<open>A whole validation\<close>

lemma Validate_decides:
  fixes db :: "('d::linordered_ab_group_add, 'p, 'x) tracer_db_scheme"
  assumes env: "env_ok S N" "ValidationRequest_Validate (s_ext S) W req vnow = None"
    and db: "no_faults db" "counters_ok db" "limits_ok db" "fresh_ids newID 0 (length (db_limits db)) db"
    and fresh: "fresh_request S N (v_RequestID req) db"
    and rules: "exec req = Inr (Some ev)" "Decision_IsValid (e_Decision ev)"
  shows "\<exists>db' r. Validate S N exec (checker (s_ext S) newID rn now) id (Some req) db
      = (db', Inr \<lparr>res_Response = r, res_IsDuplicate = False\<rparr>)
    \<and> vr_ValidationID r = n_validationID N \<and> vr_RequestID r = v_RequestID req
    \<and> e_Decision (vr_Result r) = final_decision (e_Decision ev)
        (\<forall>l \<in> set (db_limits db). \<not> check_verdict (s_ext S) now (ToCheckLimitsInput req) db l)
    \<and> logged S N req r db db'
    \<and> (\<forall>k. usage db' k =
         (if e_Decision (vr_Result r) = DecisionAllow
            \<and> (\<exists>l \<in> set (db_limits db). check_counts (s_ext S) now (ToCheckLimitsInput req) db l
                 \<and> check_key (s_ext S) now (ToCheckLimitsInput req) l = k)
          then usage db k + v_Amount req else usage db k))"
proof -
  let ?i = "ToCheckLimitsInput req" and ?X = "s_ext S"
  let ?r0 = "(NewValidationResponse (n_validationID N) (v_RequestID req) DecisionAllow
      (n_evaluatedAt N))\<lparr>vr_Result := ev\<rparr> :: 'd ValidationResponse"
  have rid: "v_RequestID req \<noteq> uuid_Nil" "n_ctx N = None"
    using env by (auto simp: ValidationRequest_Validate_None validateRequiredFields_None env_ok_def)
  let ?db1 = "consume_fault (consume_fault db)"
  have find: "FindByRequestID ?X (s_uuid_Parse S) (v_RequestID req) db = (?db1, Inr None)"
    by (rule find_none_fresh [OF db(1) fresh rid(1)])
  note hyps1 = store_hyps_consume [OF store_hyps_consume [OF db]]
  show ?thesis
  proof (cases "e_Decision ev = DecisionDeny")
    case True
    let ?d = "?r0\<lparr>vr_ProcessingTimeMs := n_elapsedMs N\<rparr>"
    have ok: "resp_ok N ?d" using True by (simp add: resp_ok_def NewValidationResponse_def)
    have "logged S N req ?d ?db1 (persistAuditEvent S N req ?d (persistTransactionValidation S N req ?d ?db1))"
      by (rule persist_both_logged [OF env ok hyps1(1)]) (simp add: fresh)
    then have log: "logged S N req ?d db (persistAuditEvent S N req ?d (persistTransactionValidation S N req ?d ?db1))"
      by (rule logged_cong) simp_all
    have us: "usage (persistAuditEvent S N req ?d (persistTransactionValidation S N req ?d ?db1)) k = usage db k" for k
      by (rule usage_counters) (simp add: conjunct1 [OF persist_both_tables [OF refl]])
    have run: "Validate S N exec (checker ?X newID rn now) id (Some req) db
        = (persistAuditEvent S N req ?d (persistTransactionValidation S N req ?d ?db1),
           Inr \<lparr>res_Response = ?d, res_IsDuplicate = False\<rparr>)"
      using rid(2) find rules(1) True by (simp add: Validate_def Let_def)
    show ?thesis
      by (intro exI conjI) (rule run, simp_all add: NewValidationResponse_def log [simplified NewValidationResponse_def, simplified]
          us [simplified NewValidationResponse_def, simplified] True final_decision_def)
  next
    case False
    note hyps2 = store_hyps_consume [OF hyps1]
    have run: "Validate S N exec (checker ?X newID rn now) id (Some req) db
        = limits_in_tx S N (checker ?X newID rn now) req ?r0 (consume_fault ?db1)"
      using rid(2) find rules(1) False conjunct1 [OF next_fault_none [OF hyps1(1)]]
      by (simp add: Validate_def Let_def BeginTx_def)
    have fr: "fresh_request S N (v_RequestID req) (consume_fault ?db1)" using fresh by simp
    have len: "fresh_ids newID 0 (length (db_limits (consume_fault ?db1))) (consume_fault ?db1)"
      using hyps2(4) by simp
    have r0: "vr_ValidationID ?r0 = n_validationID N" "Decision_IsValid (e_Decision (vr_Result ?r0))"
      "e_Decision (vr_Result ?r0) \<noteq> DecisionDeny"
      using rules(2) False by (simp_all add: NewValidationResponse_def)
    have eq: "db_counters (consume_fault ?db1) = db_counters db" by simp
    obtain db' r where out: "limits_in_tx S N (checker ?X newID rn now) req ?r0 (consume_fault ?db1)
        = (db', Inr \<lparr>res_Response = r, res_IsDuplicate = False\<rparr>)"
      "vr_ValidationID r = n_validationID N" "vr_RequestID r = vr_RequestID ?r0"
      "e_Decision (vr_Result r) = final_decision (e_Decision (vr_Result ?r0))
        (\<forall>l \<in> set (db_limits (consume_fault ?db1)). \<not> check_verdict ?X now ?i (consume_fault ?db1) l)"
      "logged S N req r (consume_fault ?db1) db'"
      "\<forall>k. usage db' k =
         (if e_Decision (vr_Result r) = DecisionAllow
            \<and> (\<exists>l \<in> set (db_limits (consume_fault ?db1)). check_counts ?X now ?i (consume_fault ?db1) l
                 \<and> check_key ?X now ?i l = k)
          then usage (consume_fault ?db1) k + v_Amount req else usage (consume_fault ?db1) k)"
      using limits_in_tx_decides [OF env hyps2(1-3) len fr r0, of rn now] by blast
    have log: "logged S N req r db db'" by (rule logged_cong [OF out(5)]) simp_all
    show ?thesis
      using out(2,3,4,6) log run out(1)
      by (simp only: verdict_usage [OF eq] usage_consume) (simp add: NewValidationResponse_def)
  qed
qed

subsection \<open>The same request again\<close>

lemma build_fields:
  assumes "buildTransactionValidation heap req resp createdAt = Inr tv"
  shows "t_ID tv = vr_ValidationID resp" "t_RequestID tv = v_RequestID req" "t_Result tv = vr_Result resp"
    "t_ProcessingTimeMs tv = vr_ProcessingTimeMs resp" "t_LimitUsageDetails tv = vr_LimitUsageDetails resp"
    "t_TransactionType tv = v_TransactionType req" "t_CreatedAt tv = createdAt"
    "TransactionType_IsValid (v_TransactionType req)" "Decision_IsValid (e_Decision (vr_Result resp))"
    "t_Metadata tv = sanitized_metadata heap (v_Metadata req)"
  using assms
  by (auto simp: buildTransactionValidation_def NewTransactionValidation_def filled_validation_def Let_def
      validateTransactionValidation_def split: if_splits sum.splits option.splits)

text \<open>The stored answer: the counts of loaded rules are lost, the details keep their exported fields, and
  its time is that of the record, in whole microseconds.\<close>

definition stored_answer :: "gotime \<Rightarrow> 'd ValidationResponse \<Rightarrow> 'd ValidationResponse" where
  "stored_answer createdAt resp = resp
     \<lparr>vr_Result := (vr_Result resp)\<lparr>e_TotalRulesLoaded := 0, e_Truncated := False\<rparr>,
      vr_LimitUsageDetails := map json_detail (vr_LimitUsageDetails resp), vr_EvaluatedAt := timestamptz createdAt\<rparr>"

lemma ToValidationResponse_stored:
  assumes "buildTransactionValidation heap req resp createdAt = Inr tv" "vr_RequestID resp = v_RequestID req"
  shows "ToValidationResponse (Some (stored tv)) = Some (stored_answer createdAt resp)"
  using build_fields [OF assms(1)] assms(2)
  by (cases resp; cases "vr_Result resp")
    (simp add: ToValidationResponse_def stored_def whole_microseconds_def stored_answer_def bare_result_def)

lemma find_first:
  assumes "\<forall>r \<in> set xs. \<not> P r" "P y"
  shows "find P (xs @ y # ys) = Some y"
  using assms by (induction xs) auto

lemma Validate_replay:
  fixes db2 :: "('d::linordered_ab_group_add, 'p, 'x) tracer_db_scheme"
  assumes codec: "uuid_codec (s_ext S) (s_uuid_Parse S)"
    and tv: "buildTransactionValidation heap req resp createdAt = Inr tv" "vr_RequestID resp = v_RequestID req"
    and rows: "db_validations db2 = before @ inserted_row (s_ext S) tv # later"
      "\<forall>m \<in> set before. m_RequestID m \<noteq> x_uuid_string (s_ext S) (v_RequestID req)"
    and again: "no_faults db2" "n_ctx M = None" "v_RequestID req2 = v_RequestID req" "v_RequestID req \<noteq> uuid_Nil"
  shows "\<exists>db3. Validate S M exec check others (Some req2) db2
      = (db3, Inr \<lparr>res_Response = stored_answer createdAt resp, res_IsDuplicate = True\<rparr>)
    \<and> tables_kept db2 db3"
proof -
  let ?db3 = "consume_fault (consume_fault db2)"
  note nf = next_fault_none [OF again(1)]
  have "find (\<lambda>r. m_RequestID r = x_uuid_string (s_ext S) (v_RequestID req)) (db_validations db2)
      = Some (inserted_row (s_ext S) tv)"
    using rows build_fields(2) [OF tv(1)] by (simp add: find_first)
  moreover have "scanValidation (s_uuid_Parse S) (inserted_row (s_ext S) tv) = Inr (stored tv)"
    by (rule scan_inserted_row [OF codec]) (use build_fields [OF tv(1)] in simp_all)
  ultimately have "FindByRequestID (s_ext S) (s_uuid_Parse S) (v_RequestID req2) db2
      = (?db3, Inr (Some (stored tv)))"
    using nf again(3,4) by (simp add: FindByRequestID_def with_db_def Let_def)
  then have "Validate S M exec check others (Some req2) db2
      = (?db3, Inr \<lparr>res_Response = stored_answer createdAt resp, res_IsDuplicate = True\<rparr>)"
    using again(2) ToValidationResponse_stored [OF tv] by (simp add: Validate_def)
  then show ?thesis by simp
qed

lemma persistAuditEvent_no_faults: "no_faults db \<Longrightarrow> no_faults (persistAuditEvent S N req resp db)"
  using next_fault_none [of db] next_fault_none [of "consume_fault db"]
  by (auto simp: persistAuditEvent_def RecordValidationEvent_def AuditRepo_Insert_def
      AuditRepo_insertInternal_def draw_audit_id_def insert_with_id_def Let_def no_faults_def split: sum.split)

text \<open>Two requests with one identifier can both find no record. On the path of a rule that denies, the
  second insert is refused, which is only logged: the caller gets an answer without a record. Its audit
  event is inserted all the same.\<close>

lemma persistAuditEvent_added:
  fixes db :: "('d::linordered_ab_group_add, 'p, 'x) tracer_db_scheme"
  assumes "uuid_codec (s_ext S) (s_uuid_Parse S)" "no_faults db"
    "\<forall>e \<in> set (db_audits db). ae_EventID e \<noteq> n_eventID N
       \<and> ae_ResourceID e \<noteq> x_uuid_string (s_ext S) (vr_ValidationID resp)"
  shows "event_added S N req resp db (persistAuditEvent S N req resp db)"
proof -
  note nf = next_fault_none [OF assms(2)]
  obtain event where e: "own_event S N req resp = Inr event" "ae_EventID event = n_eventID N"
    "ae_ResourceID event = x_uuid_string (s_ext S) (vr_ValidationID resp)"
    using validation_event_made [OF assms(1)] unfolding own_event_def by metis
  have fr: "list_all (\<lambda>e. ae_EventID e \<noteq> ae_EventID event \<and> ae_ResourceID e \<noteq> ae_ResourceID event)
      (db_audits (consume_fault db))"
    using assms(3) e(2,3) by (simp add: list_all_iff)
  have "next_fault (consume_fault db) = None" using nf by blast
  from audit_insert_fresh [OF this fr, of "s_ext S" "s_audit S"] show ?thesis
    using e(1) nf
    by (auto simp: persistAuditEvent_def RecordValidationEvent_def own_event_def AuditRepo_Insert_def
        event_added_def audit_row_added_def)
qed

lemma persistTransactionValidation_no_faults:
  "no_faults db \<Longrightarrow> no_faults (persistTransactionValidation S N req resp db)"
  using next_fault_none [of db] next_fault_none [of "consume_fault db"]
  by (auto simp: persistTransactionValidation_def ValidationRepo_Insert_def ValidationRepo_insertInternal_def
      Let_def no_faults_def split: sum.split)

lemma deny_race:
  fixes db :: "('d::linordered_ab_group_add, 'p, 'x) tracer_db_scheme"
  assumes "no_faults db" "fresh_request S N (v_RequestID req) db" "v_RequestID req \<noteq> uuid_Nil"
    "n_ctx N = None" "exec req = Inr (Some ev)" "e_Decision ev = DecisionDeny"
    and other: "m \<in> set (db_validations (others (consume_fault (consume_fault db))))"
      "m_RequestID m = x_uuid_string (s_ext S) (v_RequestID req)"
  shows "\<exists>db' r. Validate S N exec check others (Some req) db
      = (db', Inr \<lparr>res_Response = r, res_IsDuplicate = False\<rparr>)
    \<and> vr_ValidationID r = n_validationID N
    \<and> db_validations db' = db_validations (others (consume_fault (consume_fault db)))
    \<and> (uuid_codec (s_ext S) (s_uuid_Parse S) \<and> no_faults (others (consume_fault (consume_fault db)))
        \<and> (\<forall>e \<in> set (db_audits (others (consume_fault (consume_fault db)))). ae_EventID e \<noteq> n_eventID N
              \<and> ae_ResourceID e \<noteq> x_uuid_string (s_ext S) (n_validationID N))
       \<longrightarrow> event_added S N req r (others (consume_fault (consume_fault db))) db')"
proof -
  let ?db2 = "others (consume_fault (consume_fault db))"
  let ?d = "(NewValidationResponse (n_validationID N) (v_RequestID req) DecisionAllow (n_evaluatedAt N))
      \<lparr>vr_Result := ev, vr_ProcessingTimeMs := n_elapsedMs N\<rparr> :: 'd ValidationResponse"
  let ?db3 = "persistTransactionValidation S N req ?d ?db2"
  have run: "Validate S N exec check others (Some req) db
      = (persistAuditEvent S N req ?d ?db3, Inr \<lparr>res_Response = ?d, res_IsDuplicate = False\<rparr>)"
    using find_none_fresh [OF assms(1-3)] assms(4-6) by (simp add: Validate_def Let_def)
  have "db_validations ?db3 = db_validations ?db2"
  proof (rule ccontr)
    assume "db_validations ?db3 \<noteq> db_validations ?db2"
    then obtain tv where "buildTransactionValidation (n_heap N) req ?d (n_persistNow N) = Inr tv"
      "\<forall>m \<in> set (db_validations ?db2). m_RequestID m \<noteq> m_RequestID (inserted_row (s_ext S) tv)"
      using persistTransactionValidation_tables [OF refl, of S N req ?d ?db2] by (auto simp: recorded_def)
    then show False using other build_fields(2) by fastforce
  qed
  then have v: "db_validations (persistAuditEvent S N req ?d ?db3) = db_validations ?db2"
    using persistAuditEvent_tables [OF refl, of S N req ?d ?db3] by simp
  have au: "db_audits ?db3 = db_audits ?db2"
    using persistTransactionValidation_tables [OF refl, of S N req ?d ?db2] by blast
  have i: "vr_ValidationID ?d = n_validationID N" by (simp add: NewValidationResponse_def)
  have "event_added S N req ?d ?db2 (persistAuditEvent S N req ?d ?db3)"
    if "uuid_codec (s_ext S) (s_uuid_Parse S)" "no_faults ?db2"
      "\<forall>e \<in> set (db_audits ?db2). ae_EventID e \<noteq> n_eventID N
        \<and> ae_ResourceID e \<noteq> x_uuid_string (s_ext S) (n_validationID N)"
  proof -
    have "event_added S N req ?d ?db3 (persistAuditEvent S N req ?d ?db3)"
      by (rule persistAuditEvent_added [OF that(1) persistTransactionValidation_no_faults [OF that(2)]])
        (use that(3) in \<open>simp only: au i\<close>)
    then show ?thesis by (rule event_added_cong) (simp_all add: au)
  qed
  with run v i show ?thesis by blast
qed

end
