(* ===== verification/ValidationChain.thy ===== *)
theory ValidationChain
  imports ValidationOutcome
begin

text \<open>
  The audit chain under whole validations: whatever happens in a validation, the table of audit events
  stays linked. A rollback puts the rows back and leaves a gap in the numbers.
\<close>

lemma audit_ok_rows:
  assumes "audit_ok X A a" "db_audits b = db_audits a" "db_audit_seq a \<le> db_audit_seq b"
  shows "audit_ok X A b"
  using assms by (fastforce simp: audit_ok_def)

lemma Insert_keeps_audits:
  "db_audits (fst (ValidationRepo_Insert X tv db)) = db_audits db
   \<and> db_audit_seq (fst (ValidationRepo_Insert X tv db)) = db_audit_seq db"
  "ValidationRepo_insertInternal X tv db = (db', r) \<Longrightarrow>
     db_audits db' = db_audits db \<and> db_audit_seq db' = db_audit_seq db"
  by (auto simp: ValidationRepo_Insert_def ValidationRepo_insertInternal_def Let_def
      split: option.splits if_splits)

lemma FindByRequestID_audits:
  "db_audits (fst (FindByRequestID X P i db)) = db_audits db
   \<and> db_audit_seq (fst (FindByRequestID X P i db)) = db_audit_seq db"
  by (auto simp: FindByRequestID_def with_db_def Let_def split: option.splits)

lemma AuditRepo_insertInternal_seq:
  "db_audit_seq db \<le> db_audit_seq (fst (AuditRepo_insertInternal X A e db))"
  by (auto simp: AuditRepo_insertInternal_def Let_def draw_audit_id_def insert_with_id_def
      consume_fault_def split: option.splits)

lemma persistTransactionValidation_chain:
  "audit_ok X A (persistTransactionValidation S N req resp db) = audit_ok X A db"
  using Insert_keeps_audits(1) [of "s_ext S" _ db]
  by (auto simp: persistTransactionValidation_def audit_ok_def split: sum.splits)

lemma persistAuditEvent_chain:
  assumes "audit_ok (s_ext S) (s_audit S) db"
  shows "audit_ok (s_ext S) (s_audit S) (persistAuditEvent S N req resp db)"
proof (cases "validation_event (s_ext S) (s_audit S) (n_eventID N) (n_eventNow N) (vr_ValidationID resp)
    (buildRequestSnapshot (s_ext S) req) (vr_Result resp) (response_context resp) (n_clientIP N)")
  case (Inl e)
  with assms show ?thesis by (simp add: persistAuditEvent_def RecordValidationEvent_def)
next
  case (Inr event)
  then show ?thesis
    using AuditRepo_Insert_ok [OF assms surjective_pairing, of event]
    by (simp add: persistAuditEvent_def RecordValidationEvent_def)
qed

lemma persistAuditEventWithTx_chain:
  assumes "audit_ok (s_ext S) (s_audit S) tx"
  shows "audit_ok (s_ext S) (s_audit S) (fst (persistAuditEventWithTx S N req resp tx))
    \<and> db_audit_seq tx \<le> db_audit_seq (fst (persistAuditEventWithTx S N req resp tx))"
proof (cases "validation_event (s_ext S) (s_audit S) (n_eventID N) (n_eventNow N) (vr_ValidationID resp)
    (buildRequestSnapshot (s_ext S) req) (vr_Result resp) (response_context resp) (n_clientIP N)")
  case (Inl e)
  with assms show ?thesis by (simp add: persistAuditEventWithTx_def RecordValidationEventWithTx_def)
next
  case (Inr event)
  obtain tx2 r where i: "AuditRepo_insertInternal (s_ext S) (s_audit S) event tx = (tx2, r)" by fastforce
  then show ?thesis
    using Inr AuditRepo_insertInternal_ok [OF assms i]
      AuditRepo_insertInternal_seq [of tx "s_ext S" "s_audit S" event]
    by (simp add: persistAuditEventWithTx_def RecordValidationEventWithTx_def split: option.splits)
qed

lemma rolled_back_chain:
  assumes "audit_ok X A began" "db_audit_seq began \<le> db_audit_seq tx"
  shows "audit_ok X A (rolled_back began tx)" "audit_ok X A (Rollback began tx)"
  using audit_ok_rows [OF assms(1), of "rolled_back began tx"] assms(2)
  by (simp_all add: Rollback_def rolled_back_def)

lemma rollbackAndPersist_chain:
  assumes "audit_ok (s_ext S) (s_audit S) began" "db_audit_seq began \<le> db_audit_seq tx"
  shows "audit_ok (s_ext S) (s_audit S) (rollbackAndPersist S N req resp began tx)"
  unfolding rollbackAndPersist_def
  by (rule persistAuditEvent_chain)
    (simp add: persistTransactionValidation_chain rolled_back_chain [OF assms])

lemma handleConcurrentDuplicate_audits:
  assumes "handleConcurrentDuplicate S e req db = (db', r)"
  shows "db_audits db' = db_audits db \<and> db_audit_seq db' = db_audit_seq db"
proof -
  obtain db1 f where "FindByRequestID (s_ext S) (s_uuid_Parse S) (v_RequestID req) db = (db1, f)"
    by fastforce
  with assms FindByRequestID_audits [of "s_ext S" "s_uuid_Parse S" "v_RequestID req" db] show ?thesis
    by (cases f) (auto simp: handleConcurrentDuplicate_def split: if_splits)
qed

lemma allow_in_tx_chain:
  assumes began: "audit_ok (s_ext S) (s_audit S) began" "db_audit_seq began \<le> db_audit_seq tx"
    and tx: "audit_ok (s_ext S) (s_audit S) tx"
  shows "audit_ok (s_ext S) (s_audit S) (fst (allow_in_tx S N req resp began tx))"
proof -
  let ?ok = "audit_ok (s_ext S) (s_audit S)"
  obtain tx1 e1 where p: "persistTransactionValidationWithTx S N req resp tx = (tx1, e1)" by fastforce
  have tx1: "db_audits tx1 = db_audits tx" "db_audit_seq tx1 = db_audit_seq tx"
    using p
    by (auto dest!: Insert_keeps_audits(2) simp: persistTransactionValidationWithTx_def ValidationRepo_InsertWithTx_def
        split: sum.splits prod.splits option.splits)
  have ok1: "?ok tx1" by (rule audit_ok_rows [OF tx]) (simp_all add: tx1)
  show ?thesis
  proof (cases e1)
    case (Some e)
    obtain db2 res where h: "handleConcurrentDuplicate S e req (rolled_back began tx1) = (db2, res)"
      by fastforce
    have d: "db_audits db2 = db_audits (rolled_back began tx1)
        \<and> db_audit_seq db2 = db_audit_seq (rolled_back began tx1)"
      by (rule handleConcurrentDuplicate_audits [OF h])
    have "?ok (rolled_back began tx1)"
      by (rule rolled_back_chain(1) [OF began(1)]) (simp add: tx1 began(2))
    then have "?ok db2" using d by (simp add: audit_ok_def)
    then show ?thesis using p Some h by (cases res) (simp_all add: allow_in_tx_def)
  next
    case None
    obtain tx2 e2 where a: "persistAuditEventWithTx S N req resp tx1 = (tx2, e2)" by fastforce
    have ok2: "?ok tx2 \<and> db_audit_seq tx1 \<le> db_audit_seq tx2"
      using persistAuditEventWithTx_chain [OF ok1, of N req resp] by (simp add: a)
    have rb: "?ok (Rollback began tx2)" "?ok (rolled_back began tx2)"
      using ok2 began(2) tx1(2) by (intro rolled_back_chain [OF began(1)]; simp)+
    show ?thesis
      using p None a ok2 rb by (auto simp: allow_in_tx_def Commit_def split: option.splits)
  qed
qed

lemma checker_chain:
  fixes db :: "('d::linordered_ab_group_add, 'p, 'x) tracer_db_scheme"
  assumes "counters_only db tx"
  shows "audit_ok X A tx = audit_ok X A db" "db_audit_seq tx = db_audit_seq db"
  using counters_only_tables [OF assms] by (simp_all add: audit_ok_def)

lemma limits_in_tx_chain:
  assumes "audit_ok (s_ext S) (s_audit S) began"
  shows "audit_ok (s_ext S) (s_audit S) (fst (limits_in_tx S N (checker X newID rn now) req resp began))"
proof -
  obtain tx c where ck: "checker X newID rn now (ToCheckLimitsInput req) began = (tx, c)" by fastforce
  note t = checker_chain [OF program_checks.frame [OF ck]]
  have le: "db_audit_seq began \<le> db_audit_seq tx" using t(2) by simp
  have ok: "audit_ok (s_ext S) (s_audit S) tx" using t(1) assms by simp
  show ?thesis
    using ck rolled_back_chain(2) [OF assms le] rollbackAndPersist_chain [OF assms le]
      allow_in_tx_chain [OF assms le ok]
    by (auto simp: limits_in_tx_def Let_def split: sum.splits option.splits)
qed

lemma Validate_chain:
  assumes "audit_ok (s_ext S) (s_audit S) db"
    and others: "\<And>d. audit_ok (s_ext S) (s_audit S) d \<Longrightarrow> audit_ok (s_ext S) (s_audit S) (others d)"
  shows "audit_ok (s_ext S) (s_audit S) (fst (Validate S N exec (checker X newID rn now) others request db))"
proof (cases "n_ctx N = None \<and> request \<noteq> None")
  case False
  with assms(1) show ?thesis by (auto simp: Validate_def split: option.splits)
next
  case True
  then obtain req where req: "request = Some req" "n_ctx N = None" by blast
  let ?ok = "audit_ok (s_ext S) (s_audit S)"
  obtain db1 f where f: "FindByRequestID (s_ext S) (s_uuid_Parse S) (v_RequestID req) db = (db1, f)"
    by fastforce
  have ok1: "?ok db1"
    using assms(1) FindByRequestID_audits [of "s_ext S" "s_uuid_Parse S" "v_RequestID req" db] f
    by (simp add: audit_ok_def)
  note ok2 = others [OF ok1]
  have saved: "?ok (persistAuditEvent S N req resp (persistTransactionValidation S N req resp (others db1)))"
    for resp
    using ok2 by (intro persistAuditEvent_chain) (simp add: persistTransactionValidation_chain)
  have tx: "?ok (fst (limits_in_tx S N (checker X newID rn now) req resp (consume_fault (others db1))))" for resp
    using ok2 by (intro limits_in_tx_chain) simp
  show ?thesis
  proof (cases f)
    case (Inl e)
    with req f ok1 show ?thesis by (simp add: Validate_def)
  next
    case (Inr found)
    then show ?thesis
      using req f ok1 ok2 saved tx
      by (cases found; cases "exec req"; cases "next_fault (others db1)")
        (simp_all add: Validate_def Let_def BeginTx_def split: option.splits)
  qed
qed

subsection \<open>Everything that writes audit events, one after the other\<close>

lemma record_crud_event_chain:
  assumes "audit_ok X A db"
  shows "audit_ok X A (fst (record_crud_event X A rt name newID now et a i before after reason ip db))"
  using assms AuditRepo_Insert_ok [OF assms surjective_pairing]
  by (simp add: record_crud_event_def split: sum.splits)

inductive audited ::
  "service_env \<Rightarrow> ('d::linordered_ab_group_add, 'p, 'x) tracer_db_scheme \<Rightarrow> ('d, 'p, 'x) tracer_db_scheme \<Rightarrow> bool"
  for S where
  validation: "audited S db (fst (Validate S N exec (checker X newID rn now) id request db))"
| rule_event: "audited S db (fst (RecordRuleEvent (s_ext S) (s_audit S) newID now et a i before after reason ip db))"
| limit_event: "audited S db (fst (RecordLimitEvent (s_ext S) (s_audit S) newID now et a i before after reason ip db))"

lemma audited_chain:
  assumes "audited S db db'" "audit_ok (s_ext S) (s_audit S) db"
  shows "audit_ok (s_ext S) (s_audit S) db'"
  using assms
  by cases (simp_all add: Validate_chain RecordRuleEvent_def RecordLimitEvent_def record_crud_event_chain)

lemma audited_many_chain:
  assumes "(audited S)\<^sup>*\<^sup>* db db'" "audit_ok (s_ext S) (s_audit S) db"
  shows "audit_ok (s_ext S) (s_audit S) db'"
  using assms by induction (simp_all add: audited_chain)

lemma Verify_linked:
  fixes db :: "('d, 'p, 'x) tracer_db_scheme"
  assumes "audit_ok X A db" "VerifyAuditEventQuery_Execute X A i db = (db', Inr res)"
  shows "\<exists>e \<in> set (db_audits db). ae_EventID e = i \<and> hc_IsValid res \<and> hc_FirstInvalidID res = None
    \<and> hc_TotalChecked res = int (length (filter (\<lambda>r. ae_ID r \<le> ae_ID e) (db_audits db)))"
proof (cases "find (\<lambda>e. ae_EventID e = i) (db_audits db)")
  case None
  with assms(2) show ?thesis
    by (auto simp: VerifyAuditEventQuery_Execute_def VerifyHashChain_def with_db_def Let_def
        split: if_splits option.splits)
next
  case (Some e)
  then have "e \<in> set (db_audits db) \<and> ae_EventID e = i" by (auto simp: find_Some_iff)
  with assms(2) Some show ?thesis
    by (auto simp: VerifyAuditEventQuery_Execute_def VerifyHashChain_def with_db_def Let_def
        verify_prefix [OF assms(1)]
        split: if_splits option.splits)
qed

end
