(* ===== verification/ValidationProperties.thy ===== *)
theory ValidationProperties
  imports RuleProperties ValidationChain "HOL-Library.Countable"
begin

text \<open>
  The properties of whole validations, of the records they leave, of the audit chain and of the
  sanitizer, each with a concrete instance where its hypotheses hold. In the instances a UUID is
  printed as its decimal number.
\<close>

definition parse0 :: "string \<Rightarrow> (err, uuid) result" where
  "parse0 s =
     (let i = of_nat (digits_val 0 s)
      in if s = nat_digits (unat (i :: uuid)) then Inr i else Inl (External ''invalid UUID''))"

lemma digit_not_special:
  assumes "d < 10"
  shows "digit d \<noteq> comma" "digit d \<noteq> quote" "digit d \<noteq> CHR ''N''" "digit d \<noteq> CHR ''|''"
    "(of_char (digit d) :: nat) \<in> {48..57}"
proof -
  have n: "(of_char (digit d) :: nat) = 48 + d" using assms by simp
  show "digit d \<noteq> comma" "digit d \<noteq> quote" "digit d \<noteq> CHR ''N''" "digit d \<noteq> CHR ''|''"
    using n assms by (auto dest!: arg_cong [where f = "of_char :: char \<Rightarrow> nat"])
  show "(of_char (digit d) :: nat) \<in> {48..57}" using n assms by simp
qed

lemma TrimSpace_nat_digits: "TrimSpace (nat_digits n) = nat_digits n"
proof (rule TrimSpace_digits)
  have "is_digit c" if m: "c \<in> set (nat_digits n)" for c
  proof -
    obtain d where "d < 10" "c = digit d" using nat_digits_chars [OF m] by blast
    then show ?thesis by simp
  qed
  then show "is_digit (hd (nat_digits n))" "is_digit (last (nat_digits n))"
    using hd_in_set last_in_set nat_digits_not_empty by blast+
qed simp

lemma codec0: "uuid_codec ext0 parse0"
proof -
  have c: "c \<noteq> comma \<and> c \<noteq> quote \<and> c \<noteq> CHR ''N''" if m: "c \<in> set (nat_digits n)" for c n
  proof -
    obtain d where "d < 10" "c = digit d" using nat_digits_chars [OF m] by blast
    then show ?thesis using digit_not_special [of d] by simp
  qed
  have "plain_element (nat_digits n)" for n
  proof -
    have "hd (nat_digits n) \<noteq> quote" "hd (nat_digits n) \<noteq> CHR ''N''"
      using c [OF hd_in_set [OF nat_digits_not_empty]] by blast+
    then show ?thesis by (auto simp: plain_element_def quoted_def)
  qed
  then show ?thesis
    using c by (simp add: uuid_codec_def ext0_def parse0_def TrimSpace_nat_digits Let_def) blast
qed

definition audit0 :: audit_ext where
  "audit0 = \<lparr>a_sha256 = (\<lambda>s. ''#'' @ map (\<lambda>c. if c = CHR ''|'' then CHR ''/'' else c) s),
     a_time_text = show_int, a_host_of = (\<lambda>s. None), a_is_ip = (\<lambda>s. False)\<rparr>"

definition service0 :: service_env where
  "service0 = \<lparr>s_ext = ext0, s_audit = audit0, s_uuid_Parse = parse0\<rparr>"

definition env0 :: "uuid \<Rightarrow> request_env" where
  "env0 i = \<lparr>n_ctx = None, n_validationID = i, n_evaluatedAt = 11, n_persistNow = 12, n_elapsedMs = 1,
     n_eventID = i + 1000, n_eventNow = 13, n_clientIP = [], n_heap = length\<rparr>"

definition tracer0 :: "int Limit list \<Rightarrow> (int, string) tracer_db" where
  "tracer0 ls = \<lparr>db_counters = [], db_faults = [], db_limits = ls, db_rules = [], db_audits = [],
     db_audit_seq = 0, db_validations = []\<rparr>"

lemma vrequest0_valid: "ValidationRequest_Validate ext0 default_window vrequest0 10 = None"
  by (simp add: ValidationRequest_Validate_def validateRequiredFields_def
      validateOptionalFields_def validateMerchant_def validateMetadata_def vrequest0_def
      IsValidCurrency_def ext0_def time_IsZero_def default_window_def Minute_ns_def Hour_ns_def)

lemma tracer0_hyps:
  "no_faults (tracer0 [daily_limit 1 10])" "counters_ok (tracer0 [daily_limit 1 10])"
  "limits_ok (tracer0 [daily_limit 1 10])"
  "fresh_ids ids0 0 (length (db_limits (tracer0 [daily_limit 1 10]))) (tracer0 [daily_limit 1 10])"
  "fresh_request service0 (env0 i) u (tracer0 ls)"
  by (simp_all add: counters_ok_def limits_ok_def no_faults_def tracer0_def daily_limit_def
      scan_scopes_def account_scope_def fresh_ids_def fresh_request_def)

lemma env0_ok: "i \<noteq> 0 \<Longrightarrow> env_ok service0 (env0 i)"
  by (simp add: env_ok_def service0_def env0_def codec0 time_IsZero_def)

subsection \<open>Whole validations\<close>

text \<open>C18. A transaction is decided by its rules and its limits. On a consistent store, without driver
  failures, and when no cached rule fails or is cut off by \<^verbatim>\<open>MaxRulesPerRequest\<close>, a valid request with an
  identifier that is not stored yet gets an answer from the service, put together from the rule cache, the
  evaluator, the limit checker and the repositories. The decision is deny when the winning rule denies or a limit in effect would be exceeded, and otherwise the one of
  the winning rule or of the default; exactly one validation record and one audit event with that
  decision are added; and the counters of the limits grow by the amount exactly when the decision is
  allow.\<close>

theorem transaction_decided:
  fixes db :: "('d::linordered_ab_group_add, 'p, 'x) tracer_db_scheme"
  assumes "env_ok S N" "ValidationRequest_Validate (s_ext S) W req vnow = None"
    "no_faults db" "counters_ok db" "limits_ok db" "fresh_ids newID 0 (length (db_limits db)) db"
    "fresh_request S N (v_RequestID req) db"
    and cache: "rc_ready c" "enumerates order c" "live_context ctx"
      "Decision_IsValid (DefaultDecisionWhenNoMatch cfg)" "\<forall>r \<in> served c. Decision_IsValid (r_Action r)"
      "MaxRulesPerRequest cfg \<le> 0 \<or> int (length order) \<le> MaxRulesPerRequest cfg"
      "\<forall>r \<in> served c. \<not> rule_fails cel req r"
  shows "\<exists>db' r. Validate S N (evaluator cel cfg ctx (CacheAdapter_GetActiveRules order c))
        (checker (s_ext S) newID rn now) id (Some req) db
      = (db', Inr \<lparr>res_Response = r, res_IsDuplicate = False\<rparr>)
    \<and> vr_ValidationID r = n_validationID N \<and> vr_RequestID r = v_RequestID req
    \<and> e_Decision (vr_Result r) = final_decision (winner cel req (DefaultDecisionWhenNoMatch cfg) (served c))
        (\<forall>l \<in> set (db_limits db). \<not> check_verdict (s_ext S) now (ToCheckLimitsInput req) db l)
    \<and> logged S N req r db db'
    \<and> (\<forall>k. usage db' k =
         (if e_Decision (vr_Result r) = DecisionAllow
            \<and> (\<exists>l \<in> set (db_limits db). check_counts (s_ext S) now (ToCheckLimitsInput req) db l
                 \<and> check_key (s_ext S) now (ToCheckLimitsInput req) l = k)
          then usage db k + v_Amount req else usage db k))"
proof -
  obtain ev where ev: "EvaluateRules cel cfg ctx (CacheAdapter_GetActiveRules order c) (Some req) = Inr ev"
    "e_Decision ev = winner cel req (DefaultDecisionWhenNoMatch cfg) (served c)"
    using cached_evaluation [OF cache(1-6), of cel req] cache(7) by auto
  have exec: "evaluator cel cfg ctx (CacheAdapter_GetActiveRules order c) req = Inr (Some ev)"
    using ev(1) by (simp add: evaluator_def)
  have "Decision_IsValid (e_Decision ev)"
    using cache(4) by (simp add: ev(2) winner_def winning_def)
  from Validate_decides [where exec = "evaluator cel cfg ctx (CacheAdapter_GetActiveRules order c)",
      OF assms(1-7) exec this, of rn now]
  show ?thesis unfolding ev(2) .
qed

lemma cache0_allow:
  "rc_ready (cache0 [allow_1])" "enumerates [1] (cache0 [allow_1])"
  "served (cache0 [allow_1]) = {allow_1\<lparr>r_CompiledProgram := Some ''true''\<rparr>}"
  by (auto simp: cache0_def MarkReady_def SetRules_def store_rule_def allow_1_def rule0_def enumerates_def
      NewRuleCache_def served_def split: if_splits)

theorem transaction_decided_witness:
  "\<exists>db' r. Validate service0 (env0 5) (evaluator cel0 (config0 0) [] (CacheAdapter_GetActiveRules [1] (cache0 [allow_1])))
      (checker ext0 ids0 20 20) id (Some vrequest0) (tracer0 [daily_limit 1 10])
      = (db', Inr \<lparr>res_Response = r, res_IsDuplicate = False\<rparr>)
    \<and> e_Decision (vr_Result r) = DecisionAllow \<and> length (db_validations db') = 1"
proof -
  have m: "rule_matches cel0 vrequest0 r" "\<not> rule_fails cel0 vrequest0 r" "r_Action r = DecisionAllow"
    if "r \<in> served (cache0 [allow_1])" for r
    using that unfolding cache0_allow
    by (auto simp: rule_matches_def rule_fails_def rule_applies_def rule_program_def
        cel0_def allow_1_def rule0_def)
  have "{r \<in> served (cache0 [allow_1]). rule_matches cel0 vrequest0 r} = served (cache0 [allow_1])"
    using m by blast
  then have w: "winner cel0 vrequest0 DecisionReview (served (cache0 [allow_1])) = DecisionAllow"
    unfolding winner_def cache0_allow by (simp add: winning_def allow_1_def rule0_def)
  have v: "(\<forall>l \<in> set (db_limits (tracer0 [daily_limit 1 10])).
      \<not> check_verdict ext0 20 (ToCheckLimitsInput vrequest0) (tracer0 [daily_limit 1 10]) l) = True"
    by (simp add: tracer0_def check_verdict_def over_limit_def usage_def find_row_def daily_limit_def
        ToCheckLimitsInput_def vrequest0_def)
  have s: "s_ext service0 = ext0" by (simp add: service0_def)
  have hyps: "live_context []" "Decision_IsValid (DefaultDecisionWhenNoMatch (config0 0))"
    "MaxRulesPerRequest (config0 0) \<le> 0 \<or> int (length [1 :: uuid]) \<le> MaxRulesPerRequest (config0 0)"
    "\<forall>r \<in> served (cache0 [allow_1]). Decision_IsValid (r_Action r)"
    "\<forall>r \<in> served (cache0 [allow_1]). \<not> rule_fails cel0 vrequest0 r" "env_ok service0 (env0 5)"
    using m by (simp_all add: live_context_def config0_def env0_ok)
  obtain db' r where "Validate service0 (env0 5)
        (evaluator cel0 (config0 0) [] (CacheAdapter_GetActiveRules [1] (cache0 [allow_1])))
      (checker ext0 ids0 20 20) id (Some vrequest0) (tracer0 [daily_limit 1 10])
      = (db', Inr \<lparr>res_Response = r, res_IsDuplicate = False\<rparr>)"
    "e_Decision (vr_Result r) = final_decision (winner cel0 vrequest0
        (DefaultDecisionWhenNoMatch (config0 0)) (served (cache0 [allow_1]))) True"
    "logged service0 (env0 5) vrequest0 r (tracer0 [daily_limit 1 10]) db'"
    using transaction_decided [where S = service0 and N = "env0 5" and W = default_window and vnow = 10
        and cel = cel0 and cfg = "config0 0" and req = vrequest0 and rn = 20 and now = 20,
        unfolded s, OF hyps(6) vrequest0_valid tracer0_hyps cache0_allow(1,2) hyps(1,2,4,3,5)]
    unfolding v by blast
  moreover have "DefaultDecisionWhenNoMatch (config0 0) = DecisionReview" by (simp add: config0_def)
  ultimately show ?thesis
    using w by (auto simp: final_decision_def logged_def tracer0_def)
qed

text \<open>C19. A validation is all or nothing, whatever the rules, the driver and other requests do. An error
  and a duplicate leave every table as it was; a refused or reviewed transaction leaves the counters as
  they were and adds at most its record and its audit event; an allowed one adds its record and its audit
  event, chained to the rows before (unless an event for the same validation is there already), and has
  exactly the counters that the limit check made inside the transaction. The tables are compared with
  those before the call, or with those that other requests (\<open>others\<close>) left after the look for a
  duplicate.\<close>

theorem validation_atomic:
  fixes db :: "('d::linordered_ab_group_add, 'p, 'x) tracer_db_scheme"
  shows "\<exists>began \<in> {db, others (fst (FindByRequestID (s_ext S) (s_uuid_Parse S) (v_RequestID req) db))}.
    (case Validate S N exec (checker X newID rn now) others (Some req) db of
       (db', Inl e) \<Rightarrow> tables_kept began db'
     | (db', Inr res) \<Rightarrow>
         if res_IsDuplicate res then tables_kept began db'
         else if e_Decision (vr_Result (res_Response res)) \<in> {DecisionDeny, DecisionReview}
         then db_counters db' = db_counters began \<and> recorded S N req (res_Response res) began db'
         else committed S N req (res_Response res)
           (began\<lparr>db_counters := db_counters (fst (checker X newID rn now (ToCheckLimitsInput req)
              (consume_fault began)))\<rparr>) db')"
proof -
  obtain db' r where v: "Validate S N exec (checker X newID rn now) others (Some req) db = (db', r)"
    by fastforce
  show ?thesis
    using program_checks.Validate_outcome [OF v]
    by (cases r) (auto simp: v program_checks.outcome_def)
qed

text \<open>A request is answered once. After a successful validation of a new request, any later request
  with the same identifier gets the stored answer, marked as a duplicate, whatever its contents, the
  rules and the limits are by then, and no table changes; the stored answer is the first one without
  the counts of loaded rules, with the creation time of the record as its time.\<close>

theorem repeated_request_gets_stored_answer:
  fixes db db2 :: "('d::linordered_ab_group_add, 'p, 'x) tracer_db_scheme"
  assumes "env_ok S N" "ValidationRequest_Validate (s_ext S) W req vnow = None"
    "no_faults db" "counters_ok db" "limits_ok db" "fresh_ids newID 0 (length (db_limits db)) db"
    "fresh_request S N (v_RequestID req) db" "exec req = Inr (Some ev)" "Decision_IsValid (e_Decision ev)"
    and first: "Validate S N exec (checker (s_ext S) newID rn now) id (Some req) db = (db', Inr res)"
    and later: "db_validations db2 = db_validations db' @ later" "no_faults db2" "n_ctx M = None"
      "v_RequestID req2 = v_RequestID req"
  shows "\<exists>db3. Validate S M exec2 check2 others (Some req2) db2
      = (db3, Inr \<lparr>res_Response = stored_answer (n_persistNow N) (res_Response res), res_IsDuplicate = True\<rparr>)
    \<and> tables_kept db2 db3"
proof -
  obtain db1 r where run: "Validate S N exec (checker (s_ext S) newID rn now) id (Some req) db
      = (db1, Inr \<lparr>res_Response = r, res_IsDuplicate = False\<rparr>)"
    "vr_RequestID r = v_RequestID req" "logged S N req r db db1"
    using Validate_decides [where exec = exec, OF assms(1-9), of rn now] by blast
  have eq: "db1 = db'" "res_Response res = r" using run(1) first by auto
  obtain tv where tv: "buildTransactionValidation (n_heap N) req r (n_persistNow N) = Inr tv"
    "db_validations db' = db_validations db @ [inserted_row (s_ext S) tv]"
    using run(3) unfolding eq logged_def by blast
  have codec: "uuid_codec (s_ext S) (s_uuid_Parse S)" using assms(1) by (simp add: env_ok_def)
  have rows: "db_validations db2 = db_validations db @ inserted_row (s_ext S) tv # later"
    using later(1) tv(2) by simp
  have other: "\<forall>m \<in> set (db_validations db). m_RequestID m \<noteq> x_uuid_string (s_ext S) (v_RequestID req)"
    using assms(7) by (auto simp: fresh_request_def list_all_iff)
  have rid: "v_RequestID req \<noteq> uuid_Nil"
    using assms(2) by (auto simp: ValidationRequest_Validate_None validateRequiredFields_None)
  show ?thesis
    unfolding eq(2)
    by (rule Validate_replay [OF codec tv(1) run(2) rows other later(2-4) rid])
qed

theorem repeated_request_gets_stored_answer_witness:
  "\<exists>db1 db2 res r. Validate service0 (env0 5) (\<lambda>_. Inr (Some (bare_result DecisionReview)))
      (checker ext0 ids0 20 20) id (Some vrequest0) (tracer0 [daily_limit 1 10]) = (db1, Inr res)
    \<and> Validate service0 (env0 9) (\<lambda>_. Inl ErrInvalidDecision) (checker ext0 ids0 30 30) id
        (Some (vrequest0\<lparr>v_Amount := 1000\<rparr>)) (db1\<lparr>db_faults := []\<rparr>) = (db2, Inr r)
    \<and> res_IsDuplicate r \<and> vr_ValidationID (res_Response r) = vr_ValidationID (res_Response res)"
proof -
  let ?db = "tracer0 [daily_limit 1 10]" and ?ev = "bare_result DecisionReview"
  have s: "s_ext service0 = ext0" "s_uuid_Parse service0 = parse0" by (simp_all add: service0_def)
  have ok: "env_ok service0 (env0 5)" "Decision_IsValid (e_Decision ?ev)"
    by (simp_all add: env0_ok bare_result_def)
  note run = Validate_decides [where S = service0 and N = "env0 5" and W = default_window and vnow = 10
      and exec = "\<lambda>_. Inr (Some ?ev)" and ev = ?ev and rn = 20 and now = 20, unfolded s,
      OF ok(1) vrequest0_valid tracer0_hyps refl ok(2)]
  obtain db1 res where first: "Validate service0 (env0 5) (\<lambda>_. Inr (Some ?ev)) (checker ext0 ids0 20 20) id
      (Some vrequest0) ?db = (db1, Inr res)" using run by blast
  let ?db1 = "db1\<lparr>db_faults := []\<rparr>"
  have nf: "no_faults ?db1" by (simp add: no_faults_def)
  obtain db2 where "Validate service0 (env0 9) (\<lambda>_. Inl ErrInvalidDecision) (checker ext0 ids0 30 30) id
        (Some (vrequest0\<lparr>v_Amount := 1000\<rparr>)) ?db1
      = (db2, Inr \<lparr>res_Response = stored_answer (n_persistNow (env0 5)) (res_Response res), res_IsDuplicate = True\<rparr>)"
    using repeated_request_gets_stored_answer [where S = service0 and N = "env0 5" and W = default_window
        and vnow = 10 and exec = "\<lambda>_. Inr (Some ?ev)" and ev = ?ev and M = "env0 9" and later = "[]"
        and ?db2.0 = ?db1 and ?req2.0 = "vrequest0\<lparr>v_Amount := 1000\<rparr>"
        and ?exec2.0 = "\<lambda>_. Inl ErrInvalidDecision" and ?check2.0 = "checker ext0 ids0 30 30"
        and others = id, unfolded s,
        OF ok(1) vrequest0_valid tracer0_hyps refl ok(2) first _ nf] by (auto simp: env0_def)
  then show ?thesis using first by (fastforce simp: stored_answer_def)
qed

text \<open>C21. The answer of a denied transaction need not be the stored one. When a rule denies and a
  record with the request's identifier appeared after the look for a duplicate, the service answers
  with its own validation identifier, not marked as a duplicate, and stores no record for it: the
  insert that the unique index refuses is only logged. Its audit event is inserted all the same (without
  further driver failures and with identifiers that are not in the audit trail yet), so the trail then
  holds an event of a validation without a record. The witness is one request served twice at the same
  time.\<close>

theorem concurrent_denial_answer_not_stored:
  fixes db :: "('d::linordered_ab_group_add, 'p, 'x) tracer_db_scheme"
  assumes "no_faults db" "fresh_request S N (v_RequestID req) db" "v_RequestID req \<noteq> uuid_Nil"
    "n_ctx N = None" "exec req = Inr (Some ev)" "e_Decision ev = DecisionDeny"
    "m \<in> set (db_validations (others (consume_fault (consume_fault db))))"
    "m_RequestID m = x_uuid_string (s_ext S) (v_RequestID req)"
  shows "\<exists>db' r. Validate S N exec check others (Some req) db
      = (db', Inr \<lparr>res_Response = r, res_IsDuplicate = False\<rparr>)
    \<and> vr_ValidationID r = n_validationID N
    \<and> db_validations db' = db_validations (others (consume_fault (consume_fault db)))
    \<and> (uuid_codec (s_ext S) (s_uuid_Parse S) \<and> no_faults (others (consume_fault (consume_fault db)))
        \<and> (\<forall>e \<in> set (db_audits (others (consume_fault (consume_fault db)))). ae_EventID e \<noteq> n_eventID N
              \<and> ae_ResourceID e \<noteq> x_uuid_string (s_ext S) (n_validationID N))
       \<longrightarrow> event_added S N req r (others (consume_fault (consume_fault db))) db')"
  using assms by (rule deny_race)

definition denied0 :: "uuid \<Rightarrow> (int, string) tracer_db \<Rightarrow> (int, string) tracer_db" where
  "denied0 i db = fst (Validate service0 (env0 i) (\<lambda>_. Inr (Some (bare_result DecisionDeny)))
     (checker ext0 ids0 20 20) id (Some vrequest0) db)"

theorem concurrent_denial_answer_not_stored_witness:
  "\<exists>db' r. Validate service0 (env0 5) (\<lambda>_. Inr (Some (bare_result DecisionDeny))) (checker ext0 ids0 20 20)
      (denied0 9) (Some vrequest0) (tracer0 [daily_limit 1 10])
      = (db', Inr \<lparr>res_Response = r, res_IsDuplicate = False\<rparr>)
    \<and> vr_ValidationID r = 5 \<and> map m_ID (db_validations db') = [nat_digits (unat (9 :: uuid))]
    \<and> length (db_audits db') = 2"
proof -
  let ?db = "tracer0 [daily_limit 1 10]" and ?ev = "bare_result DecisionDeny"
  have s: "s_ext service0 = ext0" by (simp add: service0_def)
  have ok: "env_ok service0 (env0 9)" "Decision_IsValid (e_Decision ?ev)"
    by (simp_all add: env0_ok bare_result_def)
  have same: "consume_fault (consume_fault ?db) = ?db" by (simp add: consume_fault_def tracer0_def)
  obtain db1 r1 where other: "Validate service0 (env0 9) (\<lambda>_. Inr (Some ?ev)) (checker ext0 ids0 20 20) id
      (Some vrequest0) ?db = (db1, Inr \<lparr>res_Response = r1, res_IsDuplicate = False\<rparr>)"
    "vr_ValidationID r1 = n_validationID (env0 9)" "logged service0 (env0 9) vrequest0 r1 ?db db1"
    using Validate_decides [where S = service0 and N = "env0 9" and W = default_window and vnow = 10
      and exec = "\<lambda>_. Inr (Some ?ev)" and ev = ?ev and rn = 20 and now = 20, unfolded s,
      OF ok(1) vrequest0_valid tracer0_hyps refl ok(2)] by blast
  have d: "denied0 9 ?db = db1" using other(1) by (simp add: denied0_def)
  have find: "FindByRequestID ext0 parse0 (v_RequestID vrequest0) ?db = (?db, Inr None)"
    using find_none_fresh [of ?db service0 "env0 9" "v_RequestID vrequest0" parse0] tracer0_hyps(1,5) same
    unfolding s by (simp add: vrequest0_def)
  have nf: "no_faults db1"
    using other(1) find persistAuditEvent_no_faults
      [OF persistTransactionValidation_no_faults [OF tracer0_hyps(1)]]
    by (auto simp: Validate_def Let_def service0_def env0_def bare_result_def)
  obtain row where row: "db_audits db1 = [row]" "ae_EventID row = 1009" "ae_ResourceID row = nat_digits (unat (9 :: uuid))"
    using other(2,3) unfolding logged_def s by (auto simp: tracer0_def env0_def ext0_def)
  obtain tv where tv: "buildTransactionValidation (n_heap (env0 9)) vrequest0 r1 (n_persistNow (env0 9)) = Inr tv"
    "db_validations db1 = [inserted_row ext0 tv]"
    using other(3) unfolding logged_def s by (auto simp: tracer0_def)
  have rec: "m_RequestID (inserted_row ext0 tv) = x_uuid_string ext0 (v_RequestID vrequest0)"
    "m_ID (inserted_row ext0 tv) = nat_digits (unat (9 :: uuid))"
    using build_fields(1,2) [OF tv(1)] other(2) by (simp_all add: ext0_def env0_def)
  have audit: "uuid_codec ext0 (s_uuid_Parse service0)"
    "\<forall>e \<in> set (db_audits db1). ae_EventID e \<noteq> n_eventID (env0 5)
       \<and> ae_ResourceID e \<noteq> x_uuid_string ext0 (n_validationID (env0 5))"
    using row codec0 nat_digits_inj by (simp_all add: service0_def env0_def ext0_def)
  have hyps: "n_ctx (env0 5) = None" "v_RequestID vrequest0 \<noteq> uuid_Nil" "e_Decision ?ev = DecisionDeny"
    "inserted_row ext0 tv \<in> set (db_validations (denied0 9 (consume_fault (consume_fault ?db))))"
    by (simp_all add: env0_def vrequest0_def bare_result_def same d tv(2))
  obtain db' r where "Validate service0 (env0 5) (\<lambda>_. Inr (Some ?ev)) (checker ext0 ids0 20 20)
      (denied0 9) (Some vrequest0) ?db = (db', Inr \<lparr>res_Response = r, res_IsDuplicate = False\<rparr>)"
    "vr_ValidationID r = n_validationID (env0 5)" "db_validations db' = [inserted_row ext0 tv]"
    "event_added service0 (env0 5) vrequest0 r db1 db'"
    using concurrent_denial_answer_not_stored [where S = service0 and exec = "\<lambda>_. Inr (Some ?ev)"
        and others = "denied0 9" and db = ?db and check = "checker ext0 ids0 20 20", unfolded s,
        OF tracer0_hyps(1) tracer0_hyps(5) hyps(2,1)
        refl hyps(3,4) rec(1)] nf audit unfolding same d tv(2) by blast
  moreover from this(4) have "length (db_audits db') = 2"
    using row(1) by (auto simp: event_added_def audit_row_added_def)
  ultimately show ?thesis using rec(2) by (auto simp: env0_def)
qed

subsection \<open>Records and their columns\<close>

text \<open>C22. What is stored is read back: a record that the repository accepted is returned by the look-up
  by request and by the look-up by identifier, but for what the columns do not hold (the parts of its
  times below a microsecond, the counts of loaded rules, the unexported fields of the usage details, the
  difference between absent and empty metadata).\<close>

theorem record_round_trip:
  fixes db db' :: "('d::linordered_ab_group_add, 'p, 'x) tracer_db_scheme"
  assumes "uuid_codec X P" "TransactionType_IsValid (t_TransactionType tv)"
    "Decision_IsValid (e_Decision (t_Result tv))" "t_RequestID tv \<noteq> uuid_Nil" "no_faults db"
    and ins: "ValidationRepo_Insert X (Some tv) db = (db', None)"
  shows "snd (FindByRequestID X P (t_RequestID tv) db') = Inr (Some (stored tv))
    \<and> snd (ValidationRepo_GetByID X P (t_ID tv) db') = Inr (stored tv)"
proof -
  note nf = next_fault_none [OF assms(5)]
  have rows: "db' = (consume_fault (consume_fault db))\<lparr>db_validations := db_validations db @ [inserted_row X tv]\<rparr>"
    and new: "\<forall>m \<in> set (db_validations db). m_RequestID m \<noteq> x_uuid_string X (t_RequestID tv)"
      "\<forall>m \<in> set (db_validations db). m_ID m \<noteq> x_uuid_string X (t_ID tv)"
    using ins nf
    by (auto simp: ValidationRepo_Insert_def ValidationRepo_insertInternal_def Let_def list_ex_iff
        split: if_splits)
  have "no_faults db'"
    using no_faults_consume [OF no_faults_consume [OF assms(5)]] by (simp add: rows no_faults_def)
  note nf' = next_fault_none [OF this]
  have "find (\<lambda>r. m_RequestID r = x_uuid_string X (t_RequestID tv)) (db_validations db') = Some (inserted_row X tv)"
    "find (\<lambda>r. m_ID r = x_uuid_string X (t_ID tv)) (db_validations db') = Some (inserted_row X tv)"
    using new by (simp_all add: rows find_first)
  then show ?thesis
    using nf' scan_inserted_row [OF assms(1-3)] assms(4)
    by (simp add: FindByRequestID_def ValidationRepo_GetByID_def with_db_def Let_def)
qed

definition validation0 :: "int TransactionValidation" where
  "validation0 = \<lparr>t_ID = 5, t_RequestID = 1, t_TransactionType = TransactionTypePix, t_SubType = None,
     t_Amount = 7, t_Currency = ''USD'', t_TransactionTimestamp = 10, t_Account = v_Account vrequest0,
     t_Segment = None, t_Portfolio = None, t_Merchant = None, t_Metadata = Some [],
     t_Result = (bare_result DecisionAllow)\<lparr>e_MatchedRuleIDs := [3, 4], e_Truncated := True\<rparr>,
     t_LimitUsageDetails = [], t_ProcessingTimeMs = 2, t_CreatedAt = 12345\<rparr>"

theorem record_round_trip_witness:
  "\<exists>db'. ValidationRepo_Insert ext0 (Some validation0) (tracer0 []) = (db', None)
    \<and> snd (ValidationRepo_GetByID ext0 parse0 5 db')
      = Inr (validation0\<lparr>t_TransactionTimestamp := 0, t_CreatedAt := 12000, t_Metadata := None,
          t_Result := (t_Result validation0)\<lparr>e_Truncated := False\<rparr>\<rparr>)"
proof -
  have v: "TransactionType_IsValid (t_TransactionType validation0)"
    "Decision_IsValid (e_Decision (t_Result validation0))" "t_RequestID validation0 \<noteq> uuid_Nil"
    "0 < t_Amount validation0" "0 \<le> t_ProcessingTimeMs validation0" "t_ID validation0 = 5"
    by (simp_all add: validation0_def bare_result_def)
  have nf: "no_faults (tracer0 [])" by (simp add: no_faults_def tracer0_def)
  obtain db' where ins: "ValidationRepo_Insert ext0 (Some validation0) (tracer0 []) = (db', None)"
    using insertInternal_fresh [of "consume_fault (tracer0 [])" ext0 validation0]
      row_accepted_valid [OF v(1,2,4,5)] next_fault_none [OF nf]
    by (auto simp: ValidationRepo_Insert_def tracer0_def consume_fault_def)
  have "stored validation0
      = validation0\<lparr>t_TransactionTimestamp := 0, t_CreatedAt := 12000, t_Metadata := None,
          t_Result := (t_Result validation0)\<lparr>e_Truncated := False\<rparr>\<rparr>"
    by (simp add: stored_def whole_microseconds_def timestamptz_def validation0_def json_metadata_def json_account_def vrequest0_def bare_result_def)
  with record_round_trip [OF codec0 v(1-3) nf ins] ins show ?thesis by (auto simp: v(6))
qed

text \<open>C23. Which string arrays survive the database: an array of a column is read back as it was written
  exactly when no element is the text \<^verbatim>\<open>NULL\<close> and none begins and ends with a quote. The parser
  unquotes each element twice, so it cannot tell a quoted \<^verbatim>\<open>NULL\<close> from a missing value.\<close>

theorem string_array_round_trip:
  "StringArray_Scan (case StringArray_Value a of None \<Rightarrow> SqlNull | Some t \<Rightarrow> SqlText t) = Inr a
   \<longleftrightarrow> (case a of None \<Rightarrow> True | Some es \<Rightarrow> list_all plain_element es)"
proof (cases a)
  case (Some es)
  have "map unquoteElement es = es \<longleftrightarrow> list_all plain_element es"
    by (induction es) (simp_all add: unquoteElement_id_iff)
  then show ?thesis unfolding Scan_Value by (simp add: Some)
qed (simp add: StringArray_Value_def StringArray_Scan_def)

subsection \<open>Sanitizing\<close>

text \<open>C24. Sanitizing the metadata of a request is masking: on decoded JSON whose containers are all at
  different addresses the sanitizer, with its table of visited addresses, computes the reference that
  replaces the values of sensitive keys at every depth and keeps everything else.\<close>

theorem sanitizer_is_masking:
  assumes "inj heap"
  shows "sanitized_metadata heap md
    = map_option (mask_entries (isSensitiveKey DefaultSensitivePatterns)) md"
  using assms by (rule sanitized_metadata_masks)

definition metadata0 :: metadata where
  "metadata0 = [(''note'', JString ''x''), (''user'', JObject [(''Api_Key'', JString ''k'')])]"

definition heap0 :: "nat list \<Rightarrow> nat" where
  "heap0 p = list_encode p"

theorem sanitizer_is_masking_witness:
  "sanitized_metadata heap0 (Some metadata0)
     = Some [(''note'', JString ''x''), (''user'', JObject [(''Api_Key'', JString ''[REDACTED]'')])]"
proof -
  have "isSensitiveKey DefaultSensitivePatterns ''Api_Key'' \<and>
      \<not> isSensitiveKey DefaultSensitivePatterns ''note'' \<and> \<not> isSensitiveKey DefaultSensitivePatterns ''user''"
    by (simp add: isSensitiveKey_def DefaultSensitivePatterns_def MatchString_def letter_matches_def
        at_boundary_def)
  moreover have "inj heap0" by (simp add: heap0_def inj_def inj_eq [OF inj_list_encode])
  ultimately show ?thesis using sanitizer_is_masking [of heap0 "Some metadata0"] by (simp add: metadata0_def)
qed

text \<open>C25. Which sensitive values get through. The sanitizer looks into maps with values of any type and
  slices of such values: at every depth of these the value of every key that matches a pattern is the mask,
  also when containers are shared or cyclic. Pointers, structs and containers of other types that it
  meets there are copied, so it promises of them what held before (\<open>P\<close> is any property of them), and a
  sensitive value behind one survives: an entry with such a value is returned unchanged unless its key is
  sensitive or it cannot be marshalled. Decoded JSON, the metadata of requests, has no such values: there
  every sensitive value is masked.\<close>

theorem sensitive_values_masked:
  "(copied_entries P sensitive m
      \<longrightarrow> pred_option (masked_entries P sensitive) (MetadataSanitizer_Sanitize sensitive (Some m)))
   \<and> pred_option (masked_entries (\<lambda>v. False) sensitive)
       (MetadataSanitizer_Sanitize sensitive (map_option (to_go_entries heap [] 0) md))
   \<and> (copied_as_is v \<and> \<not> sensitive k \<and> \<not> IsNonSerializable v
      \<longrightarrow> MetadataSanitizer_Sanitize sensitive (Some [(k, v)]) = Some [(k, v)])"
proof (intro conjI impI)
  show "pred_option (masked_entries P sensitive) (MetadataSanitizer_Sanitize sensitive (Some m))"
    if "copied_entries P sensitive m"
    using sanitize_masked(1) [OF that] by (simp add: MetadataSanitizer_Sanitize_def)
  show "pred_option (masked_entries (\<lambda>v. False) sensitive)
       (MetadataSanitizer_Sanitize sensitive (map_option (to_go_entries heap [] 0) md))"
    using sanitize_masked(1) [OF json_copied(3)] by (cases md) (simp_all add: MetadataSanitizer_Sanitize_def)
  show "MetadataSanitizer_Sanitize sensitive (Some [(k, v)]) = Some [(k, v)]"
    if v: "copied_as_is v \<and> \<not> sensitive k \<and> \<not> IsNonSerializable v"
  proof -
    obtain visited where "nonSerializableDescriptor v [] = (None, visited)"
      using v by (cases "nonSerializableDescriptor v []") (auto simp: IsNonSerializable_def)
    then show ?thesis
      using v sanitize_nested_as_is [of v sensitive visited] by (simp add: MetadataSanitizer_Sanitize_def)
  qed
qed

text \<open>Behind a map a password is masked, behind a pointer to a map it is not.\<close>

theorem sensitive_values_masked_witness:
  defines "user \<equiv> GMap 1 [(''password'', GString ''x'')]"
    and "sensitive \<equiv> \<lambda>k. k = ''password''"
  shows "pred_option (masked_entries (\<lambda>v. False) sensitive)
      (MetadataSanitizer_Sanitize sensitive (Some [(''user'', user)]))
    \<and> MetadataSanitizer_Sanitize sensitive (Some [(''user'', GPtr 2 user)]) = Some [(''user'', GPtr 2 user)]"
proof -
  have "copied_entries (\<lambda>v. False) sensitive [(''user'', user)]"
    by (simp add: user_def sensitive_def)
  moreover have "copied_as_is (GPtr 2 user) \<and> \<not> sensitive ''user'' \<and> \<not> IsNonSerializable (GPtr 2 user)"
    by (simp add: IsNonSerializable_def user_def sensitive_def)
  ultimately show ?thesis using sensitive_values_masked by blast
qed

text \<open>A container that occurs twice is taken for a cycle: addresses are never removed from the table
  of visited ones, so of two values at one address the second is replaced by a text. All empty slices
  of Go have one address.\<close>

theorem shared_container_replaced:
  "sanitized_metadata heap (Some [(''tags'', JArray []), (''notes'', JArray [])])
     = Some [(''tags'', JArray []),
             (''notes'', if heap [0] = heap [1] then JString ''[non-serializable: cyclic reference]''
                         else JArray [])]"
proof -
  have "\<not> isSensitiveKey DefaultSensitivePatterns ''tags'' \<and> \<not> isSensitiveKey DefaultSensitivePatterns ''notes''"
    by (simp add: isSensitiveKey_def DefaultSensitivePatterns_def MatchString_def letter_matches_def
        at_boundary_def)
  then show ?thesis
    by (simp add: sanitized_metadata_def SanitizeMetadata_def MetadataSanitizer_Sanitize_def
        NonSerializable_def)
qed

subsection \<open>The audit chain\<close>

text \<open>C26. The audit chain verifies: from a linked table (an empty one, say), after any sequence of
  validations and of recorded rule and limit events, one after the other, with driver failures and
  rollbacks anywhere, every verification that reports a result reports a valid chain, names no bad
  row, and has read exactly the rows up to the event.\<close>

theorem audit_chain_verifies:
  fixes db :: "('d::linordered_ab_group_add, 'p, 'x) tracer_db_scheme"
  assumes "audit_ok (s_ext S) (s_audit S) db" "(audited S)\<^sup>*\<^sup>* db db'"
    "VerifyAuditEventQuery_Execute (s_ext S) (s_audit S) i db' = (db2, Inr res)"
  shows "\<exists>e \<in> set (db_audits db'). ae_EventID e = i \<and> hc_IsValid res \<and> hc_FirstInvalidID res = None
    \<and> hc_TotalChecked res = int (length (filter (\<lambda>r. ae_ID r \<le> ae_ID e) (db_audits db')))"
  using Verify_linked [OF audited_many_chain [OF assms(2,1)] assms(3)] .

definition recorded0 :: "(int, string) tracer_db \<Rightarrow> (int, string) tracer_db" where
  "recorded0 db = fst (RecordRuleEvent ext0 audit0 1005 13 AuditEventRuleCreated AuditActionCreate 7
     None (Some [(''name'', AnyString ''r'')]) [] [] db)"

lemma recorded0_row:
  "\<exists>row. db_audits (recorded0 (tracer0 ls)) = [row] \<and> ae_EventID row = 1005
     \<and> db_faults (recorded0 (tracer0 ls)) = []"
proof -
  have "TrimSpace ''svc_tracer'' = ''svc_tracer''" by (simp add: TrimSpace_text)
  moreover have "x_uuid_string ext0 7 = nat_digits 7" by (simp add: ext0_def)
  ultimately show ?thesis
    by (simp add: recorded0_def RecordRuleEvent_def record_crud_event_def NewAuditEvent_def tracer_actor_def
        TrimSpace_nat_digits WithCRUDContext_def AuditRepo_Insert_def AuditRepo_insertInternal_def tracer0_def
        next_fault_def consume_fault_def audit_duplicate_def draw_audit_id_def insert_with_id_def Let_def)
qed

theorem audit_chain_verifies_witness:
  "\<exists>db2 res. VerifyAuditEventQuery_Execute ext0 audit0 1005 (recorded0 (tracer0 [])) = (db2, Inr res)
     \<and> hc_IsValid res"
proof -
  have s: "s_ext service0 = ext0" "s_audit service0 = audit0" by (simp_all add: service0_def)
  have step: "(audited service0)\<^sup>*\<^sup>* (tracer0 []) (recorded0 (tracer0 []))"
    unfolding recorded0_def s [symmetric] by (rule r_into_rtranclp) (rule audited.rule_event)
  have ok: "audit_ok ext0 audit0 (tracer0 [])" by (simp add: audit_ok_def tracer0_def)
  have "\<exists>db2 res. VerifyAuditEventQuery_Execute ext0 audit0 1005 (recorded0 (tracer0 [])) = (db2, Inr res)"
    using recorded0_row [of "[]"]
    by (auto simp: VerifyAuditEventQuery_Execute_def VerifyHashChain_def with_db_def Let_def next_fault_def
        case_prod_unfold)
  then obtain db2 res where v: "VerifyAuditEventQuery_Execute ext0 audit0 1005 (recorded0 (tracer0 []))
      = (db2, Inr res)" by blast
  with audit_chain_verifies [where S = service0, unfolded s, OF ok step v] show ?thesis by blast
qed

definition chain_rows :: "int \<Rightarrow> 'd AuditEvent list \<Rightarrow> 'd AuditEvent list" where
  "chain_rows k rows = sort_key ae_ID (filter (\<lambda>e. 1 \<le> ae_ID e \<and> ae_ID e \<le> k) rows)"

text \<open>C27. Tampering with what the hash covers is detected: if two tables verify and end in the same hash,
  and the hash function does not collide on the texts of the two chains, they hold the same events in
  the same order: event identifier, event type, creation time and resource. So rows that were added,
  removed, reordered or changed in these fields do not verify against a known last hash.\<close>

theorem audit_tampering_detected:
  assumes "chain_texts X A" "\<forall>e \<in> set rows \<union> set rows'. AuditEventType_IsValid (ae_EventType e)"
    "inj_on (a_sha256 A) (chain_inputs X A None (chain_rows k rows) \<union> chain_inputs X A None (chain_rows k' rows'))"
    "last_hash None (chain_rows k rows) = last_hash None (chain_rows k' rows')"
    "fst (verify_audit_hash_chain X A 1 k rows)" "fst (verify_audit_hash_chain X A 1 k' rows')"
  shows "map event_key (chain_rows k rows) = map event_key (chain_rows k' rows')"
proof (rule same_last_hash_same_events [OF assms(1) _ _ _ assms(3)])
  show "verified_from X A None (chain_rows k rows)" "verified_from X A None (chain_rows k' rows')"
    using assms(5,6) by (simp_all add: verified_from_def verify_audit_hash_chain_def chain_rows_def)
  show "\<forall>e \<in> set (chain_rows k rows) \<union> set (chain_rows k' rows'). AuditEventType_IsValid (ae_EventType e)"
    using assms(2) by (auto simp: chain_rows_def)
qed (simp add: assms(4))

lemma digit_text_no_bar: "CHR ''|'' \<notin> set (nat_digits n)"
proof
  assume "CHR ''|'' \<in> set (nat_digits n)"
  then obtain d where "d < 10" "CHR ''|'' = digit d" using nat_digits_chars by blast
  then show False using digit_not_special(4) by metis
qed

lemma texts0: "chain_texts ext0 audit0"
proof -
  have "inj (\<lambda>u :: uuid. nat_digits (unat u))" by (simp add: inj_def nat_digits_inj word_unat_eq_iff)
  moreover have "inj show_int" by (simp add: inj_def show_int_inj)
  ultimately show ?thesis
    by (auto simp: chain_texts_def uuid_text_def ext0_def audit0_def digit_text_no_bar show_int_def
        split: if_splits)
qed

theorem audit_tampering_detected_witness:
  "map event_key (chain_rows 1 (db_audits (recorded0 (tracer0 []))))
   = map event_key (chain_rows 1 (map (\<lambda>e. e\<lparr>ae_Result := AuditResultFailed\<rparr>) (db_audits (recorded0 (tracer0 [])))))"
proof -
  let ?rows = "db_audits (recorded0 (tracer0 []))"
  let ?rows' = "map (\<lambda>e. e\<lparr>ae_Result := AuditResultFailed\<rparr>) ?rows"
  have "TrimSpace ''svc_tracer'' = ''svc_tracer''" by (simp add: TrimSpace_text)
  moreover have "x_uuid_string ext0 7 = nat_digits 7" by (simp add: ext0_def)
  ultimately obtain row where row: "?rows = [row]" "ae_ID row = 1" "AuditEventType_IsValid (ae_EventType row)"
    "ae_Hash row = a_sha256 audit0 (chain_input ext0 audit0 None row)" "ae_PreviousHash row = None"
    by (simp add: recorded0_def RecordRuleEvent_def record_crud_event_def NewAuditEvent_def tracer_actor_def
        TrimSpace_nat_digits WithCRUDContext_def AuditRepo_Insert_def AuditRepo_insertInternal_def tracer0_def
        next_fault_def consume_fault_def audit_duplicate_def draw_audit_id_def insert_with_id_def Let_def
        latest_event_def calculate_audit_event_hash_def chain_input_def)
  show ?thesis
    by (rule audit_tampering_detected [OF texts0])
      (use row in \<open>simp_all add: chain_rows_def verify_audit_hash_chain_def last_hash_def chain_input_def\<close>)
qed

lemma sort_key_map_same:
  assumes "\<And>x. key (h x) = key x"
  shows "sort_key key (map h xs) = map h (sort_key key xs)"
proof -
  have "insort_key key (h x) (map h ys) = map h (insort_key key x ys)" for x ys
    by (induction ys) (simp_all add: assms)
  then show ?thesis by (induction xs) simp_all
qed

text \<open>What the hash does not cover can be changed: rewriting the action, the result, the resource type,
  the actor, the context (request, response, before and after images) and the metadata of every row
  leaves the verdict of every verification as it was.\<close>

theorem uncovered_fields_not_verified:
  "verify_audit_hash_chain X A start_id end_id
     (map (\<lambda>e. e\<lparr>ae_Action := act e, ae_Result := res e, ae_ResourceType := rt e, ae_Actor := actor e,
       ae_Context := ctx e, ae_Metadata := md e\<rparr>) rows)
   = verify_audit_hash_chain X A start_id end_id rows"
proof -
  let ?h = "\<lambda>e. e\<lparr>ae_Action := act e, ae_Result := res e, ae_ResourceType := rt e, ae_Actor := actor e,
       ae_Context := ctx e, ae_Metadata := md e\<rparr>"
  have f: "filter (\<lambda>e. start_id \<le> ae_ID e \<and> ae_ID e \<le> end_id) (map ?h rows)
      = map ?h (filter (\<lambda>e. start_id \<le> ae_ID e \<and> ae_ID e \<le> end_id) rows)"
    by (simp add: filter_map comp_def)
  have s: "sort_key ae_ID (map ?h es) = map ?h (sort_key ae_ID es)" for es
    by (rule sort_key_map_same) simp
  have "list_all2 same_cover (map ?h es) es" for es
    by (induction es) (simp_all add: same_cover_def event_key_def)
  then show ?thesis
    unfolding verify_audit_hash_chain_def f s by (rule verify_same_cover)
qed

text \<open>C28. Two inserts at the same time break the chain though nothing is altered: both draw their numbers
  before one waits for the lock of the trigger, and when the one with the larger number gets the lock
  first, the row with the smaller number carries the hash of a later one; verification reports
  tampering, unless the hash function collides on the two texts.\<close>

theorem crossed_inserts_break_chain:
  assumes "audit_ok X A db"
    "a_sha256 A (chain_input X A (last_hash None (db_audits db)) e)
     \<noteq> a_sha256 A (chain_input X A (Some (a_sha256 A (chain_input X A (last_hash None (db_audits db)) f))) e)"
  shows "\<not> fst (verify_audit_hash_chain X A 1 (db_audit_seq db + 1) (db_audits (crossed_inserts X A e f db)))"
  using crossed_not_verified [OF assms] by simp

definition event0 :: "uuid \<Rightarrow> int AuditEvent" where
  "event0 i = \<lparr>ae_ID = 0, ae_Hash = [], ae_PreviousHash = None, ae_EventID = i,
     ae_EventType = AuditEventRuleCreated, ae_CreatedAt = 3, ae_Action = AuditActionCreate,
     ae_Result = AuditResultSuccess, ae_ResourceID = ''7'', ae_ResourceType = ResourceTypeRule,
     ae_Actor = tracer_actor audit0 ''Tracer Rule Manager'' [], ae_Context = [], ae_Metadata = []\<rparr>"

theorem crossed_inserts_break_chain_witness:
  "\<not> fst (verify_audit_hash_chain ext0 audit0 1 1
     (db_audits (crossed_inserts ext0 audit0 (event0 1) (event0 2) (tracer0 []))))"
proof -
  have ok: "audit_ok ext0 audit0 (tracer0 [])" "db_audits (tracer0 []) = []" "db_audit_seq (tracer0 []) = 0"
    by (simp_all add: audit_ok_def tracer0_def)
  have "a_sha256 audit0 (chain_input ext0 audit0 (last_hash None []) (event0 1))
      \<noteq> a_sha256 audit0 (chain_input ext0 audit0
        (Some (a_sha256 audit0 (chain_input ext0 audit0 (last_hash None []) (event0 2)))) (event0 1))"
    by (simp add: audit0_def chain_input_def last_hash_def)
  with crossed_inserts_break_chain [OF ok(1), of "event0 1" "event0 2"] ok(2,3) show ?thesis by simp
qed

end
