(* ===== verification/Keyset.thy ===== *)
theory Keyset
  imports Paging
begin

text \<open>
  Keyset pagination over any strict order of the rows: the next page starts after the row on which the
  last one ended. The lists of validations and of audit events are instances. A position is the row
  itself; the code writes its sort value and identifier into the cursor.
\<close>

text \<open>A key with a unique tie-breaker orders the rows strictly, in either direction.\<close>

lemma lex_strict_by:
  fixes i :: "'r \<Rightarrow> 'i::linorder"
  assumes ids: "\<And>x y. x \<in> A \<Longrightarrow> y \<in> A \<Longrightarrow> x \<noteq> y \<Longrightarrow> i x \<noteq> i y" and ls: "strict_on (k ` A) ls"
  shows "strict_on A (\<lambda>x y. ls (k x) (k y) \<or> k y = k x \<and> i x < i y)"
  unfolding strict_on_def
proof (intro conjI ballI impI)
  fix x assume "x \<in> A"
  then show "\<not> (ls (k x) (k x) \<or> k x = k x \<and> i x < i x)" using strict_on_irrefl [OF ls, of "k x"] by simp
next
  fix x y z
  assume m: "x \<in> A" "y \<in> A" "z \<in> A"
    and lt: "ls (k x) (k y) \<or> k y = k x \<and> i x < i y" "ls (k y) (k z) \<or> k z = k y \<and> i y < i z"
  have "ls (k x) (k z)" if "ls (k x) (k y)" "ls (k y) (k z)"
    using strict_on_trans [OF ls, of "k x" "k y" "k z"] m that by simp
  then show "ls (k x) (k z) \<or> k z = k x \<and> i x < i z" using lt by (auto dest: less_trans)
next
  fix x y
  assume m: "x \<in> A" "y \<in> A" "x \<noteq> y"
  show "(ls (k x) (k y) \<or> k y = k x \<and> i x < i y) \<or> (ls (k y) (k x) \<or> k x = k y \<and> i y < i x)"
    using strict_on_total [OF ls, of "k x" "k y"] ids [OF m] m
    by (cases "i x" "i y" rule: linorder_cases) auto
qed

lemma strict_on_less: "strict_on A ((<) :: 'k::linorder \<Rightarrow> 'k \<Rightarrow> bool)"
  unfolding strict_on_def by auto

lemma lex_strict:
  fixes k :: "'r \<Rightarrow> 'k::linorder" and i :: "'r \<Rightarrow> 'i::linorder"
  assumes "\<And>x y. x \<in> A \<Longrightarrow> y \<in> A \<Longrightarrow> x \<noteq> y \<Longrightarrow> i x \<noteq> i y"
  shows "strict_on A (\<lambda>x y. k x < k y \<or> k y = k x \<and> i x < i y)"
  by (rule lex_strict_by [OF _ strict_on_less]) (rule assms)

lemma strict_on_converse:
  assumes "strict_on A lt"
  shows "strict_on A (\<lambda>x y. lt y x)"
  unfolding strict_on_def
proof (intro conjI ballI impI)
  fix x y z
  assume "x \<in> A" "y \<in> A" "z \<in> A" "lt y x" "lt z y"
  then show "lt z x" using strict_on_trans [OF assms] by blast
next
  fix x y
  assume "x \<in> A" "y \<in> A" "x \<noteq> y"
  then show "lt y x \<or> lt x y" using strict_on_total [OF assms] by blast
qed (use strict_on_irrefl [OF assms] in blast)

lemma lex_strict_down:
  fixes k :: "'r \<Rightarrow> 'k::linorder" and i :: "'r \<Rightarrow> 'i::linorder"
  assumes "\<And>x y. x \<in> A \<Longrightarrow> y \<in> A \<Longrightarrow> x \<noteq> y \<Longrightarrow> i x \<noteq> i y"
  shows "strict_on A (\<lambda>x y. k y < k x \<or> k y = k x \<and> i y < i x)"
proof -
  have "(\<lambda>x y. k y < k x \<or> k y = k x \<and> i y < i x) = (\<lambda>x y. k y < k x \<or> k x = k y \<and> i y < i x)"
    by (intro ext) auto
  moreover have "strict_on A (\<lambda>x y. k x < k y \<or> k y = k x \<and> i x < i y)"
    by (rule lex_strict) (rule assms)
  note strict_on_converse [OF this]
  ultimately show ?thesis by (simp only:)
qed

text \<open>The directions of a list are upper case.\<close>

lemma ToUpper_order: "so \<in> {''ASC'', ''DESC''} \<Longrightarrow> ToUpper X so = so"
proof -
  have "isASCII ''ASC''" "isASCII ''DESC''" "map upper_char ''ASC'' = ''ASC''"
    "map upper_char ''DESC'' = ''DESC''" by (simp_all add: isASCII_def upper_char_def)
  then show "so \<in> {''ASC'', ''DESC''} \<Longrightarrow> ToUpper X so = so" by (auto simp: ToUpper_def)
qed

definition keyset_rest :: "('r \<Rightarrow> 'r \<Rightarrow> bool) \<Rightarrow> ('r \<Rightarrow> bool) \<Rightarrow> 'r list \<Rightarrow> 'r option \<Rightarrow> 'r list" where
  "keyset_rest lt P rows c =
     sort_by lt (filter (\<lambda>r. P r \<and> (case c of None \<Rightarrow> True | Some x \<Rightarrow> lt x r)) rows)"

definition keyset_fetch ::
  "nat \<Rightarrow> ('r \<Rightarrow> 'r \<Rightarrow> bool) \<Rightarrow> ('r \<Rightarrow> bool) \<Rightarrow> 'r list \<Rightarrow> 'r option \<Rightarrow> 'r list \<times> 'r option" where
  "keyset_fetch n lt P rows c =
     (let found = take (n + 1) (keyset_rest lt P rows c)
      in if n < length found then (take n found, Some (last (take n found))) else (found, None))"

definition keyset_ok :: "nat \<Rightarrow> ('r \<Rightarrow> 'r \<Rightarrow> bool) \<Rightarrow> 'r list \<Rightarrow> 'r option \<Rightarrow> bool" where
  "keyset_ok n lt rows c =
     (0 < n \<and> distinct rows \<and> strict_on (set rows) lt \<and> (case c of None \<Rightarrow> True | Some x \<Rightarrow> x \<in> set rows))"

lemma keyset_fetch_rest:
  "keyset_fetch n lt P rows c =
     (let S = keyset_rest lt P rows c
      in if n < length S then (take n S, Some (last (take n S))) else (S, None))"
  by (simp add: keyset_fetch_def Let_def min_def)

lemma keyset_rest_next:
  assumes "keyset_ok n lt rows c" "n < length (keyset_rest lt P rows c)"
  shows "keyset_rest lt P rows (Some (last (take n (keyset_rest lt P rows c))))
    = drop n (keyset_rest lt P rows c)"
    and "last (take n (keyset_rest lt P rows c)) \<in> set rows"
proof -
  let ?S = "keyset_rest lt P rows c"
  have so: "strict_on (set rows) lt" and d: "distinct rows" and n: "0 < n"
    using assms(1) by (auto simp: keyset_ok_def)
  define x where "x = last (take n ?S)"
  have "take n ?S \<noteq> []" using assms(2) n by auto
  then have xS: "x \<in> set ?S" unfolding x_def by (rule in_set_takeD [OF last_in_set])
  then show x: "last (take n ?S) \<in> set rows" by (auto simp: keyset_rest_def x_def)
  have sub: "set ?S \<subseteq> set rows" by (auto simp: keyset_rest_def)
  have "sorted_wrt lt ?S"
    unfolding keyset_rest_def
    by (rule sorted_sort_by) (use so d in \<open>auto intro: strict_on_subset\<close>)
  note page = rest_after_page [OF strict_on_subset [OF so sub] this n less_imp_le [OF assms(2)], folded x_def]
  have later: "lt y r" if "c = Some y" "lt x r" "r \<in> set rows" for y r
  proof -
    have "lt y x" using xS that(1) by (simp add: keyset_rest_def)
    moreover have "y \<in> set rows" using assms(1) that(1) by (simp add: keyset_ok_def)
    ultimately show ?thesis using strict_on_trans [OF so _ _ that(3), of y x] x that(2) by (simp add: x_def)
  qed
  have "filter (\<lambda>r. P r \<and> lt x r) rows
      = filter (lt x) (filter (\<lambda>r. P r \<and> (case c of None \<Rightarrow> True | Some y \<Rightarrow> lt y r)) rows)"
    using later by (auto intro!: filter_cong simp: filter_filter split: option.split)
  then have "keyset_rest lt P rows (Some x) = filter (lt x) ?S"
    unfolding keyset_rest_def option.case
    using sort_by_filter [of "filter (\<lambda>r. P r \<and> (case c of None \<Rightarrow> True | Some y \<Rightarrow> lt y r)) rows" lt "lt x"]
      strict_on_subset [OF so] d by auto
  then show "keyset_rest lt P rows (Some (last (take n ?S))) = drop n ?S"
    using page by (simp add: x_def)
qed

interpretation keyset: paged_source "keyset_fetch n lt P rows" "keyset_rest lt P rows"
  "keyset_ok n lt rows" for n lt P rows
proof (standard, goal_cases)
  case (1 c xs)
  then show ?case by (auto simp: keyset_fetch_rest Let_def split: if_splits)
next
  case (2 c xs c')
  let ?S = "keyset_rest lt P rows c"
  have S: "n < length ?S" "xs = take n ?S" "c' = last (take n ?S)"
    using 2(2) by (auto simp: keyset_fetch_rest Let_def split: if_splits)
  note nx = keyset_rest_next [OF 2(1) S(1)]
  have "0 < n" using 2(1) by (simp add: keyset_ok_def)
  then have "xs \<noteq> []" using S(1,2) by auto
  moreover have "keyset_ok n lt rows (Some c')" using 2(1) nx(2) S(3) by (auto simp: keyset_ok_def)
  moreover have "?S = xs @ keyset_rest lt P rows (Some c')" using nx(1) S(2,3) by simp
  ultimately show ?case by blast
qed

text \<open>Following the positions gives every matching row once, in order.\<close>

lemma keyset_complete:
  assumes "0 < n" "distinct rows" "strict_on (set rows) lt"
  shows "\<exists>ls. drain (keyset_fetch n lt P rows) (Suc (length rows)) None = Some ls \<and> distinct ls
    \<and> set ls = {r \<in> set rows. P r} \<and> sorted_wrt lt ls"
proof -
  let ?S = "keyset_rest lt P rows None"
  have S: "?S = sort_by lt (filter P rows)" by (simp add: keyset_rest_def)
  have "keyset_ok n lt rows None" using assms by (simp add: keyset_ok_def)
  moreover have "length ?S < Suc (length rows)" by (simp add: S less_Suc_eq_le)
  ultimately have "drain (keyset_fetch n lt P rows) (Suc (length rows)) None = Some ?S"
    by (rule keyset.drain_rest)
  moreover have "sorted_wrt lt ?S"
    unfolding S by (rule sorted_sort_by) (use assms in \<open>auto intro: strict_on_subset\<close>)
  moreover have "distinct ?S"
    unfolding S by (rule card_distinct) (simp add: assms(2) distinct_card flip: set_filter)
  moreover have "set ?S = {r \<in> set rows. P r}" unfolding S by auto
  ultimately show ?thesis by blast
qed

text \<open>A source that hands out images of the rows and of the positions.\<close>

lemma drain_map:
  assumes "\<And>c. ok c \<Longrightarrow> fetch' (map_option h c) = (map f (fst (fetch c)), map_option h (snd (fetch c)))"
    "\<And>c xs c'. ok c \<Longrightarrow> fetch c = (xs, Some c') \<Longrightarrow> ok (Some c')"
  shows "ok c \<Longrightarrow> drain fetch' n (map_option h c) = map_option (map f) (drain fetch n c)"
proof (induction n arbitrary: c)
  case (Suc n)
  obtain xs k where k: "fetch c = (xs, k)" by fastforce
  show ?case
  proof (cases k)
    case None
    then show ?thesis using assms(1) [OF Suc.prems] k by simp
  next
    case (Some c')
    have "drain fetch' n (map_option h (Some c')) = map_option (map f) (drain fetch n (Some c'))"
      by (rule Suc.IH [OF assms(2) [OF Suc.prems]]) (use k Some in simp)
    then show ?thesis
      using assms(1) [OF Suc.prems] k Some
      by (cases "drain fetch n (Some c')") simp_all
  qed
qed simp

end
