(* ===== verification/AuditList.thy ===== *)
theory AuditList
  imports AuditStore Keyset
begin

text \<open>
  The list of audit events: filters (\<^verbatim>\<open>pkg/model/audit_event_filters.go\<close>), \<^verbatim>\<open>List\<close> of
  \<^verbatim>\<open>audit_event_repository.go\<close>, and the queries \<^verbatim>\<open>list_audit_events.go\<close> and
  \<^verbatim>\<open>get_audit_event.go\<close>. A cursor text is what \<^verbatim>\<open>DecodeCursor\<close> makes of it, with
  the number that \<^verbatim>\<open>Sscanf\<close> reads (\<open>None\<close>: no number) and the sort value as the column's type
  reads it.
\<close>

subsection \<open>Filters\<close>

datatype audit_sort_value = AuditSortTime gotime | AuditSortType AuditEventType | AuditSortBad string

record audit_cursor =
  auc_ID :: "int option"
  auc_SortValue :: audit_sort_value
  auc_SortBy :: string
  auc_SortOrder :: string

datatype audit_cursor_text = AuditNoCursor | AuditBadCursor err | AuditCursor audit_cursor

record AuditEventFilters =
  af_StartDate :: gotime
  af_EndDate :: gotime
  af_EventType :: "AuditEventType option"
  af_Action :: "AuditAction option"
  af_Result :: "AuditResult option"
  af_ResourceType :: "ResourceType option"
  af_ResourceID :: "string option"
  af_ActorType :: "ActorType option"
  af_ActorID :: "string option"
  af_AccountID :: "uuid option"
  af_SegmentID :: "uuid option"
  af_PortfolioID :: "uuid option"
  af_TransactionType :: "TransactionType option"
  af_MatchedRuleID :: "uuid option"
  af_Limit :: int
  af_Cursor :: audit_cursor_text
  af_SortBy :: string
  af_SortOrder :: string

definition no_audit_filters :: AuditEventFilters where
  "no_audit_filters = \<lparr>af_StartDate = 0, af_EndDate = 0, af_EventType = None, af_Action = None,
     af_Result = None, af_ResourceType = None, af_ResourceID = None, af_ActorType = None,
     af_ActorID = None, af_AccountID = None, af_SegmentID = None, af_PortfolioID = None,
     af_TransactionType = None, af_MatchedRuleID = None, af_Limit = 0, af_Cursor = AuditNoCursor,
     af_SortBy = [], af_SortOrder = []\<rparr>"

definition MaxAuditEventFilterLimit :: int where
  "MaxAuditEventFilterLimit = 1000"

definition DefaultAuditEventFilterLimit :: int where
  "DefaultAuditEventFilterLimit = 100"

definition DefaultAuditEventDateRangeDays :: int where
  "DefaultAuditEventDateRangeDays = 90"

definition IsValidAuditEventSortField :: "string \<Rightarrow> bool" where
  "IsValidAuditEventSortField field = (field \<in> {''createdAt'', ''eventType''})"

definition AuditEventFilters_Validate :: "ext \<Rightarrow> AuditEventFilters \<Rightarrow> err option" where
  "AuditEventFilters_Validate X f =
     map_option (\<lambda>what. Wrap what ErrInvalidAuditEventFilters)
       (if \<not> time_IsZero (af_StartDate f) \<and> \<not> time_IsZero (af_EndDate f)
           \<and> af_EndDate f < af_StartDate f then Some ''endDate must be after startDate''
        else if af_Limit f < 0 then Some ''limit cannot be negative''
        else if af_Limit f > MaxAuditEventFilterLimit then Some ''limit cannot exceed 1000''
        else if af_SortBy f \<noteq> [] \<and> \<not> IsValidAuditEventSortField (af_SortBy f)
          then Some ''invalid sortBy field''
        else if af_SortOrder f \<noteq> [] \<and> ToUpper X (af_SortOrder f) \<notin> {''ASC'', ''DESC''}
          then Some ''sortOrder must be ASC or DESC''
        else None)"

definition AuditEventFilters_SetDefaults :: "ext \<Rightarrow> gotime \<Rightarrow> AuditEventFilters \<Rightarrow> AuditEventFilters" where
  "AuditEventFilters_SetDefaults X clock f =
     (let f = (if af_Limit f = 0 then f\<lparr>af_Limit := DefaultAuditEventFilterLimit\<rparr> else f);
          now = Truncate clock (24 * Hour_ns);
          f = (if time_IsZero (af_StartDate f) \<and> time_IsZero (af_EndDate f)
               then f\<lparr>af_EndDate := now + 24 * Hour_ns,
                      af_StartDate := now - DefaultAuditEventDateRangeDays * 24 * Hour_ns\<rparr>
               else f);
          f = (if af_SortBy f = [] then f\<lparr>af_SortBy := ''createdAt''\<rparr> else f)
      in if af_SortOrder f = [] then f\<lparr>af_SortOrder := ''DESC''\<rparr>
         else f\<lparr>af_SortOrder := ToUpper X (af_SortOrder f)\<rparr>)"

subsection \<open>The statement\<close>

text \<open>The operators \<open>->\<close>, \<open>->>\<close> and \<open>@>\<close> on the context; \<^term>\<open>None\<close> is SQL's null. Amounts,
  times and containers are compared with no filter, so their texts are left out.\<close>

fun json_path :: "string list \<Rightarrow> 'd any \<Rightarrow> 'd any option" where
  "json_path [] a = Some a"
| "json_path (k # ks) (AnyMap m) = (case map_of m k of None \<Rightarrow> None | Some x \<Rightarrow> json_path ks x)"
| "json_path (k # ks) a = None"

definition json_text :: "ext \<Rightarrow> 'd any \<Rightarrow> string option" where
  "json_text X a =
     (case a of
        AnyString s \<Rightarrow> Some s
      | AnyUUID i \<Rightarrow> Some (x_uuid_string X i)
      | AnyBool b \<Rightarrow> Some (if b then ''true'' else ''false'')
      | AnyInt n \<Rightarrow> Some (show_int n)
      | _ \<Rightarrow> None)"

definition json_has :: "ext \<Rightarrow> string \<Rightarrow> 'd any \<Rightarrow> bool" where
  "json_has X s a =
     (case a of
        AnyUUIDs us \<Rightarrow> s \<in> x_uuid_string X ` set us
      | AnyStrings ss \<Rightarrow> s \<in> set ss
      | AnyList xs \<Rightarrow> list_ex (\<lambda>x. case x of AnyString t \<Rightarrow> t = s | AnyUUID i \<Rightarrow> x_uuid_string X i = s
                                   | _ \<Rightarrow> False) xs
      | _ \<Rightarrow> False)"

definition context_text :: "ext \<Rightarrow> string list \<Rightarrow> 'd AuditEvent \<Rightarrow> string option" where
  "context_text X path e = Option.bind (json_path path (AnyMap (ae_Context e))) (json_text X)"

definition asks :: "'a option \<Rightarrow> ('a \<Rightarrow> bool) \<Rightarrow> bool" where
  "asks wanted Q = (case wanted of None \<Rightarrow> True | Some x \<Rightarrow> Q x)"

definition audit_applyFilters :: "ext \<Rightarrow> AuditEventFilters \<Rightarrow> 'd AuditEvent \<Rightarrow> bool" where
  "audit_applyFilters X f e =
     ((time_IsZero (af_StartDate f) \<or> ae_CreatedAt e \<ge> af_StartDate f)
      \<and> (time_IsZero (af_EndDate f) \<or> ae_CreatedAt e \<le> af_EndDate f)
      \<and> asks (af_EventType f) (\<lambda>t. ae_EventType e = t)
      \<and> asks (af_Action f) (\<lambda>a. ae_Action e = a)
      \<and> asks (af_Result f) (\<lambda>r. ae_Result e = r)
      \<and> asks (af_ResourceType f) (\<lambda>r. ae_ResourceType e = r)
      \<and> asks (af_ResourceID f) (\<lambda>i. ae_ResourceID e = i)
      \<and> asks (af_ActorType f) (\<lambda>a. actor_Type (ae_Actor e) = a)
      \<and> asks (af_ActorID f) (\<lambda>i. actor_ID (ae_Actor e) = i)
      \<and> asks (af_AccountID f) (\<lambda>i.
           context_text X [''request'', ''account'', ''id''] e = Some (x_uuid_string X i))
      \<and> asks (af_SegmentID f) (\<lambda>i.
           context_text X [''request'', ''account'', ''segmentId''] e = Some (x_uuid_string X i))
      \<and> asks (af_PortfolioID f) (\<lambda>i.
           context_text X [''request'', ''account'', ''portfolioId''] e = Some (x_uuid_string X i))
      \<and> asks (af_TransactionType f) (\<lambda>t.
           context_text X [''request'', ''transactionType''] e = Some (TransactionType_String t))
      \<and> asks (af_MatchedRuleID f) (\<lambda>i.
           case json_path [''response'', ''matchedRuleIds''] (AnyMap (ae_Context e)) of
             None \<Rightarrow> False
           | Some a \<Rightarrow> json_has X (x_uuid_string X i) a))"

definition audit_mapSortField :: "string \<Rightarrow> string" where
  "audit_mapSortField field =
     (if field = ''createdAt'' then ''created_at''
      else if field = ''eventType'' then ''event_type'' else ''created_at'')"

text \<open>The column \<^verbatim>\<open>event_type\<close> is an enumeration: it orders as the type declares its values.\<close>

fun AuditEventType_rank :: "AuditEventType \<Rightarrow> int" where
  "AuditEventType_rank AuditEventTransactionValidated = 0"
| "AuditEventType_rank AuditEventRuleCreated = 1"
| "AuditEventType_rank AuditEventRuleUpdated = 2"
| "AuditEventType_rank AuditEventRuleActivated = 3"
| "AuditEventType_rank AuditEventRuleDeactivated = 4"
| "AuditEventType_rank AuditEventRuleDrafted = 5"
| "AuditEventType_rank AuditEventRuleDeleted = 6"
| "AuditEventType_rank AuditEventLimitCreated = 7"
| "AuditEventType_rank AuditEventLimitUpdated = 8"
| "AuditEventType_rank AuditEventLimitActivated = 9"
| "AuditEventType_rank AuditEventLimitDeactivated = 10"
| "AuditEventType_rank AuditEventLimitDrafted = 11"
| "AuditEventType_rank AuditEventLimitDeleted = 12"
| "AuditEventType_rank (AuditEventOther s) = 13"

definition audit_column :: "string \<Rightarrow> 'd AuditEvent \<Rightarrow> int" where
  "audit_column sortField e =
     (if sortField = ''event_type'' then AuditEventType_rank (ae_EventType e) else ae_CreatedAt e)"

definition audit_reads :: "string \<Rightarrow> audit_sort_value \<Rightarrow> int option" where
  "audit_reads sortField v =
     (case v of
        AuditSortTime t \<Rightarrow> if sortField = ''event_type'' then None else Some t
      | AuditSortType t \<Rightarrow>
          if sortField = ''event_type'' \<and> AuditEventType_IsValid t then Some (AuditEventType_rank t) else None
      | AuditSortBad s \<Rightarrow> None)"

text \<open>The database refuses a text that is not a value of the column's type.\<close>

definition audit_query_error ::
  "AuditEventFilters \<Rightarrow> (audit_sort_value \<times> int) option \<Rightarrow> err option" where
  "audit_query_error f cond =
     (if \<not> asks (af_EventType f) AuditEventType_IsValid \<or> \<not> asks (af_Action f) AuditAction_IsValid
         \<or> \<not> asks (af_Result f) AuditResult_IsValid \<or> \<not> asks (af_ResourceType f) ResourceType_IsValid
         \<or> \<not> asks (af_ActorType f) ActorType_IsValid
         \<or> \<not> asks cond (\<lambda>(v, i). audit_reads (audit_mapSortField (af_SortBy f)) v \<noteq> None)
      then Some (External ''invalid input value'') else None)"

text \<open>The condition that the cursor adds: the sort value and the number it starts after.\<close>

definition audit_applyCursorPagination ::
  "AuditEventFilters \<Rightarrow> (err, (audit_sort_value \<times> int) option) result" where
  "audit_applyCursorPagination f =
     (case af_Cursor f of
        AuditNoCursor \<Rightarrow> Inr None
      | AuditBadCursor e \<Rightarrow> Inl (Wrap2 ''%w: %w'' ErrInvalidCursor e)
      | AuditCursor cursor \<Rightarrow>
          if auc_SortBy cursor \<noteq> af_SortBy f then Inl (Wrap ''sortBy mismatch'' ErrInvalidCursor)
          else if auc_SortOrder cursor \<noteq> af_SortOrder f then
            Inl (Wrap ''sortOrder mismatch'' ErrInvalidCursor)
          else case auc_ID cursor of
              None \<Rightarrow> Inl (Wrap ''invalid ID format'' ErrInvalidCursor)
            | Some i \<Rightarrow> Inr (Some (auc_SortValue cursor, i)))"

definition audit_after :: "string \<Rightarrow> string \<Rightarrow> int \<Rightarrow> int \<Rightarrow> 'd AuditEvent \<Rightarrow> bool" where
  "audit_after sortField sortOrder v i e =
     (if sortOrder = ''DESC''
      then audit_column sortField e < v \<or> audit_column sortField e = v \<and> ae_ID e < i
      else v < audit_column sortField e \<or> audit_column sortField e = v \<and> i < ae_ID e)"

definition audit_condition ::
  "AuditEventFilters \<Rightarrow> (audit_sort_value \<times> int) option \<Rightarrow> 'd AuditEvent \<Rightarrow> bool" where
  "audit_condition f cond e =
     asks cond (\<lambda>(v, i). case audit_reads (audit_mapSortField (af_SortBy f)) v of
       None \<Rightarrow> False
     | Some k \<Rightarrow> audit_after (audit_mapSortField (af_SortBy f)) (af_SortOrder f) k i e)"

definition audit_before :: "string \<Rightarrow> string \<Rightarrow> 'd AuditEvent \<Rightarrow> 'd AuditEvent \<Rightarrow> bool" where
  "audit_before sortField sortOrder e =
     audit_after sortField sortOrder (audit_column sortField e) (ae_ID e)"

definition audit_extractSortValue :: "'d AuditEvent \<Rightarrow> string \<Rightarrow> audit_sort_value" where
  "audit_extractSortValue e sortBy =
     (if audit_mapSortField sortBy = ''event_type'' then AuditSortType (ae_EventType e)
      else AuditSortTime (ae_CreatedAt e))"

definition audit_generateNextCursor ::
  "'d AuditEvent list \<Rightarrow> bool \<Rightarrow> AuditEventFilters \<Rightarrow> audit_cursor_text" where
  "audit_generateNextCursor events hasMore f =
     (if \<not> hasMore \<or> events = [] then AuditNoCursor
      else let lastEvent = last events in
        AuditCursor \<lparr>auc_ID = Some (ae_ID lastEvent),
          auc_SortValue = audit_extractSortValue lastEvent (af_SortBy f),
          auc_SortBy = af_SortBy f, auc_SortOrder = af_SortOrder f\<rparr>)"

subsection \<open>Lists and queries\<close>

record 'd ListAuditEventsResult =
  aer_AuditEvents :: "'d AuditEvent list"
  aer_NextCursor :: audit_cursor_text
  aer_HasMore :: bool

definition audit_fetchLimit :: "int \<Rightarrow> int" where
  "audit_fetchLimit n = (if n + 1 \<le> 0 then DefaultAuditEventFilterLimit + 1 else n + 1)"

definition audit_page :: "AuditEventFilters \<Rightarrow> 'd AuditEvent list \<Rightarrow> 'd ListAuditEventsResult" where
  "audit_page f found =
     (let hasMore = int (length found) > af_Limit f;
          events = (if hasMore then take (nat (af_Limit f)) found else found)
      in \<lparr>aer_AuditEvents = events, aer_NextCursor = audit_generateNextCursor events hasMore f,
          aer_HasMore = hasMore\<rparr>)"

definition AuditRepo_List ::
  "ext \<Rightarrow> gotime \<Rightarrow> AuditEventFilters option \<Rightarrow> ('d, 'p, 'x) audit_db_scheme
   \<Rightarrow> ('d, 'p, 'x) audit_db_scheme \<times> (err, 'd ListAuditEventsResult) result" where
  "AuditRepo_List X clock filters db =
     (let f = AuditEventFilters_SetDefaults X clock
                (case filters of None \<Rightarrow> no_audit_filters | Some f \<Rightarrow> f) in
      case AuditEventFilters_Validate X f of
        Some e \<Rightarrow> (db, Inl (Wrap2 ''%w: %w'' ErrInvalidAuditEventFilters e))
      | None \<Rightarrow>
     (case next_fault db of
        Some e \<Rightarrow> (consume_fault db, Inl (Wrap ''failed to get database connection'' e))
      | None \<Rightarrow>
          let db1 = consume_fault db in
     (case audit_applyCursorPagination f of
        Inl e \<Rightarrow> (db1, Inl e)
      | Inr cond \<Rightarrow>
     (case next_fault db1 of
        Some e \<Rightarrow> (consume_fault db1, Inl (Wrap ''failed to list audit events'' e))
      | None \<Rightarrow>
     (case audit_query_error f cond of
        Some e \<Rightarrow> (consume_fault db1, Inl (Wrap ''failed to list audit events'' e))
      | None \<Rightarrow>
          (consume_fault db1, Inr (audit_page f
            (take (nat (audit_fetchLimit (af_Limit f)))
              (sort_by (audit_before (audit_mapSortField (af_SortBy f)) (af_SortOrder f))
                (filter (\<lambda>e. audit_applyFilters X f e \<and> audit_condition f cond e) (db_audits db)))))))))))"

definition ListAuditEventsQuery_Execute ::
  "ext \<Rightarrow> gotime \<Rightarrow> AuditEventFilters option \<Rightarrow> ('d, 'p, 'x) audit_db_scheme
   \<Rightarrow> ('d, 'p, 'x) audit_db_scheme \<times> (err, 'd ListAuditEventsResult) result" where
  "ListAuditEventsQuery_Execute X clock filters db =
     AuditRepo_List X clock
       (Some (AuditEventFilters_SetDefaults X clock
         (case filters of None \<Rightarrow> no_audit_filters | Some f \<Rightarrow> f))) db"

definition ExecuteValidationsOnly ::
  "ext \<Rightarrow> gotime \<Rightarrow> AuditEventFilters option \<Rightarrow> ('d, 'p, 'x) audit_db_scheme
   \<Rightarrow> ('d, 'p, 'x) audit_db_scheme \<times> (err, 'd ListAuditEventsResult) result" where
  "ExecuteValidationsOnly X clock filters db =
     AuditRepo_List X clock
       (Some (AuditEventFilters_SetDefaults X clock
         ((case filters of None \<Rightarrow> no_audit_filters | Some f \<Rightarrow> f)
            \<lparr>af_EventType := Some AuditEventTransactionValidated\<rparr>))) db"

definition GetAuditEventQuery_Execute ::
  "uuid \<Rightarrow> ('d, 'p, 'x) audit_db_scheme
   \<Rightarrow> ('d, 'p, 'x) audit_db_scheme \<times> (err, 'd AuditEvent) result" where
  "GetAuditEventQuery_Execute eventID db = AuditRepo_GetByID eventID db"

end
