(* ===== verification/ValidationList.thy ===== *)
theory ValidationList
  imports Validations Keyset
begin

text \<open>
  The list of validations: filters (\<^verbatim>\<open>pkg/model/transaction_validation_filters.go\<close>), \<^verbatim>\<open>List\<close>
  and \<^verbatim>\<open>Count\<close> of \<^verbatim>\<open>transaction_validation_repository.go\<close>, and the queries
  \<^verbatim>\<open>list_transaction_validations.go\<close> and \<^verbatim>\<open>get_transaction_validation.go\<close>. A cursor text is
  what \<^verbatim>\<open>DecodeCursor\<close> makes of it, with the sort value as the column's type reads it. The
  identifier of a row orders as the UUID it is.
\<close>

subsection \<open>Filters\<close>

datatype tv_sort_value = TvTime gotime | TvInt int | TvBad string

record tv_cursor =
  tc_ID :: uuid
  tc_SortValue :: tv_sort_value
  tc_SortBy :: string
  tc_SortOrder :: string

datatype tv_cursor_text = TvNoCursor | TvBadCursor err | TvCursor tv_cursor

record TransactionValidationFilters =
  tf_StartDate :: gotime
  tf_EndDate :: gotime
  tf_Decision :: "Decision option"
  tf_AccountID :: "uuid option"
  tf_MatchedRuleID :: "uuid option"
  tf_ExceededLimitID :: "uuid option"
  tf_SegmentID :: "uuid option"
  tf_PortfolioID :: "uuid option"
  tf_TransactionType :: "TransactionType option"
  tf_Limit :: int
  tf_Cursor :: tv_cursor_text
  tf_SortBy :: string
  tf_SortOrder :: string

definition no_tv_filters :: TransactionValidationFilters where
  "no_tv_filters = \<lparr>tf_StartDate = 0, tf_EndDate = 0, tf_Decision = None, tf_AccountID = None,
     tf_MatchedRuleID = None, tf_ExceededLimitID = None, tf_SegmentID = None, tf_PortfolioID = None,
     tf_TransactionType = None, tf_Limit = 0, tf_Cursor = TvNoCursor, tf_SortBy = [], tf_SortOrder = []\<rparr>"

definition MaxTransactionValidationFilterLimit :: int where
  "MaxTransactionValidationFilterLimit = 1000"

definition DefaultTransactionValidationFilterLimit :: int where
  "DefaultTransactionValidationFilterLimit = 100"

definition DefaultTransactionValidationDateRangeDays :: int where
  "DefaultTransactionValidationDateRangeDays = 90"

definition IsValidTransactionValidationSortField :: "string \<Rightarrow> bool" where
  "IsValidTransactionValidationSortField field = (field \<in> {''createdAt'', ''processingTimeMs''})"

definition TVFilters_SetDefaults ::
  "ext \<Rightarrow> gotime \<Rightarrow> TransactionValidationFilters \<Rightarrow> TransactionValidationFilters" where
  "TVFilters_SetDefaults X clock f =
     (let f = (if tf_Limit f = 0 then f\<lparr>tf_Limit := DefaultTransactionValidationFilterLimit\<rparr> else f);
          now = Truncate clock (24 * Hour_ns);
          f = (if time_IsZero (tf_StartDate f) \<and> time_IsZero (tf_EndDate f)
               then f\<lparr>tf_EndDate := now + 24 * Hour_ns,
                      tf_StartDate := now - DefaultTransactionValidationDateRangeDays * 24 * Hour_ns\<rparr>
               else f);
          f = (if tf_SortBy f = [] then f\<lparr>tf_SortBy := ''createdAt''\<rparr> else f)
      in if tf_SortOrder f = [] then f\<lparr>tf_SortOrder := ''DESC''\<rparr>
         else f\<lparr>tf_SortOrder := ToUpper X (tf_SortOrder f)\<rparr>)"

definition TVFilters_Validate :: "ext \<Rightarrow> TransactionValidationFilters \<Rightarrow> err option" where
  "TVFilters_Validate X f =
     map_option (\<lambda>what. Wrap what ErrInvalidTransactionValidationFilters)
       (if \<not> time_IsZero (tf_StartDate f) \<and> \<not> time_IsZero (tf_EndDate f)
           \<and> tf_EndDate f < tf_StartDate f then Some ''endDate must be after startDate''
        else if tf_Limit f < 0 then Some ''limit cannot be negative''
        else if tf_Limit f > MaxTransactionValidationFilterLimit then Some ''limit cannot exceed 1000''
        else if tf_SortBy f \<noteq> [] \<and> \<not> IsValidTransactionValidationSortField (tf_SortBy f)
          then Some ''invalid sortBy field''
        else if tf_SortOrder f \<noteq> [] \<and> ToUpper X (tf_SortOrder f) \<notin> {''ASC'', ''DESC''}
          then Some ''sortOrder must be ASC or DESC''
        else if (case tf_TransactionType f of None \<Rightarrow> False | Some t \<Rightarrow> \<not> TransactionType_IsValid t)
          then Some ''invalid transactionType''
        else None)"

subsection \<open>The statement\<close>

definition exceeded_limit :: "uuid \<Rightarrow> 'd LimitUsageDetail list \<Rightarrow> bool" where
  "exceeded_limit i ds = list_ex (\<lambda>d. d_LimitID d = i \<and> d_Exceeded d) ds"

definition matched_rule :: "ext \<Rightarrow> uuid \<Rightarrow> string \<Rightarrow> bool" where
  "matched_rule X i ids =
     (case StringArray_Scan (SqlText ids) of
        Inr (Some xs) \<Rightarrow> x_uuid_string X i \<in> set xs
      | _ \<Rightarrow> False)"

definition tv_applyFilters ::
  "ext \<Rightarrow> TransactionValidationFilters \<Rightarrow> 'd TransactionValidationPostgreSQLModel \<Rightarrow> bool" where
  "tv_applyFilters X f m =
     ((time_IsZero (tf_StartDate f) \<or> m_CreatedAt m \<ge> tf_StartDate f)
      \<and> (time_IsZero (tf_EndDate f) \<or> m_CreatedAt m \<le> tf_EndDate f)
      \<and> (case tf_Decision f of None \<Rightarrow> True | Some d \<Rightarrow> m_Decision m = Decision_String d)
      \<and> (case tf_AccountID f of None \<Rightarrow> True | Some i \<Rightarrow> ac_ID (m_Account m) = i)
      \<and> (case tf_MatchedRuleID f of None \<Rightarrow> True | Some i \<Rightarrow> matched_rule X i (m_MatchedRuleIds m))
      \<and> (case tf_ExceededLimitID f of None \<Rightarrow> True | Some i \<Rightarrow> exceeded_limit i (m_LimitUsageDetails m))
      \<and> (case tf_SegmentID f of None \<Rightarrow> True
         | Some i \<Rightarrow> (case m_Segment m of None \<Rightarrow> False | Some s \<Rightarrow> sc_ID s = i))
      \<and> (case tf_PortfolioID f of None \<Rightarrow> True
         | Some i \<Rightarrow> (case m_Portfolio m of None \<Rightarrow> False | Some p \<Rightarrow> pc_ID p = i))
      \<and> (case tf_TransactionType f of None \<Rightarrow> True
         | Some t \<Rightarrow> m_TransactionType m = TransactionType_String t))"

text \<open>The column of the decision is an enumeration, which refuses a text that is not one of its own.\<close>

definition tv_query_error :: "TransactionValidationFilters \<Rightarrow> err option" where
  "tv_query_error f =
     (case tf_Decision f of
        None \<Rightarrow> None
      | Some d \<Rightarrow> if Decision_IsValid d then None
          else Some (External ''invalid input value for enum decision_enum''))"

definition sortFieldToColumn :: "string \<Rightarrow> string" where
  "sortFieldToColumn field =
     (if field = ''createdAt'' then ''created_at''
      else if field = ''processingTimeMs'' then ''processing_time_ms'' else field)"

definition tv_validateAndNormalizeSort ::
  "ext \<Rightarrow> TransactionValidationFilters \<Rightarrow> (err, string \<times> string) result" where
  "tv_validateAndNormalizeSort X f =
     (let sortBy = (if tf_SortBy f = [] then ''createdAt'' else tf_SortBy f) in
      if \<not> IsValidTransactionValidationSortField sortBy then Inl ErrInvalidSortColumn
      else let sortOrder = ToUpper X (tf_SortOrder f)
           in Inr (sortFieldToColumn sortBy, if sortOrder \<in> {''ASC'', ''DESC''} then sortOrder else ''DESC''))"

definition validTransactionValidationDBColumns :: "string \<Rightarrow> bool" where
  "validTransactionValidationDBColumns c = (c \<in> {''created_at'', ''processing_time_ms''})"

definition validateCursorSortValueTransactionValidation :: "string \<Rightarrow> tv_sort_value \<Rightarrow> err option" where
  "validateCursorSortValueTransactionValidation sortBy v =
     (if sortBy = ''created_at'' then
        (case v of TvTime t \<Rightarrow> None | _ \<Rightarrow> Some (Sentinel ''invalid timestamp format''))
      else if sortBy = ''processing_time_ms'' then
        (case v of TvInt n \<Rightarrow> None | _ \<Rightarrow> Some (Sentinel ''invalid integer format''))
      else Some (Sentinel ''unsupported sort column''))"

definition getSortValueFromValidation ::
  "'d TransactionValidation \<Rightarrow> string \<Rightarrow> (err, tv_sort_value) result" where
  "getSortValueFromValidation v sortBy =
     (if sortBy = ''created_at'' then Inr (TvTime (t_CreatedAt v))
      else if sortBy = ''processing_time_ms'' then Inr (TvInt (t_ProcessingTimeMs v))
      else Inl (Sentinel ''unsupported sort column''))"

text \<open>The value of a column, and the comparison of the condition with it.\<close>

definition tv_column :: "string \<Rightarrow> 'd TransactionValidationPostgreSQLModel \<Rightarrow> int" where
  "tv_column sortBy m = (if sortBy = ''created_at'' then m_CreatedAt m else m_ProcessingTimeMs m)"

definition tv_value :: "tv_sort_value \<Rightarrow> int" where
  "tv_value v = (case v of TvTime t \<Rightarrow> t | TvInt n \<Rightarrow> n | TvBad s \<Rightarrow> 0)"

definition row_uuid :: "(string \<Rightarrow> (err, uuid) result) \<Rightarrow> 'd TransactionValidationPostgreSQLModel \<Rightarrow> uuid" where
  "row_uuid uuid_Parse m = (case uuid_Parse (m_ID m) of Inl e \<Rightarrow> uuid_Nil | Inr i \<Rightarrow> i)"

definition tv_after ::
  "(string \<Rightarrow> (err, uuid) result) \<Rightarrow> string \<Rightarrow> string \<Rightarrow> int \<Rightarrow> uuid
   \<Rightarrow> 'd TransactionValidationPostgreSQLModel \<Rightarrow> bool" where
  "tv_after uuid_Parse sortBy sortOrder v i m =
     (if sortOrder = ''DESC''
      then tv_column sortBy m < v \<or> tv_column sortBy m = v \<and> row_uuid uuid_Parse m < i
      else v < tv_column sortBy m \<or> tv_column sortBy m = v \<and> i < row_uuid uuid_Parse m)"

definition tv_buildCursorCondition ::
  "(string \<Rightarrow> (err, uuid) result) \<Rightarrow> tv_cursor \<Rightarrow> string \<Rightarrow> string
   \<Rightarrow> 'd TransactionValidationPostgreSQLModel \<Rightarrow> bool" where
  "tv_buildCursorCondition uuid_Parse cursor sortBy sortOrder =
     tv_after uuid_Parse sortBy sortOrder (tv_value (tc_SortValue cursor)) (tc_ID cursor)"

definition tv_before ::
  "(string \<Rightarrow> (err, uuid) result) \<Rightarrow> string \<Rightarrow> string \<Rightarrow> 'd TransactionValidationPostgreSQLModel
   \<Rightarrow> 'd TransactionValidationPostgreSQLModel \<Rightarrow> bool" where
  "tv_before uuid_Parse sortBy sortOrder m =
     tv_after uuid_Parse sortBy sortOrder (tv_column sortBy m) (row_uuid uuid_Parse m)"

definition tv_applyCursorFilter ::
  "ext \<Rightarrow> (string \<Rightarrow> (err, uuid) result) \<Rightarrow> tv_cursor_text \<Rightarrow> string \<Rightarrow> string
   \<Rightarrow> (err, 'd TransactionValidationPostgreSQLModel \<Rightarrow> bool) result" where
  "tv_applyCursorFilter X uuid_Parse cursor requestedSortBy requestedOrderDir =
     (case cursor of
        TvNoCursor \<Rightarrow> Inr (\<lambda>_. True)
      | TvBadCursor e \<Rightarrow> Inl (Wrap2 ''%w: %w'' ErrInvalidCursor e)
      | TvCursor cu \<Rightarrow>
          let sortColumn = (if tc_SortBy cu = [] then ''created_at'' else tc_SortBy cu);
              orderDir = (if tc_SortOrder cu \<notin> {''ASC'', ''DESC''} then ''DESC'' else tc_SortOrder cu)
          in if \<not> validTransactionValidationDBColumns sortColumn then Inl ErrInvalidSortColumn
             else if sortColumn \<noteq> requestedSortBy then
               Inl (Wrap ''cursor sortBy does not match request'' ErrInvalidCursor)
             else if orderDir \<noteq> ToUpper X requestedOrderDir then
               Inl (Wrap ''cursor sortOrder does not match request'' ErrInvalidCursor)
             else case validateCursorSortValueTransactionValidation sortColumn (tc_SortValue cu) of
                 Some e \<Rightarrow> Inl (Wrap2 ''%w: %w'' ErrInvalidCursor e)
               | None \<Rightarrow> Inr (tv_buildCursorCondition uuid_Parse cu sortColumn orderDir))"

definition tv_buildNextCursor ::
  "ext \<Rightarrow> 'd TransactionValidation \<Rightarrow> string \<Rightarrow> string \<Rightarrow> (err, tv_cursor_text) result" where
  "tv_buildNextCursor X v sortBy sortOrder =
     (if \<not> validTransactionValidationDBColumns sortBy then Inl ErrInvalidSortColumn
      else let upper = ToUpper X sortOrder;
               normalizedSortOrder = (if upper \<notin> {''ASC'', ''DESC''} then ''DESC'' else upper)
           in case getSortValueFromValidation v sortBy of
                Inl e \<Rightarrow> Inl (Wrap ''failed to get sort value'' e)
              | Inr sortValue \<Rightarrow> Inr (TvCursor \<lparr>tc_ID = t_ID v, tc_SortValue = sortValue,
                  tc_SortBy = sortBy, tc_SortOrder = normalizedSortOrder\<rparr>))"

subsection \<open>Lists, counts and queries\<close>

record 'd ListTransactionValidationsResult =
  tvr_TransactionValidations :: "'d TransactionValidation list"
  tvr_NextCursor :: tv_cursor_text
  tvr_HasMore :: bool

fun scan_validations ::
  "(string \<Rightarrow> (err, uuid) result) \<Rightarrow> 'd TransactionValidationPostgreSQLModel list
   \<Rightarrow> (err, 'd TransactionValidation list) result" where
  "scan_validations uuid_Parse [] = Inr []"
| "scan_validations uuid_Parse (m # ms) =
     (case scanValidation uuid_Parse m of
        Inl e \<Rightarrow> Inl (Wrap ''failed to scan transaction validation'' e)
      | Inr v \<Rightarrow> bind_result (scan_validations uuid_Parse ms) (\<lambda>vs. Inr (v # vs)))"

definition tv_fetchLimit :: "int \<Rightarrow> int" where
  "tv_fetchLimit n = (if n + 1 \<le> 0 then DefaultTransactionValidationFilterLimit + 1 else n + 1)"

definition tv_page ::
  "ext \<Rightarrow> int \<Rightarrow> string \<Rightarrow> string \<Rightarrow> 'd TransactionValidation list
   \<Rightarrow> (err, 'd ListTransactionValidationsResult) result" where
  "tv_page X n sortBy sortOrder found =
     (let hasMore = int (length found) > n;
          vs = (if hasMore then take (nat n) found else found)
      in if hasMore \<and> vs \<noteq> [] then
           (case tv_buildNextCursor X (last vs) sortBy sortOrder of
              Inl e \<Rightarrow> Inl (Wrap ''failed to encode cursor'' e)
            | Inr nextCursor \<Rightarrow> Inr \<lparr>tvr_TransactionValidations = vs, tvr_NextCursor = nextCursor,
                tvr_HasMore = hasMore\<rparr>)
         else Inr \<lparr>tvr_TransactionValidations = vs, tvr_NextCursor = TvNoCursor, tvr_HasMore = hasMore\<rparr>)"

definition ValidationRepo_List ::
  "ext \<Rightarrow> (string \<Rightarrow> (err, uuid) result) \<Rightarrow> gotime \<Rightarrow> TransactionValidationFilters option
   \<Rightarrow> ('d, 'p, 'x) tracer_db_scheme
   \<Rightarrow> ('d, 'p, 'x) tracer_db_scheme \<times> (err, 'd ListTransactionValidationsResult) result" where
  "ValidationRepo_List X uuid_Parse clock filters db =
     (let f = TVFilters_SetDefaults X clock (case filters of None \<Rightarrow> no_tv_filters | Some f \<Rightarrow> f) in
      case TVFilters_Validate X f of
        Some e \<Rightarrow> (db, Inl (Wrap2 ''%w: %w'' ErrInvalidTransactionValidationFilters e))
      | None \<Rightarrow>
     (case tv_validateAndNormalizeSort X f of
        Inl e \<Rightarrow> (db, Inl e)
      | Inr (sortBy, sortOrder) \<Rightarrow>
     (case next_fault db of
        Some e \<Rightarrow> (consume_fault db, Inl (Wrap ''failed to get database connection'' e))
      | None \<Rightarrow>
          let db1 = consume_fault db in
     (case tv_applyCursorFilter X uuid_Parse (tf_Cursor f) sortBy sortOrder of
        Inl e \<Rightarrow> (db1, Inl e)
      | Inr after \<Rightarrow>
     (case next_fault db1 of
        Some e \<Rightarrow> (consume_fault db1, Inl (Wrap ''failed to list transaction validations'' e))
      | None \<Rightarrow>
     (case tv_query_error f of
        Some e \<Rightarrow> (consume_fault db1, Inl (Wrap ''failed to list transaction validations'' e))
      | None \<Rightarrow>
          (consume_fault db1,
           bind_result
             (scan_validations uuid_Parse (take (nat (tv_fetchLimit (tf_Limit f)))
               (sort_by (tv_before uuid_Parse sortBy sortOrder)
                 (filter (\<lambda>m. tv_applyFilters X f m \<and> after m) (db_validations db)))))
             (tv_page X (tf_Limit f) sortBy sortOrder))))))))"

definition ValidationRepo_Count ::
  "ext \<Rightarrow> gotime \<Rightarrow> TransactionValidationFilters option \<Rightarrow> ('d, 'p, 'x) tracer_db_scheme
   \<Rightarrow> ('d, 'p, 'x) tracer_db_scheme \<times> (err, int) result" where
  "ValidationRepo_Count X clock filters db =
     (let f = TVFilters_SetDefaults X clock (case filters of None \<Rightarrow> no_tv_filters | Some f \<Rightarrow> f) in
      case TVFilters_Validate X f of
        Some e \<Rightarrow> (db, Inl (Wrap2 ''%w: %w'' ErrInvalidTransactionValidationFilters e))
      | None \<Rightarrow> with_db ''failed to count transaction validations'' (\<lambda>db.
          case tv_query_error f of
            Some e \<Rightarrow> (db, Inl (Wrap ''failed to count transaction validations'' e))
          | None \<Rightarrow> (db, Inr (int (length (filter (tv_applyFilters X f) (db_validations db)))))) db)"

definition ListTransactionValidationsQuery_Execute ::
  "ext \<Rightarrow> (string \<Rightarrow> (err, uuid) result) \<Rightarrow> gotime \<Rightarrow> err option list
   \<Rightarrow> TransactionValidationFilters option \<Rightarrow> ('d, 'p, 'x) tracer_db_scheme
   \<Rightarrow> ('d, 'p, 'x) tracer_db_scheme \<times> (err, 'd ListTransactionValidationsResult) result" where
  "ListTransactionValidationsQuery_Execute X uuid_Parse clock ctx filters db =
     (case ctx_Err ctx of
        Some e \<Rightarrow> (db, Inl (Wrap ''list transaction validations'' e))
      | None \<Rightarrow>
          let f = TVFilters_SetDefaults X clock (case filters of None \<Rightarrow> no_tv_filters | Some f \<Rightarrow> f) in
          (case TVFilters_Validate X f of
             Some e \<Rightarrow> (db, Inl (Wrap2 ''%w: %w'' ErrInvalidTransactionValidationFilters e))
           | None \<Rightarrow>
               (case ValidationRepo_List X uuid_Parse clock (Some f) db of
                  (db1, Inl e) \<Rightarrow> (db1, Inl (Wrap ''repository list failed'' e))
                | (db1, Inr r) \<Rightarrow> (db1, Inr r))))"

definition GetTransactionValidationQuery_Execute ::
  "ext \<Rightarrow> (string \<Rightarrow> (err, uuid) result) \<Rightarrow> uuid \<Rightarrow> ('d, 'p, 'x) tracer_db_scheme
   \<Rightarrow> ('d, 'p, 'x) tracer_db_scheme \<times> (err, 'd TransactionValidation) result" where
  "GetTransactionValidationQuery_Execute X uuid_Parse i db =
     (if i = uuid_Nil then (db, Inl ErrInvalidPathParameter) else ValidationRepo_GetByID X uuid_Parse i db)"

subsection \<open>The pages hold every matching record once\<close>

lemma tv_before_column:
  "tv_before P sortBy sortOrder = (if sortOrder = ''DESC''
     then (\<lambda>m m'. tv_column sortBy m' < tv_column sortBy m
            \<or> tv_column sortBy m' = tv_column sortBy m \<and> row_uuid P m' < row_uuid P m)
     else (\<lambda>m m'. tv_column sortBy m < tv_column sortBy m'
            \<or> tv_column sortBy m' = tv_column sortBy m \<and> row_uuid P m < row_uuid P m'))"
  by (auto simp: tv_before_def tv_after_def fun_eq_iff)

lemma tv_before_strict:
  assumes "distinct (map (row_uuid P) rows)"
  shows "strict_on (set rows) (tv_before P sortBy sortOrder)"
proof -
  have ids: "row_uuid P x \<noteq> row_uuid P y" if "x \<in> set rows" "y \<in> set rows" "x \<noteq> y" for x y
    using assms that by (auto simp: distinct_map inj_on_def)
  have "strict_on (set rows) (\<lambda>x y. tv_column sortBy x < tv_column sortBy y
      \<or> tv_column sortBy y = tv_column sortBy x \<and> row_uuid P x < row_uuid P y)"
    by (rule lex_strict) (rule ids)
  moreover have "strict_on (set rows) (\<lambda>x y. tv_column sortBy y < tv_column sortBy x
      \<or> tv_column sortBy y = tv_column sortBy x \<and> row_uuid P y < row_uuid P x)"
    by (rule lex_strict_down) (rule ids)
  ultimately show ?thesis by (simp only: tv_before_column split: if_split) blast
qed

lemma TVFilters_cursor:
  "TVFilters_SetDefaults X clock (f\<lparr>tf_Cursor := c\<rparr>) = (TVFilters_SetDefaults X clock f)\<lparr>tf_Cursor := c\<rparr>"
  "TVFilters_Validate X (f\<lparr>tf_Cursor := c\<rparr>) = TVFilters_Validate X f"
  "tv_validateAndNormalizeSort X (f\<lparr>tf_Cursor := c\<rparr>) = tv_validateAndNormalizeSort X f"
  "tv_applyFilters X (f\<lparr>tf_Cursor := c\<rparr>) m = tv_applyFilters X f m"
  "tv_query_error (f\<lparr>tf_Cursor := c\<rparr>) = tv_query_error f"
  "tv_query_error (TVFilters_SetDefaults X clock f) = tv_query_error f"
  by (cases f; simp add: TVFilters_SetDefaults_def TVFilters_Validate_def
      tv_validateAndNormalizeSort_def tv_applyFilters_def tv_query_error_def Let_def)+

text \<open>The entity of a row, and the position of a row as a cursor.\<close>

definition entity_of ::
  "(string \<Rightarrow> (err, uuid) result) \<Rightarrow> 'd TransactionValidationPostgreSQLModel \<Rightarrow> 'd TransactionValidation" where
  "entity_of P m = projr (scanValidation P m)"

definition tv_sort_of :: "string \<Rightarrow> 'd TransactionValidationPostgreSQLModel \<Rightarrow> tv_sort_value" where
  "tv_sort_of sortBy m =
     (if sortBy = ''created_at'' then TvTime (m_CreatedAt m) else TvInt (m_ProcessingTimeMs m))"

definition tv_cursor_of ::
  "(string \<Rightarrow> (err, uuid) result) \<Rightarrow> string \<Rightarrow> string \<Rightarrow> 'd TransactionValidationPostgreSQLModel
   \<Rightarrow> tv_cursor_text" where
  "tv_cursor_of P sortBy sortOrder m = TvCursor \<lparr>tc_ID = row_uuid P m,
     tc_SortValue = tv_sort_of sortBy m, tc_SortBy = sortBy, tc_SortOrder = sortOrder\<rparr>"

definition tv_text :: "tv_cursor_text option \<Rightarrow> tv_cursor_text" where
  "tv_text c = (case c of None \<Rightarrow> TvNoCursor | Some t \<Rightarrow> t)"

definition tv_fetch ::
  "ext \<Rightarrow> (string \<Rightarrow> (err, uuid) result) \<Rightarrow> gotime \<Rightarrow> TransactionValidationFilters
   \<Rightarrow> ('d, 'p, 'x) tracer_db_scheme \<Rightarrow> tv_cursor_text option
   \<Rightarrow> 'd TransactionValidation list \<times> tv_cursor_text option" where
  "tv_fetch X P clock f db c =
     (case ValidationRepo_List X P clock (Some (f\<lparr>tf_Cursor := tv_text c\<rparr>)) db of
        (_, Inr r) \<Rightarrow> (tvr_TransactionValidations r, if tvr_HasMore r then Some (tvr_NextCursor r) else None)
      | (_, Inl e) \<Rightarrow> ([], None))"

definition rows_scan ::
  "(string \<Rightarrow> (err, uuid) result) \<Rightarrow> 'd TransactionValidationPostgreSQLModel list \<Rightarrow> bool" where
  "rows_scan P rows = (\<forall>m \<in> set rows. \<exists>v. scanValidation P m = Inr v)"

lemma scanValidation_keys:
  assumes "scanValidation P m = Inr v"
  shows "t_ID v = row_uuid P m" "t_CreatedAt v = m_CreatedAt m" "t_ProcessingTimeMs v = m_ProcessingTimeMs m"
proof -
  obtain a b where "(case ToEntity P (m\<lparr>m_MatchedRuleIds := a, m_EvaluatedRuleIds := b\<rparr>) of
      Inl e \<Rightarrow> Inl (Wrap ''failed to convert to entity'' e) | Inr tv \<Rightarrow> Inr tv) = Inr v"
    using assms unfolding scanValidation_def bind_result_Inr_iff by blast
  then have e: "ToEntity P (m\<lparr>m_MatchedRuleIds := a, m_EvaluatedRuleIds := b\<rparr>) = Inr v"
    by (cases "ToEntity P (m\<lparr>m_MatchedRuleIds := a, m_EvaluatedRuleIds := b\<rparr>)") simp_all
  obtain i where i: "P (m_ID m) = Inr i" using e by (cases "P (m_ID m)") (simp_all add: ToEntity_def)
  have "t_ID v = i \<and> t_CreatedAt v = m_CreatedAt m \<and> t_ProcessingTimeMs v = m_ProcessingTimeMs m"
    using e i by (simp add: ToEntity_def split: sum.split_asm) auto
  then show "t_ID v = row_uuid P m" "t_CreatedAt v = m_CreatedAt m" "t_ProcessingTimeMs v = m_ProcessingTimeMs m"
    using i by (simp_all add: row_uuid_def)
qed

lemma scan_validations_ok:
  "rows_scan P ms \<Longrightarrow> scan_validations P ms = Inr (map (entity_of P) ms)"
  by (induction ms) (auto simp: rows_scan_def entity_of_def)

lemma tv_valid_sort:
  assumes "TVFilters_Validate X (TVFilters_SetDefaults X clock f) = None"
  obtains sortBy sortOrder where
    "tv_validateAndNormalizeSort X (TVFilters_SetDefaults X clock f) = Inr (sortBy, sortOrder)"
    "validTransactionValidationDBColumns sortBy" "sortOrder \<in> {''ASC'', ''DESC''}"
    "0 < tf_Limit (TVFilters_SetDefaults X clock f)" "tf_Limit (TVFilters_SetDefaults X clock f) \<le> 1000"
proof -
  let ?g = "TVFilters_SetDefaults X clock f"
  have d: "tf_SortBy ?g \<noteq> []" "tf_Limit ?g \<noteq> 0"
    by (simp_all add: TVFilters_SetDefaults_def Let_def DefaultTransactionValidationFilterLimit_def)
  have v: "IsValidTransactionValidationSortField (tf_SortBy ?g)" "\<not> tf_Limit ?g < 0" "tf_Limit ?g \<le> 1000"
    using assms d by (auto simp: TVFilters_Validate_def MaxTransactionValidationFilterLimit_def split: if_splits)
  let ?so = "if ToUpper X (tf_SortOrder ?g) \<in> {''ASC'', ''DESC''} then ToUpper X (tf_SortOrder ?g) else ''DESC''"
  have "tv_validateAndNormalizeSort X ?g = Inr (sortFieldToColumn (tf_SortBy ?g), ?so)"
    using v(1) d(1) by (simp add: tv_validateAndNormalizeSort_def Let_def)
  moreover have "validTransactionValidationDBColumns (sortFieldToColumn (tf_SortBy ?g))"
    using v(1) by (auto simp: IsValidTransactionValidationSortField_def sortFieldToColumn_def
        validTransactionValidationDBColumns_def)
  moreover have "?so \<in> {''ASC'', ''DESC''}" by simp
  moreover have "0 < tf_Limit ?g" using v(2) d(2) by simp
  ultimately show thesis using v(3) by (rule that)
qed

lemma tv_cursor_filter:
  assumes "validTransactionValidationDBColumns sortBy" "sortOrder \<in> {''ASC'', ''DESC''}"
  shows "tv_applyCursorFilter X P (tv_text (map_option (tv_cursor_of P sortBy sortOrder) c)) sortBy sortOrder
    = Inr (\<lambda>m. case c of None \<Rightarrow> True | Some x \<Rightarrow> tv_before P sortBy sortOrder x m)"
proof (cases c)
  case (Some x)
  have "sortBy \<noteq> []" using assms(1) by (auto simp: validTransactionValidationDBColumns_def)
  moreover have "validateCursorSortValueTransactionValidation sortBy (tv_sort_of sortBy x) = None"
    "tv_value (tv_sort_of sortBy x) = tv_column sortBy x"
    using assms(1) by (auto simp: validTransactionValidationDBColumns_def tv_sort_of_def
        validateCursorSortValueTransactionValidation_def tv_value_def tv_column_def)
  ultimately show ?thesis
    using assms ToUpper_order [OF assms(2)] Some
    by (simp add: tv_applyCursorFilter_def tv_text_def tv_cursor_of_def Let_def tv_buildCursorCondition_def
        tv_before_def)
qed (simp add: tv_applyCursorFilter_def tv_text_def)

lemma tv_next_cursor:
  assumes "validTransactionValidationDBColumns sortBy" "sortOrder \<in> {''ASC'', ''DESC''}"
    "scanValidation P m = Inr v"
  shows "tv_buildNextCursor X v sortBy sortOrder = Inr (tv_cursor_of P sortBy sortOrder m)"
proof -
  have "getSortValueFromValidation v sortBy = Inr (tv_sort_of sortBy m)"
    using assms(1) scanValidation_keys [OF assms(3)]
    by (auto simp: getSortValueFromValidation_def tv_sort_of_def validTransactionValidationDBColumns_def)
  then show ?thesis
    using assms(1,2) ToUpper_order [OF assms(2)] scanValidation_keys(1) [OF assms(3)]
    by (auto simp: tv_buildNextCursor_def tv_cursor_of_def Let_def)
qed

lemma tv_page_scanned:
  assumes "validTransactionValidationDBColumns sortBy" "sortOrder \<in> {''ASC'', ''DESC''}" "0 < n"
    "rows_scan P ms"
  shows "\<exists>r. tv_page X n sortBy sortOrder (map (entity_of P) ms) = Inr r
    \<and> tvr_TransactionValidations r = map (entity_of P) (if nat n < length ms then take (nat n) ms else ms)
    \<and> (if tvr_HasMore r then Some (tvr_NextCursor r) else None)
      = (if nat n < length ms then Some (tv_cursor_of P sortBy sortOrder (last (take (nat n) ms))) else None)"
proof (cases "nat n < length ms")
  case True
  have ne: "take (nat n) ms \<noteq> []" using True assms(3) by auto
  then have "last (take (nat n) ms) \<in> set ms" by (intro in_set_takeD [OF last_in_set])
  then obtain v where v: "scanValidation P (last (take (nat n) ms)) = Inr v"
    using assms(4) by (auto simp: rows_scan_def)
  then have "last (map (entity_of P) (take (nat n) ms)) = v"
    using ne by (simp add: last_map entity_of_def)
  then have "tv_buildNextCursor X (last (map (entity_of P) (take (nat n) ms))) sortBy sortOrder
      = Inr (tv_cursor_of P sortBy sortOrder (last (take (nat n) ms)))"
    using tv_next_cursor [OF assms(1,2) v] by simp
  moreover have "n < int (length ms)" using True assms(3) by linarith
  ultimately show ?thesis using True ne assms(3) by (simp add: tv_page_def Let_def take_map)
next
  case False
  then show ?thesis using assms(3) by (simp add: tv_page_def Let_def)
qed

text \<open>A page of the repository is a page of the generic source, row by row and position by position.\<close>

lemma tv_fetch_keyset:
  fixes db :: "('d, 'p, 'x) tracer_db_scheme"
  assumes "no_faults db" "rows_scan P (db_validations db)"
    "TVFilters_Validate X (TVFilters_SetDefaults X clock f) = None" "tv_query_error f = None"
    "tv_validateAndNormalizeSort X (TVFilters_SetDefaults X clock f) = Inr (sortBy, sortOrder)"
    "validTransactionValidationDBColumns sortBy" "sortOrder \<in> {''ASC'', ''DESC''}"
    "0 < tf_Limit (TVFilters_SetDefaults X clock f)"
  shows "tv_fetch X P clock f db (map_option (tv_cursor_of P sortBy sortOrder) c) =
    (let page = keyset_fetch (nat (tf_Limit (TVFilters_SetDefaults X clock f)))
                  (tv_before P sortBy sortOrder) (tv_applyFilters X (TVFilters_SetDefaults X clock f))
                  (db_validations db) c
     in (map (entity_of P) (fst page), map_option (tv_cursor_of P sortBy sortOrder) (snd page)))"
proof -
  let ?g = "TVFilters_SetDefaults X clock f"
  let ?n = "tf_Limit ?g"
  define ct where "ct = tv_text (map_option (tv_cursor_of P sortBy sortOrder) c)"
  define S where "S = keyset_rest (tv_before P sortBy sortOrder) (tv_applyFilters X ?g) (db_validations db) c"
  have nf: "next_fault db = None" "next_fault (consume_fault db) = None"
    using assms(1) no_faults_next no_faults_consume by blast+
  have rs: "rows_scan P (take k S)" for k
    using assms(2) by (auto simp: rows_scan_def S_def keyset_rest_def dest!: in_set_takeD)
  have lim: "tv_fetchLimit ?n = ?n + 1" using assms(8) by (simp add: tv_fetchLimit_def)
  note filt = tv_cursor_filter [OF assms(6,7), of X P c, folded ct_def]
  obtain r where r: "tv_page X ?n sortBy sortOrder (map (entity_of P) (take (nat (?n + 1)) S)) = Inr r"
    "tvr_TransactionValidations r = map (entity_of P) (if nat ?n < length (take (nat (?n + 1)) S)
       then take (nat ?n) (take (nat (?n + 1)) S) else take (nat (?n + 1)) S)"
    "(if tvr_HasMore r then Some (tvr_NextCursor r) else None)
      = (if nat ?n < length (take (nat (?n + 1)) S)
         then Some (tv_cursor_of P sortBy sortOrder (last (take (nat ?n) (take (nat (?n + 1)) S)))) else None)"
    using tv_page_scanned [OF assms(6,7,8) rs] by blast
  have "ValidationRepo_List X P clock (Some (f\<lparr>tf_Cursor := ct\<rparr>)) db
      = (consume_fault (consume_fault db), Inr r)"
    using nf assms(3,4,5) filt r(1) scan_validations_ok [OF rs]
    by (simp add: ValidationRepo_List_def TVFilters_cursor lim S_def keyset_rest_def)
  then have "tv_fetch X P clock f db (map_option (tv_cursor_of P sortBy sortOrder) c)
      = (tvr_TransactionValidations r, if tvr_HasMore r then Some (tvr_NextCursor r) else None)"
    by (simp add: tv_fetch_def ct_def)
  moreover have "nat (?n + 1) = nat ?n + 1" using assms(8) by simp
  ultimately show ?thesis
    using r(2,3) by (simp add: keyset_fetch_def S_def Let_def)
qed

lemma validation_pages:
  fixes db :: "('d, 'p, 'x) tracer_db_scheme"
  assumes "no_faults db" "rows_scan P (db_validations db)"
    "distinct (map (row_uuid P) (db_validations db))"
    "TVFilters_Validate X (TVFilters_SetDefaults X clock f) = None" "tv_query_error f = None"
  shows "\<exists>ms. drain (tv_fetch X P clock f db) (Suc (length (db_validations db))) None
      = Some (map (entity_of P) ms)
    \<and> distinct ms \<and> set ms = {m \<in> set (db_validations db). tv_applyFilters X (TVFilters_SetDefaults X clock f) m}"
proof -
  obtain sortBy sortOrder where s:
    "tv_validateAndNormalizeSort X (TVFilters_SetDefaults X clock f) = Inr (sortBy, sortOrder)"
    "validTransactionValidationDBColumns sortBy" "sortOrder \<in> {''ASC'', ''DESC''}"
    "0 < tf_Limit (TVFilters_SetDefaults X clock f)"
    using tv_valid_sort [OF assms(4)] by metis
  let ?n = "nat (tf_Limit (TVFilters_SetDefaults X clock f))"
  let ?lt = "tv_before P sortBy sortOrder"
  let ?P = "tv_applyFilters X (TVFilters_SetDefaults X clock f)"
  let ?rows = "db_validations db"
  have d: "distinct ?rows" using assms(3) by (simp add: distinct_map)
  note strict = tv_before_strict [OF assms(3), of sortBy sortOrder]
  have ok: "keyset_ok ?n ?lt ?rows None" using s(4) d strict by (simp add: keyset_ok_def)
  have page: "tv_fetch X P clock f db (map_option (tv_cursor_of P sortBy sortOrder) c)
        = (map (entity_of P) (fst (keyset_fetch ?n ?lt ?P ?rows c)),
           map_option (tv_cursor_of P sortBy sortOrder) (snd (keyset_fetch ?n ?lt ?P ?rows c)))" for c
    using tv_fetch_keyset [OF assms(1,2,4,5) s] by (simp add: Let_def)
  have onward: "keyset_ok ?n ?lt ?rows (Some c')"
    if "keyset_ok ?n ?lt ?rows c" "keyset_fetch ?n ?lt ?P ?rows c = (xs, Some c')" for c xs c'
    using keyset.next_page [OF that] by blast
  have "drain (tv_fetch X P clock f db) k (map_option (tv_cursor_of P sortBy sortOrder)
        (None :: 'd TransactionValidationPostgreSQLModel option))
      = map_option (map (entity_of P)) (drain (keyset_fetch ?n ?lt ?P ?rows) k None)" for k
    by (rule drain_map [where ok = "keyset_ok ?n ?lt ?rows" and fetch = "keyset_fetch ?n ?lt ?P ?rows"
          and f = "entity_of P" and h = "tv_cursor_of P sortBy sortOrder"
          and fetch' = "tv_fetch X P clock f db" and n = k and c = None])
      (rule page, erule (1) onward, rule ok)
  then have "drain (tv_fetch X P clock f db) k None
      = map_option (map (entity_of P)) (drain (keyset_fetch ?n ?lt ?P ?rows) k None)" for k
    by simp
  moreover have "0 < ?n" using s(4) by simp
  then obtain ls where "drain (keyset_fetch ?n ?lt ?P ?rows) (Suc (length ?rows)) None = Some ls"
    "distinct ls" "set ls = {r \<in> set ?rows. ?P r}"
    using keyset_complete [OF _ d strict, of ?n ?P] by blast
  ultimately show ?thesis by (intro exI [of _ ls]) (simp del: drain.simps)
qed

lemma validation_count:
  assumes "no_faults db" "TVFilters_Validate X (TVFilters_SetDefaults X clock f) = None"
    "tv_query_error f = None"
  shows "snd (ValidationRepo_Count X clock (Some f) db)
    = Inr (int (length (filter (tv_applyFilters X (TVFilters_SetDefaults X clock f)) (db_validations db))))"
  using assms no_faults_next [OF assms(1)] no_faults_next [OF no_faults_consume [OF assms(1)]]
  by (simp add: ValidationRepo_Count_def with_db_def TVFilters_cursor consume_fault_def Let_def)

text \<open>A page is never longer than the limit, which is at most 1000.\<close>

lemma tv_page_bounded:
  assumes "tv_page X n sortBy sortOrder vs = Inr r" "0 < n"
  shows "int (length (tvr_TransactionValidations r)) \<le> n"
  using assms by (auto simp: tv_page_def Let_def split: if_splits sum.splits)

lemma tv_fetch_bounded:
  "int (length (fst (tv_fetch X P clock f db c))) \<le> 1000"
proof (cases "ValidationRepo_List X P clock (Some (f\<lparr>tf_Cursor := tv_text c\<rparr>)) db")
  case (Pair db' res)
  show ?thesis
  proof (cases res)
    case (Inr r)
    let ?g = "TVFilters_SetDefaults X clock (f\<lparr>tf_Cursor := tv_text c\<rparr>)"
    have v: "TVFilters_Validate X ?g = None"
      using Pair Inr by (simp add: ValidationRepo_List_def Let_def split: option.splits)
    obtain a b vs where "tv_page X (tf_Limit ?g) a b vs = Inr r"
      using Pair Inr
      by (auto simp: ValidationRepo_List_def Let_def bind_result_Inr_iff
          split: option.splits sum.splits prod.splits)
    moreover obtain "0 < tf_Limit ?g" "tf_Limit ?g \<le> 1000" using tv_valid_sort [OF v] by metis
    ultimately have "int (length (tvr_TransactionValidations r)) \<le> tf_Limit ?g"
      by (intro tv_page_bounded)
    with \<open>tf_Limit ?g \<le> 1000\<close> Pair Inr show ?thesis by (simp add: tv_fetch_def)
  qed (use Pair in \<open>simp add: tv_fetch_def\<close>)
qed

end
