(* ===== verification/AuditListFacts.thy ===== *)
theory AuditListFacts
  imports AuditList ValidationList
begin

text \<open>
  The pages of audit events: following the cursors of \<^verbatim>\<open>List\<close> gives every matching event once.
\<close>

lemma AuditEventFilters_cursor:
  "AuditEventFilters_Validate X (f\<lparr>af_Cursor := c\<rparr>) = AuditEventFilters_Validate X f"
  "audit_applyFilters X (f\<lparr>af_Cursor := c\<rparr>) e = audit_applyFilters X f e"
  "audit_query_error (f\<lparr>af_Cursor := c\<rparr>) cond = audit_query_error f cond"
  "audit_condition (f\<lparr>af_Cursor := c\<rparr>) cond e = audit_condition f cond e"
  "audit_page (f\<lparr>af_Cursor := c\<rparr>) es = audit_page f es"
  by (simp_all add: AuditEventFilters_Validate_def audit_applyFilters_def audit_query_error_def
      audit_condition_def audit_page_def audit_generateNextCursor_def Let_def cong: option.case_cong)

lemma AuditEventFilters_SetDefaults_flat:
  "AuditEventFilters_SetDefaults X clock f = f
     \<lparr>af_Limit := (if af_Limit f = 0 then DefaultAuditEventFilterLimit else af_Limit f),
      af_EndDate := (if time_IsZero (af_StartDate f) \<and> time_IsZero (af_EndDate f)
        then Truncate clock (24 * Hour_ns) + 24 * Hour_ns else af_EndDate f),
      af_StartDate := (if time_IsZero (af_StartDate f) \<and> time_IsZero (af_EndDate f)
        then Truncate clock (24 * Hour_ns) - DefaultAuditEventDateRangeDays * 24 * Hour_ns
        else af_StartDate f),
      af_SortBy := (if af_SortBy f = [] then ''createdAt'' else af_SortBy f),
      af_SortOrder := (if af_SortOrder f = [] then ''DESC'' else ToUpper X (af_SortOrder f))\<rparr>"
  by (cases "af_Limit f = 0"; cases "time_IsZero (af_StartDate f)";
      cases "time_IsZero (af_EndDate f)"; cases "af_SortBy f = []"; cases "af_SortOrder f = []"; cases f;
      simp add: AuditEventFilters_SetDefaults_def Let_def)

lemma AuditEventFilters_SetDefaults_update:
  "AuditEventFilters_SetDefaults X clock (f\<lparr>af_Cursor := c\<rparr>)
    = (AuditEventFilters_SetDefaults X clock f)\<lparr>af_Cursor := c\<rparr>"
  "AuditEventFilters_SetDefaults X clock (f\<lparr>af_EventType := t\<rparr>)
    = (AuditEventFilters_SetDefaults X clock f)\<lparr>af_EventType := t\<rparr>"
  unfolding AuditEventFilters_SetDefaults_flat by simp_all

lemma AuditEventFilters_SetDefaults_fixed:
  assumes "af_SortBy g \<noteq> []" "af_Limit g \<noteq> 0"
    "\<not> (time_IsZero (af_StartDate g) \<and> time_IsZero (af_EndDate g))"
    "ToUpper X (af_SortOrder g) = af_SortOrder g" "af_SortOrder g \<noteq> []"
  shows "AuditEventFilters_SetDefaults X clock g = g"
  using assms by (cases g) (auto simp: AuditEventFilters_SetDefaults_def Let_def)

lemma AuditEventFilters_SetDefaults_order:
  "af_SortOrder (AuditEventFilters_SetDefaults X clock f)
    = (if af_SortOrder f = [] then ''DESC'' else ToUpper X (af_SortOrder f))"
  by (simp add: AuditEventFilters_SetDefaults_flat)

lemma audit_query_error_defaults:
  "audit_query_error (AuditEventFilters_SetDefaults X clock f) None = audit_query_error f None"
  by (simp add: audit_query_error_def AuditEventFilters_SetDefaults_flat asks_def)

text \<open>The defaults set twice are the defaults. Upper case is documented to be stable and keeps
  a text that is not empty.\<close>

definition upper_stable :: "ext \<Rightarrow> AuditEventFilters \<Rightarrow> bool" where
  "upper_stable X f =
     (ToUpper X (ToUpper X (af_SortOrder f)) = ToUpper X (af_SortOrder f)
      \<and> (ToUpper X (af_SortOrder f) = [] \<longrightarrow> af_SortOrder f = []))"

lemma audit_valid_filters:
  assumes "AuditEventFilters_Validate X (AuditEventFilters_SetDefaults X clock f) = None"
    "upper_stable X f"
  shows "af_SortOrder (AuditEventFilters_SetDefaults X clock f) \<in> {''ASC'', ''DESC''}"
    and "0 < af_Limit (AuditEventFilters_SetDefaults X clock f)"
    and "af_Limit (AuditEventFilters_SetDefaults X clock f) \<le> 1000"
    and "AuditEventFilters_SetDefaults X clock (AuditEventFilters_SetDefaults X clock f)
      = AuditEventFilters_SetDefaults X clock f"
proof -
  let ?g = "AuditEventFilters_SetDefaults X clock f"
  have d: "af_SortBy ?g \<noteq> []" "af_Limit ?g \<noteq> 0"
    "\<not> (time_IsZero (af_StartDate ?g) \<and> time_IsZero (af_EndDate ?g))"
    by (simp_all add: AuditEventFilters_SetDefaults_flat DefaultAuditEventFilterLimit_def
        time_IsZero_def DefaultAuditEventDateRangeDays_def Hour_ns_def Minute_ns_def)
  have v: "\<not> af_Limit ?g < 0" "af_Limit ?g \<le> 1000"
    "af_SortOrder ?g = [] \<or> ToUpper X (af_SortOrder ?g) \<in> {''ASC'', ''DESC''}"
    using assms(1) by (auto simp: AuditEventFilters_Validate_def MaxAuditEventFilterLimit_def split: if_splits)
  show "0 < af_Limit ?g" "af_Limit ?g \<le> 1000" using v d by auto
  have "ToUpper X [] = []" "ToUpper X ''DESC'' = ''DESC''"
    using ToUpper_order [of "''DESC''" X] by (simp_all add: ToUpper_def isASCII_def)
  then show o: "af_SortOrder ?g \<in> {''ASC'', ''DESC''}"
    using v(3) assms(2) unfolding AuditEventFilters_SetDefaults_order upper_stable_def
    by (auto split: if_splits)
  then show "AuditEventFilters_SetDefaults X clock ?g = ?g"
    by (intro AuditEventFilters_SetDefaults_fixed d ToUpper_order) auto
qed

subsection \<open>Pages\<close>

definition audit_text :: "audit_cursor_text option \<Rightarrow> audit_cursor_text" where
  "audit_text c = (case c of None \<Rightarrow> AuditNoCursor | Some t \<Rightarrow> t)"

definition audit_cursor_of :: "AuditEventFilters \<Rightarrow> 'd AuditEvent \<Rightarrow> audit_cursor_text" where
  "audit_cursor_of f e = AuditCursor \<lparr>auc_ID = Some (ae_ID e),
     auc_SortValue = audit_extractSortValue e (af_SortBy f), auc_SortBy = af_SortBy f,
     auc_SortOrder = af_SortOrder f\<rparr>"

definition audit_order :: "AuditEventFilters \<Rightarrow> 'd AuditEvent \<Rightarrow> 'd AuditEvent \<Rightarrow> bool" where
  "audit_order f = audit_before (audit_mapSortField (af_SortBy f)) (af_SortOrder f)"

definition audit_fetch ::
  "ext \<Rightarrow> gotime \<Rightarrow> AuditEventFilters \<Rightarrow> ('d, 'p, 'x) audit_db_scheme \<Rightarrow> audit_cursor_text option
   \<Rightarrow> 'd AuditEvent list \<times> audit_cursor_text option" where
  "audit_fetch X clock f db c =
     (case ListAuditEventsQuery_Execute X clock (Some (f\<lparr>af_Cursor := audit_text c\<rparr>)) db of
        (_, Inr r) \<Rightarrow> (aer_AuditEvents r, if aer_HasMore r then Some (aer_NextCursor r) else None)
      | (_, Inl e) \<Rightarrow> ([], None))"

lemma audit_order_strict:
  assumes "distinct (map ae_ID rows)"
  shows "strict_on (set rows) (audit_order f)"
proof -
  let ?k = "audit_column (audit_mapSortField (af_SortBy f))"
  have ids: "ae_ID x \<noteq> ae_ID y" if "x \<in> set rows" "y \<in> set rows" "x \<noteq> y" for x y
    using assms that by (auto simp: distinct_map inj_on_def)
  have order: "audit_order f = (if af_SortOrder f = ''DESC''
      then (\<lambda>x y. ?k y < ?k x \<or> ?k y = ?k x \<and> ae_ID y < ae_ID x)
      else (\<lambda>x y. ?k x < ?k y \<or> ?k y = ?k x \<and> ae_ID x < ae_ID y))"
    by (auto simp: audit_order_def audit_before_def audit_after_def fun_eq_iff)
  have "strict_on (set rows) (\<lambda>x y. ?k x < ?k y \<or> ?k y = ?k x \<and> ae_ID x < ae_ID y)"
    by (rule lex_strict) (rule ids)
  moreover have "strict_on (set rows) (\<lambda>x y. ?k y < ?k x \<or> ?k y = ?k x \<and> ae_ID y < ae_ID x)"
    by (rule lex_strict_down) (rule ids)
  ultimately show ?thesis unfolding order by (simp only: split: if_split) blast
qed

lemma audit_reads_extracted:
  "AuditEventType_IsValid (ae_EventType e) \<Longrightarrow>
   audit_reads (audit_mapSortField s) (audit_extractSortValue e s) = Some (audit_column (audit_mapSortField s) e)"
  by (simp add: audit_reads_def audit_extractSortValue_def audit_column_def)

text \<open>What the position of a row asks of the next page.\<close>

lemma audit_cursor_condition:
  assumes "\<And>x. c = Some x \<Longrightarrow> AuditEventType_IsValid (ae_EventType x)" "audit_query_error g None = None"
  shows "\<exists>cond. audit_applyCursorPagination (g\<lparr>af_Cursor := audit_text (map_option (audit_cursor_of g) c)\<rparr>)
      = Inr cond \<and> audit_query_error g cond = None
    \<and> audit_condition g cond = (\<lambda>e. case c of None \<Rightarrow> True | Some x \<Rightarrow> audit_order g x e)"
proof (cases c)
  case None
  then show ?thesis
    using assms(2) by (simp add: audit_applyCursorPagination_def audit_text_def audit_condition_def asks_def
        fun_eq_iff)
next
  case (Some x)
  note v = audit_reads_extracted [OF assms(1) [OF Some], of "af_SortBy g"]
  have "audit_query_error g (Some (audit_extractSortValue x (af_SortBy g), ae_ID x)) = None"
    using assms(2) v by (simp add: audit_query_error_def asks_def split: if_splits)
  then show ?thesis
    using v Some by (simp add: audit_applyCursorPagination_def audit_text_def audit_cursor_of_def
        audit_condition_def asks_def audit_order_def audit_before_def fun_eq_iff)
qed

lemma audit_page_keyset:
  fixes S :: "'d AuditEvent list"
  assumes "0 < af_Limit g"
  defines "r \<equiv> audit_page g (take (nat (audit_fetchLimit (af_Limit g))) S)"
  shows "aer_AuditEvents r = (if nat (af_Limit g) < length S then take (nat (af_Limit g)) S else S)"
    and "(if aer_HasMore r then Some (aer_NextCursor r) else None)
      = (if nat (af_Limit g) < length S
         then Some (audit_cursor_of g (last (take (nat (af_Limit g)) S))) else None)"
proof -
  have n: "nat (audit_fetchLimit (af_Limit g)) = Suc (nat (af_Limit g))"
    using assms(1) by (simp add: audit_fetchLimit_def)
  have ne: "S \<noteq> [] \<Longrightarrow> take (nat (af_Limit g)) S \<noteq> []" using assms(1) by simp
  have more: "int (length (take (Suc (nat (af_Limit g))) S)) > af_Limit g \<longleftrightarrow> nat (af_Limit g) < length S"
    using assms(1) by (simp add: min_def) linarith
  show "aer_AuditEvents r = (if nat (af_Limit g) < length S then take (nat (af_Limit g)) S else S)"
    using more by (simp add: r_def audit_page_def n Let_def)
  show "(if aer_HasMore r then Some (aer_NextCursor r) else None)
      = (if nat (af_Limit g) < length S
         then Some (audit_cursor_of g (last (take (nat (af_Limit g)) S))) else None)"
    using more ne by (auto simp: r_def audit_page_def audit_generateNextCursor_def audit_cursor_of_def n Let_def)
qed

lemma audit_fetch_keyset:
  fixes db :: "('d, 'p, 'x) audit_db_scheme"
  assumes "no_faults db" "AuditEventFilters_Validate X (AuditEventFilters_SetDefaults X clock f) = None"
    "upper_stable X f" "audit_query_error f None = None"
    "\<And>x. c = Some x \<Longrightarrow> AuditEventType_IsValid (ae_EventType x)"
  shows "audit_fetch X clock f db (map_option (audit_cursor_of (AuditEventFilters_SetDefaults X clock f)) c) =
    (let page = keyset_fetch (nat (af_Limit (AuditEventFilters_SetDefaults X clock f)))
                  (audit_order (AuditEventFilters_SetDefaults X clock f))
                  (audit_applyFilters X (AuditEventFilters_SetDefaults X clock f)) (db_audits db) c
     in (fst page, map_option (audit_cursor_of (AuditEventFilters_SetDefaults X clock f)) (snd page)))"
proof -
  let ?g = "AuditEventFilters_SetDefaults X clock f"
  define ct where "ct = audit_text (map_option (audit_cursor_of ?g) c)"
  define S where "S = keyset_rest (audit_order ?g) (audit_applyFilters X ?g) (db_audits db) c"
  note g = audit_valid_filters [OF assms(2,3)]
  have nf: "next_fault db = None" "next_fault (consume_fault db) = None"
    using assms(1) no_faults_next no_faults_consume by blast+
  have enum: "audit_query_error ?g None = None" using assms(4) by (simp add: audit_query_error_defaults)
  obtain cond where cond: "audit_applyCursorPagination (?g\<lparr>af_Cursor := ct\<rparr>) = Inr cond"
    "audit_query_error ?g cond = None"
    "audit_condition ?g cond = (\<lambda>e. case c of None \<Rightarrow> True | Some x \<Rightarrow> audit_order ?g x e)"
    using audit_cursor_condition [where c = c and g = ?g, OF assms(5) enum] by (auto simp: ct_def)
  have run: "ListAuditEventsQuery_Execute X clock (Some (f\<lparr>af_Cursor := ct\<rparr>)) db
      = (consume_fault (consume_fault db), Inr (audit_page ?g (take (nat (audit_fetchLimit (af_Limit ?g))) S)))"
    using nf assms(2) cond
    by (simp add: ListAuditEventsQuery_Execute_def AuditRepo_List_def AuditEventFilters_SetDefaults_update
        AuditEventFilters_cursor g(4) S_def keyset_rest_def flip: audit_order_def)
  have "audit_fetch X clock f db (map_option (audit_cursor_of ?g) c)
      = (if nat (af_Limit ?g) < length S then take (nat (af_Limit ?g)) S else S,
         if nat (af_Limit ?g) < length S
         then Some (audit_cursor_of ?g (last (take (nat (af_Limit ?g)) S))) else None)"
    unfolding audit_fetch_def ct_def [symmetric] run using audit_page_keyset [OF g(2), of S] by simp
  then show ?thesis by (simp add: keyset_fetch_rest S_def Let_def)
qed

lemma audit_pages:
  fixes db :: "('d, 'p, 'x) audit_db_scheme"
  assumes "no_faults db" "AuditEventFilters_Validate X (AuditEventFilters_SetDefaults X clock f) = None"
    "upper_stable X f" "audit_query_error f None = None" "distinct (map ae_ID (db_audits db))"
    "\<And>e. e \<in> set (db_audits db) \<Longrightarrow> AuditEventType_IsValid (ae_EventType e)"
  shows "\<exists>es. drain (audit_fetch X clock f db) (Suc (length (db_audits db))) None = Some es
    \<and> distinct es
    \<and> set es = {e \<in> set (db_audits db). audit_applyFilters X (AuditEventFilters_SetDefaults X clock f) e}"
proof -
  let ?g = "AuditEventFilters_SetDefaults X clock f"
  let ?n = "nat (af_Limit ?g)"
  let ?rows = "db_audits db"
  let ?P = "audit_applyFilters X ?g"
  have d: "distinct ?rows" using assms(5) by (simp add: distinct_map)
  note strict = audit_order_strict [OF assms(5), of ?g]
  have n: "0 < ?n" using audit_valid_filters(2) [OF assms(2,3)] by simp
  have ok: "keyset_ok ?n (audit_order ?g) ?rows None" using n d strict by (simp add: keyset_ok_def)
  have page: "audit_fetch X clock f db (map_option (audit_cursor_of ?g) c)
        = (map id (fst (keyset_fetch ?n (audit_order ?g) ?P ?rows c)),
           map_option (audit_cursor_of ?g) (snd (keyset_fetch ?n (audit_order ?g) ?P ?rows c)))"
    if "keyset_ok ?n (audit_order ?g) ?rows c" for c
    by (subst audit_fetch_keyset [OF assms(1-4)])
      (use that assms(6) in \<open>auto simp: keyset_ok_def Let_def\<close>)
  have onward: "keyset_ok ?n (audit_order ?g) ?rows (Some c')"
    if "keyset_ok ?n (audit_order ?g) ?rows c"
      "keyset_fetch ?n (audit_order ?g) ?P ?rows c = (xs, Some c')" for c xs c'
    using keyset.next_page [OF that] by blast
  have "drain (audit_fetch X clock f db) k
        (map_option (audit_cursor_of ?g) (None :: 'd AuditEvent option))
      = map_option (map id) (drain (keyset_fetch ?n (audit_order ?g) ?P ?rows) k None)" for k
    by (rule drain_map [where ok = "keyset_ok ?n (audit_order ?g) ?rows"
          and fetch = "keyset_fetch ?n (audit_order ?g) ?P ?rows"
          and f = id and h = "audit_cursor_of ?g" and fetch' = "audit_fetch X clock f db"
          and n = k and c = None])
      (erule page, erule (1) onward, rule ok)
  then have "drain (audit_fetch X clock f db) k None
      = drain (keyset_fetch ?n (audit_order ?g) ?P ?rows) k None" for k
    by (simp add: option.map_id)
  moreover obtain ls where "drain (keyset_fetch ?n (audit_order ?g) ?P ?rows) (Suc (length ?rows)) None = Some ls"
    "distinct ls" "set ls = {r \<in> set ?rows. ?P r}"
    using keyset_complete [OF n d strict, of ?P] by blast
  ultimately show ?thesis by (intro exI [of _ ls]) (simp del: drain.simps)
qed

end
