(* ===== verification/AuditTrail.thy ===== *)
theory AuditTrail
  imports AuditListFacts ValidationOutcome
begin

text \<open>
  The two records of a validation, its row and its audit event, under the same questions: the filters of
  \<^verbatim>\<open>transaction_validation_repository.go\<close> read the columns, the ones of
  \<^verbatim>\<open>audit_event_repository.go\<close> the JSON of the context.
\<close>

text \<open>An event of the table that \<^verbatim>\<open>RecordValidationEvent\<close> made for the record of the same
  validation; the table adds the number and the hashes.\<close>

definition recorded_pair ::
  "ext \<Rightarrow> audit_ext \<Rightarrow> ('d::linordered_ab_group_add) TransactionValidation \<Rightarrow> 'd AuditEvent \<Rightarrow> bool" where
  "recorded_pair X A tv e =
     (\<exists>heap req resp t1 newID t2 ip.
        buildTransactionValidation heap req resp t1 = Inr tv
        \<and> validation_event X A newID t2 (vr_ValidationID resp) (buildRequestSnapshot X req) (vr_Result resp)
            (response_context resp) ip = Inr (e\<lparr>ae_ID := 0, ae_Hash := [], ae_PreviousHash := None\<rparr>))"

definition trail_of ::
  "ext \<Rightarrow> audit_ext \<Rightarrow> (('d::linordered_ab_group_add) TransactionValidation \<times> 'd AuditEvent) set
   \<Rightarrow> ('d, 'p, 'x) tracer_db_scheme \<Rightarrow> bool" where
  "trail_of X A trail db =
     ((\<forall>(tv, e) \<in> trail. recorded_pair X A tv e)
      \<and> inserted_row X ` fst ` trail = set (db_validations db)
      \<and> snd ` trail = {e \<in> set (db_audits db). ae_EventType e = AuditEventTransactionValidated})"

text \<open>A question about validations, put to the audit events.\<close>

definition audit_question :: "TransactionValidationFilters \<Rightarrow> AuditEventFilters" where
  "audit_question f = no_audit_filters
     \<lparr>af_StartDate := tf_StartDate f, af_EndDate := tf_EndDate f,
      af_Result := map_option DecisionToAuditResult (tf_Decision f), af_AccountID := tf_AccountID f,
      af_SegmentID := tf_SegmentID f, af_PortfolioID := tf_PortfolioID f,
      af_TransactionType := tf_TransactionType f, af_MatchedRuleID := tf_MatchedRuleID f\<rparr>"

definition trail_fetch ::
  "ext \<Rightarrow> gotime \<Rightarrow> AuditEventFilters \<Rightarrow> ('d, 'p, 'x) audit_db_scheme \<Rightarrow> audit_cursor_text option
   \<Rightarrow> 'd AuditEvent list \<times> audit_cursor_text option" where
  "trail_fetch X clock f db c =
     (case ExecuteValidationsOnly X clock (Some (f\<lparr>af_Cursor := audit_text c\<rparr>)) db of
        (_, Inr r) \<Rightarrow> (aer_AuditEvents r, if aer_HasMore r then Some (aer_NextCursor r) else None)
      | (_, Inl e) \<Rightarrow> ([], None))"

lemma trail_fetch_audit:
  "trail_fetch X clock f db = audit_fetch X clock (f\<lparr>af_EventType := Some AuditEventTransactionValidated\<rparr>) db"
proof
  fix c
  have "f\<lparr>af_Cursor := audit_text c, af_EventType := t\<rparr> = f\<lparr>af_EventType := t, af_Cursor := audit_text c\<rparr>" for t
    by simp
  then show "trail_fetch X clock f db c
      = audit_fetch X clock (f\<lparr>af_EventType := Some AuditEventTransactionValidated\<rparr>) db c"
    by (simp only: trail_fetch_def audit_fetch_def ExecuteValidationsOnly_def
        ListAuditEventsQuery_Execute_def option.case)
qed

lemma build_parts:
  assumes "buildTransactionValidation heap req resp createdAt = Inr tv"
  shows "t_Account tv = v_Account req" "t_Segment tv = v_Segment req" "t_Portfolio tv = v_Portfolio req"
  using assms by (auto simp: buildTransactionValidation_def filled_validation_def Let_def
      split: sum.splits option.splits)

lemma validation_event_fields:
  assumes "validation_event X A newID t i request ev resp ip = Inr e"
  shows "ae_CreatedAt e = t" "ae_EventType e = AuditEventTransactionValidated" "ae_ID e = 0" "ae_Hash e = []"
    "ae_PreviousHash e = None"
  using assms by (auto simp: validation_event_def NewAuditEvent_def WithValidationContext_def Let_def
      split: sum.splits if_splits)

text \<open>The context that a validation leaves, as the filters read it.\<close>

lemma recorded_event:
  assumes "recorded_pair X A tv e"
  shows "ae_EventType e = AuditEventTransactionValidated"
    and "ae_Result e = DecisionToAuditResult (e_Decision (t_Result tv))"
    and "Decision_IsValid (e_Decision (t_Result tv))" "TransactionType_IsValid (t_TransactionType tv)"
    and "context_text X [''request'', ''account'', ''id''] e = Some (x_uuid_string X (ac_ID (t_Account tv)))"
    and "context_text X [''request'', ''account'', ''segmentId''] e
      = map_option (\<lambda>s. x_uuid_string X (sc_ID s)) (t_Segment tv)"
    and "context_text X [''request'', ''account'', ''portfolioId''] e
      = map_option (\<lambda>p. x_uuid_string X (pc_ID p)) (t_Portfolio tv)"
    and "context_text X [''request'', ''transactionType''] e
      = Some (TransactionType_String (t_TransactionType tv))"
    and "json_path [''response'', ''matchedRuleIds''] (AnyMap (ae_Context e))
      = Some (AnyUUIDs (e_MatchedRuleIDs (t_Result tv)))"
proof -
  obtain heap req resp t1 newID t2 ip where
    b: "buildTransactionValidation heap req resp t1 = Inr tv"
    and v: "validation_event X A newID t2 (vr_ValidationID resp) (buildRequestSnapshot X req)
      (vr_Result resp) (response_context resp) ip = Inr (e\<lparr>ae_ID := 0, ae_Hash := [], ae_PreviousHash := None\<rparr>)"
    using assms unfolding recorded_pair_def by blast
  note f = build_fields [OF b]
  note parts = build_parts [OF b]
  obtain e0 where e0: "NewAuditEvent newID t2 AuditEventTransactionValidated AuditActionValidate
      (DecisionToAuditResult (e_Decision (vr_Result resp))) (x_uuid_string X (vr_ValidationID resp))
      ResourceTypeTransaction (tracer_actor A ''Tracer Validation Engine'' ip) = Inr e0"
    and e: "e\<lparr>ae_ID := 0, ae_Hash := [], ae_PreviousHash := None\<rparr>
      = WithValidationContext e0 (buildRequestSnapshot X req) (vr_Result resp) (response_context resp)"
    using v by (auto simp: validation_event_def split: sum.splits)
  have e0f: "ae_EventType e0 = AuditEventTransactionValidated"
    "ae_Result e0 = DecisionToAuditResult (e_Decision (vr_Result resp))"
    using e0 by (auto simp: NewAuditEvent_def Let_def split: if_splits)
  have ef: "ae_EventType e = ae_EventType e0" "ae_Result e = ae_Result e0"
    "ae_Context e = ae_Context (WithValidationContext e0 (buildRequestSnapshot X req) (vr_Result resp)
      (response_context resp))"
    using arg_cong [OF e, of ae_EventType] arg_cong [OF e, of ae_Result] arg_cong [OF e, of ae_Context]
    by (simp_all add: WithValidationContext_def)
  show "ae_EventType e = AuditEventTransactionValidated"
    "ae_Result e = DecisionToAuditResult (e_Decision (t_Result tv))"
    "Decision_IsValid (e_Decision (t_Result tv))" "TransactionType_IsValid (t_TransactionType tv)"
    using e0f ef f by simp_all
  show "context_text X [''request'', ''account'', ''id''] e = Some (x_uuid_string X (ac_ID (t_Account tv)))"
    "context_text X [''request'', ''account'', ''segmentId''] e
      = map_option (\<lambda>s. x_uuid_string X (sc_ID s)) (t_Segment tv)"
    "context_text X [''request'', ''account'', ''portfolioId''] e
      = map_option (\<lambda>p. x_uuid_string X (pc_ID p)) (t_Portfolio tv)"
    "context_text X [''request'', ''transactionType''] e
      = Some (TransactionType_String (t_TransactionType tv))"
    "json_path [''response'', ''matchedRuleIds''] (AnyMap (ae_Context e))
      = Some (AnyUUIDs (e_MatchedRuleIDs (t_Result tv)))"
    using f parts ef(3)
    by (simp_all add: context_text_def json_text_def WithValidationContext_def buildRequestSnapshot_def
        split: option.split)
qed

text \<open>The columns of a stored record, as the filters read them.\<close>

lemma inserted_columns:
  "m_Decision (inserted_row X tv) = Decision_String (e_Decision (t_Result tv))"
  "m_TransactionType (inserted_row X tv) = TransactionType_String (t_TransactionType tv)"
  "ac_ID (m_Account (inserted_row X tv)) = ac_ID (t_Account tv)"
  "map_option sc_ID (m_Segment (inserted_row X tv)) = map_option sc_ID (t_Segment tv)"
  "map_option pc_ID (m_Portfolio (inserted_row X tv)) = map_option pc_ID (t_Portfolio tv)"
  "m_CreatedAt (inserted_row X tv) = timestamptz (t_CreatedAt tv)"
  by (simp_all add: inserted_row_def FromEntity_def json_account_def json_segment_def json_portfolio_def
      option.map_comp comp_def)

lemma matched_rule_inserted:
  assumes "uuid_codec X P"
  shows "matched_rule X i (m_MatchedRuleIds (inserted_row X tv))
    \<longleftrightarrow> x_uuid_string X i \<in> x_uuid_string X ` set (e_MatchedRuleIDs (t_Result tv))"
  by (simp add: matched_rule_def inserted_row_def array_column [OF assms])

lemma Decision_result_inj:
  assumes "Decision_IsValid d" "Decision_IsValid d'"
  shows "DecisionToAuditResult d = DecisionToAuditResult d' \<longleftrightarrow> Decision_String d = Decision_String d'"
  using assms by (cases d; cases d') simp_all

lemma audit_question_defaults:
  "AuditEventFilters_SetDefaults X clock (audit_question f) = (audit_question f)
     \<lparr>af_StartDate := tf_StartDate (TVFilters_SetDefaults X clock f),
      af_EndDate := tf_EndDate (TVFilters_SetDefaults X clock f), af_Limit := 100,
      af_SortBy := ''createdAt'', af_SortOrder := ''DESC''\<rparr>"
  by (auto simp: AuditEventFilters_SetDefaults_flat audit_question_def no_audit_filters_def
      TVFilters_SetDefaults_def Let_def DefaultAuditEventFilterLimit_def
      DefaultTransactionValidationDateRangeDays_def DefaultAuditEventDateRangeDays_def)

text \<open>A record whose two times lie in the window is found by a question among the validations exactly if
  its event is found by it among the events.\<close>

definition in_window :: "ext \<Rightarrow> gotime \<Rightarrow> TransactionValidationFilters \<Rightarrow> gotime \<Rightarrow> bool" where
  "in_window X clock f t =
     ((time_IsZero (tf_StartDate (TVFilters_SetDefaults X clock f))
        \<or> tf_StartDate (TVFilters_SetDefaults X clock f) \<le> t)
      \<and> (time_IsZero (tf_EndDate (TVFilters_SetDefaults X clock f))
        \<or> t \<le> tf_EndDate (TVFilters_SetDefaults X clock f)))"

lemma tv_applyFilters_asks:
  "tv_applyFilters X f m =
     (((time_IsZero (tf_StartDate f) \<or> m_CreatedAt m \<ge> tf_StartDate f)
       \<and> (time_IsZero (tf_EndDate f) \<or> m_CreatedAt m \<le> tf_EndDate f))
      \<and> asks (tf_Decision f) (\<lambda>d. m_Decision m = Decision_String d)
      \<and> asks (tf_AccountID f) (\<lambda>i. ac_ID (m_Account m) = i)
      \<and> asks (tf_SegmentID f) (\<lambda>i. case m_Segment m of None \<Rightarrow> False | Some s \<Rightarrow> sc_ID s = i)
      \<and> asks (tf_PortfolioID f) (\<lambda>i. case m_Portfolio m of None \<Rightarrow> False | Some p \<Rightarrow> pc_ID p = i)
      \<and> asks (tf_TransactionType f) (\<lambda>t. m_TransactionType m = TransactionType_String t)
      \<and> asks (tf_MatchedRuleID f) (\<lambda>i. matched_rule X i (m_MatchedRuleIds m))
      \<and> asks (tf_ExceededLimitID f) (\<lambda>i. exceeded_limit i (m_LimitUsageDetails m)))"
  unfolding tv_applyFilters_def asks_def by blast

lemma trail_answers:
  assumes "uuid_codec X P" "recorded_pair X A tv e" "tv_query_error f = None" "tf_ExceededLimitID f = None"
    "in_window X clock f (timestamptz (t_CreatedAt tv))" "in_window X clock f (ae_CreatedAt e)"
  shows "audit_applyFilters X ((AuditEventFilters_SetDefaults X clock (audit_question f))
      \<lparr>af_EventType := Some AuditEventTransactionValidated\<rparr>) e
    \<longleftrightarrow> tv_applyFilters X (TVFilters_SetDefaults X clock f) (inserted_row X tv)"
proof -
  note ev = recorded_event [OF assms(2)]
  let ?g = "TVFilters_SetDefaults X clock f"
  let ?m = "inserted_row X tv"
  note inj = uuid_codec_inj [OF assms(1)]
  have g: "tf_Decision ?g = tf_Decision f" "tf_AccountID ?g = tf_AccountID f" "tf_SegmentID ?g = tf_SegmentID f"
    "tf_PortfolioID ?g = tf_PortfolioID f" "tf_TransactionType ?g = tf_TransactionType f"
    "tf_MatchedRuleID ?g = tf_MatchedRuleID f" "tf_ExceededLimitID ?g = None"
    by (simp_all add: TVFilters_SetDefaults_def assms(4) Let_def)
  have dec: "asks (map_option DecisionToAuditResult (tf_Decision f)) (\<lambda>r. ae_Result e = r)
      \<longleftrightarrow> asks (tf_Decision f) (\<lambda>d. m_Decision ?m = Decision_String d)"
    using assms(3) ev(2,3)
    by (auto simp: asks_def inserted_columns tv_query_error_def Decision_result_inj split: option.splits if_splits)
  have seg: "context_text X [''request'', ''account'', ''segmentId''] e = Some (x_uuid_string X i)
      \<longleftrightarrow> (case m_Segment ?m of None \<Rightarrow> False | Some s \<Rightarrow> sc_ID s = i)" for i
    using inserted_columns(4) [of X tv]
    by (cases "t_Segment tv"; cases "m_Segment ?m") (simp_all add: ev(6) inj)
  have port: "context_text X [''request'', ''account'', ''portfolioId''] e = Some (x_uuid_string X i)
      \<longleftrightarrow> (case m_Portfolio ?m of None \<Rightarrow> False | Some p \<Rightarrow> pc_ID p = i)" for i
    using inserted_columns(5) [of X tv]
    by (cases "t_Portfolio tv"; cases "m_Portfolio ?m") (simp_all add: ev(7) inj)
  have acc: "context_text X [''request'', ''account'', ''id''] e = Some (x_uuid_string X i)
      \<longleftrightarrow> ac_ID (m_Account ?m) = i" for i
    by (simp add: ev(5) inj inserted_columns)
  have ty: "context_text X [''request'', ''transactionType''] e = Some (TransactionType_String t)
      \<longleftrightarrow> m_TransactionType ?m = TransactionType_String t" for t
    by (simp add: ev(8) inserted_columns)
  have ma: "(case json_path [''response'', ''matchedRuleIds''] (AnyMap (ae_Context e)) of
        None \<Rightarrow> False | Some a \<Rightarrow> json_has X (x_uuid_string X i) a)
      \<longleftrightarrow> matched_rule X i (m_MatchedRuleIds ?m)" for i
    unfolding ev(9) by (simp add: json_has_def matched_rule_inserted [OF assms(1)])
  have win: "(time_IsZero (tf_StartDate ?g) \<or> t \<ge> tf_StartDate ?g) \<and> (time_IsZero (tf_EndDate ?g) \<or> t \<le> tf_EndDate ?g)"
    if "in_window X clock f t" for t
    using that by (simp add: in_window_def)
  have none: "asks None Q" "asks (Some a) Q = Q a" for a :: 'b and Q by (simp_all add: asks_def)
  let ?q = "(AuditEventFilters_SetDefaults X clock (audit_question f))
      \<lparr>af_EventType := Some AuditEventTransactionValidated\<rparr>"
  have q: "af_StartDate ?q = tf_StartDate ?g" "af_EndDate ?q = tf_EndDate ?g"
    "af_EventType ?q = Some AuditEventTransactionValidated" "af_Action ?q = None"
    "af_Result ?q = map_option DecisionToAuditResult (tf_Decision f)" "af_ResourceType ?q = None"
    "af_ResourceID ?q = None" "af_ActorType ?q = None" "af_ActorID ?q = None"
    "af_AccountID ?q = tf_AccountID f" "af_SegmentID ?q = tf_SegmentID f"
    "af_PortfolioID ?q = tf_PortfolioID f" "af_TransactionType ?q = tf_TransactionType f"
    "af_MatchedRuleID ?q = tf_MatchedRuleID f"
    unfolding audit_question_defaults by (simp_all add: audit_question_def no_audit_filters_def)
  show ?thesis
    unfolding audit_applyFilters_def tv_applyFilters_asks
    using win [OF assms(5)] win [OF assms(6)]
    by (simp only: q g none ev(1) dec seg port acc ty ma inserted_columns(6) simp_thms)
qed

end
