(* ===== verification/ListProperties.thy ===== *)
theory ListProperties
  imports ValidationProperties AuditTrail
begin

text \<open>
  The properties of the lists of validations and of audit events, each with a concrete instance where its
  hypotheses hold.
\<close>

lemma distinct_matching:
  assumes "distinct xs" "distinct ys" "set ys = {x \<in> set xs. Q x}"
  shows "length ys = length (filter Q xs)"
proof -
  have "set ys = set (filter Q xs)" using assms(3) by auto
  then show ?thesis using assms(1,2) distinct_card [of ys] distinct_card [of "filter Q xs"] by simp
qed

text \<open>C32. Listing the validations is complete. Without driver failures, for filters that are accepted,
  no page holds more than 1000 records, and the pages read from the first cursor to the last hold every
  stored record that matches the filters exactly once, for either sort column and direction; the count is
  their number.\<close>

theorem validation_pages_complete:
  fixes db :: "('d, 'p, 'x) tracer_db_scheme"
  assumes "no_faults db" "rows_scan P (db_validations db)"
    "distinct (map (row_uuid P) (db_validations db))"
    "TVFilters_Validate X (TVFilters_SetDefaults X clock f) = None" "tv_query_error f = None"
  shows "(\<forall>c. int (length (fst (tv_fetch X P clock f db c))) \<le> 1000)
    \<and> (\<exists>ms. drain (tv_fetch X P clock f db) (Suc (length (db_validations db))) None
          = Some (map (entity_of P) ms)
        \<and> distinct ms
        \<and> set ms = {m \<in> set (db_validations db). tv_applyFilters X (TVFilters_SetDefaults X clock f) m}
        \<and> snd (ValidationRepo_Count X clock (Some f) db) = Inr (int (length ms)))"
proof -
  have "distinct (db_validations db)" using assms(3) by (simp add: distinct_map)
  then have "length ms = length (filter (tv_applyFilters X (TVFilters_SetDefaults X clock f)) (db_validations db))"
    if "distinct ms"
      "set ms = {m \<in> set (db_validations db). tv_applyFilters X (TVFilters_SetDefaults X clock f) m}" for ms
    using that by (rule distinct_matching)
  then show ?thesis
    using validation_pages [OF assms] validation_count [OF assms(1,4,5)] tv_fetch_bounded by metis
qed

definition stored_pair :: "int TransactionValidationPostgreSQLModel list" where
  "stored_pair = [inserted_row ext0 validation0, inserted_row ext0 (validation0\<lparr>t_ID := 6, t_CreatedAt := 500000\<rparr>)]"

definition one_a_page :: TransactionValidationFilters where
  "one_a_page = no_tv_filters\<lparr>tf_StartDate := 1, tf_EndDate := 1000000, tf_Limit := 1\<rparr>"

lemma row_uuid_inserted: "row_uuid parse0 (inserted_row ext0 tv) = t_ID tv"
  using codec0 by (simp add: row_uuid_def uuid_codec_def)

lemma one_a_page_valid:
  "TVFilters_SetDefaults ext0 20 one_a_page = one_a_page\<lparr>tf_SortBy := ''createdAt'', tf_SortOrder := ''DESC''\<rparr>"
  "TVFilters_Validate ext0 (TVFilters_SetDefaults ext0 20 one_a_page) = None" "tv_query_error one_a_page = None"
proof -
  show d: "TVFilters_SetDefaults ext0 20 one_a_page
      = one_a_page\<lparr>tf_SortBy := ''createdAt'', tf_SortOrder := ''DESC''\<rparr>"
    by (simp add: TVFilters_SetDefaults_def one_a_page_def no_tv_filters_def time_IsZero_def Let_def)
  show "TVFilters_Validate ext0 (TVFilters_SetDefaults ext0 20 one_a_page) = None"
    unfolding d using ToUpper_order [of "''DESC''" ext0]
    by (simp add: TVFilters_Validate_def one_a_page_def no_tv_filters_def time_IsZero_def
        MaxTransactionValidationFilterLimit_def IsValidTransactionValidationSortField_def)
  show "tv_query_error one_a_page = None"
    by (simp add: tv_query_error_def one_a_page_def no_tv_filters_def)
qed

theorem validation_pages_complete_witness:
  "\<exists>ms. drain (tv_fetch ext0 parse0 20 one_a_page ((tracer0 [])\<lparr>db_validations := stored_pair\<rparr>)) 3 None
      = Some (map (entity_of parse0) ms) \<and> set ms = set stored_pair \<and> length ms = 2"
proof -
  let ?db = "(tracer0 [])\<lparr>db_validations := stored_pair\<rparr>"
  have nf: "no_faults ?db" by (simp add: no_faults_def tracer0_def)
  have scan: "rows_scan parse0 (db_validations ?db)"
    using scan_inserted_row [OF codec0, of validation0]
      scan_inserted_row [OF codec0, of "validation0\<lparr>t_ID := 6, t_CreatedAt := 500000\<rparr>"]
    by (auto simp: rows_scan_def stored_pair_def validation0_def bare_result_def)
  have d: "distinct (map (row_uuid parse0) (db_validations ?db))"
    by (simp add: stored_pair_def row_uuid_inserted validation0_def)
  have len: "Suc (length (db_validations ?db)) = 3" by (simp add: stored_pair_def)
  have all: "{m \<in> set (db_validations ?db). tv_applyFilters ext0 (TVFilters_SetDefaults ext0 20 one_a_page) m}
      = set stored_pair"
    unfolding one_a_page_valid(1)
    by (auto simp: one_a_page_def no_tv_filters_def tv_applyFilters_def stored_pair_def
        inserted_columns(6) validation0_def timestamptz_def)
  obtain ms where ms: "drain (tv_fetch ext0 parse0 20 one_a_page ?db) 3 None = Some (map (entity_of parse0) ms)"
    "distinct ms" "set ms = set stored_pair"
    using validation_pages_complete [OF nf scan d one_a_page_valid(2,3)] unfolding len all by blast
  have "length ms = 2"
    using ms(2,3) distinct_card [of ms] distinct_card [of stored_pair] d
    by (simp add: distinct_map) (simp add: stored_pair_def)
  with ms show ?thesis by blast
qed

subsection \<open>The audit trail\<close>

lemma audit_question_accepted:
  assumes "TVFilters_Validate X (TVFilters_SetDefaults X clock f) = None" "tv_query_error f = None"
  defines "q \<equiv> (audit_question f)\<lparr>af_EventType := Some AuditEventTransactionValidated\<rparr>"
  shows "AuditEventFilters_Validate X (AuditEventFilters_SetDefaults X clock q) = None"
    and "upper_stable X q" and "audit_query_error q None = None"
proof -
  have w: "\<not> (\<not> time_IsZero (tf_StartDate (TVFilters_SetDefaults X clock f))
      \<and> \<not> time_IsZero (tf_EndDate (TVFilters_SetDefaults X clock f))
      \<and> tf_EndDate (TVFilters_SetDefaults X clock f) < tf_StartDate (TVFilters_SetDefaults X clock f))"
    using assms(1) by (auto simp: TVFilters_Validate_def split: if_splits)
  show "AuditEventFilters_Validate X (AuditEventFilters_SetDefaults X clock q) = None"
    unfolding q_def AuditEventFilters_SetDefaults_update audit_question_defaults
    using w ToUpper_order [of "''DESC''" X]
    by (simp add: AuditEventFilters_Validate_def MaxAuditEventFilterLimit_def IsValidAuditEventSortField_def)
  show "upper_stable X q"
    by (simp add: upper_stable_def q_def audit_question_def no_audit_filters_def ToUpper_def isASCII_def)
  have "AuditResult_IsValid (DecisionToAuditResult d)" for d by (cases d) simp_all
  then show "audit_query_error q None = None"
    by (simp add: audit_query_error_def asks_def q_def audit_question_def no_audit_filters_def
        split: option.split)
qed

text \<open>C33. The audit trail gives the same answers as the table of validations. Where every validation has
  its record and its audit event, both inside the dates asked for, the pages of audit events for a question
  (account, segment, portfolio, transaction type, decision, matched rule) hold exactly the events of the
  validations that the pages of records hold for the same question, each once. The events answer from the
  JSON of their context and the records from their columns.\<close>

theorem audit_trail_answers_filters:
  fixes db :: "('d::linordered_ab_group_add, 'p, 'x) tracer_db_scheme"
  assumes "uuid_codec X P" "no_faults db" "trail_of X A trail db"
    and accepted: "TVFilters_Validate X (TVFilters_SetDefaults X clock f) = None" "tv_query_error f = None"
      "tf_ExceededLimitID f = None"
    and keys: "distinct (map (row_uuid P) (db_validations db))" "distinct (map ae_ID (db_audits db))"
      "\<forall>e \<in> set (db_audits db). AuditEventType_IsValid (ae_EventType e)"
    and dates: "\<forall>(tv, e) \<in> trail. in_window X clock f (timestamptz (t_CreatedAt tv)) \<and> in_window X clock f (ae_CreatedAt e)"
  shows "\<exists>ms es. drain (tv_fetch X P clock f db) (Suc (length (db_validations db))) None
        = Some (map (entity_of P) ms)
    \<and> drain (trail_fetch X clock (audit_question f) db) (Suc (length (db_audits db))) None = Some es
    \<and> distinct ms \<and> distinct es
    \<and> set ms = {m \<in> set (db_validations db). tv_applyFilters X (TVFilters_SetDefaults X clock f) m}
    \<and> set es = {e. \<exists>tv. (tv, e) \<in> trail \<and> inserted_row X tv \<in> set ms}"
proof -
  let ?q = "(audit_question f)\<lparr>af_EventType := Some AuditEventTransactionValidated\<rparr>"
  let ?g = "TVFilters_SetDefaults X clock f" and ?h = "AuditEventFilters_SetDefaults X clock ?q"
  note trail = assms(3) [unfolded trail_of_def]
  have pair: "recorded_pair X A tv e" if "(tv, e) \<in> trail" for tv e using trail that by blast
  have "rows_scan P (db_validations db)"
    unfolding rows_scan_def
  proof
    fix m assume "m \<in> set (db_validations db)"
    then have "m \<in> inserted_row X ` fst ` trail" using trail by simp
    then obtain tv e where "m = inserted_row X tv" "(tv, e) \<in> trail" by auto
    then show "\<exists>v. scanValidation P m = Inr v"
      using scan_inserted_row [OF assms(1) recorded_event(4) recorded_event(3)] pair by blast
  qed
  then obtain ms where ms: "drain (tv_fetch X P clock f db) (Suc (length (db_validations db))) None
      = Some (map (entity_of P) ms)" "distinct ms"
    "set ms = {m \<in> set (db_validations db). tv_applyFilters X ?g m}"
    using validation_pages [OF assms(2) _ keys(1) accepted(1,2)] by blast
  obtain es where es: "drain (audit_fetch X clock ?q db) (Suc (length (db_audits db))) None = Some es"
    "distinct es" "set es = {e \<in> set (db_audits db). audit_applyFilters X ?h e}"
    using audit_pages [OF assms(2) audit_question_accepted [OF accepted(1,2)] keys(2)] keys(3) by blast
  have same: "audit_applyFilters X ?h e \<longleftrightarrow> tv_applyFilters X ?g (inserted_row X tv)"
    if "(tv, e) \<in> trail" for tv e
    unfolding AuditEventFilters_SetDefaults_update
    using trail_answers [OF assms(1) pair [OF that] accepted(2,3)] dates that by blast
  have rows: "inserted_row X tv \<in> set (db_validations db)" and events: "e \<in> set (db_audits db)"
    if "(tv, e) \<in> trail" for tv e
  proof -
    have "inserted_row X tv \<in> inserted_row X ` fst ` trail" "e \<in> snd ` trail"
      using that by (auto intro: rev_image_eqI)
    then show "inserted_row X tv \<in> set (db_validations db)" "e \<in> set (db_audits db)"
      using trail by auto
  qed
  have validated: "ae_EventType e = AuditEventTransactionValidated" if "audit_applyFilters X ?h e" for e
    using that by (simp add: audit_applyFilters_def AuditEventFilters_SetDefaults_update asks_def)
  have "set es = {e. \<exists>tv. (tv, e) \<in> trail \<and> inserted_row X tv \<in> set ms}"
  proof (intro set_eqI iffI)
    fix e assume e: "e \<in> set es"
    then have m: "e \<in> set (db_audits db)" "audit_applyFilters X ?h e" by (simp_all add: es(3))
    then have "e \<in> snd ` trail"
      unfolding trail [THEN conjunct2, THEN conjunct2] using validated [OF m(2)] by blast
    then obtain tv where t: "(tv, e) \<in> trail" by auto
    have "inserted_row X tv \<in> set (db_validations db)" by (rule rows [OF t])
    moreover have "tv_applyFilters X ?g (inserted_row X tv)" using same [OF t] m(2) by simp
    ultimately have "inserted_row X tv \<in> set ms" by (simp add: ms(3))
    with t show "e \<in> {e. \<exists>tv. (tv, e) \<in> trail \<and> inserted_row X tv \<in> set ms}" by blast
  next
    fix e assume "e \<in> {e. \<exists>tv. (tv, e) \<in> trail \<and> inserted_row X tv \<in> set ms}"
    then obtain tv where t: "(tv, e) \<in> trail" "inserted_row X tv \<in> set ms" by blast
    have "e \<in> set (db_audits db)" by (rule events [OF t(1)])
    moreover have "audit_applyFilters X ?h e" using same [OF t(1)] t(2) ms(3) by simp
    ultimately show "e \<in> set es" by (simp add: es(3))
  qed
  with ms es(1,2) show ?thesis unfolding trail_fetch_audit by blast
qed

lemma set_singleton_distinct: "distinct xs \<Longrightarrow> set xs = {x} \<Longrightarrow> xs = [x]"
  by (cases xs; cases "tl xs") auto

definition response0 :: "int ValidationResponse" where
  "response0 = NewValidationResponse 5 1 DecisionAllow 11"

definition record0 :: "int TransactionValidation" where
  "record0 = projr (buildTransactionValidation length vrequest0 response0 2500)"

definition trail_event0 :: "int AuditEvent" where
  "trail_event0 = projr (validation_event ext0 audit0 1005 13 5 (buildRequestSnapshot ext0 vrequest0)
     (vr_Result response0) (response_context response0) [])"

definition by_account :: "uuid \<Rightarrow> TransactionValidationFilters" where
  "by_account i = no_tv_filters\<lparr>tf_StartDate := 1, tf_EndDate := 1000000, tf_AccountID := Some i\<rparr>"

definition trail_db :: "(int, string) tracer_db" where
  "trail_db = (tracer0 [])\<lparr>db_validations := [inserted_row ext0 record0],
     db_audits := [trail_event0\<lparr>ae_ID := 1, ae_Hash := ''h''\<rparr>]\<rparr>"

lemma record0_built: "buildTransactionValidation length vrequest0 response0 2500 = Inr record0"
proof -
  have "\<exists>tv. buildTransactionValidation length vrequest0 response0 2500 = Inr tv"
    by (simp add: buildTransactionValidation_def response0_def NewValidationResponse_def
        NewTransactionValidation_def bare_result_def time_IsZero_def validateTransactionValidation_def
        filled_validation_def vrequest0_def sanitized_metadata_def Let_def)
  then show ?thesis by (auto simp: record0_def)
qed

lemma trail_event0_built:
  "validation_event ext0 audit0 1005 13 5 (buildRequestSnapshot ext0 vrequest0) (vr_Result response0)
     (response_context response0) [] = Inr trail_event0"
proof -
  have "TrimSpace (x_uuid_string ext0 5) = x_uuid_string ext0 5" "x_uuid_string ext0 5 \<noteq> []"
    using codec0 by (simp_all add: uuid_codec_def)
  moreover have "TrimSpace ''svc_tracer'' = ''svc_tracer''" by (simp add: TrimSpace_text)
  ultimately have "\<exists>e. validation_event ext0 audit0 1005 13 5 (buildRequestSnapshot ext0 vrequest0)
      (vr_Result response0) (response_context response0) [] = Inr e"
    by (simp add: validation_event_def NewAuditEvent_def tracer_actor_def response0_def
        NewValidationResponse_def bare_result_def)
  then show ?thesis by (auto simp: trail_event0_def)
qed

lemma record0_fields: "ac_ID (t_Account record0) = 7" "t_CreatedAt record0 = 2500"
proof -
  show "ac_ID (t_Account record0) = 7" using build_parts(1) [OF record0_built] by (simp add: vrequest0_def)
  show "t_CreatedAt record0 = 2500" using build_fields(7) [OF record0_built] by simp
qed

lemma trail_event0_fields: "ae_CreatedAt trail_event0 = 13" "ae_EventType trail_event0 = AuditEventTransactionValidated"
  "ae_ID trail_event0 = 0" "ae_Hash trail_event0 = []" "ae_PreviousHash trail_event0 = None"
  using validation_event_fields [OF trail_event0_built] by simp_all

lemma trail_db_pair: "recorded_pair ext0 audit0 record0 (trail_event0\<lparr>ae_ID := 1, ae_Hash := ''h''\<rparr>)"
proof -
  have "trail_event0\<lparr>ae_ID := 1, ae_Hash := ''h''\<rparr>\<lparr>ae_ID := 0, ae_Hash := [], ae_PreviousHash := None\<rparr>
      = trail_event0"
    using trail_event0_fields(3-5) by (cases trail_event0) simp
  moreover have "vr_ValidationID response0 = 5" by (simp add: response0_def NewValidationResponse_def)
  ultimately show ?thesis
    unfolding recorded_pair_def using record0_built trail_event0_built by metis
qed

lemma by_account_defaults:
  "TVFilters_SetDefaults ext0 20 (by_account i)
    = (by_account i)\<lparr>tf_Limit := 100, tf_SortBy := ''createdAt'', tf_SortOrder := ''DESC''\<rparr>"
  by (simp add: TVFilters_SetDefaults_def by_account_def no_tv_filters_def time_IsZero_def Let_def
      DefaultTransactionValidationFilterLimit_def)

theorem audit_trail_answers_filters_witness:
  "\<exists>ms. drain (tv_fetch ext0 parse0 20 (by_account 7) trail_db) 2 None = Some (map (entity_of parse0) ms)
    \<and> ms = [inserted_row ext0 record0]
    \<and> drain (trail_fetch ext0 20 (audit_question (by_account 7)) trail_db) 2 None
      = Some [trail_event0\<lparr>ae_ID := 1, ae_Hash := ''h''\<rparr>]"
proof -
  let ?e = "trail_event0\<lparr>ae_ID := 1, ae_Hash := ''h''\<rparr>" and ?m = "inserted_row ext0 record0"
  have db: "db_validations trail_db = [?m]" "db_audits trail_db = [?e]" "db_faults trail_db = []"
    by (simp_all add: trail_db_def tracer0_def)
  have nf: "no_faults trail_db" by (simp add: no_faults_def db)
  have trail: "trail_of ext0 audit0 {(record0, ?e)} trail_db"
    using trail_db_pair by (auto simp: trail_of_def db trail_event0_fields)
  have ok: "TVFilters_Validate ext0 (TVFilters_SetDefaults ext0 20 (by_account 7)) = None"
    "tv_query_error (by_account 7) = None" "tf_ExceededLimitID (by_account 7) = None"
    unfolding by_account_defaults using ToUpper_order [of "''DESC''" ext0]
    by (simp_all add: TVFilters_Validate_def by_account_def no_tv_filters_def time_IsZero_def tv_query_error_def
        MaxTransactionValidationFilterLimit_def IsValidTransactionValidationSortField_def)
  have keys: "distinct (map (row_uuid parse0) (db_validations trail_db))" "distinct (map ae_ID (db_audits trail_db))"
    "\<forall>e \<in> set (db_audits trail_db). AuditEventType_IsValid (ae_EventType e)"
    by (simp_all add: db trail_event0_fields)
  have dates: "\<forall>(tv, e) \<in> {(record0, ?e)}. in_window ext0 20 (by_account 7) (timestamptz (t_CreatedAt tv))
      \<and> in_window ext0 20 (by_account 7) (ae_CreatedAt e)"
    unfolding in_window_def by_account_defaults
    by (simp add: by_account_def no_tv_filters_def record0_fields trail_event0_fields timestamptz_def)
  have len: "Suc (length (db_validations trail_db)) = 2" "Suc (length (db_audits trail_db)) = 2"
    by (simp_all add: db)
  obtain ms es where r: "drain (tv_fetch ext0 parse0 20 (by_account 7) trail_db) 2 None
        = Some (map (entity_of parse0) ms)"
    "drain (trail_fetch ext0 20 (audit_question (by_account 7)) trail_db) 2 None = Some es"
    "distinct ms" "distinct es"
    "set ms = {m \<in> {?m}. tv_applyFilters ext0 (TVFilters_SetDefaults ext0 20 (by_account 7)) m}"
    "set es = {e. \<exists>tv. (tv, e) \<in> {(record0, ?e)} \<and> inserted_row ext0 tv \<in> set ms}"
    using audit_trail_answers_filters [OF codec0 nf trail ok keys dates, unfolded len, unfolded db(1) list.set]
    by blast
  have "tv_applyFilters ext0 (TVFilters_SetDefaults ext0 20 (by_account 7)) ?m"
    unfolding by_account_defaults
    by (simp add: tv_applyFilters_asks asks_def by_account_def no_tv_filters_def inserted_columns record0_fields
        timestamptz_def)
  then have m: "set ms = {?m}" using r(5) by blast
  then have "set es = {?e}" using r(6) by simp
  then have "es = [?e]" "ms = [?m]" using r(3,4) m by (simp_all add: set_singleton_distinct)
  then show ?thesis using r(1,2) by blast
qed

end
