(* ===== verification/RuleList.thy ===== *)
theory RuleList
  imports RuleStore Keyset
begin

text \<open>
  The list of rules: \<^verbatim>\<open>List\<close> of \<^verbatim>\<open>internal/adapters/postgres/rule_repository.go\<close>, the queries
  \<^verbatim>\<open>list_rules.go\<close> and \<^verbatim>\<open>get_rule.go\<close>, and for limits \<^verbatim>\<open>list_limits.go\<close> and
  \<^verbatim>\<open>get_limit.go\<close> (their repository is in \<open>LimitStore\<close>). Unlike the other lists, this one takes sort
  column and direction from the cursor when there is one. A cursor text is what \<^verbatim>\<open>DecodeCursor\<close> makes
  of it; its identifier is \<^term>\<open>None\<close> when the text is no UUID.
\<close>

subsection \<open>The statement\<close>

datatype rule_sort_value = RvTime gotime | RvName string | RvStatus RuleStatus | RvBad string

record rule_cursor =
  rcu_ID :: "uuid option"
  rcu_SortValue :: rule_sort_value
  rcu_SortBy :: string
  rcu_SortOrder :: string

datatype rule_cursor_text = RuleNoCursor | RuleBadCursor err | RuleCursor rule_cursor

record ListRulesFilter =
  rf_Name :: "string option"
  rf_Status :: "RuleStatus option"
  rf_Action :: "Decision option"
  rf_ScopeFilter :: "Scope option"
  rf_Limit :: int
  rf_Cursor :: rule_cursor_text
  rf_SortBy :: string
  rf_SortOrder :: string

definition no_rules_filter :: ListRulesFilter where
  "no_rules_filter = \<lparr>rf_Name = None, rf_Status = None, rf_Action = None, rf_ScopeFilter = None,
     rf_Limit = 0, rf_Cursor = RuleNoCursor, rf_SortBy = [], rf_SortOrder = []\<rparr>"

definition mapRuleSortFieldToColumn :: "string \<Rightarrow> string" where
  "mapRuleSortFieldToColumn sortField =
     (if sortField = ''createdAt'' then ''created_at''
      else if sortField = ''updatedAt'' then ''updated_at''
      else if sortField = ''name'' then ''name''
      else if sortField = ''status'' then ''status''
      else [])"

definition rule_applyFilters :: "ext \<Rightarrow> ListRulesFilter \<Rightarrow> 'p Rule \<Rightarrow> bool" where
  "rule_applyFilters X f r =
     ((case rf_Name f of None \<Rightarrow> True
       | Some n \<Rightarrow> n = [] \<or> x_ilike X (''%'' @ escapeLikePattern n @ ''%'') (r_Name r))
      \<and> (case rf_Status f of None \<Rightarrow> True | Some s \<Rightarrow> r_Status r = s)
      \<and> (case rf_Action f of None \<Rightarrow> True | Some a \<Rightarrow> r_Action r = a)
      \<and> (case rf_ScopeFilter f of None \<Rightarrow> True
         | Some s \<Rightarrow> Scope_IsEmpty s \<or> buildScopeFilter [s] r))"

definition getSortValueFromRule :: "'p Rule \<Rightarrow> string \<Rightarrow> rule_sort_value" where
  "getSortValueFromRule r sortBy =
     (if sortBy = ''name'' then RvName (r_Name r)
      else if sortBy = ''status'' then RvStatus (r_Status r)
      else if sortBy = ''updatedAt'' then RvTime (r_UpdatedAt r)
      else RvTime (r_CreatedAt r))"

text \<open>The column \<^verbatim>\<open>status\<close> is an enumeration, which orders as its type declares the values.\<close>

fun RuleStatus_rank :: "RuleStatus \<Rightarrow> nat" where
  "RuleStatus_rank RuleStatusDraft = 0"
| "RuleStatus_rank RuleStatusActive = 1"
| "RuleStatus_rank RuleStatusInactive = 2"
| "RuleStatus_rank RuleStatusDeleted = 3"
| "RuleStatus_rank (RuleStatusOther s) = 4"

fun rule_value_less :: "ext \<Rightarrow> rule_sort_value \<Rightarrow> rule_sort_value \<Rightarrow> bool" where
  "rule_value_less X (RvTime a) (RvTime b) = (a < b)"
| "rule_value_less X (RvName a) (RvName b) = x_collate X a b"
| "rule_value_less X (RvStatus a) (RvStatus b) = (RuleStatus_rank a < RuleStatus_rank b)"
| "rule_value_less X a b = False"

text \<open>What the database makes of the texts it is handed.\<close>

fun rule_value_read :: "string \<Rightarrow> rule_sort_value \<Rightarrow> bool" where
  "rule_value_read sortField (RvTime t) = (sortField \<in> {''createdAt'', ''updatedAt''})"
| "rule_value_read sortField (RvName s) = (sortField = ''name'')"
| "rule_value_read sortField (RvStatus s) = (sortField = ''status'' \<and> RuleStatus_IsValid s)"
| "rule_value_read sortField (RvBad s) = False"

definition rule_query_error :: "ListRulesFilter \<Rightarrow> string \<Rightarrow> rule_cursor option \<Rightarrow> err option" where
  "rule_query_error f sortField cursor =
     (if (case rf_Status f of None \<Rightarrow> True | Some s \<Rightarrow> RuleStatus_IsValid s)
         \<and> (case rf_Action f of None \<Rightarrow> True | Some a \<Rightarrow> Decision_IsValid a)
         \<and> (case cursor of None \<Rightarrow> True
            | Some cu \<Rightarrow> rcu_ID cu \<noteq> None \<and> rule_value_read sortField (rcu_SortValue cu))
      then None else Some (External ''invalid input syntax''))"

definition rule_buildCursorCondition ::
  "ext \<Rightarrow> string \<Rightarrow> string \<Rightarrow> rule_sort_value \<Rightarrow> uuid \<Rightarrow> 'p Rule \<Rightarrow> bool" where
  "rule_buildCursorCondition X sortBy orderDir v i r =
     (let w = getSortValueFromRule r sortBy in
      if orderDir = ''DESC'' then rule_value_less X w v \<or> w = v \<and> r_ID r < i
      else rule_value_less X v w \<or> w = v \<and> i < r_ID r)"

definition rule_before :: "ext \<Rightarrow> string \<Rightarrow> string \<Rightarrow> 'p Rule \<Rightarrow> 'p Rule \<Rightarrow> bool" where
  "rule_before X sortBy orderDir r =
     rule_buildCursorCondition X sortBy orderDir (getSortValueFromRule r sortBy) (r_ID r)"

text \<open>The cursor's position and its sort field and direction.\<close>

definition rule_applyCursorFilter ::
  "ext \<Rightarrow> rule_cursor_text \<Rightarrow> (err, (rule_cursor \<times> string \<times> string) option) result" where
  "rule_applyCursorFilter X cursor =
     (case cursor of
        RuleNoCursor \<Rightarrow> Inr None
      | RuleBadCursor e \<Rightarrow> Inl (Wrap2 ''%w: %w'' ErrInvalidCursor e)
      | RuleCursor cu \<Rightarrow>
          let sortField = (if rcu_SortBy cu = [] then ''createdAt'' else rcu_SortBy cu);
              orderDir = ToUpper X (rcu_SortOrder cu)
          in if mapRuleSortFieldToColumn sortField = [] then
               Inl (Wrap ''in cursor'' ErrInvalidSortColumn)
             else if orderDir \<notin> {''ASC'', ''DESC''} then
               Inl (Wrap ''invalid sort order'' ErrInvalidCursor)
             else Inr (Some (cu, sortField, orderDir)))"

subsection \<open>Lists and queries\<close>

record 'p ListRulesResult =
  rr_Rules :: "'p Rule list"
  rr_NextCursor :: rule_cursor_text
  rr_HasMore :: bool

definition rule_page :: "int \<Rightarrow> string \<Rightarrow> string \<Rightarrow> 'p Rule list \<Rightarrow> 'p ListRulesResult" where
  "rule_page n sortBy orderDir found =
     (let hasMore = int (length found) > n;
          rules = (if hasMore then take (nat n) found else found)
      in \<lparr>rr_Rules = rules,
          rr_NextCursor = (if hasMore \<and> rules \<noteq> [] then
              RuleCursor \<lparr>rcu_ID = Some (r_ID (last rules)),
                rcu_SortValue = getSortValueFromRule (last rules) sortBy, rcu_SortBy = sortBy,
                rcu_SortOrder = orderDir\<rparr>
            else RuleNoCursor),
          rr_HasMore = hasMore\<rparr>)"

definition rule_fetchLimit :: "int \<Rightarrow> int" where
  "rule_fetchLimit n = (if n + 1 \<le> 0 then DefaultPaginationLimit + 1 else n + 1)"

definition rule_statement ::
  "ext \<Rightarrow> ListRulesFilter \<Rightarrow> string \<Rightarrow> string \<Rightarrow> rule_cursor option \<Rightarrow> 'p Rule list \<Rightarrow> 'p Rule list" where
  "rule_statement X f sortBy orderDir cursor rows =
     take (nat (rule_fetchLimit (rf_Limit f)))
       (sort_by (rule_before X sortBy orderDir)
         (filter (\<lambda>r. r_DeletedAt r = None \<and> rule_applyFilters X f r
            \<and> (case cursor of None \<Rightarrow> True
               | Some cu \<Rightarrow> rule_buildCursorCondition X sortBy orderDir (rcu_SortValue cu)
                   (the (rcu_ID cu)) r)) rows))"

definition RuleRepo_List ::
  "ext \<Rightarrow> ListRulesFilter \<Rightarrow> ('d, 'p, 'x) rule_db_scheme
   \<Rightarrow> ('d, 'p, 'x) rule_db_scheme \<times> (err, 'p ListRulesResult) result" where
  "RuleRepo_List X f db =
     (case next_fault db of
        Some e \<Rightarrow> (consume_fault db, Inl (Wrap ''failed to get database connection'' e))
      | None \<Rightarrow>
          let db1 = consume_fault db;
              orderDir = (if rf_SortOrder f = ''ASC'' then ''ASC'' else ''DESC'');
              sortBy = (if rf_SortBy f = [] then ''createdAt'' else rf_SortBy f)
          in
          if mapRuleSortFieldToColumn sortBy = [] then (db1, Inl ErrInvalidSortColumn)
          else
     (case rule_applyCursorFilter X (rf_Cursor f) of
        Inl e \<Rightarrow> (db1, Inl e)
      | Inr position \<Rightarrow>
          let (cursor, sortBy, orderDir) =
                (case position of None \<Rightarrow> (None, sortBy, orderDir) | Some (cu, b, d) \<Rightarrow> (Some cu, b, d))
          in
     (case next_fault db1 of
        Some e \<Rightarrow> (consume_fault db1, Inl (Wrap ''failed to list rules'' e))
      | None \<Rightarrow>
     (case rule_query_error f sortBy cursor of
        Some e \<Rightarrow> (consume_fault db1, Inl (Wrap ''failed to list rules'' e))
      | None \<Rightarrow>
          (consume_fault db1, Inr (rule_page (rf_Limit f) sortBy orderDir
             (rule_statement X f sortBy orderDir cursor (db_rules db))))))))"

definition normalizedRulesFilter :: "ext \<Rightarrow> ListRulesFilter option \<Rightarrow> ListRulesFilter" where
  "normalizedRulesFilter X filt =
     (let f = (case filt of None \<Rightarrow> no_rules_filter | Some f \<Rightarrow> f);
          f = (if rf_Limit f = 0 then f\<lparr>rf_Limit := DefaultPaginationLimit\<rparr> else f);
          f = (if rf_SortBy f = [] then f\<lparr>rf_SortBy := ''createdAt''\<rparr> else f)
      in if rf_SortOrder f = [] then f\<lparr>rf_SortOrder := ''DESC''\<rparr>
         else f\<lparr>rf_SortOrder := ToUpper X (rf_SortOrder f)\<rparr>)"

definition ListRulesQuery_Execute ::
  "ext \<Rightarrow> ListRulesFilter option \<Rightarrow> ('d, 'p, 'x) rule_db_scheme
   \<Rightarrow> ('d, 'p, 'x) rule_db_scheme \<times> (err, 'p ListRulesResult) result" where
  "ListRulesQuery_Execute X filt db = RuleRepo_List X (normalizedRulesFilter X filt) db"

definition GetRuleQuery_Execute ::
  "uuid \<Rightarrow> ('d, 'p, 'x) rule_db_scheme \<Rightarrow> ('d, 'p, 'x) rule_db_scheme \<times> (err, 'p Rule) result" where
  "GetRuleQuery_Execute i db = RuleRepo_GetByID i db"

definition ListLimitsQuery_Execute ::
  "ext \<Rightarrow> err option \<Rightarrow> 'd::linorder ListLimitsFilter \<Rightarrow> ('d, 'x) limit_db_scheme
   \<Rightarrow> ('d, 'x) limit_db_scheme \<times> (err, 'd ListLimitsResult) result" where
  "ListLimitsQuery_Execute X ctx filt db =
     (let f = ListLimitsFilter_ApplyDefaults X filt in
      case ListLimitsFilter_Validate X f of
        Some e \<Rightarrow> (db, Inl e)
      | None \<Rightarrow>
          (case ctx of Some e \<Rightarrow> (db, Inl e) | None \<Rightarrow> LimitRepo_List X f db))"

definition GetLimitQuery_Execute ::
  "uuid \<Rightarrow> ('d, 'x) limit_db_scheme \<Rightarrow> ('d, 'x) limit_db_scheme \<times> (err, 'd Limit) result" where
  "GetLimitQuery_Execute i db = (if i = uuid_Nil then (db, Inl ErrLimitInvalidID) else LimitRepo_GetByID i db)"

end
