(* ===== verification/RuleListFacts.thy ===== *)
theory RuleListFacts
  imports RuleList
begin

text \<open>
  The pages of rules: following the cursors of \<^verbatim>\<open>List\<close> gives every matching live rule once, for every
  sort column. Names are ordered by the collation of the database, a strict order.
\<close>

definition collation :: "ext \<Rightarrow> bool" where
  "collation X = strict_on UNIV (x_collate X)"

definition rule_sort_ok :: "string \<Rightarrow> string \<Rightarrow> bool" where
  "rule_sort_ok sortBy orderDir =
     (mapRuleSortFieldToColumn sortBy \<noteq> [] \<and> orderDir \<in> {''ASC'', ''DESC''})"

lemma rule_sort_fields:
  "mapRuleSortFieldToColumn sortBy \<noteq> [] \<longleftrightarrow> sortBy \<in> {''createdAt'', ''updatedAt'', ''name'', ''status''}"
  by (auto simp: mapRuleSortFieldToColumn_def)

lemma rule_values_strict:
  assumes "collation X" "mapRuleSortFieldToColumn sortBy \<noteq> []" "\<forall>r \<in> A. RuleStatus_IsValid (r_Status r)"
  shows "strict_on ((\<lambda>r. getSortValueFromRule r sortBy) ` A) (rule_value_less X)"
proof -
  have time: "strict_on (RvTime ` T) (rule_value_less X)" for T by (auto simp: strict_on_def)
  have name: "strict_on (RvName ` T) (rule_value_less X)" for T
    using assms(1) unfolding collation_def strict_on_def by auto
  have rank: "RuleStatus_rank a < RuleStatus_rank b \<or> RuleStatus_rank b < RuleStatus_rank a"
    if "RuleStatus_IsValid a" "RuleStatus_IsValid b" "a \<noteq> b" for a b
    using that by (cases a; cases b) simp_all
  have status: "strict_on (RvStatus ` T) (rule_value_less X)" if "\<forall>s \<in> T. RuleStatus_IsValid s" for T
    using that rank unfolding strict_on_def by auto
  have "(\<lambda>r. getSortValueFromRule r sortBy) ` A = RvName ` r_Name ` A
      \<or> (\<lambda>r. getSortValueFromRule r sortBy) ` A = RvStatus ` r_Status ` A
      \<or> (\<lambda>r. getSortValueFromRule r sortBy) ` A = RvTime ` r_UpdatedAt ` A
      \<or> (\<lambda>r. getSortValueFromRule r sortBy) ` A = RvTime ` r_CreatedAt ` A"
    using assms(2) by (auto simp: rule_sort_fields getSortValueFromRule_def image_image)
  then show ?thesis using time name status [of "r_Status ` A"] assms(3) by auto
qed

lemma rule_before_strict:
  fixes rows :: "'p Rule list"
  assumes "collation X" "rule_sort_ok sortBy orderDir" "distinct (map r_ID rows)"
    "\<forall>r \<in> set rows. RuleStatus_IsValid (r_Status r)"
  shows "strict_on (set rows) (rule_before X sortBy orderDir)"
proof -
  let ?k = "\<lambda>r :: 'p Rule. getSortValueFromRule r sortBy"
  have ids: "r_ID x \<noteq> r_ID y" if "x \<in> set rows" "y \<in> set rows" "x \<noteq> y" for x y
    using assms(3) that by (auto simp: distinct_map inj_on_def)
  have up: "strict_on (set rows) (\<lambda>x y. rule_value_less X (?k x) (?k y) \<or> ?k y = ?k x \<and> r_ID x < r_ID y)"
    by (rule lex_strict_by [OF _ rule_values_strict [OF assms(1) _ assms(4)]])
      (use ids assms(2) in \<open>auto simp: rule_sort_ok_def\<close>)
  show ?thesis
  proof (cases "orderDir = ''DESC''")
    case True
    then have "rule_before X sortBy orderDir
        = (\<lambda>x y. rule_value_less X (?k y) (?k x) \<or> ?k x = ?k y \<and> r_ID y < r_ID x)"
      by (auto simp: rule_before_def rule_buildCursorCondition_def Let_def fun_eq_iff)
    then show ?thesis using strict_on_converse [OF up] by simp
  next
    case False
    then have "rule_before X sortBy orderDir
        = (\<lambda>x y. rule_value_less X (?k x) (?k y) \<or> ?k y = ?k x \<and> r_ID x < r_ID y)"
      by (auto simp: rule_before_def rule_buildCursorCondition_def Let_def fun_eq_iff)
    then show ?thesis using up by simp
  qed
qed

subsection \<open>Pages\<close>

definition rule_cursor_of :: "string \<Rightarrow> string \<Rightarrow> 'p Rule \<Rightarrow> rule_cursor_text" where
  "rule_cursor_of sortBy orderDir r = RuleCursor \<lparr>rcu_ID = Some (r_ID r),
     rcu_SortValue = getSortValueFromRule r sortBy, rcu_SortBy = sortBy, rcu_SortOrder = orderDir\<rparr>"

definition rule_matching :: "ext \<Rightarrow> ListRulesFilter \<Rightarrow> 'p Rule \<Rightarrow> bool" where
  "rule_matching X f r = (r_DeletedAt r = None \<and> rule_applyFilters X f r)"

text \<open>One call: the sort of the request on the first page, the one of the cursor on the others.\<close>

lemma RuleRepo_List_page:
  assumes "no_faults db" "rule_sort_ok sortBy orderDir" "rule_query_error f sortBy None = None"
    "case c of
       None \<Rightarrow> rf_Cursor f = RuleNoCursor \<and> rf_SortBy f = sortBy \<and> rf_SortOrder f = orderDir
     | Some x \<Rightarrow> rf_Cursor f = rule_cursor_of sortBy orderDir x \<and> RuleStatus_IsValid (r_Status x)
         \<and> mapRuleSortFieldToColumn (rf_SortBy f) \<noteq> []"
  shows "RuleRepo_List X f db = (consume_fault (consume_fault db), Inr (rule_page (rf_Limit f) sortBy orderDir
    (take (nat (rule_fetchLimit (rf_Limit f)))
      (keyset_rest (rule_before X sortBy orderDir) (rule_matching X f) (db_rules db) c))))"
proof -
  have nf: "next_fault db = None" "next_fault (consume_fault db) = None"
    using assms(1) no_faults_next no_faults_consume by blast+
  have so: "sortBy \<noteq> []" "mapRuleSortFieldToColumn sortBy \<noteq> []" "ToUpper X orderDir = orderDir"
    using assms(2) ToUpper_order by (auto simp: rule_sort_ok_def rule_sort_fields)
  have o: "orderDir \<in> {''ASC'', ''DESC''}" using assms(2) by (simp add: rule_sort_ok_def)
  show ?thesis
  proof (cases c)
    case None
    have "(if orderDir = ''ASC'' then ''ASC'' else ''DESC'') = orderDir" using o by auto
    then show ?thesis
      using None assms(3,4) nf so
      by (simp add: RuleRepo_List_def rule_applyCursorFilter_def rule_statement_def keyset_rest_def
          rule_matching_def)
  next
    case (Some x)
    have c: "rf_Cursor f = rule_cursor_of sortBy orderDir x" "RuleStatus_IsValid (r_Status x)"
      "mapRuleSortFieldToColumn (rf_SortBy f) \<noteq> []" 
      "mapRuleSortFieldToColumn (if rf_SortBy f = [] then ''createdAt'' else rf_SortBy f) \<noteq> []"
      using assms(4) Some by (simp_all add: rule_sort_fields)
    have "rule_value_read sortBy (getSortValueFromRule x sortBy)"
      using c(2) so(2) by (auto simp: rule_sort_fields getSortValueFromRule_def)
    then have q: "rule_query_error f sortBy (Some \<lparr>rcu_ID = Some (r_ID x),
        rcu_SortValue = getSortValueFromRule x sortBy, rcu_SortBy = sortBy, rcu_SortOrder = orderDir\<rparr>) = None"
      using assms(3) by (simp add: rule_query_error_def split: if_splits)
    have p: "rule_applyCursorFilter X (rf_Cursor f) = Inr (Some (\<lparr>rcu_ID = Some (r_ID x),
        rcu_SortValue = getSortValueFromRule x sortBy, rcu_SortBy = sortBy, rcu_SortOrder = orderDir\<rparr>,
        sortBy, orderDir))"
      unfolding c(1) using so o by (simp add: rule_applyCursorFilter_def rule_cursor_of_def Let_def)
    show ?thesis
      using nf c(4) q unfolding RuleRepo_List_def Let_def p Some
      by (simp add: rule_statement_def keyset_rest_def rule_matching_def rule_before_def conj_assoc)
  qed
qed

lemma rule_page_keyset:
  fixes S :: "'p Rule list" and sortBy orderDir :: string
  assumes "0 < n"
  defines "p \<equiv> rule_page n sortBy orderDir (take (nat (rule_fetchLimit n)) S)"
  shows "rr_Rules p = (if nat n < length S then take (nat n) S else S)"
    and "(if rr_HasMore p then Some (rr_NextCursor p) else None)
      = (if nat n < length S then Some (rule_cursor_of sortBy orderDir (last (take (nat n) S))) else None)"
proof -
  have k: "nat (rule_fetchLimit n) = Suc (nat n)" using assms(1) by (simp add: rule_fetchLimit_def)
  have ne: "S \<noteq> [] \<Longrightarrow> take (nat n) S \<noteq> []" using assms(1) by simp
  have more: "int (length (take (Suc (nat n)) S)) > n \<longleftrightarrow> nat n < length S"
    using assms(1) by (simp add: min_def) linarith
  show "rr_Rules p = (if nat n < length S then take (nat n) S else S)"
    using more by (simp add: p_def rule_page_def k Let_def)
  show "(if rr_HasMore p then Some (rr_NextCursor p) else None)
      = (if nat n < length S then Some (rule_cursor_of sortBy orderDir (last (take (nat n) S))) else None)"
    using more ne by (auto simp: p_def rule_page_def rule_cursor_of_def k Let_def)
qed

end
