(* ===== verification/LimitListFacts.thy ===== *)
theory LimitListFacts
  imports LimitStore RuleListFacts
begin

text \<open>
  The list of limits for every request: each of the four sort columns orders the rows strictly, names by
  the collation of the database, and a page limit out of range is the one it is corrected to.
\<close>

lemma limit_values_strict:
  fixes rows :: "('d::linorder) Limit list"
  assumes "collation X" "IsValidLimitSortField sortBy"
  shows "strict_on ((\<lambda>l. getSortValueFromLimit l sortBy) ` A) (sort_value_less X)"
proof -
  have "strict_on (SvTime ` T) (sort_value_less X)" "strict_on (SvAmount ` B) (sort_value_less X)" for T B
    by (auto simp: strict_on_def)
  moreover have "strict_on (SvName ` T) (sort_value_less X)" for T
    using assms(1) unfolding collation_def strict_on_def by auto
  moreover have "(\<lambda>l. getSortValueFromLimit l sortBy) ` A
      \<in> {SvName ` l_Name ` A, SvAmount ` l_MaxAmount ` A, SvTime ` l_UpdatedAt ` A, SvTime ` l_CreatedAt ` A}"
    using assms(2)
    by (auto simp: IsValidLimitSortField_def DefaultLimitSortField_def getSortValueFromLimit_def image_image)
  ultimately show ?thesis by auto
qed

lemma limit_before_strict:
  fixes rows :: "('d::linorder) Limit list"
  assumes "collation X" "valid_sort sortBy sortOrder" "distinct (map l_ID rows)"
  shows "strict_on (set rows) (list_before X sortBy sortOrder)"
proof -
  let ?k = "\<lambda>l :: 'd Limit. getSortValueFromLimit l sortBy"
  have ids: "l_ID x \<noteq> l_ID y" if "x \<in> set rows" "y \<in> set rows" "x \<noteq> y" for x y
    using assms(3) that by (auto simp: distinct_map inj_on_def)
  have up: "strict_on (set rows) (\<lambda>x y. sort_value_less X (?k x) (?k y) \<or> ?k y = ?k x \<and> l_ID x < l_ID y)"
    by (rule lex_strict_by [OF _ limit_values_strict [OF assms(1)]])
      (use ids assms(2) in \<open>auto simp: valid_sort_def\<close>)
  have "list_before X sortBy sortOrder = (if sortOrder = ''DESC''
      then (\<lambda>x y. sort_value_less X (?k y) (?k x) \<or> ?k x = ?k y \<and> l_ID y < l_ID x)
      else (\<lambda>x y. sort_value_less X (?k x) (?k y) \<or> ?k y = ?k x \<and> l_ID x < l_ID y))"
    by (auto simp: list_before_def buildCursorCondition_def Let_def fun_eq_iff)
  then show ?thesis using up strict_on_converse [OF up] by simp
qed

lemma normalizeListFilters_simps:
  "normalizeListFilters (f\<lparr>f_Cursor := c\<rparr>) = (normalizeListFilters f)\<lparr>f_Cursor := c\<rparr>"
  "normalizeListFilters (normalizeListFilters f) = normalizeListFilters f"
  "validateAndNormalizeSort X (normalizeListFilters f) = validateAndNormalizeSort X f"
  "matching X (normalizeListFilters f) = matching X f"
  "0 < f_Limit (normalizeListFilters f) \<and> f_Limit (normalizeListFilters f) \<le> MaxPaginationLimit"
  by (auto simp: normalizeListFilters_def validateAndNormalizeSort_def matching_def applyListFilters_def
      DefaultPaginationLimit_def MaxPaginationLimit_def fun_eq_iff Let_def)

lemma list_fetch_normalized: "list_fetch X (normalizeListFilters f) = list_fetch X f"
  by (simp add: list_fetch_def fun_eq_iff LimitRepo_List_def normalizeListFilters_simps)

lemma valid_sort_of:
  "validateAndNormalizeSort X f = Inr (sortBy, sortOrder) \<Longrightarrow> valid_sort sortBy sortOrder"
  by (auto simp: validateAndNormalizeSort_def valid_sort_def Let_def split: if_splits)

end
