(* ===== verification/LimitReadProperties.thy ===== *)
theory LimitReadProperties
  imports LimitProperties LimitListFacts
begin

text \<open>
  Properties of how limits are read: the pages of their list, the window of the day in which a limit
  is in effect, and the limits that a check looks at.
\<close>

text \<open>C7. A page of the list of limits never holds more than a hundred rows, whatever the request
  asks for, and for every page limit (one out of range is corrected) and every sort that the repository
  accepts, following the cursors from the first page ends and gives every matching live row once, in
  the requested order. Identifiers are unique, the stored scopes can be read, and names are ordered by
  a collation that is a strict order; the rows do not change and the driver does not fail while the
  pages are read.\<close>

theorem limit_pages_complete:
  fixes rows :: "('d::linorder) Limit list"
  assumes "collation X" "distinct (map l_ID rows)" "\<forall>l \<in> set rows. scan_scopes (l_Scopes l) = None"
    "validateAndNormalizeSort X f = Inr (sortBy, sortOrder)"
  shows "(\<forall>g c. length (fst (list_fetch X g rows c)) \<le> 100)
    \<and> (\<exists>ls. drain (list_fetch X f rows) (Suc (length rows)) None = Some ls \<and> distinct ls
        \<and> set ls = {l \<in> set rows. matching X f l} \<and> sorted_wrt (list_before X sortBy sortOrder) ls)"
proof (intro conjI allI)
  fix g :: "'d ListLimitsFilter" and c
  have "nat (f_Limit (normalizeListFilters h)) \<le> 100" for h :: "'d ListLimitsFilter"
    by (auto simp: normalizeListFilters_def DefaultPaginationLimit_def MaxPaginationLimit_def nat_le_iff)
  moreover have "length (res_Limits (list_page n sb so ls)) \<le> nat n" for n sb so and ls :: "'d Limit list"
    by (auto simp: list_page_def Let_def)
  ultimately have "length (res_Limits (list_page (f_Limit (normalizeListFilters h)) sb so ls)) \<le> 100"
    for h :: "'d ListLimitsFilter" and sb so and ls :: "'d Limit list"
    using le_trans by blast
  then show "length (fst (list_fetch X g rows c)) \<le> 100"
    by (auto simp: list_fetch_def LimitRepo_List_def next_fault_def consume_fault_def Let_def
        bind_result_Inr_iff split: sum.splits prod.splits)
next
  have sort: "valid_sort sortBy sortOrder" using assms(4) by (rule valid_sort_of)
  note strict = limit_before_strict [OF assms(1) sort assms(2)]
  have d: "distinct rows" using assms(2) by (rule distinct_of_ids)
  have r: "list_reachable X (normalizeListFilters f) sortBy sortOrder rows None"
    using assms strict d sort by (simp add: list_reachable_def normalizeListFilters_simps)
  let ?S = "list_rest X (normalizeListFilters f) sortBy sortOrder rows None"
  have S: "?S = sort_by (list_before X sortBy sortOrder) (filter (matching X f) rows)"
    by (simp add: list_rest_def cursor_after_def normalizeListFilters_simps)
  have "length ?S < Suc (length rows)" by (simp add: S less_Suc_eq_le)
  from limit_pages.drain_rest [OF r this]
  have "drain (list_fetch X f rows) (Suc (length rows)) None = Some ?S"
    by (simp add: list_fetch_normalized)
  moreover have so: "sorted_wrt (list_before X sortBy sortOrder) ?S"
    unfolding S by (rule sorted_sort_by) (use d strict strict_on_subset in \<open>auto intro: strict_on_subset\<close>)
  moreover have "distinct ?S"
    unfolding S by (rule card_distinct) (simp add: d distinct_card flip: set_filter)
  moreover have "set ?S = {l \<in> set rows. matching X f l}" unfolding S by auto
  ultimately show "\<exists>ls. drain (list_fetch X f rows) (Suc (length rows)) None = Some ls \<and> distinct ls
      \<and> set ls = {l \<in> set rows. matching X f l} \<and> sorted_wrt (list_before X sortBy sortOrder) ls"
    by blast
qed

text \<open>Two limits, read by name with a page limit that is too large.\<close>

theorem limit_pages_complete_witness:
  "\<exists>f :: int ListLimitsFilter. f_Limit f = 500 \<and> f_SortBy f = ''name'' \<and>
    (\<exists>ls. drain (list_fetch ext0 f [daily_limit 1 10, daily_limit 2 20])
        (Suc (length [daily_limit 1 10, daily_limit 2 20])) None = Some ls
      \<and> set ls = {l \<in> set [daily_limit 1 10, daily_limit 2 20]. matching ext0 f l}
      \<and> sorted_wrt (list_before ext0 ''name'' ''DESC'') ls)"
proof -
  let ?f = "(checker_filter ''USD'' NoCursor :: int ListLimitsFilter)\<lparr>f_Limit := 500, f_SortBy := ''name''\<rparr>"
  have c: "collation ext0" "distinct (map l_ID [daily_limit 1 10, daily_limit 2 20])"
    "\<forall>l \<in> set [daily_limit 1 10, daily_limit 2 20]. scan_scopes (l_Scopes l) = None"
    by (auto simp: collation_def strict_on_def ext0_def daily_limit_def scan_scopes_def account_scope_def)
  have s: "validateAndNormalizeSort ext0 ?f = Inr (''name'', ''DESC'')"
    by (simp add: validateAndNormalizeSort_def checker_filter_def IsValidLimitSortField_def
        DefaultLimitSortField_def ToUpper_def isASCII_def)
  show ?thesis
    using limit_pages_complete [OF c s] by (intro exI [of _ ?f]) (simp, blast)
qed

text \<open>C8. The window of the day of a limit, whether or not it spans midnight, is an interval on the
  clock face: an instant is in it exactly when the minutes since the start are fewer than the minutes
  from the start to the end; and the two times of day print to texts that parse back to them.\<close>

theorem time_window_on_clock:
  assumes "NewTimeOfDay a = Inr s" "NewTimeOfDay b = Inr e" "ValidateTimeWindow (Some s) (Some e) = None"
    "l_ActiveTimeStart l = Some s" "l_ActiveTimeEnd l = Some e"
  shows "(IsWithinTimeWindow l t \<longleftrightarrow>
      (Hour t * 60 + Minute t - MinutesSinceMidnight s) mod 1440
        < (MinutesSinceMidnight e - MinutesSinceMidnight s) mod 1440)
    \<and> NewTimeOfDay (TimeOfDay_String s) = Inr s \<and> NewTimeOfDay (TimeOfDay_String e) = Inr e"
proof -
  have ok: "tod_ok s" "tod_ok e" using assms(1,2) NewTimeOfDay_ok by blast+
  have "s \<noteq> e" using assms(3) ok by (auto simp: ValidateTimeWindow_None TimeOfDay_Equal_def)
  from IsWithinTimeWindow_clock [OF assms(4,5) ok this, of t] NewTimeOfDay_String [OF ok(1)]
    NewTimeOfDay_String [OF ok(2)]
  show ?thesis by (simp add: minute_of_day_def)
qed

definition night_limit :: "TimeOfDay \<Rightarrow> TimeOfDay \<Rightarrow> int Limit" where
  "night_limit s e = (daily_limit 1 10)\<lparr>l_ActiveTimeStart := Some s, l_ActiveTimeEnd := Some e\<rparr>"

theorem time_window_on_clock_witness:
  "\<exists>s e. NewTimeOfDay ''22:30'' = Inr s \<and> NewTimeOfDay ''06:00'' = Inr e
     \<and> IsWithinTimeWindow (night_limit s e) (23 * Hour_ns) \<and> \<not> IsWithinTimeWindow (night_limit s e) (6 * Hour_ns)"
proof -
  define s e where "s = \<lparr>tod_hour = 22, tod_minute = 30, tod_isValid = True\<rparr>"
    and "e = \<lparr>tod_hour = 6, tod_minute = 0, tod_isValid = True\<rparr>"
  have "NewTimeOfDay ''22:30'' = Inr \<lparr>tod_hour = 22, tod_minute = 30, tod_isValid = True\<rparr>"
    "NewTimeOfDay ''06:00'' = Inr \<lparr>tod_hour = 6, tod_minute = 0, tod_isValid = True\<rparr>"
    by (simp_all add: NewTimeOfDay_def TrimSpace_text time_Parse_15_04_def is_digit_def digit_value_def)
  then have p: "NewTimeOfDay ''22:30'' = Inr s" "NewTimeOfDay ''06:00'' = Inr e"
    by (simp_all add: s_def e_def)
  have m: "MinutesSinceMidnight s = 1350" "MinutesSinceMidnight e = 360"
    by (simp_all add: s_def e_def MinutesSinceMidnight_def)
  have v: "ValidateTimeWindow (Some s) (Some e) = None"
    by (simp add: ValidateTimeWindow_None TimeOfDay_Equal_def MinutesSinceMidnight_def s_def e_def)
  have h: "Hour (23 * Hour_ns) = 23" "Minute (23 * Hour_ns) = 0" "Hour (6 * Hour_ns) = 6"
    "Minute (6 * Hour_ns) = 0"
    by (simp_all add: Hour_def Minute_def Hour_ns_def Day_ns_def Minute_ns_def)
  have w: "l_ActiveTimeStart (night_limit s e) = Some s" "l_ActiveTimeEnd (night_limit s e) = Some e"
    by (simp_all add: night_limit_def)
  show ?thesis
    using time_window_on_clock [OF p v w, of "23 * Hour_ns"] time_window_on_clock [OF p v w, of "6 * Hour_ns"]
      p m h by simp
qed

text \<open>C9. The check of limits leaves out the merchant of a transaction, so a limit whose scopes all
  name a merchant is never among the limits that a check looks at, whatever the request.\<close>

theorem merchant_limits_not_enforced:
  assumes "l_Scopes l \<noteq> []" "\<forall>s \<in> set (l_Scopes l). MerchantID s \<noteq> None"
    "getApplicableLimits X input db = (db', Inr ls)"
  shows "l \<notin> set ls"
proof
  assume "l \<in> set ls"
  then have "RuleScopesMatch (l_Scopes l) (buildTransactionScope (Some input))"
    using assms(3) by (auto simp: getApplicableLimits_def scopeMatchesLimit_eq split: prod.splits sum.splits)
  then show False
    using assms(1,2) by (auto simp: RuleScopesMatch_iff buildTransactionScope_def Scope_Matches_def
        ptrMatches_iff)
qed

definition merchant_limit :: "int Limit" where
  "merchant_limit = (daily_limit 3 10)\<lparr>l_Scopes := [(account_scope 7)\<lparr>AccountID := None, MerchantID := Some 9\<rparr>]\<rparr>"

theorem merchant_limits_not_enforced_witness:
  "\<exists>db' ls. getApplicableLimits ext0 (input0 5) (store0 [merchant_limit]) = (db', Inr ls)
     \<and> merchant_limit \<notin> set ls"
proof -
  have ok: "limits_ok (store0 [merchant_limit])" "no_faults (store0 [merchant_limit])"
    "IsValidCurrency ext0 (ci_Currency (input0 5))"
    by (simp_all add: limits_ok_def no_faults_def store0_def merchant_limit_def daily_limit_def
        scan_scopes_def account_scope_def IsValidCurrency_def input0_def ext0_def)
  have m: "l_Scopes merchant_limit \<noteq> []" "\<forall>s \<in> set (l_Scopes merchant_limit). MerchantID s \<noteq> None"
    by (simp_all add: merchant_limit_def)
  obtain db' ls where "getApplicableLimits ext0 (input0 5) (store0 [merchant_limit]) = (db', Inr ls)"
    using getApplicableLimits_spec [OF ok] by blast
  with merchant_limits_not_enforced [OF m this] show ?thesis by blast
qed

end
