(* ===== verification/RuleCommands.thy ===== *)
theory RuleCommands
  imports AuditStore RuleCache
begin

text \<open>
  The commands on rules (\<^verbatim>\<open>internal/services/command\<close>: \<^verbatim>\<open>create_rule.go\<close>,
  \<^verbatim>\<open>update_rule.go\<close>, \<^verbatim>\<open>activate_rule.go\<close>, \<^verbatim>\<open>deactivate_rule.go\<close>,
  \<^verbatim>\<open>draft_rule.go\<close>, \<^verbatim>\<open>delete_rule.go\<close>, \<^verbatim>\<open>audit_helpers.go\<close>). Each is a function of the
  database and, where it has one, of the cache. A command reads the rule and writes it back in two
  statements; \<open>others\<close> is what other requests do to the database in between. Recording the audit
  event is best effort: its error is dropped. Instants are printed in UTC. The mapping of errors by
  \<^verbatim>\<open>libCommons.ValidateBusinessError\<close> and the text of an error of the compiler are fields of \<open>command_env\<close>, as are the clock, the fresh
  identifiers, the address of the client, and whether the optional writers are set.
\<close>

record command_env =
  k_ValidateBusinessError :: "err \<Rightarrow> string \<Rightarrow> err"
  k_Error :: "err \<Rightarrow> string"
  k_newID :: uuid
  k_now :: gotime
  k_later :: gotime
  k_eventID :: uuid
  k_eventNow :: gotime
  k_clientIP :: string
  k_auditWriter :: bool
  k_cacheWriter :: bool

subsection \<open>Names\<close>

text \<open>The class \<^verbatim>\<open>\s\<close> of the regular expressions: tab, line feed, form feed, carriage return, space.\<close>

definition regexp_space :: "char \<Rightarrow> bool" where
  "regexp_space c = (c \<in> {CHR 0x09, CHR 0x0A, CHR 0x0C, CHR 0x0D, CHR '' ''})"

function collapse_spaces :: "string \<Rightarrow> string" where
  "collapse_spaces [] = []"
| "collapse_spaces (c # s) =
     (if regexp_space c then CHR '' '' # collapse_spaces (dropWhile regexp_space s)
      else c # collapse_spaces s)"
  by pat_completeness auto
termination
  by (relation "measure length") (auto simp: le_imp_less_Suc length_dropWhile_le)

definition NormalizeName :: "ext \<Rightarrow> string \<Rightarrow> string" where
  "NormalizeName X name = collapse_spaces (ToLower X (TrimSpace name))"

subsection \<open>What the audit records of a rule\<close>

text \<open>The layout \<^verbatim>\<open>2006-01-02T15:04:05.999Z07:00\<close>: milliseconds without trailing zeros.\<close>

definition audit_time :: "gotime \<Rightarrow> string" where
  "audit_time t =
     (let second = (t mod Minute_ns) div 1000000000;
          millis = (t mod 1000000000) div 1000000;
          fraction = rev (dropWhile (\<lambda>c. c = CHR ''0'') (rev (show_pad 3 millis)))
      in Format_date t @ ''T'' @ show_pad 2 (Hour t) @ '':'' @ show_pad 2 (Minute t) @ '':''
         @ show_pad 2 second @ (if fraction = [] then [] else ''.'' @ fraction) @ ''Z'')"

definition any_string_option :: "string option \<Rightarrow> 'd any" where
  "any_string_option s = (case s of None \<Rightarrow> AnyNil | Some t \<Rightarrow> AnyString t)"

definition RuleToMap :: "ext \<Rightarrow> 'p Rule \<Rightarrow> 'd any_map" where
  "RuleToMap X rule =
     [(''id'', AnyString (x_uuid_string X (r_ID rule))),
      (''name'', AnyString (r_Name rule)),
      (''description'', any_string_option (r_Description rule)),
      (''expression'', AnyString (r_Expression rule)),
      (''action'', AnyString (Decision_String (r_Action rule))),
      (''scopes'', AnyScopes (r_Scopes rule)),
      (''status'', AnyString (RuleStatus_String (r_Status rule))),
      (''createdAt'', AnyString (audit_time (r_CreatedAt rule))),
      (''updatedAt'', AnyString (audit_time (r_UpdatedAt rule)))]"

definition audit_rule ::
  "ext \<Rightarrow> audit_ext \<Rightarrow> command_env \<Rightarrow> AuditEventType \<Rightarrow> AuditAction \<Rightarrow> uuid \<Rightarrow> 'd any_map option
   \<Rightarrow> 'd any_map option \<Rightarrow> string \<Rightarrow> ('d, 'p, 'x) audit_db_scheme \<Rightarrow> ('d, 'p, 'x) audit_db_scheme" where
  "audit_rule X A K eventType action i before after reason db =
     (if k_auditWriter K
      then fst (RecordRuleEvent X A (k_eventID K) (k_eventNow K) eventType action i before after reason
                  (k_clientIP K) db)
      else db)"

subsection \<open>Creating a rule\<close>

record CreateRuleInput =
  cr_in_Name :: string
  cr_in_Description :: string
  cr_in_Expression :: string
  cr_in_Action :: Decision
  cr_in_Scopes :: "Scope list"

definition CreateRule ::
  "ext \<Rightarrow> audit_ext \<Rightarrow> ('p, 'd) cel_ops \<Rightarrow> command_env \<Rightarrow> CreateRuleInput option
   \<Rightarrow> ('d, 'p, 'x) audit_db_scheme \<Rightarrow> ('d, 'p, 'x) audit_db_scheme \<times> (err, 'p Rule) result" where
  "CreateRule X A cel K input db =
     (case input of
        None \<Rightarrow> (db, Inl ErrRuleNilInput)
      | Some input \<Rightarrow>
     (case cel_Compile cel (cr_in_Expression input) of
        Inl e \<Rightarrow> (db, Inl e)
      | Inr _ \<Rightarrow>
     (case NewRule (k_newID K) (NormalizeName X (cr_in_Name input)) (cr_in_Expression input)
             (cr_in_Action input) (cr_in_Scopes input)
             (if cr_in_Description input = [] then None else Some (cr_in_Description input)) (k_now K) of
        Inl e \<Rightarrow> (db, Inl e)
      | Inr rule \<Rightarrow>
     (case RuleRepo_Create X rule db of
        (db1, Inl e) \<Rightarrow>
          (db1, Inl (if errors_Is e ErrRuleNameAlreadyExistsInCtx then e
                     else Wrap ''failed to create rule'' e))
      | (db1, Inr r) \<Rightarrow>
          (audit_rule X A K AuditEventRuleCreated AuditActionCreate (r_ID r) None
             (Some (RuleToMap X r)) ''Rule created via API'' db1, Inr r)))))"

subsection \<open>Updating a rule\<close>

record UpdateRuleInput =
  ur_in_Name :: "string option"
  ur_in_Description :: "string option"
  ur_in_Expression :: "string option"
  ur_in_Action :: "Decision option"
  ur_in_Scopes :: "Scope list option"

text \<open>The changes to the entity between its read and its write.\<close>

definition changed_rule ::
  "ext \<Rightarrow> ('p, 'd) cel_ops \<Rightarrow> command_env \<Rightarrow> UpdateRuleInput \<Rightarrow> 'p Rule \<Rightarrow> (err, 'p Rule) result" where
  "changed_rule X cel K input rule =
     bind_result
       (case ur_in_Expression input of
          None \<Rightarrow> Inr ()
        | Some e \<Rightarrow>
            if r_Status rule \<noteq> RuleStatusDraft then Inl ErrExpressionNotModifiable
            else (case cel_Compile cel e of Inl err \<Rightarrow> Inl err | Inr _ \<Rightarrow> Inr ()))
       (\<lambda>_. bind_result
         (case ur_in_Action input of
            None \<Rightarrow> Inr rule
          | Some a \<Rightarrow> Rule_SetAction rule a (k_now K))
         (\<lambda>rule1. Rule_Update rule1 (map_option (NormalizeName X) (ur_in_Name input))
            (ur_in_Expression input) (ur_in_Description input) (ur_in_Scopes input) (k_later K)))"

definition UpdateRule ::
  "ext \<Rightarrow> audit_ext \<Rightarrow> ('p, 'd) cel_ops \<Rightarrow> command_env
   \<Rightarrow> (('d, 'p, 'x) audit_db_scheme \<Rightarrow> ('d, 'p, 'x) audit_db_scheme) \<Rightarrow> uuid \<Rightarrow> UpdateRuleInput
   \<Rightarrow> ('d, 'p, 'x) audit_db_scheme \<Rightarrow> ('d, 'p, 'x) audit_db_scheme \<times> (err, 'p Rule) result" where
  "UpdateRule X A cel K others i input db =
     (case RuleRepo_GetByID i db of
        (db1, Inl e) \<Rightarrow>
          (db1, Inl (if errors_Is e ErrRuleNotFound then e else Wrap ''failed to get rule'' e))
      | (db1, Inr rule) \<Rightarrow>
     (case changed_rule X cel K input rule of
        Inl e \<Rightarrow> (db1, Inl e)
      | Inr rule' \<Rightarrow>
     (case RuleRepo_Update X rule' (others db1) of
        (db2, Inl e) \<Rightarrow>
          (db2, Inl (if errors_Is e ErrRuleNameAlreadyExistsInCtx then e
                     else Wrap ''failed to update rule'' e))
      | (db2, Inr r) \<Rightarrow>
          (audit_rule X A K AuditEventRuleUpdated AuditActionUpdate (r_ID r) (Some (RuleToMap X rule))
             (Some (RuleToMap X r)) ''Rule updated via API'' db2, Inr r))))"

subsection \<open>Status changes\<close>

text \<open>The read with its errors, as the four services have it.\<close>

definition get_rule ::
  "command_env \<Rightarrow> uuid \<Rightarrow> ('d, 'p, 'x) rule_db_scheme
   \<Rightarrow> ('d, 'p, 'x) rule_db_scheme \<times> (err, 'p Rule) result" where
  "get_rule K i db =
     (case RuleRepo_GetByID i db of
        (db1, Inl e) \<Rightarrow>
          (db1, Inl (if errors_Is e ErrRuleNotFound then k_ValidateBusinessError K ErrRuleNotFound ''Rule''
                     else Wrap ''failed to get rule'' e))
      | (db1, Inr rule) \<Rightarrow> (db1, Inr rule))"

text \<open>\<^verbatim>\<open>errors.As\<close> for a transition error, which \<^verbatim>\<open>SetStatus\<close> returns unwrapped.\<close>

definition with_status :: "'p Rule \<Rightarrow> RuleStatus \<Rightarrow> gotime \<Rightarrow> (err, 'p Rule) result" where
  "with_status rule status now =
     (case Rule_SetStatus rule status now of
        Inl (InvalidTransitionError f t) \<Rightarrow> Inl (InvalidTransitionError f t)
      | Inl e \<Rightarrow> Inl (Wrap ''failed to set rule status'' e)
      | Inr r \<Rightarrow> Inr r)"

definition write_status ::
  "ext \<Rightarrow> audit_ext \<Rightarrow> command_env
   \<Rightarrow> (('d, 'p, 'x) audit_db_scheme \<Rightarrow> ('d, 'p, 'x) audit_db_scheme)
   \<Rightarrow> RuleStatus \<Rightarrow> AuditEventType \<Rightarrow> AuditAction \<Rightarrow> string \<Rightarrow> 'p Rule
   \<Rightarrow> ('d, 'p, 'x) audit_db_scheme \<Rightarrow> ('d, 'p, 'x) audit_db_scheme \<times> (err, 'p Rule) result" where
  "write_status X A K others status eventType action reason rule db =
     (case with_status rule status (k_now K) of
        Inl e \<Rightarrow> (db, Inl e)
      | Inr rule' \<Rightarrow>
     (case RuleRepo_Update X rule' (others db) of
        (db1, Inl e) \<Rightarrow> (db1, Inl (Wrap ''failed to update rule'' e))
      | (db1, Inr r) \<Rightarrow>
          (audit_rule X A K eventType action (r_ID r) (Some (RuleToMap X rule)) (Some (RuleToMap X r))
             reason db1, Inr r)))"

definition ActivateRule ::
  "ext \<Rightarrow> audit_ext \<Rightarrow> ('p, 'd) cel_ops \<Rightarrow> command_env
   \<Rightarrow> (('d, 'p, 'x) audit_db_scheme \<Rightarrow> ('d, 'p, 'x) audit_db_scheme) \<Rightarrow> uuid
   \<Rightarrow> ('d, 'p, 'x) audit_db_scheme \<times> 'p RuleCache
   \<Rightarrow> (('d, 'p, 'x) audit_db_scheme \<times> 'p RuleCache) \<times> (err, 'p Rule) result" where
  "ActivateRule X A cel K others i s =
     (case get_rule K i (fst s) of
        (db1, Inl e) \<Rightarrow> ((db1, snd s), Inl e)
      | (db1, Inr rule) \<Rightarrow>
          if r_Expression rule = []
          then ((db1, snd s), Inl (k_ValidateBusinessError K ErrBadRequest
                  ''expression is required to activate rule''))
          else if r_Status rule = RuleStatusActive then ((db1, snd s), Inr rule)
          else (case cel_Compile cel (r_Expression rule) of
              Inl e \<Rightarrow> ((db1, snd s), Inl (k_ValidateBusinessError K ErrExpressionSyntax (k_Error K e)))
            | Inr program \<Rightarrow>
                (case write_status X A K others RuleStatusActive AuditEventRuleActivated
                        AuditActionActivate ''Rule activated via API'' rule db1 of
                   (db2, Inl e) \<Rightarrow> ((db2, snd s), Inl e)
                 | (db2, Inr r) \<Rightarrow>
                     ((db2, if k_cacheWriter K then UpsertRule r (Some program) (k_later K) (snd s)
                            else snd s), Inr r))))"

definition DeactivateRule ::
  "ext \<Rightarrow> audit_ext \<Rightarrow> command_env
   \<Rightarrow> (('d, 'p, 'x) audit_db_scheme \<Rightarrow> ('d, 'p, 'x) audit_db_scheme) \<Rightarrow> uuid
   \<Rightarrow> ('d, 'p, 'x) audit_db_scheme \<times> 'p RuleCache
   \<Rightarrow> (('d, 'p, 'x) audit_db_scheme \<times> 'p RuleCache) \<times> (err, 'p Rule) result" where
  "DeactivateRule X A K others i s =
     (case get_rule K i (fst s) of
        (db1, Inl e) \<Rightarrow> ((db1, snd s), Inl e)
      | (db1, Inr rule) \<Rightarrow>
          if r_Status rule = RuleStatusInactive then ((db1, snd s), Inr rule)
          else (case write_status X A K others RuleStatusInactive AuditEventRuleDeactivated
                       AuditActionDeactivate ''Rule deactivated via API'' rule db1 of
              (db2, Inl e) \<Rightarrow> ((db2, snd s), Inl e)
            | (db2, Inr r) \<Rightarrow>
                ((db2, if k_cacheWriter K then RemoveRule (r_ID r) (k_later K) (snd s) else snd s), Inr r)))"

definition DraftRule ::
  "ext \<Rightarrow> audit_ext \<Rightarrow> command_env
   \<Rightarrow> (('d, 'p, 'x) audit_db_scheme \<Rightarrow> ('d, 'p, 'x) audit_db_scheme) \<Rightarrow> uuid
   \<Rightarrow> ('d, 'p, 'x) audit_db_scheme \<Rightarrow> ('d, 'p, 'x) audit_db_scheme \<times> (err, 'p Rule) result" where
  "DraftRule X A K others i db =
     (case get_rule K i db of
        (db1, Inl e) \<Rightarrow> (db1, Inl e)
      | (db1, Inr rule) \<Rightarrow>
          if r_Status rule = RuleStatusDraft then (db1, Inr rule)
          else write_status X A K others RuleStatusDraft AuditEventRuleDrafted AuditActionDraft
                 ''Rule transitioned to draft via API'' rule db1)"

definition DeleteRule ::
  "ext \<Rightarrow> audit_ext \<Rightarrow> command_env
   \<Rightarrow> (('d, 'p, 'x) audit_db_scheme \<Rightarrow> ('d, 'p, 'x) audit_db_scheme) \<Rightarrow> uuid
   \<Rightarrow> ('d, 'p, 'x) audit_db_scheme \<Rightarrow> ('d, 'p, 'x) audit_db_scheme \<times> (err, unit) result" where
  "DeleteRule X A K others i db =
     (case get_rule K i db of
        (db1, Inl e) \<Rightarrow> (db1, Inl e)
      | (db1, Inr rule) \<Rightarrow>
          if r_Status rule = RuleStatusDeleted then (db1, Inr ())
          else if \<not> CanTransitionTo (r_Status rule) RuleStatusDeleted
          then (db1, Inl (NewInvalidTransitionError (r_Status rule) RuleStatusDeleted))
          else (case RuleRepo_Delete i (k_now K) (others db1) of
              (db2, Inl e) \<Rightarrow> (db2, Inl (Wrap ''failed to delete rule'' e))
            | (db2, Inr _) \<Rightarrow>
                (audit_rule X A K AuditEventRuleDeleted AuditActionDelete i (Some (RuleToMap X rule)) None
                   ''Rule deleted via API'' db2, Inr ())))"

end
