(* ===== verification/LimitCommands.thy ===== *)
theory LimitCommands
  imports RuleCommands Periods
begin

text \<open>
  The commands on limits (\<^verbatim>\<open>internal/services/command\<close>: \<^verbatim>\<open>create_limit.go\<close>,
  \<^verbatim>\<open>update_limit.go\<close>, \<^verbatim>\<open>activate_limit.go\<close>, \<^verbatim>\<open>deactivate_limit.go\<close>,
  \<^verbatim>\<open>draft_limit.go\<close>, \<^verbatim>\<open>delete_limit.go\<close>), in the setting of \<open>RuleCommands\<close>. The looks at the
  context are the list \<open>ctx\<close>, in their order; \<open>parse_time\<close> is \<^verbatim>\<open>time.Parse\<close> for RFC 3339. The
  status commands share their text but for the target, the event and the reason, and so share
  \<open>change_limit_status\<close>.
\<close>

fun LimitStatus_text :: "LimitStatus \<Rightarrow> string" where
  "LimitStatus_text LimitStatusDraft = ''DRAFT''"
| "LimitStatus_text LimitStatusActive = ''ACTIVE''"
| "LimitStatus_text LimitStatusInactive = ''INACTIVE''"
| "LimitStatus_text LimitStatusDeleted = ''DELETED''"
| "LimitStatus_text (LimitStatusOther s) = s"

definition LimitToMap :: "ext \<Rightarrow> 'd Limit \<Rightarrow> 'd any_map" where
  "LimitToMap X l =
     [(''id'', AnyString (x_uuid_string X (l_ID l))),
      (''name'', AnyString (l_Name l)),
      (''description'', any_string_option (l_Description l)),
      (''limitType'', AnyString (LimitType_String (l_LimitType l))),
      (''maxAmount'', AnyAmount (l_MaxAmount l)),
      (''currency'', AnyString (l_Currency l)),
      (''scopes'', AnyScopes (l_Scopes l)),
      (''status'', AnyString (LimitStatus_text (l_Status l))),
      (''resetAt'', any_string_option (map_option audit_time (l_ResetAt l))),
      (''createdAt'', AnyString (audit_time (l_CreatedAt l))),
      (''updatedAt'', AnyString (audit_time (l_UpdatedAt l)))]"

definition audit_limit ::
  "ext \<Rightarrow> audit_ext \<Rightarrow> command_env \<Rightarrow> AuditEventType \<Rightarrow> AuditAction \<Rightarrow> uuid \<Rightarrow> 'd any_map option
   \<Rightarrow> 'd any_map option \<Rightarrow> string \<Rightarrow> ('d, 'p, 'x) audit_db_scheme \<Rightarrow> ('d, 'p, 'x) audit_db_scheme" where
  "audit_limit X A K eventType action i before after reason db =
     (if k_auditWriter K
      then fst (RecordLimitEvent X A (k_eventID K) (k_eventNow K) eventType action i before after reason
                  (k_clientIP K) db)
      else db)"

subsection \<open>Creating a limit\<close>

record 'd CreateLimitInput =
  cl_in_Name :: string
  cl_in_Description :: "string option"
  cl_in_LimitType :: LimitType
  cl_in_MaxAmount :: 'd
  cl_in_Currency :: string
  cl_in_Scopes :: "Scope list"
  cl_in_ActiveTimeStart :: "TimeOfDay option"
  cl_in_ActiveTimeEnd :: "TimeOfDay option"
  cl_in_CustomStartDate :: "string option"
  cl_in_CustomEndDate :: "string option"

definition parse_custom ::
  "(string \<Rightarrow> (err, gotime) result) \<Rightarrow> err \<Rightarrow> string \<Rightarrow> (err, gotime) result" where
  "parse_custom parse_time bad s =
     (case parse_time s of Inl e \<Rightarrow> Inl (Wrap2 [] bad e) | Inr t \<Rightarrow> Inr t)"

text \<open>The choice of the constructor.\<close>

definition build_limit ::
  "ext \<Rightarrow> (string \<Rightarrow> (err, gotime) result) \<Rightarrow> command_env \<Rightarrow> ('d::linordered_ab_group_add) CreateLimitInput
   \<Rightarrow> (err, 'd Limit) result" where
  "build_limit X parse_time K input =
     (let name = TrimSpace (cl_in_Name input);
          currency = ToUpper X (TrimSpace (cl_in_Currency input))
      in if (cl_in_ActiveTimeStart input \<noteq> None) \<noteq> (cl_in_ActiveTimeEnd input \<noteq> None)
         then Inl ErrLimitTimeWindowMismatch
         else if (cl_in_CustomStartDate input \<noteq> None) \<noteq> (cl_in_CustomEndDate input \<noteq> None)
         then Inl ErrLimitCustomDatesRequired
         else (case (cl_in_CustomStartDate input, cl_in_CustomEndDate input,
                     cl_in_ActiveTimeStart input, cl_in_ActiveTimeEnd input) of
             (Some cs, Some ce, ts, te) \<Rightarrow>
               bind_result (parse_custom parse_time ErrLimitInvalidCustomStartFormat cs) (\<lambda>customStart.
               bind_result (parse_custom parse_time ErrLimitInvalidCustomEndFormat ce) (\<lambda>customEnd.
                 case (ts, te) of
                   (Some s, Some e) \<Rightarrow>
                     NewLimitWithCustomPeriodAndTimeWindow X (k_newID K) name (cl_in_LimitType input)
                       (cl_in_MaxAmount input) currency (cl_in_Scopes input) (cl_in_Description input)
                       customStart customEnd (TimeOfDay_String s) (TimeOfDay_String e) (k_now K)
                 | _ \<Rightarrow>
                     NewLimitWithCustomPeriod X (k_newID K) name (cl_in_LimitType input)
                       (cl_in_MaxAmount input) currency (cl_in_Scopes input) (cl_in_Description input)
                       customStart customEnd (k_now K)))
           | (_, _, Some s, Some e) \<Rightarrow>
               NewLimitWithTimeWindow X (k_newID K) name (cl_in_LimitType input) (cl_in_MaxAmount input)
                 currency (cl_in_Scopes input) (cl_in_Description input) (TimeOfDay_String s)
                 (TimeOfDay_String e) (k_now K)
           | _ \<Rightarrow>
               NewLimit X (k_newID K) name (cl_in_LimitType input) (cl_in_MaxAmount input) currency
                 (cl_in_Scopes input) (cl_in_Description input) (k_now K)))"

definition CreateLimit ::
  "ext \<Rightarrow> audit_ext \<Rightarrow> (string \<Rightarrow> (err, gotime) result) \<Rightarrow> command_env \<Rightarrow> err option list
   \<Rightarrow> ('d::linordered_ab_group_add) CreateLimitInput option \<Rightarrow> ('d, 'p, 'x) audit_db_scheme
   \<Rightarrow> ('d, 'p, 'x) audit_db_scheme \<times> (err, 'd Limit) result" where
  "CreateLimit X A parse_time K ctx input db =
     (case input of
        None \<Rightarrow> (db, Inl ErrLimitNilInput)
      | Some input \<Rightarrow>
     (case build_limit X parse_time K input of
        Inl e \<Rightarrow> (db, Inl e)
      | Inr l \<Rightarrow>
     (case ctx_Err ctx of
        Some e \<Rightarrow> (db, Inl e)
      | None \<Rightarrow>
     (case LimitRepo_Create l db of
        (db1, Inl e) \<Rightarrow> (db1, Inl e)
      | (db1, Inr _) \<Rightarrow>
          (audit_limit X A K AuditEventLimitCreated AuditActionCreate (l_ID l) None
             (Some (LimitToMap X l)) ''Limit created via API'' db1, Inr l)))))"

subsection \<open>Updating a limit\<close>

record 'd UpdateLimitInput =
  ul_in_Name :: "string option"
  ul_in_Description :: "string option"
  ul_in_MaxAmount :: "'d option"
  ul_in_Scopes :: "Scope list option"
  ul_in_ActiveTimeStart :: "TimeOfDay option"
  ul_in_ActiveTimeEnd :: "TimeOfDay option"
  ul_in_CustomStartDate :: "string option"
  ul_in_CustomEndDate :: "string option"

definition normalizeInput :: "'d UpdateLimitInput \<Rightarrow> 'd UpdateLimitInput" where
  "normalizeInput input = input\<lparr>ul_in_Name := map_option TrimSpace (ul_in_Name input),
     ul_in_Description := map_option TrimSpace (ul_in_Description input)\<rparr>"

definition hasChanges :: "'d UpdateLimitInput \<Rightarrow> bool" where
  "hasChanges input =
     (ul_in_Name input \<noteq> None \<or> ul_in_MaxAmount input \<noteq> None \<or> ul_in_Description input \<noteq> None
      \<or> ul_in_Scopes input \<noteq> None \<or> ul_in_ActiveTimeStart input \<noteq> None
      \<or> ul_in_ActiveTimeEnd input \<noteq> None \<or> ul_in_CustomStartDate input \<noteq> None
      \<or> ul_in_CustomEndDate input \<noteq> None)"

definition parse_optional ::
  "(string \<Rightarrow> (err, gotime) result) \<Rightarrow> err \<Rightarrow> string option \<Rightarrow> (err, gotime option) result" where
  "parse_optional parse_time bad s =
     (case s of
        None \<Rightarrow> Inr None
      | Some s \<Rightarrow> bind_result (parse_custom parse_time bad s) (\<lambda>t. Inr (Some t)))"

definition changed_limit ::
  "(string \<Rightarrow> (err, gotime) result) \<Rightarrow> command_env \<Rightarrow> 'd UpdateLimitInput
   \<Rightarrow> ('d::linordered_ab_group_add) Limit \<Rightarrow> (err, 'd Limit) result" where
  "changed_limit parse_time K input l =
     bind_result (parse_optional parse_time ErrLimitInvalidCustomStartFormat (ul_in_CustomStartDate input))
       (\<lambda>customStartDate.
     bind_result (parse_optional parse_time ErrLimitInvalidCustomEndFormat (ul_in_CustomEndDate input))
       (\<lambda>customEndDate.
        case Limit_Update l (ul_in_Name input) (ul_in_MaxAmount input) (ul_in_Description input)
               (ul_in_Scopes input) (ul_in_ActiveTimeStart input) (ul_in_ActiveTimeEnd input)
               customStartDate customEndDate (k_now K) of
          (l', Some e) \<Rightarrow> Inl e
        | (l', None) \<Rightarrow> Inr l'))"

definition UpdateLimit ::
  "ext \<Rightarrow> audit_ext \<Rightarrow> (string \<Rightarrow> (err, gotime) result) \<Rightarrow> command_env \<Rightarrow> err option list
   \<Rightarrow> (('d, 'p, 'x) audit_db_scheme \<Rightarrow> ('d, 'p, 'x) audit_db_scheme) \<Rightarrow> uuid
   \<Rightarrow> ('d::linordered_ab_group_add) UpdateLimitInput option \<Rightarrow> ('d, 'p, 'x) audit_db_scheme
   \<Rightarrow> ('d, 'p, 'x) audit_db_scheme \<times> (err, 'd Limit) result" where
  "UpdateLimit X A parse_time K ctx others i input db =
     (case input of
        None \<Rightarrow> (db, Inl ErrLimitNilInput)
      | Some raw \<Rightarrow>
     (if i = uuid_Nil then (db, Inl ErrLimitInvalidID)
      else let input = normalizeInput raw in
     (case ctx_Err ctx of
        Some e \<Rightarrow> (db, Inl e)
      | None \<Rightarrow>
     (case LimitRepo_GetByID i db of
        (db1, Inl e) \<Rightarrow> (db1, Inl e)
      | (db1, Inr l) \<Rightarrow>
          if l_Status l = LimitStatusDeleted then (db1, Inl ErrLimitAlreadyDeleted)
          else if \<not> hasChanges input then (db1, Inr l)
          else
     (case changed_limit parse_time K input l of
        Inl e \<Rightarrow> (db1, Inl e)
      | Inr l' \<Rightarrow>
     (case ctx_Err (tl ctx) of
        Some e \<Rightarrow> (db1, Inl e)
      | None \<Rightarrow>
     (case LimitRepo_Update l' (others db1) of
        (db2, Inl e) \<Rightarrow> (db2, Inl e)
      | (db2, Inr _) \<Rightarrow>
          (audit_limit X A K AuditEventLimitUpdated AuditActionUpdate (l_ID l') (Some (LimitToMap X l))
             (Some (LimitToMap X l')) ''Limit updated via API'' db2, Inr l'))))))))"

subsection \<open>Status changes\<close>

definition change_limit_status ::
  "ext \<Rightarrow> audit_ext \<Rightarrow> command_env
   \<Rightarrow> (('d, 'p, 'x) audit_db_scheme \<Rightarrow> ('d, 'p, 'x) audit_db_scheme)
   \<Rightarrow> LimitStatus \<Rightarrow> AuditEventType \<Rightarrow> AuditAction \<Rightarrow> string \<Rightarrow> uuid \<Rightarrow> ('d, 'p, 'x) audit_db_scheme
   \<Rightarrow> ('d, 'p, 'x) audit_db_scheme \<times> (err, 'd Limit) result" where
  "change_limit_status X A K others status eventType action reason i db =
     (case LimitRepo_GetByID i db of
        (db1, Inl e) \<Rightarrow>
          (db1, Inl (if errors_Is e ErrLimitNotFound then e else Wrap ''failed to get limit'' e))
      | (db1, Inr l) \<Rightarrow>
          if l_Status l = status then (db1, Inr l)
          else
     (case Limit_SetStatus l status (k_now K) of
        Inl e \<Rightarrow> (db1, Inl (k_ValidateBusinessError K ErrLimitInvalidStatusChange (k_Error K e)))
      | Inr l' \<Rightarrow>
     (case LimitRepo_UpdateStatus i status (l_UpdatedAt l') (others db1) of
        (db2, Inl e) \<Rightarrow>
          (db2, Inl (Wrap (if status = LimitStatusDeleted then ''failed to delete limit''
                           else ''failed to update limit status'') e))
      | (db2, Inr _) \<Rightarrow>
          (audit_limit X A K eventType action i (Some (LimitToMap X l))
             (if status = LimitStatusDeleted then None else Some (LimitToMap X l')) reason db2,
           Inr l'))))"

definition ActivateLimit ::
  "ext \<Rightarrow> audit_ext \<Rightarrow> command_env \<Rightarrow> err option list
   \<Rightarrow> (('d, 'p, 'x) audit_db_scheme \<Rightarrow> ('d, 'p, 'x) audit_db_scheme) \<Rightarrow> uuid
   \<Rightarrow> ('d, 'p, 'x) audit_db_scheme \<Rightarrow> ('d, 'p, 'x) audit_db_scheme \<times> (err, 'd Limit) result" where
  "ActivateLimit X A K ctx others i db =
     (case ctx_Err ctx of
        Some e \<Rightarrow> (db, Inl e)
      | None \<Rightarrow>
          if i = uuid_Nil then (db, Inl ErrLimitInvalidID)
          else change_limit_status X A K others LimitStatusActive AuditEventLimitActivated
                 AuditActionActivate ''Limit activated via API'' i db)"

definition DeactivateLimit ::
  "ext \<Rightarrow> audit_ext \<Rightarrow> command_env \<Rightarrow> err option list
   \<Rightarrow> (('d, 'p, 'x) audit_db_scheme \<Rightarrow> ('d, 'p, 'x) audit_db_scheme) \<Rightarrow> uuid
   \<Rightarrow> ('d, 'p, 'x) audit_db_scheme \<Rightarrow> ('d, 'p, 'x) audit_db_scheme \<times> (err, 'd Limit) result" where
  "DeactivateLimit X A K ctx others i db =
     (case ctx_Err ctx of
        Some e \<Rightarrow> (db, Inl e)
      | None \<Rightarrow>
          if i = uuid_Nil then (db, Inl ErrLimitInvalidID)
          else change_limit_status X A K others LimitStatusInactive AuditEventLimitDeactivated
                 AuditActionDeactivate ''Limit deactivated via API'' i db)"

definition DraftLimit ::
  "ext \<Rightarrow> audit_ext \<Rightarrow> command_env \<Rightarrow> err option list
   \<Rightarrow> (('d, 'p, 'x) audit_db_scheme \<Rightarrow> ('d, 'p, 'x) audit_db_scheme) \<Rightarrow> uuid
   \<Rightarrow> ('d, 'p, 'x) audit_db_scheme \<Rightarrow> ('d, 'p, 'x) audit_db_scheme \<times> (err, 'd Limit) result" where
  "DraftLimit X A K ctx others i db =
     (case ctx_Err ctx of
        Some e \<Rightarrow> (db, Inl e)
      | None \<Rightarrow>
          if i = uuid_Nil then (db, Inl ErrLimitInvalidID)
          else change_limit_status X A K others LimitStatusDraft AuditEventLimitDrafted
                 AuditActionDraft ''Limit transitioned to draft via API'' i db)"

definition DeleteLimit ::
  "ext \<Rightarrow> audit_ext \<Rightarrow> command_env \<Rightarrow> err option list
   \<Rightarrow> (('d, 'p, 'x) audit_db_scheme \<Rightarrow> ('d, 'p, 'x) audit_db_scheme) \<Rightarrow> uuid
   \<Rightarrow> ('d, 'p, 'x) audit_db_scheme \<Rightarrow> ('d, 'p, 'x) audit_db_scheme \<times> (err, unit) result" where
  "DeleteLimit X A K ctx others i db =
     (if i = uuid_Nil then (db, Inl ErrLimitInvalidID)
      else case ctx_Err ctx of
          Some e \<Rightarrow> (db, Inl e)
        | None \<Rightarrow>
            (case change_limit_status X A K others LimitStatusDeleted AuditEventLimitDeleted
                    AuditActionDelete ''Limit deleted via API'' i db of
               (db1, Inl e) \<Rightarrow> (db1, Inl e)
             | (db1, Inr _) \<Rightarrow> (db1, Inr ())))"

end
