(* ===== verification/RuleCommandFacts.thy ===== *)
theory RuleCommandFacts
  imports RuleCommands AuditFacts
begin

text \<open>
  What a command on rules does to the tables and to the cache when no other request comes between its
  read and its write. A command that fails leaves every table as it was; one that succeeds changes
  one row along the life cycle or adds a draft, and the cache serves exactly the active rules.
\<close>

subsection \<open>The statements\<close>

definition only_faults :: "('d, 'x) counter_db_scheme \<Rightarrow> ('d, 'x) counter_db_scheme \<Rightarrow> bool" where
  "only_faults db db' = (db' = db\<lparr>db_faults := db_faults db'\<rparr>)"

lemma only_faults_consume [simp]:
  "only_faults db (consume_fault db)" "only_faults db (consume_fault (consume_fault db))"
  by (simp_all add: only_faults_def consume_fault_def)

lemma only_faults_refl [simp]: "only_faults db db"
  by (simp add: only_faults_def)

lemma only_faults_iff: "only_faults db db' \<longleftrightarrow> (\<exists>fs. db' = db\<lparr>db_faults := fs\<rparr>)"
proof
  assume "\<exists>fs. db' = db\<lparr>db_faults := fs\<rparr>"
  then show "only_faults db db'" by (auto simp: only_faults_def)
qed (auto simp: only_faults_def)

lemma only_faults_trans: "only_faults db db1 \<Longrightarrow> only_faults db1 db2 \<Longrightarrow> only_faults db db2"
  by (auto simp: only_faults_iff)

lemma only_faults_rules:
  fixes db db' :: "('d, 'p, 'x) rule_db_scheme"
  shows "only_faults db db' \<Longrightarrow> db_rules db' = db_rules db"
  by (auto simp: only_faults_iff)

lemma with_db_Inl_only_faults:
  assumes "with_db what run db = (db', Inl e)" "\<And>d d' e. run d = (d', Inl e) \<Longrightarrow> only_faults d d'"
  shows "only_faults db db'"
  using assms(1)
proof (cases rule: with_db_cases)
  case (fault e)
  then show ?thesis by auto
next
  case ran
  then show ?thesis using assms(2) only_faults_trans only_faults_consume(2) by blast
qed

definition write_rows :: "'p Rule \<Rightarrow> 'p Rule list \<Rightarrow> 'p Rule list" where
  "write_rows rule rows = map (\<lambda>r. if live_rule (r_ID rule) r then updated_rule rule r else r) rows"

lemma RuleRepo_GetByID_cases:
  assumes "RuleRepo_GetByID i db = (db', res)"
  shows "only_faults db db'" "res = Inr rule \<Longrightarrow> find (live_rule i) (db_rules db) = Some rule"
  using assms unfolding RuleRepo_GetByID_def
  by (auto elim!: with_db_cases split: option.splits)

lemma RuleRepo_Update_cases:
  fixes db :: "('d, 'p, 'x) rule_db_scheme"
  assumes "RuleRepo_Update X rule db = (db', res)"
  shows "res = Inl e \<Longrightarrow> only_faults db db'"
    "res = Inr r \<Longrightarrow> r = rule \<and> db_rules db' = write_rows rule (db_rules db)"
  using assms unfolding RuleRepo_Update_def write_rows_def
  by (auto elim!: with_db_cases split: if_splits)

lemma RuleRepo_Create_cases:
  fixes db :: "('d, 'p, 'x) rule_db_scheme"
  assumes "RuleRepo_Create X rule db = (db', res)"
  shows "res = Inl e \<Longrightarrow> only_faults db db'"
    "res = Inr r \<Longrightarrow> r = rule \<and> db_rules db' = db_rules db @ [inserted_rule rule]
       \<and> (\<forall>x \<in> set (db_rules db). r_ID x \<noteq> r_ID rule)"
  using assms unfolding RuleRepo_Create_def
  by (auto elim!: with_db_cases simp: list_ex_iff split: if_splits)

lemma RuleRepo_Delete_cases:
  fixes db :: "('d, 'p, 'x) rule_db_scheme"
  assumes "RuleRepo_Delete i now db = (db', res)"
  shows "res = Inl e \<Longrightarrow> only_faults db db'"
    "res = Inr u \<Longrightarrow> db_rules db' = map (\<lambda>r. if live_rule i r then deleted_rule now r else r) (db_rules db)"
  using assms unfolding RuleRepo_Delete_def
  by (auto elim!: with_db_cases split: if_splits)

lemma audit_rule_tables [simp]:
  fixes db :: "('d, 'p, 'x) audit_db_scheme"
  shows "db_rules (audit_rule X A K et ac i before after reason db) = db_rules db"
  by (auto simp: audit_rule_def RecordRuleEvent_def record_crud_event_def AuditRepo_Insert_def
      AuditRepo_insertInternal_def Let_def draw_audit_id_def insert_with_id_def
      split: sum.splits option.splits)

lemma audit_rule_ok:
  assumes "audit_ok X A db"
  shows "audit_ok X A (audit_rule X A K et ac i before after reason db)"
  using assms AuditRepo_Insert_ok [OF _ surjective_pairing]
  by (auto simp: audit_rule_def RecordRuleEvent_def record_crud_event_def split: sum.splits)

subsection \<open>Commands and their effects\<close>

datatype rule_command =
    CmdCreate "CreateRuleInput option"
  | CmdUpdate uuid UpdateRuleInput
  | CmdActivate uuid
  | CmdDeactivate uuid
  | CmdDraft uuid
  | CmdDelete uuid

definition result_err :: "(err, 'a) result \<Rightarrow> err option" where
  "result_err r = (case r of Inl e \<Rightarrow> Some e | Inr _ \<Rightarrow> None)"

lemma result_err_simps [simp]: "result_err (Inl e) = Some e" "result_err (Inr x) = None"
  by (simp_all add: result_err_def)

text \<open>A command with nothing between its read and its write.\<close>

definition run_rule_command ::
  "ext \<Rightarrow> audit_ext \<Rightarrow> ('p, 'd) cel_ops \<Rightarrow> command_env \<Rightarrow> rule_command
   \<Rightarrow> ('d, 'p, 'x) audit_db_scheme \<times> 'p RuleCache
   \<Rightarrow> (('d, 'p, 'x) audit_db_scheme \<times> 'p RuleCache) \<times> err option" where
  "run_rule_command X A cel K cmd s =
     (case cmd of
        CmdCreate input \<Rightarrow> (let (db, r) = CreateRule X A cel K input (fst s) in ((db, snd s), result_err r))
      | CmdUpdate i input \<Rightarrow>
          (let (db, r) = UpdateRule X A cel K id i input (fst s) in ((db, snd s), result_err r))
      | CmdActivate i \<Rightarrow> (let (s', r) = ActivateRule X A cel K id i s in (s', result_err r))
      | CmdDeactivate i \<Rightarrow> (let (s', r) = DeactivateRule X A K id i s in (s', result_err r))
      | CmdDraft i \<Rightarrow> (let (db, r) = DraftRule X A K id i (fst s) in ((db, snd s), result_err r))
      | CmdDelete i \<Rightarrow> (let (db, r) = DeleteRule X A K id i (fst s) in ((db, snd s), result_err r)))"

text \<open>The specification of the commands: the rows and the entries of the cache before and after.\<close>

definition same_content :: "'p Rule \<Rightarrow> 'p Rule \<Rightarrow> bool" where
  "same_content x r =
     (r_ID r = r_ID x \<and> r_Name r = r_Name x \<and> r_Description r = r_Description x
      \<and> r_Expression r = r_Expression x \<and> r_Action r = r_Action x \<and> r_Scopes r = r_Scopes x)"

inductive rule_effect ::
  "(string \<Rightarrow> (err, 'p) result) \<Rightarrow> 'p Rule list \<times> (uuid \<Rightarrow> 'p CachedRule option)
   \<Rightarrow> 'p Rule list \<times> (uuid \<Rightarrow> 'p CachedRule option) \<Rightarrow> bool"
  for compile where
  eff_none: "rule_effect compile (rows, m) (rows, m)"
| eff_create: "rule_fields r \<Longrightarrow> r_Status r = RuleStatusDraft \<Longrightarrow> \<forall>x \<in> set rows. r_ID x \<noteq> r_ID r
    \<Longrightarrow> rule_effect compile (rows, m) (rows @ [inserted_rule r], m)"
| eff_edit: "find (live_rule i) rows = Some x \<Longrightarrow> r_ID r = i \<Longrightarrow> r_Status r = r_Status x
    \<Longrightarrow> (rule_fields x \<longrightarrow> rule_fields r)
    \<Longrightarrow> (r_Status x \<noteq> RuleStatusDraft \<longrightarrow> r_Expression r = r_Expression x)
    \<Longrightarrow> rule_effect compile (rows, m) (write_rows r rows, m)"
| eff_activate: "find (live_rule i) rows = Some x \<Longrightarrow> CanTransitionTo (r_Status x) RuleStatusActive
    \<Longrightarrow> same_content x r \<Longrightarrow> r_Status r = RuleStatusActive \<Longrightarrow> compile (r_Expression x) = Inr p
    \<Longrightarrow> rule_effect compile (rows, m)
          (write_rows r rows, m(i \<mapsto> \<lparr>cr_Rule = Some r, cr_Program = Some p\<rparr>))"
| eff_deactivate: "find (live_rule i) rows = Some x \<Longrightarrow> CanTransitionTo (r_Status x) RuleStatusInactive
    \<Longrightarrow> same_content x r \<Longrightarrow> r_Status r = RuleStatusInactive
    \<Longrightarrow> rule_effect compile (rows, m) (write_rows r rows, m(i := None))"
| eff_draft: "find (live_rule i) rows = Some x \<Longrightarrow> CanTransitionTo (r_Status x) RuleStatusDraft
    \<Longrightarrow> same_content x r \<Longrightarrow> r_Status r = RuleStatusDraft
    \<Longrightarrow> rule_effect compile (rows, m) (write_rows r rows, m)"
| eff_delete: "find (live_rule i) rows = Some x \<Longrightarrow> CanTransitionTo (r_Status x) RuleStatusDeleted
    \<Longrightarrow> rule_effect compile (rows, m)
          (map (\<lambda>r. if live_rule i r then deleted_rule now r else r) rows, m)"

subsection \<open>The parts of the commands\<close>

lemma Rule_Update_fields:
  assumes "Rule_Update r name expr desc scopes now = Inr r'" "rule_fields r"
  shows "rule_fields r'"
  using assms
  by (auto simp: Rule_Update_Inr Rule_Update_checks_None rule_fields_def split: option.splits)

lemma changed_rule_edit:
  assumes "changed_rule X cel K input x = Inr r"
  shows "r_ID r = r_ID x" "r_Status r = r_Status x" "rule_fields x \<longrightarrow> rule_fields r"
    "r_Status x \<noteq> RuleStatusDraft \<longrightarrow> r_Expression r = r_Expression x"
proof -
  obtain x1 where x1: "(case ur_in_Action input of None \<Rightarrow> Inr x
        | Some a \<Rightarrow> Rule_SetAction x a (k_now K)) = Inr x1"
    and r: "Rule_Update x1 (map_option (NormalizeName X) (ur_in_Name input)) (ur_in_Expression input)
        (ur_in_Description input) (ur_in_Scopes input) (k_later K) = Inr r"
    and e: "ur_in_Expression input = None \<or> r_Status x = RuleStatusDraft"
    using assms by (auto simp: changed_rule_def bind_result_Inr_iff split: option.splits if_splits)
  have 1: "r_ID x1 = r_ID x" "r_Status x1 = r_Status x" "r_Expression x1 = r_Expression x"
    "rule_fields x \<longrightarrow> rule_fields x1"
    using x1 by (auto simp: Rule_SetAction_def rule_fields_def split: option.splits if_splits)
  show "r_ID r = r_ID x" "r_Status r = r_Status x" using r 1 by (auto simp: Rule_Update_Inr)
  show "rule_fields x \<longrightarrow> rule_fields r"
    using Rule_Update_fields [OF r] 1(4) by blast
  show "r_Status x \<noteq> RuleStatusDraft \<longrightarrow> r_Expression r = r_Expression x"
    using r 1 e by (auto simp: Rule_Update_Inr)
qed

lemma with_status_Inr:
  assumes "with_status x s now = Inr r" "r_Status x \<noteq> s"
  shows "CanTransitionTo (r_Status x) s" "same_content x r" "r_Status r = s"
proof -
  have r: "Rule_SetStatus x s now = Inr r"
    using assms(1) by (auto simp: with_status_def split: sum.splits err.splits)
  then show "CanTransitionTo (r_Status x) s" using assms(2) Rule_SetStatus_Inr by blast
  show "same_content x r" using Rule_SetStatus_frame [OF r] by (simp add: same_content_def)
  show "r_Status r = s" using r by (rule rule_setter.set_status_target)
qed

lemma get_rule_cases:
  assumes "get_rule K i db = (db', res)"
  shows "only_faults db db'" "res = Inr x \<Longrightarrow> find (live_rule i) (db_rules db) = Some x"
  using assms RuleRepo_GetByID_cases [of i db]
  by (auto simp: get_rule_def split: prod.splits sum.splits)

lemma write_status_cases:
  fixes db :: "('d, 'p, 'x) audit_db_scheme"
  assumes "write_status X A K id s et ac reason x db = (db', res)" "r_Status x \<noteq> s"
  shows "res = Inl e \<Longrightarrow> only_faults db db'"
    "res = Inr r \<Longrightarrow> CanTransitionTo (r_Status x) s \<and> same_content x r \<and> r_Status r = s
       \<and> db_rules db' = write_rows r (db_rules db)"
proof -
  show "res = Inl e \<Longrightarrow> only_faults db db'"
    using assms(1) RuleRepo_Update_cases(1)
    by (fastforce simp: write_status_def split: sum.splits prod.splits)
  assume res: "res = Inr r"
  obtain x' where x': "with_status x s (k_now K) = Inr x'"
    using assms(1) res by (auto simp: write_status_def split: sum.splits)
  obtain db1 where u: "RuleRepo_Update X x' db = (db1, Inr r)"
    "db_rules db' = db_rules db1"
    using assms(1) res x' by (auto simp: write_status_def split: sum.splits prod.splits)
  show "CanTransitionTo (r_Status x) s \<and> same_content x r \<and> r_Status r = s
       \<and> db_rules db' = write_rows r (db_rules db)"
    using RuleRepo_Update_cases(2) [OF u(1) refl] with_status_Inr [OF x' assms(2)] u(2) by simp
qed

lemma find_only_faults:
  fixes db db' :: "('d, 'p, 'x) rule_db_scheme"
  shows "only_faults db db' \<Longrightarrow> find P (db_rules db') = find P (db_rules db)"
  by (simp add: only_faults_rules)

subsection \<open>The effect of each command\<close>

lemma CreateRule_cases:
  fixes db :: "('d, 'p, 'x) audit_db_scheme"
  assumes "CreateRule X A cel K input db = (db', res)"
  shows "res = Inl e \<Longrightarrow> only_faults db db'"
    "res = Inr r \<Longrightarrow> rule_effect compile (db_rules db, m) (db_rules db', m)"
proof -
  show "res = Inl e \<Longrightarrow> only_faults db db'"
    using assms RuleRepo_Create_cases(1)
    by (fastforce simp: CreateRule_def split: option.splits sum.splits prod.splits)
  assume res: "res = Inr r"
  obtain inp where "input = Some inp" using assms res by (cases input) (auto simp: CreateRule_def)
  then obtain rule db1 where n: "NewRule (k_newID K) (NormalizeName X (cr_in_Name inp))
      (cr_in_Expression inp) (cr_in_Action inp) (cr_in_Scopes inp)
      (if cr_in_Description inp = [] then None else Some (cr_in_Description inp)) (k_now K) = Inr rule"
    and c: "RuleRepo_Create X rule db = (db1, Inr r)" and db': "db_rules db' = db_rules db1"
    using assms res by (auto simp: CreateRule_def split: sum.splits prod.splits)
  have "rule_fields rule" "r_Status rule = RuleStatusDraft"
    using NewRule_ok(1,2) [OF n] by (simp_all add: rule_ok_def)
  with RuleRepo_Create_cases(2) [OF c refl] show "rule_effect compile (db_rules db, m) (db_rules db', m)"
    unfolding db' using eff_create by metis
qed

lemma UpdateRule_cases:
  fixes db :: "('d, 'p, 'x) audit_db_scheme"
  assumes "UpdateRule X A cel K id i input db = (db', res)"
  shows "res = Inl e \<Longrightarrow> only_faults db db'"
    "res = Inr r \<Longrightarrow> rule_effect compile (db_rules db, m) (db_rules db', m)"
proof -
  obtain db1 got where g: "RuleRepo_GetByID i db = (db1, got)" by fastforce
  note got = RuleRepo_GetByID_cases [OF g]
  show "only_faults db db'" if "res = Inl e"
  proof (cases got)
    case (Inl e)
    then show ?thesis using assms g got(1) by (simp add: UpdateRule_def)
  next
    case (Inr x)
    then show ?thesis
      using assms g got(1) that RuleRepo_Update_cases(1) only_faults_trans [OF got(1)]
      by (fastforce simp: UpdateRule_def split: sum.splits prod.splits)
  qed
  assume res: "res = Inr r"
  obtain x where x: "got = Inr x" using assms g res by (cases got) (auto simp: UpdateRule_def)
  obtain x' db2 where w: "changed_rule X cel K input x = Inr x'" "RuleRepo_Update X x' db1 = (db2, Inr r)"
    "db_rules db' = db_rules db2"
    using assms g x res by (auto simp: UpdateRule_def split: sum.splits prod.splits)
  have f: "find (live_rule i) (db_rules db) = Some x" using got(2) x .
  then have "r_ID x = i" by (auto simp: find_Some_iff live_rule_def)
  moreover have "r = x'" "db_rules db' = write_rows x' (db_rules db)"
    using RuleRepo_Update_cases(2) [OF w(2) refl] w(3) only_faults_rules [OF got(1)] by auto
  ultimately show "rule_effect compile (db_rules db, m) (db_rules db', m)"
    using eff_edit [OF f] changed_rule_edit [OF w(1)] by simp
qed

lemma ActivateRule_cases:
  fixes db :: "('d, 'p, 'x) audit_db_scheme"
  assumes "ActivateRule X A cel K id i (db, c) = ((db', c'), res)" "k_cacheWriter K"
  shows "res = Inl e \<Longrightarrow> only_faults db db' \<and> c' = c"
    "res = Inr r \<Longrightarrow> rule_effect (cel_Compile cel) (db_rules db, rc_rules c) (db_rules db', rc_rules c')"
proof -
  obtain db1 got where g: "get_rule K i db = (db1, got)" by fastforce
  note got = get_rule_cases [OF g]
  show "only_faults db db' \<and> c' = c" if "res = Inl e"
  proof (cases got)
    case (Inl e)
    then show ?thesis using assms g got(1) by (simp add: ActivateRule_def)
  next
    case (Inr x)
    then show ?thesis
      using assms g got(1) that write_status_cases(1) only_faults_trans [OF got(1)]
      by (fastforce simp: ActivateRule_def split: sum.splits prod.splits if_splits)
  qed
  assume res: "res = Inr r"
  obtain x where x: "got = Inr x" using assms g res by (cases got) (auto simp: ActivateRule_def)
  have f: "find (live_rule i) (db_rules db) = Some x" using got(2) x .
  then have i: "r_ID x = i" by (auto simp: find_Some_iff live_rule_def)
  show "rule_effect (cel_Compile cel) (db_rules db, rc_rules c) (db_rules db', rc_rules c')"
  proof (cases "r_Status x = RuleStatusActive")
    case True
    then have "db' = db1" "c' = c" using assms g x res by (auto simp: ActivateRule_def split: if_splits)
    then show ?thesis using eff_none only_faults_rules [OF got(1)] by metis
  next
    case False
    obtain p where p: "cel_Compile cel (r_Expression x) = Inr p"
      using assms g x res False by (auto simp: ActivateRule_def split: if_splits sum.splits)
    then have w: "write_status X A K id RuleStatusActive AuditEventRuleActivated AuditActionActivate
        ''Rule activated via API'' x db1 = (db', Inr r)" and c': "c' = UpsertRule r (Some p) (k_later K) c"
      using assms g x res False by (auto simp: ActivateRule_def split: if_splits sum.splits prod.splits)
    note eff = write_status_cases(2) [OF w False refl, unfolded only_faults_rules [OF got(1)]]
    have "rc_rules c' = (rc_rules c)(i \<mapsto> \<lparr>cr_Rule = Some r, cr_Program = Some p\<rparr>)"
      using eff i by (simp add: c' UpsertRule_def ApplyChanges_def store_rule_def same_content_def)
    then show ?thesis using eff_activate [OF f] eff p by metis
  qed
qed

lemma DeactivateRule_cases:
  fixes db :: "('d, 'p, 'x) audit_db_scheme"
  assumes "DeactivateRule X A K id i (db, c) = ((db', c'), res)" "k_cacheWriter K"
  shows "res = Inl e \<Longrightarrow> only_faults db db' \<and> c' = c"
    "res = Inr r \<Longrightarrow> rule_effect compile (db_rules db, rc_rules c) (db_rules db', rc_rules c')"
proof -
  obtain db1 got where g: "get_rule K i db = (db1, got)" by fastforce
  note got = get_rule_cases [OF g]
  show "only_faults db db' \<and> c' = c" if "res = Inl e"
  proof (cases got)
    case (Inl e)
    then show ?thesis using assms g got(1) by (simp add: DeactivateRule_def)
  next
    case (Inr x)
    then show ?thesis
      using assms g got(1) that write_status_cases(1) only_faults_trans [OF got(1)]
      by (fastforce simp: DeactivateRule_def split: sum.splits prod.splits if_splits)
  qed
  assume res: "res = Inr r"
  obtain x where x: "got = Inr x" using assms g res by (cases got) (auto simp: DeactivateRule_def)
  have f: "find (live_rule i) (db_rules db) = Some x" using got(2) x .
  then have i: "r_ID x = i" by (auto simp: find_Some_iff live_rule_def)
  show "rule_effect compile (db_rules db, rc_rules c) (db_rules db', rc_rules c')"
  proof (cases "r_Status x = RuleStatusInactive")
    case True
    then have "db' = db1" "c' = c" using assms g x res by (auto simp: DeactivateRule_def)
    then show ?thesis using eff_none only_faults_rules [OF got(1)] by metis
  next
    case False
    then have w: "write_status X A K id RuleStatusInactive AuditEventRuleDeactivated
        AuditActionDeactivate ''Rule deactivated via API'' x db1 = (db', Inr r)"
      and c': "c' = RemoveRule (r_ID r) (k_later K) c"
      using assms g x res by (auto simp: DeactivateRule_def split: sum.splits prod.splits)
    note eff = write_status_cases(2) [OF w False refl, unfolded only_faults_rules [OF got(1)]]
    have "rc_rules c' = (rc_rules c)(i := None)"
      using eff i by (simp add: c' RemoveRule_def ApplyChanges_def same_content_def)
    then show ?thesis using eff_deactivate [OF f] eff by metis
  qed
qed

lemma DraftRule_cases:
  fixes db :: "('d, 'p, 'x) audit_db_scheme"
  assumes "DraftRule X A K id i db = (db', res)"
  shows "res = Inl e \<Longrightarrow> only_faults db db'"
    "res = Inr r \<Longrightarrow> rule_effect compile (db_rules db, m) (db_rules db', m)"
proof -
  obtain db1 got where g: "get_rule K i db = (db1, got)" by fastforce
  note got = get_rule_cases [OF g]
  show "only_faults db db'" if "res = Inl e"
  proof (cases got)
    case (Inl e)
    then show ?thesis using assms g got(1) by (simp add: DraftRule_def)
  next
    case (Inr x)
    then show ?thesis
      using assms g got(1) that write_status_cases(1) only_faults_trans [OF got(1)]
      by (fastforce simp: DraftRule_def split: if_splits)
  qed
  assume res: "res = Inr r"
  obtain x where x: "got = Inr x" using assms g res by (cases got) (auto simp: DraftRule_def)
  have f: "find (live_rule i) (db_rules db) = Some x" using got(2) x .
  show "rule_effect compile (db_rules db, m) (db_rules db', m)"
  proof (cases "r_Status x = RuleStatusDraft")
    case True
    then have "db' = db1" using assms g x res by (auto simp: DraftRule_def)
    then show ?thesis using eff_none only_faults_rules [OF got(1)] by metis
  next
    case False
    then have w: "write_status X A K id RuleStatusDraft AuditEventRuleDrafted AuditActionDraft
        ''Rule transitioned to draft via API'' x db1 = (db', Inr r)"
      using assms g x res by (auto simp: DraftRule_def)
    note eff = write_status_cases(2) [OF w False refl, unfolded only_faults_rules [OF got(1)]]
    then show ?thesis using eff_draft [OF f] by metis
  qed
qed

lemma DeleteRule_cases:
  fixes db :: "('d, 'p, 'x) audit_db_scheme"
  assumes "DeleteRule X A K id i db = (db', res)"
  shows "res = Inl e \<Longrightarrow> only_faults db db'"
    "res = Inr u \<Longrightarrow> rule_effect compile (db_rules db, m) (db_rules db', m)"
proof -
  obtain db1 got where g: "get_rule K i db = (db1, got)" by fastforce
  note got = get_rule_cases [OF g]
  show "only_faults db db'" if "res = Inl e"
  proof (cases got)
    case (Inl e)
    then show ?thesis using assms g got(1) by (simp add: DeleteRule_def)
  next
    case (Inr x)
    then show ?thesis
      using assms g got(1) that RuleRepo_Delete_cases(1) only_faults_trans [OF got(1)]
      by (fastforce simp: DeleteRule_def split: sum.splits prod.splits if_splits)
  qed
  assume res: "res = Inr u"
  obtain x where x: "got = Inr x" using assms g res by (cases got) (auto simp: DeleteRule_def)
  have f: "find (live_rule i) (db_rules db) = Some x" using got(2) x .
  show "rule_effect compile (db_rules db, m) (db_rules db', m)"
  proof (cases "r_Status x = RuleStatusDeleted")
    case True
    then have "db' = db1" using assms g x res by (auto simp: DeleteRule_def)
    then show ?thesis using eff_none only_faults_rules [OF got(1)] by metis
  next
    case False
    then obtain db2 where d: "RuleRepo_Delete i (k_now K) db1 = (db2, Inr ())" "db_rules db' = db_rules db2"
      and t: "CanTransitionTo (r_Status x) RuleStatusDeleted"
      using assms g x res by (auto simp: DeleteRule_def split: if_splits sum.splits prod.splits)
    note eff = RuleRepo_Delete_cases(2) [OF d(1) refl, unfolded only_faults_rules [OF got(1)]]
    show ?thesis unfolding d(2) eff by (rule eff_delete [OF f t])
  qed
qed

text \<open>A command refines the specification, and one that fails changes nothing but the faults to come.\<close>

definition command_outcome ::
  "(string \<Rightarrow> (err, 'p) result) \<Rightarrow> ('d, 'p, 'x) rule_db_scheme \<Rightarrow> 'p RuleCache
   \<Rightarrow> ('d, 'p, 'x) rule_db_scheme \<Rightarrow> 'p RuleCache \<Rightarrow> err option \<Rightarrow> bool" where
  "command_outcome compile db c db' c' e =
     (if e = None then rule_effect compile (db_rules db, rc_rules c) (db_rules db', rc_rules c')
      else only_faults db db' \<and> c' = c)"

lemma outcomeI:
  assumes "e = result_err r" "\<And>f. r = Inl f \<Longrightarrow> only_faults db db' \<and> c' = c"
    "\<And>x. r = Inr x \<Longrightarrow> rule_effect compile (db_rules db, rc_rules c) (db_rules db', rc_rules c')"
  shows "command_outcome compile db c db' c' e"
  using assms by (cases r) (simp_all add: command_outcome_def)

lemma run_rule_command_outcome:
  fixes db :: "('d, 'p, 'x) audit_db_scheme"
  assumes "run_rule_command X A cel K cmd (db, c) = ((db', c'), e)" "k_cacheWriter K"
  shows "command_outcome (cel_Compile cel) db c db' c' e"
proof (cases cmd)
  case (CmdCreate input)
  obtain d r where C: "CreateRule X A cel K input db = (d, r)" by fastforce
  then have "db' = d" "c' = c" "e = result_err r"
    using assms CmdCreate by (simp_all add: run_rule_command_def)
  then show ?thesis
    using CreateRule_cases(1) [OF C]
      CreateRule_cases(2) [OF C, where compile = "cel_Compile cel" and m = "rc_rules c"]
    by - (rule outcomeI; simp)
next
  case (CmdUpdate i input)
  obtain d r where C: "UpdateRule X A cel K id i input db = (d, r)" by fastforce
  then have "db' = d" "c' = c" "e = result_err r"
    using assms CmdUpdate by (simp_all add: run_rule_command_def)
  then show ?thesis
    using UpdateRule_cases(1) [OF C]
      UpdateRule_cases(2) [OF C, where compile = "cel_Compile cel" and m = "rc_rules c"]
    by - (rule outcomeI; simp)
next
  case (CmdActivate i)
  obtain d d' r where C: "ActivateRule X A cel K id i (db, c) = ((d, d'), r)" by (metis surj_pair)
  then have "db' = d" "c' = d'" "e = result_err r"
    using assms CmdActivate by (simp_all add: run_rule_command_def)
  then show ?thesis
    using ActivateRule_cases [OF C assms(2)] by - (rule outcomeI; simp)
next
  case (CmdDeactivate i)
  obtain d d' r where C: "DeactivateRule X A K id i (db, c) = ((d, d'), r)" by (metis surj_pair)
  then have "db' = d" "c' = d'" "e = result_err r"
    using assms CmdDeactivate by (simp_all add: run_rule_command_def)
  then show ?thesis
    using DeactivateRule_cases(1) [OF C assms(2)]
      DeactivateRule_cases(2) [OF C assms(2), where compile = "cel_Compile cel"] by - (rule outcomeI; simp)
next
  case (CmdDraft i)
  obtain d r where C: "DraftRule X A K id i db = (d, r)" by fastforce
  then have "db' = d" "c' = c" "e = result_err r"
    using assms CmdDraft by (simp_all add: run_rule_command_def)
  then show ?thesis
    using DraftRule_cases(1) [OF C]
      DraftRule_cases(2) [OF C, where compile = "cel_Compile cel" and m = "rc_rules c"]
    by - (rule outcomeI; simp)
next
  case (CmdDelete i)
  obtain d r where C: "DeleteRule X A K id i db = (d, r)" by fastforce
  then have "db' = d" "c' = c" "e = result_err r"
    using assms CmdDelete by (simp_all add: run_rule_command_def)
  then show ?thesis
    using DeleteRule_cases(1) [OF C]
      DeleteRule_cases(2) [OF C, where compile = "cel_Compile cel" and m = "rc_rules c"]
    by (cases r) (simp_all add: command_outcome_def)
qed

lemma command_outcome_effect:
  "command_outcome compile db c db' c' e
   \<Longrightarrow> rule_effect compile (db_rules db, rc_rules c) (db_rules db', rc_rules c')"
  using only_faults_rules [of db db'] eff_none
  by (auto simp: command_outcome_def split: if_splits)

subsection \<open>What the specification keeps\<close>

text \<open>The path of a row: its identifier and its time of creation stay, its status walks along the
  transitions, and a deleted row does not change any more.\<close>

definition row_path :: "'p Rule \<Rightarrow> 'p Rule \<Rightarrow> bool" where
  "row_path r r' =
     (r_ID r' = r_ID r \<and> r_CreatedAt r' = r_CreatedAt r
      \<and> CanTransitionTo\<^sup>*\<^sup>* (r_Status r) (r_Status r') \<and> (r_DeletedAt r \<noteq> None \<longrightarrow> r' = r))"

text \<open>The cache has an entry exactly for the active rules: the rule with its expression as the table
  has it, and the program compiled from it.\<close>

definition entry_follows ::
  "(string \<Rightarrow> (err, 'p) result) \<Rightarrow> uuid \<Rightarrow> 'p Rule option \<Rightarrow> 'p CachedRule option \<Rightarrow> bool" where
  "entry_follows compile i row e =
     (case row of
        None \<Rightarrow> e = None
      | Some r \<Rightarrow>
          if r_Status r \<noteq> RuleStatusActive then e = None
          else (case e of
              None \<Rightarrow> False
            | Some cr \<Rightarrow> cr_Program cr \<noteq> None
                \<and> compile (r_Expression r) = Inr (the (cr_Program cr))
                \<and> (case cr_Rule cr of None \<Rightarrow> False
                   | Some q \<Rightarrow> r_ID q = i \<and> r_Expression q = r_Expression r)))"

definition cache_follows ::
  "(string \<Rightarrow> (err, 'p) result) \<Rightarrow> 'p Rule list \<Rightarrow> (uuid \<Rightarrow> 'p CachedRule option) \<Rightarrow> bool" where
  "cache_follows compile rows m = (\<forall>i. entry_follows compile i (find (live_rule i) rows) (m i))"

lemma entry_follows_simps [simp]:
  "entry_follows compile i None e \<longleftrightarrow> e = None"
  "r_Status r \<noteq> RuleStatusActive \<Longrightarrow> entry_follows compile i (Some r) e \<longleftrightarrow> e = None"
  "r_Status r = RuleStatusActive \<Longrightarrow>
     entry_follows compile i (Some r) (Some \<lparr>cr_Rule = Some q, cr_Program = Some p\<rparr>) \<longleftrightarrow>
     r_ID q = i \<and> r_Expression q = r_Expression r \<and> compile (r_Expression r) = Inr p"
  by (auto simp add: entry_follows_def)

lemma entry_follows_cong:
  assumes "r_Status r = r_Status x" "r_Status x \<noteq> RuleStatusDraft \<longrightarrow> r_Expression r = r_Expression x"
  shows "entry_follows compile i (Some r) e = entry_follows compile i (Some x) e"
  using assms
  by (cases "r_Status x = RuleStatusActive") (simp_all add: entry_follows_def cong: option.case_cong)

lemma find_live:
  "find (live_rule i) rows = Some x \<Longrightarrow> x \<in> set rows \<and> r_ID x = i \<and> r_DeletedAt x = None"
  by (auto simp: find_Some_iff live_rule_def)

lemma live_rule_is:
  assumes "distinct (map r_ID rows)" "find (live_rule i) rows = Some x" "r \<in> set rows" "live_rule i r"
  shows "r = x"
  using live_rule_unique [OF assms(1)] find_live [OF assms(2)] assms(3,4) by (auto simp: live_rule_def)

lemma row_path_refl [simp]: "row_path r r"
  by (simp add: row_path_def)

lemma row_path_trans: "row_path r r' \<Longrightarrow> row_path r' r'' \<Longrightarrow> row_path r r''"
  by (auto simp: row_path_def)

lemma write_rows_path:
  assumes "distinct (map r_ID rows)" "find (live_rule (r_ID r)) rows = Some x"
    "r_Status r = r_Status x \<or> CanTransitionTo (r_Status x) (r_Status r)"
  shows "list_all2 row_path rows (write_rows r rows)"
proof -
  have "row_path y (if live_rule (r_ID r) y then updated_rule r y else y)" if "y \<in> set rows" for y
    using live_rule_is [OF assms(1,2) that] assms(3)
    by (auto simp: row_path_def updated_rule_def live_rule_def)
  then show ?thesis by (auto simp: write_rows_def list_all2_conv_all_nth)
qed

lemma delete_rows_path:
  assumes "distinct (map r_ID rows)" "find (live_rule i) rows = Some x"
    "CanTransitionTo (r_Status x) RuleStatusDeleted"
  shows "list_all2 row_path rows (map (\<lambda>r. if live_rule i r then deleted_rule now r else r) rows)"
proof -
  have "row_path y (if live_rule i y then deleted_rule now y else y)" if "y \<in> set rows" for y
    using live_rule_is [OF assms(1,2) that] assms(3)
    by (auto simp: row_path_def deleted_rule_def live_rule_def)
  then show ?thesis by (auto simp: list_all2_conv_all_nth)
qed

text \<open>What holds of the rows after any number of commands: unique identifiers, valid fields, no
  deletion time on a rule that is not deleted.\<close>

definition rows_wf :: "'p Rule list \<Rightarrow> bool" where
  "rows_wf rows =
     (distinct (map r_ID rows)
      \<and> (\<forall>r \<in> set rows. rule_fields r \<and> (r_Status r = RuleStatusDeleted \<longleftrightarrow> r_DeletedAt r \<noteq> None)))"

lemma write_rows_wf:
  assumes "rows_wf rows" "rule_fields r" "r_Status r \<noteq> RuleStatusDeleted"
  shows "rows_wf (write_rows r rows)"
proof -
  have "map r_ID (write_rows r rows) = map r_ID rows"
    by (simp add: write_rows_def updated_rule_def)
  moreover have "rule_fields y \<and> (r_Status y = RuleStatusDeleted \<longleftrightarrow> r_DeletedAt y \<noteq> None)"
    if y: "y \<in> set (write_rows r rows)" for y
  proof -
    obtain z where "z \<in> set rows" "y = (if live_rule (r_ID r) z then updated_rule r z else z)"
      using y by (auto simp: write_rows_def)
    then show ?thesis using assms
      by (auto simp: rows_wf_def rule_fields_def updated_rule_def live_rule_def)
  qed
  ultimately show ?thesis using assms(1) by (simp add: rows_wf_def)
qed

lemma delete_rows_wf:
  assumes "rows_wf rows"
  shows "rows_wf (map (\<lambda>r. if live_rule i r then deleted_rule now r else r) rows)"
proof -
  have ids: "map r_ID (map (\<lambda>r. if live_rule i r then deleted_rule now r else r) rows) = map r_ID rows"
    by (simp add: deleted_rule_def)
  show ?thesis
    unfolding rows_wf_def ids
    using assms by (auto simp: rows_wf_def deleted_rule_def rule_fields_def)
qed

lemma find_write_rows:
  "find (live_rule j) (write_rows r rows) =
     (if j = r_ID r then map_option (updated_rule r) (find (live_rule j) rows)
      else find (live_rule j) rows)"
proof (induction rows)
  case (Cons y rows)
  have "live_rule j (updated_rule r y) = live_rule j y" "live_rule (r_ID r) y \<Longrightarrow> r_ID y = r_ID r"
    "live_rule j y \<Longrightarrow> r_ID y = j"
    by (simp_all add: live_rule_def updated_rule_def)
  with Cons show ?case by (auto simp: write_rows_def)
qed (simp add: write_rows_def)

lemma find_delete_rows:
  "find (live_rule j) (map (\<lambda>r. if live_rule i r then deleted_rule now r else r) rows) =
     (if j = i then None else find (live_rule j) rows)"
proof (induction rows)
  case (Cons y rows)
  have "\<not> live_rule j (deleted_rule now y)" "live_rule i y \<Longrightarrow> r_ID y = i" "live_rule j y \<Longrightarrow> r_ID y = j"
    by (simp_all add: live_rule_def deleted_rule_def)
  with Cons show ?case by auto
qed simp

lemma find_append:
  "find P (xs @ ys) = (case find P xs of None \<Rightarrow> find P ys | Some x \<Rightarrow> Some x)"
  by (induction xs) auto

lemma cache_followsD:
  assumes "cache_follows compile rows m" "find (live_rule i) rows = Some r"
  shows "entry_follows compile i (Some r) (m i)"
proof -
  have "entry_follows compile i (find (live_rule i) rows) (m i)"
    using assms(1) by (simp add: cache_follows_def)
  then show ?thesis unfolding assms(2) .
qed

lemma cache_followsN:
  assumes "cache_follows compile rows m" "find (live_rule i) rows = None"
  shows "m i = None"
proof -
  have "entry_follows compile i (find (live_rule i) rows) (m i)"
    using assms(1) by (simp add: cache_follows_def)
  then show ?thesis unfolding assms(2) by simp
qed

lemma write_rows_cache:
  assumes "cache_follows compile rows m" "find (live_rule i) rows = Some x" "r_ID r = i"
    "entry_follows compile i (Some r) e"
  shows "cache_follows compile (write_rows r rows) (m(i := e))"
  unfolding cache_follows_def
proof
  fix j
  have "entry_follows compile i (Some (updated_rule r x)) e"
    using assms(4) entry_follows_cong [of "updated_rule r x" r] by (simp add: updated_rule_def)
  moreover have "entry_follows compile j (find (live_rule j) rows) (m j)"
    using assms(1) by (simp add: cache_follows_def)
  ultimately show "entry_follows compile j (find (live_rule j) (write_rows r rows)) ((m(i := e)) j)"
    using assms(2,3) by (simp add: find_write_rows)
qed

lemma delete_rows_cache:
  assumes "cache_follows compile rows m" "find (live_rule i) rows = Some x"
    "r_Status x \<noteq> RuleStatusActive"
  shows "cache_follows compile (map (\<lambda>r. if live_rule i r then deleted_rule now r else r) rows) m"
  using assms cache_followsD [OF assms(1,2)]
  by (simp add: cache_follows_def find_delete_rows)

text \<open>The rows of before, as they are after.\<close>

definition rows_path :: "'p Rule list \<Rightarrow> 'p Rule list \<Rightarrow> bool" where
  "rows_path rows rows' = list_all2 row_path rows (take (length rows) rows')"

lemma rows_path_refl [simp]: "rows_path rows rows"
  by (simp add: rows_path_def list_all2_refl)

lemma rows_path_append [simp]: "rows_path rows (rows @ new)"
  by (simp add: rows_path_def list_all2_refl)

lemma rows_path_trans:
  assumes "rows_path a b" "rows_path b c"
  shows "rows_path a c"
proof -
  have ab: "length a \<le> length b" "\<And>i. i < length a \<Longrightarrow> row_path (a ! i) (b ! i)"
    and bc: "length b \<le> length c" "\<And>i. i < length b \<Longrightarrow> row_path (b ! i) (c ! i)"
    using assms by (auto simp: rows_path_def list_all2_conv_all_nth)
  then show ?thesis
    using row_path_trans by (fastforce simp: rows_path_def list_all2_conv_all_nth)
qed

lemma rows_path_same_length: "list_all2 row_path rows rows' \<Longrightarrow> rows_path rows rows'"
  by (simp add: rows_path_def list_all2_lengthD)

lemma same_content_fields: "same_content x r \<Longrightarrow> rule_fields x \<Longrightarrow> rule_fields r"
  by (simp add: same_content_def rule_fields_def)

lemma status_write_keeps:
  assumes "rows_wf rows" "cache_follows compile rows m" "find (live_rule i) rows = Some x"
    "CanTransitionTo (r_Status x) (r_Status r)" "same_content x r" "r_Status r \<noteq> RuleStatusDeleted"
    "entry_follows compile i (Some r) e"
  shows "rows_wf (write_rows r rows) \<and> cache_follows compile (write_rows r rows) (m(i := e))
    \<and> rows_path rows (write_rows r rows)"
proof (intro conjI)
  have x: "x \<in> set rows" "r_ID r = i" and d: "distinct (map r_ID rows)"
    using find_live [OF assms(3)] assms(1,5) by (auto simp: same_content_def rows_wf_def)
  show "rows_wf (write_rows r rows)"
  proof (rule write_rows_wf [OF assms(1) _ assms(6)])
    have "rule_fields x" using assms(1) x(1) by (simp add: rows_wf_def)
    then show "rule_fields r" by (rule same_content_fields [OF assms(5)])
  qed
  show "cache_follows compile (write_rows r rows) (m(i := e))"
    by (rule write_rows_cache [OF assms(2,3) x(2) assms(7)])
  show "rows_path rows (write_rows r rows)"
    using write_rows_path [OF d, of r x] assms(3,4) x(2) rows_path_same_length by blast
qed

lemma rule_effect_keeps:
  assumes "rule_effect compile s s'" "rows_wf (fst s)" "cache_follows compile (fst s) (snd s)"
  shows "rows_wf (fst s') \<and> cache_follows compile (fst s') (snd s') \<and> rows_path (fst s) (fst s')"
  using assms
proof (induction rule: rule_effect.induct)
  case (eff_none rows m)
  then show ?case by simp
next
  case (eff_create r rows m)
  have "entry_follows compile i (find (live_rule i) (rows @ [inserted_rule r])) (m i)" for i
  proof (cases "find (live_rule i) rows")
    case None
    then have "m i = None" using cache_followsN [OF _ None, of compile m] eff_create(5) by simp
    then show ?thesis using None eff_create(2) by (simp add: find_append inserted_rule_def)
  next
    case (Some x)
    then show ?thesis using cache_followsD [OF _ Some] eff_create(5) by (simp add: find_append)
  qed
  then have "cache_follows compile (rows @ [inserted_rule r]) m" by (simp add: cache_follows_def)
  moreover have "rows_wf (rows @ [inserted_rule r])"
    using eff_create by (auto simp: rows_wf_def inserted_rule_def rule_fields_def)
  ultimately show ?case by simp
next
  case (eff_edit i rows x r m)
  note x = find_live [OF eff_edit(1)]
  have s: "r_Status r \<noteq> RuleStatusDeleted" "rule_fields r" "distinct (map r_ID rows)"
    using x eff_edit by (auto simp: rows_wf_def)
  have "entry_follows compile i (Some r) (m i)"
    using cache_followsD [of compile rows m i x] entry_follows_cong [of r x] eff_edit by simp
  from write_rows_cache [OF _ eff_edit(1,2) this, of m]
  have "cache_follows compile (write_rows r rows) m" using eff_edit(7) by simp
  moreover have "list_all2 row_path rows (write_rows r rows)"
    using write_rows_path [of rows r x] eff_edit(1,2,3) s(3) by simp
  ultimately show ?case
    using write_rows_wf [of rows r] eff_edit s rows_path_same_length by simp
next
  case (eff_activate i rows x r p m)
  have "entry_follows compile i (Some r) (Some \<lparr>cr_Rule = Some r, cr_Program = Some p\<rparr>)"
    using eff_activate find_live [OF eff_activate(1)] by (simp add: same_content_def)
  moreover have "rows_wf rows" "cache_follows compile rows m" "CanTransitionTo (r_Status x) (r_Status r)"
    "r_Status r \<noteq> RuleStatusDeleted"
    using eff_activate by simp_all
  ultimately show ?case
    unfolding fst_conv snd_conv using status_write_keeps [OF _ _ eff_activate(1) _ eff_activate(3)] by blast
next
  case (eff_deactivate i rows x r m)
  have "rows_wf rows" "cache_follows compile rows m" "CanTransitionTo (r_Status x) (r_Status r)"
    "r_Status r \<noteq> RuleStatusDeleted" "entry_follows compile i (Some r) None"
    using eff_deactivate by simp_all
  then show ?case
    unfolding fst_conv snd_conv
    using status_write_keeps [OF _ _ eff_deactivate(1) _ eff_deactivate(3)] by blast
next
  case (eff_draft i rows x r m)
  have "r_Status x \<noteq> RuleStatusActive" using eff_draft(2) by (auto simp: status_defs)
  then have "m(i := None) = m" using cache_followsD [OF _ eff_draft(1), of compile m] eff_draft(6)
    by (simp add: fun_upd_idem)
  moreover have "rows_wf (write_rows r rows) \<and> cache_follows compile (write_rows r rows) (m(i := None))
      \<and> rows_path rows (write_rows r rows)"
    using status_write_keeps [of rows compile m i x r None] eff_draft by simp
  ultimately show ?case by simp
next
  case (eff_delete i rows x m now)
  have "r_Status x \<noteq> RuleStatusActive" using eff_delete(2) by (auto simp: status_defs)
  then show ?case
    using eff_delete delete_rows_cache [of compile rows m i x now] delete_rows_wf [of rows i now]
      delete_rows_path [of rows i x now] rows_path_same_length
    by (simp add: rows_wf_def)
qed

end
