(* ===== verification/LimitCommandFacts.thy ===== *)
theory LimitCommandFacts
  imports LimitCommands RuleCommandFacts
begin

text \<open>
  What a command on limits does to the table when no other request comes between its read and its
  write: it adds a valid draft, or replaces one row by a valid successor along the life cycle; one
  that fails leaves every table as it was.
\<close>

lemma build_limit_valid:
  assumes "build_limit X parse_time K input = Inr l"
  shows "Limit_Validate X l = None" "l_Status l = LimitStatusDraft"
  using assms
  by (auto simp: build_limit_def Let_def bind_result_Inr_iff NewLimit_def NewLimitWithTimeWindow_def
      NewLimitWithCustomPeriod_def NewLimitWithCustomPeriodAndTimeWindow_def newLimitBase_draft
      split: option.splits if_splits)

lemma changed_limit_kept:
  assumes "changed_limit parse_time K input l = Inr l'"
  shows "same_identity l l'" "l_Status l' = l_Status l" "l_DeletedAt l' = l_DeletedAt l"
    "Limit_Validate X l = None \<Longrightarrow> Limit_Validate X l' = None"
proof -
  obtain cs ce where "(case Limit_Update l (ul_in_Name input) (ul_in_MaxAmount input)
      (ul_in_Description input) (ul_in_Scopes input) (ul_in_ActiveTimeStart input)
      (ul_in_ActiveTimeEnd input) cs ce (k_now K) of (l', Some e) \<Rightarrow> Inl e | (l', None) \<Rightarrow> Inr l') = Inr l'"
    using assms unfolding changed_limit_def bind_result_Inr_iff by blast
  then have u: "Limit_Update l (ul_in_Name input) (ul_in_MaxAmount input)
      (ul_in_Description input) (ul_in_Scopes input) (ul_in_ActiveTimeStart input)
      (ul_in_ActiveTimeEnd input) cs ce (k_now K) = (l', None)"
    by (auto split: prod.split_asm option.split_asm)
  show "same_identity l l'" "l_Status l' = l_Status l" "l_DeletedAt l' = l_DeletedAt l"
    using Limit_Update_frame [OF u] by auto
  show "Limit_Validate X l = None \<Longrightarrow> Limit_Validate X l' = None"
    by (rule Limit_Update_Validate [OF u])
qed

subsection \<open>The statements\<close>

lemma LimitRepo_GetByID_cases:
  assumes "LimitRepo_GetByID i db = (db', res)"
  shows "only_faults db db'" "res = Inr l \<Longrightarrow> find (live_row i) (db_limits db) = Some l"
  using assms unfolding LimitRepo_GetByID_def
  by (auto elim!: with_db_cases split: option.splits)

definition replace_row :: "uuid \<Rightarrow> ('d Limit \<Rightarrow> 'd Limit) \<Rightarrow> 'd Limit list \<Rightarrow> 'd Limit list" where
  "replace_row i f rows = map (\<lambda>l. if live_row i l then f l else l) rows"

lemma LimitRepo_Create_cases:
  fixes db :: "('d, 'x) limit_db_scheme"
  assumes "LimitRepo_Create l db = (db', res)"
  shows "res = Inl e \<Longrightarrow> only_faults db db'"
    "res = Inr u \<Longrightarrow> db_limits db' = db_limits db @ [l\<lparr>l_DeletedAt := None\<rparr>]
       \<and> (\<forall>x \<in> set (db_limits db). l_ID x \<noteq> l_ID l)"
  using assms unfolding LimitRepo_Create_def
  by (auto elim!: with_db_cases simp: list_ex_iff consume_fault_def only_faults_def split: if_splits)

lemma LimitRepo_Update_cases:
  fixes db :: "('d, 'x) limit_db_scheme"
  assumes "LimitRepo_Update l db = (db', res)"
  shows "res = Inl e \<Longrightarrow> only_faults db db'"
    "res = Inr u \<Longrightarrow> db_limits db' = replace_row (l_ID l) (updated_row l) (db_limits db)"
  using assms unfolding LimitRepo_Update_def replace_row_def
  by (auto elim!: with_db_cases simp: consume_fault_def only_faults_def split: if_splits)

lemma LimitRepo_UpdateStatus_cases:
  fixes db :: "('d, 'x) limit_db_scheme"
  assumes "LimitRepo_UpdateStatus i s t db = (db', res)"
  shows "res = Inl e \<Longrightarrow> only_faults db db'"
    "res = Inr u \<Longrightarrow> db_limits db' = replace_row i (status_row s t) (db_limits db)"
  using assms unfolding LimitRepo_UpdateStatus_def replace_row_def
  by (auto elim!: with_db_cases simp: consume_fault_def only_faults_def split: if_splits)

lemma audit_limit_tables [simp]:
  fixes db :: "('d, 'p, 'x) audit_db_scheme"
  shows "db_limits (audit_limit X A K et ac i before after reason db) = db_limits db"
  by (auto simp: audit_limit_def RecordLimitEvent_def record_crud_event_def AuditRepo_Insert_def
      AuditRepo_insertInternal_def Let_def draw_audit_id_def insert_with_id_def consume_fault_def
      split: sum.splits option.splits)

lemma only_faults_limits:
  fixes db db' :: "('d, 'x) limit_db_scheme"
  shows "only_faults db db' \<Longrightarrow> db_limits db' = db_limits db"
  by (auto simp: only_faults_iff)

subsection \<open>Effects\<close>

text \<open>A successor of a row: valid when the row is, with its identity, and its status unchanged or
  one transition further.\<close>

definition limit_successor :: "ext \<Rightarrow> ('d::linordered_ab_group_add) Limit \<Rightarrow> 'd Limit \<Rightarrow> bool" where
  "limit_successor X l l' =
     (same_identity l l' \<and> (Limit_Validate X l = None \<longrightarrow> Limit_Validate X l' = None)
      \<and> (l_Status l' = l_Status l \<or> limit_can_transition (l_Status l) (l_Status l')))"

inductive limit_effect ::
  "ext \<Rightarrow> ('d::linordered_ab_group_add) Limit list \<Rightarrow> 'd Limit list \<Rightarrow> bool" for X where
  leff_none: "limit_effect X rows rows"
| leff_create: "Limit_Validate X l = None \<Longrightarrow> l_Status l = LimitStatusDraft
    \<Longrightarrow> \<forall>x \<in> set rows. l_ID x \<noteq> l_ID l \<Longrightarrow> limit_effect X rows (rows @ [l])"
| leff_change: "find (live_row i) rows = Some l \<Longrightarrow> limit_successor X l (f l)
    \<Longrightarrow> limit_effect X rows (replace_row i f rows)"

lemma CreateLimit_cases:
  fixes db :: "('d::linordered_ab_group_add, 'p, 'x) audit_db_scheme"
  assumes "CreateLimit X A parse_time K ctx input db = (db', res)"
  shows "res = Inl e \<Longrightarrow> only_faults db db'"
    "res = Inr r \<Longrightarrow> limit_effect X (db_limits db) (db_limits db')"
proof -
  show "res = Inl e \<Longrightarrow> only_faults db db'"
    using assms LimitRepo_Create_cases(1)
    by (fastforce simp: CreateLimit_def split: option.splits sum.splits prod.splits)
  assume res: "res = Inr r"
  obtain inp where "input = Some inp" using assms res by (cases input) (auto simp: CreateLimit_def)
  then obtain l db1 where b: "build_limit X parse_time K inp = Inr l"
    and c: "LimitRepo_Create l db = (db1, Inr ())" and db': "db_limits db' = db_limits db1"
    using assms res by (auto simp: CreateLimit_def split: option.splits sum.splits prod.splits)
  note v = build_limit_valid [OF b]
  then have "l\<lparr>l_DeletedAt := None\<rparr> = l" by (simp add: Limit_Validate_None)
  then show "limit_effect X (db_limits db) (db_limits db')"
    using LimitRepo_Create_cases(2) [OF c refl] leff_create [OF v] unfolding db' by simp
qed

lemma updated_row_same:
  assumes "same_identity l l'" "l_DeletedAt l' = l_DeletedAt l"
  shows "updated_row l' l = l'"
  using assms by (simp add: same_identity_def updated_row_def)

lemma find_live_row:
  "find (live_row i) rows = Some l \<Longrightarrow> l \<in> set rows \<and> l_ID l = i \<and> l_DeletedAt l = None"
  by (auto simp: find_Some_iff live_row_def)

lemma UpdateLimit_cases:
  fixes db :: "('d::linordered_ab_group_add, 'p, 'x) audit_db_scheme"
  assumes "UpdateLimit X A parse_time K ctx id i input db = (db', res)"
  shows "res = Inl e \<Longrightarrow> only_faults db db'"
    "res = Inr r \<Longrightarrow> limit_effect X (db_limits db) (db_limits db')"
proof -
  obtain db1 got where g: "LimitRepo_GetByID i db = (db1, got)" by fastforce
  note got = LimitRepo_GetByID_cases [OF g]
  show "only_faults db db'" if "res = Inl e"
  proof (cases got)
    case (Inl e)
    then show ?thesis using assms g got(1) by (auto simp: UpdateLimit_def Let_def split: option.splits if_splits)
  next
    case (Inr l)
    then show ?thesis
      using assms g got(1) that LimitRepo_Update_cases(1) only_faults_trans [OF got(1)]
      by (fastforce simp: UpdateLimit_def Let_def split: option.splits if_splits sum.splits prod.splits)
  qed
  assume res: "res = Inr r"
  obtain raw where raw: "input = Some raw" "i \<noteq> uuid_Nil" "ctx_Err ctx = None"
    using assms res by (auto simp: UpdateLimit_def Let_def split: option.splits if_splits)
  obtain l where l: "got = Inr l" using assms g res raw by (cases got) (auto simp: UpdateLimit_def)
  have f: "find (live_row i) (db_limits db) = Some l" using got(2) l .
  show "limit_effect X (db_limits db) (db_limits db')"
  proof (cases "hasChanges (normalizeInput raw)")
    case False
    then have "db' = db1" using assms g raw l res by (auto simp: UpdateLimit_def Let_def split: if_splits)
    then show ?thesis using only_faults_limits [OF got(1)] leff_none by metis
  next
    case True
    then obtain l' db2 where w: "changed_limit parse_time K (normalizeInput raw) l = Inr l'"
      "LimitRepo_Update l' db1 = (db2, Inr ())" "db_limits db' = db_limits db2"
      using assms g raw l res
      by (auto simp: UpdateLimit_def Let_def split: if_splits option.splits sum.splits prod.splits)
    note k = changed_limit_kept [OF w(1)]
    have "l_ID l' = i" using k(1) find_live_row [OF f] by (simp add: same_identity_def)
    then have "db_limits db' = replace_row i (updated_row l') (db_limits db)"
      using LimitRepo_Update_cases(2) [OF w(2) refl] w(3) only_faults_limits [OF got(1)] by simp
    moreover have "limit_successor X l (updated_row l' l)"
      using k(1,2) k(4) [of X] updated_row_same [OF k(1,3)] by (simp add: limit_successor_def)
    ultimately show ?thesis using leff_change [OF f] by simp
  qed
qed

lemma change_limit_status_cases:
  fixes db :: "('d::linordered_ab_group_add, 'p, 'x) audit_db_scheme"
  assumes "change_limit_status X A K id s et ac reason i db = (db', res)"
  shows "res = Inl e \<Longrightarrow> only_faults db db'"
    "res = Inr r \<Longrightarrow> limit_effect X (db_limits db) (db_limits db')"
proof -
  obtain db1 got where g: "LimitRepo_GetByID i db = (db1, got)" by fastforce
  note got = LimitRepo_GetByID_cases [OF g]
  show "only_faults db db'" if "res = Inl e"
  proof (cases got)
    case (Inl e)
    then show ?thesis using assms g got(1) by (simp add: change_limit_status_def)
  next
    case (Inr l)
    then show ?thesis
      using assms g got(1) that LimitRepo_UpdateStatus_cases(1) only_faults_trans [OF got(1)]
      by (fastforce simp: change_limit_status_def split: if_splits sum.splits prod.splits)
  qed
  assume res: "res = Inr r"
  obtain l where l: "got = Inr l" using assms g res by (cases got) (auto simp: change_limit_status_def)
  have f: "find (live_row i) (db_limits db) = Some l" using got(2) l .
  show "limit_effect X (db_limits db) (db_limits db')"
  proof (cases "l_Status l = s")
    case True
    then have "db' = db1" using assms g l res by (auto simp: change_limit_status_def)
    then show ?thesis using only_faults_limits [OF got(1)] leff_none by metis
  next
    case False
    then obtain l' db2 where w: "Limit_SetStatus l s (k_now K) = Inr l'"
      "LimitRepo_UpdateStatus i s (l_UpdatedAt l') db1 = (db2, Inr ())" "db_limits db' = db_limits db2"
      using assms g l res by (auto simp: change_limit_status_def split: sum.splits prod.splits)
    have l': "limit_can_transition (l_Status l) s" "l' = l\<lparr>l_Status := s, l_UpdatedAt := k_now K,
        l_DeletedAt := (if s = LimitStatusDeleted then Some (k_now K) else None)\<rparr>"
      using w(1) False by (auto simp: Limit_SetStatus_Inr)
    then have "status_row s (l_UpdatedAt l') l = l'"
      using find_live_row [OF f] by (simp add: status_row_def Let_def)
    moreover have "limit_successor X l l'"
      using l' Limit_SetStatus_Validate [OF w(1)] by (simp add: limit_successor_def same_identity_def)
    moreover have "db_limits db' = replace_row i (status_row s (l_UpdatedAt l')) (db_limits db)"
      using LimitRepo_UpdateStatus_cases(2) [OF w(2) refl] w(3) only_faults_limits [OF got(1)] by simp
    ultimately show ?thesis using leff_change [OF f] by metis
  qed
qed

subsection \<open>Commands\<close>

datatype 'd limit_command =
    LCreate "'d CreateLimitInput option"
  | LUpdate uuid "'d UpdateLimitInput option"
  | LActivate uuid
  | LDeactivate uuid
  | LDraft uuid
  | LDelete uuid

definition run_limit_command ::
  "ext \<Rightarrow> audit_ext \<Rightarrow> (string \<Rightarrow> (err, gotime) result) \<Rightarrow> command_env \<Rightarrow> err option list
   \<Rightarrow> ('d::linordered_ab_group_add) limit_command \<Rightarrow> ('d, 'p, 'x) audit_db_scheme
   \<Rightarrow> ('d, 'p, 'x) audit_db_scheme \<times> err option" where
  "run_limit_command X A parse_time K ctx cmd db =
     (case cmd of
        LCreate input \<Rightarrow> map_prod id result_err (CreateLimit X A parse_time K ctx input db)
      | LUpdate i input \<Rightarrow> map_prod id result_err (UpdateLimit X A parse_time K ctx id i input db)
      | LActivate i \<Rightarrow> map_prod id result_err (ActivateLimit X A K ctx id i db)
      | LDeactivate i \<Rightarrow> map_prod id result_err (DeactivateLimit X A K ctx id i db)
      | LDraft i \<Rightarrow> map_prod id result_err (DraftLimit X A K ctx id i db)
      | LDelete i \<Rightarrow> map_prod id result_err (DeleteLimit X A K ctx id i db))"

definition limit_command_outcome ::
  "ext \<Rightarrow> ('d::linordered_ab_group_add, 'x) limit_db_scheme \<Rightarrow> ('d, 'x) limit_db_scheme \<times> err option \<Rightarrow> bool" where
  "limit_command_outcome X db s =
     (if snd s = None then limit_effect X (db_limits db) (db_limits (fst s)) else only_faults db (fst s))"

lemma limit_command_outcomeI:
  assumes "\<And>e. snd s = Inl e \<Longrightarrow> only_faults db (fst s)"
    "\<And>r. snd s = Inr r \<Longrightarrow> limit_effect X (db_limits db) (db_limits (fst s))"
  shows "limit_command_outcome X db (map_prod id result_err s)"
  using assms by (cases "snd s") (simp_all add: limit_command_outcome_def)

lemma change_limit_status_outcome:
  "limit_command_outcome X db (map_prod id result_err (change_limit_status X A K id s et ac reason i db))"
  by (rule limit_command_outcomeI) (rule change_limit_status_cases [OF surjective_pairing], assumption)+

lemma limit_command_outcome_err [simp]: "limit_command_outcome X db (db, Some e)"
  by (simp add: limit_command_outcome_def)

lemma run_limit_command_outcome:
  "limit_command_outcome X db (run_limit_command X A parse_time K ctx cmd db)"
proof (cases cmd)
  case (LCreate input)
  have "limit_command_outcome X db (map_prod id result_err (CreateLimit X A parse_time K ctx input db))"
    by (rule limit_command_outcomeI) (rule CreateLimit_cases [OF surjective_pairing], assumption)+
  then show ?thesis using LCreate by (simp add: run_limit_command_def)
next
  case (LUpdate i input)
  have "limit_command_outcome X db (map_prod id result_err (UpdateLimit X A parse_time K ctx id i input db))"
    by (rule limit_command_outcomeI) (rule UpdateLimit_cases [OF surjective_pairing], assumption)+
  then show ?thesis using LUpdate by (simp add: run_limit_command_def)
next
  case (LDelete i)
  note change_limit_status_outcome [of X db A K LimitStatusDeleted AuditEventLimitDeleted
      AuditActionDelete "''Limit deleted via API''" i]
  then have "limit_command_outcome X db (map_prod id result_err (DeleteLimit X A K ctx id i db))"
    by (cases "change_limit_status X A K id LimitStatusDeleted AuditEventLimitDeleted AuditActionDelete
        ''Limit deleted via API'' i db")
      (auto simp: DeleteLimit_def result_err_def split: option.split sum.splits)
  then show ?thesis using LDelete by (simp add: run_limit_command_def)
qed (use change_limit_status_outcome in \<open>auto simp: run_limit_command_def ActivateLimit_def
      DeactivateLimit_def DraftLimit_def split: option.split\<close>)

subsection \<open>What the effects keep\<close>

definition limit_rows_wf :: "ext \<Rightarrow> ('d::linordered_ab_group_add) Limit list \<Rightarrow> bool" where
  "limit_rows_wf X rows =
     (distinct (map l_ID rows) \<and> (\<forall>l \<in> set rows. Limit_Validate X l = None))"

definition limit_path :: "'d Limit \<Rightarrow> 'd Limit \<Rightarrow> bool" where
  "limit_path l l' =
     (same_identity l l' \<and> limit_can_transition\<^sup>*\<^sup>* (l_Status l) (l_Status l')
      \<and> (l_DeletedAt l \<noteq> None \<longrightarrow> l' = l))"

definition limits_path :: "'d Limit list \<Rightarrow> 'd Limit list \<Rightarrow> bool" where
  "limits_path rows rows' = list_all2 limit_path rows (take (length rows) rows')"

lemma limit_path_refl [simp]: "limit_path l l"
  by (simp add: limit_path_def)

lemma limits_path_refl [simp]: "limits_path rows (rows @ new)" "limits_path rows rows"
  by (simp_all add: limits_path_def list_all2_refl)

lemma limit_path_trans: "limit_path a b \<Longrightarrow> limit_path b c \<Longrightarrow> limit_path a c"
  unfolding limit_path_def by (metis rtranclp_trans same_identity_trans)

lemma limits_path_trans:
  assumes "limits_path a b" "limits_path b c"
  shows "limits_path a c"
proof -
  have ab: "length a \<le> length b" "\<And>i. i < length a \<Longrightarrow> limit_path (a ! i) (b ! i)"
    and bc: "length b \<le> length c" "\<And>i. i < length b \<Longrightarrow> limit_path (b ! i) (c ! i)"
    using assms by (auto simp: limits_path_def list_all2_conv_all_nth)
  then show ?thesis
    using limit_path_trans by (fastforce simp: limits_path_def list_all2_conv_all_nth)
qed

lemma limit_effect_keeps:
  assumes "limit_effect X rows rows'" "limit_rows_wf X rows"
  shows "limit_rows_wf X rows' \<and> limits_path rows rows'"
  using assms
proof (induction rule: limit_effect.induct)
  case (leff_create l rows)
  then show ?case by (auto simp: limit_rows_wf_def)
next
  case (leff_change i rows l f)
  note l = find_live_row [OF leff_change(1)]
  have only: "x = l" if "x \<in> set rows" "live_row i x" for x
    using that l leff_change(3) by (auto simp: limit_rows_wf_def live_row_def distinct_map inj_on_def)
  define g where "g x = (if live_row i x then f x else x)" for x
  have r: "replace_row i f rows = map g rows" by (simp add: replace_row_def g_def)
  have g: "limit_path x (g x) \<and> Limit_Validate X (g x) = None" if "x \<in> set rows" for x
    using that only [OF that] leff_change(2,3)
    by (auto simp: g_def limit_path_def limit_successor_def limit_rows_wf_def live_row_def)
  then have ids: "map l_ID (map g rows) = map l_ID rows"
    by (auto simp: limit_path_def same_identity_def)
  have "distinct (map l_ID (map g rows))"
    unfolding ids using leff_change(3) by (simp add: limit_rows_wf_def)
  moreover have "list_all2 limit_path rows (map g rows)"
    using g by (simp add: list_all2_conv_all_nth)
  ultimately show ?case
    using g unfolding r limit_rows_wf_def limits_path_def by auto
qed simp

end
