(* ===== verification/CommandProperties.thy ===== *)
theory CommandProperties
  imports LimitCommandFacts RuleProperties
begin

text \<open>
  The properties of the commands on rules and on limits, with their instances: an environment whose
  clock stands still and without an audit writer, a hash that is its argument, and a database that
  holds the given rules.
\<close>

definition audit1 :: audit_ext where
  "audit1 = \<lparr>a_sha256 = (\<lambda>s. ''#'' @ s), a_time_text = show_int, a_host_of = (\<lambda>s. None),
     a_is_ip = (\<lambda>s. False)\<rparr>"

definition command0 :: "uuid \<Rightarrow> command_env" where
  "command0 i = \<lparr>k_ValidateBusinessError = (\<lambda>e s. e), k_Error = (\<lambda>e. ''error''), k_newID = i, k_now = 5,
     k_later = 6, k_eventID = i, k_eventNow = 7, k_clientIP = [], k_auditWriter = False,
     k_cacheWriter = True\<rparr>"

definition adb0 :: "string Rule list \<Rightarrow> (int, string) audit_db" where
  "adb0 rs = \<lparr>db_counters = [], db_faults = [], db_limits = [], db_rules = rs, db_audits = [],
     db_audit_seq = 0\<rparr>"

definition draft_1 :: "string Rule" where
  "draft_1 = (rule0 1 ''true'' DecisionAllow RuleStatusDraft 1)\<lparr>r_Name := ''draft''\<rparr>"

lemmas command_eval = run_rule_command_def ActivateRule_def DeactivateRule_def DeleteRule_def
  UpdateRule_def changed_rule_def Rule_SetAction_def Rule_Update_def Rule_Update_checks_def get_rule_def
  RuleRepo_GetByID_def RuleRepo_Update_def RuleRepo_Delete_def with_db_def next_fault_def
  consume_fault_def live_rule_def write_status_def with_status_def Rule_SetStatus_def status_defs
  rule_name_taken_def context_id_def updated_rule_def audit_rule_def UpsertRule_def RemoveRule_def
  ApplyChanges_def store_rule_def MarkReady_def SetRules_def NewRuleCache_def command0_def adb0_def
  cache0_def draft_1_def allow_1_def deny_2_def rule0_def cel0_def

fun run_rule_commands ::
  "ext \<Rightarrow> audit_ext \<Rightarrow> ('p, 'd) cel_ops \<Rightarrow> (command_env \<times> rule_command) list
   \<Rightarrow> ('d, 'p, 'x) audit_db_scheme \<times> 'p RuleCache \<Rightarrow> ('d, 'p, 'x) audit_db_scheme \<times> 'p RuleCache" where
  "run_rule_commands X A cel [] s = s"
| "run_rule_commands X A cel ((K, cmd) # cmds) s =
     run_rule_commands X A cel cmds (fst (run_rule_command X A cel K cmd s))"

text \<open>C29. Commands on rules that run one after the other, failures included, keep the rows valid,
  move every row only along the transitions of the life cycle (and never touch a deleted row), and
  keep the cache exact without any synchronization: it has an entry exactly for the active rules,
  under the rule's identifier, with the expression of the row and the program compiled from it.\<close>

theorem commands_keep_cache_exact:
  assumes "\<forall>(K, cmd) \<in> set cmds. k_cacheWriter K"
    "rows_wf (db_rules db)" "cache_follows (cel_Compile cel) (db_rules db) (rc_rules c)"
    "run_rule_commands X A cel cmds (db, c) = (db', c')"
  shows "rows_wf (db_rules db') \<and> cache_follows (cel_Compile cel) (db_rules db') (rc_rules c')
    \<and> rows_path (db_rules db) (db_rules db')"
  using assms
proof (induction cmds arbitrary: db c)
  case (Cons Kc cmds)
  obtain K cmd where Kc: "Kc = (K, cmd)" by (cases Kc)
  obtain db1 c1 e where s: "run_rule_command X A cel K cmd (db, c) = ((db1, c1), e)" by (metis surj_pair)
  have "k_cacheWriter K" using Cons.prems(1) Kc by simp
  from run_rule_command_outcome [OF s this]
  have "rule_effect (cel_Compile cel) (db_rules db, rc_rules c) (db_rules db1, rc_rules c1)"
    by (rule command_outcome_effect)
  from rule_effect_keeps [OF this] Cons.prems(2,3)
  have k: "rows_wf (db_rules db1)" "cache_follows (cel_Compile cel) (db_rules db1) (rc_rules c1)"
    "rows_path (db_rules db) (db_rules db1)"
    by simp_all
  have "run_rule_commands X A cel cmds (db1, c1) = (db', c')" using Cons.prems(4) s Kc by simp
  moreover have "\<forall>(K, cmd) \<in> set cmds. k_cacheWriter K" using Cons.prems(1) by simp
  ultimately show ?case using Cons.IH [OF _ k(1,2)] rows_path_trans [OF k(3)] by blast
qed simp

definition session0 :: "(command_env \<times> rule_command) list" where
  "session0 = [(command0 1, CmdDelete 2), (command0 2, CmdDeactivate 2), (command0 3, CmdActivate 1)]"

theorem commands_keep_cache_exact_witness:
  "case run_rule_commands ext0 audit1 cel0 session0 (adb0 [draft_1, deny_2], cache0 [deny_2]) of
     (db', c') \<Rightarrow> cache_follows (cel_Compile cel0) (db_rules db') (rc_rules c')
       \<and> map r_Status (db_rules db') = [RuleStatusActive, RuleStatusInactive]
       \<and> rc_rules c' 1 \<noteq> None \<and> rc_rules c' 2 = None"
proof -
  obtain db' c' where r: "run_rule_commands ext0 audit1 cel0 session0
      (adb0 [draft_1, deny_2], cache0 [deny_2]) = (db', c')"
    by fastforce
  have "rows_wf [draft_1, deny_2]"
  proof -
    have "TrimSpace ''draft'' = ''draft''" "TrimSpace ''rule'' = ''rule''" "TrimSpace ''true'' = ''true''"
      by (simp_all add: TrimSpace_text)
    then show ?thesis
      by (simp add: rows_wf_def rule_fields_def draft_1_def deny_2_def rule0_def MaxRuleNameLength_def
          MaxRuleExpressionLength_def)
  qed
  moreover have "cache_follows (cel_Compile cel0) [draft_1, deny_2] (rc_rules (cache0 [deny_2]))"
    by (simp add: cache_follows_def entry_follows_def draft_1_def deny_2_def rule0_def live_rule_def
        cache0_def MarkReady_def SetRules_def store_rule_def NewRuleCache_def cel0_def)
  ultimately have "cache_follows (cel_Compile cel0) (db_rules db') (rc_rules c')"
    using commands_keep_cache_exact [OF _ _ _ r] by (simp add: session0_def command0_def adb0_def)
  moreover have "(\<lambda>(db', c'). (map r_Status (db_rules db'), rc_rules c' 1 = None, rc_rules c' 2 = None))
      (run_rule_commands ext0 audit1 cel0 session0 (adb0 [draft_1, deny_2], cache0 [deny_2]))
    = ([RuleStatusActive, RuleStatusInactive], False, True)"
    by (simp add: session0_def command_eval)
  ultimately show ?thesis using r by simp
qed

text \<open>A command on rules that fails, for whatever reason, leaves every table and the cache as
  they were: only the faults to come are used up.\<close>

theorem failed_command_changes_nothing:
  assumes "run_rule_command X A cel K cmd (db, c) = ((db', c'), Some e)" "k_cacheWriter K"
  shows "db' = db\<lparr>db_faults := db_faults db'\<rparr> \<and> c' = c"
  using run_rule_command_outcome [OF assms] by (simp add: command_outcome_def only_faults_def)

theorem failed_command_changes_nothing_witness:
  "\<exists>db' c'. run_rule_command ext0 audit1 cel0 (command0 1) (CmdDelete 1) (adb0 [allow_1], NewRuleCache)
     = ((db', c'), Some (NewInvalidTransitionError RuleStatusActive RuleStatusDeleted))
   \<and> db' = (adb0 [allow_1])\<lparr>db_faults := db_faults db'\<rparr> \<and> c' = NewRuleCache"
proof -
  have "snd (run_rule_command ext0 audit1 cel0 (command0 1) (CmdDelete 1) (adb0 [allow_1], NewRuleCache))
      = Some (NewInvalidTransitionError RuleStatusActive RuleStatusDeleted)"
    by (simp add: command_eval)
  then obtain db' c' where r: "run_rule_command ext0 audit1 cel0 (command0 1) (CmdDelete 1)
      (adb0 [allow_1], NewRuleCache)
    = ((db', c'), Some (NewInvalidTransitionError RuleStatusActive RuleStatusDeleted))"
    by (metis prod.collapse)
  have "k_cacheWriter (command0 1)" by (simp add: command0_def)
  from failed_command_changes_nothing [OF r this] r show ?thesis by blast
qed

text \<open>C30. The commands do not exclude each other: an update that has read a rule writes its status
  back as it read it, whatever a concurrent request made of the rule in the meantime. A rule that is
  activated while its draft is being updated becomes a draft again, although the life cycle forbids
  the transition from active to draft.\<close>

theorem concurrent_update_reverts_status:
  fixes others :: "('d, 'p, 'x) audit_db_scheme \<Rightarrow> ('d, 'p, 'x) audit_db_scheme"
  assumes "RuleRepo_GetByID i db = (db1, Inr x)"
    "find (live_rule i) (db_rules (others db1)) = Some y"
    "UpdateRule X A cel K others i input db = (db', Inr r)"
  shows "\<exists>z. find (live_rule i) (db_rules db') = Some z \<and> r_Status z = r_Status x
    \<and> (r_Status x = RuleStatusDraft \<and> r_Status y = RuleStatusActive
       \<longrightarrow> \<not> CanTransitionTo (r_Status y) (r_Status z))"
proof -
  obtain x' db2 where w: "changed_rule X cel K input x = Inr x'"
    "RuleRepo_Update X x' (others db1) = (db2, Inr r)" "db_rules db' = db_rules db2"
    using assms(1,3) by (auto simp: UpdateRule_def split: sum.splits prod.splits)
  have "r_ID x = i"
    using RuleRepo_GetByID_cases(2) [OF assms(1) refl] find_live by blast
  then have x': "r_ID x' = i" "r_Status x' = r_Status x" using changed_rule_edit(1,2) [OF w(1)] by auto
  have "db_rules db' = write_rows x' (db_rules (others db1))"
    using RuleRepo_Update_cases(2) [OF w(2) refl] w(3) by simp
  then have "find (live_rule i) (db_rules db') = Some (updated_rule x' y)"
    using find_write_rows [of i x'] assms(2) x'(1) by simp
  moreover have "r_Status (updated_rule x' y) = r_Status x" using x'(2) by (simp add: updated_rule_def)
  ultimately show ?thesis by (auto simp: status_defs)
qed

definition action0 :: UpdateRuleInput where
  "action0 = \<lparr>ur_in_Name = None, ur_in_Description = None, ur_in_Expression = None,
     ur_in_Action = Some DecisionDeny, ur_in_Scopes = None\<rparr>"

definition activate_1 :: "(int, string) audit_db \<Rightarrow> (int, string) audit_db" where
  "activate_1 db = fst (fst (ActivateRule ext0 audit1 cel0 (command0 2) id 1 (db, NewRuleCache)))"

theorem concurrent_update_reverts_status_witness:
  "(\<exists>z. find (live_rule 1) (db_rules (activate_1 (adb0 [draft_1]))) = Some z \<and> r_Status z = RuleStatusActive)
   \<and> (\<exists>z. find (live_rule 1) (db_rules (fst (UpdateRule ext0 audit1 cel0 (command0 1) activate_1 1 action0
      (adb0 [draft_1])))) = Some z \<and> r_Status z = RuleStatusDraft)"
proof (rule conjI)
  show act: "\<exists>z. find (live_rule 1) (db_rules (activate_1 (adb0 [draft_1]))) = Some z
      \<and> r_Status z = RuleStatusActive"
    by (simp add: activate_1_def command_eval)
  have g: "RuleRepo_GetByID 1 (adb0 [draft_1]) = (adb0 [draft_1], Inr draft_1)"
    by (simp add: command_eval)
  obtain z where z: "find (live_rule 1) (db_rules (activate_1 (adb0 [draft_1]))) = Some z"
    using act by blast
  obtain db' r where "UpdateRule ext0 audit1 cel0 (command0 1) activate_1 1 action0 (adb0 [draft_1])
      = (db', Inr r)"
    by (simp add: activate_1_def action0_def command_eval)
  from concurrent_update_reverts_status [OF g z this] this
  show "\<exists>z. find (live_rule 1) (db_rules (fst (UpdateRule ext0 audit1 cel0 (command0 1) activate_1 1
      action0 (adb0 [draft_1])))) = Some z \<and> r_Status z = RuleStatusDraft"
    by (auto simp: draft_1_def rule0_def)
qed

subsection \<open>Commands on limits\<close>

fun run_limit_commands ::
  "ext \<Rightarrow> audit_ext \<Rightarrow> (string \<Rightarrow> (err, gotime) result)
   \<Rightarrow> (command_env \<times> err option list \<times> ('d::linordered_ab_group_add) limit_command) list
   \<Rightarrow> ('d, 'p, 'x) audit_db_scheme \<Rightarrow> ('d, 'p, 'x) audit_db_scheme" where
  "run_limit_commands X A parse_time [] db = db"
| "run_limit_commands X A parse_time ((K, ctx, cmd) # cmds) db =
     run_limit_commands X A parse_time cmds (fst (run_limit_command X A parse_time K ctx cmd db))"

text \<open>C31. Commands on limits that run one after the other, with any failures, cancelled contexts
  and invalid inputs, keep every stored limit valid and identifiers unique; a stored limit keeps its
  identity, type, currency and time of creation, changes its status only along the transitions of the
  life cycle, and does not change any more once it is deleted.\<close>

theorem limit_commands_keep_valid:
  fixes db :: "('d::linordered_ab_group_add, 'p, 'x) audit_db_scheme"
  assumes "limit_rows_wf X (db_limits db)"
  shows "limit_rows_wf X (db_limits (run_limit_commands X A parse_time cmds db))
    \<and> limits_path (db_limits db) (db_limits (run_limit_commands X A parse_time cmds db))"
  using assms
proof (induction cmds arbitrary: db)
  case (Cons c cmds)
  obtain K ctx cmd where c: "c = (K, ctx, cmd)" by (cases c)
  let ?db1 = "fst (run_limit_command X A parse_time K ctx cmd db)"
  have "limit_effect X (db_limits db) (db_limits ?db1)"
    using run_limit_command_outcome [of X db A parse_time K ctx cmd] only_faults_limits [of db ?db1]
      leff_none [of X "db_limits db"]
    by (auto simp: limit_command_outcome_def split: if_splits)
  from limit_effect_keeps [OF this Cons.prems]
  have "limit_rows_wf X (db_limits ?db1)" "limits_path (db_limits db) (db_limits ?db1)" by simp_all
  then show ?case using Cons.IH [of ?db1] limits_path_trans unfolding c by auto
qed simp

theorem limit_commands_keep_valid_witness:
  "limit_rows_wf ext0 (db_limits (run_limit_commands ext0 audit1 (\<lambda>s. Inl (External s))
     [(command0 1, [], LDelete 1), (command0 2, [], LDeactivate 1), (command0 3, [], LDelete 1)]
     ((adb0 [])\<lparr>db_limits := [daily_limit 1 10]\<rparr>)))
   \<and> map l_Status (db_limits (run_limit_commands ext0 audit1 (\<lambda>s. Inl (External s))
     [(command0 1, [], LDelete 1), (command0 2, [], LDeactivate 1), (command0 3, [], LDelete 1)]
     ((adb0 [])\<lparr>db_limits := [daily_limit 1 10]\<rparr>))) = [LimitStatusDeleted]"
proof (rule conjI)
  have "limit_rows_wf ext0 [daily_limit 1 10]"
  proof -
    have "validateName ''daily'' = None"
      by (simp add: validateName_def TrimSpace_text MaxNameLength_def safeNameRegex_def safeName_char_def)
    then show ?thesis
      by (simp add: limit_rows_wf_def Limit_Validate_None daily_limit_def validateDescription_def
          IsValidCurrency_def ext0_def validateScopes_None account_scope_def Scope_IsEmpty_def
          ValidateTimeWindow_def Validate_custom_def)
  qed
  then have wf: "limit_rows_wf ext0 (db_limits ((adb0 [])\<lparr>db_limits := [daily_limit 1 10]\<rparr>))" by simp
  show "limit_rows_wf ext0 (db_limits (run_limit_commands ext0 audit1 (\<lambda>s. Inl (External s))
     [(command0 1, [], LDelete 1), (command0 2, [], LDeactivate 1), (command0 3, [], LDelete 1)]
     ((adb0 [])\<lparr>db_limits := [daily_limit 1 10]\<rparr>)))"
    using limit_commands_keep_valid [OF wf] by blast
  show "map l_Status (db_limits (run_limit_commands ext0 audit1 (\<lambda>s. Inl (External s))
     [(command0 1, [], LDelete 1), (command0 2, [], LDeactivate 1), (command0 3, [], LDelete 1)]
     ((adb0 [])\<lparr>db_limits := [daily_limit 1 10]\<rparr>))) = [LimitStatusDeleted]"
    by (simp add: run_limit_command_def DeleteLimit_def DeactivateLimit_def change_limit_status_def
        LimitRepo_GetByID_def LimitRepo_UpdateStatus_def with_db_def next_fault_def consume_fault_def
        live_row_def Limit_SetStatus_def status_defs status_row_def audit_limit_def scan_scopes_def
        account_scope_def daily_limit_def adb0_def command0_def ctx_Err_def map_prod_def)
qed

text \<open>A command on limits that fails, for whatever reason, leaves every table as it was.\<close>

theorem failed_limit_command_changes_nothing:
  assumes "run_limit_command X A parse_time K ctx cmd db = (db', Some e)"
  shows "db' = db\<lparr>db_faults := db_faults db'\<rparr>"
  using run_limit_command_outcome [of X db A parse_time K ctx cmd] assms
  by (simp add: limit_command_outcome_def only_faults_def)

theorem failed_limit_command_changes_nothing_witness:
  "\<exists>db' e. run_limit_command ext0 audit1 (\<lambda>s. Inl (External s)) (command0 1) [] (LDelete 1)
       ((adb0 [])\<lparr>db_limits := [daily_limit 1 10]\<rparr>) = (db', Some e)
     \<and> db' = ((adb0 [])\<lparr>db_limits := [daily_limit 1 10]\<rparr>)\<lparr>db_faults := db_faults db'\<rparr>"
proof -
  have "snd (run_limit_command ext0 audit1 (\<lambda>s. Inl (External s)) (command0 1) [] (LDelete 1)
       ((adb0 [])\<lparr>db_limits := [daily_limit 1 10]\<rparr>)) \<noteq> None"
    by (simp add: run_limit_command_def DeleteLimit_def change_limit_status_def LimitRepo_GetByID_def
        with_db_def next_fault_def consume_fault_def live_row_def Limit_SetStatus_def status_defs
        scan_scopes_def account_scope_def daily_limit_def adb0_def command0_def
        ctx_Err_def map_prod_def)
  then obtain db' e where r: "run_limit_command ext0 audit1 (\<lambda>s. Inl (External s)) (command0 1) []
      (LDelete 1) ((adb0 [])\<lparr>db_limits := [daily_limit 1 10]\<rparr>) = (db', Some e)"
    by (metis option.exhaust prod.collapse)
  from failed_limit_command_changes_nothing [OF r] r show ?thesis by blast
qed

end
