(* ===== verification/HttpBase.thy ===== *)
theory HttpBase
  imports RuleCommands Validations
begin

text \<open>
  What the handlers of \<^verbatim>\<open>internal/adapters/http/in\<close> share: responses (\<^verbatim>\<open>pkg/net/http/response.go\<close>;
  the functions of the same names of \<^verbatim>\<open>lib-commons\<close> send the same), validation errors with a code, the
  checks of \<^verbatim>\<open>pagination_validation.go\<close>, and the errors of the struct validator, which is a library:
  a validator of inputs of type \<open>'i\<close> is a function that returns what \<^verbatim>\<open>Struct\<close> returns. The checks that
  the tags of a struct ask for are written out as a list in the order of the fields; \<open>runs_tags\<close> is the
  documented law of the library that it reports the first tag of that list that does not hold. A query
  or body that does not parse is \<^term>\<open>None\<close>.
\<close>

subsection \<open>Responses\<close>

datatype 'b response =
    Reply nat 'b
  | Empty nat
  | ErrorReply nat string string string
  | Panicked

fun status_of :: "'b response \<Rightarrow> nat" where
  "status_of (Reply n b) = n"
| "status_of (Empty n) = n"
| "status_of (ErrorReply n code title message) = n"
| "status_of Panicked = 500"

definition BadRequestWithMessage :: "string \<Rightarrow> string \<Rightarrow> string \<Rightarrow> 'b response" where
  "BadRequestWithMessage code title message = ErrorReply 400 code title message"

definition Created :: "'b \<Rightarrow> 'b response" where
  "Created b = Reply 201 b"

definition OK :: "'b \<Rightarrow> 'b response" where
  "OK b = Reply 200 b"

definition NoContent :: "'b response" where
  "NoContent = Empty 204"

definition NotFound :: "string \<Rightarrow> string \<Rightarrow> string \<Rightarrow> 'b response" where
  "NotFound code title message = ErrorReply 404 code title message"

definition Conflict :: "string \<Rightarrow> string \<Rightarrow> string \<Rightarrow> 'b response" where
  "Conflict code title message = ErrorReply 409 code title message"

definition InternalServerError :: "string \<Rightarrow> string \<Rightarrow> string \<Rightarrow> 'b response" where
  "InternalServerError code title message = ErrorReply 500 code title message"

lemmas response_defs = BadRequestWithMessage_def Created_def OK_def NoContent_def NotFound_def Conflict_def
  InternalServerError_def

definition unexpected_error :: "'b response" where
  "unexpected_error =
     InternalServerError ''TRC-0004'' ''Internal Server Error'' ''An unexpected error occurred''"

text \<open>A switch over \<^verbatim>\<open>errors.Is\<close>: the first error of the list that \<open>e\<close> wraps decides.\<close>

fun on_error :: "(err \<times> 'b response) list \<Rightarrow> 'b response \<Rightarrow> err \<Rightarrow> 'b response" where
  "on_error [] other e = other"
| "on_error ((t, r) # cases) other e = (if errors_Is e t then r else on_error cases other e)"

subsection \<open>Errors of an input\<close>

record ValidationError =
  ve_Code :: string
  ve_Message :: string

text \<open>An error of a \<^verbatim>\<open>Validate\<close> method: one with a code, or any other with its text.\<close>

datatype input_error = Coded ValidationError | Uncoded string

definition coded :: "string \<Rightarrow> string \<Rightarrow> ValidationError" where
  "coded code message = \<lparr>ve_Code = code, ve_Message = message\<rparr>"

definition answer_invalid :: "string \<Rightarrow> string \<Rightarrow> string \<Rightarrow> input_error \<Rightarrow> 'b response" where
  "answer_invalid title code other_title e =
     (case e of
        Coded v \<Rightarrow> BadRequestWithMessage (ve_Code v) title (ve_Message v)
      | Uncoded message \<Rightarrow> BadRequestWithMessage code other_title message)"

text \<open>The path parameter of a resource, and the answer to what a service returned.\<close>

definition with_id ::
  "(string \<Rightarrow> uuid option) \<Rightarrow> string \<Rightarrow> string \<Rightarrow> 's \<Rightarrow> (uuid \<Rightarrow> 's \<times> 'b response) \<Rightarrow> 's \<times> 'b response" where
  "with_id parse_uuid message idParam s k =
     (case parse_uuid idParam of
        None \<Rightarrow> (s, BadRequestWithMessage ''TRC-0007'' ''Invalid Path Parameter'' message)
      | Some i \<Rightarrow> k i)"

definition answer ::
  "(err \<Rightarrow> 'b response) \<Rightarrow> ('a \<Rightarrow> 'b response) \<Rightarrow> 's \<times> (err, 'a) result \<Rightarrow> 's \<times> 'b response" where
  "answer failed success r = (fst r, case snd r of Inl e \<Rightarrow> failed e | Inr a \<Rightarrow> success a)"

subsection \<open>Pagination\<close>

definition ValidateCursorConsistency :: "bool \<Rightarrow> string \<Rightarrow> string \<Rightarrow> ValidationError option" where
  "ValidateCursorConsistency has_cursor sortBy sortOrder =
     (if has_cursor \<and> (sortBy \<noteq> [] \<or> sortOrder \<noteq> [])
      then Some (coded ''TRC-0045''
        ''sortBy and sortOrder cannot be used with cursor; cursor already contains sort configuration'')
      else None)"

definition ValidatePaginationLimit :: "int option \<Rightarrow> int \<Rightarrow> ValidationError option" where
  "ValidatePaginationLimit limit maxLimit =
     (case limit of
        None \<Rightarrow> None
      | Some n \<Rightarrow>
          if n < 1 then Some (coded ''TRC-0041'' ''limit must be at least 1'')
          else if n > maxLimit then Some (coded ''TRC-0040'' (''limit must not exceed '' @ show_int maxLimit))
          else None)"

definition ValidateSortOrder :: "ext \<Rightarrow> string \<Rightarrow> ValidationError option" where
  "ValidateSortOrder X sortOrder =
     (if sortOrder = [] then None
      else let upperSortOrder = ToUpper X sortOrder
        in if upperSortOrder \<noteq> ''ASC'' \<and> upperSortOrder \<noteq> ''DESC''
           then Some (coded ''TRC-0042'' ''sortOrder must be ASC or DESC'') else None)"

definition ValidateSortBy :: "string \<Rightarrow> string list \<Rightarrow> ValidationError option" where
  "ValidateSortBy sortBy allowedFields =
     (if sortBy = [] \<or> sortBy \<in> set allowedFields then None
      else Some (coded ''TRC-0043'' (''sortBy must be one of ['' @ join_strings '' '' allowedFields @ '']'')))"

definition NormalizeSortOrder :: "ext \<Rightarrow> string \<Rightarrow> string \<Rightarrow> string" where
  "NormalizeSortOrder X sortOrder defaultValue = (if sortOrder = [] then defaultValue else ToUpper X sortOrder)"

text \<open>The four checks with which every \<^verbatim>\<open>Validate\<close> of a list begins.\<close>

definition validate_paging ::
  "ext \<Rightarrow> int option \<Rightarrow> int \<Rightarrow> bool \<Rightarrow> string \<Rightarrow> string \<Rightarrow> string list \<Rightarrow> ValidationError option" where
  "validate_paging X limit maxLimit has_cursor sortBy sortOrder allowedSortFields = first_error
     [ValidatePaginationLimit limit maxLimit,
      ValidateCursorConsistency has_cursor sortBy sortOrder,
      ValidateSortBy sortBy allowedSortFields,
      ValidateSortOrder X sortOrder]"

text \<open>\<^verbatim>\<open>SetDefaults\<close> gives a list without a cursor its sort.\<close>

definition paging_sort :: "ext \<Rightarrow> bool \<Rightarrow> string \<Rightarrow> string \<Rightarrow> string \<times> string" where
  "paging_sort X has_cursor sortBy sortOrder =
     (if has_cursor then (sortBy, sortOrder)
      else (if sortBy = [] then ''createdAt'' else sortBy, NormalizeSortOrder X sortOrder ''DESC''))"

lemma validate_paging_None:
  "validate_paging X limit m has_cursor sortBy sortOrder allowed = None
   \<longleftrightarrow> (\<forall>n. limit = Some n \<longrightarrow> 1 \<le> n \<and> n \<le> m) \<and> (has_cursor \<longrightarrow> sortBy = [] \<and> sortOrder = [])
       \<and> (sortBy = [] \<or> sortBy \<in> set allowed)
       \<and> (sortOrder = [] \<or> ToUpper X sortOrder \<in> {''ASC'', ''DESC''})"
  by (cases limit)
    (auto simp: validate_paging_def ValidatePaginationLimit_def ValidateCursorConsistency_def ValidateSortBy_def
      ValidateSortOrder_def Let_def)

subsection \<open>The struct validator\<close>

record FieldError =
  fe_Field :: string
  fe_Tag :: string
  fe_Namespace :: string
  fe_Param :: string

datatype struct_error = ValidationErrors "FieldError list" | OtherError string

type_synonym 'i validator = "'i \<Rightarrow> struct_error option"

text \<open>What the handlers use of libraries: the parser of UUIDs, of times and of the number in a namespace,
  the quoting of \<^verbatim>\<open>%q\<close>, the text of an error, and the test of the tag \<^verbatim>\<open>uuid\<close>.\<close>

record http_ext =
  h_parse_uuid :: "string \<Rightarrow> uuid option"
  h_parse_time :: "string \<Rightarrow> (err, gotime) result"
  h_scan_number :: "string \<Rightarrow> int option"
  h_quote :: "string \<Rightarrow> string"
  h_Error :: "err \<Rightarrow> string"
  h_uuid_tag :: "string \<Rightarrow> bool"

text \<open>A check that a tag asks for: the error it makes, and whether it holds. Only the first failing tag of
  a field is reported.\<close>

type_synonym tag_check = "FieldError \<times> bool"

fun field_checks :: "string \<Rightarrow> string \<Rightarrow> (string \<times> string \<times> bool) list \<Rightarrow> tag_check list" where
  "field_checks space field [] = []"
| "field_checks space field ((tag, param, holds) # rest) =
     (\<lparr>fe_Field = field, fe_Tag = tag, fe_Namespace = space @ field, fe_Param = param\<rparr>, holds)
     # (if holds then field_checks space field rest else [])"

definition rune_count :: "string \<Rightarrow> nat" where
  "rune_count s = length (utf8_runes (map of_char s))"

text \<open>The tags of \<^verbatim>\<open>model.Scope\<close>, with \<^verbatim>\<open>scopenotempty\<close> for the whole; \<^verbatim>\<open>dive\<close> checks every element.\<close>

definition scope_checks :: "string \<Rightarrow> nat \<Rightarrow> Scope \<Rightarrow> tag_check list" where
  "scope_checks space k s =
     (let element = ''Scopes['' @ nat_digits k @ '']''; inner = space @ element @ ''.''
      in field_checks space element [(''scopenotempty'', [], \<not> Scope_IsEmpty s)]
         @ (case ScopeTransactionType s of None \<Rightarrow> []
            | Some t \<Rightarrow> field_checks inner ''TransactionType'' [(''transactiontype'', [], TransactionType_IsValid t)])
         @ (case ScopeSubType s of None \<Rightarrow> []
            | Some t \<Rightarrow> field_checks inner ''SubType'' [(''max'', ''50'', rune_count t \<le> 50)]))"

definition dive_scopes :: "string \<Rightarrow> Scope list \<Rightarrow> tag_check list" where
  "dive_scopes space scopes = concat (map (\<lambda>(k, s). scope_checks space k s) (enumerate 0 scopes))"

definition failed_checks :: "tag_check list \<Rightarrow> FieldError list" where
  "failed_checks checks = map fst (filter (\<lambda>c. \<not> snd c) checks)"

definition runs_tags :: "'i validator \<Rightarrow> ('i \<Rightarrow> tag_check list) \<Rightarrow> bool" where
  "runs_tags V tags =
     (\<forall>i. if failed_checks (tags i) = [] then V i = None
          else \<exists>es. V i = Some (ValidationErrors (hd (failed_checks (tags i)) # es)))"

lemma runs_tags_None: "runs_tags V tags \<Longrightarrow> V i = None \<longleftrightarrow> (\<forall>c \<in> set (tags i). snd c)"
  by (auto simp: runs_tags_def failed_checks_def filter_empty_conv dest!: spec [of _ i] split: if_splits)

text \<open>\<^verbatim>\<open>getValidator\<close>: the singleton, or the text of the error of its initialization.\<close>

type_synonym 'i the_validator = "(string, 'i validator) result"

definition validator_init_error :: "string \<Rightarrow> input_error" where
  "validator_init_error m = Uncoded (''validator initialization failed: '' @ m)"

text \<open>Where \<^verbatim>\<open>needle\<close> begins in a text.\<close>

fun index_of :: "string \<Rightarrow> string \<Rightarrow> nat option" where
  "index_of needle [] = (if needle = [] then Some 0 else None)"
| "index_of needle (c # s) =
     (if prefix needle (c # s) then Some 0 else map_option Suc (index_of needle s))"

text \<open>The number between \<^verbatim>\<open>Scopes[\<close> and the next bracket of a namespace.\<close>

definition namespace_number :: "http_ext \<Rightarrow> string \<Rightarrow> int option" where
  "namespace_number H namespace =
     (case index_of ''Scopes['' namespace of
        None \<Rightarrow> None
      | Some k \<Rightarrow>
          let rest = drop (k + length ''Scopes['') namespace
          in (case index_of '']'' rest of None \<Rightarrow> None | Some j \<Rightarrow> h_scan_number H (take j rest)))"

subsection \<open>Scope parameters of a query\<close>

definition given :: "string option \<Rightarrow> string option" where
  "given v = (if v = Some [] then None else v)"

fun validate_uuid_fields :: "http_ext \<Rightarrow> (string option \<times> string) list \<Rightarrow> ValidationError option" where
  "validate_uuid_fields H [] = None"
| "validate_uuid_fields H ((v, name) # rest) =
     (case given v of
        None \<Rightarrow> validate_uuid_fields H rest
      | Some s \<Rightarrow>
          if h_parse_uuid H s = None
          then Some (coded ''TRC-0006'' (name @ '' must be a valid UUID''))
          else validate_uuid_fields H rest)"

lemma validate_uuid_fields_None:
  "validate_uuid_fields H vs = None
   \<longleftrightarrow> (\<forall>(v, name) \<in> set vs. \<forall>s. given v = Some s \<longrightarrow> h_parse_uuid H s \<noteq> None)"
  by (induction vs rule: validate_uuid_fields.induct) (auto split: option.splits)

end
