(* ===== verification/HttpLimits.thy ===== *)
theory HttpLimits
  imports HttpBase RuleList LimitCommands
begin

text \<open>
  The limit endpoints: inputs and their validation (\<^verbatim>\<open>limit_validation.go\<close>), handlers
  (\<^verbatim>\<open>limit_handler.go\<close>) and the service between handlers and commands (\<^verbatim>\<open>limit_service.go\<close>). A handler
  is a function from the request and the state to the new state and the response. The quotient of the
  usage snapshot is decimal and floating-point arithmetic of a library, the parameter \<open>percent\<close>.
\<close>

subsection \<open>Inputs\<close>

record 'd HttpCreateLimitInput =
  hcl_Name :: string
  hcl_Description :: "string option"
  hcl_LimitType :: LimitType
  hcl_MaxAmount :: 'd
  hcl_Currency :: string
  hcl_Scopes :: "Scope list option"
  hcl_ActiveTimeStart :: "TimeOfDay option"
  hcl_ActiveTimeEnd :: "TimeOfDay option"
  hcl_CustomStartDate :: "string option"
  hcl_CustomEndDate :: "string option"

record 'd HttpUpdateLimitInput =
  hul_Name :: "string option"
  hul_Description :: "string option"
  hul_MaxAmount :: "'d option"
  hul_Scopes :: "Scope list option"
  hul_ActiveTimeStart :: "TimeOfDay option"
  hul_ActiveTimeEnd :: "TimeOfDay option"
  hul_CustomStartDate :: "string option"
  hul_CustomEndDate :: "string option"

text \<open>The tags. Without the option for required structs, \<^verbatim>\<open>required\<close> says nothing of \<^verbatim>\<open>MaxAmount\<close>, a
  struct. A missing list is \<^term>\<open>None\<close>.\<close>

definition name_checks :: "string \<Rightarrow> string option \<Rightarrow> tag_check list" where
  "name_checks space name =
     (case name of None \<Rightarrow> []
      | Some n \<Rightarrow> field_checks space ''Name''
          [(''min'', ''1'', 1 \<le> rune_count n), (''max'', ''255'', rune_count n \<le> 255)])"

definition description_checks :: "string \<Rightarrow> string option \<Rightarrow> tag_check list" where
  "description_checks space description =
     (case description of None \<Rightarrow> []
      | Some d \<Rightarrow> field_checks space ''Description'' [(''max'', ''1000'', rune_count d \<le> 1000)])"

definition create_limit_tags :: "ext \<Rightarrow> 'd HttpCreateLimitInput \<Rightarrow> tag_check list" where
  "create_limit_tags X i =
     (let space = ''CreateLimitInput.'' in
      field_checks space ''Name''
        [(''required'', [], hcl_Name i \<noteq> []), (''min'', ''1'', 1 \<le> rune_count (hcl_Name i)),
         (''max'', ''255'', rune_count (hcl_Name i) \<le> 255)]
      @ description_checks space (hcl_Description i)
      @ field_checks space ''LimitType''
          [(''required'', [], LimitType_String (hcl_LimitType i) \<noteq> []),
           (''limittype'', [], LimitType_IsValid (hcl_LimitType i))]
      @ field_checks space ''Currency''
          [(''required'', [], hcl_Currency i \<noteq> []), (''len'', ''3'', rune_count (hcl_Currency i) = 3),
           (''uppercase'', [], hcl_Currency i \<noteq> [] \<and> ToUpper X (hcl_Currency i) = hcl_Currency i)]
      @ (case hcl_Scopes i of
           None \<Rightarrow> field_checks space ''Scopes'' [(''required'', [], False)]
         | Some ss \<Rightarrow> field_checks space ''Scopes''
               [(''min'', ''1'', 1 \<le> length ss), (''max'', ''100'', length ss \<le> 100)]
             @ (if 1 \<le> length ss \<and> length ss \<le> 100 then dive_scopes space ss else [])))"

definition update_limit_tags :: "'d HttpUpdateLimitInput \<Rightarrow> tag_check list" where
  "update_limit_tags i =
     (let space = ''UpdateLimitInput.'' in
      name_checks space (hul_Name i)
      @ description_checks space (hul_Description i)
      @ (case hul_Scopes i of
           None \<Rightarrow> []
         | Some ss \<Rightarrow> field_checks space ''Scopes''
               [(''min'', ''1'', 1 \<le> length ss), (''max'', ''100'', length ss \<le> 100)]
             @ (if 1 \<le> length ss \<and> length ss \<le> 100 then dive_scopes space ss else [])))"

subsection \<open>Messages\<close>

definition isLimitScopeFieldError :: "string \<Rightarrow> bool" where
  "isLimitScopeFieldError namespace = (index_of ''Scopes['' namespace \<noteq> None)"

definition extractLimitScopeIndex :: "http_ext \<Rightarrow> string \<Rightarrow> int" where
  "extractLimitScopeIndex H namespace =
     (case namespace_number H namespace of None \<Rightarrow> -1 | Some n \<Rightarrow> n)"

definition toLimitJSONFieldName :: "string \<Rightarrow> string" where
  "toLimitJSONFieldName fieldName =
     (if fieldName = ''Name'' then ''name''
      else if fieldName = ''Description'' then ''description''
      else if fieldName = ''LimitType'' then ''limitType''
      else if fieldName = ''MaxAmount'' then ''maxAmount''
      else if fieldName = ''Currency'' then ''currency''
      else if fieldName = ''Scopes'' then ''scopes''
      else if fieldName = ''Status'' then ''status''
      else if fieldName = ''Limit'' then ''limit''
      else if fieldName = ''Cursor'' then ''cursor''
      else if fieldName = ''SortBy'' then ''sortBy''
      else if fieldName = ''SortOrder'' then ''sortOrder''
      else fieldName)"

definition toLimitScopeJSONFieldName :: "string \<Rightarrow> string" where
  "toLimitScopeJSONFieldName fieldName =
     (if fieldName = ''SegmentID'' then ''segmentId''
      else if fieldName = ''PortfolioID'' then ''portfolioId''
      else if fieldName = ''AccountID'' then ''accountId''
      else if fieldName = ''MerchantID'' then ''merchantId''
      else if fieldName = ''TransactionType'' then ''transactionType''
      else if fieldName = ''SubType'' then ''subType''
      else fieldName)"

definition formatLimitScopeFieldError :: "http_ext \<Rightarrow> FieldError \<Rightarrow> string" where
  "formatLimitScopeFieldError H fe =
     (let tag = fe_Tag fe; index = extractLimitScopeIndex H (fe_Namespace fe) in
      if tag = ''scopenotempty'' then
        (if index = -1 then ''scope must have at least one field set''
         else ''scope at index '' @ show_int index @ '' must have at least one field set'')
      else
        let fieldName = toLimitScopeJSONFieldName (fe_Field fe);
            msg = (if tag = ''uuid'' then fieldName @ '' must be a valid UUID''
              else if tag = ''oneof'' then fieldName @ '' must be one of ['' @ fe_Param fe @ '']''
              else if tag = ''transactiontype'' then fieldName @ '' must be one of [CARD WIRE PIX CRYPTO]''
              else if tag = ''max'' then fieldName @ '' must be a maximum of '' @ fe_Param fe @ '' characters''
              else fieldName @ '' validation failed: '' @ tag)
        in if index = -1 then ''scope '' @ msg
           else ''scope at index '' @ show_int index @ '': '' @ msg)"

definition limit_tag_message :: "FieldError \<Rightarrow> string" where
  "limit_tag_message fe =
     (let name = toLimitJSONFieldName (fe_Field fe); tag = fe_Tag fe; param = fe_Param fe in
      if tag = ''required'' then name @ '' is a required field''
      else if tag = ''min'' then
        (if name = ''scopes'' then name @ '' must have at least '' @ param @ '' item(s)''
         else name @ '' must be at least '' @ param @ '' characters'')
      else if tag = ''max'' then
        (if name = ''scopes'' then name @ '' must have a maximum of '' @ param @ '' items''
         else name @ '' must be a maximum of '' @ param @ '' characters'')
      else if tag = ''len'' then name @ '' must be exactly '' @ param @ '' characters''
      else if tag = ''uppercase'' then name @ '' must be uppercase''
      else if tag = ''gt'' then name @ '' must be greater than '' @ param
      else if tag = ''oneof'' then name @ '' must be one of ['' @ param @ '']''
      else if tag = ''limittype'' then name @ '' must be one of [DAILY WEEKLY MONTHLY CUSTOM PER_TRANSACTION]''
      else if tag = ''limitstatus'' then name @ '' must be one of [DRAFT ACTIVE INACTIVE]''
      else name @ '' validation failed: '' @ tag)"

definition formatLimitValidationError :: "http_ext \<Rightarrow> struct_error \<Rightarrow> input_error option" where
  "formatLimitValidationError H e =
     (case e of
        OtherError m \<Rightarrow> Some (Uncoded m)
      | ValidationErrors [] \<Rightarrow> None
      | ValidationErrors (fe # _) \<Rightarrow>
          Some (Uncoded (if isLimitScopeFieldError (fe_Namespace fe) then formatLimitScopeFieldError H fe
                         else limit_tag_message fe)))"

text \<open>\<^verbatim>\<open>formatValidationMessage\<close> of a non-nil error.\<close>

definition formatValidationMessage :: "string \<Rightarrow> string" where
  "formatValidationMessage msg = (if msg = [] then ''Invalid input'' else msg)"

subsection \<open>Validation of the bodies\<close>

definition validate_struct ::
  "(struct_error \<Rightarrow> input_error option) \<Rightarrow> 'i the_validator \<Rightarrow> ('i \<Rightarrow> input_error option) \<Rightarrow> 'i
   \<Rightarrow> input_error option" where
  "validate_struct fmt V rest i =
     (case V of
        Inl m \<Rightarrow> Some (validator_init_error m)
      | Inr v \<Rightarrow> (case v i of Some e \<Rightarrow> fmt e | None \<Rightarrow> rest i))"

definition CreateLimitInput_Validate ::
  "http_ext \<Rightarrow> ('d::linordered_ab_group_add) HttpCreateLimitInput the_validator \<Rightarrow> 'd HttpCreateLimitInput
   \<Rightarrow> input_error option" where
  "CreateLimitInput_Validate H V i = validate_struct (formatLimitValidationError H) V
     (\<lambda>i. if hcl_MaxAmount i \<le> 0 then Some (Uncoded ''maxAmount must be greater than 0'') else None) i"

definition UpdateLimitInput_Validate ::
  "http_ext \<Rightarrow> ('d::linordered_ab_group_add) HttpUpdateLimitInput the_validator \<Rightarrow> 'd HttpUpdateLimitInput
   \<Rightarrow> input_error option" where
  "UpdateLimitInput_Validate H V i = validate_struct (formatLimitValidationError H) V
     (\<lambda>i. case hul_MaxAmount i of
        None \<Rightarrow> None
      | Some a \<Rightarrow> if a \<le> 0 then Some (Uncoded ''maxAmount must be greater than 0'') else None) i"

definition UpdateLimitInput_IsEmpty :: "'d HttpUpdateLimitInput \<Rightarrow> bool" where
  "UpdateLimitInput_IsEmpty i =
     (hul_Name i = None \<and> hul_MaxAmount i = None \<and> hul_Description i = None \<and> hul_Scopes i = None
      \<and> hul_ActiveTimeStart i = None \<and> hul_ActiveTimeEnd i = None \<and> hul_CustomStartDate i = None
      \<and> hul_CustomEndDate i = None)"

definition ToCreateLimitServiceInput :: "'d HttpCreateLimitInput \<Rightarrow> 'd CreateLimitInput" where
  "ToCreateLimitServiceInput i =
     \<lparr>cl_in_Name = hcl_Name i, cl_in_Description = hcl_Description i, cl_in_LimitType = hcl_LimitType i,
      cl_in_MaxAmount = hcl_MaxAmount i, cl_in_Currency = hcl_Currency i,
      cl_in_Scopes = (case hcl_Scopes i of None \<Rightarrow> [] | Some ss \<Rightarrow> ss),
      cl_in_ActiveTimeStart = hcl_ActiveTimeStart i, cl_in_ActiveTimeEnd = hcl_ActiveTimeEnd i,
      cl_in_CustomStartDate = hcl_CustomStartDate i, cl_in_CustomEndDate = hcl_CustomEndDate i\<rparr>"

definition ToUpdateLimitServiceInput :: "'d HttpUpdateLimitInput \<Rightarrow> 'd UpdateLimitInput" where
  "ToUpdateLimitServiceInput i =
     \<lparr>ul_in_Name = hul_Name i, ul_in_Description = hul_Description i, ul_in_MaxAmount = hul_MaxAmount i,
      ul_in_Scopes = hul_Scopes i, ul_in_ActiveTimeStart = hul_ActiveTimeStart i,
      ul_in_ActiveTimeEnd = hul_ActiveTimeEnd i, ul_in_CustomStartDate = hul_CustomStartDate i,
      ul_in_CustomEndDate = hul_CustomEndDate i\<rparr>"

subsection \<open>The query of the list\<close>

record 'd ListLimitsInput =
  lli_Name :: "string option"
  lli_AccountID :: "string option"
  lli_SegmentID :: "string option"
  lli_PortfolioID :: "string option"
  lli_MerchantID :: "string option"
  lli_TransactionType :: "string option"
  lli_SubType :: "string option"
  lli_Limit :: "int option"
  lli_Cursor :: "'d cursor_text"
  lli_Status :: string
  lli_LimitType :: string
  lli_SortBy :: string
  lli_SortOrder :: string

definition LimitStatus_of :: "string \<Rightarrow> LimitStatus" where
  "LimitStatus_of s =
     (if s = ''DRAFT'' then LimitStatusDraft else if s = ''ACTIVE'' then LimitStatusActive
      else if s = ''INACTIVE'' then LimitStatusInactive else if s = ''DELETED'' then LimitStatusDeleted
      else LimitStatusOther s)"

definition LimitType_of :: "string \<Rightarrow> LimitType" where
  "LimitType_of s =
     (if s = ''DAILY'' then LimitTypeDaily else if s = ''MONTHLY'' then LimitTypeMonthly
      else if s = ''PER_TRANSACTION'' then LimitTypePerTransaction else if s = ''WEEKLY'' then LimitTypeWeekly
      else if s = ''CUSTOM'' then LimitTypeCustom else LimitTypeOther s)"

definition ListLimitsInput_SetDefaults :: "ext \<Rightarrow> 'd ListLimitsInput \<Rightarrow> 'd ListLimitsInput" where
  "ListLimitsInput_SetDefaults X i =
     (let (sortBy, sortOrder) = paging_sort X (lli_Cursor i \<noteq> NoCursor) (lli_SortBy i) (lli_SortOrder i)
      in i\<lparr>lli_Limit := Some (case lli_Limit i of None \<Rightarrow> DefaultPaginationLimit | Some n \<Rightarrow> n),
           lli_SortBy := sortBy, lli_SortOrder := sortOrder\<rparr>)"

definition limit_validateScopeFields :: "http_ext \<Rightarrow> 'd ListLimitsInput \<Rightarrow> ValidationError option" where
  "limit_validateScopeFields H i = first_error
     [(case lli_Name i of None \<Rightarrow> None
       | Some n \<Rightarrow> if length n > 255
           then Some (coded ''TRC-0006'' ''name filter exceeds maximum length of 255 characters'') else None),
      validate_uuid_fields H [(lli_AccountID i, ''accountId''), (lli_SegmentID i, ''segmentId''),
        (lli_PortfolioID i, ''portfolioId''), (lli_MerchantID i, ''merchantId'')],
      (case given (lli_TransactionType i) of None \<Rightarrow> None
       | Some t \<Rightarrow> if \<not> TransactionType_IsValid (TransactionType_of t)
           then Some (coded ''TRC-0006'' ''transactionType must be one of [CARD WIRE PIX CRYPTO]'') else None),
      (case lli_SubType i of None \<Rightarrow> None
       | Some s \<Rightarrow> if length s > 50
           then Some (coded ''TRC-0006'' ''subType exceeds maximum length of 50 characters'') else None)]"

definition limit_sort_fields :: "string list" where
  "limit_sort_fields = [''createdAt'', ''updatedAt'', ''name'', ''maxAmount'']"

definition ListLimitsInput_Validate ::
  "ext \<Rightarrow> http_ext \<Rightarrow> 'd ListLimitsInput \<Rightarrow> ValidationError option" where
  "ListLimitsInput_Validate X H i = first_error
     [validate_paging X (lli_Limit i) 100 (lli_Cursor i \<noteq> NoCursor) (lli_SortBy i) (lli_SortOrder i)
        limit_sort_fields,
      (if lli_Status i = [] then None
       else if \<not> LimitStatus_IsValid (LimitStatus_of (lli_Status i))
         then Some (coded ''TRC-0006'' ''status must be one of [DRAFT ACTIVE INACTIVE]'')
       else if LimitStatus_of (lli_Status i) = LimitStatusDeleted
         then Some (coded ''TRC-0006'' ''status filter does not allow DELETED'') else None),
      (if lli_LimitType i = [] then None
       else if \<not> LimitType_IsValid (LimitType_of (lli_LimitType i))
         then Some (coded ''TRC-0006'' ''limitType must be one of [DAILY WEEKLY MONTHLY CUSTOM PER_TRANSACTION]'')
       else None),
      limit_validateScopeFields H i]"

text \<open>Identifiers of a query that are given are parsed in turn; a failure gives up.\<close>

definition parse_given ::
  "(string \<Rightarrow> 'a option) \<Rightarrow> string option \<Rightarrow> 'a option option" where
  "parse_given parse v = (case given v of None \<Rightarrow> Some None | Some s \<Rightarrow> map_option Some (parse s))"

definition scope_parameters ::
  "http_ext \<Rightarrow> string option \<Rightarrow> string option \<Rightarrow> string option \<Rightarrow> string option \<Rightarrow> string option
   \<Rightarrow> string option \<Rightarrow> Scope option" where
  "scope_parameters H accountID segmentID portfolioID merchantID transactionType subType =
     (case (parse_given (h_parse_uuid H) accountID, parse_given (h_parse_uuid H) segmentID,
            parse_given (h_parse_uuid H) portfolioID, parse_given (h_parse_uuid H) merchantID) of
        (Some a, Some s, Some p, Some m) \<Rightarrow>
          Some \<lparr>SegmentID = s, PortfolioID = p, AccountID = a, MerchantID = m,
            ScopeTransactionType = map_option TransactionType_of (given transactionType),
            ScopeSubType = given subType\<rparr>
      | _ \<Rightarrow> None)"

definition buildLimitScopeFromInput :: "http_ext \<Rightarrow> 'd ListLimitsInput \<Rightarrow> Scope option" where
  "buildLimitScopeFromInput H i =
     (case scope_parameters H (lli_AccountID i) (lli_SegmentID i) (lli_PortfolioID i) (lli_MerchantID i)
             (lli_TransactionType i) (lli_SubType i) of
        None \<Rightarrow> None
      | Some s \<Rightarrow> if Scope_IsEmpty s then None else Some s)"

definition ToListLimitsFilter :: "ext \<Rightarrow> http_ext \<Rightarrow> 'd ListLimitsInput \<Rightarrow> 'd ListLimitsFilter" where
  "ToListLimitsFilter X H i =
     \<lparr>f_Name = lli_Name i,
      f_Status = (if lli_Status i = [] then None else Some (LimitStatus_of (lli_Status i))),
      f_LimitType = (if lli_LimitType i = [] then None else Some (LimitType_of (lli_LimitType i))),
      f_Currency = None, f_ScopeFilter = buildLimitScopeFromInput H i,
      f_Limit = (case lli_Limit i of None \<Rightarrow> DefaultPaginationLimit | Some n \<Rightarrow> n),
      f_Cursor = lli_Cursor i, f_SortBy = lli_SortBy i, f_SortOrder = ToUpper X (lli_SortOrder i)\<rparr>"

subsection \<open>The usage of a limit\<close>

record ('d, 'f) UsageSnapshot =
  us_LimitID :: uuid
  us_CurrentUsage :: 'd
  us_LimitAmount :: 'd
  us_UtilizationPercent :: 'f
  us_NearLimit :: bool
  us_ResetAt :: "gotime option"

definition NewUsageSnapshot ::
  "('d \<Rightarrow> 'd \<Rightarrow> 'f) \<Rightarrow> ('d::linordered_ab_group_add) Limit \<Rightarrow> 'd UsageCounter list
   \<Rightarrow> ('d, 'f::{zero, numeral, ord}) UsageSnapshot" where
  "NewUsageSnapshot percent l counters =
     (let currentUsage = (if l_LimitType l \<noteq> LimitTypePerTransaction
            then foldl (+) 0 (map u_CurrentUsage counters) else 0);
          utilizationPercent = (if 0 < l_MaxAmount l then percent currentUsage (l_MaxAmount l) else 0)
      in \<lparr>us_LimitID = l_ID l, us_CurrentUsage = currentUsage, us_LimitAmount = l_MaxAmount l,
          us_UtilizationPercent = utilizationPercent, us_NearLimit = 80 < utilizationPercent,
          us_ResetAt = (if l_LimitType l \<noteq> LimitTypePerTransaction then l_ResetAt l else None)\<rparr>)"

definition GetLimitUsage ::
  "('d \<Rightarrow> 'd \<Rightarrow> 'f) \<Rightarrow> uuid \<Rightarrow> ('d::linordered_ab_group_add, 'x) limit_db_scheme
   \<Rightarrow> ('d, 'x) limit_db_scheme \<times> (err, ('d, 'f::{zero, numeral, ord}) UsageSnapshot) result" where
  "GetLimitUsage percent i db =
     (case GetLimitQuery_Execute i db of
        (db1, Inl e) \<Rightarrow> (db1, Inl e)
      | (db1, Inr l) \<Rightarrow>
          (case GetByLimitID db1 i of
             (db2, Inl e) \<Rightarrow> (db2, Inl e)
           | (db2, Inr counters) \<Rightarrow> (db2, Inr (NewUsageSnapshot percent l counters))))"

subsection \<open>Handlers\<close>

text \<open>\<^verbatim>\<open>handleLimitServiceError\<close>; whatever its switch does not name is an internal error.\<close>

definition limit_error_cases :: "(err \<times> 'b response) list" where
  "limit_error_cases =
     [(ErrLimitNameAlreadyExists, Conflict ''TRC-0304'' ''Conflict'' ''Limit name already exists''),
      (ErrLimitNotFound, NotFound ''TRC-0120'' ''Not Found'' ''Limit not found''),
      (ErrLimitAlreadyDeleted, BadRequestWithMessage ''TRC-0128'' ''Bad Request'' ''Cannot modify deleted limit''),
      (ErrLimitInvalidStatusChange,
        BadRequestWithMessage ''TRC-0121'' ''Bad Request'' ''Invalid status transition''),
      (ErrInvalidCursor, BadRequestWithMessage ''TRC-0044'' ''Bad Request'' ''Invalid pagination cursor''),
      (ErrInvalidSortColumn, BadRequestWithMessage ''TRC-0043'' ''Bad Request'' ''Invalid sort column''),
      (ErrInvalidSortOrder, BadRequestWithMessage ''TRC-0042'' ''Bad Request'' ''Invalid sort order''),
      (ErrLimitNameRequired, BadRequestWithMessage ''TRC-0126'' ''Validation Error'' ''name is required''),
      (ErrLimitNameTooLong, BadRequestWithMessage ''TRC-0127'' ''Validation Error'' ''name exceeds maximum length''),
      (ErrLimitNameInvalidChars,
        BadRequestWithMessage ''TRC-0129'' ''Validation Error'' ''name contains invalid characters''),
      (ErrLimitDescriptionInvalidChars,
        BadRequestWithMessage ''TRC-0130'' ''Validation Error'' ''description contains invalid characters''),
      (ErrLimitInvalidType, BadRequestWithMessage ''TRC-0122'' ''Validation Error''
        ''limitType must be one of [DAILY, MONTHLY, PER_TRANSACTION]''),
      (ErrLimitInvalidMaxAmount,
        BadRequestWithMessage ''TRC-0123'' ''Validation Error'' ''maxAmount must be positive''),
      (ErrLimitInvalidCurrency, BadRequestWithMessage ''TRC-0124'' ''Validation Error''
        ''currency must be a valid 3-letter ISO 4217 code''),
      (ErrLimitInvalidScope, BadRequestWithMessage ''TRC-0125'' ''Validation Error''
        ''scopes must have at least one entry with at least one field set'')]"

definition handleLimitServiceError :: "err \<Rightarrow> 'b response" where
  "handleLimitServiceError e = on_error limit_error_cases unexpected_error e"

definition limit_input_error :: "input_error \<Rightarrow> 'b response" where
  "limit_input_error e =
     answer_invalid ''Validation Error'' ''TRC-0001'' ''Validation Error''
       (case e of Coded v \<Rightarrow> Coded v | Uncoded m \<Rightarrow> Uncoded (formatValidationMessage m))"

definition bad_body :: "'b response" where
  "bad_body = BadRequestWithMessage ''TRC-0003'' ''Bad Request'' ''Invalid request body''"

definition bad_query :: "'b response" where
  "bad_query = BadRequestWithMessage ''TRC-0006'' ''Invalid Query Parameter'' ''Invalid query parameters''"

definition with_limit_id ::
  "http_ext \<Rightarrow> string \<Rightarrow> 's \<Rightarrow> (uuid \<Rightarrow> 's \<times> 'b response) \<Rightarrow> 's \<times> 'b response" where
  "with_limit_id H = with_id (h_parse_uuid H) ''Invalid limit ID format''"

definition CreateLimit_handler ::
  "ext \<Rightarrow> audit_ext \<Rightarrow> http_ext \<Rightarrow> ('d::linordered_ab_group_add) HttpCreateLimitInput the_validator
   \<Rightarrow> command_env \<Rightarrow> err option list \<Rightarrow> 'd HttpCreateLimitInput option \<Rightarrow> ('d, 'p, 'x) audit_db_scheme
   \<Rightarrow> ('d, 'p, 'x) audit_db_scheme \<times> 'd Limit response" where
  "CreateLimit_handler X A H V K ctx body db =
     (case body of
        None \<Rightarrow> (db, bad_body)
      | Some input \<Rightarrow>
     (case CreateLimitInput_Validate H V input of
        Some e \<Rightarrow> (db, limit_input_error e)
      | None \<Rightarrow>
          answer handleLimitServiceError Created
            (CreateLimit X A (h_parse_time H) K ctx (Some (ToCreateLimitServiceInput input)) db)))"

definition GetLimit_handler ::
  "http_ext \<Rightarrow> string \<Rightarrow> ('d, 'x) limit_db_scheme \<Rightarrow> ('d, 'x) limit_db_scheme \<times> 'd Limit response" where
  "GetLimit_handler H idParam db =
     with_limit_id H idParam db (\<lambda>i. answer handleLimitServiceError OK (GetLimitQuery_Execute i db))"

record 'd ListLimitsResponse =
  lr_Limits :: "'d Limit list"
  lr_NextCursor :: "'d cursor_text"
  lr_HasMore :: bool

definition ToListLimitsResponse :: "'d ListLimitsResult \<Rightarrow> 'd ListLimitsResponse" where
  "ToListLimitsResponse r =
     \<lparr>lr_Limits = res_Limits r, lr_NextCursor = res_NextCursor r, lr_HasMore = res_HasMore r\<rparr>"

definition ListLimits_handler ::
  "ext \<Rightarrow> http_ext \<Rightarrow> err option \<Rightarrow> 'd::linorder ListLimitsInput option \<Rightarrow> ('d, 'x) limit_db_scheme
   \<Rightarrow> ('d, 'x) limit_db_scheme \<times> 'd ListLimitsResponse response" where
  "ListLimits_handler X H ctx query db =
     (case query of
        None \<Rightarrow> (db, bad_query)
      | Some input \<Rightarrow>
     (case ListLimitsInput_Validate X H input of
        Some e \<Rightarrow> (db, limit_input_error (Coded e))
      | None \<Rightarrow>
          answer handleLimitServiceError (\<lambda>r. OK (ToListLimitsResponse r))
            (ListLimitsQuery_Execute X ctx (ToListLimitsFilter X H (ListLimitsInput_SetDefaults X input)) db)))"

text \<open>The names of the fields of the body are those of its JSON object, if it is one.\<close>

definition UpdateLimit_handler ::
  "ext \<Rightarrow> audit_ext \<Rightarrow> http_ext \<Rightarrow> ('d::linordered_ab_group_add) HttpUpdateLimitInput the_validator
   \<Rightarrow> command_env \<Rightarrow> err option list
   \<Rightarrow> (('d, 'p, 'x) audit_db_scheme \<Rightarrow> ('d, 'p, 'x) audit_db_scheme) \<Rightarrow> string \<Rightarrow> string list option
   \<Rightarrow> 'd HttpUpdateLimitInput option \<Rightarrow> ('d, 'p, 'x) audit_db_scheme
   \<Rightarrow> ('d, 'p, 'x) audit_db_scheme \<times> 'd Limit response" where
  "UpdateLimit_handler X A H V K ctx others idParam rawBody body db =
     with_limit_id H idParam db (\<lambda>i.
       if rawBody \<noteq> None \<and> ''limitType'' \<in> set (the rawBody)
       then (db, BadRequestWithMessage ''TRC-0138'' ''Immutable Field''
               ''limitType cannot be modified after creation'')
       else if rawBody \<noteq> None \<and> ''currency'' \<in> set (the rawBody)
       then (db, BadRequestWithMessage ''TRC-0138'' ''Immutable Field''
               ''currency cannot be modified after creation'')
       else
     (case body of
        None \<Rightarrow> (db, bad_body)
      | Some input \<Rightarrow>
     (case UpdateLimitInput_Validate H V input of
        Some e \<Rightarrow> (db, limit_input_error e)
      | None \<Rightarrow>
          if UpdateLimitInput_IsEmpty input
          then (db, BadRequestWithMessage ''TRC-0002'' ''Validation Error''
                  ''At least one field must be provided for update'')
          else answer handleLimitServiceError OK
                 (UpdateLimit X A (h_parse_time H) K ctx others i (Some (ToUpdateLimitServiceInput input)) db))))"

definition ActivateLimit_handler ::
  "ext \<Rightarrow> audit_ext \<Rightarrow> http_ext \<Rightarrow> command_env \<Rightarrow> err option list
   \<Rightarrow> (('d, 'p, 'x) audit_db_scheme \<Rightarrow> ('d, 'p, 'x) audit_db_scheme) \<Rightarrow> string \<Rightarrow> ('d, 'p, 'x) audit_db_scheme
   \<Rightarrow> ('d, 'p, 'x) audit_db_scheme \<times> 'd Limit response" where
  "ActivateLimit_handler X A H K ctx others idParam db =
     with_limit_id H idParam db (\<lambda>i. answer handleLimitServiceError OK (ActivateLimit X A K ctx others i db))"

definition DeactivateLimit_handler ::
  "ext \<Rightarrow> audit_ext \<Rightarrow> http_ext \<Rightarrow> command_env \<Rightarrow> err option list
   \<Rightarrow> (('d, 'p, 'x) audit_db_scheme \<Rightarrow> ('d, 'p, 'x) audit_db_scheme) \<Rightarrow> string \<Rightarrow> ('d, 'p, 'x) audit_db_scheme
   \<Rightarrow> ('d, 'p, 'x) audit_db_scheme \<times> 'd Limit response" where
  "DeactivateLimit_handler X A H K ctx others idParam db =
     with_limit_id H idParam db (\<lambda>i. answer handleLimitServiceError OK (DeactivateLimit X A K ctx others i db))"

definition DraftLimit_handler ::
  "ext \<Rightarrow> audit_ext \<Rightarrow> http_ext \<Rightarrow> command_env \<Rightarrow> err option list
   \<Rightarrow> (('d, 'p, 'x) audit_db_scheme \<Rightarrow> ('d, 'p, 'x) audit_db_scheme) \<Rightarrow> string \<Rightarrow> ('d, 'p, 'x) audit_db_scheme
   \<Rightarrow> ('d, 'p, 'x) audit_db_scheme \<times> 'd Limit response" where
  "DraftLimit_handler X A H K ctx others idParam db =
     with_limit_id H idParam db (\<lambda>i. answer handleLimitServiceError OK (DraftLimit X A K ctx others i db))"

definition DeleteLimit_handler ::
  "ext \<Rightarrow> audit_ext \<Rightarrow> http_ext \<Rightarrow> command_env \<Rightarrow> err option list
   \<Rightarrow> (('d, 'p, 'x) audit_db_scheme \<Rightarrow> ('d, 'p, 'x) audit_db_scheme) \<Rightarrow> string \<Rightarrow> ('d, 'p, 'x) audit_db_scheme
   \<Rightarrow> ('d, 'p, 'x) audit_db_scheme \<times> 'd Limit response" where
  "DeleteLimit_handler X A H K ctx others idParam db =
     with_limit_id H idParam db (\<lambda>i.
       answer handleLimitServiceError (\<lambda>_. NoContent) (DeleteLimit X A K ctx others i db))"

definition GetLimitUsage_handler ::
  "('d \<Rightarrow> 'd \<Rightarrow> 'f) \<Rightarrow> http_ext \<Rightarrow> string \<Rightarrow> ('d::linordered_ab_group_add, 'x) limit_db_scheme
   \<Rightarrow> ('d, 'x) limit_db_scheme \<times> ('d, 'f::{zero, numeral, ord}) UsageSnapshot response" where
  "GetLimitUsage_handler percent H idParam db =
     with_limit_id H idParam db (\<lambda>i. answer handleLimitServiceError OK (GetLimitUsage percent i db))"

end
