(* ===== verification/HttpRules.thy ===== *)
theory HttpRules
  imports HttpLimits
begin

text \<open>
  The rule endpoints: inputs and their validation (\<^verbatim>\<open>rule_validation.go\<close>) and handlers
  (\<^verbatim>\<open>rule_handler.go\<close>), in the setting of \<open>HttpLimits\<close>. Where the source parses an identifier with
  \<^verbatim>\<open>MustParse\<close>, a text that is none panics.
\<close>

subsection \<open>Inputs\<close>

record HttpCreateRuleInput =
  hcr_Name :: string
  hcr_Description :: string
  hcr_Expression :: string
  hcr_Action :: Decision
  hcr_Scopes :: "Scope list"

record HttpUpdateRuleInput =
  hur_Name :: "string option"
  hur_Description :: "string option"
  hur_Expression :: "string option"
  hur_Action :: "Decision option"
  hur_Scopes :: "Scope list option"

definition text_checks :: "string \<Rightarrow> string \<Rightarrow> bool \<Rightarrow> nat \<Rightarrow> string \<Rightarrow> tag_check list" where
  "text_checks space field required longest s = field_checks space field
     ((if required then [(''required'', [], s \<noteq> [])] else [])
      @ [(''min'', ''1'', 1 \<le> rune_count s), (''max'', nat_digits longest, rune_count s \<le> longest)])"

definition rule_scopes_checks :: "string \<Rightarrow> Scope list \<Rightarrow> tag_check list" where
  "rule_scopes_checks space ss =
     field_checks space ''Scopes'' [(''max'', ''100'', length ss \<le> 100)]
     @ (if length ss \<le> 100 then dive_scopes space ss else [])"

definition create_rule_tags :: "HttpCreateRuleInput \<Rightarrow> tag_check list" where
  "create_rule_tags i =
     (let space = ''CreateRuleInput.'' in
      text_checks space ''Name'' True 255 (hcr_Name i)
      @ field_checks space ''Description'' [(''max'', ''1000'', rune_count (hcr_Description i) \<le> 1000)]
      @ text_checks space ''Expression'' True 5000 (hcr_Expression i)
      @ field_checks space ''Action''
          [(''required'', [], Decision_String (hcr_Action i) \<noteq> []),
           (''decision'', [], Decision_IsValid (hcr_Action i))]
      @ rule_scopes_checks space (hcr_Scopes i))"

definition update_rule_tags :: "HttpUpdateRuleInput \<Rightarrow> tag_check list" where
  "update_rule_tags i =
     (let space = ''UpdateRuleInput.'' in
      (case hur_Name i of None \<Rightarrow> [] | Some n \<Rightarrow> text_checks space ''Name'' False 255 n)
      @ description_checks space (hur_Description i)
      @ (case hur_Expression i of None \<Rightarrow> [] | Some e \<Rightarrow> text_checks space ''Expression'' False 5000 e)
      @ (case hur_Action i of None \<Rightarrow> []
         | Some a \<Rightarrow> field_checks space ''Action'' [(''decision'', [], Decision_IsValid a)])
      @ (case hur_Scopes i of None \<Rightarrow> [] | Some ss \<Rightarrow> rule_scopes_checks space ss))"

subsection \<open>Codes and messages\<close>

definition isScopeFieldError :: "string \<Rightarrow> bool" where
  "isScopeFieldError namespace = (index_of ''Scopes['' namespace \<noteq> None)"

definition extractScopeIndex :: "http_ext \<Rightarrow> string \<Rightarrow> int option" where
  "extractScopeIndex H namespace =
     (case namespace_number H namespace of
        None \<Rightarrow> None | Some index \<Rightarrow> if index < 0 then None else Some index)"

definition toJSONFieldName :: "string \<Rightarrow> string" where
  "toJSONFieldName fieldName =
     (if fieldName = ''Name'' then ''name''
      else if fieldName = ''Description'' then ''description''
      else if fieldName = ''Expression'' then ''expression''
      else if fieldName = ''Action'' then ''action''
      else if fieldName = ''Scopes'' then ''scopes''
      else fieldName)"

definition toScopeJSONFieldName :: "string \<Rightarrow> string" where
  "toScopeJSONFieldName fieldName =
     (if fieldName = ''SegmentID'' then ''segmentId''
      else if fieldName = ''PortfolioID'' then ''portfolioId''
      else if fieldName = ''AccountID'' then ''accountId''
      else if fieldName = ''MerchantID'' then ''merchantId''
      else if fieldName = ''TransactionType'' then ''transactionType''
      else if fieldName = ''SubType'' then ''subType''
      else fieldName)"

definition mapRequiredFieldToError :: "string \<Rightarrow> ValidationError" where
  "mapRequiredFieldToError fieldName =
     (if fieldName = ''name'' then coded ''TRC-0106'' ''name is required''
      else if fieldName = ''expression'' then coded ''TRC-0108'' ''expression is required''
      else if fieldName = ''action''
        then coded ''TRC-0110'' ''action is required and must be one of [ALLOW, DENY, REVIEW]''
      else coded ''TRC-0001'' (fieldName @ '' is required''))"

definition mapMaxFieldToError :: "string \<Rightarrow> string \<Rightarrow> ValidationError" where
  "mapMaxFieldToError fieldName maxValue =
     (if fieldName = ''name''
        then coded ''TRC-0107'' (''name exceeds maximum length of '' @ maxValue @ '' characters'')
      else if fieldName = ''description''
        then coded ''TRC-0112'' (''description exceeds maximum length of '' @ maxValue @ '' characters'')
      else if fieldName = ''expression''
        then coded ''TRC-0109'' (''expression exceeds maximum length of '' @ maxValue @ '' characters'')
      else if fieldName = ''scopes''
        then coded ''TRC-0113'' (''scopes exceed maximum of '' @ maxValue @ '' entries'')
      else coded ''TRC-0001'' (fieldName @ '' exceeds maximum length of '' @ maxValue))"

definition formatScopeFieldErrorWithCode :: "http_ext \<Rightarrow> FieldError \<Rightarrow> ValidationError" where
  "formatScopeFieldErrorWithCode H fe =
     (let tag = fe_Tag fe; index = extractScopeIndex H (fe_Namespace fe);
          fieldName = toScopeJSONFieldName (fe_Field fe);
          place = (case index of None \<Rightarrow> ''scope '' | Some n \<Rightarrow> ''scope at index '' @ show_int n @ '': '')
      in coded ''TRC-0111''
        (if tag = ''scopenotempty'' then
           (case index of
              None \<Rightarrow> ''scope must have at least one field set''
            | Some n \<Rightarrow> ''scope at index '' @ show_int n @ '' must have at least one field set'')
         else place @ fieldName @
           (if tag = ''uuid'' then '' must be a valid UUID''
            else if tag = ''transactiontype'' then '' must be one of [CARD, WIRE, PIX, CRYPTO]''
            else if tag = ''max'' then '' exceeds maximum length of '' @ fe_Param fe @ '' characters''
            else '' validation failed'')))"

definition formatValidationError :: "http_ext \<Rightarrow> struct_error \<Rightarrow> input_error option" where
  "formatValidationError H e =
     (case e of
        OtherError m \<Rightarrow> Some (Uncoded m)
      | ValidationErrors [] \<Rightarrow> None
      | ValidationErrors (fe # _) \<Rightarrow>
          let name = toJSONFieldName (fe_Field fe); tag = fe_Tag fe
          in Some (Coded
            (if isScopeFieldError (fe_Namespace fe) then formatScopeFieldErrorWithCode H fe
             else if tag = ''required'' then mapRequiredFieldToError name
             else if tag = ''max'' then mapMaxFieldToError name (fe_Param fe)
             else if tag = ''decision''
               then coded ''TRC-0110'' ''action must be one of [ALLOW, DENY, REVIEW]''
             else coded ''TRC-0001'' (name @ '' validation failed: '' @ tag))))"

definition CreateRuleInput_Validate ::
  "http_ext \<Rightarrow> HttpCreateRuleInput the_validator \<Rightarrow> HttpCreateRuleInput \<Rightarrow> input_error option" where
  "CreateRuleInput_Validate H V i = validate_struct (formatValidationError H) V (\<lambda>_. None) i"

definition UpdateRuleInput_Validate ::
  "http_ext \<Rightarrow> HttpUpdateRuleInput the_validator \<Rightarrow> HttpUpdateRuleInput \<Rightarrow> input_error option" where
  "UpdateRuleInput_Validate H V i = validate_struct (formatValidationError H) V (\<lambda>_. None) i"

definition UpdateRuleInput_IsEmpty :: "HttpUpdateRuleInput \<Rightarrow> bool" where
  "UpdateRuleInput_IsEmpty i =
     (hur_Name i = None \<and> hur_Description i = None \<and> hur_Expression i = None \<and> hur_Action i = None
      \<and> hur_Scopes i = None)"

definition toServiceInput :: "HttpCreateRuleInput \<Rightarrow> CreateRuleInput" where
  "toServiceInput i =
     \<lparr>cr_in_Name = hcr_Name i, cr_in_Description = hcr_Description i, cr_in_Expression = hcr_Expression i,
      cr_in_Action = hcr_Action i, cr_in_Scopes = hcr_Scopes i\<rparr>"

definition toUpdateServiceInput :: "HttpUpdateRuleInput \<Rightarrow> UpdateRuleInput" where
  "toUpdateServiceInput i =
     \<lparr>ur_in_Name = hur_Name i, ur_in_Description = hur_Description i, ur_in_Expression = hur_Expression i,
      ur_in_Action = hur_Action i, ur_in_Scopes = hur_Scopes i\<rparr>"

subsection \<open>The query of the list\<close>

record ListRulesInput =
  lri_Name :: "string option"
  lri_Status :: "RuleStatus option"
  lri_Action :: "Decision option"
  lri_AccountID :: "string option"
  lri_SegmentID :: "string option"
  lri_PortfolioID :: "string option"
  lri_MerchantID :: "string option"
  lri_TransactionType :: "string option"
  lri_SubType :: "string option"
  lri_Limit :: "int option"
  lri_Cursor :: rule_cursor_text
  lri_SortBy :: string
  lri_SortOrder :: string

definition rule_validateScopeFields :: "http_ext \<Rightarrow> ListRulesInput \<Rightarrow> ValidationError option" where
  "rule_validateScopeFields H i = first_error
     [validate_uuid_fields H [(lri_AccountID i, ''accountId''), (lri_SegmentID i, ''segmentId''),
        (lri_PortfolioID i, ''portfolioId''), (lri_MerchantID i, ''merchantId'')],
      (case given (lri_TransactionType i) of None \<Rightarrow> None
       | Some t \<Rightarrow> if \<not> TransactionType_IsValid (TransactionType_of t)
           then Some (coded ''TRC-0006'' ''transactionType must be one of [CARD, WIRE, PIX, CRYPTO]'') else None),
      (case lri_SubType i of None \<Rightarrow> None
       | Some s \<Rightarrow> if length s > 50
           then Some (coded ''TRC-0006'' ''subType exceeds maximum length of 50 characters'') else None)]"

definition rule_sort_fields_allowed :: "string list" where
  "rule_sort_fields_allowed = [''createdAt'', ''updatedAt'', ''name'', ''status'']"

definition ListRulesInput_Validate :: "ext \<Rightarrow> http_ext \<Rightarrow> ListRulesInput \<Rightarrow> ValidationError option" where
  "ListRulesInput_Validate X H i = first_error
     [validate_paging X (lri_Limit i) 100 (lri_Cursor i \<noteq> RuleNoCursor) (lri_SortBy i) (lri_SortOrder i)
        rule_sort_fields_allowed,
      (case lri_Status i of None \<Rightarrow> None
       | Some s \<Rightarrow>
           if \<not> RuleStatus_IsValid s
           then Some (coded ''TRC-0006'' ''Status must be one of [DRAFT ACTIVE INACTIVE]'')
           else if s = RuleStatusDeleted
           then Some (coded ''TRC-0006''
             ''Status filter does not allow DELETED; use audit API for deleted rules'') else None),
      (case lri_Action i of None \<Rightarrow> None
       | Some a \<Rightarrow> if \<not> Decision_IsValid a
           then Some (coded ''TRC-0006'' ''Invalid action filter value'') else None),
      rule_validateScopeFields H i]"

definition ListRulesInput_SetDefaults :: "ext \<Rightarrow> ListRulesInput \<Rightarrow> ListRulesInput" where
  "ListRulesInput_SetDefaults X i =
     (let (sortBy, sortOrder) = paging_sort X (lri_Cursor i \<noteq> RuleNoCursor) (lri_SortBy i) (lri_SortOrder i)
      in i\<lparr>lri_Limit := Some (case lri_Limit i of None \<Rightarrow> DefaultPaginationLimit | Some n \<Rightarrow> n),
           lri_SortBy := sortBy, lri_SortOrder := sortOrder\<rparr>)"

text \<open>\<^term>\<open>None\<close> is a panic.\<close>

definition buildScopeFromInput :: "http_ext \<Rightarrow> ListRulesInput \<Rightarrow> Scope option option" where
  "buildScopeFromInput H i =
     (case scope_parameters H (lri_AccountID i) (lri_SegmentID i) (lri_PortfolioID i) (lri_MerchantID i)
             (lri_TransactionType i) (lri_SubType i) of
        None \<Rightarrow> None
      | Some s \<Rightarrow> Some (if Scope_IsEmpty s then None else Some s))"

definition toListFilter :: "http_ext \<Rightarrow> ListRulesInput \<Rightarrow> ListRulesFilter option" where
  "toListFilter H i =
     map_option (\<lambda>scope. \<lparr>rf_Name = lri_Name i, rf_Status = lri_Status i, rf_Action = lri_Action i,
        rf_ScopeFilter = scope,
        rf_Limit = (case lri_Limit i of None \<Rightarrow> DefaultPaginationLimit | Some n \<Rightarrow> n),
        rf_Cursor = lri_Cursor i, rf_SortBy = lri_SortBy i, rf_SortOrder = lri_SortOrder i\<rparr>)
       (buildScopeFromInput H i)"

subsection \<open>Handlers\<close>

definition rule_error_cases :: "(err \<times> 'b response) list" where
  "rule_error_cases =
     [(ErrRuleNameAlreadyExistsInCtx,
        Conflict ''TRC-0303'' ''Conflict'' ''Rule name already exists in this context''),
      (ErrRuleNameAlreadyExists, Conflict ''TRC-0101'' ''Conflict'' ''Rule name already exists''),
      (ErrExpressionSyntax, BadRequestWithMessage ''TRC-0083'' ''Bad Request'' ''Invalid CEL expression syntax''),
      (ErrExpressionType,
        BadRequestWithMessage ''TRC-0084'' ''Bad Request'' ''Expression must evaluate to boolean''),
      (ErrExpressionCostExceeded,
        BadRequestWithMessage ''TRC-0085'' ''Bad Request'' ''Expression cost exceeds limit''),
      (ErrExpressionNotModifiable, BadRequestWithMessage ''TRC-0104'' ''Bad Request''
        ''Expression cannot be modified for non-DRAFT rules''),
      (ErrRuleNotFound, NotFound ''TRC-0100'' ''Not Found'' ''Rule not found''),
      (ErrInvalidCursor, BadRequestWithMessage ''TRC-0044'' ''Bad Request'' ''Invalid pagination cursor''),
      (ErrInvalidSortColumn, BadRequestWithMessage ''TRC-0043'' ''Bad Request'' ''Invalid sort column'')]"

definition handleServiceError :: "err \<Rightarrow> 'b response" where
  "handleServiceError e = on_error rule_error_cases unexpected_error e"

text \<open>\<^verbatim>\<open>errors.As\<close> for a transition error.\<close>

fun wraps_transition :: "err \<Rightarrow> bool" where
  "wraps_transition (InvalidTransitionError f t) = True"
| "wraps_transition (Wrap m e) = wraps_transition e"
| "wraps_transition (Wrap2 m e f) = (wraps_transition e \<or> wraps_transition f)"
| "wraps_transition e = False"

definition handleLifecycleError :: "http_ext \<Rightarrow> err \<Rightarrow> 'b response" where
  "handleLifecycleError H e =
     (if wraps_transition e then BadRequestWithMessage ''TRC-0102'' ''Invalid State Transition'' (h_Error H e)
      else handleServiceError e)"

definition with_rule_id ::
  "http_ext \<Rightarrow> string \<Rightarrow> 's \<Rightarrow> (uuid \<Rightarrow> 's \<times> 'b response) \<Rightarrow> 's \<times> 'b response" where
  "with_rule_id H = with_id (h_parse_uuid H) ''Invalid rule ID format''"

definition CreateRule_handler ::
  "ext \<Rightarrow> audit_ext \<Rightarrow> ('p, 'd) cel_ops \<Rightarrow> http_ext \<Rightarrow> HttpCreateRuleInput the_validator \<Rightarrow> command_env
   \<Rightarrow> HttpCreateRuleInput option \<Rightarrow> ('d, 'p, 'x) audit_db_scheme
   \<Rightarrow> ('d, 'p, 'x) audit_db_scheme \<times> 'p Rule response" where
  "CreateRule_handler X A cel H V K body db =
     (case body of
        None \<Rightarrow> (db, bad_body)
      | Some input \<Rightarrow>
     (case CreateRuleInput_Validate H V input of
        Some e \<Rightarrow> (db, answer_invalid ''Validation Error'' ''TRC-0001'' ''Validation Error'' e)
      | None \<Rightarrow> answer handleServiceError Created (CreateRule X A cel K (Some (toServiceInput input)) db)))"

definition UpdateRule_handler ::
  "ext \<Rightarrow> audit_ext \<Rightarrow> ('p, 'd) cel_ops \<Rightarrow> http_ext \<Rightarrow> HttpUpdateRuleInput the_validator \<Rightarrow> command_env
   \<Rightarrow> (('d, 'p, 'x) audit_db_scheme \<Rightarrow> ('d, 'p, 'x) audit_db_scheme) \<Rightarrow> string
   \<Rightarrow> HttpUpdateRuleInput option \<Rightarrow> ('d, 'p, 'x) audit_db_scheme
   \<Rightarrow> ('d, 'p, 'x) audit_db_scheme \<times> 'p Rule response" where
  "UpdateRule_handler X A cel H V K others idParam body db =
     with_rule_id H idParam db (\<lambda>i.
     (case body of
        None \<Rightarrow> (db, bad_body)
      | Some input \<Rightarrow>
     (case UpdateRuleInput_Validate H V input of
        Some e \<Rightarrow> (db, answer_invalid ''Validation Error'' ''TRC-0001'' ''Validation Error'' e)
      | None \<Rightarrow>
          if UpdateRuleInput_IsEmpty input
          then (db, BadRequestWithMessage ''TRC-0002'' ''Validation Error''
                  ''At least one field must be provided for update'')
          else answer handleServiceError OK
                 (UpdateRule X A cel K others i (toUpdateServiceInput input) db))))"

definition GetRule_handler ::
  "http_ext \<Rightarrow> string \<Rightarrow> ('d, 'p, 'x) rule_db_scheme \<Rightarrow> ('d, 'p, 'x) rule_db_scheme \<times> 'p Rule response" where
  "GetRule_handler H idParam db =
     with_rule_id H idParam db (\<lambda>i. answer handleServiceError OK (GetRuleQuery_Execute i db))"

record 'p ListRulesResponse =
  rlr_Rules :: "'p Rule list"
  rlr_NextCursor :: rule_cursor_text
  rlr_HasMore :: bool

definition toListResponse :: "'p ListRulesResult \<Rightarrow> 'p ListRulesResponse" where
  "toListResponse r =
     \<lparr>rlr_Rules = rr_Rules r, rlr_NextCursor = rr_NextCursor r, rlr_HasMore = rr_HasMore r\<rparr>"

definition ListRules_handler ::
  "ext \<Rightarrow> http_ext \<Rightarrow> ListRulesInput option \<Rightarrow> ('d, 'p, 'x) rule_db_scheme
   \<Rightarrow> ('d, 'p, 'x) rule_db_scheme \<times> 'p ListRulesResponse response" where
  "ListRules_handler X H query db =
     (case query of
        None \<Rightarrow> (db, bad_query)
      | Some input \<Rightarrow>
     (case ListRulesInput_Validate X H input of
        Some e \<Rightarrow> (db, answer_invalid ''Bad Request'' ''TRC-0001'' ''Validation Error'' (Coded e))
      | None \<Rightarrow>
     (case toListFilter H (ListRulesInput_SetDefaults X input) of
        None \<Rightarrow> (db, Panicked)
      | Some filt \<Rightarrow>
          answer handleServiceError (\<lambda>r. OK (toListResponse r)) (ListRulesQuery_Execute X (Some filt) db))))"

definition ActivateRule_handler ::
  "ext \<Rightarrow> audit_ext \<Rightarrow> ('p, 'd) cel_ops \<Rightarrow> http_ext \<Rightarrow> command_env
   \<Rightarrow> (('d, 'p, 'x) audit_db_scheme \<Rightarrow> ('d, 'p, 'x) audit_db_scheme) \<Rightarrow> string
   \<Rightarrow> ('d, 'p, 'x) audit_db_scheme \<times> 'p RuleCache
   \<Rightarrow> (('d, 'p, 'x) audit_db_scheme \<times> 'p RuleCache) \<times> 'p Rule response" where
  "ActivateRule_handler X A cel H K others idParam s =
     with_rule_id H idParam s (\<lambda>i. answer (handleLifecycleError H) OK (ActivateRule X A cel K others i s))"

definition DeactivateRule_handler ::
  "ext \<Rightarrow> audit_ext \<Rightarrow> http_ext \<Rightarrow> command_env
   \<Rightarrow> (('d, 'p, 'x) audit_db_scheme \<Rightarrow> ('d, 'p, 'x) audit_db_scheme) \<Rightarrow> string
   \<Rightarrow> ('d, 'p, 'x) audit_db_scheme \<times> 'p RuleCache
   \<Rightarrow> (('d, 'p, 'x) audit_db_scheme \<times> 'p RuleCache) \<times> 'p Rule response" where
  "DeactivateRule_handler X A H K others idParam s =
     with_rule_id H idParam s (\<lambda>i. answer (handleLifecycleError H) OK (DeactivateRule X A K others i s))"

definition DraftRule_handler ::
  "ext \<Rightarrow> audit_ext \<Rightarrow> http_ext \<Rightarrow> command_env
   \<Rightarrow> (('d, 'p, 'x) audit_db_scheme \<Rightarrow> ('d, 'p, 'x) audit_db_scheme) \<Rightarrow> string \<Rightarrow> ('d, 'p, 'x) audit_db_scheme
   \<Rightarrow> ('d, 'p, 'x) audit_db_scheme \<times> 'p Rule response" where
  "DraftRule_handler X A H K others idParam db =
     with_rule_id H idParam db (\<lambda>i. answer (handleLifecycleError H) OK (DraftRule X A K others i db))"

definition DeleteRule_handler ::
  "ext \<Rightarrow> audit_ext \<Rightarrow> http_ext \<Rightarrow> command_env
   \<Rightarrow> (('d, 'p, 'x) audit_db_scheme \<Rightarrow> ('d, 'p, 'x) audit_db_scheme) \<Rightarrow> string \<Rightarrow> ('d, 'p, 'x) audit_db_scheme
   \<Rightarrow> ('d, 'p, 'x) audit_db_scheme \<times> 'p Rule response" where
  "DeleteRule_handler X A H K others idParam db =
     with_rule_id H idParam db (\<lambda>i.
       answer (handleLifecycleError H) (\<lambda>_. NoContent) (DeleteRule X A K others i db))"

end
