(* ===== verification/HttpListFacts.thy ===== *)
theory HttpListFacts
  imports HttpRules LimitListFacts
begin

text \<open>
  Following the cursors of a list over HTTP: the client sends the cursor of the last answer and, as the
  validation asks for, no sort. The rules take the sort from the cursor. The limits take it from the
  request, where it is now missing.
\<close>

lemma scope_parameters_parse:
  assumes "validate_uuid_fields H [(a, ''accountId''), (s, ''segmentId''), (p, ''portfolioId''), (m, ''merchantId'')]
    = None"
  shows "scope_parameters H a s p m t u \<noteq> None"
proof -
  have "parse_given (h_parse_uuid H) v \<noteq> None" if "v \<in> {a, s, p, m}" for v
    using assms [unfolded validate_uuid_fields_None] that by (auto simp: parse_given_def split: option.split)
  then have "parse_given (h_parse_uuid H) a \<noteq> None" "parse_given (h_parse_uuid H) s \<noteq> None"
    "parse_given (h_parse_uuid H) p \<noteq> None" "parse_given (h_parse_uuid H) m \<noteq> None" by simp_all
  then obtain a' s' p' m' where "parse_given (h_parse_uuid H) a = Some a'" "parse_given (h_parse_uuid H) s = Some s'"
    "parse_given (h_parse_uuid H) p = Some p'" "parse_given (h_parse_uuid H) m = Some m'" by fast
  then show ?thesis by (simp add: scope_parameters_def)
qed

lemma paging_sort_valid:
  assumes "sortBy = [] \<or> sortBy \<in> set allowed" "sortOrder = [] \<or> ToUpper X sortOrder \<in> {''ASC'', ''DESC''}"
    "''createdAt'' \<in> set allowed" "paging_sort X False sortBy sortOrder = (sb, so)"
  shows "sb \<in> set allowed" "so \<in> {''ASC'', ''DESC''}"
proof -
  have "sb = (if sortBy = [] then ''createdAt'' else sortBy)" "so = NormalizeSortOrder X sortOrder ''DESC''"
    using assms(4) by (simp_all add: paging_sort_def)
  then show "sb \<in> set allowed" "so \<in> {''ASC'', ''DESC''}"
    using assms(1,2,3) by (auto simp: NormalizeSortOrder_def)
qed

subsection \<open>Rules\<close>

definition rules_query :: "ListRulesInput \<Rightarrow> rule_cursor_text option \<Rightarrow> ListRulesInput" where
  "rules_query i c = (case c of None \<Rightarrow> i
     | Some t \<Rightarrow> i\<lparr>lri_Cursor := t, lri_SortBy := [], lri_SortOrder := []\<rparr>)"

definition rules_over_http ::
  "ext \<Rightarrow> http_ext \<Rightarrow> ListRulesInput \<Rightarrow> ('d, 'p, 'x) rule_db_scheme \<Rightarrow> rule_cursor_text option
   \<Rightarrow> 'p Rule list \<times> rule_cursor_text option" where
  "rules_over_http X H i db c =
     (case snd (ListRules_handler X H (Some (rules_query i c)) db) of
        Reply n r \<Rightarrow> (rlr_Rules r, if rlr_HasMore r then Some (rlr_NextCursor r) else None)
      | _ \<Rightarrow> ([], None))"

definition rules_sort :: "ext \<Rightarrow> ListRulesInput \<Rightarrow> string \<times> string" where
  "rules_sort X i = paging_sort X False (lri_SortBy i) (lri_SortOrder i)"

definition rules_limit :: "ListRulesInput \<Rightarrow> int" where
  "rules_limit i = (case lri_Limit i of None \<Rightarrow> DefaultPaginationLimit | Some n \<Rightarrow> n)"

definition rules_filter :: "http_ext \<Rightarrow> ListRulesInput \<Rightarrow> ListRulesFilter" where
  "rules_filter H i = \<lparr>rf_Name = lri_Name i, rf_Status = lri_Status i, rf_Action = lri_Action i,
     rf_ScopeFilter = the (buildScopeFromInput H i), rf_Limit = rules_limit i, rf_Cursor = lri_Cursor i,
     rf_SortBy = lri_SortBy i, rf_SortOrder = lri_SortOrder i\<rparr>"

lemma rules_input_valid:
  assumes "ListRulesInput_Validate X H i = None" "lri_Cursor i = RuleNoCursor" "rules_sort X i = (sb, so)"
  shows "0 < rules_limit i" "rule_sort_ok sb so" "rule_query_error (rules_filter H i) sb None = None"
    and "buildScopeFromInput H i \<noteq> None"
    and "ListRulesInput_Validate X H (rules_query i (Some t)) = None"
proof -
  note v = assms(1) [unfolded ListRulesInput_Validate_def first_error_None_iff, simplified]
  have p: "\<forall>n. lri_Limit i = Some n \<longrightarrow> 1 \<le> n \<and> n \<le> 100"
    "lri_SortBy i = [] \<or> lri_SortBy i \<in> set rule_sort_fields_allowed"
    "lri_SortOrder i = [] \<or> ToUpper X (lri_SortOrder i) \<in> {''ASC'', ''DESC''}"
    using v by (auto simp: validate_paging_None)
  show "0 < rules_limit i"
    using p(1) by (auto simp: rules_limit_def DefaultPaginationLimit_def split: option.split)
  show "rule_sort_ok sb so"
    using paging_sort_valid [OF p(2,3)] assms(3)
    by (auto simp: rules_sort_def rule_sort_ok_def rule_sort_fields rule_sort_fields_allowed_def)
  show "rule_query_error (rules_filter H i) sb None = None"
    using v by (auto simp: rule_query_error_def rules_filter_def split: option.splits if_splits)
  have "rule_validateScopeFields H i = None" using v by blast
  then have "validate_uuid_fields H [(lri_AccountID i, ''accountId''), (lri_SegmentID i, ''segmentId''),
      (lri_PortfolioID i, ''portfolioId''), (lri_MerchantID i, ''merchantId'')] = None"
    by (simp add: rule_validateScopeFields_def)
  from scope_parameters_parse [OF this] show "buildScopeFromInput H i \<noteq> None"
    by (auto simp: buildScopeFromInput_def split: option.split)
  show "ListRulesInput_Validate X H (rules_query i (Some t)) = None"
    using v p(1) by (auto simp: ListRulesInput_Validate_def rules_query_def validate_paging_None
        rule_validateScopeFields_def)
qed

lemma rules_to_filter:
  assumes "buildScopeFromInput H i \<noteq> None" "lri_Cursor i = RuleNoCursor" "rules_sort X i = (sb, so)"
  shows "toListFilter H (ListRulesInput_SetDefaults X i)
      = Some ((rules_filter H i)\<lparr>rf_SortBy := sb, rf_SortOrder := so\<rparr>)"
    and "t \<noteq> RuleNoCursor \<Longrightarrow> toListFilter H (ListRulesInput_SetDefaults X (rules_query i (Some t)))
      = Some ((rules_filter H i)\<lparr>rf_Cursor := t, rf_SortBy := [], rf_SortOrder := []\<rparr>)"
  using assms
  by (auto simp: toListFilter_def ListRulesInput_SetDefaults_def rules_sort_def rules_filter_def rules_limit_def
      buildScopeFromInput_def rules_query_def paging_sort_def Let_def)

lemma rule_matching_sort:
  "rule_matching X (f\<lparr>rf_Cursor := k, rf_SortBy := b, rf_SortOrder := d\<rparr>) = rule_matching X f"
  by (simp add: rule_matching_def rule_applyFilters_def fun_eq_iff)

lemma rules_over_http_keyset:
  fixes db :: "('d, 'p, 'x) rule_db_scheme"
  assumes "no_faults db" "ListRulesInput_Validate X H i = None" "lri_Cursor i = RuleNoCursor"
    "rules_sort X i = (sb, so)" "\<forall>r \<in> set (db_rules db). RuleStatus_IsValid (r_Status r)"
    "case c of None \<Rightarrow> True | Some x \<Rightarrow> x \<in> set (db_rules db)"
  defines "f \<equiv> rules_filter H i"
  shows "rules_over_http X H i db (map_option (rule_cursor_of sb so) c)
    = (fst (keyset_fetch (nat (rf_Limit f)) (rule_before X sb so) (rule_matching X f) (db_rules db) c),
       map_option (rule_cursor_of sb so)
         (snd (keyset_fetch (nat (rf_Limit f)) (rule_before X sb so) (rule_matching X f) (db_rules db) c)))"
proof -
  note v = rules_input_valid [OF assms(2,3,4)]
  let ?i = "rules_query i (map_option (rule_cursor_of sb so) c)"
  let ?g = "f\<lparr>rf_Cursor := (case c of None \<Rightarrow> RuleNoCursor | Some x \<Rightarrow> rule_cursor_of sb so x),
      rf_SortBy := (if c = None then sb else ''createdAt''), rf_SortOrder := (if c = None then so else ''DESC'')\<rparr>"
  have n: "0 < rf_Limit f" using v(1) by (simp add: f_def rules_filter_def)
  have so: "sb \<noteq> []" "so \<in> {''ASC'', ''DESC''}" "ToUpper X so = so"
    using v(2) ToUpper_order by (auto simp: rule_sort_ok_def rule_sort_fields)
  have valid: "ListRulesInput_Validate X H ?i = None"
    using v(5) assms(2) by (cases c) (simp_all add: rules_query_def)
  have nc: "rule_cursor_of sb so x \<noteq> RuleNoCursor" for x :: "'p Rule" by (simp add: rule_cursor_of_def)
  have cur: "rf_Cursor f = RuleNoCursor" using assms(3) by (simp add: f_def rules_filter_def)
  obtain g where g: "toListFilter H (ListRulesInput_SetDefaults X ?i) = Some g"
    and "normalizedRulesFilter X (Some g) = ?g"
  proof (cases c)
    case None
    have "normalizedRulesFilter X (Some (f\<lparr>rf_SortBy := sb, rf_SortOrder := so\<rparr>)) = ?g"
      using n so cur None by (cases f) (auto simp: normalizedRulesFilter_def Let_def)
    with rules_to_filter(1) [OF v(4) assms(3,4)] None show ?thesis
      by (intro that) (simp_all add: f_def rules_query_def)
  next
    case (Some x)
    have "normalizedRulesFilter X
        (Some (f\<lparr>rf_Cursor := rule_cursor_of sb so x, rf_SortBy := [], rf_SortOrder := []\<rparr>)) = ?g"
      using n Some by (cases f) (simp add: normalizedRulesFilter_def Let_def)
    with rules_to_filter(2) [OF v(4) assms(3,4) nc, of x] Some show ?thesis
      by (intro that) (simp_all add: f_def)
  qed
  then have h: "ListRules_handler X H (Some ?i) db = answer handleServiceError (\<lambda>r. OK (toListResponse r))
      (RuleRepo_List X ?g db)"
    using valid by (simp add: ListRules_handler_def ListRulesQuery_Execute_def)
  have q: "rule_query_error ?g sb None = None" using v(3) by (simp add: rule_query_error_def f_def)
  have page: "RuleRepo_List X ?g db = (consume_fault (consume_fault db), Inr (rule_page (rf_Limit f) sb so
      (take (nat (rule_fetchLimit (rf_Limit f)))
        (keyset_rest (rule_before X sb so) (rule_matching X f) (db_rules db) c))))"
    using RuleRepo_List_page [OF assms(1) v(2) q, of c X, unfolded rule_matching_sort] assms(5,6)
    by (cases c) (simp_all add: mapRuleSortFieldToColumn_def)
  show ?thesis
    unfolding rules_over_http_def h page
    using rule_page_keyset [OF n, of sb so "keyset_rest (rule_before X sb so) (rule_matching X f) (db_rules db) c"]
    by (simp add: answer_def OK_def toListResponse_def keyset_fetch_rest Let_def split: if_splits)
qed

lemma rules_pages:
  fixes db :: "('d, 'p, 'x) rule_db_scheme"
  assumes "no_faults db" "collation X" "ListRulesInput_Validate X H i = None" "lri_Cursor i = RuleNoCursor"
    "rules_sort X i = (sb, so)" "distinct (map r_ID (db_rules db))"
    "\<forall>r \<in> set (db_rules db). RuleStatus_IsValid (r_Status r)"
  shows "\<exists>rs. drain (rules_over_http X H i db) (Suc (length (db_rules db))) None = Some rs \<and> distinct rs
    \<and> set rs = {r \<in> set (db_rules db). rule_matching X (rules_filter H i) r}
    \<and> sorted_wrt (rule_before X sb so) rs"
proof -
  let ?f = "rules_filter H i"
  let ?fetch = "keyset_fetch (nat (rf_Limit ?f)) (rule_before X sb so) (rule_matching X ?f) (db_rules db)"
  note v = rules_input_valid [OF assms(3,4,5)]
  have n: "0 < nat (rf_Limit ?f)" using v(1) by (simp add: rules_filter_def)
  have d: "distinct (db_rules db)" using assms(6) by (simp add: distinct_map)
  note strict = rule_before_strict [OF assms(2) v(2) assms(6,7)]
  let ?ok = "keyset_ok (nat (rf_Limit ?f)) (rule_before X sb so) (db_rules db)"
  have ok: "?ok None" using n d strict by (simp add: keyset_ok_def)
  have "drain (rules_over_http X H i db) (Suc (length (db_rules db)))
      (map_option (rule_cursor_of sb so) (None :: 'p Rule option))
    = map_option (map (\<lambda>r. r)) (drain ?fetch (Suc (length (db_rules db))) None)"
  proof (rule drain_map [where ok = ?ok])
    fix c assume "?ok c"
    then have "case c of None \<Rightarrow> True | Some x \<Rightarrow> x \<in> set (db_rules db)" by (simp add: keyset_ok_def)
    from rules_over_http_keyset [OF assms(1,3,4,5,7) this]
    show "rules_over_http X H i db (map_option (rule_cursor_of sb so) c)
        = (map (\<lambda>r. r) (fst (?fetch c)), map_option (rule_cursor_of sb so) (snd (?fetch c)))" by simp
  next
    fix c xs c' assume p: "?ok c" "?fetch c = (xs, Some c')"
    show "?ok (Some c')" using keyset.next_page [OF p] by simp
  qed (rule ok)
  with keyset_complete [OF n d strict, of "rule_matching X ?f"] show ?thesis by auto
qed

subsection \<open>Limits\<close>

definition limits_query :: "'d ListLimitsInput \<Rightarrow> 'd cursor_text option \<Rightarrow> 'd ListLimitsInput" where
  "limits_query i c = (case c of None \<Rightarrow> i
     | Some t \<Rightarrow> i\<lparr>lli_Cursor := t, lli_SortBy := [], lli_SortOrder := []\<rparr>)"

definition limits_over_http ::
  "ext \<Rightarrow> http_ext \<Rightarrow> 'd::linorder ListLimitsInput \<Rightarrow> ('d, 'x) limit_db_scheme \<Rightarrow> 'd cursor_text option
   \<Rightarrow> 'd Limit list \<times> 'd cursor_text option" where
  "limits_over_http X H i db c =
     (case snd (ListLimits_handler X H None (Some (limits_query i c)) db) of
        Reply n r \<Rightarrow> (lr_Limits r, if lr_HasMore r then Some (lr_NextCursor r) else None)
      | _ \<Rightarrow> ([], None))"

definition limits_sort :: "ext \<Rightarrow> 'd ListLimitsInput \<Rightarrow> string \<times> string" where
  "limits_sort X i = paging_sort X False (lli_SortBy i) (lli_SortOrder i)"

definition limits_limit :: "'d ListLimitsInput \<Rightarrow> int" where
  "limits_limit i = (case lli_Limit i of None \<Rightarrow> DefaultPaginationLimit | Some n \<Rightarrow> n)"

definition lower_order :: "string \<Rightarrow> string" where
  "lower_order so = (if so = ''ASC'' then ''asc'' else ''desc'')"

text \<open>The filter that reaches the repository, for the sort of the request.\<close>

definition limits_filter :: "http_ext \<Rightarrow> 'd ListLimitsInput \<Rightarrow> string \<Rightarrow> string \<Rightarrow> 'd ListLimitsFilter" where
  "limits_filter H i sb so =
     \<lparr>f_Name = lli_Name i,
      f_Status = (if lli_Status i = [] then None else Some (LimitStatus_of (lli_Status i))),
      f_LimitType = (if lli_LimitType i = [] then None else Some (LimitType_of (lli_LimitType i))),
      f_Currency = None, f_ScopeFilter = buildLimitScopeFromInput H i, f_Limit = limits_limit i,
      f_Cursor = lli_Cursor i, f_SortBy = sb, f_SortOrder = lower_order so\<rparr>"

lemma order_texts:
  "so \<in> {''ASC'', ''DESC''} \<Longrightarrow> ToLower X so = lower_order so"
  "so \<in> {''ASC'', ''DESC''} \<Longrightarrow> ToUpper X (lower_order so) = so" "ToLower X (lower_order so) = lower_order so"
proof -
  have "isASCII ''ASC''" "isASCII ''DESC''" "isASCII ''asc''" "isASCII ''desc''"
    "map lower_char ''ASC'' = ''asc''" "map lower_char ''DESC'' = ''desc''" "map upper_char ''asc'' = ''ASC''"
    "map upper_char ''desc'' = ''DESC''" "map lower_char ''asc'' = ''asc''" "map lower_char ''desc'' = ''desc''"
    by (simp_all add: isASCII_def upper_char_def lower_char_def byte_def char_of_eq_iff take_bit_eq_mod)
  then show "so \<in> {''ASC'', ''DESC''} \<Longrightarrow> ToLower X so = lower_order so"
    "so \<in> {''ASC'', ''DESC''} \<Longrightarrow> ToUpper X (lower_order so) = so" "ToLower X (lower_order so) = lower_order so"
    by (auto simp: ToLower_def ToUpper_def lower_order_def)
qed

lemma limits_input_valid:
  assumes "ListLimitsInput_Validate X H i = None" "lli_Cursor i = NoCursor" "limits_sort X i = (sb, so)"
  shows "0 < limits_limit i" "limits_limit i \<le> 100" "valid_sort sb so"
    and "ListLimitsFilter_Validate X (limits_filter H i sb so) = None"
    and "ListLimitsInput_Validate X H (limits_query i (Some t)) = None"
proof -
  note v = assms(1) [unfolded ListLimitsInput_Validate_def first_error_None_iff, simplified]
  have p: "\<forall>n. lli_Limit i = Some n \<longrightarrow> 1 \<le> n \<and> n \<le> 100"
    "lli_SortBy i = [] \<or> lli_SortBy i \<in> set limit_sort_fields"
    "lli_SortOrder i = [] \<or> ToUpper X (lli_SortOrder i) \<in> {''ASC'', ''DESC''}"
    using v by (auto simp: validate_paging_None)
  show n: "0 < limits_limit i" "limits_limit i \<le> 100"
    using p(1) by (auto simp: limits_limit_def DefaultPaginationLimit_def split: option.split)
  show s: "valid_sort sb so"
    using paging_sort_valid [OF p(2,3)] assms(3)
    by (auto simp: limits_sort_def valid_sort_def IsValidLimitSortField_def DefaultLimitSortField_def
        limit_sort_fields_def)
  show "ListLimitsFilter_Validate X (limits_filter H i sb so) = None"
    using n s v order_texts(3) [of X so]
    by (simp add: ListLimitsFilter_Validate_def limits_filter_def MaxPaginationLimit_def valid_sort_def
        lower_order_def split: if_splits)
  have "limit_validateScopeFields H (limits_query i (Some t)) = limit_validateScopeFields H i"
    by (simp add: limit_validateScopeFields_def limits_query_def)
  moreover have "validate_paging X (lli_Limit i) 100 (t \<noteq> NoCursor) [] [] limit_sort_fields = None"
    using p(1) by (simp add: validate_paging_None)
  ultimately show "ListLimitsInput_Validate X H (limits_query i (Some t)) = None"
    using v by (simp add: ListLimitsInput_Validate_def limits_query_def cong: if_cong split del: if_split)
qed

text \<open>What the query asks of the repository: the sort of the request with the first page, and created
  at, descending, with any cursor.\<close>

lemma limits_handler_repo:
  assumes "ListLimitsInput_Validate X H i = None" "lli_Cursor i = NoCursor" "limits_sort X i = (sb, so)"
    "c \<noteq> Some NoCursor"
  defines "asked \<equiv> (if c = None then (sb, so) else (''createdAt'', ''DESC''))"
  shows "ListLimits_handler X H None (Some (limits_query i c)) db
    = answer handleLimitServiceError (\<lambda>r. OK (ToListLimitsResponse r))
        (LimitRepo_List X ((limits_filter H i (fst asked) (snd asked))\<lparr>f_Cursor := the_cursor c\<rparr>) db)"
proof -
  note v = limits_input_valid [OF assms(1,2,3)]
  let ?f = "(limits_filter H i (fst asked) (snd asked))\<lparr>f_Cursor := the_cursor c\<rparr>"
  have valid: "ListLimitsInput_Validate X H (limits_query i c) = None"
    using v(5) assms(1) by (cases c) (simp_all add: limits_query_def)
  have so: "so \<in> {''ASC'', ''DESC''}" "sb \<noteq> []"
    using v(3) by (auto simp: valid_sort_def IsValidLimitSortField_def DefaultLimitSortField_def)
  have "ListLimitsFilter_ApplyDefaults X (ToListLimitsFilter X H (ListLimitsInput_SetDefaults X (limits_query i c)))
      = ?f"
  proof (cases c)
    case None
    have "paging_sort X False (lli_SortBy i) (lli_SortOrder i) = (sb, so)"
      using assms(3) by (simp add: limits_sort_def)
    then have "ToListLimitsFilter X H (ListLimitsInput_SetDefaults X (limits_query i c))
        = (limits_filter H i sb so)\<lparr>f_SortOrder := so\<rparr>"
      using None assms(2) so ToUpper_order [OF so(1), of X]
      by (simp add: ToListLimitsFilter_def ListLimitsInput_SetDefaults_def limits_query_def limits_filter_def
          limits_limit_def buildLimitScopeFromInput_def)
    then show ?thesis
      using None v(1,2) so order_texts(1) [OF so(1), of X] assms(2)
      by (auto simp: ListLimitsFilter_ApplyDefaults_def limits_filter_def asked_def the_cursor_def
          MaxPaginationLimit_def Let_def)
  next
    case (Some t)
    then have t: "t \<noteq> NoCursor" using assms(4) by simp
    then have "ToListLimitsFilter X H (ListLimitsInput_SetDefaults X (limits_query i c))
        = (limits_filter H i [] [])\<lparr>f_Cursor := t, f_SortOrder := []\<rparr>"
      using Some
      by (simp add: ToListLimitsFilter_def ListLimitsInput_SetDefaults_def limits_query_def limits_filter_def
          limits_limit_def buildLimitScopeFromInput_def paging_sort_def ToUpper_def isASCII_def)
    then show ?thesis
      using Some v(1,2)
      by (simp add: ListLimitsFilter_ApplyDefaults_def limits_filter_def asked_def the_cursor_def
          MaxPaginationLimit_def DefaultLimitSortField_def lower_order_def Let_def)
  qed
  moreover have "ListLimitsFilter_Validate X ?f = None"
    using v(4) order_texts(3) [of X "''DESC''"] by (cases c)
      (simp_all add: asked_def ListLimitsFilter_Validate_def limits_filter_def IsValidLimitSortField_def
        DefaultLimitSortField_def lower_order_def)
  ultimately show ?thesis
    using valid by (simp add: ListLimits_handler_def ListLimitsQuery_Execute_def Let_def)
qed

lemma limits_reachable:
  fixes db :: "('d::linorder, 'x) limit_db_scheme"
  assumes "ListLimitsInput_Validate X H i = None" "lli_Cursor i = NoCursor" "limits_sort X i = (sb, so)"
    "collation X" "distinct (map l_ID (db_limits db))" "\<forall>l \<in> set (db_limits db). scan_scopes (l_Scopes l) = None"
  shows "list_reachable X (limits_filter H i sb so) sb so (db_limits db) None"
proof -
  note v = limits_input_valid [OF assms(1,2,3)]
  have "sb \<noteq> []" "so \<in> {''ASC'', ''DESC''}" "IsValidLimitSortField sb"
    using v(3) by (auto simp: valid_sort_def IsValidLimitSortField_def DefaultLimitSortField_def)
  then have "validateAndNormalizeSort X (limits_filter H i sb so) = Inr (sb, so)"
    using order_texts(2) [of so X] by (auto simp: validateAndNormalizeSort_def limits_filter_def)
  moreover have "distinct (db_limits db)" using assms(5) by (simp add: distinct_map)
  ultimately show ?thesis
    using v(1,2,3) limit_before_strict [OF assms(4) v(3) assms(5)] assms(6)
    by (simp add: list_reachable_def limits_filter_def MaxPaginationLimit_def)
qed

lemma limits_over_http_same_sort:
  fixes db :: "('d::linorder, 'x) limit_db_scheme"
  assumes "no_faults db" "ListLimitsInput_Validate X H i = None" "lli_Cursor i = NoCursor"
    "limits_sort X i = (sb, so)" "c = None \<or> (sb, so) = (''createdAt'', ''DESC'')"
    "list_reachable X (limits_filter H i sb so) sb so (db_limits db) c"
  shows "limits_over_http X H i db c = list_fetch X (limits_filter H i sb so) (db_limits db) c"
proof -
  let ?f = "limits_filter H i sb so" and ?S = "list_rest X (limits_filter H i sb so) sb so (db_limits db) c"
  have nc: "c \<noteq> Some NoCursor" using assms(6) by (auto simp: list_reachable_def row_cursor_def)
  have n: "0 < f_Limit ?f" "valid_sort sb so" using assms(6) by (simp_all add: list_reachable_def)
  have "(if c = None then (sb, so) else (''createdAt'', ''DESC'')) = (sb, so)" using assms(5) by auto
  with limits_handler_repo [OF assms(2,3,4) nc, of db]
  have "ListLimits_handler X H None (Some (limits_query i c)) db
      = answer handleLimitServiceError (\<lambda>r. OK (ToListLimitsResponse r))
          (LimitRepo_List X (?f\<lparr>f_Cursor := the_cursor c\<rparr>) db)" by simp
  then show ?thesis
    unfolding list_fetch_reachable [OF assms(6)] limits_over_http_def List_reachable [OF assms(6,1)]
    using n by (simp add: answer_def OK_def ToListLimitsResponse_def list_page_cases buildNextCursor_row Let_def)
qed

lemma limits_over_http_other_sort:
  assumes "no_faults db" "ListLimitsInput_Validate X H i = None" "lli_Cursor i = NoCursor"
    "limits_sort X i = (sb, so)" "(sb, so) \<noteq> (''createdAt'', ''DESC'')"
  shows "snd (ListLimits_handler X H None (Some (limits_query i (Some (row_cursor sb so x)))) db)
    = BadRequestWithMessage ''TRC-0044'' ''Bad Request'' ''Invalid pagination cursor''"
proof -
  let ?f = "(limits_filter H i ''createdAt'' ''DESC'')\<lparr>f_Cursor := row_cursor sb so x\<rparr>"
  have nc: "Some (row_cursor sb so x) \<noteq> Some NoCursor" by (simp add: row_cursor_def)
  note v = limits_input_valid [OF assms(2,3,4)]
  have s: "IsValidLimitSortField sb" "sb \<noteq> []" "so \<in> {''ASC'', ''DESC''}"
    using v(3) by (auto simp: valid_sort_def IsValidLimitSortField_def DefaultLimitSortField_def)
  have nf: "next_fault db = None" using assms(1) no_faults_next by blast
  define m where "m = (if sb \<noteq> ''createdAt'' then ''cursor sortBy does not match request''
    else ''cursor sortOrder does not match request'')"
  have "validateAndNormalizeSort X (normalizeListFilters ?f) = Inr (''createdAt'', ''DESC'')"
    using v(1,2) order_texts(2) [of "''DESC''" X]
    by (simp add: validateAndNormalizeSort_def normalizeListFilters_def limits_filter_def MaxPaginationLimit_def
        IsValidLimitSortField_def DefaultLimitSortField_def)
  moreover have "f_Cursor (normalizeListFilters ?f) = row_cursor sb so x"
    by (simp add: normalizeListFilters_def)
  moreover have "applyCursorFilter X (row_cursor sb so x) ''createdAt'' ''DESC'' = Inl (Wrap m ErrInvalidCursor)"
    using s assms(5) by (auto simp: applyCursorFilter_def row_cursor_def m_def Let_def)
  ultimately have "snd (LimitRepo_List X ?f db) = Inl (Wrap m ErrInvalidCursor)"
    using nf by (simp add: LimitRepo_List_def Let_def)
  moreover have "handleLimitServiceError (Wrap m ErrInvalidCursor)
      = BadRequestWithMessage ''TRC-0044'' ''Bad Request'' ''Invalid pagination cursor''"
    by (simp add: handleLimitServiceError_def limit_error_cases_def)
  ultimately show ?thesis
    unfolding limits_handler_repo [OF assms(2,3,4) nc] by (simp add: answer_def the_cursor_def)
qed

text \<open>So the cursors of the default sort lead to the last page, those of any other sort to an error.\<close>

lemma limits_pages:
  fixes db :: "('d::linorder, 'x) limit_db_scheme"
  assumes "no_faults db" "collation X" "ListLimitsInput_Validate X H i = None" "lli_Cursor i = NoCursor"
    "limits_sort X i = (sb, so)" "distinct (map l_ID (db_limits db))"
    "\<forall>l \<in> set (db_limits db). scan_scopes (l_Scopes l) = None"
  shows "\<exists>all. distinct all \<and> set all = {l \<in> set (db_limits db). matching X (limits_filter H i sb so) l}
    \<and> sorted_wrt (list_before X sb so) all
    \<and> drain (limits_over_http X H i db) (Suc (length (db_limits db))) None
        = Some (if (sb, so) = (''createdAt'', ''DESC'') then all else take (nat (limits_limit i)) all)"
proof -
  let ?f = "limits_filter H i sb so" and ?rows = "db_limits db"
  let ?S = "list_rest X ?f sb so ?rows None"
  note r = limits_reachable [OF assms(3,4,5,2,6,7)]
  have S: "?S = sort_by (list_before X sb so) (filter (matching X ?f) ?rows)"
    by (simp add: list_rest_def cursor_after_def)
  have len: "length ?S < Suc (length ?rows)" by (simp add: S less_Suc_eq_le)
  have d: "distinct ?rows" using assms(6) by (simp add: distinct_map)
  have strict: "strict_on (set ?rows) (list_before X sb so)" using r by (simp add: list_reachable_def)
  have sorted: "sorted_wrt (list_before X sb so) ?S"
    unfolding S by (rule sorted_sort_by) (use d strict in \<open>auto intro: strict_on_subset\<close>)
  have dS: "distinct ?S"
    unfolding S by (rule card_distinct) (simp add: d distinct_card flip: set_filter)
  have n: "f_Limit ?f = limits_limit i" by (simp add: limits_filter_def)
  have "drain (limits_over_http X H i db) (Suc (length ?rows)) None
      = Some (if (sb, so) = (''createdAt'', ''DESC'') then ?S else take (nat (limits_limit i)) ?S)"
  proof (cases "(sb, so) = (''createdAt'', ''DESC'')")
    case True
    have "drain (limits_over_http X H i db) (Suc (length ?rows)) (map_option (\<lambda>k. k) None)
        = map_option (map (\<lambda>l. l)) (drain (list_fetch X ?f ?rows) (Suc (length ?rows)) None)"
    proof (rule drain_map [where ok = "list_reachable X ?f sb so ?rows"])
      fix c assume "list_reachable X ?f sb so ?rows c"
      from limits_over_http_same_sort [OF assms(1,3,4,5) disjI2 [OF True] this]
      show "limits_over_http X H i db (map_option (\<lambda>k. k) c)
          = (map (\<lambda>l. l) (fst (list_fetch X ?f ?rows c)), map_option (\<lambda>k. k) (snd (list_fetch X ?f ?rows c)))"
        by (simp add: option.map_ident)
    next
      fix c xs c' assume p: "list_reachable X ?f sb so ?rows c" "list_fetch X ?f ?rows c = (xs, Some c')"
      show "list_reachable X ?f sb so ?rows (Some c')" using limit_pages.next_page [OF p] by simp
    qed (rule r)
    then show ?thesis using True limit_pages.drain_rest [OF r len] by simp
  next
    case False
    have first: "limits_over_http X H i db None = (if nat (limits_limit i) < length ?S
        then (take (nat (limits_limit i)) ?S, Some (row_cursor sb so (last (take (nat (limits_limit i)) ?S))))
        else (?S, None))"
      using limits_over_http_same_sort [OF assms(1,3,4,5) disjI1 [OF refl] r] list_fetch_reachable [OF r] n
      by (simp add: Let_def)
    have later: "limits_over_http X H i db (Some (row_cursor sb so x)) = ([], None)" for x
      unfolding limits_over_http_def limits_over_http_other_sort [OF assms(1,3,4,5) False]
      by (simp add: BadRequestWithMessage_def)
    show ?thesis
      using False first later len by (cases "length ?rows") (auto split: if_splits)
  qed
  moreover have "set ?S = {l \<in> set ?rows. matching X ?f l}" unfolding S by auto
  ultimately show ?thesis using dS sorted by blast
qed

end
