(* ===== verification/CelAdapter.thy ===== *)
theory CelAdapter
  imports RuleEvaluation
begin

text \<open>
  The adapter to the expression language (\<^verbatim>\<open>internal/adapters/cel\<close>). The language is the library \<^verbatim>\<open>cel-go\<close>,
  the record \<open>cel_library\<close>: parsing and type checking to a syntax tree (or the messages of the issues with
  their text), the output type and the estimated cost of a tree, programs and their evaluation, whose value
  may be something other than a boolean (\<^term>\<open>None\<close>). The conversion of decimals to floating point is a
  library too; the errors of libraries are texts. Costs are unsigned words of 64 bits, as in the code.
\<close>

record ('a, 'p, 'f) cel_library =
  lib_Compile :: "string \<Rightarrow> (string list \<times> string, 'a) result"
  lib_OutputType_is_bool :: "'a \<Rightarrow> bool"
  lib_Cost_Max :: "'a \<Rightarrow> (string, 64 word) result"
  lib_Program :: "'a \<Rightarrow> (string, 'p) result"
  lib_Eval :: "'p \<Rightarrow> 'f \<Rightarrow> (string, bool option) result"
  lib_Sum256_hex :: "string \<Rightarrow> string"

record ('d, 'f) decimal_library =
  dec_InexactFloat64 :: "'d \<Rightarrow> 'f"
  dec_IsInf_or_NaN :: "'f \<Rightarrow> bool"
  dec_NewFromInt :: "int \<Rightarrow> 'd"

subsection \<open>Compiling\<close>

record CompileError =
  ce_IsTypeError :: bool
  ce_Message :: string

definition classifyIssues :: "string list \<Rightarrow> bool" where
  "classifyIssues messages = list_ex (\<lambda>msg.
     sublist ''no matching overload'' msg \<or> sublist ''type mismatch'' msg \<or> sublist ''undeclared reference'' msg
     \<or> sublist ''found no matching overload'' msg) messages"

definition Environment_Compile :: "('a, 'p, 'f) cel_library \<Rightarrow> string \<Rightarrow> (CompileError, 'a) result" where
  "Environment_Compile L expression =
     (case lib_Compile L expression of
        Inl (messages, text_of) \<Rightarrow>
          Inl \<lparr>ce_IsTypeError = classifyIssues messages, ce_Message = text_of\<rparr>
      | Inr ast \<Rightarrow> Inr ast)"

definition DefaultCostLimit :: "64 word" where "DefaultCostLimit = 10000"

definition NewAdapter :: "64 word \<Rightarrow> bool \<Rightarrow> err option \<Rightarrow> (err, 64 word) result" where
  "NewAdapter configured has_logger env_error =
     (if \<not> has_logger then Inl (External ''logger is required'')
      else case env_error of
        Some e \<Rightarrow> Inl (Wrap ''failed to create CEL environment'' e)
      | None \<Rightarrow> Inr (if configured = 0 then DefaultCostLimit else configured))"

record 'p CompiledProgram =
  cp_ExpressionHash :: string
  cp_SourceExpression :: string
  cp_Program :: "'p option"
  cp_CompiledAt :: gotime
  cp_CompileTimeMs :: int

definition HashExpression :: "('a, 'p, 'f) cel_library \<Rightarrow> string \<Rightarrow> string" where
  "HashExpression L expression = lib_Sum256_hex L expression"

text \<open>\<open>start\<close> and \<open>compiledAt\<close> are the two readings of the clock, which does not run backwards.\<close>

definition Adapter_Compile ::
  "('a, 'p, 'f) cel_library \<Rightarrow> 64 word \<Rightarrow> gotime \<Rightarrow> gotime \<Rightarrow> string \<Rightarrow> (err, 'p CompiledProgram) result" where
  "Adapter_Compile L costLimit start compiledAt expression =
     (if expression = [] then Inl (Wrap ''expression cannot be empty'' ErrExpressionSyntax)
      else
     (case Environment_Compile L expression of
        Inl e \<Rightarrow>
          Inl (Wrap2 ''%w: %w'' (if ce_IsTypeError e then ErrExpressionType else ErrExpressionSyntax)
                 (External (ce_Message e)))
      | Inr ast \<Rightarrow>
          if \<not> lib_OutputType_is_bool L ast
          then Inl (Wrap ''expression returns another type, expected bool'' ErrExpressionType)
          else
     (case lib_Cost_Max L ast of
        Inl e \<Rightarrow> Inl (Wrap2 ''%w: %w'' ErrExpressionCostEstimation (External e))
      | Inr cost \<Rightarrow>
          if cost > costLimit
          then Inl (Wrap ''estimated cost exceeds limit'' ErrExpressionCostExceeded)
          else
     (case lib_Program L ast of
        Inl e \<Rightarrow> Inl (Wrap2 ''%w: %w'' ErrExpressionProgram (External e))
      | Inr program \<Rightarrow>
          Inr \<lparr>cp_ExpressionHash = HashExpression L expression, cp_SourceExpression = expression,
               cp_Program = Some program, cp_CompiledAt = compiledAt,
               cp_CompileTimeMs = (compiledAt - start) div 1000000\<rparr>))))"

subsection \<open>The activation\<close>

definition validateAmountForCEL ::
  "('d::linordered_ab_group_add, 'f) decimal_library \<Rightarrow> 'd \<Rightarrow> err option" where
  "validateAmountForCEL D amount =
     (if dec_IsInf_or_NaN D (dec_InexactFloat64 D amount)
      then Some (Wrap ''amount is outside float64 range for CEL evaluation'' ErrAmountExceedsPrecision)
      else if (if amount < 0 then - amount else amount) > dec_NewFromInt D (2 ^ 53)
      then Some (Wrap ''amount exceeds safe precision for CEL evaluation'' ErrAmountExceedsPrecision)
      else None)"

datatype 'f cel_value = CelString string | CelFloat 'f | CelInt int | CelMap "(string \<times> json) list option"

definition UnixNano :: "gotime \<Rightarrow> int" where
  "UnixNano t = t - Date_midnight 1970 1 1"

definition emptyMap :: "(string \<times> json) list option" where
  "emptyMap = Some []"

definition safeMetadata :: "metadata option \<Rightarrow> (string \<times> json) list option" where
  "safeMetadata m = (case m of None \<Rightarrow> emptyMap | Some kvs \<Rightarrow> Some kvs)"

definition BuildActivation ::
  "ext \<Rightarrow> ('d, 'f) decimal_library \<Rightarrow> ('d::linordered_ab_group_add) ValidationRequest option
   \<Rightarrow> (err, (string \<times> 'f cel_value) list) result" where
  "BuildActivation X D req =
     (case req of
        None \<Rightarrow> Inl (External ''validation request is required'')
      | Some q \<Rightarrow>
     (case validateAmountForCEL D (v_Amount q) of
        Some e \<Rightarrow> Inl e
      | None \<Rightarrow>
          Inr [(''transactionType'', CelString (TransactionType_String (v_TransactionType q))),
               (''subType'', CelString (case v_SubType q of None \<Rightarrow> [] | Some t \<Rightarrow> t)),
               (''amount'', CelFloat (dec_InexactFloat64 D (v_Amount q))),
               (''currency'', CelString (v_Currency q)),
               (''account'', CelMap (AccountContext_ToMap X (Some (v_Account q)))),
               (''segment'', CelMap (if v_Segment q = None then emptyMap else SegmentContext_ToMap X (v_Segment q))),
               (''portfolio'', CelMap (if v_Portfolio q = None then emptyMap
                  else PortfolioContext_ToMap X (v_Portfolio q))),
               (''merchant'', CelMap (if v_Merchant q = None then emptyMap
                  else MerchantContext_ToMap X (v_Merchant q))),
               (''metadata'', CelMap (safeMetadata (v_Metadata q))),
               (''transactionTimestamp'', CelInt (UnixNano (v_TransactionTimestamp q)))]))"

subsection \<open>Evaluating\<close>

definition Adapter_Evaluate ::
  "ext \<Rightarrow> ('d, 'f) decimal_library \<Rightarrow> ('a, 'p, (string \<times> 'f cel_value) list) cel_library
   \<Rightarrow> 'p CompiledProgram option \<Rightarrow> ('d::linordered_ab_group_add) ValidationRequest option \<Rightarrow> (err, bool) result" where
  "Adapter_Evaluate X D L program req =
     (case program of
        None \<Rightarrow> Inl (External ''program is required'')
      | Some compiled \<Rightarrow>
     (case cp_Program compiled of
        None \<Rightarrow> Inl (External ''compiled program is nil'')
      | Some p \<Rightarrow>
          if req = None then Inl (External ''validation request is required'')
          else
     (case BuildActivation X D req of
        Inl e \<Rightarrow> Inl (Wrap2 ''%w: failed to build activation: %w'' ErrExpressionEvaluation e)
      | Inr activation \<Rightarrow>
     (case lib_Eval L p activation of
        Inl e \<Rightarrow> Inl (Wrap2 ''%w: %w'' ErrExpressionEvaluation (External e))
      | Inr None \<Rightarrow> Inl (Wrap ''expected bool'' ErrExpressionType)
      | Inr (Some b) \<Rightarrow> Inr b))))"

text \<open>The adapter as the evaluator and the commands see it (\<^verbatim>\<open>celCompilerAdapter\<close> of the bootstrap passes
  the compiled program on).\<close>

definition adapter_ops ::
  "ext \<Rightarrow> ('d::linordered_ab_group_add, 'f) decimal_library \<Rightarrow> ('a, 'p, (string \<times> 'f cel_value) list) cel_library
   \<Rightarrow> 64 word \<Rightarrow> gotime \<Rightarrow> gotime \<Rightarrow> ('p CompiledProgram, 'd) cel_ops" where
  "adapter_ops X D L costLimit start compiledAt =
     \<lparr>cel_Compile = Adapter_Compile L costLimit start compiledAt,
      cel_Evaluate = (\<lambda>p q. Adapter_Evaluate X D L (Some p) (Some q))\<rparr>"

end
