(* ===== verification/HttpValidations.thy ===== *)
theory HttpValidations
  imports HttpRules ValidationList ValidationService
begin

text \<open>
  The validation endpoints: \<^verbatim>\<open>POST /v1/validations\<close> (\<^verbatim>\<open>validation_handler.go\<close>) and the read endpoints
  of the records (\<^verbatim>\<open>transaction_validation_handler.go\<close>, the service of \<^verbatim>\<open>transaction_validation_service.go\<close>
  and the parser of \<^verbatim>\<open>pkg/validation/datetime.go\<close>), in the setting of \<open>HttpLimits\<close>.
\<close>

subsection \<open>Validating a transaction\<close>

definition maxPayloadSize :: nat where "maxPayloadSize = 100 * 1024"

definition validationErrorMappings :: "(err \<times> string \<times> string) list" where
  "validationErrorMappings =
     [(ErrValidationRequestIDRequired, ''TRC-0220'', ''requestId is required''),
      (ErrValidationInvalidTransactionType, ''TRC-0221'',
        ''transactionType must be one of [CARD, WIRE, PIX, CRYPTO]''),
      (ErrValidationAmountNonPositive, ''TRC-0222'', ''amount must be positive''),
      (ErrValidationCurrencyRequired, ''TRC-0223'', ''currency is required''),
      (ErrValidationInvalidCurrency, ''TRC-0224'', ''currency must be valid ISO 4217 code (e.g., BRL, USD)''),
      (ErrValidationTimestampRequired, ''TRC-0225'', ''transactionTimestamp is required''),
      (ErrValidationTimestampFuture, ''TRC-0226'', ''transactionTimestamp cannot be in the future''),
      (ErrValidationAccountRequired, ''TRC-0227'', ''account is required''),
      (ErrValidationTimestampPast, ''TRC-0228'',
        ''transactionTimestamp is too far in the past (max 24h)''),
      (ErrValidationSegmentIDRequired, ''TRC-0230'', ''segment.id is required when segment is provided''),
      (ErrValidationPortfolioIDRequired, ''TRC-0231'',
        ''portfolio.id is required when portfolio is provided''),
      (ErrValidationSubTypeTooLong, ''TRC-0232'', ''subType exceeds maximum length of 50 characters''),
      (ErrValidationInvalidAccountType, ''TRC-0233'',
        ''account.type must be one of: checking, savings, credit''),
      (ErrValidationInvalidAccountStatus, ''TRC-0234'',
        ''account.status must be one of: active, suspended, closed''),
      (ErrValidationInvalidMerchantCategory, ''TRC-0235'', ''merchant.category must be a 4-digit MCC code''),
      (ErrValidationInvalidMerchantCountry, ''TRC-0236'',
        ''merchant.country must be ISO 3166-1 alpha-2 code (e.g., BR, US)''),
      (ErrValidationMerchantIDRequired, ''TRC-0237'',
        ''merchant.id is required when merchant object is provided''),
      (ErrMetadataEntriesExceeded, ''TRC-0063'', ''metadata exceeds maximum of 50 entries''),
      (ErrMetadataKeyLengthExceeded, ''TRC-0060'', ''metadata key exceeds maximum length of 64 characters''),
      (ErrMetadataKeyInvalidChars, ''TRC-0064'',
        ''metadata key contains invalid characters (only alphanumeric and underscore allowed)'')]"

text \<open>The table is a Go map: \<open>order\<close> is the order in which the range visits it.\<close>

definition handleValidationInputError :: "(err \<times> string \<times> string) list \<Rightarrow> err \<Rightarrow> 'b response" where
  "handleValidationInputError order e =
     (case find (\<lambda>(known, code, message). errors_Is e known) order of
        Some (known, code, message) \<Rightarrow> BadRequestWithMessage code ''Validation Error'' message
      | None \<Rightarrow> BadRequestWithMessage ''TRC-0001'' ''Validation Error'' ''invalid request'')"

definition parseErrorToUserMessage :: "string \<Rightarrow> string" where
  "parseErrorToUserMessage errMsg =
     (if index_of ''invalid UUID'' errMsg \<noteq> None then
        ''invalid UUID format in request (check requestId, account.id, segment.id, portfolio.id, merchant.id)''
      else if index_of ''parsing time'' errMsg \<noteq> None \<or> index_of ''cannot parse'' errMsg \<noteq> None then
        ''timestamp: invalid format (expected RFC3339)''
      else ''invalid request body'')"

definition validation_error_cases :: "(err \<times> 'b response) list" where
  "validation_error_cases =
     [(ErrValidationTimeout, ErrorReply 504 ''TRC-0229'' ''Gateway Timeout'' ''validation timeout''),
      (CtxCanceled, ErrorReply 503 ''TRC-0012'' ''Service Unavailable'' ''request cancelled''),
      (ErrAmountExceedsPrecision, BadRequestWithMessage ''TRC-0089'' ''Bad Request''
        (''amount exceeds safe precision limit for evaluation (max: '' @ [byte 194, byte 177] @ ''2^53)'')),
      (ErrRuleEvaluationFailed,
        InternalServerError ''TRC-0103'' ''Internal Server Error'' ''rule evaluation failed''),
      (ErrLimitCheckFailed, InternalServerError ''TRC-0136'' ''Internal Server Error'' ''limit check failed'')]"

definition handleValidationError :: "err \<Rightarrow> 'b response" where
  "handleValidationError e = on_error validation_error_cases
     (InternalServerError ''TRC-0004'' ''Internal Server Error'' ''validation processing failed'') e"

text \<open>\<open>length_of_body\<close> is the length of the body; a body that does not parse is the text of the error.\<close>

definition Validate_handler ::
  "service_env \<Rightarrow> request_env \<Rightarrow> timestamp_window \<Rightarrow> (err \<times> string \<times> string) list \<Rightarrow> gotime
   \<Rightarrow> ('d ValidationRequest \<Rightarrow> (err, EvaluationResult option) result)
   \<Rightarrow> ('d CheckLimitsInput \<Rightarrow> ('d, 'p, 'x) tracer_db_scheme
       \<Rightarrow> ('d, 'p, 'x) tracer_db_scheme \<times> (err, 'd CheckLimitsOutput option) result)
   \<Rightarrow> (('d, 'p, 'x) tracer_db_scheme \<Rightarrow> ('d, 'p, 'x) tracer_db_scheme)
   \<Rightarrow> nat \<Rightarrow> (string, ('d::linordered_ab_group_add) ValidationRequest) result
   \<Rightarrow> ('d, 'p, 'x) tracer_db_scheme
   \<Rightarrow> ('d, 'p, 'x) tracer_db_scheme \<times> 'd ValidationResponse response" where
  "Validate_handler S N W order now exec check others length_of_body body db =
     (if length_of_body > maxPayloadSize then
        (db, ErrorReply 413 ''TRC-0011'' ''Payload Too Large'' ''payload too large: exceeds 100KB limit'')
      else
     (case body of
        Inl errMsg \<Rightarrow>
          (db, BadRequestWithMessage ''TRC-0003'' ''Bad Request'' (parseErrorToUserMessage errMsg))
      | Inr request \<Rightarrow>
     (case NormalizeAndValidate (s_ext S) W request now of
        Inl e \<Rightarrow> (db, handleValidationInputError order e)
      | Inr req \<Rightarrow>
          answer handleValidationError
            (\<lambda>r. if res_IsDuplicate r then OK (res_Response r) else Created (res_Response r))
            (Validate S N exec check others (Some req) db))))"

subsection \<open>The query of the list\<close>

record ListTransactionValidationsInput =
  lvi_Limit :: "int option"
  lvi_Cursor :: tv_cursor_text
  lvi_SortBy :: string
  lvi_SortOrder :: string
  lvi_StartDate :: string
  lvi_EndDate :: string
  lvi_Decision :: string
  lvi_AccountID :: string
  lvi_MatchedRuleID :: string
  lvi_ExceededLimitID :: string
  lvi_SegmentID :: string
  lvi_PortfolioID :: string
  lvi_TransactionType :: string

definition ListTransactionValidationsInput_SetDefaults ::
  "ext \<Rightarrow> ListTransactionValidationsInput \<Rightarrow> ListTransactionValidationsInput" where
  "ListTransactionValidationsInput_SetDefaults X i =
     (let (sortBy, sortOrder) = paging_sort X (lvi_Cursor i \<noteq> TvNoCursor) (lvi_SortBy i) (lvi_SortOrder i)
      in i\<lparr>lvi_Limit := Some (case lvi_Limit i of
               None \<Rightarrow> DefaultTransactionValidationFilterLimit | Some n \<Rightarrow> n),
           lvi_SortBy := sortBy, lvi_SortOrder := sortOrder\<rparr>)"

definition validateUUID :: "http_ext \<Rightarrow> string \<Rightarrow> string \<Rightarrow> input_error option" where
  "validateUUID H v fieldName =
     (if v = [] then None
      else if h_parse_uuid H v = None then Some (Uncoded (fieldName @ '' must be a valid UUID'')) else None)"

text \<open>\<^verbatim>\<open>ParseRFC3339Timestamp\<close> with the text of its error; an empty text is the zero time.\<close>

definition ParseRFC3339Timestamp :: "http_ext \<Rightarrow> string \<Rightarrow> string \<Rightarrow> (string, gotime) result" where
  "ParseRFC3339Timestamp H v fieldName =
     (if v = [] then Inr 0
      else case h_parse_time H v of
          Inl e \<Rightarrow> Inl (fieldName @ '' must be in RFC3339 format with timezone (e.g., '' @
            ''2026-01-28T10:30:00Z). Invalid value: '' @ h_quote H v)
        | Inr t \<Rightarrow> Inr t)"

definition validateDates :: "http_ext \<Rightarrow> ListTransactionValidationsInput \<Rightarrow> ValidationError option" where
  "validateDates H i =
     (case ParseRFC3339Timestamp H (lvi_StartDate i) ''startDate'' of
        Inl m \<Rightarrow> Some (coded ''TRC-0020'' m)
      | Inr startDate \<Rightarrow>
     (case ParseRFC3339Timestamp H (lvi_EndDate i) ''endDate'' of
        Inl m \<Rightarrow> Some (coded ''TRC-0020'' m)
      | Inr endDate \<Rightarrow>
          if \<not> time_IsZero startDate \<and> \<not> time_IsZero endDate \<and> startDate > endDate
          then Some (coded ''TRC-0023'' ''startDate must be before or equal to endDate'') else None))"

definition validateUUIDFilters :: "http_ext \<Rightarrow> ListTransactionValidationsInput \<Rightarrow> input_error option" where
  "validateUUIDFilters H i = first_error
     [validateUUID H (lvi_AccountID i) ''accountId'', validateUUID H (lvi_MatchedRuleID i) ''matchedRuleId'',
      validateUUID H (lvi_ExceededLimitID i) ''exceededLimitId'',
      validateUUID H (lvi_SegmentID i) ''segmentId'', validateUUID H (lvi_PortfolioID i) ''portfolioId'']"

definition tv_sort_fields :: "string list" where
  "tv_sort_fields = [''createdAt'', ''processingTimeMs'']"

definition ListTransactionValidationsInput_Validate ::
  "ext \<Rightarrow> http_ext \<Rightarrow> ListTransactionValidationsInput \<Rightarrow> input_error option" where
  "ListTransactionValidationsInput_Validate X H i = first_error
     [map_option Coded (validate_paging X (lvi_Limit i) MaxTransactionValidationFilterLimit
        (lvi_Cursor i \<noteq> TvNoCursor) (lvi_SortBy i) (lvi_SortOrder i) tv_sort_fields),
      (if lvi_Decision i \<noteq> [] \<and> \<not> Decision_IsValid (Decision_of (lvi_Decision i))
       then Some (Uncoded ''decision must be one of [ALLOW, DENY, REVIEW]'') else None),
      map_option Coded (validateDates H i),
      validateUUIDFilters H i,
      (if lvi_TransactionType i \<noteq> []
          \<and> \<not> TransactionType_IsValid (TransactionType_of (lvi_TransactionType i))
       then Some (Uncoded ''transactionType must be one of [CARD, WIRE, PIX, CRYPTO]'') else None)]"

text \<open>A given text is parsed, an empty one left out; the error is the first that a parser returns.\<close>

definition parse_uuid_or :: "http_ext \<Rightarrow> string \<Rightarrow> (string, uuid option) result" where
  "parse_uuid_or H v =
     (if v = [] then Inr None
      else case h_parse_uuid H v of None \<Rightarrow> Inl ''invalid UUID'' | Some i \<Rightarrow> Inr (Some i))"

definition parse_time_or :: "http_ext \<Rightarrow> string \<Rightarrow> (string, gotime) result" where
  "parse_time_or H v =
     (if v = [] then Inr 0
      else case h_parse_time H v of Inl e \<Rightarrow> Inl (h_Error H e) | Inr t \<Rightarrow> Inr t)"

definition ToTransactionValidationFilters ::
  "http_ext \<Rightarrow> ListTransactionValidationsInput \<Rightarrow> (string, TransactionValidationFilters) result" where
  "ToTransactionValidationFilters H i =
     bind_result (parse_time_or H (lvi_StartDate i)) (\<lambda>startDate.
     bind_result (parse_time_or H (lvi_EndDate i)) (\<lambda>endDate.
     bind_result (parse_uuid_or H (lvi_AccountID i)) (\<lambda>accountID.
     bind_result (parse_uuid_or H (lvi_MatchedRuleID i)) (\<lambda>matchedRuleID.
     bind_result (parse_uuid_or H (lvi_ExceededLimitID i)) (\<lambda>exceededLimitID.
     bind_result (parse_uuid_or H (lvi_SegmentID i)) (\<lambda>segmentID.
     bind_result (parse_uuid_or H (lvi_PortfolioID i)) (\<lambda>portfolioID.
       Inr \<lparr>tf_StartDate = startDate, tf_EndDate = endDate,
         tf_Decision = (if lvi_Decision i = [] then None else Some (Decision_of (lvi_Decision i))),
         tf_AccountID = accountID, tf_MatchedRuleID = matchedRuleID, tf_ExceededLimitID = exceededLimitID,
         tf_SegmentID = segmentID, tf_PortfolioID = portfolioID,
         tf_TransactionType = (if lvi_TransactionType i = [] then None
           else Some (TransactionType_of (lvi_TransactionType i))),
         tf_Limit = (case lvi_Limit i of None \<Rightarrow> DefaultTransactionValidationFilterLimit | Some n \<Rightarrow> n),
         tf_Cursor = lvi_Cursor i, tf_SortBy = lvi_SortBy i, tf_SortOrder = lvi_SortOrder i\<rparr>)))))))"

subsection \<open>The answers\<close>

text \<open>The layout RFC 3339, in UTC.\<close>

definition Format_RFC3339 :: "gotime \<Rightarrow> string" where
  "Format_RFC3339 t =
     Format_date t @ ''T'' @ show_pad 2 (Hour t) @ '':'' @ show_pad 2 (Minute t) @ '':''
     @ show_pad 2 ((t mod Minute_ns) div 1000000000) @ ''Z''"

record 'd ValidationSummary =
  vs_ID :: uuid
  vs_Decision :: Decision
  vs_Reason :: string
  vs_Amount :: 'd
  vs_Currency :: string
  vs_TransactionType :: TransactionType
  vs_AccountID :: uuid
  vs_SegmentID :: "uuid option"
  vs_PortfolioID :: "uuid option"
  vs_MatchedRuleIDs :: "uuid list"
  vs_ExceededLimitIDs :: "uuid list"
  vs_ProcessingTimeMs :: int
  vs_CreatedAt :: string

definition ToValidationSummary :: "'d TransactionValidation \<Rightarrow> 'd ValidationSummary" where
  "ToValidationSummary tv =
     \<lparr>vs_ID = t_ID tv, vs_Decision = e_Decision (t_Result tv), vs_Reason = e_Reason (t_Result tv),
      vs_Amount = t_Amount tv, vs_Currency = t_Currency tv, vs_TransactionType = t_TransactionType tv,
      vs_AccountID = ac_ID (t_Account tv), vs_SegmentID = map_option sc_ID (t_Segment tv),
      vs_PortfolioID = map_option pc_ID (t_Portfolio tv),
      vs_MatchedRuleIDs = e_MatchedRuleIDs (t_Result tv),
      vs_ExceededLimitIDs = map d_LimitID (filter d_Exceeded (t_LimitUsageDetails tv)),
      vs_ProcessingTimeMs = t_ProcessingTimeMs tv, vs_CreatedAt = Format_RFC3339 (t_CreatedAt tv)\<rparr>"

record 'd ListTransactionValidationsResponse =
  lvr_TransactionValidations :: "'d ValidationSummary list"
  lvr_NextCursor :: tv_cursor_text
  lvr_HasMore :: bool

definition ToListTransactionValidationsResponse ::
  "'d ListTransactionValidationsResult \<Rightarrow> 'd ListTransactionValidationsResponse" where
  "ToListTransactionValidationsResponse r =
     \<lparr>lvr_TransactionValidations = map ToValidationSummary (tvr_TransactionValidations r),
      lvr_NextCursor = tvr_NextCursor r, lvr_HasMore = tvr_HasMore r\<rparr>"

subsection \<open>Service and handlers\<close>

definition GetTransactionValidation ::
  "ext \<Rightarrow> (string \<Rightarrow> (err, uuid) result) \<Rightarrow> err option list \<Rightarrow> uuid \<Rightarrow> ('d, 'p, 'x) tracer_db_scheme
   \<Rightarrow> ('d, 'p, 'x) tracer_db_scheme \<times> (err, 'd TransactionValidation) result" where
  "GetTransactionValidation X uuid_Parse ctx i db =
     (case ctx_Err ctx of
        Some e \<Rightarrow> (db, Inl (Wrap ''get transaction validation'' e))
      | None \<Rightarrow>
          (case GetTransactionValidationQuery_Execute X uuid_Parse i db of
             (db1, Inl e) \<Rightarrow> (db1, Inl (Wrap ''get transaction validation'' e))
           | (db1, Inr tv) \<Rightarrow> (db1, Inr tv)))"

definition ListTransactionValidations ::
  "ext \<Rightarrow> (string \<Rightarrow> (err, uuid) result) \<Rightarrow> gotime \<Rightarrow> err option list
   \<Rightarrow> TransactionValidationFilters option \<Rightarrow> ('d, 'p, 'x) tracer_db_scheme
   \<Rightarrow> ('d, 'p, 'x) tracer_db_scheme \<times> (err, 'd ListTransactionValidationsResult) result" where
  "ListTransactionValidations X uuid_Parse clock ctx filters db =
     (case ctx_Err ctx of
        Some e \<Rightarrow> (db, Inl (Wrap ''list transaction validations'' e))
      | None \<Rightarrow>
          (case ListTransactionValidationsQuery_Execute X uuid_Parse clock (tl ctx) filters db of
             (db1, Inl e) \<Rightarrow> (db1, Inl (Wrap ''list transaction validations'' e))
           | (db1, Inr r) \<Rightarrow> (db1, Inr r)))"

definition tv_error_cases :: "(err \<times> 'b response) list" where
  "tv_error_cases =
     [(ErrTransactionValidationNotFound, NotFound ''TRC-0251'' ''Not Found'' ''Transaction validation not found''),
      (ErrInvalidTransactionValidationFilters, BadRequestWithMessage ''TRC-0250''
        ''Invalid Transaction Validation Filters'' ''Invalid transaction validation filters''),
      (ErrInvalidCursor, BadRequestWithMessage ''TRC-0044'' ''Bad Request'' ''Invalid pagination cursor'')]"

definition handleTransactionValidationServiceError :: "err \<Rightarrow> 'b response" where
  "handleTransactionValidationServiceError e = on_error tv_error_cases unexpected_error e"

definition GetTransactionValidation_handler ::
  "ext \<Rightarrow> http_ext \<Rightarrow> (string \<Rightarrow> (err, uuid) result) \<Rightarrow> err option list \<Rightarrow> string
   \<Rightarrow> ('d, 'p, 'x) tracer_db_scheme
   \<Rightarrow> ('d, 'p, 'x) tracer_db_scheme \<times> 'd TransactionValidation response" where
  "GetTransactionValidation_handler X H uuid_Parse ctx idParam db =
     with_id (h_parse_uuid H) ''Invalid transaction validation ID format'' idParam db (\<lambda>i.
       answer handleTransactionValidationServiceError OK (GetTransactionValidation X uuid_Parse ctx i db))"

definition ListTransactionValidations_handler ::
  "ext \<Rightarrow> http_ext \<Rightarrow> (string \<Rightarrow> (err, uuid) result) \<Rightarrow> gotime \<Rightarrow> err option list
   \<Rightarrow> ListTransactionValidationsInput option \<Rightarrow> ('d, 'p, 'x) tracer_db_scheme
   \<Rightarrow> ('d, 'p, 'x) tracer_db_scheme \<times> 'd ListTransactionValidationsResponse response" where
  "ListTransactionValidations_handler X H uuid_Parse clock ctx query db =
     (case query of
        None \<Rightarrow> (db, bad_query)
      | Some input \<Rightarrow>
     (case ListTransactionValidationsInput_Validate X H input of
        Some e \<Rightarrow> (db, answer_invalid ''Invalid Transaction Validation Filters'' ''TRC-0250''
                     ''Invalid Transaction Validation Filters'' e)
      | None \<Rightarrow>
     (case ToTransactionValidationFilters H (ListTransactionValidationsInput_SetDefaults X input) of
        Inl m \<Rightarrow> (db, BadRequestWithMessage ''TRC-0250'' ''Invalid Transaction Validation Filters'' m)
      | Inr filters \<Rightarrow>
          answer handleTransactionValidationServiceError (\<lambda>r. OK (ToListTransactionValidationsResponse r))
            (ListTransactionValidations X uuid_Parse clock ctx (Some filters) db))))"

end
