(* ===== verification/HttpAudit.thy ===== *)
theory HttpAudit
  imports HttpRules AuditList
begin

text \<open>
  The audit endpoints: the query of the list and its validation (\<^verbatim>\<open>audit_event_validation.go\<close>), the
  handlers (\<^verbatim>\<open>audit_event_handler.go\<close>) and the service \<^verbatim>\<open>audit_event_service.go\<close>, which hands on to
  the queries. Identifiers that the tag \<^verbatim>\<open>uuid\<close> has accepted are parsed with \<^verbatim>\<open>MustParse\<close>.
\<close>

definition MaxAuditEventLimit :: int where "MaxAuditEventLimit = 1000"
definition DefaultAuditEventLimit :: int where "DefaultAuditEventLimit = 100"

record ListAuditEventsInput =
  lai_StartDate :: string
  lai_EndDate :: string
  lai_EventType :: "AuditEventType option"
  lai_Action :: "AuditAction option"
  lai_Result :: "AuditResult option"
  lai_ResourceType :: "ResourceType option"
  lai_ResourceID :: "string option"
  lai_ActorType :: "ActorType option"
  lai_ActorID :: "string option"
  lai_AccountID :: "string option"
  lai_SegmentID :: "string option"
  lai_PortfolioID :: "string option"
  lai_TransactionType :: "string option"
  lai_MatchedRuleID :: "string option"
  lai_Limit :: "int option"
  lai_Cursor :: audit_cursor_text
  lai_SortBy :: string
  lai_SortOrder :: string

subsection \<open>Validation\<close>

text \<open>The tag of an optional field.\<close>

definition optional_check :: "string \<Rightarrow> string \<Rightarrow> ('a \<Rightarrow> bool) \<Rightarrow> 'a option \<Rightarrow> tag_check list" where
  "optional_check field tag valid v =
     (case v of None \<Rightarrow> [] | Some a \<Rightarrow> field_checks ''ListAuditEventsInput.'' field [(tag, [], valid a)])"

definition list_audit_tags :: "http_ext \<Rightarrow> ListAuditEventsInput \<Rightarrow> tag_check list" where
  "list_audit_tags H i =
     optional_check ''EventType'' ''auditeventtype'' AuditEventType_IsValid (lai_EventType i)
     @ optional_check ''Action'' ''auditaction'' AuditAction_IsValid (lai_Action i)
     @ optional_check ''Result'' ''auditresult'' AuditResult_IsValid (lai_Result i)
     @ optional_check ''ResourceType'' ''resourcetype'' ResourceType_IsValid (lai_ResourceType i)
     @ optional_check ''ResourceID'' ''uuid'' (h_uuid_tag H) (lai_ResourceID i)
     @ optional_check ''ActorType'' ''actortype'' ActorType_IsValid (lai_ActorType i)
     @ optional_check ''AccountID'' ''uuid'' (h_uuid_tag H) (lai_AccountID i)
     @ optional_check ''SegmentID'' ''uuid'' (h_uuid_tag H) (lai_SegmentID i)
     @ optional_check ''PortfolioID'' ''uuid'' (h_uuid_tag H) (lai_PortfolioID i)
     @ optional_check ''TransactionType'' ''transactiontype'' (\<lambda>t. TransactionType_IsValid (TransactionType_of t))
         (lai_TransactionType i)
     @ optional_check ''MatchedRuleID'' ''uuid'' (h_uuid_tag H) (lai_MatchedRuleID i)"

definition audit_date_error :: "http_ext \<Rightarrow> string \<Rightarrow> string \<Rightarrow> ValidationError option" where
  "audit_date_error H v fieldName =
     (if v \<noteq> [] \<and> (case h_parse_time H v of Inl e \<Rightarrow> True | Inr t \<Rightarrow> False)
      then Some (coded ''TRC-0020''
        (fieldName @ '' must be in RFC3339 format with timezone (e.g., 2026-01-28T10:30:00Z)''))
      else None)"

definition audit_range_error :: "http_ext \<Rightarrow> ListAuditEventsInput \<Rightarrow> ValidationError option" where
  "audit_range_error H i =
     (if lai_StartDate i \<noteq> [] \<and> lai_EndDate i \<noteq> []
      then (case (h_parse_time H (lai_StartDate i), h_parse_time H (lai_EndDate i)) of
          (Inr start, Inr finish) \<Rightarrow>
            if finish < start then Some (coded ''TRC-0023'' ''endDate must be after startDate'') else None
        | _ \<Rightarrow> None)
      else None)"

definition audit_sort_fields :: "string list" where
  "audit_sort_fields = [''createdAt'', ''eventType'']"

definition ListAuditEventsInput_Validate ::
  "ext \<Rightarrow> http_ext \<Rightarrow> ListAuditEventsInput the_validator \<Rightarrow> ListAuditEventsInput \<Rightarrow> input_error option" where
  "ListAuditEventsInput_Validate X H V i =
     (case validate_paging X (lai_Limit i) MaxAuditEventLimit (lai_Cursor i \<noteq> AuditNoCursor) (lai_SortBy i)
             (lai_SortOrder i) audit_sort_fields of
        Some e \<Rightarrow> Some (Coded e)
      | None \<Rightarrow> validate_struct (formatValidationError H) V
          (\<lambda>i. map_option Coded (first_error
             [audit_date_error H (lai_StartDate i) ''startDate'',
              audit_date_error H (lai_EndDate i) ''endDate'',
              audit_range_error H i])) i)"

definition ListAuditEventsInput_SetDefaults :: "ext \<Rightarrow> ListAuditEventsInput \<Rightarrow> ListAuditEventsInput" where
  "ListAuditEventsInput_SetDefaults X i =
     (let (sortBy, sortOrder) = paging_sort X (lai_Cursor i \<noteq> AuditNoCursor) (lai_SortBy i) (lai_SortOrder i)
      in i\<lparr>lai_Limit := Some (case lai_Limit i of None \<Rightarrow> DefaultAuditEventLimit | Some n \<Rightarrow> n),
           lai_SortBy := sortBy, lai_SortOrder := sortOrder\<rparr>)"

text \<open>An instant that is given and does not parse is an error; \<^term>\<open>None\<close> for an identifier is a panic.\<close>

definition parse_audit_time :: "http_ext \<Rightarrow> string \<Rightarrow> string \<Rightarrow> (string, gotime) result" where
  "parse_audit_time H v fieldName =
     (if v = [] then Inr 0
      else case h_parse_time H v of
          Inl e \<Rightarrow> Inl (''invalid '' @ fieldName @ '' format: '' @ h_Error H e) | Inr t \<Rightarrow> Inr t)"

definition must_parse :: "http_ext \<Rightarrow> string option \<Rightarrow> uuid option option" where
  "must_parse H v = (case v of None \<Rightarrow> Some None | Some s \<Rightarrow> map_option Some (h_parse_uuid H s))"

definition toAuditEventFilters ::
  "http_ext \<Rightarrow> ListAuditEventsInput \<Rightarrow> (string, AuditEventFilters option) result" where
  "toAuditEventFilters H i =
     bind_result (parse_audit_time H (lai_StartDate i) ''startDate'') (\<lambda>startDate.
     bind_result (parse_audit_time H (lai_EndDate i) ''endDate'') (\<lambda>endDate.
       Inr (case (must_parse H (lai_AccountID i), must_parse H (lai_SegmentID i),
                  must_parse H (lai_PortfolioID i), must_parse H (lai_MatchedRuleID i)) of
           (Some a, Some s, Some p, Some m) \<Rightarrow>
             Some \<lparr>af_StartDate = startDate, af_EndDate = endDate, af_EventType = lai_EventType i,
               af_Action = lai_Action i, af_Result = lai_Result i, af_ResourceType = lai_ResourceType i,
               af_ResourceID = lai_ResourceID i, af_ActorType = lai_ActorType i, af_ActorID = lai_ActorID i,
               af_AccountID = a, af_SegmentID = s, af_PortfolioID = p,
               af_TransactionType = map_option TransactionType_of (lai_TransactionType i),
               af_MatchedRuleID = m,
               af_Limit = (case lai_Limit i of None \<Rightarrow> DefaultAuditEventLimit | Some n \<Rightarrow> n),
               af_Cursor = lai_Cursor i, af_SortBy = lai_SortBy i, af_SortOrder = lai_SortOrder i\<rparr>
         | _ \<Rightarrow> None)))"

subsection \<open>Handlers\<close>

definition audit_error_cases :: "(err \<times> 'b response) list" where
  "audit_error_cases =
     [(ErrAuditEventNotFound, NotFound ''TRC-0140'' ''Not Found'' ''Audit event not found''),
      (ErrInvalidAuditEventFilters,
        BadRequestWithMessage ''TRC-0141'' ''Bad Request'' ''Invalid audit event filters''),
      (ErrInvalidCursor, BadRequestWithMessage ''TRC-0044'' ''Bad Request'' ''Invalid pagination cursor''),
      (ErrInvalidSortColumn, BadRequestWithMessage ''TRC-0043'' ''Bad Request'' ''Invalid sort column'')]"

definition handleAuditEventServiceError :: "err \<Rightarrow> 'b response" where
  "handleAuditEventServiceError e = on_error audit_error_cases unexpected_error e"

text \<open>This handler takes a code from a validation error only if it has one.\<close>

definition audit_input_error :: "input_error \<Rightarrow> 'b response" where
  "audit_input_error e = answer_invalid ''Validation Error'' ''TRC-0001'' ''Validation Error''
     (case e of Coded v \<Rightarrow> if ve_Code v = [] then Uncoded (ve_Message v) else e | Uncoded m \<Rightarrow> e)"

record 'd ListAuditEventsResponse =
  lar_AuditEvents :: "'d AuditEvent list"
  lar_NextCursor :: audit_cursor_text
  lar_HasMore :: bool

definition toListAuditEventsResponse :: "'d ListAuditEventsResult \<Rightarrow> 'd ListAuditEventsResponse" where
  "toListAuditEventsResponse r =
     \<lparr>lar_AuditEvents = aer_AuditEvents r, lar_NextCursor = aer_NextCursor r, lar_HasMore = aer_HasMore r\<rparr>"

definition ListAuditEvents_handler ::
  "ext \<Rightarrow> http_ext \<Rightarrow> ListAuditEventsInput the_validator \<Rightarrow> gotime \<Rightarrow> ListAuditEventsInput option
   \<Rightarrow> ('d, 'p, 'x) audit_db_scheme \<Rightarrow> ('d, 'p, 'x) audit_db_scheme \<times> 'd ListAuditEventsResponse response" where
  "ListAuditEvents_handler X H V clock query db =
     (case query of
        None \<Rightarrow> (db, bad_query)
      | Some input \<Rightarrow>
     (case ListAuditEventsInput_Validate X H V input of
        Some e \<Rightarrow> (db, audit_input_error e)
      | None \<Rightarrow>
     (case toAuditEventFilters H (ListAuditEventsInput_SetDefaults X input) of
        Inl m \<Rightarrow> (db, BadRequestWithMessage ''TRC-0006'' ''Invalid Query Parameter'' m)
      | Inr None \<Rightarrow> (db, Panicked)
      | Inr (Some filters) \<Rightarrow>
          answer handleAuditEventServiceError (\<lambda>r. OK (toListAuditEventsResponse r))
            (ListAuditEventsQuery_Execute X clock (Some filters) db))))"

definition GetAuditEvent_handler ::
  "http_ext \<Rightarrow> string \<Rightarrow> ('d, 'p, 'x) audit_db_scheme
   \<Rightarrow> ('d, 'p, 'x) audit_db_scheme \<times> 'd AuditEvent response" where
  "GetAuditEvent_handler H idParam db =
     with_id (h_parse_uuid H) ''Invalid event ID format'' idParam db (\<lambda>i.
       answer handleAuditEventServiceError OK (GetAuditEventQuery_Execute i db))"

definition VerifyHashChain_handler ::
  "ext \<Rightarrow> audit_ext \<Rightarrow> http_ext \<Rightarrow> string \<Rightarrow> ('d, 'p, 'x) audit_db_scheme
   \<Rightarrow> ('d, 'p, 'x) audit_db_scheme \<times> HashChainVerificationResult response" where
  "VerifyHashChain_handler X A H idParam db =
     with_id (h_parse_uuid H) ''Invalid event ID format'' idParam db (\<lambda>i.
       answer handleAuditEventServiceError OK (VerifyAuditEventQuery_Execute X A i db))"

end
