(* ===== verification/HttpErrorFacts.thy ===== *)
theory HttpErrorFacts
  imports HttpValidations HttpAudit RuleCommandFacts
begin

text \<open>
  What the handlers answer to bad requests. The tags count the characters of a text as it was sent; the
  entities count the bytes of the trimmed text. A request between the two passes the validation and fails
  in the entity, with an error that the handler does not know.
\<close>

definition all_hold :: "tag_check list \<Rightarrow> bool" where
  "all_hold checks = list_all snd checks"

lemma all_hold_simps [simp]:
  "all_hold []" "all_hold (cs @ ds) \<longleftrightarrow> all_hold cs \<and> all_hold ds" "all_hold (concat css) \<longleftrightarrow> list_all all_hold css"
  by (auto simp: all_hold_def list_all_iff)

lemma field_checks_hold [simp]: "all_hold (field_checks space field ts) \<longleftrightarrow> list_all (\<lambda>(t, p, h). h) ts"
  by (induction space field ts rule: field_checks.induct) (simp_all add: all_hold_def)

declare field_checks.simps [simp del]

lemma runs_tags_result:
  assumes "runs_tags V tags"
  shows "if all_hold (tags i) then V i = None else \<exists>fe es. V i = Some (ValidationErrors (fe # es))"
  using assms by (auto simp: runs_tags_def failed_checks_def all_hold_def list_all_iff filter_empty_conv
      dest!: spec [of _ i] split: if_splits)

lemma dive_scopes_hold:
  assumes "all_hold (dive_scopes space ss)" "s \<in> set ss"
  shows "\<not> Scope_IsEmpty s"
proof -
  obtain k where "k < length ss" "ss ! k = s" using assms(2) by (auto simp: in_set_conv_nth)
  then have "(k, s) \<in> set (enumerate 0 ss)" by (auto simp: in_set_enumerate_eq)
  then have "all_hold (scope_checks space k s)" using assms(1) by (auto simp: dive_scopes_def list_all_iff)
  then show ?thesis by (simp add: scope_checks_def Let_def)
qed

lemma create_rule_tags_hold:
  assumes "all_hold (create_rule_tags i)"
  shows "Decision_IsValid (hcr_Action i)" "\<forall>s \<in> set (hcr_Scopes i). \<not> Scope_IsEmpty s"
proof -
  have t: "Decision_IsValid (hcr_Action i)" "length (hcr_Scopes i) \<le> 100"
    "all_hold (dive_scopes ''CreateRuleInput.'' (hcr_Scopes i))"
    using assms by (simp_all add: create_rule_tags_def rule_scopes_checks_def Let_def split: if_splits)
  show "Decision_IsValid (hcr_Action i)" by (rule t)
  show "\<forall>s \<in> set (hcr_Scopes i). \<not> Scope_IsEmpty s" using t dive_scopes_hold by blast
qed

text \<open>What the entity asks of the texts of a new rule.\<close>

definition rule_texts_fit :: "ext \<Rightarrow> HttpCreateRuleInput \<Rightarrow> bool" where
  "rule_texts_fit X i =
     (let name = TrimSpace (NormalizeName X (hcr_Name i)); expression = TrimSpace (hcr_Expression i) in
      name \<noteq> [] \<and> length name \<le> 255 \<and> expression \<noteq> [] \<and> length expression \<le> 5000
      \<and> length (TrimSpace (hcr_Description i)) \<le> 1000)"

definition entity_of_input :: "ext \<Rightarrow> command_env \<Rightarrow> HttpCreateRuleInput \<Rightarrow> (err, 'p Rule) result" where
  "entity_of_input X K i =
     NewRule (k_newID K) (NormalizeName X (hcr_Name i)) (hcr_Expression i) (hcr_Action i) (hcr_Scopes i)
       (if hcr_Description i = [] then None else Some (hcr_Description i)) (k_now K)"

lemma TrimSpace_Nil: "TrimSpace [] = []"
  using TrimSpace_length [of "[]"] by simp

lemma entity_of_input_cases:
  assumes "all_hold (create_rule_tags i)"
  shows "(\<exists>r. (entity_of_input X K i :: (err, 'p Rule) result) = Inr r) \<longleftrightarrow> rule_texts_fit X i"
    and "(entity_of_input X K i :: (err, 'p Rule) result) = Inl e
      \<Longrightarrow> (handleServiceError e :: 'b response) = unexpected_error"
proof -
  have c: "copyScopes (hcr_Scopes i) = Inr (hcr_Scopes i)" "Decision_IsValid (hcr_Action i)"
    using create_rule_tags_hold [OF assms] by simp_all
  note e = entity_of_input_def NewRule_def c MaxRuleNameLength_def MaxRuleExpressionLength_def
    MaxDescriptionLength_def Let_def
  show "(\<exists>r. (entity_of_input X K i :: (err, 'p Rule) result) = Inr r) \<longleftrightarrow> rule_texts_fit X i"
    by (cases "hcr_Description i = []") (auto simp: e rule_texts_fit_def not_less TrimSpace_Nil)
  assume "(entity_of_input X K i :: (err, 'p Rule) result) = Inl e"
  then have "e \<in> {ErrRuleNameRequired, ErrRuleNameTooLong, ErrRuleExpressionRequired, ErrRuleExpressionTooLong,
      ErrRuleDescriptionTooLong}"
    by (auto simp: e split: if_splits)
  then show "(handleServiceError e :: 'b response) = unexpected_error"
    by (elim insertE emptyE; simp add: handleServiceError_def rule_error_cases_def)
qed

lemma create_rule_validate:
  assumes "runs_tags V create_rule_tags"
  shows "(\<exists>e. CreateRuleInput_Validate H (Inr V) i = Some e) \<longleftrightarrow> \<not> all_hold (create_rule_tags i)"
  using runs_tags_result [OF assms, of i]
  by (auto simp: CreateRuleInput_Validate_def validate_struct_def formatValidationError_def Let_def
      split: if_splits)

lemma RuleRepo_Create_healthy:
  fixes db :: "('d, 'p, 'x) rule_db_scheme"
  assumes "no_faults db" "r_Status r = RuleStatusDraft" "\<forall>q \<in> set (db_rules db). r_ID q \<noteq> r_ID r"
  defines "db2 \<equiv> consume_fault (consume_fault db)"
  shows "RuleRepo_Create X r db = (if rule_name_taken X r (db_rules db)
    then (db2, Inl ErrRuleNameAlreadyExistsInCtx)
    else (db2\<lparr>db_rules := db_rules db @ [inserted_rule r]\<rparr>, Inr r))"
proof -
  have "next_fault db = None" "next_fault (consume_fault db) = None"
    using assms(1) no_faults_next no_faults_consume by blast+
  moreover have "\<not> list_ex (\<lambda>q. r_ID q = r_ID r) (db_rules db)" using assms(3) by (auto simp: list_ex_iff)
  ultimately show ?thesis using assms(2) by (simp add: RuleRepo_Create_def with_db_def db2_def)
qed

text \<open>The whole handler, for an expression that compiles and a database that works.\<close>

lemma CreateRule_handler_invalid:
  assumes "runs_tags V create_rule_tags" "\<not> all_hold (create_rule_tags i)"
  shows "status_of (snd (CreateRule_handler X A cel H (Inr V) K (Some i) db)) = 400
    \<and> fst (CreateRule_handler X A cel H (Inr V) K (Some i) db) = db"
proof -
  obtain e where "CreateRuleInput_Validate H (Inr V) i = Some e"
    using create_rule_validate [OF assms(1)] assms(2) by blast
  then show ?thesis
    by (cases e) (simp_all add: CreateRule_handler_def answer_invalid_def response_defs)
qed

lemma CreateRule_handler_valid:
  fixes db :: "('d, 'p, 'x) audit_db_scheme"
  assumes "runs_tags V create_rule_tags" "all_hold (create_rule_tags i)"
    "cel_Compile cel (hcr_Expression i) = Inr program"
  shows "CreateRule_handler X A cel H (Inr V) K (Some i) db
    = answer handleServiceError Created
       (case entity_of_input X K i of
          Inl e \<Rightarrow> (db, Inl e)
        | Inr rule \<Rightarrow>
       (case RuleRepo_Create X rule db of
          (db1, Inl e) \<Rightarrow>
            (db1, Inl (if errors_Is e ErrRuleNameAlreadyExistsInCtx then e else Wrap ''failed to create rule'' e))
        | (db1, Inr r) \<Rightarrow>
            (audit_rule X A K AuditEventRuleCreated AuditActionCreate (r_ID r) None
               (Some (RuleToMap X r)) ''Rule created via API'' db1, Inr r)))"
proof -
  have "CreateRuleInput_Validate H (Inr V) i = None"
    using create_rule_validate [OF assms(1)] assms(2) by (cases "CreateRuleInput_Validate H (Inr V) i") auto
  then show ?thesis
    using assms(3) by (simp add: CreateRule_handler_def CreateRule_def toServiceInput_def entity_of_input_def)
qed

lemma entity_of_input_fields:
  assumes "entity_of_input X K i = Inr r"
  shows "r_Status r = RuleStatusDraft" "r_ID r = k_newID K"
  using assms by (auto simp: entity_of_input_def NewRule_def Let_def bind_result_Inr_iff split: if_splits)

lemma CreateRule_handler_answers:
  fixes db :: "('d, 'p, 'x) audit_db_scheme"
  assumes "runs_tags V create_rule_tags" "all_hold (create_rule_tags i)"
    "cel_Compile cel (hcr_Expression i) = Inr program" "no_faults db"
    "\<forall>r \<in> set (db_rules db). r_ID r \<noteq> k_newID K"
  shows "(entity_of_input X K i :: (err, 'p Rule) result) = Inl e \<Longrightarrow>
      CreateRule_handler X A cel H (Inr V) K (Some i) db = (db, unexpected_error)"
    and "entity_of_input X K i = Inr r \<Longrightarrow> rule_name_taken X r (db_rules db) \<Longrightarrow>
      status_of (snd (CreateRule_handler X A cel H (Inr V) K (Some i) db)) = 409
      \<and> db_rules (fst (CreateRule_handler X A cel H (Inr V) K (Some i) db)) = db_rules db"
    and "entity_of_input X K i = Inr r \<Longrightarrow> \<not> rule_name_taken X r (db_rules db) \<Longrightarrow>
      snd (CreateRule_handler X A cel H (Inr V) K (Some i) db) = Created r
      \<and> db_rules (fst (CreateRule_handler X A cel H (Inr V) K (Some i) db)) = db_rules db @ [inserted_rule r]"
proof -
  note h = CreateRule_handler_valid [OF assms(1,2,3), of X A H K db]
  show "CreateRule_handler X A cel H (Inr V) K (Some i) db = (db, unexpected_error)"
    if "(entity_of_input X K i :: (err, 'p Rule) result) = Inl e"
    using h that entity_of_input_cases(2) [OF assms(2) that] by (simp add: answer_def)
  note c = RuleRepo_Create_healthy [OF assms(4), of r X] and f = entity_of_input_fields [of X K i r]
  show "status_of (snd (CreateRule_handler X A cel H (Inr V) K (Some i) db)) = 409
      \<and> db_rules (fst (CreateRule_handler X A cel H (Inr V) K (Some i) db)) = db_rules db"
    if "entity_of_input X K i = Inr r" "rule_name_taken X r (db_rules db)"
    using h c f that assms(5)
    by (simp add: answer_def handleServiceError_def rule_error_cases_def response_defs)
  show "snd (CreateRule_handler X A cel H (Inr V) K (Some i) db) = Created r
      \<and> db_rules (fst (CreateRule_handler X A cel H (Inr V) K (Some i) db)) = db_rules db @ [inserted_rule r]"
    if "entity_of_input X K i = Inr r" "\<not> rule_name_taken X r (db_rules db)"
    using h c f that assms(5) by (simp add: answer_def)
qed

end
