(* ===== verification/CelFacts.thy ===== *)
theory CelFacts
  imports CelAdapter HttpErrorFacts ValidationProperties
begin

text \<open>
  What the rest of the program relies on in an expression engine, as a locale, and that the adapter
  provides it: a compiled program is usable, an amount beyond the precision of floating point is refused
  with an error of its own, and other failures are failures of the evaluation.
\<close>

text \<open>The error of an amount that is too large, and no other that the handlers know.\<close>

definition precision_error :: "err \<Rightarrow> bool" where
  "precision_error e = (errors_Is e ErrAmountExceedsPrecision \<and> \<not> errors_Is e ErrValidationTimeout
     \<and> \<not> errors_Is e CtxCanceled)"

lemma precision_error_Wrap [simp]: "precision_error (Wrap m e) = precision_error e"
  by (simp add: precision_error_def)

definition ready_rule :: "('p \<Rightarrow> bool) \<Rightarrow> 'p Rule \<Rightarrow> bool" where
  "ready_rule usable r = (\<exists>p. r_CompiledProgram r = Some p \<and> usable p)"

locale expression_engine =
  fixes cel :: "('p, 'd) cel_ops" and usable :: "'p \<Rightarrow> bool" and precise :: "'d \<Rightarrow> bool"
  assumes compiled_usable: "cel_Compile cel s = Inr p \<Longrightarrow> usable p"
    and imprecise: "usable p \<Longrightarrow> \<not> precise (v_Amount q)
      \<Longrightarrow> \<exists>e. cel_Evaluate cel p q = Inl e \<and> precision_error e"
    and evaluation_errors: "usable p \<Longrightarrow> precise (v_Amount q) \<Longrightarrow> cel_Evaluate cel p q = Inl e
      \<Longrightarrow> (errors_Is e ErrExpressionEvaluation \<or> errors_Is e ErrExpressionType)
          \<and> \<not> precision_error e"
begin

lemma rule_out_of_scope: "\<not> rule_applies r q \<Longrightarrow> RuleEvaluator_Evaluate cel (Some r) (Some q) = Inr False"
  by (simp add: RuleEvaluator_Evaluate_def rule_applies_def RuleScopesMatch_iff)

lemma rule_imprecise:
  assumes "ready_rule usable r" "rule_applies r q" "\<not> precise (v_Amount q)"
  shows "\<exists>e. RuleEvaluator_Evaluate cel (Some r) (Some q) = Inl e \<and> precision_error e"
proof -
  obtain p where p: "r_CompiledProgram r = Some p" "usable p" using assms(1) by (auto simp: ready_rule_def)
  obtain e where "cel_Evaluate cel p q = Inl e" "precision_error e"
    using imprecise [OF p(2) assms(3)] by blast
  moreover have "RuleScopesMatch (r_Scopes r) (Some (ToTransactionScope q))"
    using assms(2) by (simp add: rule_applies_def RuleScopesMatch_iff)
  ultimately show ?thesis using p by (simp add: RuleEvaluator_Evaluate_def)
qed

lemma loop_imprecise:
  assumes "live_context ctx" "\<forall>r. Some r \<in> set rules \<longrightarrow> ready_rule usable r" "\<not> precise (v_Amount q)"
    "\<exists>r. Some r \<in> set rules \<and> rule_applies r q"
  shows "\<exists>e. evaluate_loop cel ctx q rules c = Inl e \<and> precision_error e"
  using assms(1,2,4)
proof (induction rules arbitrary: ctx c)
  case (Cons o_rule rules)
  show ?case
  proof (cases o_rule)
    case None
    then show ?thesis using Cons.IH [of ctx c] Cons.prems by simp
  next
    case (Some r)
    have live: "ctx_Err ctx = None" "live_context (tl ctx)"
      using Cons.prems(1) by (cases ctx; simp add: live_context_def ctx_Err_def)+
    show ?thesis
    proof (cases "rule_applies r q")
      case True
      then show ?thesis
        using rule_imprecise [OF _ True assms(3)] Cons.prems(2) Some live by auto
    next
      case False
      then show ?thesis
        using Cons.IH [OF live(2), of "collect r False c"] Cons.prems(2,3) Some live(1) rule_out_of_scope [OF False]
        by auto
    qed
  qed
qed simp

lemma EvaluateRules_imprecise:
  assumes "live_context ctx" "repo (Some (ToTransactionScope q)) = Inr rules" "\<not> snd (truncate_rules cfg rules)"
    "\<forall>r. Some r \<in> set rules \<longrightarrow> ready_rule usable r" "\<not> precise (v_Amount q)"
    "\<exists>r. Some r \<in> set rules \<and> rule_applies r q"
  shows "\<exists>e. EvaluateRules cel cfg ctx repo (Some q) = Inl e \<and> precision_error e"
proof -
  have "truncate_rules cfg rules = (rules, False)" using assms(3) by (simp add: truncate_rules_def split: if_splits)
  moreover have "ctx_Err ctx = None" "live_context (tl ctx)"
    using assms(1) by (cases ctx; simp add: live_context_def ctx_Err_def)+
  ultimately show ?thesis
    using loop_imprecise [of "tl ctx" rules q empty_collector] assms(2,4,5,6)
    by (auto simp: EvaluateRules_def GetActiveRulesQuery_Execute_def EvaluateAll_def)
qed

end

subsection \<open>The adapter\<close>

lemma Adapter_Compile_Inr:
  "Adapter_Compile L limit start at s = Inr p \<longleftrightarrow>
     s \<noteq> [] \<and> (\<exists>ast c program. lib_Compile L s = Inr ast \<and> lib_OutputType_is_bool L ast
       \<and> lib_Cost_Max L ast = Inr c \<and> c \<le> limit \<and> lib_Program L ast = Inr program
       \<and> p = \<lparr>cp_ExpressionHash = HashExpression L s, cp_SourceExpression = s, cp_Program = Some program,
               cp_CompiledAt = at, cp_CompileTimeMs = (at - start) div 1000000\<rparr>)"
  by (auto simp: Adapter_Compile_def Environment_Compile_def not_less split: sum.splits if_splits)

definition usable_program :: "'p CompiledProgram \<Rightarrow> bool" where
  "usable_program p = (cp_Program p \<noteq> None)"

lemma validateAmountForCEL_error:
  "validateAmountForCEL D a = Some e \<Longrightarrow> precision_error e"
  by (auto simp: validateAmountForCEL_def precision_error_def split: if_splits)

lemma precision_error_activation:
  "precision_error (Wrap2 m ErrExpressionEvaluation e) = precision_error e"
  by (simp add: precision_error_def)

interpretation adapter: expression_engine "adapter_ops X D L limit start at" usable_program
    "\<lambda>a. validateAmountForCEL D a = None" for X D L limit start at
proof unfold_locales
  fix s p assume "cel_Compile (adapter_ops X D L limit start at) s = Inr p"
  then show "usable_program p" by (auto simp: adapter_ops_def Adapter_Compile_Inr usable_program_def)
next
  fix p :: "'d CompiledProgram" and q :: "'a ValidationRequest"
  assume p: "usable_program p" and a: "\<not> validateAmountForCEL D (v_Amount q) = None"
  obtain e where e: "validateAmountForCEL D (v_Amount q) = Some e" using a by blast
  have "Adapter_Evaluate X D L (Some p) (Some q)
      = Inl (Wrap2 ''%w: failed to build activation: %w'' ErrExpressionEvaluation e)"
    using p e by (auto simp: Adapter_Evaluate_def BuildActivation_def usable_program_def)
  with validateAmountForCEL_error [OF e]
  show "\<exists>e. cel_Evaluate (adapter_ops X D L limit start at) p q = Inl e \<and> precision_error e"
    by (simp add: adapter_ops_def precision_error_activation)
next
  fix p :: "'d CompiledProgram" and q :: "'a ValidationRequest" and e
  assume "usable_program p" "validateAmountForCEL D (v_Amount q) = None"
    "cel_Evaluate (adapter_ops X D L limit start at) p q = Inl e"
  then show "(errors_Is e ErrExpressionEvaluation \<or> errors_Is e ErrExpressionType)
      \<and> \<not> precision_error e"
    by (auto simp: adapter_ops_def Adapter_Evaluate_def BuildActivation_def usable_program_def precision_error_def
        split: sum.splits option.splits)
qed

subsection \<open>Over HTTP\<close>

text \<open>An amount that floating point cannot hold is refused as soon as a rule applies to the request, whatever
  the rule says; no table changes.\<close>

lemma imprecise_evaluation:
  fixes req :: "('d::linordered_ab_group_add) ValidationRequest" and X :: ext
  assumes "rc_ready c" "enumerates order c" "live_context ctx"
    "MaxRulesPerRequest cfg \<le> 0 \<or> int (length order) \<le> MaxRulesPerRequest cfg"
    "\<forall>r \<in> served c. ready_rule usable_program r" "validateAmountForCEL D (v_Amount req) \<noteq> None"
    "r \<in> served c" "rule_applies r req"
  shows "\<exists>e. evaluator (adapter_ops X D L limit start at) cfg ctx (CacheAdapter_GetActiveRules order c) req = Inl e
    \<and> precision_error e"
proof -
  let ?rs = "adapter_fetch (order, c) (ToTransactionScope req)"
  have len: "length (List.map_filter f xs) \<le> length xs" for f :: "'x \<Rightarrow> 'y option" and xs
    by (simp add: List.map_filter_def)
  have "length ?rs \<le> length order"
    unfolding adapter_fetch_def Cache_GetActiveRules_def fst_conv snd_conv by (rule order_trans [OF len len])
  then have "\<not> snd (truncate_rules cfg (map Some ?rs))"
    using assms(4) by (auto simp: truncate_rules_def)
  moreover have rs: "set ?rs = {r \<in> served c. rule_applies r req}"
    using set_adapter_fetch [OF assms(2)] by (simp add: rule_applies_def RuleScopesMatch_iff)
  have "\<forall>q. Some q \<in> set (map Some ?rs) \<longrightarrow> ready_rule usable_program q" using assms(5) rs by auto
  moreover have "\<exists>q. Some q \<in> set (map Some ?rs) \<and> rule_applies q req" using assms(7,8) rs by auto
  ultimately obtain e where "EvaluateRules (adapter_ops X D L limit start at) cfg ctx
      (CacheAdapter_GetActiveRules order c) (Some req) = Inl e" "precision_error e"
    using adapter.EvaluateRules_imprecise [where q = req and cfg = cfg and D = D and X = X and L = L and limit = limit
        and start = start and at = at and repo = "CacheAdapter_GetActiveRules order c", OF assms(3)
        CacheAdapter_fetch [OF assms(1), where order = order and tx = "ToTransactionScope req"] _ _ assms(6)]
    by blast
  then show ?thesis by (simp add: evaluator_def)
qed

definition precision_refused :: "'b response" where
  "precision_refused = BadRequestWithMessage ''TRC-0089'' ''Bad Request''
     (''amount exceeds safe precision limit for evaluation (max: '' @ [byte 194, byte 177] @ ''2^53)'')"

lemma handle_precision_error: "precision_error e \<Longrightarrow> handleValidationError e = precision_refused"
  by (simp add: handleValidationError_def validation_error_cases_def precision_error_def precision_refused_def)

lemma imprecise_answer:
  fixes db :: "('d::linordered_ab_group_add, 'p, 'x) tracer_db_scheme"
  assumes "no_faults db" "fresh_request S N (v_RequestID req) db" "n_ctx N = None" "len \<le> maxPayloadSize"
    and body: "NormalizeAndValidate (s_ext S) W request vnow = Inr req"
    and exec: "exec req = Inl e" "precision_error e"
  shows "\<exists>db'. Validate_handler S N W errors vnow exec check id len (Inr request) db = (db', precision_refused)
    \<and> tables_kept db db'"
proof -
  have valid: "ValidationRequest_Validate (s_ext S) W req vnow = None"
    using body NormalizeAndValidate_Inr by blast
  then have "v_RequestID req \<noteq> uuid_Nil"
    by (auto simp: ValidationRequest_Validate_None validateRequiredFields_None)
  from find_none_fresh [OF assms(1,2) this]
  have "Validate S N exec check id (Some req) db
      = (consume_fault (consume_fault db), Inl (Wrap ''rule evaluation failed'' e))"
    using assms(3) exec(1) by (simp add: Validate_def Let_def)
  then show ?thesis
    using assms(4) body handle_precision_error [of "Wrap ''rule evaluation failed'' e"] exec(2)
    by (simp add: Validate_handler_def answer_def)
qed

text \<open>The answer to a new rule whose expression is refused: by what the library says of it.\<close>

definition refused_expression ::
  "('a, 'p, 'f) cel_library \<Rightarrow> 64 word \<Rightarrow> string \<Rightarrow> 'b response option" where
  "refused_expression L limit s =
     (let syntax = BadRequestWithMessage ''TRC-0083'' ''Bad Request'' ''Invalid CEL expression syntax'';
          wrong_type = BadRequestWithMessage ''TRC-0084'' ''Bad Request'' ''Expression must evaluate to boolean'';
          expensive = BadRequestWithMessage ''TRC-0085'' ''Bad Request'' ''Expression cost exceeds limit''
      in case lib_Compile L s of
        Inl (messages, t) \<Rightarrow> Some (if classifyIssues messages then wrong_type else syntax)
      | Inr ast \<Rightarrow>
          if \<not> lib_OutputType_is_bool L ast then Some wrong_type
          else (case (lib_Cost_Max L ast, lib_Program L ast) of
                  (Inr cost, Inr program) \<Rightarrow> if limit < cost then Some expensive else None
                | (Inr cost, Inl t) \<Rightarrow> Some (if limit < cost then expensive else unexpected_error)
                | (Inl t, _) \<Rightarrow> Some unexpected_error))"

lemmas refused_defs = handleServiceError_def rule_error_cases_def

lemma refused_expression:
  assumes "s \<noteq> []"
  shows "case Adapter_Compile L limit start at s of
      Inl e \<Rightarrow> refused_expression L limit s = Some (handleServiceError e :: 'b response)
    | Inr p \<Rightarrow> refused_expression L limit s = (None :: 'b response option)"
proof (cases "lib_Compile L s")
  case (Inl issues)
  with assms show ?thesis
    by (cases issues) (simp add: Adapter_Compile_def Environment_Compile_def refused_expression_def refused_defs)
next
  case (Inr ast)
  with assms show ?thesis
    by (cases "lib_Cost_Max L ast"; cases "lib_Program L ast")
      (simp_all add: Adapter_Compile_def Environment_Compile_def refused_expression_def refused_defs)
qed

lemma refused_expression_status:
  "refused_expression L limit s = Some reply \<Longrightarrow> status_of reply \<noteq> 201"
  by (auto simp: refused_expression_def unexpected_error_def response_defs Let_def split: sum.splits if_splits)

lemma tags_hold_expression: "all_hold (create_rule_tags i) \<Longrightarrow> hcr_Expression i \<noteq> []"
  by (auto simp: create_rule_tags_def text_checks_def Let_def)

lemma accepted_expression:
  assumes "all_hold (create_rule_tags i)"
    "refused_expression L limit (hcr_Expression i) = (None :: 'b response option)"
  shows "\<exists>program. Adapter_Compile L limit start at (hcr_Expression i) = Inr program"
  using refused_expression [OF tags_hold_expression [OF assms(1)], of L limit start at, where 'b = 'b] assms(2)
  by (cases "Adapter_Compile L limit start at (hcr_Expression i)") auto

lemma CreateRule_handler_refused:
  fixes reply :: "'p CompiledProgram Rule response"
  assumes "runs_tags V create_rule_tags" "all_hold (create_rule_tags i)"
    "refused_expression L limit (hcr_Expression i) = Some reply"
  shows "CreateRule_handler X A (adapter_ops X D L limit start at) H (Inr V) K (Some i) db = (db, reply)"
proof -
  have v: "CreateRuleInput_Validate H (Inr V) i = None"
    using create_rule_validate [OF assms(1)] assms(2) by (cases "CreateRuleInput_Validate H (Inr V) i") auto
  have "hcr_Expression i \<noteq> []" by (rule tags_hold_expression [OF assms(2)])
  then obtain e where "Adapter_Compile L limit start at (hcr_Expression i) = Inl e" "handleServiceError e = reply"
    using refused_expression [where 'b = "'p CompiledProgram Rule" and L = L and limit = limit and start = start
        and at = at, OF \<open>hcr_Expression i \<noteq> []\<close>] assms(3)
    by (cases "Adapter_Compile L limit start at (hcr_Expression i)") auto
  then show ?thesis
    using v by (simp add: CreateRule_handler_def CreateRule_def toServiceInput_def adapter_ops_def answer_def)
qed

end
