(* ===== verification/HttpProperties.thy ===== *)
theory HttpProperties
  imports CommandProperties HttpListFacts CelFacts
begin

text \<open>
  The properties of the HTTP interface, each with a concrete instance where its hypotheses hold.
\<close>

definition http0 :: http_ext where
  "http0 = \<lparr>h_parse_uuid = (\<lambda>s. if s = ''1'' then Some 1 else None), h_parse_time = (\<lambda>s. Inl (External s)),
     h_scan_number = (\<lambda>s. None), h_quote = id, h_Error = (\<lambda>e. ''error''), h_uuid_tag = (\<lambda>s. s = ''1'')\<rparr>"

lemma collation0: "collation ext0"
  by (auto simp: collation_def strict_on_def ext0_def)

subsection \<open>Lists\<close>

text \<open>C34. The list of rules is complete over HTTP. A client that sends a valid query without a cursor and
  then follows the cursors of the answers (without a sort, which the validation refuses beside a cursor)
  gets every rule that matches the query exactly once, in the order asked for, for every sort column and
  direction, and reaches the end.\<close>

theorem rule_list_complete_over_http:
  fixes db :: "('d, 'p, 'x) rule_db_scheme"
  assumes "no_faults db" "collation X" "ListRulesInput_Validate X H i = None" "lri_Cursor i = RuleNoCursor"
    "rules_sort X i = (sb, so)" "distinct (map r_ID (db_rules db))"
    "\<forall>r \<in> set (db_rules db). RuleStatus_IsValid (r_Status r)"
  shows "\<exists>rs. drain (rules_over_http X H i db) (Suc (length (db_rules db))) None = Some rs \<and> distinct rs
    \<and> set rs = {r \<in> set (db_rules db). rule_matching X (rules_filter H i) r}
    \<and> sorted_wrt (rule_before X sb so) rs"
  using assms by (rule rules_pages)

definition one_rule_a_page :: ListRulesInput where
  "one_rule_a_page = \<lparr>lri_Name = None, lri_Status = None, lri_Action = None, lri_AccountID = None,
     lri_SegmentID = None, lri_PortfolioID = None, lri_MerchantID = None, lri_TransactionType = None,
     lri_SubType = None, lri_Limit = Some 1, lri_Cursor = RuleNoCursor, lri_SortBy = ''name'',
     lri_SortOrder = ''asc''\<rparr>"

lemma ToUpper_asc: "ToUpper X ''asc'' = ''ASC''"
  using order_texts(2) [of "''ASC''" X] by (simp add: lower_order_def)

theorem rule_list_complete_over_http_witness:
  "\<exists>rs. drain (rules_over_http ext0 http0 one_rule_a_page (rdb0\<lparr>db_faults := [], db_rules := [allow_1, deny_2]\<rparr>))
      3 None = Some rs \<and> set rs = {allow_1, deny_2} \<and> length rs = 2"
proof -
  let ?db = "rdb0\<lparr>db_faults := [], db_rules := [allow_1, deny_2]\<rparr>"
  have nf: "no_faults ?db" by (simp add: no_faults_def)
  have sort: "rules_sort ext0 one_rule_a_page = (''name'', ''ASC'')"
    by (simp add: rules_sort_def paging_sort_def one_rule_a_page_def NormalizeSortOrder_def ToUpper_asc)
  have valid: "ListRulesInput_Validate ext0 http0 one_rule_a_page = None"
    by (simp add: ListRulesInput_Validate_def validate_paging_None rule_validateScopeFields_def given_def
        one_rule_a_page_def rule_sort_fields_allowed_def ToUpper_asc)
  have ids: "distinct (map r_ID (db_rules ?db))" "allow_1 \<noteq> deny_2"
    by (simp_all add: allow_1_def deny_2_def rule0_def)
  have status: "\<forall>r \<in> set (db_rules ?db). RuleStatus_IsValid (r_Status r)"
    by (simp add: allow_1_def deny_2_def rule0_def)
  have len: "Suc (length (db_rules ?db)) = 3" by simp
  have all: "{r \<in> set (db_rules ?db). rule_matching ext0 (rules_filter http0 one_rule_a_page) r}
      = {allow_1, deny_2}"
    by (auto simp: rule_matching_def rule_applyFilters_def rules_filter_def one_rule_a_page_def
        buildScopeFromInput_def scope_parameters_def parse_given_def given_def Scope_IsEmpty_def
        allow_1_def deny_2_def rule0_def)
  obtain rs where rs: "drain (rules_over_http ext0 http0 one_rule_a_page ?db) 3 None = Some rs" "distinct rs"
    "set rs = {allow_1, deny_2}"
    using rule_list_complete_over_http [OF nf collation0 valid _ sort ids(1) status] unfolding len all
    by (auto simp: one_rule_a_page_def)
  then have "length rs = 2" using ids(2) distinct_card [of rs] by simp
  with rs show ?thesis by blast
qed

text \<open>C35. The list of limits is cut short over HTTP. The same client reads every matching limit once, in
  order, when the list is sorted by creation time, descending; for every other sort it gets only the first
  page. The query takes the sort of a page from the request, where it must be missing, and not from the
  cursor, so the repository refuses the cursor.\<close>

theorem limit_list_cut_short_over_http:
  fixes db :: "('d::linorder, 'x) limit_db_scheme"
  assumes "no_faults db" "collation X" "ListLimitsInput_Validate X H i = None" "lli_Cursor i = NoCursor"
    "limits_sort X i = (sb, so)" "distinct (map l_ID (db_limits db))"
    "\<forall>l \<in> set (db_limits db). scan_scopes (l_Scopes l) = None"
  shows "\<exists>all. distinct all \<and> set all = {l \<in> set (db_limits db). matching X (limits_filter H i sb so) l}
    \<and> sorted_wrt (list_before X sb so) all
    \<and> drain (limits_over_http X H i db) (Suc (length (db_limits db))) None
        = Some (if (sb, so) = (''createdAt'', ''DESC'') then all else take (nat (limits_limit i)) all)"
  using assms by (rule limits_pages)

definition one_limit_a_page :: "string \<Rightarrow> string \<Rightarrow> int ListLimitsInput" where
  "one_limit_a_page sortBy sortOrder = \<lparr>lli_Name = None, lli_AccountID = None, lli_SegmentID = None,
     lli_PortfolioID = None, lli_MerchantID = None, lli_TransactionType = None, lli_SubType = None,
     lli_Limit = Some 1, lli_Cursor = NoCursor, lli_Status = [], lli_LimitType = [], lli_SortBy = sortBy,
     lli_SortOrder = sortOrder\<rparr>"

lemma one_limit_a_page_fields:
  assumes "(sortBy, sortOrder) \<in> {([], []), (''maxAmount'', ''asc'')}"
  defines "i \<equiv> one_limit_a_page sortBy sortOrder"
  shows "ListLimitsInput_Validate ext0 http0 i = None" "lli_Cursor i = NoCursor" "nat (limits_limit i) = 1"
    "limits_sort ext0 i = (if sortBy = [] then (''createdAt'', ''DESC'') else (''maxAmount'', ''ASC''))"
    and "{l \<in> set [daily_limit 1 10, daily_limit 2 5]. matching ext0 (limits_filter http0 i sb so) l}
      = {daily_limit 1 10, daily_limit 2 5}"
proof -
  note i = i_def one_limit_a_page_def
  show "ListLimitsInput_Validate ext0 http0 i = None"
    using assms(1) by (auto simp: i ListLimitsInput_Validate_def validate_paging_None
        limit_validateScopeFields_def given_def limit_sort_fields_def ToUpper_asc)
  show "lli_Cursor i = NoCursor" "nat (limits_limit i) = 1" by (simp_all add: i limits_limit_def)
  show "limits_sort ext0 i = (if sortBy = [] then (''createdAt'', ''DESC'') else (''maxAmount'', ''ASC''))"
    using assms(1) by (auto simp: i limits_sort_def paging_sort_def NormalizeSortOrder_def ToUpper_asc)
  show "{l \<in> set [daily_limit 1 10, daily_limit 2 5]. matching ext0 (limits_filter http0 i sb so) l}
      = {daily_limit 1 10, daily_limit 2 5}"
    by (auto simp: i matching_def applyListFilters_def limits_filter_def buildLimitScopeFromInput_def
        scope_parameters_def parse_given_def given_def Scope_IsEmpty_def daily_limit_def)
qed

theorem limit_list_cut_short_over_http_witness:
  "\<exists>ls ls'. drain (limits_over_http ext0 http0 (one_limit_a_page [] []) (store0 [daily_limit 1 10, daily_limit 2 5]))
      3 None = Some ls \<and> length ls = 2
    \<and> drain (limits_over_http ext0 http0 (one_limit_a_page ''maxAmount'' ''asc'')
        (store0 [daily_limit 1 10, daily_limit 2 5])) 3 None = Some ls' \<and> length ls' = 1"
proof -
  let ?db = "store0 [daily_limit 1 10, daily_limit 2 5]"
  have db: "no_faults ?db" "distinct (map l_ID (db_limits ?db))" "Suc (length (db_limits ?db)) = 3"
    "\<forall>l \<in> set (db_limits ?db). scan_scopes (l_Scopes l) = None" "db_limits ?db = [daily_limit 1 10, daily_limit 2 5]"
    by (simp_all add: no_faults_def store0_def daily_limit_def scan_scopes_def account_scope_def)
  have two: "length ls = 2" if "distinct ls" "set ls = {daily_limit 1 10, daily_limit 2 5}" for ls
    using that distinct_card [of ls] by (simp add: daily_limit_def)
  have read: "\<exists>ls. length ls = 2 \<and> drain (limits_over_http ext0 http0 (one_limit_a_page sortBy sortOrder) ?db) 3 None
      = Some (if sortBy = [] then ls else take 1 ls)"
    if s: "(sortBy, sortOrder) \<in> {([], []), (''maxAmount'', ''asc'')}" for sortBy sortOrder
  proof -
    note i = one_limit_a_page_fields [OF s]
    let ?s = "if sortBy = [] then (''createdAt'', ''DESC'') else (''maxAmount'', ''ASC'')"
    obtain ls where "distinct ls" "set ls = {daily_limit 1 10, daily_limit 2 5}"
      "drain (limits_over_http ext0 http0 (one_limit_a_page sortBy sortOrder) ?db) 3 None
        = Some (if ?s = (''createdAt'', ''DESC'') then ls else take 1 ls)"
      using limit_list_cut_short_over_http [OF db(1) collation0 i(1,2) _ db(2,4), of "fst ?s" "snd ?s"] i(3,4)
      unfolding db(3) unfolding db(5) i(5) by auto
    then show ?thesis using two by auto
  qed
  show ?thesis using read [of "[]" "[]"] read [of "''maxAmount''" "''asc''"] by auto
qed

subsection \<open>Commands\<close>

text \<open>C36. What the creation of a rule answers, with a fresh identifier and no driver failures: 400 when a tag
  of the input does not hold; else, when the expression is refused, the answer to that: 400 with the code of the
  error when it does not compile, is not boolean or costs too much, 500 when the library fails to estimate its
  cost or to build its program (\<open>refused_expression\<close>); else 500 when the trimmed texts do not suit the entity, which asks for more than
  the tags (a name of spaces, or one of 255 characters but more bytes, is the client's mistake and is answered
  as the server's); else 409 when the name is taken; else 201 with the new rule. Only then is a row added, and
  it is that rule's.\<close>

theorem rule_creation_answers:
  fixes db :: "('d::linordered_ab_group_add, 'p CompiledProgram, 'x) audit_db_scheme"
    and X :: ext and A :: audit_ext and H :: http_ext and D L start at costLimit i
  assumes "runs_tags V create_rule_tags" "no_faults db" "\<forall>r \<in> set (db_rules db). r_ID r \<noteq> k_newID K"
  defines "a \<equiv> CreateRule_handler X A (adapter_ops X D L costLimit start at) H (Inr V) K (Some i) db"
    and "refused \<equiv> (refused_expression L costLimit (hcr_Expression i) :: 'p CompiledProgram Rule response option)"
  shows "status_of (snd a) =
      (if \<not> all_hold (create_rule_tags i) then 400 else if refused \<noteq> None then status_of (the refused)
       else if \<not> rule_texts_fit X i then 500
       else if \<exists>r. entity_of_input X K i = Inr r \<and> rule_name_taken X r (db_rules db) then 409 else 201)
    \<and> (if status_of (snd a) = 201
       then \<exists>r. entity_of_input X K i = Inr r \<and> snd a = Created r
              \<and> db_rules (fst a) = db_rules db @ [inserted_rule r]
       else db_rules (fst a) = db_rules db)
    \<and> (all_hold (create_rule_tags i) \<and> refused \<noteq> None \<longrightarrow> snd a = the refused)"
proof (cases "all_hold (create_rule_tags i)")
  case False
  from CreateRule_handler_invalid [OF assms(1) this, of X A "adapter_ops X D L costLimit start at" H K db] False
  show ?thesis by (simp add: a_def)
next
  case True
  show ?thesis
  proof (cases refused)
    case (Some reply)
    then have "a = (db, reply)"
      unfolding a_def by (intro CreateRule_handler_refused [OF assms(1) True]) (simp add: refused_def)
    moreover have "status_of reply \<noteq> 201"
      using Some refused_expression_status [of L costLimit "hcr_Expression i" reply] by (simp add: refused_def)
    ultimately show ?thesis using True Some by simp
  next
    case None
    then obtain program where "cel_Compile (adapter_ops X D L costLimit start at) (hcr_Expression i) = Inr program"
      using accepted_expression [OF True, where 'b = "'p CompiledProgram Rule" and L = L and limit = costLimit
          and start = start and at = at] by (auto simp: refused_def adapter_ops_def)
    note c = CreateRule_handler_answers [OF assms(1) True this assms(2,3), where X = X and A = A and H = H]
    have fit: "(\<exists>r. (entity_of_input X K i :: (err, 'p CompiledProgram Rule) result) = Inr r) \<longleftrightarrow> rule_texts_fit X i"
      by (rule entity_of_input_cases(1) [OF True])
    show ?thesis
    proof (cases "entity_of_input X K i :: (err, 'p CompiledProgram Rule) result")
      case (Inl e)
      then have "\<not> rule_texts_fit X i" using fit by simp
      then show ?thesis using c(1) [OF Inl] True None by (simp add: a_def unexpected_error_def response_defs)
    next
      case (Inr r)
      then have "rule_texts_fit X i" using fit by blast
      then show ?thesis
        using c(2,3) [OF Inr] True Inr None
        by (cases "rule_name_taken X r (db_rules db)") (simp_all add: a_def response_defs)
    qed
  qed
qed

definition first_tag_error :: "HttpCreateRuleInput validator" where
  "first_tag_error i = (case failed_checks (create_rule_tags i) of [] \<Rightarrow> None | es \<Rightarrow> Some (ValidationErrors es))"

definition new_rule_named :: "string \<Rightarrow> HttpCreateRuleInput" where
  "new_rule_named n = \<lparr>hcr_Name = n, hcr_Description = [], hcr_Expression = ''true'',
     hcr_Action = DecisionDeny, hcr_Scopes = []\<rparr>"

text \<open>A toy language: every text but \<open>bad\<close> is a boolean expression that costs its length, and decimals are
  integers that floating point holds exactly.\<close>

definition lib0 :: "(string, string, (string \<times> int cel_value) list) cel_library" where
  "lib0 = \<lparr>lib_Compile = (\<lambda>s. if s = ''bad'' then Inl ([''Syntax error''], ''Syntax error'') else Inr s),
     lib_OutputType_is_bool = (\<lambda>s. True), lib_Cost_Max = (\<lambda>s. Inr (of_nat (length s))), lib_Program = Inr,
     lib_Eval = (\<lambda>p a. Inr (Some (p = ''true''))), lib_Sum256_hex = id\<rparr>"

definition decimal0 :: "(int, int) decimal_library" where
  "decimal0 = \<lparr>dec_InexactFloat64 = id, dec_IsInf_or_NaN = (\<lambda>f. False), dec_NewFromInt = id\<rparr>"

definition engine0 :: "(string CompiledProgram, int) cel_ops" where
  "engine0 = adapter_ops ext0 decimal0 lib0 10000 0 0"

definition program0 :: "string CompiledProgram" where
  "program0 = \<lparr>cp_ExpressionHash = ''true'', cp_SourceExpression = ''true'', cp_Program = Some ''true'',
     cp_CompiledAt = 0, cp_CompileTimeMs = 0\<rparr>"

definition cached_rule0 :: "string CompiledProgram Rule" where
  "cached_rule0 = \<lparr>r_ID = 1, r_Name = ''rule'', r_Description = None, r_Expression = ''true'',
     r_Action = DecisionAllow, r_Scopes = [], r_Status = RuleStatusActive, r_CreatedAt = 1, r_UpdatedAt = 1,
     r_ActivatedAt = None, r_DeactivatedAt = None, r_DeletedAt = None, r_CompiledProgram = Some program0\<rparr>"

definition rules_db0 :: "(int, string CompiledProgram) audit_db" where
  "rules_db0 = \<lparr>db_counters = [], db_faults = [], db_limits = [], db_rules = [cached_rule0], db_audits = [],
     db_audit_seq = 0\<rparr>"

lemma strip_Nil [simp]: "strip encs [] = []"
  using strip_suffix [of encs "[]"] by simp

lemma new_rule_named_tags:
  "all_hold (create_rule_tags (new_rule_named n)) \<longleftrightarrow> n \<noteq> [] \<and> 1 \<le> rune_count n \<and> rune_count n \<le> 255"
  "all_hold (create_rule_tags ((new_rule_named n)\<lparr>hcr_Expression := ''bad''\<rparr>))
    \<longleftrightarrow> n \<noteq> [] \<and> 1 \<le> rune_count n \<and> rune_count n \<le> 255"
proof -
  have "rune_count ''true'' = 4" "rune_count ''bad'' = 3" by (simp_all add: rune_count_def)
  then show "all_hold (create_rule_tags (new_rule_named n)) \<longleftrightarrow> n \<noteq> [] \<and> 1 \<le> rune_count n \<and> rune_count n \<le> 255"
    "all_hold (create_rule_tags ((new_rule_named n)\<lparr>hcr_Expression := ''bad''\<rparr>))
      \<longleftrightarrow> n \<noteq> [] \<and> 1 \<le> rune_count n \<and> rune_count n \<le> 255"
    by (simp_all add: create_rule_tags_def new_rule_named_def text_checks_def rule_scopes_checks_def dive_scopes_def
        rune_count_def Let_def del: field_checks.simps)
qed

theorem rule_creation_answers_witness:
  "status_of (snd (CreateRule_handler ext0 audit1 engine0 http0 (Inr first_tag_error) (command0 3)
      (Some (new_rule_named ''  '')) rules_db0)) = 500
   \<and> status_of (snd (CreateRule_handler ext0 audit1 engine0 http0 (Inr first_tag_error) (command0 3)
      (Some (new_rule_named [])) rules_db0)) = 400
   \<and> status_of (snd (CreateRule_handler ext0 audit1 engine0 http0 (Inr first_tag_error) (command0 3)
      (Some ((new_rule_named ''night'')\<lparr>hcr_Expression := ''bad''\<rparr>)) rules_db0)) = 400
   \<and> status_of (snd (CreateRule_handler ext0 audit1 engine0 http0 (Inr first_tag_error) (command0 3)
      (Some (new_rule_named ''night'')) rules_db0)) = 201"
proof -
  have tags: "runs_tags first_tag_error create_rule_tags"
    by (auto simp: runs_tags_def first_tag_error_def neq_Nil_conv split: list.split)
  have db: "no_faults rules_db0" "\<forall>r \<in> set (db_rules rules_db0). r_ID r \<noteq> k_newID (command0 3)"
    by (simp_all add: no_faults_def rules_db0_def cached_rule0_def command0_def)
  note answered = rule_creation_answers [OF tags db, where X = ext0 and A = audit1 and H = http0 and D = decimal0
      and L = lib0 and costLimit = 10000 and start = 0 and at = 0, folded engine0_def, THEN conjunct1]
  have blank: "TrimSpace ''  '' = []"
  proof -
    have "byte 32 = CHR '' ''" by (simp add: byte_def char_of_eq_iff take_bit_eq_mod)
    then have space: "'' '' \<in> set space_encodings" by (simp add: space_encodings_def)
    have "strip space_encodings ''  '' = []"
      using strip_no_prefix [OF space, of "''  ''"] strip_suffix [of space_encodings "''  ''"]
      by (auto simp: suffix_Cons)
    then show ?thesis by (simp add: TrimSpace_def)
  qed
  have night: "NormalizeName ext0 ''night'' = ''night''" "NormalizeName ext0 ''  '' = []"
    using blank by (simp_all add: NormalizeName_def TrimSpace_text ToLower_def isASCII_def lower_char_def regexp_space_def)
  have hold: "all_hold (create_rule_tags (new_rule_named ''night''))" "\<not> all_hold (create_rule_tags (new_rule_named []))"
    "all_hold (create_rule_tags (new_rule_named ''  ''))"
    "all_hold (create_rule_tags ((new_rule_named ''night'')\<lparr>hcr_Expression := ''bad''\<rparr>))"
    by (simp_all add: new_rule_named_tags rune_count_def)
  have fit: "rule_texts_fit ext0 (new_rule_named ''night'')" "\<not> rule_texts_fit ext0 (new_rule_named ''  '')"
    using blank night by (simp_all add: rule_texts_fit_def new_rule_named_def TrimSpace_text TrimSpace_Nil)
  have free: "\<not> (\<exists>r. entity_of_input ext0 (command0 3) (new_rule_named ''night'') = Inr r
      \<and> rule_name_taken ext0 r (db_rules rules_db0))"
    using night by (auto simp: entity_of_input_def NewRule_def Let_def new_rule_named_def TrimSpace_text
        rule_name_taken_def rules_db0_def cached_rule0_def split: if_splits)
  have good: "refused_expression lib0 10000 (hcr_Expression (new_rule_named n))
      = (None :: string CompiledProgram Rule response option)" for n
    by (simp add: refused_expression_def lib0_def new_rule_named_def)
  have bad: "status_of (the (refused_expression lib0 10000 ''bad'' :: string CompiledProgram Rule response option)) = 400"
    "refused_expression lib0 10000 ''bad'' \<noteq> (None :: string CompiledProgram Rule response option)"
    by (simp_all add: refused_expression_def lib0_def response_defs Let_def)
  show ?thesis
    unfolding answered using hold fit free good bad by simp
qed

subsection \<open>Validations\<close>

text \<open>C20. A request is answered once. On a consistent store, without driver failures and when the evaluation
  of the rules succeeds, a valid new request is answered 201 with its decision; any later valid request with
  the same identifier, whatever else it says and whatever was validated in between, is answered 200 with the
  stored answer and changes no table, even if its rules or limits would now decide otherwise. (The order in
  which the handler's table of errors is visited is arbitrary.)\<close>

theorem repeated_request_over_http:
  fixes db db2 :: "('d::linordered_ab_group_add, 'p, 'x) tracer_db_scheme"
  assumes "env_ok S N" "no_faults db" "counters_ok db" "limits_ok db"
    "fresh_ids newID 0 (length (db_limits db)) db" "len \<le> maxPayloadSize"
    and body: "NormalizeAndValidate (s_ext S) W request vnow = Inr req"
    and fresh: "fresh_request S N (v_RequestID req) db"
    and rules: "exec req = Inr (Some ev)" "Decision_IsValid (e_Decision ev)"
    and first: "Validate_handler S N W order vnow exec (checker (s_ext S) newID rn now) id len (Inr request) db
      = (db', a)"
    and later: "db_validations db2 = db_validations db' @ rows" "no_faults db2" "n_ctx M = None"
      "len2 \<le> maxPayloadSize" "NormalizeAndValidate (s_ext S) W request2 vnow2 = Inr req2"
      "v_RequestID req2 = v_RequestID req"
  shows "\<exists>r db3. a = Created r
    \<and> Validate_handler S M W order2 vnow2 exec2 check2 others len2 (Inr request2) db2
      = (db3, OK (stored_answer (n_persistNow N) r))
    \<and> tables_kept db2 db3"
proof -
  have valid: "ValidationRequest_Validate (s_ext S) W req vnow = None"
    using body NormalizeAndValidate_Inr by blast
  obtain db1 r where run: "Validate S N exec (checker (s_ext S) newID rn now) id (Some req) db
      = (db1, Inr \<lparr>res_Response = r, res_IsDuplicate = False\<rparr>)"
    using Validate_decides [where exec = exec, OF assms(1) valid assms(2-5) fresh rules] by blast
  then have "db1 = db'" "a = Created r"
    using first assms(6) body by (simp_all add: Validate_handler_def answer_def)
  moreover obtain db3 where "Validate S M exec2 check2 others (Some req2) db2
      = (db3, Inr \<lparr>res_Response = stored_answer (n_persistNow N) r, res_IsDuplicate = True\<rparr>)"
    "tables_kept db2 db3"
    using repeated_request_gets_stored_answer [where ?exec2.0 = exec2 and ?check2.0 = check2 and others = others,
        OF assms(1) valid assms(2-5) fresh rules run [unfolded \<open>db1 = db'\<close>] later(1-3,6)] by auto
  ultimately show ?thesis
    using later(4,5) by (auto simp: Validate_handler_def answer_def)
qed

lemma vrequest0_body: "a > 0 \<Longrightarrow> NormalizeAndValidate ext0 default_window (vrequest0\<lparr>v_Amount := a\<rparr>) 10
  = Inr (vrequest0\<lparr>v_Amount := a\<rparr>)"
  by (simp add: NormalizeAndValidate_Inr ValidationRequest_Validate_def validateRequiredFields_def
      validateOptionalFields_def validateMerchant_def validateMetadata_def vrequest0_def
      IsValidCurrency_def ext0_def time_IsZero_def default_window_def Minute_ns_def Hour_ns_def)

theorem repeated_request_over_http_witness:
  "\<exists>db1 db2 r. Validate_handler service0 (env0 5) default_window validationErrorMappings 10
      (\<lambda>_. Inr (Some (bare_result DecisionReview))) (checker ext0 ids0 20 20) id 300 (Inr vrequest0)
      (tracer0 [daily_limit 1 10]) = (db1, Created r)
    \<and> Validate_handler service0 (env0 9) default_window [] 10 (\<lambda>_. Inl ErrInvalidDecision)
        (checker ext0 ids0 30 30) id 301 (Inr (vrequest0\<lparr>v_Amount := 1000\<rparr>)) (db1\<lparr>db_faults := []\<rparr>)
      = (db2, OK (stored_answer 12 r))"
proof -
  let ?ev = "bare_result DecisionReview"
  have s: "s_ext service0 = ext0" by (simp add: service0_def)
  have ok: "env_ok service0 (env0 5)" "Decision_IsValid (e_Decision ?ev)"
    by (simp_all add: env0_ok bare_result_def)
  have same: "vrequest0\<lparr>v_Amount := 5\<rparr> = vrequest0" by (simp add: vrequest0_def)
  have bodies: "NormalizeAndValidate ext0 default_window vrequest0 10 = Inr vrequest0"
    "NormalizeAndValidate ext0 default_window (vrequest0\<lparr>v_Amount := 1000\<rparr>) 10 = Inr (vrequest0\<lparr>v_Amount := 1000\<rparr>)"
    using vrequest0_body [of 5] vrequest0_body [of 1000] by (simp_all add: same)
  obtain db1 a where first: "Validate_handler service0 (env0 5) default_window validationErrorMappings 10
      (\<lambda>_. Inr (Some ?ev)) (checker ext0 ids0 20 20) id 300 (Inr vrequest0) (tracer0 [daily_limit 1 10]) = (db1, a)"
    by (metis surj_pair)
  have len: "300 \<le> maxPayloadSize" "301 \<le> maxPayloadSize" by (simp_all add: maxPayloadSize_def)
  have nf: "no_faults (db1\<lparr>db_faults := []\<rparr>)" "db_validations (db1\<lparr>db_faults := []\<rparr>) = db_validations db1 @ []"
    "n_ctx (env0 9) = None" "n_persistNow (env0 5) = 12"
    by (simp_all add: no_faults_def env0_def)
  show ?thesis
    using repeated_request_over_http [where S = service0 and order = validationErrorMappings, unfolded s,
        OF ok(1) tracer0_hyps(1-4) len(1) bodies(1) tracer0_hyps(5) refl ok(2) first nf(2,1,3) len(2) bodies(2),
        where ?order2.0 = "[]" and ?exec2.0 = "\<lambda>_. Inl ErrInvalidDecision" and ?check2.0 = "checker ext0 ids0 30 30"
          and others = id] first nf(4) by (fastforce simp: vrequest0_def)
qed

text \<open>C37. An amount that \<^verbatim>\<open>validateAmountForCEL\<close> refuses (its magnitude is above two to the 53, or it is
  infinite or not a number as floating point) is the client's error as soon as a cached rule applies to the
  request: the answer is 400 with the code of that error, through adapter, evaluator, query, service and
  handler, whatever the rules say, and no table changes. The request is valid and new, the cache is ready and
  its programs usable, the context is live, no rule is cut off by \<^verbatim>\<open>MaxRulesPerRequest\<close>, and the driver
  does not fail. (Amounts up to the bound that floating point does not hold exactly are not refused.)\<close>

theorem amount_beyond_precision:
  fixes db :: "('d::linordered_ab_group_add, 'p, 'x) tracer_db_scheme" and X :: ext and D L costLimit start at
  assumes "no_faults db" "fresh_request S N (v_RequestID req) db" "n_ctx N = None" "len \<le> maxPayloadSize"
    and body: "NormalizeAndValidate (s_ext S) W request vnow = Inr req"
    and cache: "rc_ready c" "enumerates order c" "live_context ctx"
      "MaxRulesPerRequest cfg \<le> 0 \<or> int (length order) \<le> MaxRulesPerRequest cfg"
      "\<forall>r \<in> served c. ready_rule usable_program r"
    and amount: "validateAmountForCEL D (v_Amount req) \<noteq> None" "\<exists>r \<in> served c. rule_applies r req"
  shows "\<exists>db'. Validate_handler S N W errors vnow (evaluator (adapter_ops X D L costLimit start at) cfg ctx
        (CacheAdapter_GetActiveRules order c)) check id len (Inr request) db = (db', precision_refused)
    \<and> tables_kept db db'"
proof -
  obtain e where "evaluator (adapter_ops X D L costLimit start at) cfg ctx
      (CacheAdapter_GetActiveRules order c) req = Inl e" "precision_error e"
    using imprecise_evaluation [OF cache amount(1), where X = X and L = L and limit = costLimit and start = start
        and at = at] amount(2) by blast
  with imprecise_answer [OF assms(1-4) body] show ?thesis by blast
qed

definition engine_cache0 :: "string CompiledProgram RuleCache" where
  "engine_cache0 = \<lparr>rc_rules = (\<lambda>_. None)(1 \<mapsto> \<lparr>cr_Rule = Some cached_rule0, cr_Program = Some program0\<rparr>),
     rc_ready = True, rc_lastSyncTime = 5\<rparr>"

theorem amount_beyond_precision_witness:
  "\<exists>db'. Validate_handler service0 (env0 5) default_window validationErrorMappings 10
      (evaluator engine0 (config0 0) [] (CacheAdapter_GetActiveRules [1] engine_cache0))
      (checker ext0 ids0 20 20) id 300 (Inr (vrequest0\<lparr>v_Amount := 2 ^ 53 + 1\<rparr>)) (tracer0 [daily_limit 1 10])
      = (db', precision_refused)
    \<and> db_validations db' = []"
proof -
  let ?req = "vrequest0\<lparr>v_Amount := 2 ^ 53 + 1\<rparr>"
  have served: "served engine_cache0 = {cached_rule0}"
    by (auto simp: served_def engine_cache0_def cached_rule0_def)
  have cache: "rc_ready engine_cache0" "enumerates [1] engine_cache0" "live_context []"
    "MaxRulesPerRequest (config0 0) \<le> 0 \<or> int (length [1 :: uuid]) \<le> MaxRulesPerRequest (config0 0)"
    "\<forall>r \<in> served engine_cache0. ready_rule usable_program r"
    by (simp_all add: served enumerates_def live_context_def config0_def ready_rule_def usable_program_def)
      (simp_all add: engine_cache0_def cached_rule0_def program0_def)
  have amount: "validateAmountForCEL decimal0 (v_Amount ?req) \<noteq> None"
    "\<exists>r \<in> served engine_cache0. rule_applies r ?req"
    by (simp_all add: served validateAmountForCEL_def decimal0_def rule_applies_def cached_rule0_def)
  have s: "s_ext service0 = ext0" "n_ctx (env0 5) = None" "300 \<le> maxPayloadSize"
    by (simp_all add: service0_def env0_def maxPayloadSize_def)
  have body: "NormalizeAndValidate (s_ext service0) default_window ?req 10 = Inr ?req"
    using vrequest0_body [of "2 ^ 53 + 1"] by (simp add: s)
  obtain db' where "Validate_handler service0 (env0 5) default_window validationErrorMappings 10
      (evaluator engine0 (config0 0) [] (CacheAdapter_GetActiveRules [1] engine_cache0))
      (checker ext0 ids0 20 20) id 300 (Inr ?req) (tracer0 [daily_limit 1 10]) = (db', precision_refused)"
    "tables_kept (tracer0 [daily_limit 1 10]) db'"
    using amount_beyond_precision [OF tracer0_hyps(1,5) s(2,3) body cache amount, where X = ext0 and L = lib0
        and costLimit = 10000 and start = 0 and at = 0, folded engine0_def] by blast
  then show ?thesis by (auto simp: tables_kept_def tracer0_def)
qed

end
