(* ===== verification/Startup.thy ===== *)
theory Startup
  imports CelAdapter RuleSync UsageCounters TimesOfDay
begin

text \<open>
  From the environment to a running service: the settings and their bounds
  (\<^verbatim>\<open>internal/bootstrap/config.go\<close>), the constructors of the workers, the clean-up worker
  (\<^verbatim>\<open>internal/services/workers/usage_cleanup_worker.go\<close>) and the start of the service up to the workers.
  Of the package \<^verbatim>\<open>strconv\<close> the two parsers in base 10 are written out; the number of the error is left out
  of its text. A logger, a repository or another dependency is only ever compared with nil here, so it is a
  truth value. What libraries do at the start (the logger, telemetry, migrations and connection, the
  environment of the expression language) is in the record \<open>startup_env\<close>, as the error it ends in, if any;
  the constructors of queries and services, which only compare dependencies with nil, are left out.
\<close>

subsection \<open>Numbers\<close>

definition ErrSyntax :: err where "ErrSyntax = External ''invalid syntax''"
definition ErrRange :: err where "ErrRange = External ''value out of range''"

fun parse_digits :: "nat \<Rightarrow> string \<Rightarrow> (err, nat) result" where
  "parse_digits n [] = Inr n"
| "parse_digits n (c # cs) =
     (if \<not> is_digit c then Inl ErrSyntax
      else let n' = 10 * n + (of_char c - 48)
           in if 2 ^ 64 \<le> n' then Inl ErrRange else parse_digits n' cs)"

definition strconv_ParseUint :: "string \<Rightarrow> (err, 64 word) result" where
  "strconv_ParseUint s =
     (if s = [] then Inl ErrSyntax
      else case parse_digits 0 s of Inl e \<Rightarrow> Inl e | Inr n \<Rightarrow> Inr (of_nat n))"

definition strconv_Atoi :: "string \<Rightarrow> (err, int) result" where
  "strconv_Atoi s =
     (let (neg, digits) = (case s of
            [] \<Rightarrow> (False, [])
          | c # cs \<Rightarrow> if c = CHR ''-'' then (True, cs) else if c = CHR ''+'' then (False, cs) else (False, s))
      in if digits = [] then Inl ErrSyntax
         else case parse_digits 0 digits of
           Inl e \<Rightarrow> Inl e
         | Inr n \<Rightarrow>
             if (if neg then 2 ^ 63 < n else 2 ^ 63 \<le> n) then Inl ErrRange
             else Inr (if neg then - int n else int n))"

subsection \<open>Settings\<close>

record Config =
  APIKey :: string
  APIKeyEnabled :: bool
  APIKeyOnlyValidation :: bool
  PluginAuthAddress :: string
  PluginAuthEnabled :: bool
  CORSAllowedOrigins :: string
  CELCostLimit :: string
  cfg_DefaultDecisionWhenNoMatch :: string
  cfg_MaxRulesPerRequest :: string
  CleanupWorkerEnabled :: bool
  CleanupIntervalHours :: string
  RuleSyncPollIntervalSeconds :: string
  RuleSyncStalenessThresholdSeconds :: string
  RuleSyncOverlapBufferSeconds :: string

definition parseCELCostLimit :: "string \<Rightarrow> (err, 64 word) result" where
  "parseCELCostLimit s =
     (if s = [] then Inr 10000
      else case strconv_ParseUint s of
        Inl e \<Rightarrow> Inl (Wrap ''invalid CEL_COST_LIMIT value'' e)
      | Inr v \<Rightarrow> if v = 0 then Inl (External ''CEL_COST_LIMIT must be positive, got 0'') else Inr v)"

definition parseDefaultDecision :: "string \<Rightarrow> (err, Decision) result" where
  "parseDefaultDecision s =
     (if s = [] \<or> s = ''ALLOW'' then Inr DecisionAllow
      else if s = ''DENY'' then Inr DecisionDeny
      else Inl (External ''invalid DEFAULT_DECISION_WHEN_NO_MATCH value: must be ALLOW or DENY''))"

text \<open>The parsers of the other settings read alike: a default for the empty text, a least value, a greatest.\<close>

definition bounded_setting ::
  "string \<Rightarrow> int \<Rightarrow> int \<Rightarrow> int \<Rightarrow> string \<Rightarrow> (err, int) result" where
  "bounded_setting name defaultValue least maxAllowed s =
     (if s = [] then Inr defaultValue
      else case strconv_Atoi s of
        Inl e \<Rightarrow> Inl (Wrap (''invalid '' @ name @ '' value'') e)
      | Inr v \<Rightarrow>
          if v < least
          then Inl (External (name @ (if least = 0 then '' must be non-negative'' else '' must be positive'')))
          else if v > maxAllowed then Inl (External (name @ '' exceeds maximum allowed''))
          else Inr v)"

definition in_units :: "int \<Rightarrow> (err, int) result \<Rightarrow> (err, int) result" where
  "in_units unit r = (case r of Inl e \<Rightarrow> Inl e | Inr v \<Rightarrow> Inr (v * unit))"

definition parseMaxRulesPerRequest :: "string \<Rightarrow> (err, int) result" where
  "parseMaxRulesPerRequest = bounded_setting ''MAX_RULES_PER_REQUEST'' 1000 1 100000"

definition parseCleanupIntervalHours :: "string \<Rightarrow> (err, int) result" where
  "parseCleanupIntervalHours s = in_units Hour_ns (bounded_setting ''CLEANUP_INTERVAL_HOURS'' 24 1 8760 s)"

definition parseRuleSyncPollInterval :: "string \<Rightarrow> (err, int) result" where
  "parseRuleSyncPollInterval s =
     in_units Second_ns (bounded_setting ''RULE_SYNC_POLL_INTERVAL_SECONDS'' 10 1 3600 s)"

definition parseRuleSyncStalenessThreshold :: "string \<Rightarrow> (err, int) result" where
  "parseRuleSyncStalenessThreshold s =
     in_units Second_ns (bounded_setting ''RULE_SYNC_STALENESS_THRESHOLD_SECONDS'' 50 1 3600 s)"

definition parseRuleSyncOverlapBuffer :: "string \<Rightarrow> (err, int) result" where
  "parseRuleSyncOverlapBuffer s =
     in_units Second_ns (bounded_setting ''RULE_SYNC_OVERLAP_BUFFER_SECONDS'' 2 0 60 s)"

record UsageCleanupWorkerConfig =
  CleanupInterval :: int

definition DefaultUsageCleanupWorkerConfig :: UsageCleanupWorkerConfig where
  "DefaultUsageCleanupWorkerConfig = \<lparr>CleanupInterval = 24 * Hour_ns\<rparr>"

definition LoadCleanupWorkerConfig ::
  "Config option \<Rightarrow> bool \<Rightarrow> (err, UsageCleanupWorkerConfig option) result" where
  "LoadCleanupWorkerConfig cfg has_logger =
     (case cfg of None \<Rightarrow> Inl (External ''config cannot be nil'')
      | Some c \<Rightarrow>
          if \<not> has_logger then Inl (External ''logger cannot be nil'')
          else if \<not> CleanupWorkerEnabled c then Inr None
          else case parseCleanupIntervalHours (CleanupIntervalHours c) of
            Inl e \<Rightarrow> Inl (Wrap ''invalid CLEANUP_INTERVAL_HOURS'' e)
          | Inr cleanupInterval \<Rightarrow> Inr (Some \<lparr>CleanupInterval = cleanupInterval\<rparr>))"

definition LoadRuleSyncWorkerConfig :: "Config option \<Rightarrow> bool \<Rightarrow> (err, RuleSyncWorkerConfig) result" where
  "LoadRuleSyncWorkerConfig cfg has_logger =
     (case cfg of None \<Rightarrow> Inl (External ''config cannot be nil'')
      | Some c \<Rightarrow>
          if \<not> has_logger then Inl (External ''logger cannot be nil'')
          else case parseRuleSyncPollInterval (RuleSyncPollIntervalSeconds c) of
            Inl e \<Rightarrow> Inl (Wrap ''invalid RULE_SYNC_POLL_INTERVAL_SECONDS'' e)
          | Inr pollInterval \<Rightarrow>
         (case parseRuleSyncStalenessThreshold (RuleSyncStalenessThresholdSeconds c) of
            Inl e \<Rightarrow> Inl (Wrap ''invalid RULE_SYNC_STALENESS_THRESHOLD_SECONDS'' e)
          | Inr stalenessThreshold \<Rightarrow>
         (case parseRuleSyncOverlapBuffer (RuleSyncOverlapBufferSeconds c) of
            Inl e \<Rightarrow> Inl (Wrap ''invalid RULE_SYNC_OVERLAP_BUFFER_SECONDS'' e)
          | Inr overlapBuffer \<Rightarrow>
              if stalenessThreshold < pollInterval
              then Inl (External ''invalid configuration: RULE_SYNC_STALENESS_THRESHOLD_SECONDS must be >= RULE_SYNC_POLL_INTERVAL_SECONDS'')
              else Inr \<lparr>PollInterval = pollInterval, StalenessThreshold = stalenessThreshold,
                        OverlapBuffer = overlapBuffer\<rparr>)))"

definition LoadEvaluationConfig :: "Config option \<Rightarrow> bool \<Rightarrow> (err, EvaluationConfig) result" where
  "LoadEvaluationConfig cfg has_logger =
     (case cfg of None \<Rightarrow> Inl (External ''config cannot be nil'')
      | Some c \<Rightarrow>
          if \<not> has_logger then Inl (External ''logger cannot be nil'')
          else case parseDefaultDecision (cfg_DefaultDecisionWhenNoMatch c) of
            Inl e \<Rightarrow> Inl (Wrap ''invalid DEFAULT_DECISION_WHEN_NO_MATCH'' e)
          | Inr defaultDecision \<Rightarrow>
         (case parseMaxRulesPerRequest (cfg_MaxRulesPerRequest c) of
            Inl e \<Rightarrow> Inl (Wrap ''invalid MAX_RULES_PER_REQUEST'' e)
          | Inr maxRules \<Rightarrow>
              Inr \<lparr>DefaultDecisionWhenNoMatch = defaultDecision, MaxRulesPerRequest = maxRules\<rparr>))"

definition ValidateAuthConfig :: "Config \<Rightarrow> err option" where
  "ValidateAuthConfig cfg =
     (if \<not> APIKeyEnabled cfg then None
      else if APIKey cfg = [] then Some (External ''API_KEY must be set when API_KEY_ENABLED=true'')
      else None)"

definition ValidateAccessManagerConfig :: "Config \<Rightarrow> err option" where
  "ValidateAccessManagerConfig cfg =
     (if \<not> PluginAuthEnabled cfg then None
      else if PluginAuthAddress cfg = []
      then Some (External ''PLUGIN_AUTH_ADDRESS must be set when PLUGIN_AUTH_ENABLED=true'')
      else None)"

subsection \<open>The workers\<close>

definition ErrNilLogger :: err where "ErrNilLogger = Sentinel ''logger cannot be nil''"
definition ErrNilRepository :: err where "ErrNilRepository = Sentinel ''repository cannot be nil''"
definition ErrInvalidCleanupInterval :: err where
  "ErrInvalidCleanupInterval = Sentinel ''cleanup interval must be positive''"
definition ErrNilRuleCache :: err where "ErrNilRuleCache = Sentinel ''rule cache cannot be nil''"
definition ErrNilExpressionCompiler :: err where
  "ErrNilExpressionCompiler = Sentinel ''expression compiler cannot be nil''"
definition ErrInvalidPollInterval :: err where
  "ErrInvalidPollInterval = Sentinel ''poll interval must be positive''"
definition ErrInvalidStalenessThreshold :: err where
  "ErrInvalidStalenessThreshold = Sentinel ''staleness threshold must be positive''"
definition ErrInvalidOverlapBuffer :: err where
  "ErrInvalidOverlapBuffer = Sentinel ''overlap buffer must be non-negative''"
definition ErrNilCircuitBreaker :: err where
  "ErrNilCircuitBreaker = Sentinel ''circuit breaker cannot be nil''"

definition NewUsageCleanupWorker ::
  "bool \<Rightarrow> UsageCleanupWorkerConfig \<Rightarrow> bool \<Rightarrow> (err, UsageCleanupWorkerConfig) result" where
  "NewUsageCleanupWorker has_repo config has_logger =
     (if \<not> has_repo then Inl ErrNilRepository
      else if \<not> has_logger then Inl ErrNilLogger
      else if CleanupInterval config \<le> 0 then Inl ErrInvalidCleanupInterval
      else Inr config)"

definition NewRuleSyncWorker ::
  "bool \<Rightarrow> bool \<Rightarrow> bool \<Rightarrow> RuleSyncWorkerConfig \<Rightarrow> bool \<Rightarrow> bool \<Rightarrow> (err, RuleSyncWorkerConfig) result" where
  "NewRuleSyncWorker has_cache has_repo has_compiler config has_logger has_breaker =
     (if \<not> has_cache then Inl ErrNilRuleCache
      else if \<not> has_repo then Inl ErrNilRepository
      else if \<not> has_compiler then Inl ErrNilExpressionCompiler
      else if \<not> has_logger then Inl ErrNilLogger
      else if PollInterval config \<le> 0 then Inl ErrInvalidPollInterval
      else if StalenessThreshold config \<le> 0 then Inl ErrInvalidStalenessThreshold
      else if OverlapBuffer config < 0 then Inl ErrInvalidOverlapBuffer
      else if \<not> has_breaker then Inl ErrNilCircuitBreaker
      else Inr config)"

definition DefaultDeleteBatchSize :: nat where "DefaultDeleteBatchSize = 1000"

definition RunOnce ::
  "(nat \<Rightarrow> err option) \<Rightarrow> gotime \<Rightarrow> ('d, 'x) counter_db_scheme
   \<Rightarrow> ('d, 'x) counter_db_scheme \<times> (err, nat) result" where
  "RunOnce ctx now db =
     (case DeleteExpiredCounters ctx DefaultDeleteBatchSize now db of
        (db', deleted, Some e) \<Rightarrow> (db', Inl (Wrap ''failed to delete expired counters'' e))
      | (db', deleted, None) \<Rightarrow> (db', Inr deleted))"

text \<open>A cycle logs its error and goes on. The loop makes one cycle at once, unless the context is done
  (\<open>stopped\<close>), and one at each tick until it is done; \<open>ticks\<close> are the context and clock of those cycles.\<close>

definition runCleanupCycle ::
  "(nat \<Rightarrow> err option) \<times> gotime \<Rightarrow> ('d, 'x) counter_db_scheme \<Rightarrow> ('d, 'x) counter_db_scheme" where
  "runCleanupCycle tick db = fst (RunOnce (fst tick) (snd tick) db)"

definition cleanup_runLoop ::
  "bool \<Rightarrow> (nat \<Rightarrow> err option) \<times> gotime \<Rightarrow> ((nat \<Rightarrow> err option) \<times> gotime) list
   \<Rightarrow> ('d, 'x) counter_db_scheme \<Rightarrow> ('d, 'x) counter_db_scheme" where
  "cleanup_runLoop stopped first ticks db =
     (if stopped then db else fold runCleanupCycle ticks (runCleanupCycle first db))"

subsection \<open>Starting the service\<close>

definition initCELAdapter :: "Config \<Rightarrow> err option \<Rightarrow> (err, 64 word) result" where
  "initCELAdapter cfg env_error =
     (case parseCELCostLimit (CELCostLimit cfg) of
        Inl e \<Rightarrow> Inl (Wrap ''invalid CEL cost limit configuration'' e)
      | Inr celCostLimit \<Rightarrow>
     (case NewAdapter celCostLimit True env_error of
        Inl e \<Rightarrow> Inl (Wrap ''failed to create CEL adapter'' e)
      | Inr adapter \<Rightarrow> Inr adapter))"

definition initCleanupWorker :: "Config \<Rightarrow> (err, UsageCleanupWorkerConfig option) result" where
  "initCleanupWorker cfg =
     (case LoadCleanupWorkerConfig (Some cfg) True of
        Inl e \<Rightarrow> Inl (Wrap ''invalid cleanup worker configuration'' e)
      | Inr None \<Rightarrow> Inr None
      | Inr (Some config) \<Rightarrow>
     (case NewUsageCleanupWorker True config True of
        Inl e \<Rightarrow> Inl (Wrap ''failed to create cleanup worker'' e)
      | Inr worker \<Rightarrow> Inr (Some worker)))"

definition initSyncWorker :: "Config \<Rightarrow> (err, RuleSyncWorkerConfig) result" where
  "initSyncWorker cfg =
     (case LoadRuleSyncWorkerConfig (Some cfg) True of
        Inl e \<Rightarrow> Inl (Wrap ''invalid rule sync worker configuration'' e)
      | Inr config \<Rightarrow>
     (case NewRuleSyncWorker True True True config True True of
        Inl e \<Rightarrow> Inl (Wrap ''failed to create rule sync worker'' e)
      | Inr worker \<Rightarrow> Inr worker))"

text \<open>\<^term>\<open>None\<close> is the clock of the machine.\<close>

definition initClock :: "(string \<Rightarrow> (err, gotime) result) \<Rightarrow> string \<Rightarrow> gotime option" where
  "initClock parse mockTime =
     (if mockTime = [] then None
      else case parse mockTime of Inl e \<Rightarrow> None | Inr t \<Rightarrow> Some t)"

record startup_env =
  env_Logger :: "err option"
  env_Telemetry :: "err option"
  env_Migrations :: "err option"
  env_Connect :: "err option"
  env_CEL :: "err option"
  env_start :: gotime
  env_loaded :: gotime
  env_finish :: gotime
  env_ctx :: "err option list"

definition initCoreInfra :: "Config \<Rightarrow> startup_env \<Rightarrow> err option" where
  "initCoreInfra cfg env =
     (case env_Logger env of Some e \<Rightarrow> Some (Wrap ''failed to initialize logger'' e)
      | None \<Rightarrow>
     (case ValidateAuthConfig cfg of Some e \<Rightarrow> Some (Wrap ''invalid auth configuration'' e)
      | None \<Rightarrow>
     (case ValidateAccessManagerConfig cfg of Some e \<Rightarrow> Some (Wrap ''invalid access manager configuration'' e)
      | None \<Rightarrow>
     (case env_Telemetry env of Some e \<Rightarrow> Some (Wrap ''failed to initialize telemetry'' e)
      | None \<Rightarrow> None))))"

definition initPostgresConnection :: "startup_env \<Rightarrow> err option" where
  "initPostgresConnection env =
     (case env_Migrations env of Some e \<Rightarrow> Some (Wrap ''failed to run function migrations'' e)
      | None \<Rightarrow>
     (case env_Connect env of Some e \<Rightarrow> Some (Wrap ''failed to connect to PostgreSQL'' e)
      | None \<Rightarrow> None))"

record 'p Service =
  sv_CostLimit :: "64 word"
  sv_Cache :: "'p RuleCache"
  sv_Sync :: RuleSyncWorkerConfig
  sv_Evaluation :: EvaluationConfig
  sv_Cleanup :: "UsageCleanupWorkerConfig option"

definition InitServers ::
  "Config \<Rightarrow> startup_env \<Rightarrow> ('a, 'p, 'f) cel_library \<Rightarrow> ('d, 'p CompiledProgram, 'x) rule_db_scheme
   \<Rightarrow> ('d, 'p CompiledProgram, 'x) rule_db_scheme \<times> (err, 'p CompiledProgram Service) result" where
  "InitServers cfg env L db =
     (case initCoreInfra cfg env of Some e \<Rightarrow> (db, Inl e)
      | None \<Rightarrow>
     (case initPostgresConnection env of Some e \<Rightarrow> (db, Inl e)
      | None \<Rightarrow>
     (case initCELAdapter cfg (env_CEL env) of Inl e \<Rightarrow> (db, Inl e)
      | Inr costLimit \<Rightarrow>
     (let (db1, loaded) = GetAllActiveRules db;
          (ruleCache, _, failed) = WarmUp (env_start env) (env_loaded env) (env_finish env)
             (Adapter_Compile L costLimit (env_start env) (env_loaded env)) (env_ctx env)
             (case loaded of Inl e \<Rightarrow> Inl e | Inr rules \<Rightarrow> Inr (map Some rules)) NewRuleCache
      in (db1,
          case failed of Some e \<Rightarrow> Inl (Wrap ''failed to warm up rule cache'' e)
          | None \<Rightarrow>
         (case initSyncWorker cfg of Inl e \<Rightarrow> Inl e
          | Inr syncWorker \<Rightarrow>
         (case LoadEvaluationConfig (Some cfg) True of
            Inl e \<Rightarrow> Inl (Wrap ''invalid evaluation configuration'' e)
          | Inr evalConfig \<Rightarrow>
         (case initCleanupWorker cfg of Inl e \<Rightarrow> Inl e
          | Inr cleanupWorker \<Rightarrow>
              Inr \<lparr>sv_CostLimit = costLimit, sv_Cache = ruleCache, sv_Sync = syncWorker,
                   sv_Evaluation = evalConfig, sv_Cleanup = cleanupWorker\<rparr>))))))))"

end
