(* ===== verification/HttpAccess.thy ===== *)
theory HttpAccess
  imports HttpBase Startup
begin

text \<open>
  How a request reaches a handler: the middleware of \<^verbatim>\<open>internal/adapters/http/in/middleware\<close>, the table of
  routes of \<^verbatim>\<open>routes.go\<close> with the guard of each, and the readiness probe of \<^verbatim>\<open>health.go\<close>. A handler of the
  framework is a function of the request and of the state; a middleware takes the next handler. Which route
  the router picks is an argument, as is the library that authorizes a request by plugin: it lets it pass
  (\<^term>\<open>None\<close>) or answers itself. Of the middleware of \<^verbatim>\<open>NewRoutes\<close> telemetry, logging and CORS, which are
  libraries, are left out; \<^verbatim>\<open>ctx.Get\<close> reads a header. The locale \<open>middleware\<close> is their contract.
\<close>

record request =
  rq_Method :: string
  rq_Path :: string
  rq_Get :: "string \<Rightarrow> string"
  rq_IP :: string
  rq_ClientIP :: "string option"

type_synonym ('s, 'b) handler = "request \<Rightarrow> 's \<Rightarrow> 's \<times> 'b response"

definition Unauthorized :: "string \<Rightarrow> string \<Rightarrow> string \<Rightarrow> 'b response" where
  "Unauthorized code title message = ErrorReply 401 code title message"

definition GatewayTimeout :: "string \<Rightarrow> string \<Rightarrow> string \<Rightarrow> 'b response" where
  "GatewayTimeout code title message = ErrorReply 504 code title message"

definition ServiceUnavailable :: "string \<Rightarrow> string \<Rightarrow> string \<Rightarrow> 'b response" where
  "ServiceUnavailable code title message = ErrorReply 503 code title message"

subsection \<open>The key\<close>

definition HeaderAPIKey :: string where "HeaderAPIKey = ''X-API-Key''"
definition ReasonMissingAPIKey :: string where "ReasonMissingAPIKey = ''missing_api_key''"
definition ReasonInvalidAPIKey :: string where "ReasonInvalidAPIKey = ''invalid_api_key''"

record APIKeyConfig =
  key_Key :: string
  key_Enabled :: bool

definition validateAPIKey :: "string \<Rightarrow> string \<Rightarrow> string" where
  "validateAPIKey apiKey expectedKey =
     (if apiKey = [] then ReasonMissingAPIKey
      else if apiKey \<noteq> expectedKey then ReasonInvalidAPIKey
      else [])"

definition APIKeyAuth :: "APIKeyConfig \<Rightarrow> ('s, 'b) handler \<Rightarrow> ('s, 'b) handler" where
  "APIKeyAuth cfg nxt c s =
     (if \<not> key_Enabled cfg then nxt c s
      else if validateAPIKey (rq_Get c HeaderAPIKey) (key_Key cfg) \<noteq> []
      then (s, Unauthorized ''Unauthenticated'' ''Unauthorized'' ''API Key missing or invalid'')
      else nxt c s)"

subsection \<open>The guard\<close>

record AuthGuardConfig =
  guard_APIKey :: string
  guard_APIKeyEnabled :: bool
  guard_PluginAuthEnabled :: bool
  guard_AppName :: string

definition NewAuthGuard :: "AuthGuardConfig \<Rightarrow> bool \<Rightarrow> AuthGuardConfig option" where
  "NewAuthGuard cfg has_client =
     (if guard_PluginAuthEnabled cfg \<and> \<not> has_client then None else Some cfg)"

definition guard_key :: "AuthGuardConfig \<Rightarrow> APIKeyConfig" where
  "guard_key g = \<lparr>key_Key = guard_APIKey g, key_Enabled = guard_APIKeyEnabled g\<rparr>"

type_synonym 'b authorizer = "string \<Rightarrow> string \<Rightarrow> string \<Rightarrow> request \<Rightarrow> 'b response option"

definition authorized :: "'b authorizer \<Rightarrow> string \<Rightarrow> string \<Rightarrow> string \<Rightarrow> ('s, 'b) handler \<Rightarrow> ('s, 'b) handler" where
  "authorized Authorize app resource method nxt c s =
     (case Authorize app resource method c of None \<Rightarrow> nxt c s | Some r \<Rightarrow> (s, r))"

definition Protect ::
  "'b authorizer \<Rightarrow> AuthGuardConfig \<Rightarrow> string \<Rightarrow> string \<Rightarrow> ('s, 'b) handler \<Rightarrow> ('s, 'b) handler" where
  "Protect Authorize g resource method =
     (if guard_PluginAuthEnabled g then authorized Authorize (guard_AppName g) resource method
      else APIKeyAuth (guard_key g))"

definition AuthGuard_With ::
  "'b authorizer \<Rightarrow> AuthGuardConfig \<Rightarrow> string \<Rightarrow> string \<Rightarrow> bool \<Rightarrow> ('s, 'b) handler \<Rightarrow> ('s, 'b) handler" where
  "AuthGuard_With Authorize g resource method forceAPIKeyAuth =
     (if forceAPIKeyAuth then APIKeyAuth (guard_key g) else Protect Authorize g resource method)"

subsection \<open>The address of the client\<close>

definition isValidIP :: "audit_ext \<Rightarrow> string \<Rightarrow> bool" where
  "isValidIP A ip =
     (if ip = [] then False
      else a_is_ip A (case a_host_of A ip of None \<Rightarrow> ip | Some host \<Rightarrow> host))"

definition extractClientIP :: "audit_ext \<Rightarrow> request \<Rightarrow> string" where
  "extractClientIP A c =
     (let xff = rq_Get c ''X-Forwarded-For''; ip = TrimSpace (takeWhile (\<lambda>ch. ch \<noteq> CHR '','') xff);
          xri = rq_Get c ''X-Real-IP''
      in if xff \<noteq> [] \<and> isValidIP A ip then ip
         else if xri \<noteq> [] \<and> isValidIP A xri then xri
         else if isValidIP A (rq_IP c) then rq_IP c
         else ''0.0.0.0'')"

definition ClientIPMiddleware :: "audit_ext \<Rightarrow> ('s, 'b) handler \<Rightarrow> ('s, 'b) handler" where
  "ClientIPMiddleware A nxt c s = nxt (c\<lparr>rq_ClientIP := Some (extractClientIP A c)\<rparr>) s"

definition GetClientIP :: "request \<Rightarrow> string" where
  "GetClientIP c =
     (case rq_ClientIP c of None \<Rightarrow> ''0.0.0.0'' | Some ip \<Rightarrow> if ip \<noteq> [] then ip else ''0.0.0.0'')"

subsection \<open>Injected faults\<close>

text \<open>For tests alone; \<open>enabled\<close> is read from the environment. The pause before a timeout is left out.\<close>

definition FaultInjection :: "bool \<Rightarrow> ('s, 'b) handler \<Rightarrow> ('s, 'b) handler" where
  "FaultInjection enabled nxt c s =
     (let faultType = rq_Get c ''X-Test-Fault-Injection''
      in if \<not> enabled then nxt c s
         else if faultType = [] then nxt c s
         else if faultType = ''timeout'' then
           (if rq_Method c = ''GET'' \<and> rq_Path c = ''/v1/validations''
            then (s, GatewayTimeout ''TRC-0252'' ''Gateway Timeout'' ''query timeout exceeded'')
            else (s, GatewayTimeout ''TRC-0229'' ''Gateway Timeout'' ''validation timeout''))
         else if faultType = ''unavailable'' then
           (s, ServiceUnavailable ''TRC-0012'' ''Service Unavailable'' ''service temporarily unavailable'')
         else nxt c s)"

subsection \<open>The routes\<close>

datatype endpoint =
    ep_CreateRule | ep_ListRules | ep_GetRule | ep_UpdateRule | ep_DeleteRule | ep_ActivateRule
  | ep_DeactivateRule | ep_DraftRule
  | ep_CreateLimit | ep_ListLimits | ep_GetLimit | ep_GetLimitUsage | ep_UpdateLimit | ep_DeleteLimit
  | ep_ActivateLimit | ep_DeactivateLimit | ep_DraftLimit
  | ep_ListTransactionValidations | ep_GetTransactionValidation | ep_Validate
  | ep_ListAuditEvents | ep_GetAuditEvent | ep_VerifyHashChain

record route =
  rt_Method :: string
  rt_Path :: string
  rt_resource :: string
  rt_method :: string
  rt_forceAPIKeyAuth :: bool
  rt_endpoint :: endpoint

definition route :: "string \<Rightarrow> string \<Rightarrow> string \<Rightarrow> string \<Rightarrow> bool \<Rightarrow> endpoint \<Rightarrow> route" where
  "route meth path resource verb force e =
     \<lparr>rt_Method = meth, rt_Path = path, rt_resource = resource, rt_method = verb,
      rt_forceAPIKeyAuth = force, rt_endpoint = e\<rparr>"

definition v1_routes :: "bool \<Rightarrow> route list" where
  "v1_routes onlyValidation =
     [route ''POST'' ''/rules'' ''rules'' ''post'' False ep_CreateRule,
      route ''GET'' ''/rules'' ''rules'' ''get'' False ep_ListRules,
      route ''GET'' ''/rules/:id'' ''rules'' ''get'' False ep_GetRule,
      route ''PATCH'' ''/rules/:id'' ''rules'' ''patch'' False ep_UpdateRule,
      route ''DELETE'' ''/rules/:id'' ''rules'' ''delete'' False ep_DeleteRule,
      route ''POST'' ''/rules/:id/activate'' ''rules'' ''post'' False ep_ActivateRule,
      route ''POST'' ''/rules/:id/deactivate'' ''rules'' ''post'' False ep_DeactivateRule,
      route ''POST'' ''/rules/:id/draft'' ''rules'' ''post'' False ep_DraftRule,
      route ''POST'' ''/limits'' ''limits'' ''post'' False ep_CreateLimit,
      route ''GET'' ''/limits'' ''limits'' ''get'' False ep_ListLimits,
      route ''GET'' ''/limits/:id'' ''limits'' ''get'' False ep_GetLimit,
      route ''GET'' ''/limits/:id/usage'' ''limits'' ''get'' False ep_GetLimitUsage,
      route ''PATCH'' ''/limits/:id'' ''limits'' ''patch'' False ep_UpdateLimit,
      route ''DELETE'' ''/limits/:id'' ''limits'' ''delete'' False ep_DeleteLimit,
      route ''POST'' ''/limits/:id/activate'' ''limits'' ''post'' False ep_ActivateLimit,
      route ''POST'' ''/limits/:id/deactivate'' ''limits'' ''post'' False ep_DeactivateLimit,
      route ''POST'' ''/limits/:id/draft'' ''limits'' ''post'' False ep_DraftLimit,
      route ''GET'' ''/validations'' ''validations'' ''get'' False ep_ListTransactionValidations,
      route ''GET'' ''/validations/:id'' ''validations'' ''get'' False ep_GetTransactionValidation,
      route ''POST'' ''/validations'' ''validations'' ''post'' onlyValidation ep_Validate,
      route ''GET'' ''/audit-events'' ''audit-events'' ''get'' False ep_ListAuditEvents,
      route ''GET'' ''/audit-events/:id'' ''audit-events'' ''get'' False ep_GetAuditEvent,
      route ''GET'' ''/audit-events/:id/verify'' ''audit-events'' ''get'' False ep_VerifyHashChain]"

definition getCORSAllowedOrigins :: "string \<Rightarrow> string" where
  "getCORSAllowedOrigins configured = (if configured = [] then [] else configured)"

text \<open>The guard that the start of the service (\<^verbatim>\<open>initHTTPServer\<close>) makes of the settings.\<close>

definition config_guard :: "Config \<Rightarrow> AuthGuardConfig option" where
  "config_guard cfg = NewAuthGuard \<lparr>guard_APIKey = APIKey cfg, guard_APIKeyEnabled = APIKeyEnabled cfg,
     guard_PluginAuthEnabled = PluginAuthEnabled cfg, guard_AppName = ''tracer''\<rparr> True"

text \<open>A request that the router hands to the route \<open>r\<close>.\<close>

definition serve_route ::
  "audit_ext \<Rightarrow> bool \<Rightarrow> 'b authorizer \<Rightarrow> AuthGuardConfig \<Rightarrow> (endpoint \<Rightarrow> ('s, 'b) handler) \<Rightarrow> route
   \<Rightarrow> ('s, 'b) handler" where
  "serve_route A faults Authorize g handlers r =
     ClientIPMiddleware A (FaultInjection faults
       (AuthGuard_With Authorize g (rt_resource r) (rt_method r) (rt_forceAPIKeyAuth r)
         (handlers (rt_endpoint r))))"

subsection \<open>Readiness\<close>

record HealthCheck =
  hk_Component :: string
  hk_Status :: string
  hk_Message :: string

record ReadinessResponse =
  rr_Status :: string
  rr_Checks :: "HealthCheck list"

text \<open>The database as the probe sees it: whether it has a provider and is connected, whether a connection
  can be taken, whether it answers.\<close>

record db_health =
  dbh_IsConnected :: bool
  dbh_GetDB_ok :: bool
  dbh_Ping_ok :: bool

definition checkPostgres :: "db_health option \<Rightarrow> HealthCheck" where
  "checkPostgres provider =
     (let failed = (\<lambda>m. \<lparr>hk_Component = ''database'', hk_Status = ''FAILED'', hk_Message = m\<rparr>)
      in case provider of
           None \<Rightarrow> failed ''connection not established''
         | Some p \<Rightarrow>
             if \<not> dbh_IsConnected p then failed ''connection not established''
             else if \<not> dbh_GetDB_ok p then failed ''connection failed''
             else if \<not> dbh_Ping_ok p then failed ''ping failed''
             else \<lparr>hk_Component = ''database'', hk_Status = ''OK'', hk_Message = []\<rparr>)"

definition DefaultCacheStalenessThreshold :: int where
  "DefaultCacheStalenessThreshold = 5 * Minute_ns"

definition checkRuleCache :: "int \<Rightarrow> gotime \<Rightarrow> 'p RuleCache option \<Rightarrow> HealthCheck" where
  "checkRuleCache threshold now cacheHealth =
     (let check = (\<lambda>st m. \<lparr>hk_Component = ''rule_cache'', hk_Status = st, hk_Message = m\<rparr>)
      in case cacheHealth of
           None \<Rightarrow> check ''OK'' ''cache not configured''
         | Some c \<Rightarrow>
             if \<not> rc_ready c then check ''FAILED'' ''cache not ready''
             else if Staleness now c > threshold then check ''FAILED'' ''cache data stale''
             else check ''OK'' [])"

definition ReadinessHandler ::
  "db_health option \<Rightarrow> int \<Rightarrow> gotime \<Rightarrow> 'p RuleCache option \<Rightarrow> ReadinessResponse response" where
  "ReadinessHandler provider threshold now cacheHealth =
     (let dbStatus = checkPostgres provider;
          allOK = (hk_Status dbStatus = ''OK'');
          cacheCheck = checkRuleCache threshold now cacheHealth;
          checks = [dbStatus, cacheCheck]
      in if \<not> allOK then Reply 503 \<lparr>rr_Status = ''NOT_READY'', rr_Checks = checks\<rparr>
         else if hk_Status cacheCheck = ''FAILED'' then OK \<lparr>rr_Status = ''DEGRADED'', rr_Checks = checks\<rparr>
         else OK \<lparr>rr_Status = ''READY'', rr_Checks = checks\<rparr>)"

subsection \<open>The contract of a middleware\<close>

text \<open>A middleware either passes the request on, perhaps changed, or answers it and leaves the state alone.\<close>

locale middleware =
  fixes m :: "('s, 'b) handler \<Rightarrow> ('s, 'b) handler"
    and passed :: "request \<Rightarrow> request option"
    and refusal :: "request \<Rightarrow> 'b response"
  assumes passes_on: "passed c = Some c' \<Longrightarrow> m nxt c s = nxt c' s"
    and refuses: "passed c = None \<Longrightarrow> m nxt c s = (s, refusal c)"
begin

lemma outcome: "m nxt c s = (case passed c of None \<Rightarrow> (s, refusal c) | Some c' \<Rightarrow> nxt c' s)"
  by (cases "passed c") (simp_all add: passes_on refuses)

end

locale middlewares = outer: middleware m passed refusal + inner: middleware m' passed' refusal'
  for m m' :: "('s, 'b) handler \<Rightarrow> ('s, 'b) handler" and passed refusal passed' refusal'

sublocale middlewares \<subseteq> chain: middleware "\<lambda>nxt. m (m' nxt)" "\<lambda>c. Option.bind (passed c) passed'"
  "\<lambda>c. case passed c of None \<Rightarrow> refusal c | Some c' \<Rightarrow> refusal' c'"
  by unfold_locales (auto simp: outer.outcome inner.outcome split: option.splits Option.bind_splits)

definition with_client_ip :: "audit_ext \<Rightarrow> request \<Rightarrow> request" where
  "with_client_ip A c = c\<lparr>rq_ClientIP := Some (extractClientIP A c)\<rparr>"

definition key_refused :: "'b response" where
  "key_refused = Unauthorized ''Unauthenticated'' ''Unauthorized'' ''API Key missing or invalid''"

definition key_accepted :: "AuthGuardConfig \<Rightarrow> request \<Rightarrow> bool" where
  "key_accepted g c =
     (guard_APIKeyEnabled g \<longrightarrow> rq_Get c HeaderAPIKey \<noteq> [] \<and> rq_Get c HeaderAPIKey = guard_APIKey g)"

definition guard_refusal :: "'b authorizer \<Rightarrow> AuthGuardConfig \<Rightarrow> route \<Rightarrow> request \<Rightarrow> 'b response option" where
  "guard_refusal Authorize g r c =
     (if guard_PluginAuthEnabled g \<and> \<not> rt_forceAPIKeyAuth r
      then Authorize (guard_AppName g) (rt_resource r) (rt_method r) c
      else if key_accepted g c then None else Some key_refused)"

interpretation client_ip: middleware "ClientIPMiddleware A" "\<lambda>c. Some (with_client_ip A c)" "\<lambda>c. Panicked" for A
  by unfold_locales (simp_all add: ClientIPMiddleware_def with_client_ip_def)

interpretation guard: middleware
  "AuthGuard_With Authorize g (rt_resource r) (rt_method r) (rt_forceAPIKeyAuth r)"
  "\<lambda>c. if guard_refusal Authorize g r c = None then Some c else None" "\<lambda>c. the (guard_refusal Authorize g r c)"
  for Authorize g r
  by unfold_locales
    (auto simp: AuthGuard_With_def Protect_def APIKeyAuth_def authorized_def guard_refusal_def key_accepted_def
       guard_key_def validateAPIKey_def ReasonMissingAPIKey_def ReasonInvalidAPIKey_def key_refused_def
       split: if_splits option.splits)

interpretation faults: middleware "FaultInjection enabled"
  "\<lambda>c. if enabled \<and> rq_Get c ''X-Test-Fault-Injection'' \<in> {''timeout'', ''unavailable''} then None else Some c"
  "\<lambda>c. snd (FaultInjection enabled (\<lambda>c s. (s, Panicked)) c ())" for enabled
  by unfold_locales (auto simp: FaultInjection_def Let_def split: if_splits)

interpretation checked: middlewares "FaultInjection enabled"
  "AuthGuard_With Authorize g (rt_resource r) (rt_method r) (rt_forceAPIKeyAuth r)"
  "\<lambda>c. if enabled \<and> rq_Get c ''X-Test-Fault-Injection'' \<in> {''timeout'', ''unavailable''} then None else Some c"
  "\<lambda>c. snd (FaultInjection enabled (\<lambda>c s. (s, Panicked)) c ())"
  "\<lambda>c. if guard_refusal Authorize g r c = None then Some c else None" "\<lambda>c. the (guard_refusal Authorize g r c)"
  for enabled Authorize g r
  by unfold_locales

text \<open>What a route answers when no faults are injected.\<close>

lemma serve_route_outcome:
  "serve_route A False Authorize g handlers r c s =
     (case guard_refusal Authorize g r (with_client_ip A c) of
        Some a \<Rightarrow> (s, a)
      | None \<Rightarrow> handlers (rt_endpoint r) (with_client_ip A c) s)"
  using checked.chain.outcome [of False Authorize g r "handlers (rt_endpoint r)" "with_client_ip A c" s]
  by (auto simp: serve_route_def client_ip.outcome split: option.splits)

lemma forced_route: "r \<in> set (v1_routes only) \<Longrightarrow> rt_forceAPIKeyAuth r \<longleftrightarrow> only \<and> rt_endpoint r = ep_Validate"
  by (auto simp: v1_routes_def route_def)

text \<open>The address in the audit trail is always one that parses.\<close>

lemma audited_address:
  assumes "a_is_ip A ''0.0.0.0''" "a_host_of A ''0.0.0.0'' = None"
  shows "a_is_ip A (normalizeIP A (GetClientIP (with_client_ip A c)))"
  using assms by (auto simp: GetClientIP_def with_client_ip_def normalizeIP_def Let_def split: option.splits)

subsection \<open>The probe\<close>

lemma readiness_iff:
  "status_of (ReadinessHandler provider threshold now (Some c)) =
     (if hk_Status (checkPostgres provider) = ''OK'' then 200 else 503)"
  "hk_Status (checkPostgres provider) = ''OK'' \<Longrightarrow>
     ReadinessHandler provider threshold now (Some c) = OK
       \<lparr>rr_Status = (if rc_ready c \<and> Staleness now c \<le> threshold then ''READY'' else ''DEGRADED''),
        rr_Checks = [checkPostgres provider, checkRuleCache threshold now (Some c)]\<rparr>"
  by (auto simp: ReadinessHandler_def checkRuleCache_def Let_def OK_def)

end
