(* ===== verification/StartupFacts.thy ===== *)
theory StartupFacts
  imports Startup RuleSyncFacts
begin

text \<open>
  Facts on the start: numbers print and parse back, what loads is within its bounds, so the constructors of
  the workers accept it; the clean-up worker removes the expired counters and no other; a service that starts
  is in the first state of the synchronization, with every active rule compiled in its cache.
\<close>

subsection \<open>Numbers\<close>

lemma digits_val_mono: "acc \<le> digits_val acc s"
proof (induction s arbitrary: acc)
  case (Cons c s)
  have "acc \<le> 10 * acc + (of_char c - 48)" by simp
  also have "\<dots> \<le> digits_val (10 * acc + (of_char c - 48)) s" by (rule Cons)
  finally show ?case by simp
qed simp

lemma parse_digits_value:
  "\<forall>c \<in> set s. is_digit c \<Longrightarrow> digits_val n s < 2 ^ 64 \<Longrightarrow> parse_digits n s = Inr (digits_val n s)"
proof (induction s arbitrary: n)
  case (Cons c s)
  have "10 * n + (of_char c - 48) < 2 ^ 64"
    using Cons.prems(2) digits_val_mono [of "10 * n + (of_char c - 48)" s] by simp
  with Cons show ?case by (simp add: Let_def)
qed simp

lemma nat_digits_is_digit: "c \<in> set (nat_digits n) \<Longrightarrow> is_digit c"
  using nat_digits_chars is_digit_digit by blast

lemma parse_digits_show: "n < 2 ^ 64 \<Longrightarrow> parse_digits 0 (nat_digits n) = Inr n"
  using parse_digits_value [of "nat_digits n" 0] nat_digits_is_digit by simp

lemma parse_digits_bound: "parse_digits n s = Inr k \<Longrightarrow> n < 2 ^ 64 \<Longrightarrow> k < 2 ^ 64"
  by (induction n s rule: parse_digits.induct) (auto simp: Let_def split: if_splits)

lemma digits_not_signed: "nat_digits n = c # cs \<Longrightarrow> c \<noteq> CHR ''-'' \<and> c \<noteq> CHR ''+''"
  using nat_digits_is_digit [of c n] by (auto simp: is_digit_def)

lemma Atoi_show_int:
  assumes "- (2 ^ 63) \<le> i" "i < 2 ^ 63"
  shows "strconv_Atoi (show_int i) = Inr i"
proof (cases "i < 0")
  case True
  then have n: "nat (- i) \<le> 2 ^ 63" using assms nat_le_iff by force
  then show ?thesis
    using True parse_digits_show [of "nat (- i)"] by (simp add: show_int_def strconv_Atoi_def)
next
  case False
  then have "nat i < 2 ^ 63" using assms by (simp add: nat_less_iff)
  moreover obtain c cs where "nat_digits (nat i) = c # cs" by (cases "nat_digits (nat i)") auto
  ultimately show ?thesis
    using False parse_digits_show [of "nat i"] digits_not_signed [of "nat i" c cs]
    by (auto simp: show_int_def strconv_Atoi_def)
qed

lemma Atoi_int64: "strconv_Atoi s = Inr i \<Longrightarrow> - (2 ^ 63) \<le> i \<and> i < 2 ^ 63"
  by (auto simp: strconv_Atoi_def split: prod.splits sum.splits if_splits)

subsection \<open>Settings\<close>

lemma bounded_setting_Inr:
  "bounded_setting name d least most s = Inr v \<Longrightarrow> least \<le> d \<Longrightarrow> d \<le> most \<Longrightarrow> least \<le> v \<and> v \<le> most"
  by (auto simp: bounded_setting_def split: if_splits sum.splits)

lemma show_int_not_empty: "show_int i \<noteq> []"
  by (simp add: show_int_def)

lemma bounded_setting_show:
  "least \<le> v \<Longrightarrow> v \<le> most \<Longrightarrow> 0 \<le> least \<Longrightarrow> most < 2 ^ 63 \<Longrightarrow> bounded_setting name d least most (show_int v) = Inr v"
  by (simp add: bounded_setting_def show_int_not_empty Atoi_show_int)

lemma setting_in_units:
  assumes "in_units unit (bounded_setting name d least most s) = Inr v" "least \<le> d" "d \<le> most" "0 < unit"
  shows "least * unit \<le> v \<and> v \<le> most * unit"
  using assms bounded_setting_Inr [of name d least most s]
  by (auto simp: in_units_def split: sum.splits)

lemma CELCostLimit_positive: "parseCELCostLimit s = Inr v \<Longrightarrow> 0 < v"
  by (auto simp: parseCELCostLimit_def word_neq_0_conv split: if_splits sum.splits)

lemma parseCELCostLimit_show:
  assumes "0 < n" "n < 2 ^ 64"
  shows "parseCELCostLimit (show_int (int n)) = Inr (of_nat n)"
proof -
  have "(of_nat n :: 64 word) \<noteq> 0"
    using assms by (simp add: word_of_nat_eq_0_iff nat_dvd_not_less)
  then show ?thesis
    using assms parse_digits_show [OF assms(2)]
    by (simp add: parseCELCostLimit_def strconv_ParseUint_def show_int_def)
qed

lemmas loaders = LoadEvaluationConfig_def LoadRuleSyncWorkerConfig_def LoadCleanupWorkerConfig_def

lemma LoadEvaluationConfig_bounds:
  "LoadEvaluationConfig (Some cfg) True = Inr ev \<Longrightarrow>
     DefaultDecisionWhenNoMatch ev \<in> {DecisionAllow, DecisionDeny}
     \<and> 1 \<le> MaxRulesPerRequest ev \<and> MaxRulesPerRequest ev \<le> 100000"
  by (auto simp: loaders parseDefaultDecision_def parseMaxRulesPerRequest_def
      dest!: bounded_setting_Inr split: sum.splits if_splits)

lemma LoadRuleSyncWorkerConfig_bounds:
  assumes "LoadRuleSyncWorkerConfig (Some cfg) True = Inr sy"
  shows "Second_ns \<le> PollInterval sy" "PollInterval sy \<le> StalenessThreshold sy"
    "StalenessThreshold sy \<le> 3600 * Second_ns" "0 \<le> OverlapBuffer sy" "OverlapBuffer sy \<le> 60 * Second_ns"
  using assms
  by (auto simp: loaders parseRuleSyncPollInterval_def parseRuleSyncStalenessThreshold_def
      parseRuleSyncOverlapBuffer_def Second_ns_def dest!: setting_in_units split: sum.splits if_splits)

lemma LoadCleanupWorkerConfig_bounds:
  "LoadCleanupWorkerConfig (Some cfg) True = Inr (Some cl) \<Longrightarrow>
     Hour_ns \<le> CleanupInterval cl \<and> CleanupInterval cl \<le> 8760 * Hour_ns"
  by (auto simp: loaders parseCleanupIntervalHours_def Hour_ns_def dest!: setting_in_units
      split: sum.splits if_splits)

text \<open>What loads is accepted by the constructors.\<close>

lemma initSyncWorker_loads: "initSyncWorker cfg = Inr sy \<longleftrightarrow> LoadRuleSyncWorkerConfig (Some cfg) True = Inr sy"
proof (cases "LoadRuleSyncWorkerConfig (Some cfg) True")
  case (Inr c)
  from LoadRuleSyncWorkerConfig_bounds [OF Inr] show ?thesis
    by (simp add: initSyncWorker_def NewRuleSyncWorker_def Inr Second_ns_def)
qed (simp add: initSyncWorker_def)

lemma initCleanupWorker_loads:
  "initCleanupWorker cfg = Inr cl \<longleftrightarrow> LoadCleanupWorkerConfig (Some cfg) True = Inr cl"
proof (cases "LoadCleanupWorkerConfig (Some cfg) True")
  case (Inr c)
  then show ?thesis
    using LoadCleanupWorkerConfig_bounds [of cfg]
    by (cases c) (simp_all add: initCleanupWorker_def NewUsageCleanupWorker_def Inr Hour_ns_def)
qed (simp add: initCleanupWorker_def)

lemma initCELAdapter_limit:
  "initCELAdapter cfg env_error = Inr n \<Longrightarrow> parseCELCostLimit (CELCostLimit cfg) = Inr n \<and> 0 < n"
  using CELCostLimit_positive
  by (auto simp: initCELAdapter_def NewAdapter_def split: sum.splits option.splits if_splits)

subsection \<open>The clean-up\<close>

lemma delete_expired_loop_no_faults:
  "no_faults db \<Longrightarrow> no_faults (fst (delete_expired_loop ctx i n now db tot))"
proof (induction ctx i n now db tot rule: delete_expired_loop.induct)
  case (1 ctx i n now db tot)
  have "no_faults (consume_fault (consume_fault db))" "next_fault db = None" "next_fault (consume_fault db) = None"
    using 1(2) no_faults_consume no_faults_next by blast+
  with 1 show ?case
    by (auto simp: delete_expired_loop.simps [of ctx i n now db tot] no_faults_def Let_def split: option.splits)
qed

lemma RunOnce_rows:
  assumes "distinct (map u_ID (db_counters db))" "no_faults db" "RunOnce (\<lambda>_. None) now db = (db', r)"
  shows "db_counters db' = filter (\<lambda>c. \<not> row_expired now c) (db_counters db)" "no_faults db'"
    "r = Inr (length (filter (row_expired now) (db_counters db)))"
proof -
  obtain tot e where loop: "delete_expired_loop (\<lambda>_. None) 0 DefaultDeleteBatchSize now db 0 = (db', tot, e)"
    and r: "r = (case e of None \<Rightarrow> Inr tot | Some x \<Rightarrow> Inl (Wrap ''failed to delete expired counters'' x))"
    using assms(3) by (auto simp: RunOnce_def DeleteExpiredCounters_def split: prod.splits option.splits)
  have keeps: "filter (\<lambda>c. \<not> row_expired now c) (db_counters db')
      = filter (\<lambda>c. \<not> row_expired now c) (db_counters db)" "tot + length (db_counters db') = length (db_counters db)"
    using delete_expired_loop_keeps [OF assms(1) loop] by simp_all
  have clean: "e = None" "filter (row_expired now) (db_counters db') = []"
    using delete_expired_loop_clean [OF refl assms(2) _ loop] by (simp_all add: DefaultDeleteBatchSize_def)
  then have "filter (\<lambda>c. \<not> row_expired now c) (db_counters db') = db_counters db'"
    by (auto simp: filter_empty_conv filter_id_conv)
  with keeps(1) show rows: "db_counters db' = filter (\<lambda>c. \<not> row_expired now c) (db_counters db)" by simp
  show "no_faults db'"
    using delete_expired_loop_no_faults [OF assms(2), of "\<lambda>_. None" 0 DefaultDeleteBatchSize now 0] loop by simp
  show "r = Inr (length (filter (row_expired now) (db_counters db)))"
    using keeps(2) sum_length_filter_compl [of "row_expired now" "db_counters db"] by (simp add: r clean(1) rows)
qed

lemma cleanup_loop_rows:
  assumes "distinct (map u_ID (db_counters db))" "no_faults db" "\<forall>t \<in> set (first # ticks). fst t = (\<lambda>_. None)"
  shows "db_counters (cleanup_runLoop False first ticks db)
    = filter (\<lambda>c. \<forall>t \<in> set (first # ticks). \<not> row_expired (snd t) c) (db_counters db)"
proof -
  have "db_counters (fold runCleanupCycle ts d) = filter (\<lambda>c. \<forall>t \<in> set ts. \<not> row_expired (snd t) c) (db_counters d)"
    if "distinct (map u_ID (db_counters d))" "no_faults d" "\<forall>t \<in> set ts. fst t = (\<lambda>_. None)" for ts d
    using that
  proof (induction ts arbitrary: d)
    case (Cons t ts)
    obtain d' r where run: "RunOnce (\<lambda>_. None) (snd t) d = (d', r)" by (metis surj_pair)
    note rows = RunOnce_rows [OF Cons.prems(1,2) run]
    have "runCleanupCycle t d = d'" using Cons.prems(3) run by (simp add: runCleanupCycle_def)
    then show ?case
      using Cons.IH [of d'] Cons.prems rows by (simp add: distinct_map_filter filter_filter conj_commute)
  qed simp
  from this [OF assms] show ?thesis by (simp add: cleanup_runLoop_def)
qed

subsection \<open>A service that started\<close>

lemma InitServers_ok:
  assumes "InitServers cfg env L db = (db', Inr sv)"
  shows "initCoreInfra cfg env = None" "initCELAdapter cfg (env_CEL env) = Inr (sv_CostLimit sv)"
    "initSyncWorker cfg = Inr (sv_Sync sv)" "LoadEvaluationConfig (Some cfg) True = Inr (sv_Evaluation sv)"
    "initCleanupWorker cfg = Inr (sv_Cleanup sv)"
    "\<exists>n. WarmUp (env_start env) (env_loaded env) (env_finish env)
       (Adapter_Compile L (sv_CostLimit sv) (env_start env) (env_loaded env)) (env_ctx env)
       (Inr (map Some (sort_by newest_first (active_rows (db_rules db))))) NewRuleCache = (sv_Cache sv, n, None)"
  using assms
  by (auto simp: InitServers_def GetAllActiveRules_def with_db_def WarmUp_def Let_def
      split: option.splits sum.splits prod.splits if_splits)

lemma compile_all_compiles:
  "compile_all compile ctx (map Some rules) = Inr cached \<Longrightarrow> r \<in> set rules \<Longrightarrow> \<exists>p. compile (r_Expression r) = Inr p"
proof (induction rules arbitrary: ctx cached)
  case (Cons r' rules)
  then obtain p rest where "compile (r_Expression r') = Inr p"
    "compile_all compile (tl ctx) (map Some rules) = Inr rest"
    by (auto simp: bind_result_Inr_iff split: option.splits sum.splits)
  with Cons show ?case by auto
qed simp

text \<open>The cache of a started service holds the active rules, all compiled.\<close>

lemma started_cache:
  fixes L :: "('a, 'p, 'f) cel_library"
  defines "compile \<equiv> Adapter_Compile L"
  assumes "InitServers cfg env L db = (db', Inr sv)" "distinct (map r_ID (db_rules db))"
    "\<forall>r \<in> set (db_rules db). r_Status r = RuleStatusActive \<longrightarrow> r_DeletedAt r = None"
  shows "rc_ready (sv_Cache sv)" "rc_lastSyncTime (sv_Cache sv) = env_loaded env" "cache_wf (sv_Cache sv)"
    "sync_reachable (sv_Sync sv) (compile (sv_CostLimit sv) (env_start env) (env_loaded env))
       (runLoop_init (sv_Cache sv), db_rules db)"
    "r \<in> set (db_rules db) \<Longrightarrow> r_Status r = RuleStatusActive \<Longrightarrow>
       cache_rule (sv_Cache sv) (r_ID r) = Some r
       \<and> (\<exists>p. compile (sv_CostLimit sv) (env_start env) (env_loaded env) (r_Expression r) = Inr p)"
proof -
  let ?rs = "sort_by newest_first (active_rows (db_rules db))"
  let ?compile = "compile (sv_CostLimit sv) (env_start env) (env_loaded env)"
  obtain n where up: "WarmUp (env_start env) (env_loaded env) (env_finish env) ?compile (env_ctx env)
      (Inr (map Some ?rs)) NewRuleCache = (sv_Cache sv, n, None)"
    using InitServers_ok(6) [OF assms(2)] unfolding compile_def by blast
  have d: "distinct (map r_ID ?rs)"
    using assms(3) by (simp add: distinct_map_sort_by active_rows_def distinct_map_filter)
  note cache = WarmUp_ok [OF up d]
  show "rc_ready (sv_Cache sv)" "rc_lastSyncTime (sv_Cache sv) = env_loaded env" "cache_wf (sv_Cache sv)"
    using cache(1-3) by blast+
  show "sync_reachable (sv_Sync sv) ?compile (runLoop_init (sv_Cache sv), db_rules db)"
    using sync_reachable.start [OF assms(3,4) up] by blast
  assume r: "r \<in> set (db_rules db)" "r_Status r = RuleStatusActive"
  then have mem: "r \<in> set ?rs" using assms(4) by (simp add: active_rows_def)
  obtain cached where "compile_all ?compile (env_ctx env) (map Some ?rs) = Inr cached"
    using up by (auto simp: WarmUp_def split: sum.splits)
  from compile_all_compiles [OF this mem] find_by_id [OF d mem]
  show "cache_rule (sv_Cache sv) (r_ID r) = Some r \<and> (\<exists>p. ?compile (r_Expression r) = Inr p)"
    by (simp add: cache(4))
qed

end
