(* ===== verification/ServiceProperties.thy ===== *)
theory ServiceProperties
  imports HttpProperties HttpAccess StartupFacts
begin

text \<open>
  The properties of the running service: who reaches a handler, what holds of a service that started, what
  its readiness probe reports. The first definitions are the settings of the instances.
\<close>

definition env_config0 :: Config where
  "env_config0 = \<lparr>APIKey = ''secret'', APIKeyEnabled = True, APIKeyOnlyValidation = False,
     PluginAuthAddress = [], PluginAuthEnabled = False, CORSAllowedOrigins = [], CELCostLimit = [],
     cfg_DefaultDecisionWhenNoMatch = ''DENY'', cfg_MaxRulesPerRequest = [], CleanupWorkerEnabled = True,
     CleanupIntervalHours = ''8760'', RuleSyncPollIntervalSeconds = ''3600'',
     RuleSyncStalenessThresholdSeconds = ''3600'', RuleSyncOverlapBufferSeconds = ''0''\<rparr>"

definition startup0 :: startup_env where
  "startup0 = \<lparr>env_Logger = None, env_Telemetry = None, env_Migrations = None, env_Connect = None,
     env_CEL = None, env_start = 1, env_loaded = 2, env_finish = 3, env_ctx = []\<rparr>"

definition request1 :: "string \<Rightarrow> request" where
  "request1 k = \<lparr>rq_Method = ''POST'', rq_Path = ''/v1/validations'',
     rq_Get = (\<lambda>h. if h = HeaderAPIKey then k else []), rq_IP = [], rq_ClientIP = None\<rparr>"

text \<open>A route is open to requests without credentials: nobody is asked for any, or a deployment with the
  plugin asks those who post a validation for a key, and keys are disabled.\<close>

definition open_route :: "Config \<Rightarrow> route \<Rightarrow> bool" where
  "open_route cfg r = (\<not> APIKeyEnabled cfg
     \<and> (\<not> PluginAuthEnabled cfg \<or> APIKeyOnlyValidation cfg \<and> rt_endpoint r = ep_Validate))"

text \<open>C38. A request that shows neither the key nor anything the plugin accepts is answered before its handler
  runs, with 401 or the plugin's answer, and the state stays as it is, unless the route is open; and with the
  settings that the start accepts, the right key opens every route that keys guard. The settings accept the
  deployment with the plugin and the flag \<^verbatim>\<open>API_KEY_ENABLED_ONLY_VALIDATION\<close> but without keys: there
  the posting of validations is open to everybody (the witness).\<close>

theorem credentials_guard_routes:
  fixes A c Authorize cfg r
  assumes "r \<in> set (v1_routes (APIKeyOnlyValidation cfg))" "config_guard cfg = Some g"
  defines "c' \<equiv> with_client_ip A c"
    and "by_key \<equiv> \<not> PluginAuthEnabled cfg \<or> APIKeyOnlyValidation cfg \<and> rt_endpoint r = ep_Validate"
    and "plugin \<equiv> Authorize ''tracer'' (rt_resource r) (rt_method r) (with_client_ip A c)"
  shows "(plugin \<noteq> None \<and> (rq_Get c HeaderAPIKey = [] \<or> rq_Get c HeaderAPIKey \<noteq> APIKey cfg) \<longrightarrow>
      serve_route A False Authorize g handlers r c s =
        (if open_route cfg r then handlers (rt_endpoint r) c' s
         else (s, if by_key then key_refused else the plugin)))
    \<and> (ValidateAuthConfig cfg = None \<and> by_key \<and> APIKeyEnabled cfg \<and> rq_Get c HeaderAPIKey = APIKey cfg \<longrightarrow>
      serve_route A False Authorize g handlers r c s = handlers (rt_endpoint r) c' s)"
proof -
  have g: "g = \<lparr>guard_APIKey = APIKey cfg, guard_APIKeyEnabled = APIKeyEnabled cfg,
     guard_PluginAuthEnabled = PluginAuthEnabled cfg, guard_AppName = ''tracer''\<rparr>"
    using assms(2) by (simp add: config_guard_def NewAuthGuard_def)
  have "rq_Get (with_client_ip A c) = rq_Get c" by (simp add: with_client_ip_def)
  then show ?thesis
    by (auto simp: serve_route_outcome forced_route [OF assms(1)] guard_refusal_def key_accepted_def
        open_route_def ValidateAuthConfig_def g c'_def by_key_def plugin_def split: if_splits)
qed

theorem credentials_guard_routes_witness:
  "\<exists>r g. r \<in> set (v1_routes False) \<and> config_guard env_config0 = Some g
    \<and> serve_route audit1 False (\<lambda>_ _ _ _. Some key_refused) g (\<lambda>e c s. (Suc s, NoContent)) r (request1 ''guess'') 5
      = (5, key_refused)
    \<and> serve_route audit1 False (\<lambda>_ _ _ _. Some key_refused) g (\<lambda>e c s. (Suc s, NoContent)) r (request1 ''secret'') 5
      = (6, NoContent)"
proof -
  let ?r = "route ''POST'' ''/validations'' ''validations'' ''post'' False ep_Validate"
  have r: "?r \<in> set (v1_routes (APIKeyOnlyValidation env_config0))"
    by (simp add: v1_routes_def env_config0_def)
  obtain g where g: "config_guard env_config0 = Some g"
    by (simp add: config_guard_def NewAuthGuard_def)
  note guarded = credentials_guard_routes [OF r g, where A = audit1 and Authorize = "\<lambda>_ _ _ _. Some key_refused"
      and handlers = "\<lambda>e c s. (Suc s, NoContent)" and s = 5]
  have "serve_route audit1 False (\<lambda>_ _ _ _. Some key_refused) g (\<lambda>e c s. (Suc s, NoContent)) ?r (request1 ''guess'') 5
      = (5, key_refused)"
    using guarded [of "request1 ''guess''"]
    by (simp add: request1_def env_config0_def open_route_def route_def)
  moreover have "serve_route audit1 False (\<lambda>_ _ _ _. Some key_refused) g (\<lambda>e c s. (Suc s, NoContent)) ?r
      (request1 ''secret'') 5 = (6, NoContent)"
    using guarded [of "request1 ''secret''"]
    by (simp add: request1_def env_config0_def open_route_def route_def ValidateAuthConfig_def)
  ultimately show ?thesis using r g by (intro exI [of _ ?r] exI [of _ g]) (simp add: env_config0_def)
qed

text \<open>C39. What holds of a service that started, on a table with distinct identifiers whose active rules are not
  deleted: its settings are within their bounds (the decision without a matching rule is never REVIEW, at most
  100000 rules are evaluated, the workers have intervals that their constructors accept), every active rule
  compiled within the cost limit and is in its cache, and the synchronization starts in its first state. So an
  active rule that no longer compiles, after a lower cost limit for instance, keeps the service from starting.\<close>

theorem started_service:
  fixes L :: "('a, 'p, 'f) cel_library"
  assumes "InitServers cfg env L db = (db', Inr sv)" "distinct (map r_ID (db_rules db))"
    "\<forall>r \<in> set (db_rules db). r_Status r = RuleStatusActive \<longrightarrow> r_DeletedAt r = None"
  defines "compile \<equiv> Adapter_Compile L (sv_CostLimit sv) (env_start env) (env_loaded env)"
  shows "ValidateAuthConfig cfg = None \<and> 0 < sv_CostLimit sv
    \<and> DefaultDecisionWhenNoMatch (sv_Evaluation sv) \<in> {DecisionAllow, DecisionDeny}
    \<and> 1 \<le> MaxRulesPerRequest (sv_Evaluation sv) \<and> MaxRulesPerRequest (sv_Evaluation sv) \<le> 100000
    \<and> Second_ns \<le> PollInterval (sv_Sync sv) \<and> PollInterval (sv_Sync sv) \<le> StalenessThreshold (sv_Sync sv)
    \<and> StalenessThreshold (sv_Sync sv) \<le> 3600 * Second_ns
    \<and> 0 \<le> OverlapBuffer (sv_Sync sv) \<and> OverlapBuffer (sv_Sync sv) \<le> 60 * Second_ns
    \<and> (\<forall>cl. sv_Cleanup sv = Some cl \<longrightarrow> Hour_ns \<le> CleanupInterval cl \<and> CleanupInterval cl \<le> 8760 * Hour_ns)
    \<and> rc_ready (sv_Cache sv)
    \<and> (\<forall>r \<in> set (db_rules db). r_Status r = RuleStatusActive \<longrightarrow>
         cache_rule (sv_Cache sv) (r_ID r) = Some r \<and> (\<exists>p. compile (r_Expression r) = Inr p))
    \<and> sync_reachable (sv_Sync sv) compile (runLoop_init (sv_Cache sv), db_rules db)"
proof -
  note started = InitServers_ok [OF assms(1)]
  have "ValidateAuthConfig cfg = None" "0 < sv_CostLimit sv"
    using started(1,2) initCELAdapter_limit by (auto simp: initCoreInfra_def split: option.splits)
  moreover have "\<forall>cl. sv_Cleanup sv = Some cl \<longrightarrow> Hour_ns \<le> CleanupInterval cl \<and> CleanupInterval cl \<le> 8760 * Hour_ns"
    using started(5) LoadCleanupWorkerConfig_bounds by (auto simp: initCleanupWorker_loads)
  ultimately show ?thesis
    using LoadRuleSyncWorkerConfig_bounds [of cfg "sv_Sync sv"] LoadEvaluationConfig_bounds [OF started(4)]
      started_cache [OF assms(1-3)] started(3)
    by (simp add: initSyncWorker_loads compile_def)
qed

lemma settings0: "strconv_Atoi ''3600'' = Inr 3600" "strconv_Atoi ''8760'' = Inr 8760" "strconv_Atoi ''0'' = Inr 0"
  by (simp_all add: strconv_Atoi_def is_digit_def)

lemma sync_config0: "LoadRuleSyncWorkerConfig (Some env_config0) True
  = Inr \<lparr>PollInterval = 3600 * Second_ns, StalenessThreshold = 3600 * Second_ns, OverlapBuffer = 0\<rparr>"
  by (simp add: LoadRuleSyncWorkerConfig_def parseRuleSyncPollInterval_def parseRuleSyncStalenessThreshold_def
      parseRuleSyncOverlapBuffer_def bounded_setting_def in_units_def settings0 env_config0_def)

theorem started_service_witness:
  "\<exists>db' sv. InitServers env_config0 startup0 lib0 rules_db0 = (db', Inr sv)
    \<and> cache_rule (sv_Cache sv) 1 = Some cached_rule0 \<and> sv_CostLimit sv = 10000"
proof -
  have sync: "initSyncWorker env_config0
      = Inr \<lparr>PollInterval = 3600 * Second_ns, StalenessThreshold = 3600 * Second_ns, OverlapBuffer = 0\<rparr>"
    by (simp add: initSyncWorker_loads sync_config0)
  have ev: "LoadEvaluationConfig (Some env_config0) True
      = Inr \<lparr>DefaultDecisionWhenNoMatch = DecisionDeny, MaxRulesPerRequest = 1000\<rparr>"
    by (simp add: LoadEvaluationConfig_def parseDefaultDecision_def parseMaxRulesPerRequest_def
        bounded_setting_def env_config0_def)
  have cleanup: "initCleanupWorker env_config0 = Inr (Some \<lparr>CleanupInterval = 8760 * Hour_ns\<rparr>)"
    by (simp add: initCleanupWorker_loads LoadCleanupWorkerConfig_def parseCleanupIntervalHours_def
        bounded_setting_def in_units_def settings0 env_config0_def)
  have cel: "initCELAdapter env_config0 None = Inr 10000"
    by (simp add: initCELAdapter_def parseCELCostLimit_def NewAdapter_def env_config0_def)
  have core: "initCoreInfra env_config0 startup0 = None" "initPostgresConnection startup0 = None" "env_CEL startup0 = None"
    "env_ctx startup0 = []"
    by (simp_all add: initCoreInfra_def initPostgresConnection_def startup0_def ValidateAuthConfig_def
        ValidateAccessManagerConfig_def env_config0_def)
  have rules: "GetAllActiveRules rules_db0 = (rules_db0, Inr [cached_rule0])"
    by (simp add: GetAllActiveRules_def with_db_def next_fault_def consume_fault_def rules_db0_def active_rows_def
        cached_rule0_def sort_by_def)
  have compiled: "\<exists>p. Adapter_Compile lib0 10000 t u (r_Expression cached_rule0) = Inr p" for t u
    by (simp add: Adapter_Compile_def Environment_Compile_def lib0_def cached_rule0_def)
  obtain p where p: "Adapter_Compile lib0 10000 (env_start startup0) (env_loaded startup0)
      (r_Expression cached_rule0) = Inr p" using compiled by blast
  obtain sv where sv: "InitServers env_config0 startup0 lib0 rules_db0 = (rules_db0, Inr sv)" "sv_CostLimit sv = 10000"
    by (simp add: InitServers_def core cel sync ev cleanup rules WarmUp_def ctx_Err_def p)
  have "distinct (map r_ID (db_rules rules_db0))"
    "\<forall>r \<in> set (db_rules rules_db0). r_Status r = RuleStatusActive \<longrightarrow> r_DeletedAt r = None"
    by (simp_all add: rules_db0_def cached_rule0_def)
  from started_service [OF sv(1) this] have "cache_rule (sv_Cache sv) (r_ID cached_rule0) = Some cached_rule0"
    by (simp add: rules_db0_def) (simp add: cached_rule0_def)
  then show ?thesis using sv by (auto simp: cached_rule0_def)
qed

text \<open>C40. What the readiness probe reports between two cycles of the synchronization, when the first succeeded
  at the time \<open>t1\<close> and the second is not yet due: 503 exactly when the database does not answer; otherwise
  READY exactly within five minutes of \<open>t1\<close>, and DEGRADED after them. With an interval of at most five
  minutes that is READY throughout; but the settings accept an interval of up to an hour, and then a service
  whose cycles all succeed reports DEGRADED most of the time (the witness). The threshold of the settings
  plays no part.\<close>

theorem readiness_between_cycles:
  fixes provider
  assumes "LoadRuleSyncWorkerConfig (Some cfg) True = Inr sy"
    "cache_wf (w_cache w)" "enumerates order (w_cache w)" "rc_ready (w_cache w)"
    and "breaker (delta_query rows (w_lastSync w - OverlapBuffer sy))
      = delta_query rows (w_lastSync w - OverlapBuffer sy)"
    and cycle: "runSyncCycle sy compile breaker (delta_query rows) order t1 t2 w = (w', out)"
    and due: "0 < t1" "t1 \<le> now" "now \<le> t1 + PollInterval sy"
  defines "probe \<equiv> ReadinessHandler provider DefaultCacheStalenessThreshold now (Some (w_cache w'))"
  shows "(hk_Status (checkPostgres provider) \<noteq> ''OK'' \<longrightarrow> status_of probe = 503)
    \<and> (hk_Status (checkPostgres provider) = ''OK'' \<longrightarrow> (\<exists>checks. probe = OK
         \<lparr>rr_Status = (if now - t1 \<le> 5 * Minute_ns then ''READY'' else ''DEGRADED''), rr_Checks = checks\<rparr>))
    \<and> (PollInterval sy \<le> 5 * Minute_ns \<longrightarrow> now - t1 \<le> 5 * Minute_ns)"
proof -
  have cache: "rc_ready (w_cache w')" "rc_lastSyncTime (w_cache w') = t1"
    using assms(4) runSyncCycle_ok [OF assms(2,3,5) cycle]
    by (simp_all add: changed_cache_def ApplyChanges_def Let_def)
  have "now - t1 \<le> 3600 * Second_ns"
    using LoadRuleSyncWorkerConfig_bounds [OF assms(1)] due(3) by linarith
  then have "Staleness now (w_cache w') = now - t1"
    using due(1,2) by (simp add: Staleness_def cache time_IsZero_def time_Sub_def MaxInt64_def Second_ns_def)
  then show ?thesis
    using due(3) by (auto simp: probe_def readiness_iff cache DefaultCacheStalenessThreshold_def)
qed

theorem readiness_between_cycles_witness:
  "\<exists>w' out checks. runSyncCycle \<lparr>PollInterval = 3600 * Second_ns, StalenessThreshold = 3600 * Second_ns,
       OverlapBuffer = 0\<rparr> (cel_Compile cel0) id (delta_query [deny_2]) [2] 7 7 (runLoop_init (cache0 [deny_2])) = (w', out)
    \<and> ReadinessHandler (Some \<lparr>dbh_IsConnected = True, dbh_GetDB_ok = True, dbh_Ping_ok = True\<rparr>)
        DefaultCacheStalenessThreshold (7 + 301 * Second_ns) (Some (w_cache w'))
      = OK \<lparr>rr_Status = ''DEGRADED'', rr_Checks = checks\<rparr>"
proof -
  let ?sy = "\<lparr>PollInterval = 3600 * Second_ns, StalenessThreshold = 3600 * Second_ns, OverlapBuffer = 0\<rparr>"
  let ?p = "Some \<lparr>dbh_IsConnected = True, dbh_GetDB_ok = True, dbh_Ping_ok = True\<rparr>"
  obtain w' out where run: "runSyncCycle ?sy (cel_Compile cel0) id (delta_query [deny_2]) [2] 7 7
      (runLoop_init (cache0 [deny_2])) = (w', out)" by (metis surj_pair)
  have ok: "hk_Status (checkPostgres ?p) = ''OK''" by (simp add: checkPostgres_def)
  have times: "\<not> 7 + 301 * Second_ns - 7 \<le> 5 * Minute_ns" by (simp add: Second_ns_def Minute_ns_def)
  have "cache_wf (w_cache (runLoop_init (cache0 [deny_2])))" "rc_ready (w_cache (runLoop_init (cache0 [deny_2])))"
    by (simp_all add: init0 cache0_def SetRules_wf) (simp add: MarkReady_def)
  from readiness_between_cycles [OF sync_config0 this(1) _ this(2) _ run, where now = "7 + 301 * Second_ns" and provider = ?p] ok times
  show ?thesis using run enumerates0 by (auto simp: init0 Second_ns_def)
qed

end
