(* ===== verification/EntityRows.thy ===== *)
theory EntityRows
  imports HttpLimits StringArrays
begin

text \<open>
  The rows of the tables of limits, rules and usage counters with their conversions from and to the entities
  (\<^verbatim>\<open>*_postgresql_model.go\<close> of \<^verbatim>\<open>internal/adapters/postgres\<close>). A nullable column is an option; the column
  of scopes holds what decoding its JSON yields, \<^term>\<open>None\<close> for an empty text. That every entity the services
  write is read back as it was is what allows the theories of these tables to keep entities as rows.
\<close>

definition RuleStatus_of :: "string \<Rightarrow> RuleStatus" where
  "RuleStatus_of s =
     (if s = ''DRAFT'' then RuleStatusDraft else if s = ''ACTIVE'' then RuleStatusActive
      else if s = ''INACTIVE'' then RuleStatusInactive else if s = ''DELETED'' then RuleStatusDeleted
      else RuleStatusOther s)"

text \<open>Scopes of a row; \<^verbatim>\<open>null\<close> and the empty text are no scopes.\<close>

definition row_scopes :: "(err, Scope list) result option \<Rightarrow> (err, Scope list) result" where
  "row_scopes column =
     (case column of
        None \<Rightarrow> Inr []
      | Some (Inl e) \<Rightarrow> Inl (Wrap ''failed to unmarshal scopes'' e)
      | Some (Inr ss) \<Rightarrow> Inr ss)"

subsection \<open>Limits\<close>

record 'd LimitPostgreSQLModel =
  lm_ID :: string
  lm_Name :: string
  lm_Description :: "string option"
  lm_LimitType :: string
  lm_MaxAmount :: 'd
  lm_Currency :: string
  lm_Scopes :: "(err, Scope list) result option"
  lm_Status :: string
  lm_ResetAt :: "gotime option"
  lm_ActiveTimeStart :: "string option"
  lm_ActiveTimeEnd :: "string option"
  lm_CustomStartDate :: "gotime option"
  lm_CustomEndDate :: "gotime option"
  lm_CreatedAt :: gotime
  lm_UpdatedAt :: gotime
  lm_DeletedAt :: "gotime option"

definition row_time :: "string \<Rightarrow> string option \<Rightarrow> (err, TimeOfDay option) result" where
  "row_time what column =
     (case column of
        None \<Rightarrow> Inr None
      | Some s \<Rightarrow> (case NewTimeOfDay s of Inl e \<Rightarrow> Inl (Wrap what e) | Inr t \<Rightarrow> Inr (Some t)))"

definition LimitModel_ToEntity ::
  "(string \<Rightarrow> (err, uuid) result) \<Rightarrow> 'd LimitPostgreSQLModel \<Rightarrow> (err, 'd Limit) result" where
  "LimitModel_ToEntity uuid_Parse m =
     (case uuid_Parse (lm_ID m) of
        Inl e \<Rightarrow> Inl (Wrap ''invalid Limit ID'' e)
      | Inr i \<Rightarrow>
     (case row_scopes (lm_Scopes m) of
        Inl e \<Rightarrow> Inl e
      | Inr scopes \<Rightarrow>
          let limitType = LimitType_of (lm_LimitType m); status = LimitStatus_of (lm_Status m)
          in if \<not> LimitType_IsValid limitType then Inl (External ''invalid limit type in database'')
          else if \<not> LimitStatus_IsValid status then Inl (External ''invalid limit status in database'')
          else
     (case row_time ''invalid active_time_start in database'' (lm_ActiveTimeStart m) of
        Inl e \<Rightarrow> Inl e
      | Inr activeTimeStart \<Rightarrow>
     (case row_time ''invalid active_time_end in database'' (lm_ActiveTimeEnd m) of
        Inl e \<Rightarrow> Inl e
      | Inr activeTimeEnd \<Rightarrow>
          Inr \<lparr>l_ID = i, l_Name = lm_Name m, l_Description = lm_Description m, l_LimitType = limitType,
               l_MaxAmount = lm_MaxAmount m, l_Currency = lm_Currency m, l_Scopes = scopes, l_Status = status,
               l_ActiveTimeStart = activeTimeStart, l_ActiveTimeEnd = activeTimeEnd,
               l_CustomStartDate = lm_CustomStartDate m, l_CustomEndDate = lm_CustomEndDate m,
               l_ResetAt = lm_ResetAt m, l_CreatedAt = lm_CreatedAt m, l_UpdatedAt = lm_UpdatedAt m,
               l_DeletedAt = lm_DeletedAt m\<rparr>))))"

definition LimitModel_FromEntity ::
  "ext \<Rightarrow> 'd Limit option \<Rightarrow> (err, 'd LimitPostgreSQLModel) result" where
  "LimitModel_FromEntity X entity =
     (case entity of
        None \<Rightarrow> Inl (External ''limit entity cannot be nil'')
      | Some l \<Rightarrow>
          Inr \<lparr>lm_ID = x_uuid_string X (l_ID l), lm_Name = l_Name l, lm_Description = l_Description l,
               lm_LimitType = LimitType_String (l_LimitType l), lm_MaxAmount = l_MaxAmount l,
               lm_Currency = l_Currency l, lm_Scopes = Some (Inr (l_Scopes l)),
               lm_Status = LimitStatus_text (l_Status l), lm_ResetAt = l_ResetAt l,
               lm_ActiveTimeStart = map_option TimeOfDay_String (l_ActiveTimeStart l),
               lm_ActiveTimeEnd = map_option TimeOfDay_String (l_ActiveTimeEnd l),
               lm_CustomStartDate = l_CustomStartDate l, lm_CustomEndDate = l_CustomEndDate l,
               lm_CreatedAt = l_CreatedAt l, lm_UpdatedAt = l_UpdatedAt l, lm_DeletedAt = l_DeletedAt l\<rparr>)"

subsection \<open>Rules\<close>

record RulePostgreSQLModel =
  rm_ID :: string
  rm_Name :: string
  rm_Description :: "string option"
  rm_Expression :: string
  rm_Action :: string
  rm_Scopes :: "(err, Scope list) result option"
  rm_Status :: string
  rm_ContextID :: "string option"
  rm_CreatedAt :: gotime
  rm_UpdatedAt :: gotime
  rm_ActivatedAt :: "gotime option"
  rm_DeactivatedAt :: "gotime option"
  rm_DeletedAt :: "gotime option"

definition RuleModel_ToEntity ::
  "(string \<Rightarrow> (err, uuid) result) \<Rightarrow> RulePostgreSQLModel \<Rightarrow> (err, 'p Rule) result" where
  "RuleModel_ToEntity uuid_Parse m =
     (case uuid_Parse (rm_ID m) of
        Inl e \<Rightarrow> Inl (Wrap ''invalid Rule ID'' e)
      | Inr i \<Rightarrow>
     (case row_scopes (rm_Scopes m) of
        Inl e \<Rightarrow> Inl e
      | Inr scopes \<Rightarrow>
          Inr \<lparr>r_ID = i, r_Name = rm_Name m, r_Description = rm_Description m,
               r_Expression = rm_Expression m, r_Action = Decision_of (rm_Action m), r_Scopes = scopes,
               r_Status = RuleStatus_of (rm_Status m), r_CreatedAt = rm_CreatedAt m,
               r_UpdatedAt = rm_UpdatedAt m, r_ActivatedAt = rm_ActivatedAt m,
               r_DeactivatedAt = rm_DeactivatedAt m, r_DeletedAt = rm_DeletedAt m,
               r_CompiledProgram = None\<rparr>))"

definition RuleModel_FromEntity :: "ext \<Rightarrow> 'p Rule option \<Rightarrow> (err, RulePostgreSQLModel) result" where
  "RuleModel_FromEntity X entity =
     (case entity of
        None \<Rightarrow> Inl (External ''rule entity cannot be nil'')
      | Some r \<Rightarrow>
          Inr \<lparr>rm_ID = x_uuid_string X (r_ID r), rm_Name = r_Name r, rm_Description = r_Description r,
               rm_Expression = r_Expression r, rm_Action = Decision_String (r_Action r),
               rm_Scopes = Some (Inr (r_Scopes r)), rm_Status = RuleStatus_String (r_Status r),
               rm_ContextID = context_id X r, rm_CreatedAt = r_CreatedAt r, rm_UpdatedAt = r_UpdatedAt r,
               rm_ActivatedAt = r_ActivatedAt r, rm_DeactivatedAt = r_DeactivatedAt r,
               rm_DeletedAt = r_DeletedAt r\<rparr>)"

subsection \<open>Usage counters\<close>

record 'd UsageCounterPostgreSQLModel =
  um_ID :: string
  um_LimitID :: string
  um_ScopeKey :: string
  um_PeriodKey :: string
  um_CurrentUsage :: 'd
  um_LastUpdatedAt :: gotime

definition UsageCounterModel_ToEntity ::
  "(string \<Rightarrow> (err, uuid) result) \<Rightarrow> 'd UsageCounterPostgreSQLModel \<Rightarrow> (err, 'd UsageCounter) result" where
  "UsageCounterModel_ToEntity uuid_Parse m =
     (case uuid_Parse (um_ID m) of
        Inl e \<Rightarrow> Inl (Wrap ''invalid UsageCounter ID'' e)
      | Inr i \<Rightarrow>
     (case uuid_Parse (um_LimitID m) of
        Inl e \<Rightarrow> Inl (Wrap ''invalid LimitID'' e)
      | Inr limitID \<Rightarrow>
          Inr \<lparr>u_ID = i, u_LimitID = limitID, u_ScopeKey = um_ScopeKey m, u_PeriodKey = um_PeriodKey m,
               u_CurrentUsage = um_CurrentUsage m, u_LastUpdatedAt = um_LastUpdatedAt m\<rparr>))"

definition UsageCounterModel_FromEntity ::
  "ext \<Rightarrow> 'd UsageCounter option \<Rightarrow> (err, 'd UsageCounterPostgreSQLModel) result" where
  "UsageCounterModel_FromEntity X entity =
     (case entity of
        None \<Rightarrow> Inl (External ''usage counter entity cannot be nil'')
      | Some u \<Rightarrow>
          Inr \<lparr>um_ID = x_uuid_string X (u_ID u), um_LimitID = x_uuid_string X (u_LimitID u),
               um_ScopeKey = u_ScopeKey u, um_PeriodKey = u_PeriodKey u,
               um_CurrentUsage = u_CurrentUsage u, um_LastUpdatedAt = u_LastUpdatedAt u\<rparr>)"

subsection \<open>What is written is read back\<close>

text \<open>The contract of a table that holds entities of type \<open>'e\<close> as rows of type \<open>'m\<close>, for the entities that
  satisfy \<open>accepts\<close>: writing succeeds, and reading what was written gives what the row holds of the entity.\<close>

locale entity_rows =
  fixes from_entity :: "'e option \<Rightarrow> (err, 'm) result" and to_entity :: "'m \<Rightarrow> (err, 'e) result"
    and accepts :: "'e \<Rightarrow> bool" and held :: "'e \<Rightarrow> 'e"
  assumes written: "\<exists>m. from_entity (Some e) = Inr m"
    and read_back: "accepts e \<Longrightarrow> from_entity (Some e) = Inr m \<Longrightarrow> to_entity m = Inr (held e)"
begin

lemma row_inj: "accepts e \<Longrightarrow> accepts e' \<Longrightarrow> from_entity (Some e) = from_entity (Some e') \<Longrightarrow> held e = held e'"
  by (metis Inr_inject read_back written)

end

definition limit_row_ok :: "'d Limit \<Rightarrow> bool" where
  "limit_row_ok l = (LimitType_IsValid (l_LimitType l) \<and> LimitStatus_IsValid (l_Status l)
     \<and> pred_option tod_ok (l_ActiveTimeStart l) \<and> pred_option tod_ok (l_ActiveTimeEnd l))"

definition rule_row_ok :: "'p Rule \<Rightarrow> bool" where
  "rule_row_ok r = (Decision_IsValid (r_Action r) \<and> RuleStatus_IsValid (r_Status r))"

lemma LimitType_of_String: "LimitType_IsValid t \<Longrightarrow> LimitType_of (LimitType_String t) = t"
  by (cases t) (simp_all add: LimitType_of_def LimitType_String_def)

lemma LimitStatus_of_text: "LimitStatus_IsValid t \<Longrightarrow> LimitStatus_of (LimitStatus_text t) = t"
  by (cases t) (simp_all add: LimitStatus_of_def)

lemma RuleStatus_of_String: "RuleStatus_IsValid t \<Longrightarrow> RuleStatus_of (RuleStatus_String t) = t"
  by (cases t) (simp_all add: RuleStatus_of_def)

lemma row_time_String: "pred_option tod_ok t \<Longrightarrow> row_time what (map_option TimeOfDay_String t) = Inr t"
  by (cases t) (simp_all add: row_time_def NewTimeOfDay_String)

text \<open>The three tables, when the printer and the parser of UUIDs fit together.\<close>

interpretation limit_rows: entity_rows "LimitModel_FromEntity X" "LimitModel_ToEntity uuid_Parse"
  "\<lambda>l. uuid_codec X uuid_Parse \<and> limit_row_ok l" "\<lambda>l. l" for X uuid_Parse
  by unfold_locales
    (auto simp: LimitModel_FromEntity_def LimitModel_ToEntity_def row_scopes_def limit_row_ok_def uuid_codec_def
       LimitType_of_String LimitStatus_of_text row_time_String)

interpretation rule_rows: entity_rows "RuleModel_FromEntity X" "RuleModel_ToEntity uuid_Parse"
  "\<lambda>r. uuid_codec X uuid_Parse \<and> rule_row_ok r" "\<lambda>r. r\<lparr>r_CompiledProgram := None\<rparr>" for X uuid_Parse
  by unfold_locales
    (auto simp: RuleModel_FromEntity_def RuleModel_ToEntity_def row_scopes_def rule_row_ok_def uuid_codec_def
       RuleStatus_of_String Decision_of_String)

interpretation counter_rows: entity_rows "UsageCounterModel_FromEntity X" "UsageCounterModel_ToEntity uuid_Parse"
  "\<lambda>u. uuid_codec X uuid_Parse" "\<lambda>u. u" for X uuid_Parse
  by unfold_locales
    (auto simp: UsageCounterModel_FromEntity_def UsageCounterModel_ToEntity_def uuid_codec_def)

text \<open>Every rule that satisfies the invariant of rules, as all rules made and changed by the code do, suits its
  row, so it is read back as it was, but for its compiled program.\<close>

lemma rule_ok_row: "rule_ok r \<Longrightarrow> rule_row_ok r"
  using rule_ok_valid by (simp add: rule_ok_def rule_fields_def rule_row_ok_def)

lemma rule_row_read_back:
  assumes "uuid_codec X uuid_Parse" "rule_ok r" "RuleModel_FromEntity X (Some r) = Inr m"
  shows "RuleModel_ToEntity uuid_Parse m = Inr (r\<lparr>r_CompiledProgram := None\<rparr>)"
  using assms rule_ok_row by (blast intro: rule_rows.read_back)

text \<open>What a row of a limit is read back as has a valid type, a valid status and valid times of day: other rows are
  refused. The rows of rules are not checked in this way.\<close>

lemma limit_row_refused:
  assumes "LimitModel_ToEntity uuid_Parse m = Inr l"
  shows "LimitType_IsValid (l_LimitType l)" "LimitStatus_IsValid (l_Status l)"
    "pred_option tod_ok (l_ActiveTimeStart l)" "pred_option tod_ok (l_ActiveTimeEnd l)"
  using assms
  by (auto simp: LimitModel_ToEntity_def row_time_def Let_def dest: NewTimeOfDay_ok
      split: sum.splits option.splits if_splits)

end
