(* ===== verification/Spec2Isabelle.thy ===== *)
theory Spec2Isabelle
  imports ListProperties LimitReadProperties ServiceProperties EntityRows
begin

text \<open>
  Verification of Tracer (\<^verbatim>\<open>src/\<close>), a service that decides financial transactions. A validation request
  is evaluated against the active rules (expressions of a library language), then against the spending
  limits in effect, whose counters it moves; the answer is stored as a validation record and as an event
  of a hash-chained audit table. Rules and limits have a life cycle and are changed by commands; each
  instance serves the rules from a cache that a worker keeps in step with the database.

  \<^bold>\<open>The theories\<close>, in the order in which they build on each other (paths under \<^verbatim>\<open>src/\<close>).

  \<^item> \<open>Prelude\<close>: results (\<open>Inl\<close> the error), UUIDs as 128-bit words, the parts of \<^verbatim>\<open>strings\<close> that the
    code uses, the record \<open>ext\<close> of functions that belong to libraries. \<open>Statuses\<close>: the two status
    enumerations and transition tables (\<^verbatim>\<open>pkg/model/rule_status.go\<close>, \<^verbatim>\<open>limit.go\<close>) with a locale for such
    state machines. \<open>GoErrors\<close>: \<^verbatim>\<open>pkg/constant/errors.go\<close>, wrapping and \<^verbatim>\<open>errors.Is\<close>. \<open>GoTime\<close>: the part
    of \<^verbatim>\<open>time\<close> that is used, over the civil calendar. \<open>Scopes\<close>, \<open>TimesOfDay\<close>, \<open>Limits\<close>, \<open>Periods\<close>: the
    entities and keys of \<^verbatim>\<open>pkg/model\<close> that limits need.
  \<^item> \<open>UsageCounters\<close>, \<open>LimitStore\<close>: the tables of counters and limits
    (\<^verbatim>\<open>internal/adapters/postgres/usage_counter_repository.go\<close>, \<^verbatim>\<open>limit_repository.go\<close>). \<open>Paging\<close> and
    \<open>Keyset\<close>: what it means to follow the cursors of a list to its end, as a locale with the laws of a
    paged source, and its instance for keyset pagination in any strict order; \<open>LimitListFacts\<close>: the four sort
    columns of the list of limits.
  \<^item> \<open>LimitChecker\<close>, \<open>LimitCheckerFacts\<close>: \<^verbatim>\<open>internal/services/query/limit_checker.go\<close>.
  \<^item> \<open>Rules\<close>, \<open>Requests\<close>, \<open>RuleEvaluation\<close>: \<^verbatim>\<open>pkg/model/rule.go\<close>, \<^verbatim>\<open>validation.go\<close>, the decision maker and
    the evaluators of \<^verbatim>\<open>internal/services/query\<close>. \<open>RuleStore\<close>: \<^verbatim>\<open>rule_repository.go\<close>. \<open>RuleCache\<close>: the cache
    and its warm-up (\<^verbatim>\<open>internal/services/cache\<close>). \<open>RuleSync\<close>, \<open>RuleSyncFacts\<close>: the synchronization worker.
  \<^item> \<open>StringArrays\<close>, \<open>Sanitize\<close>: PostgreSQL arrays (\<^verbatim>\<open>internal/adapters/postgres/types.go\<close>) and the masking
    of sensitive metadata (\<^verbatim>\<open>pkg/sanitize/metadata.go\<close>). \<open>AuditEvents\<close>, \<open>AuditStore\<close>, \<open>AuditFacts\<close>,
    \<open>AuditList\<close>, \<open>AuditListFacts\<close>: audit events, their table, the trigger and the verification of the
    chain (\<^verbatim>\<open>migrations/functions\<close>), the list. \<open>Validations\<close>, \<open>ValidationList\<close>: the validation records.
  \<^item> \<open>ValidationService\<close>, with \<open>ValidationFacts\<close>, \<open>ValidationOutcome\<close>, \<open>ValidationChain\<close>: the composition of
    all this in \<^verbatim>\<open>internal/services/validation_service.go\<close>. \<open>RuleCommands\<close>, \<open>LimitCommands\<close> with their
    facts: \<^verbatim>\<open>internal/services/command\<close>. \<open>AuditTrail\<close>: record and event of one validation side by side.
    \<open>RuleList\<close>, \<open>RuleListFacts\<close>: the paged list of rules and the queries of \<^verbatim>\<open>internal/services/query\<close>.
  \<^item> \<open>HttpBase\<close>, \<open>HttpLimits\<close>, \<open>HttpRules\<close>, \<open>HttpValidations\<close>, \<open>HttpAudit\<close>: the endpoints
    (\<^verbatim>\<open>internal/adapters/http/in\<close>): inputs with their checks and messages, handlers, responses.
    \<open>HttpListFacts\<close>: following the cursors of a list as a client; \<open>HttpErrorFacts\<close>: what is answered to the
    creation of a rule.
  \<^item> \<open>CelAdapter\<close>, \<open>CelFacts\<close>: the adapter to the expression language (\<^verbatim>\<open>internal/adapters/cel\<close>), which provides
    the interface of the evaluator and of the commands, and what follows from its errors. \<open>Startup\<close>,
    \<open>StartupFacts\<close>: settings, clean-up worker, start of the service (\<^verbatim>\<open>internal/bootstrap/config.go\<close>,
    \<^verbatim>\<open>internal/services/workers\<close>). \<open>HttpAccess\<close>: the middleware with its contract, the guard of each route,
    the readiness probe. \<open>EntityRows\<close>: the rows of limits, rules and counters, with a locale for the round
    trip between entities and rows.
  \<^item> The properties: \<open>LimitProperties\<close>, \<open>LimitReadProperties\<close>, \<open>RuleProperties\<close>, \<open>ValidationProperties\<close>,
    \<open>CommandProperties\<close>, \<open>ListProperties\<close>, \<open>HttpProperties\<close>, \<open>ServiceProperties\<close>, each with an instance where its hypotheses hold.

  \<^bold>\<open>State.\<close> The database is one record that each table extends: \<open>counter_db\<close> (usage counters), \<open>limit_db\<close>,
  \<open>rule_db\<close>, \<open>audit_db\<close>, \<open>tracer_db\<close> (validation records). It carries the list of failures that the driver
  will report, one entry for each connection, statement or commit, so that every error path can be run; an
  empty list (\<open>no_faults\<close>) is a healthy database. Statements are steps: unique indexes, checks, the atomic
  upsert of a counter and the trigger of the audit table are part of the statement that meets them. A
  transaction works on a copy, and a failed commit is a rollback. What other requests do between two
  statements of an operation is an argument of it (\<open>others\<close>), or an explicit sequence of steps (the
  increments of counters, the worker's cycles, the two steps of an audit insert). The cache is a map with a
  ready flag and the time of its last synchronization; its lock makes each operation one step.

  \<^bold>\<open>Conventions.\<close> A time is an \<open>int\<close>, nanoseconds in UTC from the zero time of Go; durations saturate as
  \<^verbatim>\<open>time.Duration\<close> does where that matters. A decimal is an element of an ordered abelian group. Clocks,
  new identifiers, the context and the iteration order of a map are arguments. Texts of wrapped errors keep
  the message and drop interpolated values. JSON columns hold decoded values, a cursor text is what decoding
  makes of it. The times of a validation record are cut to microseconds by its columns (\<open>timestamptz\<close>); those of
  the other tables are kept in nanoseconds, and the time that the trigger hashes is a text that tells times
  apart (\<open>chain_texts\<close>), as the text of microseconds does for stored times. Logging, tracing, metrics and timeouts are left out.

  \<^bold>\<open>Parameters\<close> stand for code that is not in the repository: the expression language (\<^verbatim>\<open>cel-go\<close>) and the
  conversion of decimals to floating point, the circuit breaker, the router and the authorization plugin,
  SHA-256, the texts and parsers of UUIDs and timestamps, case mapping beyond ASCII, the collation and
  \<^verbatim>\<open>ILIKE\<close> of the database, the parsing of network addresses. Where a property needs their documented
  behaviour it is a named hypothesis (\<open>uuid_codec\<close>, \<open>upper_stable\<close>, \<open>chain_texts\<close>, \<open>runs_tags\<close> of the struct
  validator, the collation being a strict order), and its witness uses concrete functions.

  \<^bold>\<open>What is shown.\<close> Limits: concurrent increments never pass the maximum, the checker agrees with a reference
  verdict for each limit and moves exactly the counters of the limits that apply, when a counter becomes
  eligible for the clean-up (for an extended custom period too early) and that the clean-up removes exactly the
  expired ones, complete pages for every sort (C1 to C9). Rules: their invariant, atomic
  update, the decision by precedence, evaluation through the cache, which decisions are possible when rules are
  cut off, convergence of the synchronization and the change it can miss, the constraints of the table (C10 to C17). Validations: the decision of a whole request,
  all or nothing on the database, the answer to a repeated request, round trips of records, masking and what it does not
  look into, the hash chain and what it does not protect (C18 to C28). Commands: the cache stays exact, the lost update between
  concurrent commands, limits stay valid (C29 to C31). Lists: complete pages, and the agreement of the audit
  trail with the records (C32, C33). HTTP: which lists a client can read to their end, the answers to the
  creation of a rule, amounts beyond floating point (C34 to C37). The service: who reaches a handler, what holds
  once it has started, what its readiness probe reports (C38 to C40). Beside these stand theorems that are not
  numbered: the life cycle of a rule, the scope filter of the database, that failed commands change nothing.

  \<^bold>\<open>Bounds and fuel.\<close> The loops over pages follow cursors with fuel: one more than the number of rows is enough,
  because every page but the last holds a row that no other page holds (\<open>Paging\<close>). The clean-up loop and the
  loops over strings recurse on a measure. UUIDs are words of 128 bits; counters are decimals without bound, as
  in the code.

  \<^bold>\<open>Not modelled.\<close> The HTTP framework (routing, decoding of bodies and queries, CORS, telemetry), the circuit
  breaker (goroutines around a library), the constructors that only compare dependencies with nil, the process
  (signals, server, reading the environment), generated documentation, migration tooling and test support.
\<close>

end
